(* ===== verification/Prelude.thy ===== *)
theory Prelude
  imports Main "HOL-Library.Word" "HOL-Library.Sublist"
    "HOL-Library.Product_Lexorder" "HOL-Library.List_Lexorder" "HOL-Library.Char_ord"
begin

text \<open>
  Shared notions of the development.

  \<^item> Python strings are HOL strings whose characters stand for the code points
    U+0000 to U+00FF; the character classes below are exact on that range
    (\<open>py_isspace\<close> for \<open>str.isspace\<close> and the regex class for white space, \<open>is_word\<close>
    for the regex word class, \<open>py_lower\<close> for \<open>str.lower\<close>).  \<open>bytes\<close> values are strings too,
    one character per byte.
  \<^item> Times are integers counting microseconds, the resolution of \<open>datetime\<close>.
  \<^item> A UUID is a 128 bit word; \<open>str(uuid)\<close> and \<open>UUID(text)\<close> are \<open>uuid_str\<close> and
    \<open>uuid_parse\<close>.
  \<^item> A database table is the list of its rows; \<open>SELECT .. WHERE\<close>, \<open>UPDATE\<close> and \<open>DELETE\<close> are
    \<open>filter\<close>/\<open>find\<close>, \<open>update_where\<close> and \<open>delete_where\<close>.
\<close>

named_theorems table_simps \<open>equations for reading a table after an update\<close>
named_theorems py_simps \<open>equations for the Python string functions\<close>

type_synonym uuid = "128 word"
type_synonym time = int
type_synonym bytes = string

abbreviation seconds :: "int \<Rightarrow> time" where
  "seconds n \<equiv> n * 1000000"

text \<open>\<open>int(datetime.timestamp())\<close>: whole seconds of a non-negative time.\<close>

definition timestamp :: "time \<Rightarrow> int" where
  "timestamp t = t div 1000000"

section \<open>Characters and strings\<close>

definition code_point :: "char \<Rightarrow> nat" where
  "code_point c = of_char c"

definition py_isspace :: "char \<Rightarrow> bool" where
  "py_isspace c = (let n = code_point c in
     (9 \<le> n \<and> n \<le> 13) \<or> (28 \<le> n \<and> n \<le> 32) \<or> n = 133 \<or> n = 160)"

definition is_digit :: "char \<Rightarrow> bool" where
  "is_digit c = (let n = code_point c in 48 \<le> n \<and> n \<le> 57)"

text \<open>\<open>str.isdigit\<close> also accepts the superscripts.\<close>

definition py_isdigit :: "char \<Rightarrow> bool" where
  "py_isdigit c = (is_digit c \<or> code_point c \<in> {178, 179, 185})"

definition is_upper_az :: "char \<Rightarrow> bool" where
  "is_upper_az c = (let n = code_point c in 65 \<le> n \<and> n \<le> 90)"

definition is_lower_az :: "char \<Rightarrow> bool" where
  "is_lower_az c = (let n = code_point c in 97 \<le> n \<and> n \<le> 122)"

definition is_word :: "char \<Rightarrow> bool" where
  "is_word c = (is_digit c \<or> is_upper_az c \<or> is_lower_az c \<or> c = CHR ''_'' \<or>
     (let n = code_point c in
        n \<in> {170, 178, 179, 181, 185, 186, 188, 189, 190} \<or>
        (192 \<le> n \<and> n \<noteq> 215 \<and> n \<noteq> 247)))"

definition lower_char :: "char \<Rightarrow> char" where
  "lower_char c = (let n = code_point c in
     if (65 \<le> n \<and> n \<le> 90) \<or> (192 \<le> n \<and> n \<le> 222 \<and> n \<noteq> 215) then char_of (n + 32) else c)"

definition py_lower :: "string \<Rightarrow> string" where
  "py_lower s = map lower_char s"

definition py_lstrip :: "string \<Rightarrow> string" where
  "py_lstrip s = dropWhile py_isspace s"

definition py_rstrip :: "string \<Rightarrow> string" where
  "py_rstrip s = rev (dropWhile py_isspace (rev s))"

definition py_strip :: "string \<Rightarrow> string" where
  "py_strip s = py_rstrip (py_lstrip s)"

text \<open>\<open>s.rstrip("/")\<close> and its like: strip one character from the right.\<close>

definition py_rstrip_char :: "char \<Rightarrow> string \<Rightarrow> string" where
  "py_rstrip_char c s = rev (dropWhile (\<lambda>x. x = c) (rev s))"

definition py_startswith :: "string \<Rightarrow> string \<Rightarrow> bool" where
  "py_startswith s p = (take (length p) s = p)"

definition py_endswith :: "string \<Rightarrow> string \<Rightarrow> bool" where
  "py_endswith s p = py_startswith (rev s) (rev p)"

text \<open>\<open>p in s\<close>.\<close>

fun py_contains :: "string \<Rightarrow> string \<Rightarrow> bool" where
  "py_contains p [] = (p = [])"
| "py_contains p (c # s) = (py_startswith (c # s) p \<or> py_contains p s)"

text \<open>\<open>s.split(c)\<close> for a one character separator.\<close>

fun py_split :: "char \<Rightarrow> string \<Rightarrow> string list" where
  "py_split c [] = [[]]"
| "py_split c (x # s) =
     (if x = c then [] # py_split c s
      else (case py_split c s of [] \<Rightarrow> [[x]] | w # ws \<Rightarrow> (x # w) # ws))"

text \<open>\<open>c.join(words)\<close>.\<close>

fun py_join :: "string \<Rightarrow> string list \<Rightarrow> string" where
  "py_join c [] = []"
| "py_join c [w] = w"
| "py_join c (w # ws) = w @ c @ py_join c ws"

text \<open>
  \<open>s.split(c, 1)\<close> and \<open>s.rsplit(c, 1)\<close> where \<open>c in s\<close>: the parts before and after the first
  (last) separator.
\<close>

definition split_first :: "char \<Rightarrow> string \<Rightarrow> string \<times> string" where
  "split_first c s = (takeWhile (\<lambda>x. x \<noteq> c) s, drop 1 (dropWhile (\<lambda>x. x \<noteq> c) s))"

definition split_last :: "char \<Rightarrow> string \<Rightarrow> string \<times> string" where
  "split_last c s = (let (b, a) = split_first c (rev s) in (rev a, rev b))"

text \<open>\<open>len(s.encode("utf-8"))\<close>: one byte below U+0080, two from there to U+00FF.\<close>

definition utf8_length :: "string \<Rightarrow> nat" where
  "utf8_length s = sum_list (map (\<lambda>c. if code_point c < 128 then 1 else 2) s)"

lemma length_le_utf8_length: "length s \<le> utf8_length s"
  by (induction s) (auto simp: utf8_length_def)

lemma utf8_length_le: "utf8_length s \<le> 2 * length s"
  by (induction s) (auto simp: utf8_length_def)

subsection \<open>Facts about stripping and lower case\<close>

lemma dropWhile_fixpoint: "s = [] \<or> \<not> P (hd s) \<Longrightarrow> dropWhile P s = s"
  by (cases s) auto

lemma dropWhile_hd: "dropWhile P s = [] \<or> \<not> P (hd (dropWhile P s))"
  using hd_dropWhile [of P s] by blast

lemma py_lstrip_idem [py_simps]: "py_lstrip (py_lstrip s) = py_lstrip s"
  using dropWhile_hd [of py_isspace s] by (auto simp: py_lstrip_def intro: dropWhile_fixpoint)

lemma py_rstrip_idem [py_simps]: "py_rstrip (py_rstrip s) = py_rstrip s"
  using py_lstrip_idem [of "rev s"] by (simp add: py_rstrip_def py_lstrip_def)

text \<open>Stripping on the right keeps the first character of what is left.\<close>

lemma py_rstrip_prefix: "prefix (py_rstrip s) s"
  unfolding py_rstrip_def suffix_to_prefix [symmetric]
  by (metis rev_rev_ident suffix_dropWhile suffix_to_prefix)

lemma py_rstrip_hd: "py_rstrip s \<noteq> [] \<Longrightarrow> hd (py_rstrip s) = hd s"
  using py_rstrip_prefix [of s] by (metis hd_append2 prefixE)

lemma py_lstrip_rstrip_fix:
  assumes "py_lstrip s = s"
  shows "py_lstrip (py_rstrip s) = py_rstrip s"
proof (cases "py_rstrip s = []")
  case True
  then show ?thesis by (simp add: py_lstrip_def)
next
  case False
  from assms dropWhile_hd [of py_isspace s] have "s = [] \<or> \<not> py_isspace (hd s)"
    by (simp add: py_lstrip_def)
  with False have "\<not> py_isspace (hd (py_rstrip s))"
    by (auto simp: py_rstrip_hd) (simp add: py_rstrip_def)
  then show ?thesis by (simp add: py_lstrip_def dropWhile_fixpoint)
qed

lemma py_strip_idem [py_simps]: "py_strip (py_strip s) = py_strip s"
  by (simp add: py_strip_def py_lstrip_rstrip_fix py_lstrip_idem py_rstrip_idem)

lemma code_point_less: "code_point c < 256"
  by (simp add: code_point_def)

lemma lower_char_idem [py_simps]: "lower_char (lower_char c) = lower_char c"
  using code_point_less [of c]
  by (auto simp: lower_char_def code_point_def Let_def take_bit_eq_mod)

lemma lower_char_isspace [py_simps]: "py_isspace (lower_char c) = py_isspace c"
  using code_point_less [of c]
  by (auto simp: lower_char_def py_isspace_def code_point_def Let_def take_bit_eq_mod)

lemma py_lower_idem [py_simps]: "py_lower (py_lower s) = py_lower s"
  by (simp add: py_lower_def py_simps comp_def)

lemma dropWhile_isspace_lower:
  "dropWhile py_isspace (map lower_char s) = map lower_char (dropWhile py_isspace s)"
  by (simp add: dropWhile_map comp_def py_simps)

lemma py_lower_strip [py_simps]: "py_lower (py_strip s) = py_strip (py_lower s)"
  by (simp add: py_lower_def py_strip_def py_lstrip_def py_rstrip_def
      dropWhile_isspace_lower rev_map)

subsection \<open>Splitting and joining\<close>

lemma py_split_not_Nil [simp]: "py_split c s \<noteq> []"
  by (induction s) (auto split: list.splits)

lemma py_join_Cons: "ws \<noteq> [] \<Longrightarrow> py_join c (w # ws) = w @ c @ py_join c ws"
  by (cases ws) auto

lemma py_join_split [py_simps]: "py_join [c] (py_split c s) = s"
proof (induction s)
  case Nil
  then show ?case by simp
next
  case (Cons x s)
  obtain w ws where ws: "py_split c s = w # ws" by (cases "py_split c s") auto
  with Cons.IH show ?case by (cases ws) auto
qed

lemma py_split_no_sep: "w \<in> set (py_split c s) \<Longrightarrow> c \<notin> set w"
  by (induction s arbitrary: w) (auto split: if_splits list.splits)

lemma py_split_append:
  "c \<notin> set w \<Longrightarrow> py_split c (w @ c # s) = w # py_split c s"
  by (induction w) auto

lemma py_split_single: "c \<notin> set w \<Longrightarrow> py_split c w = [w]"
  by (induction w) auto

lemma py_split_join:
  "ws \<noteq> [] \<Longrightarrow> \<forall>w\<in>set ws. c \<notin> set w \<Longrightarrow> py_split c (py_join [c] ws) = ws"
proof (induction ws rule: induct_list012)
  case (3 w v ws)
  then show ?case by (simp add: py_split_append)
qed (auto simp: py_split_single)

lemma split_first_append:
  "c \<in> set s \<Longrightarrow> split_first c s = (a, b) \<Longrightarrow> s = a @ c # b \<and> c \<notin> set a"
proof -
  assume c: "c \<in> set s" and ab: "split_first c s = (a, b)"
  have "dropWhile (\<lambda>x. x \<noteq> c) s \<noteq> []" using c by (simp add: dropWhile_eq_Nil_conv)
  moreover from this have "hd (dropWhile (\<lambda>x. x \<noteq> c) s) = c"
    using hd_dropWhile [of "\<lambda>x. x \<noteq> c" s] by auto
  ultimately have d: "dropWhile (\<lambda>x. x \<noteq> c) s = c # b"
    using ab by (cases "dropWhile (\<lambda>x. x \<noteq> c) s") (auto simp: split_first_def)
  have "s = takeWhile (\<lambda>x. x \<noteq> c) s @ dropWhile (\<lambda>x. x \<noteq> c) s" by simp
  then show "s = a @ c # b \<and> c \<notin> set a"
    using d ab by (auto simp: split_first_def dest: set_takeWhileD)
qed

lemma split_last_append:
  "c \<in> set s \<Longrightarrow> split_last c s = (a, b) \<Longrightarrow> s = a @ c # b \<and> c \<notin> set b"
proof -
  assume c: "c \<in> set s" and ab: "split_last c s = (a, b)"
  then have "split_first c (rev s) = (rev b, rev a)"
    by (auto simp: split_last_def Let_def split: prod.splits)
  with c split_first_append [of c "rev s" "rev b" "rev a"]
  have "rev s = rev b @ c # rev a \<and> c \<notin> set (rev b)" by simp
  then have "s = a @ c # b" by (metis append_Cons append_Nil append_assoc rev.simps(2) rev_append rev_rev_ident)
  with \<open>rev s = rev b @ c # rev a \<and> c \<notin> set (rev b)\<close>
  show "s = a @ c # b \<and> c \<notin> set b" by simp
qed

subsection \<open>Decimal numbers\<close>

definition digit_char :: "nat \<Rightarrow> char" where
  "digit_char n = char_of (48 + n)"

fun nat_str :: "nat \<Rightarrow> string" where
  "nat_str n = (if n < 10 then [digit_char n] else nat_str (n div 10) @ [digit_char (n mod 10)])"

declare nat_str.simps [simp del]

text \<open>\<open>str(n)\<close> of an integer.\<close>

definition py_str :: "int \<Rightarrow> string" where
  "py_str i = (if i < 0 then CHR ''-'' # nat_str (nat (- i)) else nat_str (nat i))"

text \<open>
  \<open>int(text)\<close>: white space around, an optional sign, digits with single underscores between
  them; \<open>None\<close> stands for the \<open>ValueError\<close>.
\<close>

fun digit_groups :: "bool \<Rightarrow> nat \<Rightarrow> string \<Rightarrow> nat option" where
  "digit_groups p a [] = (if p then Some a else None)"
| "digit_groups p a (c # s) =
     (if is_digit c then digit_groups True (10 * a + (code_point c - 48)) s
      else if c = CHR ''_'' \<and> p then digit_groups False a s
      else None)"

definition py_int :: "string \<Rightarrow> int option" where
  "py_int s = (case py_strip s of
       [] \<Rightarrow> None
     | c # r \<Rightarrow>
         if c = CHR ''-'' then map_option (\<lambda>n. - int n) (digit_groups False 0 r)
         else if c = CHR ''+'' then map_option int (digit_groups False 0 r)
         else map_option int (digit_groups False 0 (c # r)))"

lemma code_point_digit_char: "n < 10 \<Longrightarrow> code_point (digit_char n) = 48 + n"
  by (simp add: code_point_def digit_char_def)

lemma is_digit_digit_char [simp]: "n < 10 \<Longrightarrow> is_digit (digit_char n)"
  by (simp add: is_digit_def code_point_digit_char)

lemma nat_str_digits: "c \<in> set (nat_str n) \<Longrightarrow> is_digit c"
proof (induction n rule: nat_str.induct)
  case (1 n)
  then show ?case
    by (cases "n < 10") (auto simp: nat_str.simps [of n])
qed

lemma nat_str_not_Nil [simp]: "nat_str n \<noteq> []"
  by (simp add: nat_str.simps [of n])

lemma digit_groups_nat_str:
  "digit_groups p a (nat_str n @ s) = digit_groups True (a * 10 ^ length (nat_str n) + n) s"
proof (induction n arbitrary: p a s rule: nat_str.induct)
  case (1 n)
  show ?case
  proof (cases "n < 10")
    case True
    then show ?thesis
      by (simp add: nat_str.simps [of n] code_point_digit_char mult.commute)
  next
    case False
    have "10 * (a * 10 ^ length (nat_str (n div 10)) + n div 10) + n mod 10
        = a * (10 * 10 ^ length (nat_str (n div 10))) + n"
      by (simp add: algebra_simps)
    with False "1.IH" show ?thesis
      by (simp add: nat_str.simps [of n] code_point_digit_char algebra_simps)
  qed
qed

lemma py_strip_no_space: "\<forall>c\<in>set s. \<not> py_isspace c \<Longrightarrow> py_strip s = s"
proof -
  assume a: "\<forall>c\<in>set s. \<not> py_isspace c"
  then have "dropWhile py_isspace s = s" by (cases s) auto
  moreover have "dropWhile py_isspace (rev s) = rev s"
    using a by (intro dropWhile_fixpoint) (metis hd_in_set set_rev)
  ultimately show ?thesis by (simp add: py_strip_def py_lstrip_def py_rstrip_def)
qed

lemma digit_not_space: "is_digit c \<Longrightarrow> \<not> py_isspace c"
  by (auto simp: is_digit_def py_isspace_def Let_def)

lemma py_int_nat_str: "py_int (nat_str n) = Some (int n)"
proof -
  have "py_strip (nat_str n) = nat_str n"
    by (intro py_strip_no_space ballI digit_not_space nat_str_digits)
  moreover obtain c r where cr: "nat_str n = c # r" by (cases "nat_str n") auto
  moreover from cr nat_str_digits [of c n] have "is_digit c" by simp
  then have "c \<noteq> CHR ''-''" "c \<noteq> CHR ''+''" by (auto simp: is_digit_def code_point_def)
  moreover have "digit_groups False 0 (nat_str n) = Some n"
    using digit_groups_nat_str [of False 0 n "[]"] by simp
  ultimately show ?thesis by (simp add: py_int_def del: digit_groups.simps)
qed

lemma py_int_py_str [py_simps]: "0 \<le> i \<Longrightarrow> py_int (py_str i) = Some i"
  by (simp add: py_str_def py_int_nat_str)

subsection \<open>UUIDs\<close>

definition hex_char :: "nat \<Rightarrow> char" where
  "hex_char n = (if n < 10 then char_of (48 + n) else char_of (87 + n))"

fun hex_str :: "nat \<Rightarrow> nat \<Rightarrow> string" where
  "hex_str 0 n = []"
| "hex_str (Suc k) n = hex_str k (n div 16) @ [hex_char (n mod 16)]"

definition uuid_str :: "uuid \<Rightarrow> string" where
  "uuid_str u = (let h = hex_str 32 (unat u) in
     take 8 h @ ''-'' @ take 4 (drop 8 h) @ ''-'' @ take 4 (drop 12 h) @ ''-'' @
     take 4 (drop 16 h) @ ''-'' @ drop 20 h)"

definition hex_val :: "char \<Rightarrow> nat option" where
  "hex_val c = (let n = code_point c in
     if 48 \<le> n \<and> n \<le> 57 then Some (n - 48)
     else if 97 \<le> n \<and> n \<le> 102 then Some (n - 87)
     else if 65 \<le> n \<and> n \<le> 70 then Some (n - 55)
     else None)"

fun hex_parse :: "nat \<Rightarrow> string \<Rightarrow> nat option" where
  "hex_parse a [] = Some a"
| "hex_parse a (c # s) = (case hex_val c of None \<Rightarrow> None | Some d \<Rightarrow> hex_parse (16 * a + d) s)"

text \<open>\<open>s.replace(p, "")\<close> for a non-empty \<open>p\<close>.\<close>

function py_remove :: "string \<Rightarrow> string \<Rightarrow> string" where
  "py_remove p [] = []"
| "py_remove p (c # s) =
     (if p \<noteq> [] \<and> py_startswith (c # s) p then py_remove p (drop (length p) (c # s))
      else c # py_remove p s)"
  by pat_completeness auto
termination
  by (relation "measure (\<lambda>(p, s). length s)") auto

text \<open>
  \<open>UUID(text)\<close> of the standard library: prefixes, braces and hyphens are dropped, 32
  hexadecimal digits must be left.  The sign, prefix and underscores that \<open>int(text, 16)\<close> would
  tolerate among those 32 characters are not accepted here; no text the application stores has them.
\<close>

definition uuid_parse :: "string \<Rightarrow> uuid option" where
  "uuid_parse s = (let
     h = py_remove ''uuid:'' (py_remove ''urn:'' s);
     b = (\<lambda>c. c = CHR ''{'' \<or> c = CHR ''}'');
     h = rev (dropWhile b (rev (dropWhile b h)));
     h = filter (\<lambda>c. c \<noteq> CHR ''-'') h
   in if length h \<noteq> 32 then None else map_option of_nat (hex_parse 0 h))"

lemma hex_val_hex_char: "n < 16 \<Longrightarrow> hex_val (hex_char n) = Some n"
  by (auto simp: hex_val_def hex_char_def code_point_def)

lemma hex_parse_hex_str:
  "hex_parse a (hex_str k n @ s) = hex_parse (a * 16 ^ k + n mod 16 ^ k) s"
proof (induction k arbitrary: n s)
  case (Suc k)
  have eq: "16 * (a * 16 ^ k + n div 16 mod 16 ^ k) + n mod 16
      = a * 16 ^ Suc k + n mod 16 ^ Suc k"
    by (simp add: algebra_simps mod_mult2_eq)
  have "hex_parse a (hex_str (Suc k) n @ s)
      = hex_parse (16 * (a * 16 ^ k + n div 16 mod 16 ^ k) + n mod 16) s"
    by (simp add: Suc.IH hex_val_hex_char)
  then show ?case by (simp only: eq)
qed simp

lemma length_hex_str [simp]: "length (hex_str k n) = k"
  by (induction k arbitrary: n) auto

lemma hex_str_chars: "c \<in> set (hex_str k n) \<Longrightarrow> \<exists>d<16. c = hex_char d"
proof (induction k arbitrary: n)
  case (Suc k)
  then show ?case by (auto intro: exI [of _ "n mod 16"])
qed simp

lemma hex_char_not: "d < 16 \<Longrightarrow> hex_char d \<notin> {CHR ''-'', CHR ''u'', CHR ''{'', CHR ''}''}"
proof -
  assume "d < 16"
  then have "code_point (hex_char d) \<notin> {45, 117, 123, 125}"
    by (auto simp: hex_char_def code_point_def)
  then show ?thesis by (auto simp: code_point_def)
qed

lemma hex_str_not: "c \<in> set (hex_str k n) \<Longrightarrow> c \<notin> {CHR ''-'', CHR ''u'', CHR ''{'', CHR ''}''}"
  using hex_str_chars hex_char_not by metis

lemma py_remove_absent: "p \<noteq> [] \<Longrightarrow> hd p \<notin> set s \<Longrightarrow> py_remove p s = s"
  by (induction s) (auto simp: py_startswith_def take_Cons' neq_Nil_conv)

lemma set_uuid_str: "set (uuid_str u) \<subseteq> insert (CHR ''-'') (set (hex_str 32 (unat u)))"
  by (auto simp: uuid_str_def Let_def dest: in_set_takeD in_set_dropD)

lemma filter_uuid_str:
  "filter (\<lambda>c. c \<noteq> CHR ''-'') (uuid_str u) = hex_str 32 (unat u)"
proof -
  let ?h = "hex_str 32 (unat u)"
  have f: "filter (\<lambda>c. c \<noteq> CHR ''-'') h = h" if "set h \<subseteq> set ?h" for h
    using that hex_str_not by (intro filter_True) blast
  have s: "take 4 (drop k ?h) @ drop (4 + k) ?h = drop k ?h" for k
    using append_take_drop_id [of 4 "drop k ?h"] by simp
  have "?h = take 8 ?h @ take 4 (drop 8 ?h) @ take 4 (drop 12 ?h) @ take 4 (drop 16 ?h) @ drop 20 ?h"
    using s [of 8] s [of 12] s [of 16] append_take_drop_id [of 8 ?h] by simp
  then show ?thesis
    by (simp add: uuid_str_def Let_def f set_take_subset set_drop_subset
        subset_trans [OF set_take_subset set_drop_subset])
qed

text \<open>Parsing what \<open>str\<close> printed gives the UUID back.\<close>

lemma uuid_parse_str [simp]: "uuid_parse (uuid_str u) = Some u"
proof -
  let ?b = "\<lambda>c. c = CHR ''{'' \<or> c = CHR ''}''"
  have no: "c \<in> set (uuid_str u) \<Longrightarrow> c \<notin> {CHR ''u'', CHR ''{'', CHR ''}''}" for c
    using set_uuid_str [of u] hex_str_not [of c 32 "unat u"] by auto
  have keep: "dropWhile ?b s = s" if "set s \<subseteq> set (uuid_str u)" for s
    using that no by (intro dropWhile_fixpoint) (metis hd_in_set insert_iff subsetD)
  have "py_remove ''urn:'' (uuid_str u) = uuid_str u" "py_remove ''uuid:'' (uuid_str u) = uuid_str u"
    by (rule py_remove_absent; use no in fastforce)+
  moreover have "hex_parse 0 (hex_str 32 (unat u)) = Some (unat u mod 16 ^ 32)"
    using hex_parse_hex_str [of 0 32 "unat u" "[]"] by simp
  moreover have "unat u < 2 ^ LENGTH(128)" by (rule unsigned_less)
  then have "unat u mod 16 ^ 32 = unat u" by simp
  ultimately show ?thesis
    by (simp add: uuid_parse_def Let_def keep filter_uuid_str)
qed

lemma uuid_str_inj [simp]: "uuid_str u = uuid_str v \<longleftrightarrow> u = v"
  by (metis option.inject uuid_parse_str)

section \<open>Tables\<close>

definition update_where :: "('a \<Rightarrow> bool) \<Rightarrow> ('a \<Rightarrow> 'a) \<Rightarrow> 'a list \<Rightarrow> 'a list" where
  "update_where P f t = map (\<lambda>r. if P r then f r else r) t"

definition delete_where :: "('a \<Rightarrow> bool) \<Rightarrow> 'a list \<Rightarrow> 'a list" where
  "delete_where P t = filter (\<lambda>r. \<not> P r) t"

definition count_where :: "('a \<Rightarrow> bool) \<Rightarrow> 'a list \<Rightarrow> nat" where
  "count_where P t = length (filter P t)"

text \<open>\<open>.offset((page - 1) * limit).limit(limit)\<close>.\<close>

definition page_of :: "int \<Rightarrow> int \<Rightarrow> 'a list \<Rightarrow> 'a list" where
  "page_of page limit t = take (nat limit) (drop (nat ((page - 1) * limit)) t)"

text \<open>\<open>UNIQUE\<close>: the values of the column are pairwise different.\<close>

definition unique_on :: "('a \<Rightarrow> 'b) \<Rightarrow> 'a list \<Rightarrow> bool" where
  "unique_on k t = distinct (map k t)"

text \<open>\<open>UNIQUE\<close> on a nullable column: nulls never clash.\<close>

definition unique_on_some :: "('a \<Rightarrow> 'b option) \<Rightarrow> 'a list \<Rightarrow> bool" where
  "unique_on_some k t = distinct (List.map_filter k t)"

text \<open>Sort keys of \<open>ORDER BY .. DESC NULLS LAST\<close> and \<open>ORDER BY .. NULLS LAST\<close>.\<close>

definition desc_nulls_last :: "int option \<Rightarrow> nat \<times> int" where
  "desc_nulls_last v = (case v of Some t \<Rightarrow> (0, - t) | None \<Rightarrow> (1, 0))"

lemma set_update_where:
  "x \<in> set (update_where P f t) \<longleftrightarrow> (\<exists>r\<in>set t. x = (if P r then f r else r))"
  by (auto simp: update_where_def)

lemma length_update_where [simp]: "length (update_where P f t) = length t"
  by (simp add: update_where_def)

lemma update_where_none [table_simps]: "\<forall>r\<in>set t. \<not> P r \<Longrightarrow> update_where P f t = t"
  by (simp add: update_where_def map_idI)

lemma map_update_where [table_simps]:
  "(\<And>r. P r \<Longrightarrow> k (f r) = k r) \<Longrightarrow> map k (update_where P f t) = map k t"
  by (auto simp: update_where_def)

lemma unique_on_update_where [table_simps]:
  "(\<And>r. P r \<Longrightarrow> k (f r) = k r) \<Longrightarrow> unique_on k (update_where P f t) = unique_on k t"
  by (simp add: unique_on_def map_update_where)

lemma unique_on_delete_where: "unique_on k t \<Longrightarrow> unique_on k (delete_where P t)"
  by (simp add: unique_on_def delete_where_def distinct_map_filter)

lemma unique_on_append [table_simps]:
  "unique_on k (t @ [r]) \<longleftrightarrow> unique_on k t \<and> k r \<notin> k ` set t"
  by (auto simp: unique_on_def)

lemma unique_on_Nil [simp]: "unique_on k []"
  by (simp add: unique_on_def)

lemma unique_onD: "unique_on k t \<Longrightarrow> x \<in> set t \<Longrightarrow> y \<in> set t \<Longrightarrow> k x = k y \<Longrightarrow> x = y"
  by (auto simp: unique_on_def distinct_map dest: inj_onD)

lemma find_unique:
  "unique_on k t \<Longrightarrow> x \<in> set t \<Longrightarrow> find (\<lambda>r. k r = k x) t = Some x"
proof (induction t)
  case (Cons a t)
  then show ?case by (auto simp: unique_on_def)
qed simp

lemma find_set: "find P t = Some x \<Longrightarrow> x \<in> set t \<and> P x"
  by (auto simp: find_Some_iff)

lemma find_none_iff: "find P t = None \<longleftrightarrow> (\<forall>x\<in>set t. \<not> P x)"
  by (auto simp: find_None_iff)

text \<open>An update that does not change what the query looks at.\<close>

lemma find_update_where:
  "(\<And>r. Q (if P r then f r else r) = Q r) \<Longrightarrow>
   find Q (update_where P f t) = map_option (\<lambda>r. if P r then f r else r) (find Q t)"
  by (induction t) (auto simp: update_where_def)

lemma filter_update_where_same:
  "(\<And>r. Q (if P r then f r else r) = Q r) \<Longrightarrow>
   filter Q (update_where P f t) = update_where P f (filter Q t)"
  by (induction t) (auto simp: update_where_def)

lemma set_delete_where [simp]: "set (delete_where P t) = {r \<in> set t. \<not> P r}"
  by (auto simp: delete_where_def)

lemma count_where_update: 
  "(\<And>r. Q (if P r then f r else r) = Q r) \<Longrightarrow> count_where Q (update_where P f t) = count_where Q t"
  by (simp add: count_where_def filter_update_where_same)

lemma length_page_of: "length (page_of p l t) \<le> nat l"
  by (simp add: page_of_def)

lemma set_page_of: "set (page_of p l t) \<subseteq> set t"
  by (auto simp: page_of_def dest: in_set_takeD in_set_dropD)

text \<open>The pages one after the other are the list: nothing is lost, nothing repeated.\<close>

lemma take_append_drop: "take m t @ take l (drop m t) = take (m + l) t"
  by (simp add: take_add)

lemma concat_pages_take:
  "0 \<le> l \<Longrightarrow> concat (map (\<lambda>p. page_of (int p) l t) [1..<Suc m]) = take (m * nat l) t"
proof (induction m)
  case (Suc m)
  have "nat (int m * l) = m * nat l"
    using Suc.prems by (simp add: nat_mult_distrib)
  with Suc show ?case
    by (simp add: page_of_def take_append_drop algebra_simps)
qed simp

lemma concat_pages:
  assumes "0 \<le> l" "length t \<le> m * nat l"
  shows "concat (map (\<lambda>p. page_of (int p) l t) [1..<Suc m]) = t"
  using concat_pages_take [OF assms(1), of t m] assms(2) by simp

end
