(* ===== verification/Config.thy ===== *)
theory Config
  imports Prelude
begin

text \<open>
  The settings object of \<open>app/core/config.py\<close>: its fields, their defaults and the validators that run
  when the object is built.  URLs and paths are texts; two mail subjects hold an em dash, a character outside the range of the strings; it is written as a hyphen.
\<close>

record settings =
  PROJECT_NAME :: string
  ENVIRONMENT :: string
  API_V1_PREFIX :: string
  FRONTEND_URL :: string
  APP_DOMAIN :: string
  ALLOWED_ORIGINS :: "string list"
  DATABASE_URL :: string
  REDIS_URL :: string
  SECRET_KEY :: string
  ALGORITHM :: string
  ACCESS_TOKEN_EXPIRE_MINUTES :: int
  REFRESH_TOKEN_EXPIRE_DAYS :: int
  VERIFICATION_TOKEN_TTL_MINUTES :: int
  PASSWORD_RESET_TOKEN_TTL_MINUTES :: int
  COOKIE_SECURE :: bool
  COOKIE_SAMESITE :: string
  ACCESS_COOKIE :: string
  REFRESH_COOKIE :: string
  COOKIE_DOMAIN :: string
  MAX_LOGIN_ATTEMPTS :: int
  LOCKOUT_WINDOW :: int
  FAILED_LOGIN_PREFIX :: string
  CONTACT_RECIPIENT_EMAIL :: string
  CONTACT_NOTIFICATION_SUBJECT :: string
  CONTACT_CONFIRMATION_SUBJECT :: string
  NEWSLETTER_WELCOME_SUBJECT :: string
  VERIFICATION_SUBJECT :: string
  ACCOUNT_LOCK_SUBJECT :: string
  PASSWORD_RESET_SUBJECT :: string
  ONBOARDING_SUBJECT :: string
  SMTP_HOST :: string
  SMTP_PORT :: int
  SMTP_USER :: string
  SMTP_PASSWORD :: string
  SMTP_FROM_EMAIL :: string
  GOOGLE_CLIENT_ID :: string
  GOOGLE_CLIENT_SECRET :: string
  GOOGLE_REDIRECT_URI :: string
  GOOGLE_AUTH_URL :: string
  GOOGLE_TOKEN_URL :: string
  GOOGLE_USER_INFO_URL :: string
  GOOGLE_OAUTH_STATE_TTL_MINUTES :: int
  TOKEN_PREFIX :: string
  TOKEN_USER_PREFIX :: string
  PASSWORD_RESET_PREFIX :: string
  GOOGLE_STATE_PREFIX :: string
  BLACKLIST_PREFIX :: string
  CLOUDINARY_CLOUD_NAME :: string
  CLOUDINARY_API_KEY :: string
  CLOUDINARY_API_SECRET :: string
  LOGO_FOLDER :: string
  MAX_CONTENT_BODY_SIZE :: int
  REFRESH_REUSE_GRACE_SECONDS :: int
  SECURITY_ALERT_SUBJECT :: string
  LOG_LEVEL :: string
  LOG_FILE :: string

text \<open>The declared defaults; \<open>SECRET_KEY\<close> and \<open>DATABASE_URL\<close> have none and are given by the environment.\<close>

definition default_settings :: "string \<Rightarrow> string \<Rightarrow> settings" where
  "default_settings secret_key database_url = \<lparr>
     PROJECT_NAME = ''flare-tag-be'',
     ENVIRONMENT = ''local'',
     API_V1_PREFIX = ''/api/v1'',
     FRONTEND_URL = ''http://localhost:3000'',
     APP_DOMAIN = ''social-badge.hng14.com'',
     ALLOWED_ORIGINS = [],
     DATABASE_URL = database_url,
     REDIS_URL = ''redis://localhost:6379/0'',
     SECRET_KEY = secret_key,
     ALGORITHM = ''HS256'',
     ACCESS_TOKEN_EXPIRE_MINUTES = 15,
     REFRESH_TOKEN_EXPIRE_DAYS = 7,
     VERIFICATION_TOKEN_TTL_MINUTES = 30,
     PASSWORD_RESET_TOKEN_TTL_MINUTES = 30,
     COOKIE_SECURE = False,
     COOKIE_SAMESITE = ''lax'',
     ACCESS_COOKIE = ''access_token'',
     REFRESH_COOKIE = ''refresh_token'',
     COOKIE_DOMAIN = '''',
     MAX_LOGIN_ATTEMPTS = 5,
     LOCKOUT_WINDOW = 900,
     FAILED_LOGIN_PREFIX = ''failed_login:'',
     CONTACT_RECIPIENT_EMAIL = '''',
     CONTACT_NOTIFICATION_SUBJECT = ''New Contact Form Submission - Flare Tag'',
     CONTACT_CONFIRMATION_SUBJECT = ''We received your message - Flare Tag'',
     NEWSLETTER_WELCOME_SUBJECT = ''You're subscribed to the Flare Tag newsletter!'',
     VERIFICATION_SUBJECT = ''Verify your Flare Tag account'',
     ACCOUNT_LOCK_SUBJECT = ''Your Flare Tag account has been locked'',
     PASSWORD_RESET_SUBJECT = ''Reset your Flare Tag password'',
     ONBOARDING_SUBJECT = ''Welcome to Flare Tag! Let's ship.'',
     SMTP_HOST = '''',
     SMTP_PORT = 587,
     SMTP_USER = '''',
     SMTP_PASSWORD = '''',
     SMTP_FROM_EMAIL = '''',
     GOOGLE_CLIENT_ID = '''',
     GOOGLE_CLIENT_SECRET = '''',
     GOOGLE_REDIRECT_URI = ''http://localhost:8000/api/v1/auth/google/callback'',
     GOOGLE_AUTH_URL = ''https://accounts.google.com/o/oauth2/v2/auth'',
     GOOGLE_TOKEN_URL = ''https://oauth2.googleapis.com/token'',
     GOOGLE_USER_INFO_URL = ''https://www.googleapis.com/oauth2/v3/userinfo'',
     GOOGLE_OAUTH_STATE_TTL_MINUTES = 10,
     TOKEN_PREFIX = ''verify:'',
     TOKEN_USER_PREFIX = ''verify_user:'',
     PASSWORD_RESET_PREFIX = ''pwd_reset:'',
     GOOGLE_STATE_PREFIX = ''oauth:google:state:'',
     BLACKLIST_PREFIX = ''blacklist:jti:'',
     CLOUDINARY_CLOUD_NAME = '''',
     CLOUDINARY_API_KEY = '''',
     CLOUDINARY_API_SECRET = '''',
     LOGO_FOLDER = ''template-logos'',
     MAX_CONTENT_BODY_SIZE = 10 * 1024 * 1024,
     REFRESH_REUSE_GRACE_SECONDS = 5,
     SECURITY_ALERT_SUBJECT = ''Security alert - all sessions have been terminated'',
     LOG_LEVEL = ''INFO'',
     LOG_FILE = ''logs/app.log'' \<rparr>"

text \<open>The defaults one by one, so that witnesses read a field without unfolding the record.\<close>

lemma default_settings_simps [simp]:
  "ENVIRONMENT (default_settings k u) = ''local''"
  "FRONTEND_URL (default_settings k u) = ''http://localhost:3000''"
  "APP_DOMAIN (default_settings k u) = ''social-badge.hng14.com''"
  "SECRET_KEY (default_settings k u) = k"
  "ALGORITHM (default_settings k u) = ''HS256''"
  "ACCESS_TOKEN_EXPIRE_MINUTES (default_settings k u) = 15"
  "REFRESH_TOKEN_EXPIRE_DAYS (default_settings k u) = 7"
  "VERIFICATION_TOKEN_TTL_MINUTES (default_settings k u) = 30"
  "PASSWORD_RESET_TOKEN_TTL_MINUTES (default_settings k u) = 30"
  "COOKIE_SECURE (default_settings k u) = False"
  "COOKIE_SAMESITE (default_settings k u) = ''lax''"
  "ACCESS_COOKIE (default_settings k u) = ''access_token''"
  "REFRESH_COOKIE (default_settings k u) = ''refresh_token''"
  "COOKIE_DOMAIN (default_settings k u) = ''''"
  "MAX_LOGIN_ATTEMPTS (default_settings k u) = 5"
  "LOCKOUT_WINDOW (default_settings k u) = 900"
  "FAILED_LOGIN_PREFIX (default_settings k u) = ''failed_login:''"
  "CONTACT_RECIPIENT_EMAIL (default_settings k u) = ''''"
  "CONTACT_NOTIFICATION_SUBJECT (default_settings k u) = ''New Contact Form Submission - Flare Tag''"
  "CONTACT_CONFIRMATION_SUBJECT (default_settings k u) = ''We received your message - Flare Tag''"
  "NEWSLETTER_WELCOME_SUBJECT (default_settings k u) = ''You're subscribed to the Flare Tag newsletter!''"
  "VERIFICATION_SUBJECT (default_settings k u) = ''Verify your Flare Tag account''"
  "ACCOUNT_LOCK_SUBJECT (default_settings k u) = ''Your Flare Tag account has been locked''"
  "PASSWORD_RESET_SUBJECT (default_settings k u) = ''Reset your Flare Tag password''"
  "ONBOARDING_SUBJECT (default_settings k u) = ''Welcome to Flare Tag! Let's ship.''"
  "SMTP_PORT (default_settings k u) = 587"
  "SMTP_USER (default_settings k u) = ''''"
  "SMTP_PASSWORD (default_settings k u) = ''''"
  "SMTP_FROM_EMAIL (default_settings k u) = ''''"
  "GOOGLE_CLIENT_ID (default_settings k u) = ''''"
  "GOOGLE_CLIENT_SECRET (default_settings k u) = ''''"
  "GOOGLE_REDIRECT_URI (default_settings k u) = ''http://localhost:8000/api/v1/auth/google/callback''"
  "GOOGLE_AUTH_URL (default_settings k u) = ''https://accounts.google.com/o/oauth2/v2/auth''"
  "GOOGLE_OAUTH_STATE_TTL_MINUTES (default_settings k u) = 10"
  "TOKEN_PREFIX (default_settings k u) = ''verify:''"
  "TOKEN_USER_PREFIX (default_settings k u) = ''verify_user:''"
  "PASSWORD_RESET_PREFIX (default_settings k u) = ''pwd_reset:''"
  "GOOGLE_STATE_PREFIX (default_settings k u) = ''oauth:google:state:''"
  "BLACKLIST_PREFIX (default_settings k u) = ''blacklist:jti:''"
  "CLOUDINARY_CLOUD_NAME (default_settings k u) = ''''"
  "CLOUDINARY_API_KEY (default_settings k u) = ''''"
  "CLOUDINARY_API_SECRET (default_settings k u) = ''''"
  "LOGO_FOLDER (default_settings k u) = ''template-logos''"
  "MAX_CONTENT_BODY_SIZE (default_settings k u) = 10485760"
  "REFRESH_REUSE_GRACE_SECONDS (default_settings k u) = 5"
  "SECURITY_ALERT_SUBJECT (default_settings k u) = ''Security alert - all sessions have been terminated''"
  by (simp_all add: default_settings_def)

section \<open>Validators\<close>

definition clean_frontend_url :: "string \<Rightarrow> string" where
  "clean_frontend_url val = py_rstrip_char (CHR ''/'') val"

text \<open>
  The value given for \<open>ALLOWED_ORIGINS\<close> is a string, a list or something else; \<open>json_list\<close>
  stands for \<open>json.loads\<close> of a text, \<open>None\<close> when it fails or is not a list.
\<close>

datatype origins_value = OriginsStr string | OriginsList "string list" | OriginsOther

definition assemble_cors_origins ::
  "(string \<Rightarrow> string list option) \<Rightarrow> origins_value \<Rightarrow> string + string list" where
  "assemble_cors_origins json_list v = (case v of
     OriginsStr val \<Rightarrow>
       (case (if py_startswith val ''['' \<and> py_endswith val '']'' then json_list val else None) of
          Some decoded \<Rightarrow> Inr decoded
        | None \<Rightarrow>
            if py_contains '','' val then Inr (map py_strip (py_split (CHR '','') val))
            else Inr [py_strip val])
   | OriginsList val \<Rightarrow> Inr val
   | OriginsOther \<Rightarrow> Inl ''Invalid format for ALLOWED_ORIGINS'')"

definition validate_cookie_policy :: "settings \<Rightarrow> string + settings" where
  "validate_cookie_policy s =
     (if COOKIE_SAMESITE s = ''none'' \<and> \<not> COOKIE_SECURE s
      then Inl (''COOKIE_SECURE must be True when COOKIE_SAMESITE='none'' @ [CHR 0x27]) else Inr s)"

definition production_checks :: "settings \<Rightarrow> (string \<times> string \<times> string list) list" where
  "production_checks s =
    [(''GOOGLE_CLIENT_ID'', GOOGLE_CLIENT_ID s, ['''', ''your_google_client_id_here'']),
     (''GOOGLE_CLIENT_SECRET'', GOOGLE_CLIENT_SECRET s, ['''', ''your_google_client_secret_here'']),
     (''CONTACT_RECIPIENT_EMAIL'', CONTACT_RECIPIENT_EMAIL s, ['''', ''support@yourdomain.com''])]"

definition validate_production_settings :: "settings \<Rightarrow> string + settings" where
  "validate_production_settings s =
     (if py_lower (py_strip (ENVIRONMENT s)) \<noteq> ''production'' then Inr s
      else (case find (\<lambda>(field, value, banned). py_strip value \<in> set banned) (production_checks s) of
          Some (field, _) \<Rightarrow> Inl (field @ '' must be set in production'')
        | None \<Rightarrow>
            if py_strip (SMTP_USER s) = [] \<or> SMTP_PORT s = 0 \<or> py_strip (SMTP_PASSWORD s) = []
               \<or> py_strip (SMTP_FROM_EMAIL s) = []
            then Inl ''SMTP host, port, credentials, and from email must be set in production''
            else Inr s))"

definition validate_max_content_body_size :: "int \<Rightarrow> string + int" where
  "validate_max_content_body_size val =
     (if val \<le> 0 then Inl ''MAX_CONTENT_BODY_SIZE must be greater than 0'' else Inr val)"

text \<open>
  The validators in the order pydantic runs them: those of the fields, then those of the object.  \<open>origins\<close> is
  the value given for \<open>ALLOWED_ORIGINS\<close>, a default is not validated.  Of several field errors the first is kept.
\<close>

definition build_settings :: "(string \<Rightarrow> string list option) \<Rightarrow> origins_value option \<Rightarrow> settings \<Rightarrow> string + settings" where
  "build_settings json_list origins s =
     (case (case origins of None \<Rightarrow> Inr (ALLOWED_ORIGINS s) | Some v \<Rightarrow> assemble_cors_origins json_list v) of
        Inl e \<Rightarrow> Inl e
      | Inr allowed \<Rightarrow> (case validate_max_content_body_size (MAX_CONTENT_BODY_SIZE s) of
          Inl e \<Rightarrow> Inl e
        | Inr _ \<Rightarrow> (case validate_cookie_policy (s\<lparr>FRONTEND_URL := clean_frontend_url (FRONTEND_URL s), ALLOWED_ORIGINS := allowed\<rparr>) of
            Inl e \<Rightarrow> Inl e
          | Inr s \<Rightarrow> validate_production_settings s)))"

section \<open>Lemmas\<close>

lemma clean_frontend_url_no_slash:
  "clean_frontend_url val = [] \<or> last (clean_frontend_url val) \<noteq> CHR ''/''"
  using dropWhile_hd [of "\<lambda>x. x = CHR ''/''" "rev val"]
  by (auto simp: clean_frontend_url_def py_rstrip_char_def last_rev)

lemma validate_cookie_policy_ok:
  "validate_cookie_policy s = Inr t \<longleftrightarrow> t = s \<and> (COOKIE_SAMESITE s = ''none'' \<longrightarrow> COOKIE_SECURE s)"
  by (auto simp: validate_cookie_policy_def)

lemma validate_production_settings_keeps:
  "validate_production_settings s = Inr t \<Longrightarrow> t = s"
  by (auto simp: validate_production_settings_def split: if_splits option.splits)

lemma validate_production_settings_checks:
  assumes "validate_production_settings s = Inr t" "py_lower (py_strip (ENVIRONMENT s)) = ''production''"
  shows "py_strip (GOOGLE_CLIENT_ID s) \<notin> {'''', ''your_google_client_id_here''}
     \<and> py_strip (GOOGLE_CLIENT_SECRET s) \<notin> {'''', ''your_google_client_secret_here''}
     \<and> py_strip (CONTACT_RECIPIENT_EMAIL s) \<notin> {'''', ''support@yourdomain.com''}
     \<and> py_strip (SMTP_USER s) \<noteq> [] \<and> SMTP_PORT s \<noteq> 0 \<and> py_strip (SMTP_PASSWORD s) \<noteq> []
     \<and> py_strip (SMTP_FROM_EMAIL s) \<noteq> []"
  using assms
  by (auto simp: validate_production_settings_def production_checks_def find_none_iff
      split: if_splits option.splits)

text \<open>The host of the mail server is not among the settings the check reads, though its message names it.\<close>

lemma smtp_host_unchecked:
  "validate_production_settings (s\<lparr>SMTP_HOST := h\<rparr>)
     = (case validate_production_settings s of Inl e \<Rightarrow> Inl e | Inr t \<Rightarrow> Inr (t\<lparr>SMTP_HOST := h\<rparr>))"
  by (simp add: validate_production_settings_def production_checks_def split: option.split)

section \<open>Redis key prefixes\<close>

text \<open>
  The prefixes of the keys the application writes.  No prefix begins another one, so two keys
  built from different prefixes are different: the stores do not overlap.
\<close>

definition redis_prefixes :: "settings \<Rightarrow> string list" where
  "redis_prefixes s = [FAILED_LOGIN_PREFIX s, TOKEN_PREFIX s, TOKEN_USER_PREFIX s,
     PASSWORD_RESET_PREFIX s, GOOGLE_STATE_PREFIX s, BLACKLIST_PREFIX s]"

definition apart :: "string \<Rightarrow> string \<Rightarrow> bool" where
  "apart p q = (\<not> prefix p q \<and> \<not> prefix q p)"

fun pairwise_apart :: "string list \<Rightarrow> bool" where
  "pairwise_apart [] = True"
| "pairwise_apart (p # ps) = (list_all (apart p) ps \<and> pairwise_apart ps)"

definition prefixes_apart :: "settings \<Rightarrow> bool" where
  "prefixes_apart s = pairwise_apart (redis_prefixes s)"

lemma apart_keys: "apart p q \<Longrightarrow> p @ a \<noteq> q @ b"
  unfolding apart_def by (metis prefixI prefix_same_cases)

lemma apart_sym: "apart p q \<Longrightarrow> apart q p"
  by (simp add: apart_def)

lemma prefixes_apart_keys:
  assumes "prefixes_apart s"
  shows "FAILED_LOGIN_PREFIX s @ a \<noteq> TOKEN_PREFIX s @ b"
    and "FAILED_LOGIN_PREFIX s @ a \<noteq> TOKEN_USER_PREFIX s @ b"
    and "FAILED_LOGIN_PREFIX s @ a \<noteq> PASSWORD_RESET_PREFIX s @ b"
    and "FAILED_LOGIN_PREFIX s @ a \<noteq> GOOGLE_STATE_PREFIX s @ b"
    and "FAILED_LOGIN_PREFIX s @ a \<noteq> BLACKLIST_PREFIX s @ b"
    and "TOKEN_PREFIX s @ a \<noteq> TOKEN_USER_PREFIX s @ b"
    and "TOKEN_PREFIX s @ a \<noteq> PASSWORD_RESET_PREFIX s @ b"
    and "TOKEN_PREFIX s @ a \<noteq> GOOGLE_STATE_PREFIX s @ b"
    and "TOKEN_PREFIX s @ a \<noteq> BLACKLIST_PREFIX s @ b"
    and "TOKEN_USER_PREFIX s @ a \<noteq> PASSWORD_RESET_PREFIX s @ b"
    and "TOKEN_USER_PREFIX s @ a \<noteq> GOOGLE_STATE_PREFIX s @ b"
    and "TOKEN_USER_PREFIX s @ a \<noteq> BLACKLIST_PREFIX s @ b"
    and "PASSWORD_RESET_PREFIX s @ a \<noteq> GOOGLE_STATE_PREFIX s @ b"
    and "PASSWORD_RESET_PREFIX s @ a \<noteq> BLACKLIST_PREFIX s @ b"
    and "GOOGLE_STATE_PREFIX s @ a \<noteq> BLACKLIST_PREFIX s @ b"
  using assms by (auto intro!: apart_keys simp: prefixes_apart_def redis_prefixes_def)

lemmas prefixes_apart_keys_sym = prefixes_apart_keys [THEN not_sym]

lemma prefixes_apart_default [simp]: "prefixes_apart (default_settings k u)"
  by (simp add: prefixes_apart_def redis_prefixes_def default_settings_def apart_def)

end
