(* ===== verification/Errors.thy ===== *)
theory Errors
  imports Prelude
begin

text \<open>
  The exceptions of \<open>app/core/exceptions/base.py\<close> and the ones of the framework the code
  raises or lets through, and the handler of \<open>app/core/exceptions/handlers.py\<close> that turns
  every exception that leaves a route into a response.  A computation that may raise returns
  a value of \<open>app_error + 'a\<close>.
\<close>

text \<open>
  \<open>IntegrityError\<close> and \<open>DataError\<close> are the SQLAlchemy errors for a violated constraint and a
  value that does not fit its column; \<open>SQLAlchemyError\<close> is any other one.  A
  \<open>RequestValidationError\<close> carries the location and message of its errors.
\<close>

datatype app_error =
    EmailConflictError
  | EmailDeliveryError
  | InvalidPasswordResetTokenError
  | InvalidCredentialsError
  | EmailNotVerifiedError
  | EmailAlreadyVerifiedError
  | AccountLockedError string
  | InvalidRefreshTokenError
  | GoogleOAuthError string nat
  | PlatformTemplateNotFoundError
  | PlatformTemplateNotActiveError
  | BadgeNotFoundError
  | NotBadgeOwnerError
  | BadgeAlreadyPublishedError
  | CloudinaryUploadError
  | PublicBadgeNotFoundError
  | BadgeRenderError
  | IntegrityError
  | DataError
  | SQLAlchemyError
  | ValueError string
  | RuntimeError string
  | FileNotFoundError string
  | RequestValidationError "(string list \<times> string) list"
  | RateLimitExceeded
  | HTTPException nat string

section \<open>The text of a validation error\<close>

definition upper_char :: "char \<Rightarrow> char" where
  "upper_char c = (if is_lower_az c then char_of (code_point c - 32) else c)"

text \<open>
  \<open>str.title\<close> and \<open>str.capitalize\<close>, with the letters a to z as the cased letters (field names
  and messages are ASCII).
\<close>

fun title_from :: "bool \<Rightarrow> string \<Rightarrow> string" where
  "title_from p [] = []"
| "title_from p (c # s) =
     (if is_lower_az c \<or> is_upper_az c
      then (if p then lower_char c else upper_char c) # title_from True s
      else c # title_from False s)"

definition py_title :: "string \<Rightarrow> string" where
  "py_title s = title_from False s"

definition py_capitalize :: "string \<Rightarrow> string" where
  "py_capitalize s = (case s of [] \<Rightarrow> [] | c # r \<Rightarrow> upper_char c # py_lower r)"

definition py_replace_char :: "char \<Rightarrow> char \<Rightarrow> string \<Rightarrow> string" where
  "py_replace_char a b s = map (\<lambda>c. if c = a then b else c) s"

definition validation_message :: "(string list \<times> string) list \<Rightarrow> string" where
  "validation_message errors = (case errors of
     [] \<Rightarrow> ''Validation Error''
   | (err_loc, err_msg) # _ \<Rightarrow>
       (let loc_parts = filter (\<lambda>item. item \<noteq> ''body'') err_loc;
            loc = py_join '' '' (map (\<lambda>part. py_title (py_replace_char (CHR ''_'') (CHR '' '') part)) loc_parts);
            msg = (if py_startswith err_msg ''Value error, '' then py_remove ''Value error, '' err_msg
                   else if py_contains '':'' err_msg then py_strip (last (py_split (CHR '':'') err_msg))
                   else err_msg);
            msg = (case msg of [] \<Rightarrow> [] | c # r \<Rightarrow> lower_char c # r)
        in if loc \<noteq> [] then loc @ '': '' @ msg else py_capitalize msg))"

section \<open>The handler\<close>

text \<open>The status code and the message of the \<open>ErrorResponse\<close>.\<close>

fun is_sqlalchemy_error :: "app_error \<Rightarrow> bool" where
  "is_sqlalchemy_error IntegrityError = True"
| "is_sqlalchemy_error DataError = True"
| "is_sqlalchemy_error SQLAlchemyError = True"
| "is_sqlalchemy_error _ = False"

definition global_exception_handler :: "app_error \<Rightarrow> nat \<times> string" where
  "global_exception_handler exc =
     (if exc = IntegrityError then (409, ''Database constraint violation'')
      else if is_sqlalchemy_error exc then (500, ''A database error occurred'')
      else (case exc of
          RequestValidationError errors \<Rightarrow> (422, validation_message errors)
        | RateLimitExceeded \<Rightarrow> (429, ''Rate limit exceeded'')
        | HTTPException status detail \<Rightarrow> (status, detail)
        | _ \<Rightarrow> (500, ''Internal Server Error'')))"

text \<open>
  What a route sends: its own status and data, or the response of the handler.
\<close>

datatype 'a response = Success nat string 'a | ErrorResp nat string

fun respond :: "app_error + nat \<times> string \<times> 'a \<Rightarrow> 'a response" where
  "respond (Inr (status, msg, d)) = Success status msg d"
| "respond (Inl exc) = (case global_exception_handler exc of (status, msg) \<Rightarrow> ErrorResp status msg)"

section \<open>Lemmas\<close>

text \<open>
  An exception the routes do not map never shows its own text: the body is one of the fixed
  messages of the handler.
\<close>

lemma global_exception_handler_opaque:
  assumes "\<nexists>errors. exc = RequestValidationError errors" "\<nexists>status detail. exc = HTTPException status detail"
  shows "global_exception_handler exc \<in>
    {(409, ''Database constraint violation''), (500, ''A database error occurred''),
     (429, ''Rate limit exceeded''), (500, ''Internal Server Error'')}"
  using assms by (cases exc) (simp_all add: global_exception_handler_def)

lemma global_exception_handler_http [simp]:
  "global_exception_handler (HTTPException status detail) = (status, detail)"
  by (simp add: global_exception_handler_def)

lemma respond_success_iff: "respond r = Success st m d \<longleftrightarrow> r = Inr (st, m, d)"
  by (cases r) (auto split: prod.splits)

end
