(* ===== verification/World.thy ===== *)
theory World
  imports Config Errors
begin

text \<open>
  The state of the application.  The tables are the ones the ORM classes of \<open>app/models\<close>
  declare, one record per class, with the constraints of the class (\<open>primary_key\<close>, \<open>unique\<close>,
  \<open>ForeignKey\<close>, the \<open>String(n)\<close> widths of the text the users choose) checked where a row is
  inserted or changed.  Redis, the signing of tokens, the password hash, SMTP and Cloudinary are
  not part of the repository: they are fields of the environment \<open>env\<close>, and the state of
  Redis is a type parameter \<open>'r\<close>.
\<close>

section \<open>JSON values\<close>

text \<open>\<open>JDec m n\<close> is the decimal fraction \<open>m / 10^n\<close>, with as few digits as it needs.\<close>

datatype json =
    JNull
  | JBool bool
  | JInt int
  | JDec int nat
  | JStr string
  | JList "json list"
  | JObj "(string \<times> json) list"

section \<open>Rows\<close>

record user =
  u_id :: uuid
  u_first_name :: string
  u_last_name :: "string option"
  u_email :: string
  u_password_hash :: "string option"
  u_is_email_verified :: bool
  u_profile_photo_url :: "string option"
  u_role :: "string option"
  u_created_at :: time
  u_updated_at :: time

record auth_provider =
  ap_id :: uuid
  ap_provider :: string
  ap_provider_user_id :: "string option"
  ap_user_id :: uuid
  ap_label :: string
  ap_is_active :: bool
  ap_created_at :: time

record refresh_token =
  rt_id :: uuid
  rt_user_id :: uuid
  rt_token_hash :: string
  rt_created_at :: time
  rt_expires_at :: time
  rt_is_revoked :: bool
  rt_family_id :: uuid
  rt_user_agent :: "string option"
  rt_ip_address :: "string option"
  rt_last_used_at :: "time option"

record badge =
  b_id :: uuid
  b_organiser_id :: uuid
  b_platform_template_id :: uuid
  b_title :: string
  b_canvas_data :: json
  b_default_caption :: "string option"
  b_destination_link :: "string option"
  b_thumbnail_url :: "string option"
  b_logo_url :: "string option"
  b_logo_public_id :: "string option"
  b_access_type :: int
  b_access_code :: "string option"
  b_is_published :: bool
  b_published_at :: "time option"
  b_share_slug :: "string option"
  b_share_count :: int
  b_creation_count :: int
  b_created_at :: "time option"
  b_updated_at :: "time option"
  b_deleted_at :: "time option"

record badge_hashtag =
  bh_id :: uuid
  bh_badge_id :: uuid
  bh_hashtag :: string

record platform_template =
  pt_id :: uuid
  pt_title :: string
  pt_category :: string
  pt_canvas_data :: "json option"
  pt_thumbnail_url :: "string option"
  pt_is_active :: bool
  pt_total_badges_made :: int
  pt_created_at :: "time option"
  pt_updated_at :: "time option"

datatype notification_type = BADGE_CREATION | DAILY_DIGEST | WEEKLY_REPORT

record notification =
  n_id :: uuid
  n_user_id :: uuid
  n_type :: notification_type
  n_title :: string
  n_body :: string
  n_is_read :: bool
  n_extra_data :: "json option"
  n_created_at :: time

record user_notification_preference =
  np_id :: uuid
  np_user_id :: uuid
  np_email_template_published :: bool
  np_email_new_signin :: bool
  np_notify_badge_creation :: bool
  np_notify_daily_digest :: bool
  np_notify_weekly_report :: bool
  np_updated_at :: time

record newsletter_subscriber =
  ns_id :: uuid
  ns_email :: string
  ns_is_active :: bool
  ns_unsubscribe_token :: string
  ns_subscribed_at :: time
  ns_unsubscribed_at :: "time option"

record role =
  r_id :: uuid
  r_name :: string
  r_created_at :: time

record user_role =
  ur_id :: uuid
  ur_user_id :: uuid
  ur_role_id :: uuid
  ur_created_at :: time

record database =
  users :: "user list"
  auth_providers :: "auth_provider list"
  refresh_tokens :: "refresh_token list"
  badges :: "badge list"
  badge_hashtags :: "badge_hashtag list"
  platform_templates :: "platform_template list"
  notifications :: "notification list"
  preferences :: "user_notification_preference list"
  subscribers :: "newsletter_subscriber list"
  roles :: "role list"
  user_roles :: "user_role list"

definition empty_db :: database where
  "empty_db = \<lparr>users = [], auth_providers = [], refresh_tokens = [], badges = [],
     badge_hashtags = [], platform_templates = [], notifications = [], preferences = [],
     subscribers = [], roles = [], user_roles = []\<rparr>"

section \<open>Environment and world\<close>

text \<open>The payload of a token: \<open>sub\<close>, \<open>exp\<close>, \<open>iat\<close>, \<open>type\<close> and \<open>jti\<close>; \<open>None\<close> is an absent claim.\<close>

record claims =
  cl_sub :: "string option"
  cl_exp :: "int option"
  cl_iat :: "int option"
  cl_type :: "string option"
  cl_jti :: "string option"

text \<open>A message handed to the SMTP server.\<close>

record mail =
  m_from :: string
  m_to :: string
  m_subject :: string
  m_reply_to :: "string option"
  m_html :: string

datatype cdn_call = CdnUpload string bytes | CdnDestroy string

text \<open>The commands of the Redis client the code calls; the second argument is the instant.\<close>

record 'r redis_api =
  rd_get :: "'r \<Rightarrow> time \<Rightarrow> string \<Rightarrow> string option"
  rd_set_ex :: "'r \<Rightarrow> time \<Rightarrow> string \<Rightarrow> string \<Rightarrow> int \<Rightarrow> 'r"
  rd_getdel :: "'r \<Rightarrow> time \<Rightarrow> string \<Rightarrow> string option \<times> 'r"
  rd_delete :: "'r \<Rightarrow> time \<Rightarrow> string \<Rightarrow> 'r"
  rd_exists :: "'r \<Rightarrow> time \<Rightarrow> string \<Rightarrow> bool"
  rd_incr :: "'r \<Rightarrow> time \<Rightarrow> string \<Rightarrow> int \<times> 'r"
  rd_expire :: "'r \<Rightarrow> time \<Rightarrow> string \<Rightarrow> int \<Rightarrow> 'r"
  rd_ttl :: "'r \<Rightarrow> time \<Rightarrow> string \<Rightarrow> int"

text \<open>
  \<open>sha256_hex\<close> is \<open>hashlib.sha256(..).hexdigest()\<close>; \<open>bcrypt_hashpw\<close> takes the salt and the
  password, \<open>bcrypt_checkpw\<close> the password and the hash, \<open>None\<close> being a \<open>ValueError\<close>;
  \<open>jwt_encode\<close> takes the claims, the key and the algorithm, \<open>jwt_decode\<close> the token, the key,
  the algorithms, \<open>verify_exp\<close> and the instant, \<open>None\<close> being a \<open>JWTError\<close>; \<open>pg_uuid\<close> is the
  driver's conversion of a text bound to a UUID column, \<open>smtp_send\<close> the delivery,
  \<open>cdn_upload\<close> and \<open>cdn_destroy\<close> the Cloudinary calls, \<open>commit_ok\<close> whether the database takes
  the commit of a state, \<open>template_file\<close> the text of an e-mail template file.
\<close>

record 'r env =
  cfg :: settings
  redis :: "'r redis_api"
  sha256_hex :: "string \<Rightarrow> string"
  bcrypt_hashpw :: "bytes \<Rightarrow> bytes \<Rightarrow> string option"
  bcrypt_checkpw :: "bytes \<Rightarrow> bytes \<Rightarrow> bool option"
  jwt_encode :: "claims \<Rightarrow> string \<Rightarrow> string \<Rightarrow> string"
  jwt_decode :: "string \<Rightarrow> string \<Rightarrow> string list \<Rightarrow> bool \<Rightarrow> time \<Rightarrow> claims option"
  pg_uuid :: "string \<Rightarrow> uuid option"
  smtp_send :: "mail \<Rightarrow> bool"
  cdn_upload :: "string \<Rightarrow> bytes \<Rightarrow> string option"
  cdn_destroy :: "string \<Rightarrow> bool"
  commit_ok :: "database \<Rightarrow> bool"
  template_file :: "string \<Rightarrow> string option"

record 'r world =
  db :: database
  kv :: 'r
  outbox :: "mail list"
  cdn_log :: "cdn_call list"

abbreviation set_users where "set_users us w \<equiv> w\<lparr>db := (db w)\<lparr>users := us\<rparr>\<rparr>"
abbreviation set_refresh_tokens where
  "set_refresh_tokens ts w \<equiv> w\<lparr>db := (db w)\<lparr>refresh_tokens := ts\<rparr>\<rparr>"
abbreviation set_badges where "set_badges bs w \<equiv> w\<lparr>db := (db w)\<lparr>badges := bs\<rparr>\<rparr>"

section \<open>Inserting rows\<close>

text \<open>\<open>flush\<close> of a pending row: the widths first, then the constraints.\<close>

definition checked :: "bool \<Rightarrow> bool \<Rightarrow> 'a \<Rightarrow> app_error + 'a" where
  "checked fits holds x = (if \<not> fits then Inl DataError else if \<not> holds then Inl IntegrityError else Inr x)"

definition fits :: "nat \<Rightarrow> string \<Rightarrow> bool" where
  "fits n s = (length s \<le> n)"

definition fits_opt :: "nat \<Rightarrow> string option \<Rightarrow> bool" where
  "fits_opt n v = (case v of None \<Rightarrow> True | Some s \<Rightarrow> fits n s)"

definition user_fits :: "user \<Rightarrow> bool" where
  "user_fits u = (fits 200 (u_first_name u) \<and> fits_opt 200 (u_last_name u) \<and> fits 255 (u_email u)
     \<and> fits_opt 255 (u_password_hash u) \<and> fits_opt 200 (u_role u))"

definition badge_fits :: "badge \<Rightarrow> bool" where
  "badge_fits b = (fits 255 (b_title b) \<and> fits_opt 255 (b_default_caption b)
     \<and> fits_opt 255 (b_destination_link b) \<and> fits_opt 255 (b_thumbnail_url b)
     \<and> fits_opt 1024 (b_logo_url b) \<and> fits_opt 512 (b_logo_public_id b)
     \<and> fits_opt 255 (b_access_code b) \<and> fits_opt 255 (b_share_slug b))"

definition template_fits :: "platform_template \<Rightarrow> bool" where
  "template_fits t = (fits 255 (pt_title t) \<and> fits 50 (pt_category t) \<and> fits_opt 255 (pt_thumbnail_url t))"

definition insert_user :: "user \<Rightarrow> database \<Rightarrow> app_error + database" where
  "insert_user u d = checked (user_fits u)
     (u_id u \<notin> u_id ` set (users d) \<and> u_email u \<notin> u_email ` set (users d))
     (d\<lparr>users := users d @ [u]\<rparr>)"

definition insert_auth_provider :: "auth_provider \<Rightarrow> database \<Rightarrow> app_error + database" where
  "insert_auth_provider a d = checked
     (fits 50 (ap_provider a) \<and> fits_opt 255 (ap_provider_user_id a) \<and> fits 100 (ap_label a))
     (ap_id a \<notin> ap_id ` set (auth_providers d)
      \<and> (\<forall>x\<in>set (auth_providers d). ap_provider x = ap_provider a \<longrightarrow>
           ap_user_id x \<noteq> ap_user_id a
           \<and> (ap_provider_user_id a \<noteq> None \<longrightarrow> ap_provider_user_id x \<noteq> ap_provider_user_id a))
      \<and> ap_user_id a \<in> u_id ` set (users d))
     (d\<lparr>auth_providers := auth_providers d @ [a]\<rparr>)"

definition insert_refresh_token :: "refresh_token \<Rightarrow> database \<Rightarrow> app_error + database" where
  "insert_refresh_token t d = checked
     (fits 255 (rt_token_hash t) \<and> fits_opt 45 (rt_ip_address t))
     (rt_id t \<notin> rt_id ` set (refresh_tokens d)
      \<and> rt_token_hash t \<notin> rt_token_hash ` set (refresh_tokens d)
      \<and> rt_user_id t \<in> u_id ` set (users d))
     (d\<lparr>refresh_tokens := refresh_tokens d @ [t]\<rparr>)"

text \<open>A slug is unique among the badges that have one.\<close>

definition slug_free :: "badge \<Rightarrow> badge list \<Rightarrow> bool" where
  "slug_free b bs = (b_share_slug b = None \<or>
     (\<forall>x\<in>set bs. b_id x \<noteq> b_id b \<longrightarrow> b_share_slug x \<noteq> b_share_slug b))"

definition insert_badge :: "badge \<Rightarrow> database \<Rightarrow> app_error + database" where
  "insert_badge b d = checked (badge_fits b)
     (b_id b \<notin> b_id ` set (badges d) \<and> slug_free b (badges d)
      \<and> b_organiser_id b \<in> u_id ` set (users d)
      \<and> b_platform_template_id b \<in> pt_id ` set (platform_templates d))
     (d\<lparr>badges := badges d @ [b]\<rparr>)"

definition insert_hashtag :: "badge_hashtag \<Rightarrow> database \<Rightarrow> app_error + database" where
  "insert_hashtag h d = checked (fits 255 (bh_hashtag h))
     (bh_id h \<notin> bh_id ` set (badge_hashtags d) \<and> bh_badge_id h \<in> b_id ` set (badges d))
     (d\<lparr>badge_hashtags := badge_hashtags d @ [h]\<rparr>)"

definition insert_template :: "platform_template \<Rightarrow> database \<Rightarrow> app_error + database" where
  "insert_template t d = checked (template_fits t)
     (pt_id t \<notin> pt_id ` set (platform_templates d))
     (d\<lparr>platform_templates := platform_templates d @ [t]\<rparr>)"

definition insert_notification :: "notification \<Rightarrow> database \<Rightarrow> app_error + database" where
  "insert_notification n d = checked (fits 255 (n_title n) \<and> fits 2048 (n_body n))
     (n_id n \<notin> n_id ` set (notifications d) \<and> n_user_id n \<in> u_id ` set (users d))
     (d\<lparr>notifications := notifications d @ [n]\<rparr>)"

definition insert_subscriber :: "newsletter_subscriber \<Rightarrow> database \<Rightarrow> app_error + database" where
  "insert_subscriber n d = checked (fits 255 (ns_email n) \<and> fits 64 (ns_unsubscribe_token n))
     (ns_id n \<notin> ns_id ` set (subscribers d) \<and> ns_email n \<notin> ns_email ` set (subscribers d)
      \<and> ns_unsubscribe_token n \<notin> ns_unsubscribe_token ` set (subscribers d))
     (d\<lparr>subscribers := subscribers d @ [n]\<rparr>)"

end
