(* ===== verification/Integrity.thy ===== *)
theory Integrity
  imports World
begin

text \<open>
  The invariant of the database, \<open>db_wf\<close>: primary keys and unique columns hold distinct
  values, foreign keys point at existing rows, and a badge row is in one of the states the
  code means it to be in (\<open>badge_row_ok\<close>).  The lemmas say which table updates keep it; the
  operations of the services are shown to keep it in their own theories.
\<close>

section \<open>Changing rows\<close>

text \<open>
  A change through the ORM: the unit of work writes the row, and its \<open>onupdate\<close> column, only
  when a value is different from the loaded one.
\<close>

definition orm_user :: "time \<Rightarrow> (user \<Rightarrow> user) \<Rightarrow> user \<Rightarrow> user" where
  "orm_user now f u = (let u' = f u in if u' = u then u else u'\<lparr>u_updated_at := now\<rparr>)"

definition orm_badge :: "time \<Rightarrow> (badge \<Rightarrow> badge) \<Rightarrow> badge \<Rightarrow> badge" where
  "orm_badge now f b = (let b' = f b in if b' = b then b else b'\<lparr>b_updated_at := Some now\<rparr>)"

definition orm_template :: "time \<Rightarrow> (platform_template \<Rightarrow> platform_template) \<Rightarrow>
    platform_template \<Rightarrow> platform_template" where
  "orm_template now f t = (let t' = f t in if t' = t then t else t'\<lparr>pt_updated_at := Some now\<rparr>)"

definition save_user :: "time \<Rightarrow> uuid \<Rightarrow> (user \<Rightarrow> user) \<Rightarrow> database \<Rightarrow> app_error + database" where
  "save_user now uid f d =
     (let us = update_where (\<lambda>u. u_id u = uid) (orm_user now f) (users d) in
      checked (\<forall>u\<in>set us. u_id u = uid \<longrightarrow> user_fits u) (unique_on u_email us) (d\<lparr>users := us\<rparr>))"

definition save_badge :: "time \<Rightarrow> uuid \<Rightarrow> (badge \<Rightarrow> badge) \<Rightarrow> database \<Rightarrow> app_error + database" where
  "save_badge now bid f d =
     (let bs = update_where (\<lambda>b. b_id b = bid) (orm_badge now f) (badges d) in
      checked (\<forall>b\<in>set bs. b_id b = bid \<longrightarrow> badge_fits b)
        (\<forall>b\<in>set bs. b_id b = bid \<longrightarrow> slug_free b bs) (d\<lparr>badges := bs\<rparr>))"

text \<open>The foreign keys of a user's rows are declared \<open>ON DELETE CASCADE\<close>.\<close>

definition delete_badges :: "(badge \<Rightarrow> bool) \<Rightarrow> database \<Rightarrow> database" where
  "delete_badges P d = (let bs = delete_where P (badges d) in
     d\<lparr>badges := bs,
       badge_hashtags := filter (\<lambda>h. bh_badge_id h \<in> b_id ` set bs) (badge_hashtags d)\<rparr>)"

definition delete_user :: "uuid \<Rightarrow> database \<Rightarrow> database" where
  "delete_user uid d = (delete_badges (\<lambda>b. b_organiser_id b = uid) d)
     \<lparr>users := delete_where (\<lambda>u. u_id u = uid) (users d),
      auth_providers := delete_where (\<lambda>a. ap_user_id a = uid) (auth_providers d),
      refresh_tokens := delete_where (\<lambda>t. rt_user_id t = uid) (refresh_tokens d),
      notifications := delete_where (\<lambda>n. n_user_id n = uid) (notifications d),
      preferences := delete_where (\<lambda>p. np_user_id p = uid) (preferences d),
      user_roles := delete_where (\<lambda>r. ur_user_id r = uid) (user_roles d)\<rparr>"

section \<open>The invariant\<close>

definition access_ok :: "int \<Rightarrow> string option \<Rightarrow> bool" where
  "access_ok t c = ((t = 0 \<and> c = None) \<or>
     (t = 1 \<and> (case c of None \<Rightarrow> False | Some code \<Rightarrow> 4 \<le> length code \<and> length code \<le> 10)))"

definition badge_row_ok :: "badge \<Rightarrow> bool" where
  "badge_row_ok b =
     ((b_is_published b \<longrightarrow> b_share_slug b \<noteq> None \<and> b_share_slug b \<noteq> Some []
         \<and> b_published_at b \<noteq> None \<and> b_deleted_at b = None)
      \<and> (\<not> b_is_published b \<longrightarrow> b_published_at b = None)
      \<and> access_ok (b_access_type b) (b_access_code b)
      \<and> 0 \<le> b_share_count b \<and> 0 \<le> b_creation_count b)"

definition user_ids :: "database \<Rightarrow> uuid set" where
  "user_ids d = u_id ` set (users d)"

definition badge_ids :: "database \<Rightarrow> uuid set" where
  "badge_ids d = b_id ` set (badges d)"

definition template_ids :: "database \<Rightarrow> uuid set" where
  "template_ids d = pt_id ` set (platform_templates d)"

definition users_ok :: "user list \<Rightarrow> bool" where
  "users_ok us = (unique_on u_id us \<and> unique_on u_email us)"

definition providers_ok :: "uuid set \<Rightarrow> auth_provider list \<Rightarrow> bool" where
  "providers_ok U as = (unique_on ap_id as
     \<and> unique_on (\<lambda>a. (ap_provider a, ap_user_id a)) as
     \<and> unique_on (\<lambda>a. (ap_provider a, ap_provider_user_id a))
         (filter (\<lambda>a. ap_provider_user_id a \<noteq> None) as)
     \<and> ap_user_id ` set as \<subseteq> U)"

definition tokens_ok :: "uuid set \<Rightarrow> refresh_token list \<Rightarrow> bool" where
  "tokens_ok U ts = (unique_on rt_id ts \<and> unique_on rt_token_hash ts \<and> rt_user_id ` set ts \<subseteq> U)"

definition badges_ok :: "uuid set \<Rightarrow> uuid set \<Rightarrow> badge list \<Rightarrow> bool" where
  "badges_ok U T bs = (unique_on b_id bs
     \<and> unique_on b_share_slug (filter (\<lambda>b. b_share_slug b \<noteq> None) bs)
     \<and> b_organiser_id ` set bs \<subseteq> U \<and> b_platform_template_id ` set bs \<subseteq> T
     \<and> (\<forall>b\<in>set bs. badge_row_ok b))"

definition hashtags_ok :: "uuid set \<Rightarrow> badge_hashtag list \<Rightarrow> bool" where
  "hashtags_ok B hs = (unique_on bh_id hs \<and> bh_badge_id ` set hs \<subseteq> B)"

definition templates_ok :: "platform_template list \<Rightarrow> bool" where
  "templates_ok ts = (unique_on pt_id ts)"

definition notifications_ok :: "uuid set \<Rightarrow> notification list \<Rightarrow> bool" where
  "notifications_ok U ns = (unique_on n_id ns \<and> n_user_id ` set ns \<subseteq> U)"

definition preferences_ok :: "uuid set \<Rightarrow> user_notification_preference list \<Rightarrow> bool" where
  "preferences_ok U ps = (unique_on np_id ps \<and> unique_on np_user_id ps \<and> np_user_id ` set ps \<subseteq> U)"

definition subscribers_ok :: "newsletter_subscriber list \<Rightarrow> bool" where
  "subscribers_ok ss = (unique_on ns_id ss \<and> unique_on ns_email ss \<and> unique_on ns_unsubscribe_token ss
     \<and> (\<forall>s\<in>set ss. ns_is_active s \<longleftrightarrow> ns_unsubscribed_at s = None))"

definition roles_ok :: "uuid set \<Rightarrow> role list \<Rightarrow> user_role list \<Rightarrow> bool" where
  "roles_ok U rs ls = (unique_on r_id rs \<and> unique_on r_name rs \<and> unique_on ur_id ls
     \<and> unique_on (\<lambda>l. (ur_user_id l, ur_role_id l)) ls
     \<and> ur_user_id ` set ls \<subseteq> U \<and> ur_role_id ` set ls \<subseteq> r_id ` set rs)"

definition db_wf :: "database \<Rightarrow> bool" where
  "db_wf d = (users_ok (users d)
     \<and> providers_ok (user_ids d) (auth_providers d)
     \<and> tokens_ok (user_ids d) (refresh_tokens d)
     \<and> badges_ok (user_ids d) (template_ids d) (badges d)
     \<and> hashtags_ok (badge_ids d) (badge_hashtags d)
     \<and> templates_ok (platform_templates d)
     \<and> notifications_ok (user_ids d) (notifications d)
     \<and> preferences_ok (user_ids d) (preferences d)
     \<and> subscribers_ok (subscribers d)
     \<and> roles_ok (user_ids d) (roles d) (user_roles d))"

lemmas table_ok_defs = users_ok_def providers_ok_def tokens_ok_def badges_ok_def hashtags_ok_def
  templates_ok_def notifications_ok_def preferences_ok_def subscribers_ok_def roles_ok_def

lemma db_wf_empty: "db_wf empty_db"
  by (simp add: db_wf_def empty_db_def table_ok_defs)

lemma checked_Inr [simp]: "checked f h x = Inr y \<longleftrightarrow> f \<and> h \<and> y = x"
  by (auto simp: checked_def)

lemma checked_Inl [simp]: "checked f h x = Inl e \<longleftrightarrow> (\<not> f \<and> e = DataError) \<or> (f \<and> \<not> h \<and> e = IntegrityError)"
  by (auto simp: checked_def)

lemma ids_simps [simp]:
  "user_ids (d\<lparr>users := us\<rparr>) = u_id ` set us"
  "user_ids (d\<lparr>auth_providers := as\<rparr>) = user_ids d"
  "user_ids (d\<lparr>refresh_tokens := ts\<rparr>) = user_ids d"
  "user_ids (d\<lparr>badges := bs\<rparr>) = user_ids d"
  "user_ids (d\<lparr>badge_hashtags := hs\<rparr>) = user_ids d"
  "user_ids (d\<lparr>platform_templates := pts\<rparr>) = user_ids d"
  "user_ids (d\<lparr>notifications := ns\<rparr>) = user_ids d"
  "user_ids (d\<lparr>preferences := ps\<rparr>) = user_ids d"
  "user_ids (d\<lparr>subscribers := ss\<rparr>) = user_ids d"
  "user_ids (d\<lparr>user_roles := ls\<rparr>) = user_ids d"
  "user_ids (d\<lparr>roles := rs\<rparr>) = user_ids d"
  "badge_ids (d\<lparr>users := us\<rparr>) = badge_ids d"
  "badge_ids (d\<lparr>auth_providers := as\<rparr>) = badge_ids d"
  "badge_ids (d\<lparr>refresh_tokens := ts\<rparr>) = badge_ids d"
  "badge_ids (d\<lparr>badges := bs\<rparr>) = b_id ` set bs"
  "badge_ids (d\<lparr>badge_hashtags := hs\<rparr>) = badge_ids d"
  "badge_ids (d\<lparr>platform_templates := pts\<rparr>) = badge_ids d"
  "badge_ids (d\<lparr>notifications := ns\<rparr>) = badge_ids d"
  "badge_ids (d\<lparr>preferences := ps\<rparr>) = badge_ids d"
  "badge_ids (d\<lparr>subscribers := ss\<rparr>) = badge_ids d"
  "badge_ids (d\<lparr>user_roles := ls\<rparr>) = badge_ids d"
  "badge_ids (d\<lparr>roles := rs\<rparr>) = badge_ids d"
  "template_ids (d\<lparr>users := us\<rparr>) = template_ids d"
  "template_ids (d\<lparr>auth_providers := as\<rparr>) = template_ids d"
  "template_ids (d\<lparr>refresh_tokens := ts\<rparr>) = template_ids d"
  "template_ids (d\<lparr>badges := bs\<rparr>) = template_ids d"
  "template_ids (d\<lparr>badge_hashtags := hs\<rparr>) = template_ids d"
  "template_ids (d\<lparr>platform_templates := pts\<rparr>) = pt_id ` set pts"
  "template_ids (d\<lparr>notifications := ns\<rparr>) = template_ids d"
  "template_ids (d\<lparr>preferences := ps\<rparr>) = template_ids d"
  "template_ids (d\<lparr>subscribers := ss\<rparr>) = template_ids d"
  "template_ids (d\<lparr>user_roles := ls\<rparr>) = template_ids d"
  "template_ids (d\<lparr>roles := rs\<rparr>) = template_ids d"
  by (simp_all add: user_ids_def badge_ids_def template_ids_def)

section \<open>Inserts keep the invariant\<close>

lemma insert_user_wf:
  assumes "db_wf d" "insert_user u d = Inr d'"
  shows "db_wf d'"
proof -
  from assms(2) have d': "d' = d\<lparr>users := users d @ [u]\<rparr>"
    and new: "u_id u \<notin> u_id ` set (users d)" "u_email u \<notin> u_email ` set (users d)"
    by (auto simp: insert_user_def)
  have sub: "user_ids d \<subseteq> user_ids d'" by (auto simp: d' user_ids_def)
  with assms(1) new show ?thesis
    by (auto simp: d' db_wf_def table_ok_defs table_simps dest: subsetD)
qed

lemma insert_auth_provider_wf:
  assumes "db_wf d" "insert_auth_provider a d = Inr d'"
  shows "db_wf d'"
  using assms
  by (auto simp: insert_auth_provider_def db_wf_def providers_ok_def table_simps user_ids_def)

lemma insert_refresh_token_wf:
  assumes "db_wf d" "insert_refresh_token t d = Inr d'"
  shows "db_wf d'"
  using assms
  by (auto simp: insert_refresh_token_def db_wf_def tokens_ok_def table_simps user_ids_def)

lemma badges_ok_snoc:
  assumes "badges_ok U T bs" "b_id b \<notin> b_id ` set bs" "slug_free b bs" "badge_row_ok b"
    "b_organiser_id b \<in> U" "b_platform_template_id b \<in> T"
  shows "badges_ok U T (bs @ [b])"
proof -
  have ne: "b_id x \<noteq> b_id b" if "x \<in> set bs" for x using assms(2) that by (metis image_eqI)
  show ?thesis
    using assms ne by (auto simp: badges_ok_def slug_free_def table_simps)
qed

lemma insert_badge_wf:
  assumes "db_wf d" "insert_badge b d = Inr d'" "badge_row_ok b"
  shows "db_wf d'"
proof -
  from assms(2) have d': "d' = d\<lparr>badges := badges d @ [b]\<rparr>"
    and new: "b_id b \<notin> b_id ` set (badges d)" "slug_free b (badges d)"
      "b_organiser_id b \<in> user_ids d" "b_platform_template_id b \<in> template_ids d"
    by (auto simp: insert_badge_def user_ids_def template_ids_def)
  with assms(1,3) have "badges_ok (user_ids d) (template_ids d) (badges d @ [b])"
    by (simp add: db_wf_def badges_ok_snoc)
  moreover have "badge_ids d \<subseteq> badge_ids d'" by (auto simp: d' badge_ids_def)
  ultimately show ?thesis
    using assms(1) by (auto simp: d' db_wf_def hashtags_ok_def dest: subsetD)
qed

lemma insert_hashtag_wf:
  assumes "db_wf d" "insert_hashtag h d = Inr d'"
  shows "db_wf d'"
  using assms
  by (auto simp: insert_hashtag_def db_wf_def hashtags_ok_def table_simps badge_ids_def)

lemma insert_template_wf:
  assumes "db_wf d" "insert_template t d = Inr d'"
  shows "db_wf d'"
  using assms
  by (auto simp: insert_template_def db_wf_def templates_ok_def badges_ok_def table_simps template_ids_def)

lemma insert_notification_wf:
  assumes "db_wf d" "insert_notification n d = Inr d'"
  shows "db_wf d'"
  using assms
  by (auto simp: insert_notification_def db_wf_def notifications_ok_def table_simps user_ids_def)

lemma insert_subscriber_wf:
  assumes "db_wf d" "insert_subscriber s d = Inr d'" "ns_is_active s \<longleftrightarrow> ns_unsubscribed_at s = None"
  shows "db_wf d'"
  using assms
  by (auto simp: insert_subscriber_def db_wf_def subscribers_ok_def table_simps)

lemmas insert_wf = insert_user_wf insert_auth_provider_wf insert_refresh_token_wf insert_badge_wf
  insert_hashtag_wf insert_template_wf insert_notification_wf insert_subscriber_wf

section \<open>Updates and deletions keep the invariant\<close>

lemma orm_user_simps [simp]:
  "u_id (orm_user now f u) = u_id (f u)" "u_email (orm_user now f u) = u_email (f u)"
  "u_password_hash (orm_user now f u) = u_password_hash (f u)"
  "u_is_email_verified (orm_user now f u) = u_is_email_verified (f u)"
  by (auto simp: orm_user_def Let_def)

lemma orm_badge_simps [simp]:
  "b_id (orm_badge now f b) = b_id (f b)" "b_share_slug (orm_badge now f b) = b_share_slug (f b)"
  "b_organiser_id (orm_badge now f b) = b_organiser_id (f b)"
  "b_platform_template_id (orm_badge now f b) = b_platform_template_id (f b)"
  "badge_row_ok (orm_badge now f b) = badge_row_ok (f b)"
  by (auto simp: orm_badge_def Let_def badge_row_ok_def)

lemma orm_template_simps [simp]:
  "pt_id (orm_template now f t) = pt_id (f t)"
  by (auto simp: orm_template_def Let_def)

lemma image_update_where:
  "(\<And>r. k (f r) = k r) \<Longrightarrow> k ` set (update_where P f t) = k ` set t"
  by (metis list.set_map map_update_where)

lemma set_users_wf:
  assumes "db_wf d" "u_id ` set us = user_ids d" "users_ok us"
  shows "db_wf (d\<lparr>users := us\<rparr>)"
  using assms by (simp add: db_wf_def)

lemma save_user_wf:
  assumes "db_wf d" "save_user now uid f d = Inr d'" "\<And>u. u_id (f u) = u_id u"
  shows "db_wf d'"
proof -
  let ?us = "update_where (\<lambda>u. u_id u = uid) (orm_user now f) (users d)"
  from assms(2) have d': "d' = d\<lparr>users := ?us\<rparr>" and e: "unique_on u_email ?us"
    by (auto simp: save_user_def Let_def)
  have "unique_on u_id ?us" using assms(1,3)
    by (simp add: unique_on_update_where db_wf_def users_ok_def)
  moreover have "u_id ` set ?us = user_ids d"
    by (simp add: image_update_where assms(3) user_ids_def)
  ultimately show ?thesis unfolding d' using assms(1) e by (intro set_users_wf) (auto simp: users_ok_def)
qed

lemma update_tokens_wf:
  assumes "db_wf d" "\<And>t. rt_id (f t) = rt_id t" "\<And>t. rt_token_hash (f t) = rt_token_hash t"
    "\<And>t. rt_user_id (f t) = rt_user_id t"
  shows "db_wf (d\<lparr>refresh_tokens := update_where P f (refresh_tokens d)\<rparr>)"
  using assms by (simp add: db_wf_def tokens_ok_def unique_on_update_where image_update_where)

lemma delete_tokens_wf:
  "db_wf d \<Longrightarrow> db_wf (d\<lparr>refresh_tokens := delete_where P (refresh_tokens d)\<rparr>)"
  by (auto simp: db_wf_def tokens_ok_def unique_on_delete_where)

lemma update_notifications_wf:
  assumes "db_wf d" "\<And>n. n_id (f n) = n_id n" "\<And>n. n_user_id (f n) = n_user_id n"
  shows "db_wf (d\<lparr>notifications := update_where P f (notifications d)\<rparr>)"
  using assms by (simp add: db_wf_def notifications_ok_def unique_on_update_where image_update_where)

lemma update_templates_wf:
  assumes "db_wf d" "\<And>t. pt_id (f t) = pt_id t"
  shows "db_wf (d\<lparr>platform_templates := update_where P f (platform_templates d)\<rparr>)"
  using assms
  by (simp add: db_wf_def templates_ok_def unique_on_update_where image_update_where template_ids_def)

lemma delete_hashtags_wf:
  "db_wf d \<Longrightarrow> db_wf (d\<lparr>badge_hashtags := delete_where P (badge_hashtags d)\<rparr>)"
  by (auto simp: db_wf_def hashtags_ok_def unique_on_delete_where)

lemma set_badges_wf:
  assumes "db_wf d" "b_id ` set bs = badge_ids d" "badges_ok (user_ids d) (template_ids d) bs"
  shows "db_wf (d\<lparr>badges := bs\<rparr>)"
  using assms by (simp add: db_wf_def)

text \<open>A change of badges that keeps keys and slugs, and rows well formed.\<close>

lemma update_badges_wf:
  assumes "db_wf d" "\<And>b. b_id (f b) = b_id b" "\<And>b. b_share_slug (f b) = b_share_slug b"
    "\<And>b. b_organiser_id (f b) = b_organiser_id b"
    "\<And>b. b_platform_template_id (f b) = b_platform_template_id b"
    "\<And>b. b \<in> set (badges d) \<Longrightarrow> P b \<Longrightarrow> badge_row_ok b \<Longrightarrow> badge_row_ok (f b)"
  shows "db_wf (d\<lparr>badges := update_where P f (badges d)\<rparr>)"
proof (rule set_badges_wf [OF assms(1)])
  let ?bs = "update_where P f (badges d)"
  show "b_id ` set ?bs = badge_ids d" by (simp add: image_update_where assms(2) badge_ids_def)
  have "filter (\<lambda>b. b_share_slug b \<noteq> None) ?bs = update_where P f (filter (\<lambda>b. b_share_slug b \<noteq> None) (badges d))"
    by (rule filter_update_where_same) (simp add: assms(3))
  moreover have "\<forall>b\<in>set ?bs. badge_row_ok b"
    using assms(1,6) by (auto simp: set_update_where db_wf_def badges_ok_def)
  ultimately show "badges_ok (user_ids d) (template_ids d) ?bs"
    using assms(1) by (simp add: badges_ok_def db_wf_def unique_on_update_where image_update_where assms(2-5))
qed

lemma unique_on_filter: "unique_on k t \<Longrightarrow> unique_on k (filter P t)"
  by (simp add: unique_on_def distinct_map_filter)

lemma unique_slugs_upd:
  assumes "unique_on b_id bs" "unique_on b_share_slug (filter (\<lambda>b. b_share_slug b \<noteq> None) bs)"
    "\<And>b. b_id (f b) = b_id b"
    "\<forall>b\<in>set (update_where (\<lambda>b. b_id b = bid) f bs). b_id b = bid \<longrightarrow>
       slug_free b (update_where (\<lambda>b. b_id b = bid) f bs)"
  shows "unique_on b_share_slug (filter (\<lambda>b. b_share_slug b \<noteq> None) (update_where (\<lambda>b. b_id b = bid) f bs))"
proof -
  let ?bs = "update_where (\<lambda>b. b_id b = bid) f bs"
  have ids: "distinct (map b_id ?bs)"
    using assms(1,3) by (simp add: unique_on_def map_update_where)
  have same: "x = y" if "x \<in> set ?bs" "y \<in> set ?bs" "b_share_slug x = b_share_slug y" "b_share_slug x \<noteq> None" for x y
  proof (cases "b_id x = b_id y")
    case True
    then show ?thesis using ids that(1,2) by (auto simp: distinct_map dest: inj_onD)
  next
    case False
    have nx: "b_id x \<noteq> bid"
      using assms(4) that False by (auto simp: slug_free_def)
    have ny: "b_id y \<noteq> bid"
      using assms(4) that False by (auto simp: slug_free_def)
    from that(1) nx have x: "x \<in> set bs" using assms(3) by (auto simp: set_update_where)
    from that(2) ny have y: "y \<in> set bs" using assms(3) by (auto simp: set_update_where)
    show ?thesis
      using unique_onD [OF assms(2), of x y] x y that(3,4) by simp
  qed
  have "distinct ?bs" using ids by (simp add: distinct_map)
  then show ?thesis
    unfolding unique_on_def distinct_map using same by (auto intro!: inj_onI)
qed

lemma save_badge_wf:
  assumes "db_wf d" "save_badge now bid f d = Inr d'" "\<And>b. b_id (f b) = b_id b"
    "\<And>b. b_organiser_id (f b) = b_organiser_id b"
    "\<And>b. b_platform_template_id (f b) = b_platform_template_id b"
    "\<And>b. b \<in> set (badges d) \<Longrightarrow> b_id b = bid \<Longrightarrow> badge_row_ok b \<Longrightarrow> badge_row_ok (f b)"
  shows "db_wf d'"
proof -
  let ?bs = "update_where (\<lambda>b. b_id b = bid) (orm_badge now f) (badges d)"
  from assms(2) have d': "d' = d\<lparr>badges := ?bs\<rparr>"
    and free: "\<forall>b\<in>set ?bs. b_id b = bid \<longrightarrow> slug_free b ?bs"
    by (auto simp: save_badge_def Let_def)
  have wf: "badges_ok (user_ids d) (template_ids d) (badges d)" using assms(1) by (simp add: db_wf_def)
  have "unique_on b_share_slug (filter (\<lambda>b. b_share_slug b \<noteq> None) ?bs)"
    using wf free by (intro unique_slugs_upd) (auto simp: badges_ok_def assms(3))
  moreover have "\<forall>b\<in>set ?bs. badge_row_ok b"
    using wf assms(6) by (auto simp: set_update_where badges_ok_def)
  ultimately have "badges_ok (user_ids d) (template_ids d) ?bs"
    using wf by (simp add: badges_ok_def unique_on_update_where image_update_where assms(3-5))
  moreover have "b_id ` set ?bs = badge_ids d"
    by (simp add: image_update_where assms(3) badge_ids_def)
  ultimately show ?thesis unfolding d' using set_badges_wf [OF assms(1)] by blast
qed

lemma delete_badges_wf: "db_wf d \<Longrightarrow> db_wf (delete_badges P d)"
  by (auto simp: db_wf_def delete_badges_def Let_def badges_ok_def hashtags_ok_def unique_on_delete_where
      unique_on_filter delete_where_def filter_filter conj_commute
      intro: unique_on_filter dest: unique_on_filter [where P = "\<lambda>b. \<not> P b"])

lemma delete_user_wf:
  assumes "db_wf d"
  shows "db_wf (delete_user uid d)"
proof -
  have "providers_ok U as \<Longrightarrow> providers_ok (U - {uid}) (delete_where (\<lambda>a. ap_user_id a = uid) as)" for U as
    by (auto simp: providers_ok_def unique_on_delete_where delete_where_def unique_on_filter filter_filter conj_commute
        dest: unique_on_filter [where P = "\<lambda>a. ap_user_id a \<noteq> uid"])
  moreover have "tokens_ok U ts \<Longrightarrow> tokens_ok (U - {uid}) (delete_where (\<lambda>t. rt_user_id t = uid) ts)" for U ts
    by (auto simp: tokens_ok_def unique_on_delete_where)
  moreover have "notifications_ok U ns \<Longrightarrow> notifications_ok (U - {uid}) (delete_where (\<lambda>n. n_user_id n = uid) ns)" for U ns
    by (auto simp: notifications_ok_def unique_on_delete_where)
  moreover have "preferences_ok U ps \<Longrightarrow> preferences_ok (U - {uid}) (delete_where (\<lambda>p. np_user_id p = uid) ps)" for U ps
    by (auto simp: preferences_ok_def unique_on_delete_where)
  moreover have "roles_ok U rs ls \<Longrightarrow> roles_ok (U - {uid}) rs (delete_where (\<lambda>l. ur_user_id l = uid) ls)" for U rs ls
    by (auto simp: roles_ok_def unique_on_delete_where)
  moreover have "users_ok us \<Longrightarrow> users_ok (delete_where (\<lambda>u. u_id u = uid) us)" for us
    by (auto simp: users_ok_def unique_on_delete_where)
  moreover have "user_ids (delete_user uid d) = user_ids d - {uid}"
    by (auto simp: user_ids_def delete_user_def delete_badges_def Let_def)
  moreover have "badges_ok U T bs \<Longrightarrow> badges_ok (U - {uid}) T (delete_where (\<lambda>b. b_organiser_id b = uid) bs)" for U T bs
    by (auto simp: badges_ok_def unique_on_delete_where delete_where_def unique_on_filter filter_filter conj_commute
        dest: unique_on_filter [where P = "\<lambda>b. b_organiser_id b \<noteq> uid"])
  ultimately show ?thesis
    using delete_badges_wf [OF assms, of "\<lambda>b. b_organiser_id b = uid"] assms
    by (auto simp: db_wf_def delete_user_def delete_badges_def Let_def badge_ids_def template_ids_def)
qed

lemmas change_wf = save_user_wf update_tokens_wf delete_tokens_wf update_notifications_wf update_templates_wf
  delete_hashtags_wf update_badges_wf save_badge_wf delete_badges_wf delete_user_wf

end
