(* ===== verification/Token.thy ===== *)
theory Token
  imports World
begin

text \<open>
  The tokens of \<open>app/core/token.py\<close> and the login attempt counter of
  \<open>app/services/auth.py\<close>: everything the application keeps in Redis.  What Redis promises is
  the locale \<open>redis_contract\<close>; the stores built on it are shown to be stores of one-time
  tokens (locale \<open>one_time_store\<close>), whatever the other requests do in between.  The functions
  take the environment, the instant and the Redis state \<open>r\<close>, and return the new state; random
  draws are arguments.
\<close>

section \<open>Tokens\<close>

definition hash_token :: "'r env \<Rightarrow> string \<Rightarrow> string" where
  "hash_token e token = sha256_hex e token"

text \<open>\<open>raw_token\<close> is the draw of \<open>secrets.token_urlsafe(32)\<close>.\<close>

definition generate_token :: "'r env \<Rightarrow> string \<Rightarrow> string \<times> string" where
  "generate_token e raw_token = (raw_token, hash_token e raw_token)"

definition blacklist_token :: "'r env \<Rightarrow> time \<Rightarrow> string \<Rightarrow> int \<Rightarrow> 'r \<Rightarrow> 'r" where
  "blacklist_token e now jti remaining_seconds r =
     (if remaining_seconds > 0
      then rd_set_ex (redis e) r now (BLACKLIST_PREFIX (cfg e) @ jti) ''1'' remaining_seconds
      else r)"

definition is_token_blacklisted :: "'r env \<Rightarrow> time \<Rightarrow> string \<Rightarrow> 'r \<Rightarrow> bool" where
  "is_token_blacklisted e now jti r = rd_exists (redis e) r now (BLACKLIST_PREFIX (cfg e) @ jti)"

definition store_verification_token :: "'r env \<Rightarrow> time \<Rightarrow> string \<Rightarrow> string \<Rightarrow> 'r \<Rightarrow> 'r" where
  "store_verification_token e now token_hash user_id r =
     (let ttl_seconds = VERIFICATION_TOKEN_TTL_MINUTES (cfg e) * 60;
          r = rd_set_ex (redis e) r now (TOKEN_PREFIX (cfg e) @ token_hash) user_id ttl_seconds
      in rd_set_ex (redis e) r now (TOKEN_USER_PREFIX (cfg e) @ user_id) token_hash ttl_seconds)"

definition get_verified_user_id :: "'r env \<Rightarrow> time \<Rightarrow> string \<Rightarrow> 'r \<Rightarrow> string option \<times> 'r" where
  "get_verified_user_id e now token_hash r =
     (case rd_getdel (redis e) r now (TOKEN_PREFIX (cfg e) @ token_hash) of
        (Some user_id, r) \<Rightarrow>
          if user_id \<noteq> [] then (Some user_id, rd_delete (redis e) r now (TOKEN_USER_PREFIX (cfg e) @ user_id))
          else (None, r)
      | (None, r) \<Rightarrow> (None, r))"

definition create_access_token :: "'r env \<Rightarrow> time \<Rightarrow> string \<Rightarrow> uuid \<Rightarrow> string" where
  "create_access_token e now jti user_id =
     (let expire = now + seconds (ACCESS_TOKEN_EXPIRE_MINUTES (cfg e) * 60);
          payload = \<lparr>cl_sub = Some (uuid_str user_id), cl_exp = Some (timestamp expire),
            cl_iat = Some (timestamp now), cl_type = None, cl_jti = Some jti\<rparr>
      in jwt_encode e payload (SECRET_KEY (cfg e)) (ALGORITHM (cfg e)))"

definition create_refresh_token :: "'r env \<Rightarrow> time \<Rightarrow> string \<Rightarrow> uuid \<Rightarrow> string \<times> time" where
  "create_refresh_token e now jti user_id =
     (let expire = now + seconds (REFRESH_TOKEN_EXPIRE_DAYS (cfg e) * 86400);
          payload = \<lparr>cl_sub = Some (uuid_str user_id), cl_exp = Some (timestamp expire),
            cl_iat = Some (timestamp now), cl_type = Some ''refresh'', cl_jti = Some jti\<rparr>
      in (jwt_encode e payload (SECRET_KEY (cfg e)) (ALGORITHM (cfg e)), expire))"

definition store_password_reset_token :: "'r env \<Rightarrow> time \<Rightarrow> string \<Rightarrow> string \<Rightarrow> 'r \<Rightarrow> 'r" where
  "store_password_reset_token e now token_hash user_id r =
     (let ttl_seconds = PASSWORD_RESET_TOKEN_TTL_MINUTES (cfg e) * 60
      in rd_set_ex (redis e) r now (PASSWORD_RESET_PREFIX (cfg e) @ token_hash) user_id ttl_seconds)"

definition get_password_reset_user_id :: "'r env \<Rightarrow> time \<Rightarrow> string \<Rightarrow> 'r \<Rightarrow> string option \<times> 'r" where
  "get_password_reset_user_id e now token_hash r =
     rd_getdel (redis e) r now (PASSWORD_RESET_PREFIX (cfg e) @ token_hash)"

definition store_google_oauth_state :: "'r env \<Rightarrow> time \<Rightarrow> string \<Rightarrow> 'r \<Rightarrow> 'r" where
  "store_google_oauth_state e now state r =
     (let ttl_seconds = GOOGLE_OAUTH_STATE_TTL_MINUTES (cfg e) * 60
      in rd_set_ex (redis e) r now (GOOGLE_STATE_PREFIX (cfg e) @ state) ''1'' ttl_seconds)"

definition get_google_oauth_state :: "'r env \<Rightarrow> time \<Rightarrow> string \<Rightarrow> 'r \<Rightarrow> bool \<times> 'r" where
  "get_google_oauth_state e now state r =
     (case rd_getdel (redis e) r now (GOOGLE_STATE_PREFIX (cfg e) @ state) of
        (None, r) \<Rightarrow> (False, r)
      | (Some _, r) \<Rightarrow> (True, r))"

definition revoke_previous_verification_token :: "'r env \<Rightarrow> time \<Rightarrow> string \<Rightarrow> 'r \<Rightarrow> 'r" where
  "revoke_previous_verification_token e now user_id r =
     (let user_index_key = TOKEN_USER_PREFIX (cfg e) @ user_id in
      case rd_get (redis e) r now user_index_key of
        None \<Rightarrow> r
      | Some old_hash \<Rightarrow>
          if old_hash = [] then r
          else rd_delete (redis e)
                 (rd_delete (redis e) r now (TOKEN_PREFIX (cfg e) @ old_hash)) now user_index_key)"

section \<open>Login attempts\<close>

definition check_lockout :: "'r env \<Rightarrow> time \<Rightarrow> string \<Rightarrow> 'r \<Rightarrow> app_error + unit" where
  "check_lockout e now identifier r =
     (let key = FAILED_LOGIN_PREFIX (cfg e) @ identifier in
      case rd_get (redis e) r now key of
        None \<Rightarrow> Inr ()
      | Some attempts \<Rightarrow>
          if attempts = [] then Inr ()
          else (case py_int attempts of
              None \<Rightarrow> Inl (ValueError ''invalid literal for int() with base 10'')
            | Some n \<Rightarrow>
                if n \<ge> MAX_LOGIN_ATTEMPTS (cfg e)
                then (let ttl = rd_ttl (redis e) r now key;
                          minutes = (if ttl \<noteq> 0 \<and> ttl > 0 then max 1 (ttl div 60) else 1)
                      in Inl (AccountLockedError
                           (''Account locked. Try again in '' @ py_str minutes @ '' minute(s).'')))
                else Inr ()))"

definition increment_failed_attempts :: "'r env \<Rightarrow> time \<Rightarrow> string \<Rightarrow> 'r \<Rightarrow> int \<times> 'r" where
  "increment_failed_attempts e now identifier r =
     (let key = FAILED_LOGIN_PREFIX (cfg e) @ identifier;
          (count, r) = rd_incr (redis e) r now key;
          r = (if count = 1 then rd_expire (redis e) r now key (LOCKOUT_WINDOW (cfg e)) else r)
      in (count, r))"

definition reset_attempts :: "'r env \<Rightarrow> time \<Rightarrow> string \<Rightarrow> 'r \<Rightarrow> 'r" where
  "reset_attempts e now identifier r = rd_delete (redis e) r now (FAILED_LOGIN_PREFIX (cfg e) @ identifier)"

section \<open>What Redis promises\<close>

text \<open>
  \<open>view\<close> is the content of a Redis state: a value and the instant it expires.  The laws are the
  documented behaviour of \<open>GET\<close>, \<open>SET EX\<close>, \<open>GETDEL\<close>, \<open>DEL\<close>, \<open>EXISTS\<close>, \<open>INCR\<close>, \<open>EXPIRE\<close> and
  \<open>TTL\<close>; nothing is said of \<open>INCR\<close> on a value that is not a number, nor of the rounding of
  \<open>TTL\<close>.
\<close>

type_synonym redis_view = "string \<Rightarrow> (string \<times> time option) option"

definition live :: "time \<Rightarrow> (string \<times> time option) option \<Rightarrow> string option" where
  "live t x = (case x of None \<Rightarrow> None | Some (v, None) \<Rightarrow> Some v
     | Some (v, Some until) \<Rightarrow> if t < until then Some v else None)"

lemma live_simps [simp]:
  "live t None = None" "live t (Some (v, None)) = Some v"
  "live t (Some (v, Some until)) = (if t < until then Some v else None)"
  by (simp_all add: live_def)

locale redis_contract =
  fixes R :: "'r redis_api" and view :: "'r \<Rightarrow> redis_view"
  assumes get: "rd_get R r t k = live t (view r k)"
    and set_ex: "0 < n \<Longrightarrow> view (rd_set_ex R r t k v n) = (view r)(k \<mapsto> (v, Some (t + seconds n)))"
    and getdel: "fst (rd_getdel R r t k) = live t (view r k)"
    and getdel_state: "view (snd (rd_getdel R r t k)) = (view r)(k := None)"
    and del: "view (rd_delete R r t k) = (view r)(k := None)"
    and ex: "rd_exists R r t k \<longleftrightarrow> live t (view r k) \<noteq> None"
    and incr_new: "live t (view r k) = None \<Longrightarrow>
      fst (rd_incr R r t k) = 1 \<and> view (snd (rd_incr R r t k)) = (view r)(k \<mapsto> (''1'', None))"
    and incr_old: "view r k = Some (v, x) \<Longrightarrow> live t (view r k) = Some v \<Longrightarrow> py_int v = Some n \<Longrightarrow>
      fst (rd_incr R r t k) = n + 1 \<and> view (snd (rd_incr R r t k)) = (view r)(k \<mapsto> (py_str (n + 1), x))"
    and incr_other: "j \<noteq> k \<Longrightarrow> view (snd (rd_incr R r t k)) j = view r j"
    and expire: "live t (view r k) = Some v \<Longrightarrow> 0 < n \<Longrightarrow>
      view (rd_expire R r t k n) = (view r)(k \<mapsto> (v, Some (t + seconds n)))"
    and expire_other: "j \<noteq> k \<Longrightarrow> view (rd_expire R r t k n) j = view r j"
    and ttl: "view r k = Some (v, Some until) \<Longrightarrow> t < until \<Longrightarrow>
      until - seconds 1 \<le> t + seconds (rd_ttl R r t k) \<and> t + seconds (rd_ttl R r t k) \<le> until + seconds 1"

text \<open>A concrete Redis that keeps the contract: its state is its view.\<close>

definition ttl_redis :: "redis_view redis_api" where
  "ttl_redis = \<lparr>
     rd_get = (\<lambda>r t k. live t (r k)),
     rd_set_ex = (\<lambda>r t k v n. r(k \<mapsto> (v, Some (t + seconds n)))),
     rd_getdel = (\<lambda>r t k. (live t (r k), r(k := None))),
     rd_delete = (\<lambda>r t k. r(k := None)),
     rd_exists = (\<lambda>r t k. live t (r k) \<noteq> None),
     rd_incr = (\<lambda>r t k. case live t (r k) of
         None \<Rightarrow> (1, r(k \<mapsto> (''1'', None)))
       | Some v \<Rightarrow> (case py_int v of None \<Rightarrow> (0, r)
           | Some n \<Rightarrow> (n + 1, r(k \<mapsto> (py_str (n + 1), snd (the (r k))))))),
     rd_expire = (\<lambda>r t k n. case live t (r k) of None \<Rightarrow> r
       | Some v \<Rightarrow> r(k \<mapsto> (v, Some (t + seconds n)))),
     rd_ttl = (\<lambda>r t k. case r k of None \<Rightarrow> -2 | Some (v, None) \<Rightarrow> -1
       | Some (v, Some until) \<Rightarrow> if t < until then (until - t) div 1000000 else -2)\<rparr>"

interpretation ttl_redis: redis_contract ttl_redis "\<lambda>r. r"
proof unfold_locales
  fix r :: redis_view and k t v until
  assume a: "r k = Some (v, Some until)" "t < until"
  let ?d = "(until - t) div 1000000"
  have "?d * 1000000 + (until - t) mod 1000000 = until - t" by simp
  moreover have "0 \<le> (until - t) mod 1000000" "(until - t) mod 1000000 < 1000000" by simp_all
  ultimately have "?d * 1000000 \<le> until - t" "until - t < ?d * 1000000 + 1000000" by linarith+
  then show "until - seconds 1 \<le> t + seconds (rd_ttl ttl_redis r t k)
      \<and> t + seconds (rd_ttl ttl_redis r t k) \<le> until + seconds 1"
    using a by (simp add: ttl_redis_def)
qed (auto simp: ttl_redis_def split: option.splits)

section \<open>Commands on the stores\<close>

text \<open>
  The calls the requests make on Redis, as data, so that any interleaving of them is a list.
  The first field is the instant.
\<close>

datatype redis_cmd =
    BlacklistToken time string int
  | StoreVerificationToken time string string
  | GetVerifiedUserId time string
  | StorePasswordResetToken time string string
  | GetPasswordResetUserId time string
  | StoreGoogleOauthState time string
  | GetGoogleOauthState time string
  | RevokePreviousVerificationToken time string
  | IncrementFailedAttempts time string
  | ResetAttempts time string

text \<open>The result is the text read, if any; a count is not a text, so it is dropped.\<close>

fun exec_cmd :: "'r env \<Rightarrow> redis_cmd \<Rightarrow> 'r \<Rightarrow> string option \<times> 'r" where
  "exec_cmd e (BlacklistToken t jti n) r = (None, blacklist_token e t jti n r)"
| "exec_cmd e (StoreVerificationToken t h u) r = (None, store_verification_token e t h u r)"
| "exec_cmd e (GetVerifiedUserId t h) r = get_verified_user_id e t h r"
| "exec_cmd e (StorePasswordResetToken t h u) r = (None, store_password_reset_token e t h u r)"
| "exec_cmd e (GetPasswordResetUserId t h) r = get_password_reset_user_id e t h r"
| "exec_cmd e (StoreGoogleOauthState t st) r = (None, store_google_oauth_state e t st r)"
| "exec_cmd e (GetGoogleOauthState t st) r =
     (case get_google_oauth_state e t st r of (ok, r) \<Rightarrow> (if ok then Some ''1'' else None, r))"
| "exec_cmd e (RevokePreviousVerificationToken t u) r = (None, revoke_previous_verification_token e t u r)"
| "exec_cmd e (IncrementFailedAttempts t i) r = (None, snd (increment_failed_attempts e t i r))"
| "exec_cmd e (ResetAttempts t i) r = (None, reset_attempts e t i r)"

fun run_cmds :: "('c \<Rightarrow> 'r \<Rightarrow> 'v option \<times> 'r) \<Rightarrow> 'c list \<Rightarrow> 'r \<Rightarrow> ('c \<times> 'v option) list \<times> 'r" where
  "run_cmds exec [] r = ([], r)"
| "run_cmds exec (c # cs) r =
     (case exec c r of (v, r1) \<Rightarrow> case run_cmds exec cs r1 of (vs, r2) \<Rightarrow> ((c, v) # vs, r2))"

lemma exec_cmd_google [simp]:
  "fst (exec_cmd e (GetGoogleOauthState t st) r) =
     (if fst (get_google_oauth_state e t st r) then Some ''1'' else None)"
  "snd (exec_cmd e (GetGoogleOauthState t st) r) = snd (get_google_oauth_state e t st r)"
  by (simp_all split: prod.splits)

declare exec_cmd.simps(7) [simp del]

lemma snd_run_cmds_Cons: "snd (run_cmds exec (c # cs) r) = snd (run_cmds exec cs (snd (exec c r)))"
  by (auto split: prod.splits)

lemma run_cmds_append:
  "run_cmds exec (cs @ ds) r =
     (fst (run_cmds exec cs r) @ fst (run_cmds exec ds (snd (run_cmds exec cs r))),
      snd (run_cmds exec ds (snd (run_cmds exec cs r))))"
  by (induction cs arbitrary: r) (auto split: prod.splits)

section \<open>One-time stores\<close>

text \<open>
  A store of one-time values: some commands put a value under a key with an expiry, some take the
  value under a key out, and no other command touches the entries.
\<close>

locale one_time_store =
  fixes entry :: "'r \<Rightarrow> redis_view"
    and exec :: "'c \<Rightarrow> 'r \<Rightarrow> 'v option \<times> 'r"
    and val :: "string \<Rightarrow> 'v"
    and puts :: "'c \<Rightarrow> (string \<times> string \<times> time) option"
    and takes :: "'c \<Rightarrow> (time \<times> string) option"
  assumes put_entry: "puts c = Some (k, v, x) \<Longrightarrow> entry (snd (exec c r)) = (entry r)(k \<mapsto> (v, Some x))"
    and take_value: "takes c = Some (t, k) \<Longrightarrow> fst (exec c r) = map_option val (live t (entry r k))"
    and take_entry: "takes c = Some (t, k) \<Longrightarrow> entry (snd (exec c r)) = (entry r)(k := None)"
    and frame: "puts c = None \<Longrightarrow> takes c = None \<Longrightarrow> entry (snd (exec c r)) = entry r"
begin

definition won :: "string \<Rightarrow> 'c \<times> 'v option \<Rightarrow> bool" where
  "won k cv = ((\<exists>t. takes (fst cv) = Some (t, k)) \<and> snd cv \<noteq> None)"

lemma no_put_gone:
  assumes "\<And>v x. puts c \<noteq> Some (k, v, x)" "entry r k = None"
  shows "entry (snd (exec c r)) k = None"
proof (cases "puts c")
  case None
  then show ?thesis
    using assms(2) frame [of c r] take_entry [of c _ _ r] by (cases "takes c") auto
next
  case (Some p)
  obtain j v x where "p = (j, v, x)" by (cases p)
  with Some assms put_entry [of c j v x r] show ?thesis by auto
qed

lemma gone_stays:
  assumes "\<forall>c\<in>set cs. \<forall>v x. puts c \<noteq> Some (k, v, x)" "entry r k = None"
  shows "filter (won k) (fst (run_cmds exec cs r)) = []"
  using assms
proof (induction cs arbitrary: r)
  case (Cons c cs)
  have "fst (exec c r) = None" if "takes c = Some (t, k)" for t
    using take_value [OF that, of r] Cons.prems(2) by simp
  moreover have "entry (snd (exec c r)) k = None"
    using Cons.prems by (intro no_put_gone) auto
  ultimately show ?case
    using Cons.IH [of "snd (exec c r)"] Cons.prems(1)
    by (auto simp: won_def split: prod.splits)
qed simp

text \<open>However the commands are interleaved, a value that is not put again is taken once at most.\<close>

theorem single_use:
  assumes "\<forall>c\<in>set cs. \<forall>v x. puts c \<noteq> Some (k, v, x)"
  shows "length (filter (won k) (fst (run_cmds exec cs r))) \<le> 1"
  using assms
proof (induction cs arbitrary: r)
  case (Cons c cs)
  show ?case
  proof (cases "\<exists>t. takes c = Some (t, k)")
    case True
    then have "entry (snd (exec c r)) k = None" using take_entry by fastforce
    then have "filter (won k) (fst (run_cmds exec cs (snd (exec c r)))) = []"
      using Cons.prems by (intro gone_stays) auto
    then show ?thesis by (auto split: prod.splits)
  next
    case False
    then show ?thesis
      using Cons.IH [of "snd (exec c r)"] Cons.prems by (auto simp: won_def split: prod.splits)
  qed
qed simp

text \<open>Until it is put or taken, an entry stays.\<close>

lemma untouched_stays:
  assumes "\<forall>c\<in>set cs. (\<forall>v x. puts c \<noteq> Some (k, v, x)) \<and> (\<forall>t. takes c \<noteq> Some (t, k))"
  shows "entry (snd (run_cmds exec cs r)) k = entry r k"
  using assms
proof (induction cs arbitrary: r)
  case (Cons c cs)
  have "entry (snd (exec c r)) k = entry r k"
  proof (cases "puts c")
    case None
    then show ?thesis
      using Cons.prems frame [of c r] take_entry [of c _ _ r] by (cases "takes c") auto
  next
    case (Some p)
    obtain j v x where "p = (j, v, x)" by (cases p)
    with Some Cons.prems put_entry [of c j v x r] show ?thesis by auto
  qed
  with Cons.IH [of "snd (exec c r)"] Cons.prems show ?case by (auto split: prod.splits)
qed simp

text \<open>A value is taken out as it was put, up to its expiry.\<close>

theorem roundtrip:
  assumes "puts p = Some (k, v, x)" "takes q = Some (t, k)"
    and "\<forall>c\<in>set cs. (\<forall>v x. puts c \<noteq> Some (k, v, x)) \<and> (\<forall>t. takes c \<noteq> Some (t, k))"
  shows "fst (exec q (snd (run_cmds exec (p # cs) r))) = (if t < x then Some (val v) else None)"
proof -
  have "snd (run_cmds exec (p # cs) r) = snd (run_cmds exec cs (snd (exec p r)))"
    by (auto split: prod.splits)
  then have "entry (snd (run_cmds exec (p # cs) r)) k = Some (v, Some x)"
    using untouched_stays [OF assms(3)] put_entry [OF assms(1)] by simp
  then show ?thesis using take_value [OF assms(2)] by simp
qed

end

section \<open>The stores of the application\<close>

definition ttls_positive :: "settings \<Rightarrow> bool" where
  "ttls_positive s = (0 < VERIFICATION_TOKEN_TTL_MINUTES s \<and> 0 < PASSWORD_RESET_TOKEN_TTL_MINUTES s
     \<and> 0 < GOOGLE_OAUTH_STATE_TTL_MINUTES s \<and> 0 < LOCKOUT_WINDOW s)"

lemma ttls_positive_default [simp]: "ttls_positive (default_settings k u)"
  by (simp add: ttls_positive_def default_settings_def)

text \<open>The part of a view under one prefix, and the commands of two of the stores.\<close>

definition under :: "string \<Rightarrow> redis_view \<Rightarrow> redis_view" where
  "under p m k = m (p @ k)"

fun reset_puts :: "settings \<Rightarrow> redis_cmd \<Rightarrow> (string \<times> string \<times> time) option" where
  "reset_puts s (StorePasswordResetToken t h u) =
     Some (h, u, t + seconds (PASSWORD_RESET_TOKEN_TTL_MINUTES s * 60))"
| "reset_puts s _ = None"

fun reset_takes :: "redis_cmd \<Rightarrow> (time \<times> string) option" where
  "reset_takes (GetPasswordResetUserId t h) = Some (t, h)"
| "reset_takes _ = None"

fun state_puts :: "settings \<Rightarrow> redis_cmd \<Rightarrow> (string \<times> string \<times> time) option" where
  "state_puts s (StoreGoogleOauthState t st) =
     Some (st, ''1'', t + seconds (GOOGLE_OAUTH_STATE_TTL_MINUTES s * 60))"
| "state_puts s _ = None"

fun state_takes :: "redis_cmd \<Rightarrow> (time \<times> string) option" where
  "state_takes (GetGoogleOauthState t st) = Some (t, st)"
| "state_takes _ = None"

lemma under_upd_same [simp]: "under p (m(p @ k := x)) = (under p m)(k := x)"
  by (auto simp: under_def)

lemma under_upd_other: "(\<And>b. j \<noteq> p @ b) \<Longrightarrow> under p (m(j := x)) = under p m"
  unfolding under_def by (rule ext, simp) (metis)

locale token_stores =
  fixes e :: "'r env" and view :: "'r \<Rightarrow> redis_view"
  assumes redis_law: "redis_contract (redis e) view"
    and apart_law: "prefixes_apart (cfg e)"
    and ttls_law: "ttls_positive (cfg e)"

sublocale token_stores \<subseteq> redis_contract "redis e" view
  by (rule redis_law)

context token_stores
begin

lemmas keys_apart = prefixes_apart_keys [OF apart_law] prefixes_apart_keys_sym [OF apart_law]

lemma view_blacklist_token [simp]:
  "view (blacklist_token e t jti n r) =
     (if 0 < n then (view r)(BLACKLIST_PREFIX (cfg e) @ jti \<mapsto> (''1'', Some (t + seconds n))) else view r)"
  by (simp add: blacklist_token_def set_ex)

lemma view_store_verification_token [simp]:
  "view (store_verification_token e t h u r) = (let x = t + seconds (VERIFICATION_TOKEN_TTL_MINUTES (cfg e) * 60)
     in (view r)(TOKEN_PREFIX (cfg e) @ h \<mapsto> (u, Some x), TOKEN_USER_PREFIX (cfg e) @ u \<mapsto> (h, Some x)))"
  using ttls_law by (simp add: store_verification_token_def Let_def ttls_positive_def set_ex)

lemma view_store_password_reset_token [simp]:
  "view (store_password_reset_token e t h u r) =
     (view r)(PASSWORD_RESET_PREFIX (cfg e) @ h \<mapsto>
        (u, Some (t + seconds (PASSWORD_RESET_TOKEN_TTL_MINUTES (cfg e) * 60))))"
  using ttls_law by (simp add: store_password_reset_token_def Let_def ttls_positive_def set_ex)

lemma get_password_reset_user_id [simp]:
  "fst (get_password_reset_user_id e t h r) = live t (view r (PASSWORD_RESET_PREFIX (cfg e) @ h))"
  "view (snd (get_password_reset_user_id e t h r)) = (view r)(PASSWORD_RESET_PREFIX (cfg e) @ h := None)"
  by (simp_all add: get_password_reset_user_id_def getdel getdel_state)

lemma view_store_google_oauth_state [simp]:
  "view (store_google_oauth_state e t st r) =
     (view r)(GOOGLE_STATE_PREFIX (cfg e) @ st \<mapsto>
        (''1'', Some (t + seconds (GOOGLE_OAUTH_STATE_TTL_MINUTES (cfg e) * 60))))"
  using ttls_law by (simp add: store_google_oauth_state_def Let_def ttls_positive_def set_ex)

lemma get_google_oauth_state [simp]:
  "fst (get_google_oauth_state e t st r) \<longleftrightarrow> live t (view r (GOOGLE_STATE_PREFIX (cfg e) @ st)) \<noteq> None"
  "view (snd (get_google_oauth_state e t st r)) = (view r)(GOOGLE_STATE_PREFIX (cfg e) @ st := None)"
  using getdel [of r t "GOOGLE_STATE_PREFIX (cfg e) @ st", symmetric]
    getdel_state [of r t "GOOGLE_STATE_PREFIX (cfg e) @ st"]
  by (cases "rd_getdel (redis e) r t (GOOGLE_STATE_PREFIX (cfg e) @ st)";
      simp add: get_google_oauth_state_def split: option.splits)+

lemma is_token_blacklisted [simp]:
  "is_token_blacklisted e t jti r \<longleftrightarrow> live t (view r (BLACKLIST_PREFIX (cfg e) @ jti)) \<noteq> None"
  by (simp add: is_token_blacklisted_def ex)

lemmas get_view = get

lemma view_reset_attempts [simp]:
  "view (reset_attempts e t i r) = (view r)(FAILED_LOGIN_PREFIX (cfg e) @ i := None)"
  by (simp add: reset_attempts_def del)

lemma view_revoke_previous_verification_token:
  "view (revoke_previous_verification_token e t u r) =
     (case live t (view r (TOKEN_USER_PREFIX (cfg e) @ u)) of
        None \<Rightarrow> view r
      | Some h \<Rightarrow> if h = [] then view r
          else (view r)(TOKEN_PREFIX (cfg e) @ h := None, TOKEN_USER_PREFIX (cfg e) @ u := None))"
  by (auto simp: revoke_previous_verification_token_def Let_def get del split: option.splits)

lemma view_get_verified_user_id:
  "view (snd (get_verified_user_id e t h r)) =
     (case live t (view r (TOKEN_PREFIX (cfg e) @ h)) of
        None \<Rightarrow> (view r)(TOKEN_PREFIX (cfg e) @ h := None)
      | Some u \<Rightarrow> if u = [] then (view r)(TOKEN_PREFIX (cfg e) @ h := None)
          else (view r)(TOKEN_PREFIX (cfg e) @ h := None, TOKEN_USER_PREFIX (cfg e) @ u := None))"
  using getdel [of r t "TOKEN_PREFIX (cfg e) @ h"] getdel_state [of r t "TOKEN_PREFIX (cfg e) @ h"]
  by (auto simp: get_verified_user_id_def del split: prod.splits option.splits)

lemma increment_other:
  "j \<noteq> FAILED_LOGIN_PREFIX (cfg e) @ i \<Longrightarrow> view (snd (increment_failed_attempts e t i r)) j = view r j"
  using incr_other [of j "FAILED_LOGIN_PREFIX (cfg e) @ i" r t]
  by (auto simp: increment_failed_attempts_def Let_def expire_other split: prod.splits)

lemma under_increment:
  "(\<And>a b. FAILED_LOGIN_PREFIX (cfg e) @ a \<noteq> p @ b) \<Longrightarrow>
   under p (view (snd (increment_failed_attempts e t i r))) = under p (view r)"
  by (metis (no_types, lifting) ext increment_other under_def)

lemmas view_cmds = view_revoke_previous_verification_token view_get_verified_user_id Let_def
  under_upd_other keys_apart under_increment

text \<open>No command but its own touches the reset tokens, or the states of the Google flow.\<close>

lemma reset_frame:
  "reset_puts (cfg e) c = None \<Longrightarrow> reset_takes c = None \<Longrightarrow>
   under (PASSWORD_RESET_PREFIX (cfg e)) (view (snd (exec_cmd e c r))) =
   under (PASSWORD_RESET_PREFIX (cfg e)) (view r)"
  by (cases c) (simp_all add: view_cmds split: option.splits)

lemma state_frame:
  "state_puts (cfg e) c = None \<Longrightarrow> state_takes c = None \<Longrightarrow>
   under (GOOGLE_STATE_PREFIX (cfg e)) (view (snd (exec_cmd e c r))) =
   under (GOOGLE_STATE_PREFIX (cfg e)) (view r)"
  by (cases c) (simp_all add: view_cmds split: option.splits)

lemma under_apply: "under p m k = m (p @ k)"
  by (simp add: under_def)

end

sublocale token_stores \<subseteq> pwd_reset: one_time_store
  "\<lambda>r. under (PASSWORD_RESET_PREFIX (cfg e)) (view r)" "exec_cmd e" "\<lambda>v. v" "reset_puts (cfg e)" reset_takes
proof unfold_locales
  fix c k v x r
  assume "reset_puts (cfg e) c = Some (k, v, x)"
  then show "under (PASSWORD_RESET_PREFIX (cfg e)) (view (snd (exec_cmd e c r))) =
      (under (PASSWORD_RESET_PREFIX (cfg e)) (view r))(k \<mapsto> (v, Some x))"
    by (cases c) auto
next
  fix c t k r
  assume a: "reset_takes c = Some (t, k)"
  then show "fst (exec_cmd e c r) = map_option (\<lambda>v. v) (live t (under (PASSWORD_RESET_PREFIX (cfg e)) (view r) k))"
    by (cases c) (auto simp: under_apply option.map_ident)
  from a show "under (PASSWORD_RESET_PREFIX (cfg e)) (view (snd (exec_cmd e c r))) =
      (under (PASSWORD_RESET_PREFIX (cfg e)) (view r))(k := None)"
    by (cases c) auto
qed (rule reset_frame)

sublocale token_stores \<subseteq> google_state: one_time_store
  "\<lambda>r. under (GOOGLE_STATE_PREFIX (cfg e)) (view r)" "exec_cmd e" "\<lambda>v. ''1''" "state_puts (cfg e)" state_takes
proof unfold_locales
  fix c k v x r
  assume "state_puts (cfg e) c = Some (k, v, x)"
  then show "under (GOOGLE_STATE_PREFIX (cfg e)) (view (snd (exec_cmd e c r))) =
      (under (GOOGLE_STATE_PREFIX (cfg e)) (view r))(k \<mapsto> (v, Some x))"
    by (cases c) auto
next
  fix c t k r
  assume a: "state_takes c = Some (t, k)"
  then show "fst (exec_cmd e c r) = map_option (\<lambda>v. ''1'') (live t (under (GOOGLE_STATE_PREFIX (cfg e)) (view r) k))"
    by (cases c) (auto simp: under_apply)
  from a show "under (GOOGLE_STATE_PREFIX (cfg e)) (view (snd (exec_cmd e c r))) =
      (under (GOOGLE_STATE_PREFIX (cfg e)) (view r))(k := None)"
    by (cases c) auto
qed (rule state_frame)

section \<open>Verification tokens\<close>

text \<open>
  The verification tokens of a user that are still live are named by the user's index key, with
  the same expiry.
\<close>

definition index_ok :: "settings \<Rightarrow> redis_view \<Rightarrow> time \<Rightarrow> string \<Rightarrow> bool" where
  "index_ok s m t u = (\<forall>h. live t (m (TOKEN_PREFIX s @ h)) = Some u \<longrightarrow>
     h \<noteq> [] \<and> (\<exists>x. m (TOKEN_PREFIX s @ h) = Some (u, x) \<and> m (TOKEN_USER_PREFIX s @ u) = Some (h, x)))"

lemma live_later: "t \<le> t' \<Longrightarrow> live t' x = Some v \<Longrightarrow> live t x = Some v"
  by (auto simp: live_def split: option.splits if_splits)

lemma live_Some: "live t (Some (v, x)) = Some w \<Longrightarrow> w = v"
  by (auto simp: live_def split: option.splits if_splits)

fun increments :: "'r env \<Rightarrow> string \<Rightarrow> time list \<Rightarrow> 'r \<Rightarrow> 'r" where
  "increments e i [] r = r"
| "increments e i (t # ts) r = increments e i ts (snd (increment_failed_attempts e t i r))"

context token_stores
begin

text \<open>A token issued after revoking the previous one is the only one of its user.\<close>

lemma reissued_is_only:
  assumes "index_ok (cfg e) (view r) t u" "t \<le> t'"
    and "live t' (view (store_verification_token e t h u (revoke_previous_verification_token e t u r))
           (TOKEN_PREFIX (cfg e) @ h')) = Some u"
  shows "h' = h"
proof (rule ccontr)
  assume ne: "h' \<noteq> h"
  let ?m = "view (revoke_previous_verification_token e t u r)"
  from assms(3) ne have l: "live t' (?m (TOKEN_PREFIX (cfg e) @ h')) = Some u"
    by (simp add: keys_apart Let_def)
  then have "live t' (view r (TOKEN_PREFIX (cfg e) @ h')) = Some u"
    by (auto simp: view_cmds split: option.splits if_splits)
  then have lt: "live t (view r (TOKEN_PREFIX (cfg e) @ h')) = Some u"
    using assms(2) live_later by blast
  with assms(1) obtain x where h': "h' \<noteq> []" "view r (TOKEN_PREFIX (cfg e) @ h') = Some (u, x)"
    "view r (TOKEN_USER_PREFIX (cfg e) @ u) = Some (h', x)"
    by (auto simp: index_ok_def)
  with lt have "live t (view r (TOKEN_USER_PREFIX (cfg e) @ u)) = Some h'"
    by (auto simp: live_def split: option.splits if_splits)
  with h'(1) have "?m (TOKEN_PREFIX (cfg e) @ h') = None"
    by (simp add: view_cmds)
  with l show False by simp
qed

lemma reissue_index_ok:
  assumes "index_ok (cfg e) (view r) t u" "h \<noteq> []"
  shows "index_ok (cfg e)
    (view (store_verification_token e t h u (revoke_previous_verification_token e t u r))) t u"
  unfolding index_ok_def
proof (intro allI impI)
  fix h'
  let ?m = "view (store_verification_token e t h u (revoke_previous_verification_token e t u r))"
  assume "live t (?m (TOKEN_PREFIX (cfg e) @ h')) = Some u"
  then have h: "h' = h" by (rule reissued_is_only [OF assms(1) order_refl])
  have "?m (TOKEN_PREFIX (cfg e) @ h) = Some (u, Some (t + seconds (VERIFICATION_TOKEN_TTL_MINUTES (cfg e) * 60)))"
    "?m (TOKEN_USER_PREFIX (cfg e) @ u) = Some (h, Some (t + seconds (VERIFICATION_TOKEN_TTL_MINUTES (cfg e) * 60)))"
    by (simp_all add: Let_def keys_apart)
  with h assms(2) show "h' \<noteq> [] \<and> (\<exists>x. ?m (TOKEN_PREFIX (cfg e) @ h') = Some (u, x)
      \<and> ?m (TOKEN_USER_PREFIX (cfg e) @ u) = Some (h', x))"
    by blast
qed

lemma reissued_live:
  "t' < t + seconds (VERIFICATION_TOKEN_TTL_MINUTES (cfg e) * 60) \<Longrightarrow>
   live t' (view (store_verification_token e t h u r) (TOKEN_PREFIX (cfg e) @ h)) = Some u"
  by (simp add: keys_apart Let_def)

subsection \<open>The attempt counter\<close>

lemma increment_new:
  assumes "live t (view r (FAILED_LOGIN_PREFIX (cfg e) @ i)) = None"
  shows "fst (increment_failed_attempts e t i r) = 1"
    and "view (snd (increment_failed_attempts e t i r)) = (view r)(FAILED_LOGIN_PREFIX (cfg e) @ i \<mapsto>
      (''1'', Some (t + seconds (LOCKOUT_WINDOW (cfg e)))))"
  using incr_new [OF assms] expire [of t "snd (rd_incr (redis e) r t (FAILED_LOGIN_PREFIX (cfg e) @ i))"
      "FAILED_LOGIN_PREFIX (cfg e) @ i" "''1''" "LOCKOUT_WINDOW (cfg e)"] ttls_law
  by (auto simp: increment_failed_attempts_def Let_def ttls_positive_def split: prod.splits)

lemma increment_old:
  assumes "view r (FAILED_LOGIN_PREFIX (cfg e) @ i) = Some (py_str n, Some x)" "t < x" "0 < n"
  shows "fst (increment_failed_attempts e t i r) = n + 1"
    and "view (snd (increment_failed_attempts e t i r)) =
      (view r)(FAILED_LOGIN_PREFIX (cfg e) @ i \<mapsto> (py_str (n + 1), Some x))"
  using incr_old [OF assms(1), of t n] assms(2,3)
  by (auto simp: increment_failed_attempts_def Let_def py_simps assms(1) split: prod.splits)

lemma increments_count:
  assumes "view r (FAILED_LOGIN_PREFIX (cfg e) @ i) = Some (py_str n, Some x)" "0 < n" "\<forall>t\<in>set ts. t < x"
  shows "view (increments e i ts r) =
    (view r)(FAILED_LOGIN_PREFIX (cfg e) @ i \<mapsto> (py_str (n + int (length ts)), Some x))"
  using assms
proof (induction ts arbitrary: r n)
  case Nil
  then show ?case by auto
next
  case (Cons t ts)
  then show ?case
    using Cons.IH [of "snd (increment_failed_attempts e t i r)" "n + 1"]
    by (simp add: increment_old(2) ac_simps) (simp add: fun_eq_iff)
qed

end

end
