(* ===== verification/Security.thy ===== *)
theory Security
  imports World
begin

text \<open>
  Passwords (\<open>app/core/security.py\<close>), client addresses (\<open>app/core/ip.py\<close>) and share slugs
  (\<open>app/core/slug.py\<close>).  bcrypt is a parameter; what is used of it is the locale
  \<open>password_contract\<close>.
\<close>

section \<open>Passwords\<close>

definition utf8_encode :: "string \<Rightarrow> bytes" where
  "utf8_encode s = concat (map (\<lambda>c. let n = code_point c in
     if n < 128 then [c] else [char_of (192 + n div 64), char_of (128 + n mod 64)]) s)"

lemma length_utf8_encode [simp]: "length (utf8_encode s) = utf8_length s"
  by (induction s) (auto simp: utf8_encode_def utf8_length_def Let_def)

text \<open>\<open>salt\<close> is the draw of \<open>bcrypt.gensalt()\<close>.\<close>

definition hash_password :: "'r env \<Rightarrow> bytes \<Rightarrow> string \<Rightarrow> app_error + string" where
  "hash_password e salt password =
     (case bcrypt_hashpw e salt (utf8_encode password) of
        None \<Rightarrow> Inl (ValueError ''password cannot be hashed'')
      | Some hashed_password \<Rightarrow> Inr hashed_password)"

definition verify_password :: "'r env \<Rightarrow> string \<Rightarrow> string \<Rightarrow> bool" where
  "verify_password e plain_password hashed_password =
     (let password_byte_enc = utf8_encode plain_password;
          hashed_password_byte_enc = utf8_encode hashed_password
      in if length password_byte_enc > 72 then False
         else (case bcrypt_checkpw e password_byte_enc hashed_password_byte_enc of
             Some ok \<Rightarrow> ok
           | None \<Rightarrow> False))"

text \<open>The class of the last pattern, \<open>[!@#$%^&*(),.?\":{}|<>]\<close>.\<close>

definition is_special :: "char \<Rightarrow> bool" where
  "is_special c = (c \<in> set (''!@#$%^&*(),.?:{}|<>'' @ [CHR 0x22]))"

definition validate_password_strength :: "string \<Rightarrow> app_error + string" where
  "validate_password_strength val =
     (if utf8_length val > 72 then Inl (ValueError ''Password must be at most 72 bytes long'')
      else if length val < 8 then Inl (ValueError ''Password must be at least 8 characters long'')
      else if \<not> list_ex is_upper_az val
        then Inl (ValueError ''Password must contain at least one uppercase letter'')
      else if \<not> list_ex is_lower_az val
        then Inl (ValueError ''Password must contain at least one lowercase letter'')
      else if \<not> list_ex is_digit val
        then Inl (ValueError ''Password must contain at least one number'')
      else if \<not> list_ex is_special val
        then Inl (ValueError ''Password must contain at least one special character'')
      else Inr val)"

lemma validate_password_strength_iff:
  "validate_password_strength val = Inr v \<longleftrightarrow> v = val \<and> utf8_length val \<le> 72 \<and> 8 \<le> length val
     \<and> (\<exists>c\<in>set val. is_upper_az c) \<and> (\<exists>c\<in>set val. is_lower_az c) \<and> (\<exists>c\<in>set val. is_digit c)
     \<and> (\<exists>c\<in>set val. is_special c)"
  by (auto simp: validate_password_strength_def list_ex_iff)

text \<open>
  What bcrypt promises: passwords of at most 72 bytes are hashed, to 60 ASCII characters, longer
  ones are refused; a password verifies against its own hash.
\<close>

locale password_contract =
  fixes hashpw :: "bytes \<Rightarrow> bytes \<Rightarrow> string option" and checkpw :: "bytes \<Rightarrow> bytes \<Rightarrow> bool option"
  assumes hash_some: "length p \<le> 72 \<longleftrightarrow> hashpw salt p \<noteq> None"
    and hash_length: "hashpw salt p = Some h \<Longrightarrow> length h = 60"
    and hash_ascii: "hashpw salt p = Some h \<Longrightarrow> \<forall>c\<in>set h. code_point c < 128"
    and check_hash: "hashpw salt p = Some h \<Longrightarrow> checkpw p h = Some True"

lemma utf8_encode_ascii: "\<forall>c\<in>set s. code_point c < 128 \<Longrightarrow> utf8_encode s = s"
  by (induction s) (auto simp: utf8_encode_def)

lemma hash_password_verify:
  assumes "password_contract (bcrypt_hashpw e) (bcrypt_checkpw e)" "hash_password e salt p = Inr h"
  shows "verify_password e p h \<and> length h = 60"
proof -
  from assms(2) have h: "bcrypt_hashpw e salt (utf8_encode p) = Some h"
    by (auto simp: hash_password_def split: option.splits)
  then have "utf8_length p \<le> 72"
    using password_contract.hash_some [OF assms(1), of "utf8_encode p" salt] by simp
  moreover have "utf8_encode h = h"
    by (rule utf8_encode_ascii [OF password_contract.hash_ascii [OF assms(1) h]])
  ultimately show ?thesis
    using password_contract.check_hash [OF assms(1) h] password_contract.hash_length [OF assms(1) h]
    by (simp add: verify_password_def)
qed

text \<open>Every password the validator accepts is hashed.\<close>

lemma hash_password_total:
  assumes "password_contract (bcrypt_hashpw e) (bcrypt_checkpw e)" "utf8_length p \<le> 72"
  obtains h where "hash_password e salt p = Inr h"
  using password_contract.hash_some [OF assms(1), of "utf8_encode p" salt] assms(2)
  by (auto simp: hash_password_def)

section \<open>Requests and client addresses\<close>

text \<open>
  What the code reads of a \<open>fastapi.Request\<close>; header names are in lower case, as ASGI delivers
  them, and looked up without regard to case.
\<close>

record request =
  req_headers :: "(string \<times> string) list"
  req_client_host :: "string option"

definition header_get :: "request \<Rightarrow> string \<Rightarrow> string option" where
  "header_get req name = map_of (req_headers req) (py_lower name)"

definition get_client_ip :: "request \<Rightarrow> string option" where
  "get_client_ip req =
     (case header_get req ''X-Forwarded-For'' of
        Some (c # forwarded) \<Rightarrow> Some (py_strip (hd (py_split (CHR '','') (c # forwarded))))
      | _ \<Rightarrow> (case header_get req ''X-Real-IP'' of
          Some (c # real_ip) \<Rightarrow> Some (py_strip (c # real_ip))
        | _ \<Rightarrow> req_client_host req))"

definition mask_ip :: "string option \<Rightarrow> string option" where
  "mask_ip ip_address = (case ip_address of
     None \<Rightarrow> None
   | Some ip \<Rightarrow>
       if CHR '':'' \<in> set ip then Some (fst (split_last (CHR '':'') ip) @ '':x'')
       else if CHR ''.'' \<in> set ip then Some (fst (split_last (CHR ''.'') ip) @ ''.x'')
       else Some ip)"

text \<open>What the mask hides: two addresses that differ in the last block look the same.\<close>

lemma split_last_fst: "c \<notin> set b \<Longrightarrow> fst (split_last c (a @ c # b)) = a"
proof -
  assume n: "c \<notin> set b"
  then have "takeWhile (\<lambda>x. x \<noteq> c) (rev b) = rev b" "dropWhile (\<lambda>x. x \<noteq> c) (rev b) = []"
    by (auto simp: takeWhile_eq_all_conv dropWhile_eq_Nil_conv)
  then have "takeWhile (\<lambda>x. x \<noteq> c) (rev b @ c # rev a) = rev b"
    "dropWhile (\<lambda>x. x \<noteq> c) (rev b @ c # rev a) = c # rev a"
    using n by (auto simp: takeWhile_append dropWhile_append)
  then show ?thesis by (simp add: split_last_def split_first_def)
qed

section \<open>Share slugs\<close>

definition SLUG_LENGTH :: nat where
  "SLUG_LENGTH = 12"

definition SLUG_ALPHABET :: string where
  "SLUG_ALPHABET = ''abcdefghijklmnopqrstuvwxyzABCDEFGHIJKLMNOPQRSTUVWXYZ0123456789''"

text \<open>\<open>choice i\<close> is the i-th draw of \<open>secrets.choice\<close>, as an index into the alphabet.\<close>

definition generate_share_slug :: "(nat \<Rightarrow> nat) \<Rightarrow> nat \<Rightarrow> string" where
  "generate_share_slug choice len =
     map (\<lambda>i. SLUG_ALPHABET ! (choice i mod length SLUG_ALPHABET)) [0..<len]"

lemma length_generate_share_slug [simp]: "length (generate_share_slug choice len) = len"
  by (simp add: generate_share_slug_def)

lemma generate_share_slug_alphabet: "set (generate_share_slug choice len) \<subseteq> set SLUG_ALPHABET"
proof -
  have "0 < length SLUG_ALPHABET" by (simp add: SLUG_ALPHABET_def)
  then show ?thesis by (auto simp: generate_share_slug_def)
qed

end
