(* ===== verification/Laws.thy ===== *)
theory Laws
  imports Token Security
begin

text \<open>
  What the properties assume of the token library (locale \<open>jwt_contract\<close>) and of the environment
  as a whole (\<open>sound_env\<close>), and a concrete environment, \<open>demo_env\<close>, in which all of it holds: the
  witnesses evaluate the model there.
\<close>

text \<open>
  python-jose: a token decodes to the claims it was made of, unless its expiry lies before the
  whole seconds of the current time and the expiry is verified.
\<close>

locale jwt_contract =
  fixes encode :: "claims \<Rightarrow> string \<Rightarrow> string \<Rightarrow> string"
    and decode :: "string \<Rightarrow> string \<Rightarrow> string list \<Rightarrow> bool \<Rightarrow> time \<Rightarrow> claims option"
  assumes decode_encode: "alg \<in> set algs \<Longrightarrow> cl_exp c = Some x \<Longrightarrow>
      decode (encode c key alg) key algs verify_exp now =
        (if verify_exp \<and> x < timestamp now then None else Some c)"
    and encode_nonempty: "encode c key alg \<noteq> []"
begin

lemma encode_inj:
  assumes "encode c key alg = encode d key alg" "cl_exp c = Some x" "cl_exp d = Some y"
  shows "c = d"
proof -
  have "decode (encode c key alg) key [alg] False 0 = Some c"
    using decode_encode [of alg "[alg]" c x key False 0, OF _ assms(2)] by auto
  moreover have "decode (encode d key alg) key [alg] False 0 = Some d"
    using decode_encode [of alg "[alg]" d y key False 0, OF _ assms(3)] by auto
  ultimately show ?thesis using assms(1) by (metis option.inject)
qed

end

text \<open>The laws of the parameters of an environment, together.\<close>

locale sound_env = token_stores e view
  for e :: "'r env" and view :: "'r \<Rightarrow> redis_view" +
  assumes jwt_law: "jwt_contract (jwt_encode e) (jwt_decode e)"
    and password_law: "password_contract (bcrypt_hashpw e) (bcrypt_checkpw e)"
    and pg_law: "pg_uuid e (uuid_str u) = Some u"

sublocale sound_env \<subseteq> jwt: jwt_contract "jwt_encode e" "jwt_decode e"
  by (rule jwt_law)

sublocale sound_env \<subseteq> pw: password_contract "bcrypt_hashpw e" "bcrypt_checkpw e"
  by (rule password_law)

section \<open>A concrete environment\<close>

text \<open>A token that spells its claims out: fields of known length, one after the other.\<close>

definition demo_field :: "string \<Rightarrow> string" where
  "demo_field s = replicate (length s) (CHR ''1'') @ CHR ''0'' # s"

definition demo_unfield :: "string \<Rightarrow> string \<times> string" where
  "demo_unfield s = (let n = length (takeWhile (\<lambda>c. c = CHR ''1'') s) in
     (take n (drop (n + 1) s), drop (n + 1 + n) s))"

lemma takeWhile_ones:
  "takeWhile (\<lambda>c. c = CHR ''1'') (replicate n (CHR ''1'') @ CHR ''0'' # s) = replicate n (CHR ''1'')"
  by (induction n) auto

lemma demo_unfield_field [simp]: "demo_unfield (demo_field s @ r) = (s, r)"
proof -
  have "takeWhile (\<lambda>c. c = CHR ''1'') (demo_field s @ r) = replicate (length s) (CHR ''1'')"
    by (simp add: demo_field_def takeWhile_ones)
  then show ?thesis by (simp add: demo_unfield_def demo_field_def)
qed

definition demo_opt :: "string option \<Rightarrow> string" where
  "demo_opt v = (case v of None \<Rightarrow> ''N'' | Some s \<Rightarrow> CHR ''S'' # demo_field s)"

definition demo_unopt :: "string \<Rightarrow> string option \<times> string" where
  "demo_unopt s = (case s of c # r \<Rightarrow> if c = CHR ''S'' then (case demo_unfield r of (a, q) \<Rightarrow> (Some a, q)) else (None, r)
     | [] \<Rightarrow> (None, []))"

lemma demo_unopt_opt [simp]: "demo_unopt (demo_opt v @ r) = (v, r)"
  by (cases v) (auto simp: demo_unopt_def demo_opt_def)

definition demo_int :: "string \<Rightarrow> int" where
  "demo_int s = (case s of [] \<Rightarrow> 0 | c # r \<Rightarrow>
     if c = CHR ''-'' then - the (py_int r) else the (py_int s))"

lemma demo_int_str [simp]: "demo_int (py_str i) = i"
proof (cases "i < 0")
  case True
  then show ?thesis by (simp add: py_str_def demo_int_def py_int_nat_str)
next
  case False
  obtain c r where cr: "nat_str (nat i) = c # r" by (cases "nat_str (nat i)") auto
  with nat_str_digits [of c "nat i"] have "c \<noteq> CHR ''-''" by (auto simp: is_digit_def code_point_def)
  with False cr py_int_nat_str [of "nat i"] show ?thesis by (simp add: py_str_def demo_int_def)
qed

definition demo_encode :: "claims \<Rightarrow> string \<Rightarrow> string \<Rightarrow> string" where
  "demo_encode c key alg = demo_field key @ demo_field alg @ demo_opt (cl_sub c)
     @ demo_opt (map_option py_str (cl_exp c)) @ demo_opt (map_option py_str (cl_iat c))
     @ demo_opt (cl_type c) @ demo_opt (cl_jti c)"

definition demo_decode :: "string \<Rightarrow> string \<Rightarrow> string list \<Rightarrow> bool \<Rightarrow> time \<Rightarrow> claims option" where
  "demo_decode tok key algs verify_exp now =
     (let (k, tok) = demo_unfield tok; (alg, tok) = demo_unfield tok; (sb, tok) = demo_unopt tok;
          (ex, tok) = demo_unopt tok; (ia, tok) = demo_unopt tok; (ty, tok) = demo_unopt tok;
          (jt, tok) = demo_unopt (tok @ [])
      in if k \<noteq> key \<or> \<not> alg \<in> set algs then None
         else (let ex = map_option demo_int ex in
           if verify_exp \<and> (case ex of None \<Rightarrow> False | Some x \<Rightarrow> x < timestamp now) then None
           else Some \<lparr>cl_sub = sb, cl_exp = ex, cl_iat = map_option demo_int ia, cl_type = ty, cl_jti = jt\<rparr>))"

lemma demo_unopt_opt' [simp]: "demo_unopt (demo_opt v) = (v, [])"
  using demo_unopt_opt [of v "[]"] by simp

lemma map_option_demo_int [simp]: "map_option demo_int (map_option py_str i) = i"
  by (cases i) auto

interpretation demo_jwt: jwt_contract demo_encode demo_decode
proof unfold_locales
  show "alg \<in> set algs \<Longrightarrow> cl_exp c = Some x \<Longrightarrow>
      demo_decode (demo_encode c key alg) key algs verify_exp now =
        (if verify_exp \<and> x < timestamp now then None else Some c)" for alg algs c x key verify_exp now
    by (cases c) (simp add: demo_decode_def demo_encode_def Let_def)
  show "demo_encode c key alg \<noteq> []" for c key alg
    by (simp add: demo_encode_def demo_field_def)
qed

text \<open>A password hash of 60 characters, built from the length and the last characters.\<close>

definition demo_hashpw :: "bytes \<Rightarrow> bytes \<Rightarrow> string option" where
  "demo_hashpw salt p = (if length p \<le> 72
     then Some (take 60 (map (\<lambda>c. if code_point c < 128 then c else CHR ''?'') p @ replicate 60 (CHR ''$''))) else None)"

definition demo_checkpw :: "bytes \<Rightarrow> bytes \<Rightarrow> bool option" where
  "demo_checkpw p h = (if demo_hashpw [] p = Some h then Some True else Some False)"

interpretation demo_pw: password_contract demo_hashpw demo_checkpw
proof unfold_locales
  fix salt p h
  assume h: "demo_hashpw salt p = Some h"
  then show "length h = 60" by (auto simp: demo_hashpw_def split: if_splits)
  from h show "\<forall>c\<in>set h. code_point c < 128"
    by (auto simp: demo_hashpw_def code_point_def split: if_splits dest!: in_set_takeD)
  from h show "demo_checkpw p h = Some True"
    by (auto simp: demo_hashpw_def demo_checkpw_def split: if_splits)
qed (simp add: demo_hashpw_def)

definition demo_env :: "redis_view env" where
  "demo_env = \<lparr>cfg = default_settings ''key'' ''postgresql://db'', redis = ttl_redis,
     sha256_hex = (\<lambda>s. ''#'' @ s), bcrypt_hashpw = demo_hashpw, bcrypt_checkpw = demo_checkpw,
     jwt_encode = demo_encode, jwt_decode = demo_decode, pg_uuid = uuid_parse,
     smtp_send = (\<lambda>m. True), cdn_upload = (\<lambda>p d. Some (''https://res.cloudinary.com/'' @ p)),
     cdn_destroy = (\<lambda>p. True), commit_ok = (\<lambda>d. True),
     template_file = (\<lambda>n. Some (if n = ''notification''
       then ''<b>$escaped_full_name</b> ${escaped_message}'' else ''<p>$frontend_url</p>''))\<rparr>"

definition demo_world :: "database \<Rightarrow> redis_view world" where
  "demo_world d = \<lparr>db = d, kv = (\<lambda>k. None), outbox = [], cdn_log = []\<rparr>"

lemma demo_env_simps [simp]:
  "cfg demo_env = default_settings ''key'' ''postgresql://db''" "redis demo_env = ttl_redis"
  "sha256_hex demo_env = (\<lambda>s. ''#'' @ s)" "bcrypt_hashpw demo_env = demo_hashpw"
  "bcrypt_checkpw demo_env = demo_checkpw" "jwt_encode demo_env = demo_encode"
  "jwt_decode demo_env = demo_decode" "pg_uuid demo_env = uuid_parse"
  "commit_ok demo_env = (\<lambda>d. True)" "smtp_send demo_env = (\<lambda>m. True)"
  "template_file demo_env = (\<lambda>n. Some (if n = ''notification''
       then ''<b>$escaped_full_name</b> ${escaped_message}'' else ''<p>$frontend_url</p>''))"
  "cdn_upload demo_env = (\<lambda>p d. Some (''https://res.cloudinary.com/'' @ p))"
  "cdn_destroy demo_env = (\<lambda>p. True)"
  by (simp_all add: demo_env_def)

interpretation demo: sound_env demo_env "\<lambda>r. r"
  by (intro sound_env.intro token_stores.intro sound_env_axioms.intro)
    (simp_all add: ttl_redis.redis_contract_axioms demo_jwt.jwt_contract_axioms demo_pw.password_contract_axioms)

lemma token_stores_demo: "token_stores demo_env (\<lambda>r. r)"
  by (rule demo.token_stores_axioms)

lemma sound_env_demo: "sound_env demo_env (\<lambda>r. r)"
  by (rule demo.sound_env_axioms)

text \<open>How long the texts of the concrete environment are.\<close>

lemma length_uuid_str [simp]: "length (uuid_str u) = 36"
  by (simp add: uuid_str_def Let_def)

lemma length_demo_field [simp]: "length (demo_field s) = 2 * length s + 1"
  by (simp add: demo_field_def)

lemma length_demo_opt [simp]: "length (demo_opt v) = (case v of None \<Rightarrow> 1 | Some s \<Rightarrow> 2 * length s + 2)"
  by (simp add: demo_opt_def split: option.split)

lemma demo_number_lengths: "length (py_str 604800) = 6" "length (py_str 900) = 3" "length (py_str 0) = 1"
  by (simp_all add: py_str_def nat_str.simps)

lemma demo_refresh_length:
  "100 < length (fst (create_refresh_token demo_env 10 ''rj'' u))"
  "length (fst (create_refresh_token demo_env 10 ''rj'' u)) < 200"
  by (simp_all add: create_refresh_token_def Let_def demo_encode_def timestamp_def demo_number_lengths)

end
