(* ===== verification/Calendar.thy ===== *)
theory Calendar
  imports Prelude
begin

text \<open>
  Dates of the proleptic Gregorian calendar, as \<open>datetime\<close> has them: a time counts microseconds
  from 1970-01-01 00:00 UTC, its date is found by counting days, 400 year cycles of 146097 days
  beginning on the first of March.
\<close>

definition day_us :: int where
  "day_us = 86400 * 1000000"

definition days_of :: "time \<Rightarrow> int" where
  "days_of t = t div day_us"

text \<open>\<open>t.replace(hour=0, minute=0, second=0, microsecond=0)\<close>.\<close>

definition midnight :: "time \<Rightarrow> time" where
  "midnight t = days_of t * day_us"

definition days_from_civil :: "int \<Rightarrow> int \<Rightarrow> int \<Rightarrow> int" where
  "days_from_civil y m d =
     (let y = (if m \<le> 2 then y - 1 else y);
          era = y div 400; yoe = y mod 400;
          doy = (153 * ((m + 9) mod 12) + 2) div 5 + d - 1;
          doe = yoe * 365 + yoe div 4 - yoe div 100 + doy
      in era * 146097 + doe - 719468)"

definition civil_from_days :: "int \<Rightarrow> int \<times> int \<times> int" where
  "civil_from_days n =
     (let z = n + 719468;
          era = z div 146097; doe = z mod 146097;
          yoe = (doe - doe div 1460 + doe div 36524 - doe div 146096) div 365;
          doy = doe - (365 * yoe + yoe div 4 - yoe div 100);
          mp = (5 * doy + 2) div 153;
          d = doy - (153 * mp + 2) div 5 + 1;
          m = (if mp < 10 then mp + 3 else mp - 9);
          y = yoe + era * 400
      in (if m \<le> 2 then y + 1 else y, m, d))"

text \<open>Monday is 0, as in \<open>date.weekday()\<close>.\<close>

definition weekday :: "time \<Rightarrow> int" where
  "weekday t = (days_of t + 3) mod 7"

definition pad2 :: "int \<Rightarrow> string" where
  "pad2 n = (if n < 10 then ''0'' @ py_str n else py_str n)"

definition pad4 :: "int \<Rightarrow> string" where
  "pad4 n = (if n < 10 then ''000'' @ py_str n else if n < 100 then ''00'' @ py_str n
     else if n < 1000 then ''0'' @ py_str n else py_str n)"

definition year_of :: "time \<Rightarrow> int" where
  "year_of t = fst (civil_from_days (days_of t))"

text \<open>\<open>strftime("%Y-%m-%d")\<close>, which is also \<open>date.isoformat()\<close>, and \<open>strftime("%H:%M:%S")\<close>.\<close>

definition date_str :: "time \<Rightarrow> string" where
  "date_str t = (let (y, m, d) = civil_from_days (days_of t) in pad4 y @ ''-'' @ pad2 m @ ''-'' @ pad2 d)"

definition clock_str :: "time \<Rightarrow> string" where
  "clock_str t = (let s = (t mod day_us) div 1000000 in
     pad2 (s div 3600) @ '':'' @ pad2 (s div 60 mod 60) @ '':'' @ pad2 (s mod 60))"

lemma midnight_le: "midnight t \<le> t \<and> t < midnight t + day_us"
proof -
  have "t = t div day_us * day_us + t mod day_us" by simp
  moreover have "0 \<le> t mod day_us" "t mod day_us < day_us" by (simp_all add: day_us_def)
  ultimately show ?thesis unfolding midnight_def days_of_def by linarith
qed

lemma midnight_idem [simp]: "midnight (midnight t) = midnight t"
  by (simp add: midnight_def days_of_def day_us_def)

lemma weekday_range: "0 \<le> weekday t \<and> weekday t < 7"
  by (simp add: weekday_def)

lemma weekday_next: "weekday (t + day_us) = (weekday t + 1) mod 7"
proof -
  have "(t + day_us) div day_us = t div day_us + 1" by (simp add: day_us_def)
  then show ?thesis by (simp add: weekday_def days_of_def mod_add_left_eq mod_add_eq algebra_simps) (simp add: mod_simps add.commute)
qed

end
