(* ===== verification/Email.thy ===== *)
theory Email
  imports Laws Calendar
begin

text \<open>
  Outgoing mail: the template renderer of \<open>app/services/email_templates/__init__.py\<close> and the
  builders and senders of \<open>app/services/email.py\<close>.  The template files and the SMTP server are
  parameters; a message the server takes is added to \<open>outbox\<close>.
\<close>

section \<open>HTML escaping\<close>

definition html_escape_char :: "char \<Rightarrow> string" where
  "html_escape_char c =
     (if c = CHR ''&'' then ''&amp;'' else if c = CHR ''<'' then ''&lt;'' else if c = CHR ''>'' then ''&gt;''
      else if c = CHR 0x22 then ''&quot;'' else if c = CHR 0x27 then ''&#x27;'' else [c])"

definition html_escape :: "string \<Rightarrow> string" where
  "html_escape s = concat (map html_escape_char s)"

section \<open>Templates\<close>

text \<open>
  \<open>string.Template\<close>: \<open>$$\<close>, \<open>$name\<close> and \<open>${name}\<close>; any other dollar is an error.  The line and column in
  the text of that error are left out.
\<close>

definition is_idstart :: "char \<Rightarrow> bool" where
  "is_idstart c = (is_lower_az c \<or> is_upper_az c \<or> c = CHR ''_'')"

definition is_idpart :: "char \<Rightarrow> bool" where
  "is_idpart c = (is_idstart c \<or> is_digit c)"

text \<open>The identifier at the head of a text and what follows it.\<close>

definition py_identifier :: "string \<Rightarrow> (string \<times> string) option" where
  "py_identifier s = (case s of [] \<Rightarrow> None
     | c # r \<Rightarrow> if is_idstart c then Some (c # takeWhile is_idpart r, dropWhile is_idpart r) else None)"

text \<open>The placeholder after a dollar.\<close>

definition placeholder :: "string \<Rightarrow> (string \<times> string) option" where
  "placeholder s = (case s of [] \<Rightarrow> None
     | c # r \<Rightarrow>
         if c = CHR ''{''
         then (case py_identifier r of None \<Rightarrow> None
           | Some (name, r) \<Rightarrow> (case r of [] \<Rightarrow> None | d # r \<Rightarrow> if d = CHR ''}'' then Some (name, r) else None))
         else py_identifier (c # r))"

lemma identifier_shorter: "py_identifier s = Some (n, r) \<Longrightarrow> length r < length s"
  by (auto simp: py_identifier_def split: list.splits if_splits intro: le_less_trans [OF length_dropWhile_le])

lemma placeholder_shorter: "placeholder s = Some (n, r) \<Longrightarrow> length r < length s"
  by (auto simp: placeholder_def split: list.splits if_splits option.splits
      dest!: identifier_shorter)

function substitute :: "(string \<times> string) list \<Rightarrow> string \<Rightarrow> app_error + string" where
  "substitute vars [] = Inr []"
| "substitute vars (c # s) =
     (if c \<noteq> CHR ''$''
      then (case substitute vars s of Inl e \<Rightarrow> Inl e | Inr r \<Rightarrow> Inr (c # r))
      else if s \<noteq> [] \<and> hd s = CHR ''$''
      then (case substitute vars (tl s) of Inl e \<Rightarrow> Inl e | Inr r \<Rightarrow> Inr (c # r))
      else (case placeholder s of
          None \<Rightarrow> Inl (ValueError ''Invalid placeholder in string'')
        | Some (name, rest) \<Rightarrow> (case map_of vars name of
            None \<Rightarrow> Inl (ValueError (''Missing email template variable: '' @ name))
          | Some v \<Rightarrow> (case substitute vars rest of Inl e \<Rightarrow> Inl e | Inr r \<Rightarrow> Inr (v @ r)))))"
  by pat_completeness auto
termination
  by (relation "measure (\<lambda>(vars, s). length s)")
    (auto dest: placeholder_shorter simp: le_imp_less_Suc less_SucI)

definition setdefault :: "string \<Rightarrow> string \<Rightarrow> (string \<times> string) list \<Rightarrow> (string \<times> string) list" where
  "setdefault k v vars = (if map_of vars k = None then vars @ [(k, v)] else vars)"

definition render :: "'r env \<Rightarrow> time \<Rightarrow> string \<Rightarrow> (string \<times> string) list \<Rightarrow> app_error + string" where
  "render e now name vars =
     (case template_file e name of
        None \<Rightarrow> Inl (FileNotFoundError (name @ ''.html''))
      | Some source \<Rightarrow>
          (let vars = setdefault ''current_year'' (py_str (year_of now)) vars;
               vars = setdefault ''frontend_url'' (FRONTEND_URL (cfg e)) vars;
               vars = setdefault ''app_domain'' (APP_DOMAIN (cfg e)) vars;
               vars = map (\<lambda>(k, v). if k = ''frontend_url'' then (k, py_rstrip_char (CHR ''/'') v) else (k, v)) vars
           in substitute vars source))"

section \<open>The provider\<close>

text \<open>A header value of more than one line is refused before the message is sent.\<close>

definition line_break :: "char \<Rightarrow> bool" where
  "line_break c = (let n = code_point c in (10 \<le> n \<and> n \<le> 13) \<or> (28 \<le> n \<and> n \<le> 30) \<or> n = 133)"

definition multi_line :: "string \<Rightarrow> bool" where
  "multi_line s = (case dropWhile (\<lambda>c. \<not> line_break c) s of
     [] \<Rightarrow> False
   | c # r \<Rightarrow> (if code_point c = 13 \<and> r \<noteq> [] \<and> code_point (hd r) = 10 then tl r else r) \<noteq> [])"

definition send_mail :: "'r env \<Rightarrow> string \<Rightarrow> string \<Rightarrow> string \<Rightarrow> string option \<Rightarrow> 'r world \<Rightarrow>
    (app_error + unit) \<times> 'r world" where
  "send_mail e to subject html_content reply_to w =
     (let reply = (if reply_to = Some [] then None else reply_to);
          message = \<lparr>m_from = SMTP_FROM_EMAIL (cfg e), m_to = to, m_subject = subject,
            m_reply_to = reply, m_html = html_content\<rparr>
      in if multi_line (SMTP_FROM_EMAIL (cfg e)) \<or> multi_line to \<or> multi_line subject
            \<or> (case reply of None \<Rightarrow> False | Some r \<Rightarrow> multi_line r)
         then (Inl (ValueError ''Header values may not contain linefeed or carriage return characters''), w)
         else if smtp_send e message then (Inr (), w\<lparr>outbox := outbox w @ [message]\<rparr>)
         else (Inl EmailDeliveryError, w))"

section \<open>Building the messages\<close>

definition build_verification_html :: "'r env \<Rightarrow> time \<Rightarrow> string \<Rightarrow> app_error + string" where
  "build_verification_html e now token =
     (let action_url = FRONTEND_URL (cfg e) @ ''/verify?token='' @ token in
      render e now ''verification''
        [(''action_url'', action_url), (''expires_minutes'', py_str (VERIFICATION_TOKEN_TTL_MINUTES (cfg e)))])"

definition build_account_lock_html :: "'r env \<Rightarrow> time \<Rightarrow> app_error + string" where
  "build_account_lock_html e now =
     (let minutes = LOCKOUT_WINDOW (cfg e) div 60 in
      render e now ''account_lock'' [(''minutes'', py_str minutes)])"

definition build_password_reset_html :: "'r env \<Rightarrow> time \<Rightarrow> string \<Rightarrow> app_error + string" where
  "build_password_reset_html e now token =
     (let action_url = FRONTEND_URL (cfg e) @ ''/reset-password?token='' @ token in
      render e now ''password_reset''
        [(''action_url'', action_url), (''expires_minutes'', py_str (PASSWORD_RESET_TOKEN_TTL_MINUTES (cfg e)))])"

definition build_onboarding_html :: "'r env \<Rightarrow> time \<Rightarrow> app_error + string" where
  "build_onboarding_html e now =
     (let action_url = FRONTEND_URL (cfg e) @ ''/dashboard'' in
      render e now ''onboarding'' [(''action_url'', action_url)])"

definition build_notification_html :: "'r env \<Rightarrow> time \<Rightarrow> string \<Rightarrow> string \<Rightarrow> string option \<Rightarrow> string \<Rightarrow>
    string \<Rightarrow> string \<Rightarrow> app_error + string" where
  "build_notification_html e now reference_id first_name last_name email subject message =
     (let escaped_full_name = html_escape (case last_name of
            Some (c # l) \<Rightarrow> py_strip (first_name @ '' '' @ c # l) | _ \<Rightarrow> first_name);
          escaped_email = html_escape email;
          escaped_subject = html_escape subject;
          escaped_message = html_escape message
      in render e now ''notification''
        [(''reference_id'', reference_id), (''escaped_full_name'', escaped_full_name),
         (''escaped_email'', escaped_email), (''escaped_subject'', escaped_subject),
         (''escaped_message'', escaped_message)])"

definition build_confirmation_html :: "'r env \<Rightarrow> time \<Rightarrow> string \<Rightarrow> string \<Rightarrow> app_error + string" where
  "build_confirmation_html e now first_name reference_id =
     (let safe_name = html_escape first_name in
      render e now ''confirmation'' [(''safe_name'', safe_name), (''reference_id'', reference_id)])"

definition build_security_alert_html :: "'r env \<Rightarrow> time \<Rightarrow> time \<Rightarrow> app_error + string" where
  "build_security_alert_html e now detected_at =
     (let formatted_time = date_str detected_at @ '' '' @ clock_str detected_at @ '' UTC'' in
      render e now ''security_alert'' [(''formatted_time'', formatted_time)])"

section \<open>Sending\<close>

definition send_html :: "'r env \<Rightarrow> string \<Rightarrow> string \<Rightarrow> string option \<Rightarrow> app_error + string \<Rightarrow>
    'r world \<Rightarrow> (app_error + unit) \<times> 'r world" where
  "send_html e to subject reply_to html w =
     (case html of Inl err \<Rightarrow> (Inl err, w)
      | Inr html_content \<Rightarrow> send_mail e to subject html_content reply_to w)"

definition send_verification_email :: "'r env \<Rightarrow> time \<Rightarrow> string \<Rightarrow> string \<Rightarrow> 'r world \<Rightarrow> (app_error + unit) \<times> 'r world" where
  "send_verification_email e now to token w =
     send_html e to (VERIFICATION_SUBJECT (cfg e)) None (build_verification_html e now token) w"

definition send_account_lock_email :: "'r env \<Rightarrow> time \<Rightarrow> string \<Rightarrow> 'r world \<Rightarrow> (app_error + unit) \<times> 'r world" where
  "send_account_lock_email e now to w =
     send_html e to (ACCOUNT_LOCK_SUBJECT (cfg e)) None (build_account_lock_html e now) w"

definition send_password_reset_email :: "'r env \<Rightarrow> time \<Rightarrow> string \<Rightarrow> string \<Rightarrow> 'r world \<Rightarrow> (app_error + unit) \<times> 'r world" where
  "send_password_reset_email e now to token w =
     send_html e to (PASSWORD_RESET_SUBJECT (cfg e)) None (build_password_reset_html e now token) w"

definition send_onboarding_email :: "'r env \<Rightarrow> time \<Rightarrow> string \<Rightarrow> 'r world \<Rightarrow> (app_error + unit) \<times> 'r world" where
  "send_onboarding_email e now to w =
     send_html e to (ONBOARDING_SUBJECT (cfg e)) None (build_onboarding_html e now) w"

definition send_security_alert_email :: "'r env \<Rightarrow> time \<Rightarrow> string \<Rightarrow> time \<Rightarrow> 'r world \<Rightarrow> (app_error + unit) \<times> 'r world" where
  "send_security_alert_email e now to detected_at w =
     send_html e to (SECURITY_ALERT_SUBJECT (cfg e)) None (build_security_alert_html e now detected_at) w"

definition send_contact_notification :: "'r env \<Rightarrow> time \<Rightarrow> string \<Rightarrow> string \<Rightarrow> string option \<Rightarrow> string \<Rightarrow>
    string \<Rightarrow> string \<Rightarrow> 'r world \<Rightarrow> (app_error + unit) \<times> 'r world" where
  "send_contact_notification e now reference_id first_name last_name email subject message w =
     send_html e (CONTACT_RECIPIENT_EMAIL (cfg e)) (CONTACT_NOTIFICATION_SUBJECT (cfg e)) (Some email)
       (build_notification_html e now reference_id first_name last_name email subject message) w"

text \<open>A message that cannot be built is an error; one that cannot be sent is only logged.\<close>

definition send_contact_confirmation :: "'r env \<Rightarrow> time \<Rightarrow> string \<Rightarrow> string \<Rightarrow> string \<Rightarrow> 'r world \<Rightarrow>
    (app_error + unit) \<times> 'r world" where
  "send_contact_confirmation e now to_email first_name reference_id w =
     (case build_confirmation_html e now first_name reference_id of
        Inl err \<Rightarrow> (Inl err, w)
      | Inr html_content \<Rightarrow>
          (Inr (), snd (send_mail e to_email (CONTACT_CONFIRMATION_SUBJECT (cfg e)) html_content None w)))"

definition send_newsletter_welcome_email :: "'r env \<Rightarrow> time \<Rightarrow> string \<Rightarrow> string \<Rightarrow> 'r world \<Rightarrow>
    (app_error + unit) \<times> 'r world" where
  "send_newsletter_welcome_email e now to unsubscribe_token w =
     send_html e to (NEWSLETTER_WELCOME_SUBJECT (cfg e)) None
       (render e now ''newsletter_welcome'' [(''unsubscribe_token'', unsubscribe_token)]) w"

section \<open>Lemmas\<close>

lemma send_mail_frame [simp]:
  "db (snd (send_mail e to s h r w)) = db w" "kv (snd (send_mail e to s h r w)) = kv w"
  "cdn_log (snd (send_mail e to s h r w)) = cdn_log w"
  by (simp_all add: send_mail_def Let_def)

lemma send_html_frame [simp]:
  "db (snd (send_html e to s r h w)) = db w" "kv (snd (send_html e to s r h w)) = kv w"
  "cdn_log (snd (send_html e to s r h w)) = cdn_log w"
  by (cases h; simp add: send_html_def)+

lemma send_frames [simp]:
  "db (snd (send_verification_email e now to tok w)) = db w"
  "kv (snd (send_verification_email e now to tok w)) = kv w"
  "db (snd (send_account_lock_email e now to w)) = db w"
  "kv (snd (send_account_lock_email e now to w)) = kv w"
  "db (snd (send_password_reset_email e now to tok w)) = db w"
  "kv (snd (send_password_reset_email e now to tok w)) = kv w"
  "db (snd (send_onboarding_email e now to w)) = db w"
  "kv (snd (send_onboarding_email e now to w)) = kv w"
  "db (snd (send_security_alert_email e now to at w)) = db w"
  "kv (snd (send_security_alert_email e now to at w)) = kv w"
  "db (snd (send_newsletter_welcome_email e now to tok w)) = db w"
  "kv (snd (send_newsletter_welcome_email e now to tok w)) = kv w"
  by (simp_all add: send_verification_email_def send_account_lock_email_def send_password_reset_email_def
      send_onboarding_email_def send_security_alert_email_def send_newsletter_welcome_email_def)

text \<open>Mail that fails leaves everything as it was; mail that succeeds adds one message.\<close>

lemma send_html_cases:
  obtains (sent) m where "send_html e to s r h w = (Inr (), w\<lparr>outbox := outbox w @ [m]\<rparr>)"
      "m_to m = to" "m_subject m = s" "h = Inr (m_html m)"
    | (failed) err where "send_html e to s r h w = (Inl err, w)"
proof (cases h)
  case (Inl err)
  then show ?thesis by (intro failed) (simp add: send_html_def)
next
  case (Inr html)
  define m where "m = \<lparr>m_from = SMTP_FROM_EMAIL (cfg e), m_to = to, m_subject = s,
    m_reply_to = (if r = Some [] then None else r), m_html = html\<rparr>"
  have eq: "send_mail e to s html r w =
      (if multi_line (SMTP_FROM_EMAIL (cfg e)) \<or> multi_line to \<or> multi_line s
          \<or> (case m_reply_to m of None \<Rightarrow> False | Some r \<Rightarrow> multi_line r)
       then (Inl (ValueError ''Header values may not contain linefeed or carriage return characters''), w)
       else if smtp_send e m then (Inr (), w\<lparr>outbox := outbox w @ [m]\<rparr>) else (Inl EmailDeliveryError, w))"
    by (simp add: send_mail_def Let_def m_def)
  have m: "m_to m = to" "m_subject m = s" "h = Inr (m_html m)" by (simp_all add: m_def Inr)
  show ?thesis
    by (rule disjE [of "send_html e to s r h w = (Inr (), w\<lparr>outbox := outbox w @ [m]\<rparr>)"
          "\<exists>err. send_html e to s r h w = (Inl err, w)"])
      (simp_all only: send_html_def Inr sum.case eq, auto intro: sent m failed split: if_splits simp: send_html_def Inr eq)
qed

subsection \<open>Markup characters\<close>

definition markup :: "char \<Rightarrow> bool" where
  "markup c = (c \<in> {CHR ''<'', CHR ''>'', CHR 0x22, CHR 0x27})"

lemma html_escape_no_markup: "filter markup (html_escape s) = []"
  by (induction s) (auto simp: html_escape_def html_escape_char_def markup_def)

text \<open>Two substitutions whose values agree on the markup characters give texts that do.\<close>

definition same_markup :: "(string \<times> string) list \<Rightarrow> (string \<times> string) list \<Rightarrow> bool" where
  "same_markup vs us = list_all2 (\<lambda>(k, v) (j, u). k = j \<and> filter markup v = filter markup u) vs us"

lemma same_markup_map_of:
  "same_markup vs us \<Longrightarrow> rel_option (\<lambda>v u. filter markup v = filter markup u) (map_of vs k) (map_of us k)"
  unfolding same_markup_def by (induction rule: list_all2_induct) auto

lemma substitute_placeholder:
  assumes "\<not> (s \<noteq> [] \<and> hd s = CHR ''$'')" "substitute vs (CHR ''$'' # s) = Inr a"
  obtains nm rest v x where "placeholder s = Some (nm, rest)" "map_of vs nm = Some v"
    "substitute vs rest = Inr x" "a = v @ x"
  using assms by (auto split: option.splits sum.splits prod.splits)

lemma substitute_markup:
  assumes "same_markup vs us" "substitute vs s = Inr a" "substitute us s = Inr b"
  shows "filter markup a = filter markup b"
  using assms
proof (induction vs s arbitrary: a b rule: substitute.induct)
  case (2 vars c s)
  have r: "rel_option (\<lambda>v u. filter markup v = filter markup u) (map_of vars k) (map_of us k)" for k
    using 2(4) by (rule same_markup_map_of)
  consider (plain) "c \<noteq> CHR ''$''" | (dollar) "c = CHR ''$''" "s \<noteq> [] \<and> hd s = CHR ''$''"
    | (name) "c = CHR ''$''" "\<not> (s \<noteq> [] \<and> hd s = CHR ''$'')" by blast
  then show ?case
  proof cases
    case plain
    then show ?thesis using 2(1)[OF plain 2(4)] 2(5,6)
      by (auto split: sum.splits simp: markup_def)
  next
    case dollar
    then show ?thesis using 2(2)[OF _ _ 2(4)] 2(5,6)
      by (auto split: sum.splits)
  next
    case name
    from 2(5) name obtain nm rest v x where v: "placeholder s = Some (nm, rest)"
      "map_of vars nm = Some v" "substitute vars rest = Inr x" "a = v @ x"
      using substitute_placeholder [OF name(2), of vars a] by blast
    from 2(6) name v(1) obtain u y where u: "map_of us nm = Some u" "substitute us rest = Inr y" "b = u @ y"
      using substitute_placeholder [OF name(2), of us b] by (metis option.inject prod.inject)
    have "filter markup x = filter markup y"
      using 2(3) [of "(nm, rest)" nm rest v] name v u 2(4) by auto
    moreover from r [of nm] v(2) u(1) have "filter markup v = filter markup u" by simp
    ultimately show ?thesis using v(4) u(3) by simp
  qed
qed simp

section \<open>What a visitor can put into a mail\<close>

text \<open>C14. Whatever text a visitor types into the contact form, the mail the support staff reads
  has the same angle brackets and quotes in the same order: name, address, subject and message
  cannot add or close a tag or an attribute of the template.\<close>

theorem contact_notification_escapes:
  assumes "build_notification_html e now ref f1 l1 em1 s1 m1 = Inr a"
    and "build_notification_html e now ref f2 l2 em2 s2 m2 = Inr b"
  shows "filter markup a = filter markup b"
proof -
  obtain source where source: "template_file e ''notification'' = Some source"
    using assms(1) by (cases "template_file e ''notification''") (auto simp: build_notification_html_def render_def)
  show ?thesis
    using assms source
    by (intro substitute_markup [where s = source])
      (auto simp: build_notification_html_def render_def Let_def setdefault_def same_markup_def html_escape_no_markup)
qed

text \<open>The two submissions of the witness: a plain one and one that tries to inject a script.\<close>

theorem contact_notification_escapes_witness:
  "\<exists>a b. build_notification_html demo_env 0 ''R1'' ''Ann'' None ''a@b.c'' ''hi'' ''text'' = Inr a
     \<and> build_notification_html demo_env 0 ''R1'' ''<script>'' (Some ''x'') ''a@b.c'' ''hi'' (CHR 0x22 # ''>'') = Inr b
     \<and> filter markup a = filter markup b \<and> filter markup a = ''<><>''"
proof -
  have a: "build_notification_html demo_env 0 ''R1'' ''Ann'' None ''a@b.c'' ''hi'' ''text''
      = Inr ''<b>Ann</b> text''"
    by code_simp
  have b: "build_notification_html demo_env 0 ''R1'' ''<script>'' (Some ''x'') ''a@b.c'' ''hi'' (CHR 0x22 # ''>'')
      = Inr ''<b>&lt;script&gt; x</b> &quot;&gt;''"
    by code_simp
  show ?thesis
    using a b contact_notification_escapes [OF a b] by (simp add: markup_def)
qed

end
