(* ===== verification/Auth.thy ===== *)
theory Auth
  imports Integrity Email
begin

text \<open>
  Accounts and sessions: the service functions of \<open>app/services/auth.py\<close>, except the Google
  flow.  Each function takes the environment, the instant of the request, what it draws at random
  and its arguments, and returns its result or error with the world after it.  An error before the
  commit leaves the database as it was; what was done in Redis stays done.
\<close>

text \<open>\<open>select(User).where(User.email == email)\<close> and \<open>session.get(User, id)\<close>.\<close>

definition user_by_email :: "string \<Rightarrow> database \<Rightarrow> user option" where
  "user_by_email email d = find (\<lambda>u. u_email u = email) (users d)"

definition get_user :: "uuid \<Rightarrow> database \<Rightarrow> user option" where
  "get_user uid d = find (\<lambda>u. u_id u = uid) (users d)"

section \<open>Sign up\<close>

record signup_request =
  su_first_name :: string
  su_last_name :: "string option"
  su_email :: string
  su_password :: string

text \<open>The values drawn by \<open>signup\<close>: two row ids, the salt and the token.\<close>

record signup_draws =
  sd_user_id :: uuid
  sd_provider_id :: uuid
  sd_salt :: bytes
  sd_raw_token :: string

definition new_user :: "time \<Rightarrow> uuid \<Rightarrow> string \<Rightarrow> string option \<Rightarrow> string \<Rightarrow> string option \<Rightarrow> bool \<Rightarrow>
    string option \<Rightarrow> user" where
  "new_user now uid first_name last_name email password_hash verified photo =
     \<lparr>u_id = uid, u_first_name = first_name, u_last_name = last_name, u_email = email,
      u_password_hash = password_hash, u_is_email_verified = verified, u_profile_photo_url = photo,
      u_role = None, u_created_at = now, u_updated_at = now\<rparr>"

definition new_auth_provider :: "time \<Rightarrow> uuid \<Rightarrow> string \<Rightarrow> string option \<Rightarrow> uuid \<Rightarrow> string \<Rightarrow> auth_provider" where
  "new_auth_provider now pid provider provider_user_id user_id label =
     \<lparr>ap_id = pid, ap_provider = provider, ap_provider_user_id = provider_user_id, ap_user_id = user_id,
      ap_label = label, ap_is_active = True, ap_created_at = now\<rparr>"

text \<open>
  \<open>race\<close> is what other transactions commit between the look-up of the address and the flush of the
  new row.
\<close>

definition signup :: "'r env \<Rightarrow> time \<Rightarrow> signup_draws \<Rightarrow> (database \<Rightarrow> database) \<Rightarrow> signup_request \<Rightarrow>
    'r world \<Rightarrow> (app_error + user \<times> bool) \<times> 'r world" where
  "signup e now dr race payload w =
     (if user_by_email (su_email payload) (db w) \<noteq> None then (Inl EmailConflictError, w)
      else case hash_password e (sd_salt dr) (su_password payload) of
        Inl err \<Rightarrow> (Inl err, w)
      | Inr password_hash \<Rightarrow>
          (let w = w\<lparr>db := race (db w)\<rparr>;
               user = new_user now (sd_user_id dr) (su_first_name payload) (su_last_name payload)
                 (su_email payload) (Some password_hash) False None
           in case insert_user user (db w) of
               Inl err \<Rightarrow> (Inl (if err = IntegrityError then EmailConflictError else err), w)
             | Inr d1 \<Rightarrow>
                 (let auth_provider = new_auth_provider now (sd_provider_id dr) ''email'' None
                        (u_id user) ''Email and Password'';
                      r = revoke_previous_verification_token e now (uuid_str (u_id user)) (kv w);
                      (raw_token, token_hash) = generate_token e (sd_raw_token dr);
                      r = store_verification_token e now token_hash (uuid_str (u_id user)) r
                  in case insert_auth_provider auth_provider d1 of
                      Inl err \<Rightarrow> (Inl err, w\<lparr>kv := r\<rparr>)
                    | Inr d2 \<Rightarrow>
                        (case send_verification_email e now (su_email payload) raw_token (w\<lparr>db := d2, kv := r\<rparr>) of
                           (Inr _, w) \<Rightarrow> (Inr (user, True), w)
                         | (Inl EmailDeliveryError, w) \<Rightarrow> (Inr (user, False), w)
                         | (Inl err, w) \<Rightarrow> (Inl err, w)))))"

definition resend_verification_email :: "'r env \<Rightarrow> time \<Rightarrow> string \<Rightarrow> string \<Rightarrow> 'r world \<Rightarrow>
    (app_error + unit) \<times> 'r world" where
  "resend_verification_email e now raw email w =
     (case user_by_email email (db w) of
        None \<Rightarrow> (Inr (), w)
      | Some user \<Rightarrow>
          if u_is_email_verified user then (Inl EmailAlreadyVerifiedError, w)
          else (let r = revoke_previous_verification_token e now (uuid_str (u_id user)) (kv w);
                    (raw_token, token_hash) = generate_token e raw;
                    r = store_verification_token e now token_hash (uuid_str (u_id user)) r
                in send_verification_email e now (u_email user) raw_token (w\<lparr>kv := r\<rparr>)))"

section \<open>Password reset\<close>

definition request_password_reset :: "'r env \<Rightarrow> time \<Rightarrow> string \<Rightarrow> string \<Rightarrow> 'r world \<Rightarrow>
    (app_error + unit) \<times> 'r world" where
  "request_password_reset e now raw email w =
     (case user_by_email email (db w) of
        None \<Rightarrow> (Inr (), w)
      | Some user \<Rightarrow>
          (let (raw_token, token_hash) = generate_token e raw;
               r = store_password_reset_token e now token_hash (uuid_str (u_id user)) (kv w)
           in send_password_reset_email e now email raw_token (w\<lparr>kv := r\<rparr>)))"

definition reset_password :: "'r env \<Rightarrow> time \<Rightarrow> bytes \<Rightarrow> string \<Rightarrow> string \<Rightarrow> 'r world \<Rightarrow>
    (app_error + unit) \<times> 'r world" where
  "reset_password e now salt token new_password w =
     (let token_hash = hash_token e token;
          (user_id, r) = get_password_reset_user_id e now token_hash (kv w);
          w = w\<lparr>kv := r\<rparr>
      in case user_id of
          None \<Rightarrow> (Inl InvalidPasswordResetTokenError, w)
        | Some user_id \<Rightarrow> (case uuid_parse user_id of
            None \<Rightarrow> (Inl InvalidPasswordResetTokenError, w)
          | Some parsed_user_id \<Rightarrow> (case get_user parsed_user_id (db w) of
              None \<Rightarrow> (Inl InvalidPasswordResetTokenError, w)
            | Some user \<Rightarrow> (case hash_password e salt new_password of
                Inl err \<Rightarrow> (Inl err, w)
              | Inr h \<Rightarrow>
                  (case save_user now parsed_user_id (u_password_hash_update (\<lambda>_. Some h)) (db w) of
                     Inl err \<Rightarrow> (Inl err, w)
                   | Inr d \<Rightarrow> (Inr (), w\<lparr>db := d\<lparr>refresh_tokens :=
                       delete_where (\<lambda>t. rt_user_id t = parsed_user_id) (refresh_tokens d)\<rparr>\<rparr>))))))"

section \<open>Sign in\<close>

text \<open>What a new session draws: the two token identifiers, the family and the row id.\<close>

record session_draws =
  se_access_jti :: string
  se_refresh_jti :: string
  se_family :: uuid
  se_token_id :: uuid

definition new_refresh_token :: "time \<Rightarrow> uuid \<Rightarrow> uuid \<Rightarrow> string \<Rightarrow> time \<Rightarrow> uuid \<Rightarrow> string option \<Rightarrow>
    string option \<Rightarrow> refresh_token" where
  "new_refresh_token now tid user_id token_hash expires_at family_id user_agent ip_address =
     \<lparr>rt_id = tid, rt_user_id = user_id, rt_token_hash = token_hash, rt_created_at = now,
      rt_expires_at = expires_at, rt_is_revoked = False, rt_family_id = family_id,
      rt_user_agent = user_agent, rt_ip_address = ip_address, rt_last_used_at = Some now\<rparr>"

text \<open>\<open>request.headers.get("user-agent", "")[:1000]\<close>, and with \<open>or None\<close>.\<close>

definition user_agent_of :: "request \<Rightarrow> string" where
  "user_agent_of req = take 1000 (case header_get req ''user-agent'' of None \<Rightarrow> [] | Some s \<Rightarrow> s)"

definition user_agent_or_none :: "request \<Rightarrow> string option" where
  "user_agent_or_none req = (if user_agent_of req = [] then None else Some (user_agent_of req))"

text \<open>\<open>dummy\<close> is the hash drawn when the module is loaded; its verification has no effect.\<close>

definition signin :: "'r env \<Rightarrow> time \<Rightarrow> session_draws \<Rightarrow> string \<Rightarrow> string \<Rightarrow> request option \<Rightarrow> 'r world \<Rightarrow>
    (app_error + user \<times> string \<times> string) \<times> 'r world" where
  "signin e now dr email password req w =
     (case check_lockout e now email (kv w) of
        Inl err \<Rightarrow> (Inl err, w)
      | Inr _ \<Rightarrow> (case user_by_email email (db w) of
          None \<Rightarrow>
            (let (attempts, r) = increment_failed_attempts e now email (kv w); w = w\<lparr>kv := r\<rparr>
             in if attempts \<ge> MAX_LOGIN_ATTEMPTS (cfg e)
                then (Inl (AccountLockedError ''Account locked due to too many failed attempts.''), w)
                else (Inl InvalidCredentialsError, w))
        | Some existing_user \<Rightarrow>
            if (case u_password_hash existing_user of None \<Rightarrow> True
                | Some h \<Rightarrow> h = [] \<or> \<not> verify_password e password h)
            then (let (attempts, r) = increment_failed_attempts e now email (kv w); w = w\<lparr>kv := r\<rparr>
                  in if attempts \<ge> MAX_LOGIN_ATTEMPTS (cfg e)
                     then (case send_account_lock_email e now (u_email existing_user) w of
                         (Inl EmailDeliveryError, w) \<Rightarrow>
                           (Inl (AccountLockedError ''Account locked due to too many failed attempts.''), w)
                       | (Inl err, w) \<Rightarrow> (Inl err, w)
                       | (Inr _, w) \<Rightarrow>
                           (Inl (AccountLockedError ''Account locked due to too many failed attempts.''), w))
                     else (Inl InvalidCredentialsError, w))
            else (let w = w\<lparr>kv := reset_attempts e now email (kv w)\<rparr> in
              if \<not> u_is_email_verified existing_user then (Inl EmailNotVerifiedError, w)
              else (let access_token = create_access_token e now (se_access_jti dr) (u_id existing_user);
                        (raw_refresh_token, expire) = create_refresh_token e now (se_refresh_jti dr) (u_id existing_user);
                        refresh_token = new_refresh_token now (se_token_id dr) (u_id existing_user)
                          (hash_token e raw_refresh_token) expire (se_family dr)
                          (case req of None \<Rightarrow> None | Some q \<Rightarrow> user_agent_or_none q)
                          (case req of None \<Rightarrow> None | Some q \<Rightarrow> get_client_ip q)
                    in case insert_refresh_token refresh_token (db w) of
                        Inl err \<Rightarrow> (Inl err, w)
                      | Inr d \<Rightarrow> (Inr (existing_user, access_token, raw_refresh_token), w\<lparr>db := d\<rparr>)))))"

section \<open>Sessions\<close>

definition blacklist_access_token_if_valid :: "'r env \<Rightarrow> time \<Rightarrow> string option \<Rightarrow> 'r \<Rightarrow> 'r" where
  "blacklist_access_token_if_valid e now access_token r =
     (case access_token of
        None \<Rightarrow> r
      | Some tok \<Rightarrow>
          if tok = [] then r
          else (case jwt_decode e tok (SECRET_KEY (cfg e)) [ALGORITHM (cfg e)] False now of
              None \<Rightarrow> r
            | Some payload \<Rightarrow> (case (cl_jti payload, cl_exp payload) of
                (Some jti, Some exp) \<Rightarrow>
                  if jti = [] \<or> exp = 0 then r
                  else (let remaining = exp - timestamp now in
                    if remaining > 0 then blacklist_token e now jti remaining r else r)
              | _ \<Rightarrow> r)))"

text \<open>The alert is sent by a task of its own; the model runs it at once. Its errors are logged.\<close>

definition send_security_alert_best_effort :: "'r env \<Rightarrow> time \<Rightarrow> string \<Rightarrow> time \<Rightarrow> 'r world \<Rightarrow> 'r world" where
  "send_security_alert_best_effort e now email detected_at w =
     snd (send_security_alert_email e now email detected_at w)"

definition revoke_where :: "(refresh_token \<Rightarrow> bool) \<Rightarrow> database \<Rightarrow> database" where
  "revoke_where P d = d\<lparr>refresh_tokens :=
     update_where P (rt_is_revoked_update (\<lambda>_. True)) (refresh_tokens d)\<rparr>"

definition token_by_hash :: "string \<Rightarrow> database \<Rightarrow> refresh_token option" where
  "token_by_hash h d = find (\<lambda>t. rt_token_hash t = h) (refresh_tokens d)"

text \<open>The part of \<open>refresh_session\<close> for a token that was revoked before.\<close>

definition refresh_reused :: "'r env \<Rightarrow> time \<Rightarrow> refresh_token \<Rightarrow> 'r world \<Rightarrow> 'r world" where
  "refresh_reused e now token_obj w =
     (if (case rt_last_used_at token_obj of None \<Rightarrow> False
          | Some last_used \<Rightarrow> now - last_used \<le> seconds (REFRESH_REUSE_GRACE_SECONDS (cfg e)))
      then w
      else (let P = (\<lambda>t. rt_family_id t = rt_family_id token_obj \<and> \<not> rt_is_revoked t);
                rowcount = count_where P (refresh_tokens (db w));
                w = w\<lparr>db := revoke_where P (db w)\<rparr>
            in if rowcount > 0
               then (case get_user (rt_user_id token_obj) (db w) of
                   None \<Rightarrow> w
                 | Some user \<Rightarrow> send_security_alert_best_effort e now (u_email user) now w)
               else w))"

definition refresh_session :: "'r env \<Rightarrow> time \<Rightarrow> session_draws \<Rightarrow> string \<Rightarrow> string option \<Rightarrow> request option \<Rightarrow>
    'r world \<Rightarrow> (app_error + string \<times> string) \<times> 'r world" where
  "refresh_session e now dr raw_refresh_token access_token req w =
     (case token_by_hash (hash_token e raw_refresh_token) (db w) of
        None \<Rightarrow> (Inl InvalidRefreshTokenError, w)
      | Some token_obj \<Rightarrow>
          if rt_is_revoked token_obj then (Inl InvalidRefreshTokenError, refresh_reused e now token_obj w)
          else if rt_expires_at token_obj < now then (Inl InvalidRefreshTokenError, w)
          else (case get_user (rt_user_id token_obj) (db w) of
              None \<Rightarrow> (Inl InvalidRefreshTokenError, w)
            | Some user \<Rightarrow>
                (let w = w\<lparr>kv := blacklist_access_token_if_valid e now access_token (kv w)\<rparr>;
                     d = (db w)\<lparr>refresh_tokens := update_where (\<lambda>t. rt_id t = rt_id token_obj)
                       (\<lambda>t. t\<lparr>rt_is_revoked := True, rt_last_used_at := Some now\<rparr>) (refresh_tokens (db w))\<rparr>;
                     (new_raw_refresh, new_expire) = create_refresh_token e now (se_refresh_jti dr) (u_id user);
                     new_token = new_refresh_token now (se_token_id dr) (u_id user)
                       (hash_token e new_raw_refresh) new_expire (rt_family_id token_obj)
                       (case req of Some q \<Rightarrow> Some (user_agent_of q) | None \<Rightarrow> rt_user_agent token_obj)
                       (case req of Some q \<Rightarrow> get_client_ip q | None \<Rightarrow> rt_ip_address token_obj);
                     new_access_token = create_access_token e now (se_access_jti dr) (u_id user)
                 in case insert_refresh_token new_token d of
                     Inl err \<Rightarrow> (Inl err, w)
                   | Inr d \<Rightarrow> (Inr (new_access_token, new_raw_refresh), w\<lparr>db := d\<rparr>))))"

definition logout_session :: "'r env \<Rightarrow> time \<Rightarrow> string option \<Rightarrow> string option \<Rightarrow> 'r world \<Rightarrow> 'r world" where
  "logout_session e now raw_refresh_token access_token w =
     (let w = (case raw_refresh_token of
            None \<Rightarrow> w
          | Some raw \<Rightarrow>
              if raw = [] then w
              else (case token_by_hash (hash_token e raw) (db w) of
                  None \<Rightarrow> w
                | Some refresh_token_obj \<Rightarrow>
                    if rt_is_revoked refresh_token_obj then w
                    else w\<lparr>db := revoke_where (\<lambda>t. rt_id t = rt_id refresh_token_obj) (db w)\<rparr>))
      in w\<lparr>kv := blacklist_access_token_if_valid e now access_token (kv w)\<rparr>)"

section \<open>Cookies\<close>

record cookie =
  ck_key :: string
  ck_value :: string
  ck_httponly :: bool
  ck_secure :: bool
  ck_samesite :: string
  ck_max_age :: int
  ck_domain :: "string option"

definition set_auth_cookie :: "settings \<Rightarrow> string \<Rightarrow> string \<Rightarrow> int \<Rightarrow> cookie" where
  "set_auth_cookie s key value max_age =
     \<lparr>ck_key = key, ck_value = value, ck_httponly = True, ck_secure = COOKIE_SECURE s,
      ck_samesite = COOKIE_SAMESITE s, ck_max_age = max_age,
      ck_domain = (if COOKIE_DOMAIN s = [] then None else Some (COOKIE_DOMAIN s))\<rparr>"

definition set_access_cookie :: "settings \<Rightarrow> string \<Rightarrow> cookie" where
  "set_access_cookie s access_token =
     set_auth_cookie s (ACCESS_COOKIE s) access_token (ACCESS_TOKEN_EXPIRE_MINUTES s * 60)"

definition set_refresh_cookie :: "settings \<Rightarrow> string \<Rightarrow> cookie" where
  "set_refresh_cookie s refresh_token =
     set_auth_cookie s (REFRESH_COOKIE s) refresh_token (REFRESH_TOKEN_EXPIRE_DAYS s * 86400)"

section \<open>Session lists\<close>

record session_response =
  sr_session_id :: uuid
  sr_user_agent :: "string option"
  sr_ip_address :: "string option"
  sr_created_at :: time
  sr_last_used_at :: "time option"
  sr_expires_at :: time
  sr_is_current :: bool

record session_list_response =
  sl_sessions :: "session_response list"
  sl_total :: int
  sl_page :: int
  sl_limit :: int

definition active_session :: "time \<Rightarrow> uuid \<Rightarrow> refresh_token \<Rightarrow> bool" where
  "active_session now user_id t = (rt_user_id t = user_id \<and> \<not> rt_is_revoked t \<and> rt_expires_at t > now)"

definition to_session_response :: "uuid option \<Rightarrow> refresh_token \<Rightarrow> session_response" where
  "to_session_response current_family_id row =
     \<lparr>sr_session_id = rt_id row, sr_user_agent = rt_user_agent row, sr_ip_address = mask_ip (rt_ip_address row),
      sr_created_at = rt_created_at row, sr_last_used_at = rt_last_used_at row, sr_expires_at = rt_expires_at row,
      sr_is_current = (case current_family_id of None \<Rightarrow> False | Some f \<Rightarrow> rt_family_id row = f)\<rparr>"

text \<open>Rows with equal keys keep the order of the table.\<close>

definition list_user_sessions :: "time \<Rightarrow> uuid \<Rightarrow> uuid option \<Rightarrow> int \<Rightarrow> int \<Rightarrow> database \<Rightarrow> session_list_response" where
  "list_user_sessions now user_id current_family_id page limit d =
     (let active = filter (active_session now user_id) (refresh_tokens d);
          total = int (length active);
          rows = page_of page limit (sort_key (\<lambda>t. desc_nulls_last (rt_last_used_at t)) active)
      in \<lparr>sl_sessions = map (to_session_response current_family_id) rows, sl_total = total,
          sl_page = page, sl_limit = limit\<rparr>)"

definition resolve_current_family_id :: "'r env \<Rightarrow> time \<Rightarrow> string option \<Rightarrow> database \<Rightarrow> uuid option" where
  "resolve_current_family_id e now raw_refresh_token d =
     (case raw_refresh_token of
        None \<Rightarrow> None
      | Some raw \<Rightarrow>
          if raw = [] then None
          else map_option rt_family_id (find (\<lambda>t. rt_token_hash t = hash_token e raw
            \<and> \<not> rt_is_revoked t \<and> rt_expires_at t > now) (refresh_tokens d)))"

definition revoke_all_user_sessions :: "'r env \<Rightarrow> time \<Rightarrow> uuid \<Rightarrow> string option \<Rightarrow> 'r world \<Rightarrow> int \<times> 'r world" where
  "revoke_all_user_sessions e now user_id access_token w =
     (let P = active_session now user_id;
          count = int (count_where P (refresh_tokens (db w)));
          w = w\<lparr>db := revoke_where P (db w)\<rparr>
      in (count, w\<lparr>kv := blacklist_access_token_if_valid e now access_token (kv w)\<rparr>))"

end
