(* ===== verification/Sessions.thy ===== *)
theory Sessions
  imports Auth
begin

text \<open>
  What a session is, abstractly: \<open>token_step\<close> is the only way the table of refresh tokens may
  change.  The services are shown to refine it, and the guarantees of the rotation scheme (one
  active token per family, a closed family stays closed, a revoked token never comes back) are
  proved once, of the relation.
\<close>

section \<open>The abstract session machine\<close>

text \<open>
  \<open>F\<close> are the family identifiers that may be drawn for a new session and \<open>H\<close> the hashes of the
  tokens that may be issued.
\<close>

inductive token_step :: "uuid set \<Rightarrow> string set \<Rightarrow> refresh_token list \<Rightarrow> refresh_token list \<Rightarrow> bool"
  for F :: "uuid set" and H :: "string set" where
  keep: "token_step F H ts ts"
| revoke: "token_step F H ts (update_where P (rt_is_revoked_update (\<lambda>_. True)) ts)"
| drop: "token_step F H ts (delete_where P ts)"
| start: "rt_family_id t \<notin> rt_family_id ` set ts \<Longrightarrow> rt_family_id t \<in> F \<Longrightarrow> rt_token_hash t \<in> H \<Longrightarrow>
    token_step F H ts (ts @ [t])"
| rotate: "x \<in> set ts \<Longrightarrow> \<not> rt_is_revoked x \<Longrightarrow> unique_on rt_id ts \<Longrightarrow>
    rt_family_id t = rt_family_id x \<Longrightarrow> rt_user_id t = rt_user_id x \<Longrightarrow> rt_token_hash t \<in> H \<Longrightarrow>
    token_step F H ts (update_where (\<lambda>y. rt_id y = rt_id x)
      (\<lambda>y. y\<lparr>rt_is_revoked := True, rt_last_used_at := l\<rparr>) ts @ [t])"

inductive_cases token_stepE: "token_step F H ts us"

text \<open>A family belongs to one user and has one active token at most.\<close>

definition families_ok :: "refresh_token list \<Rightarrow> bool" where
  "families_ok ts = (\<forall>x\<in>set ts. \<forall>y\<in>set ts. rt_family_id x = rt_family_id y \<longrightarrow>
     rt_user_id x = rt_user_id y \<and> (\<not> rt_is_revoked x \<and> \<not> rt_is_revoked y \<longrightarrow> rt_id x = rt_id y))"

definition closed_family :: "uuid \<Rightarrow> refresh_token list \<Rightarrow> bool" where
  "closed_family f ts = (\<forall>t\<in>set ts. rt_family_id t = f \<longrightarrow> rt_is_revoked t)"

definition dead_hash :: "string \<Rightarrow> refresh_token list \<Rightarrow> bool" where
  "dead_hash h ts = (\<forall>t\<in>set ts. rt_token_hash t = h \<longrightarrow> rt_is_revoked t)"

lemma rotate_others:
  assumes "x \<in> set ts" "unique_on rt_id ts" "families_ok ts" "\<not> rt_is_revoked x"
    "y \<in> set (update_where (\<lambda>y. rt_id y = rt_id x) (\<lambda>y. y\<lparr>rt_is_revoked := True, rt_last_used_at := l\<rparr>) ts)"
    "rt_family_id y = rt_family_id x"
  shows "rt_is_revoked y \<and> rt_user_id y = rt_user_id x"
proof -
  from assms(5) obtain z where z: "z \<in> set ts"
    "y = (if rt_id z = rt_id x then z\<lparr>rt_is_revoked := True, rt_last_used_at := l\<rparr> else z)"
    by (auto simp: set_update_where)
  then have "rt_family_id z = rt_family_id x" using assms(6) by (auto split: if_splits)
  with assms(1,3) z(1) have "rt_user_id z = rt_user_id x"
    "\<not> rt_is_revoked z \<and> \<not> rt_is_revoked x \<longrightarrow> rt_id z = rt_id x"
    unfolding families_ok_def by blast+
  with assms(4) z(2) show ?thesis by (cases "rt_id z = rt_id x") simp_all
qed

lemma rotated_from:
  assumes "a \<in> set (update_where P (\<lambda>y. y\<lparr>rt_is_revoked := True, rt_last_used_at := l\<rparr>) ts)"
  shows "\<exists>a'\<in>set ts. rt_family_id a = rt_family_id a' \<and> rt_user_id a = rt_user_id a' \<and> rt_id a = rt_id a'
    \<and> (\<not> rt_is_revoked a \<longrightarrow> \<not> rt_is_revoked a')"
proof -
  from assms obtain a' where "a' \<in> set ts"
    "a = (if P a' then a'\<lparr>rt_is_revoked := True, rt_last_used_at := l\<rparr> else a')"
    unfolding set_update_where by blast
  then show ?thesis by (intro bexI [of _ a']) auto
qed

lemma revoked_from:
  assumes "a \<in> set (update_where P (rt_is_revoked_update (\<lambda>_. True)) ts)"
  shows "\<exists>a'\<in>set ts. rt_family_id a = rt_family_id a' \<and> rt_user_id a = rt_user_id a' \<and> rt_id a = rt_id a'
    \<and> (\<not> rt_is_revoked a \<longrightarrow> \<not> rt_is_revoked a')"
proof -
  from assms obtain a' where "a' \<in> set ts" "a = (if P a' then a'\<lparr>rt_is_revoked := True\<rparr> else a')"
    unfolding set_update_where by blast
  then show ?thesis by (intro bexI [of _ a']) auto
qed

lemma families_ok_from:
  assumes "families_ok ts"
    and "\<And>a. a \<in> set us \<Longrightarrow> \<exists>a'\<in>set ts. rt_family_id a = rt_family_id a' \<and> rt_user_id a = rt_user_id a'
      \<and> rt_id a = rt_id a' \<and> (\<not> rt_is_revoked a \<longrightarrow> \<not> rt_is_revoked a')"
  shows "families_ok us"
  unfolding families_ok_def
proof (intro ballI impI)
  fix a b
  assume a: "a \<in> set us" and b: "b \<in> set us" and f: "rt_family_id a = rt_family_id b"
  from assms(2) [OF a] obtain a' where a': "a' \<in> set ts" "rt_family_id a = rt_family_id a'"
    "rt_user_id a = rt_user_id a'" "rt_id a = rt_id a'" "\<not> rt_is_revoked a \<longrightarrow> \<not> rt_is_revoked a'" by blast
  from assms(2) [OF b] obtain b' where b': "b' \<in> set ts" "rt_family_id b = rt_family_id b'"
    "rt_user_id b = rt_user_id b'" "rt_id b = rt_id b'" "\<not> rt_is_revoked b \<longrightarrow> \<not> rt_is_revoked b'" by blast
  have "rt_family_id a' = rt_family_id b' \<longrightarrow> rt_user_id a' = rt_user_id b'
      \<and> (\<not> rt_is_revoked a' \<and> \<not> rt_is_revoked b' \<longrightarrow> rt_id a' = rt_id b')"
    using assms(1) a'(1) b'(1) unfolding families_ok_def by blast
  with f a'(2-) b'(2-) show "rt_user_id a = rt_user_id b
      \<and> (\<not> rt_is_revoked a \<and> \<not> rt_is_revoked b \<longrightarrow> rt_id a = rt_id b)"
    by simp
qed

lemma families_ok_snoc:
  assumes "families_ok ts"
    and "\<And>y. y \<in> set ts \<Longrightarrow> rt_family_id y = rt_family_id t \<Longrightarrow> rt_is_revoked y \<and> rt_user_id y = rt_user_id t"
  shows "families_ok (ts @ [t])"
  unfolding families_ok_def
proof (intro ballI impI)
  fix a b
  assume a: "a \<in> set (ts @ [t])" and b: "b \<in> set (ts @ [t])" and f: "rt_family_id a = rt_family_id b"
  consider "a \<in> set ts" "b \<in> set ts" | "a = t" "b \<in> set ts" | "a \<in> set ts" "b = t" | "a = t" "b = t"
    using a b by auto
  then show "rt_user_id a = rt_user_id b \<and> (\<not> rt_is_revoked a \<and> \<not> rt_is_revoked b \<longrightarrow> rt_id a = rt_id b)"
  proof cases
    case 1
    then show ?thesis using assms(1) f unfolding families_ok_def by blast
  qed (use assms(2) f in auto)
qed

lemma families_ok_step:
  assumes "token_step F H ts us" "families_ok ts"
  shows "families_ok us"
  using assms
proof (cases rule: token_step.cases)
  case (rotate x t l)
  let ?us = "update_where (\<lambda>y. rt_id y = rt_id x) (\<lambda>y. y\<lparr>rt_is_revoked := True, rt_last_used_at := l\<rparr>) ts"
  have "rt_is_revoked y \<and> rt_user_id y = rt_user_id x" if "y \<in> set ?us" "rt_family_id y = rt_family_id x" for y
    using rotate_others [OF rotate(2,4) assms(2) rotate(3) that] .
  moreover have "families_ok ?us"
    using assms(2) rotated_from by (rule families_ok_from)
  ultimately show ?thesis
    unfolding rotate(1) using rotate(5,6) by (intro families_ok_snoc) auto
next
  case (revoke P)
  then show ?thesis using families_ok_from [OF assms(2) revoked_from] by simp
next
  case drop
  then show ?thesis by (auto intro!: families_ok_from [OF assms(2)])
next
  case (start t)
  then have "rt_family_id y \<noteq> rt_family_id t" if "y \<in> set ts" for y
    using that by (metis image_eqI)
  then have "families_ok (ts @ [t])" using assms(2) by (intro families_ok_snoc) auto
  then show ?thesis by (simp add: start(1))
qed (use assms(2) in simp)

lemma closed_family_step:
  assumes "token_step F H ts us" "closed_family f ts" "f \<notin> F"
  shows "closed_family f us"
  using assms
  by (cases rule: token_step.cases) (auto simp: closed_family_def set_update_where split: if_splits)

lemma dead_hash_step:
  assumes "token_step F H ts us" "dead_hash h ts" "h \<notin> H"
  shows "dead_hash h us"
  using assms
  by (cases rule: token_step.cases) (auto simp: dead_hash_def set_update_where split: if_splits)

lemma token_steps_induct:
  assumes "(token_step F H)\<^sup>*\<^sup>* ts us" "P ts" "\<And>ts us. token_step F H ts us \<Longrightarrow> P ts \<Longrightarrow> P us"
  shows "P us"
  using assms by (induction rule: rtranclp_induct) auto

section \<open>The services refine it\<close>

lemma revoke_where_simps [simp]:
  "refresh_tokens (revoke_where P d) = update_where P (rt_is_revoked_update (\<lambda>_. True)) (refresh_tokens d)"
  "users (revoke_where P d) = users d"
  by (simp_all add: revoke_where_def)

lemma get_user_id: "get_user uid d = Some u \<Longrightarrow> u \<in> set (users d) \<and> u_id u = uid"
  by (auto simp: get_user_def dest: find_set)

lemma user_by_emailD: "user_by_email m d = Some u \<Longrightarrow> u \<in> set (users d) \<and> u_email u = m"
  by (auto simp: user_by_email_def dest: find_set)

lemma token_by_hashD: "token_by_hash h d = Some t \<Longrightarrow> t \<in> set (refresh_tokens d) \<and> rt_token_hash t = h"
  by (auto simp: token_by_hash_def dest: find_set)

lemma insert_refresh_token_tokens:
  "insert_refresh_token t d = Inr d' \<Longrightarrow> refresh_tokens d' = refresh_tokens d @ [t]"
  by (auto simp: insert_refresh_token_def)

text \<open>Sign up.\<close>

lemma insert_user_db: "insert_user u d = Inr d' \<Longrightarrow> refresh_tokens d' = refresh_tokens d"
  by (auto simp: insert_user_def)

lemma insert_auth_provider_db: "insert_auth_provider a d = Inr d' \<Longrightarrow> refresh_tokens d' = refresh_tokens d"
  by (auto simp: insert_auth_provider_def)

text \<open>Everything a sign up can do.\<close>

lemma signup_cases:
  obtains (taken) "user_by_email (su_email p) (db w) \<noteq> None" "signup e now dr race p w = (Inl EmailConflictError, w)"
  | (unhashable) err where "user_by_email (su_email p) (db w) = None"
      "hash_password e (sd_salt dr) (su_password p) = Inl err" "signup e now dr race p w = (Inl err, w)"
  | (raced) h err where "user_by_email (su_email p) (db w) = None"
      "hash_password e (sd_salt dr) (su_password p) = Inr h"
      "insert_user (new_user now (sd_user_id dr) (su_first_name p) (su_last_name p) (su_email p) (Some h) False None)
         (race (db w)) = Inl err"
      "signup e now dr race p w = (Inl (if err = IntegrityError then EmailConflictError else err),
         w\<lparr>db := race (db w)\<rparr>)"
  | (unlinked) err r where "user_by_email (su_email p) (db w) = None"
      "signup e now dr race p w = (Inl err, w\<lparr>db := race (db w), kv := r\<rparr>)"
  | (created) h d1 d2 u res w' where "user_by_email (su_email p) (db w) = None"
      "hash_password e (sd_salt dr) (su_password p) = Inr h"
      "u = new_user now (sd_user_id dr) (su_first_name p) (su_last_name p) (su_email p) (Some h) False None"
      "insert_user u (race (db w)) = Inr d1"
      "insert_auth_provider (new_auth_provider now (sd_provider_id dr) ''email'' None (u_id u) ''Email and Password'') d1
         = Inr d2"
      "signup e now dr race p w = (res, w')" "db w' = d2"
      "kv w' = store_verification_token e now (hash_token e (sd_raw_token dr)) (uuid_str (u_id u))
         (revoke_previous_verification_token e now (uuid_str (u_id u)) (kv w))"
      "res = Inr (u, True) \<or> res = Inr (u, False) \<or> (\<exists>err. res = Inl err)"
proof (cases "user_by_email (su_email p) (db w)")
  case (Some x)
  then show ?thesis by (intro taken) (simp_all add: signup_def)
next
  case None
  note free = None
  show ?thesis
  proof (cases "hash_password e (sd_salt dr) (su_password p)")
    case (Inl err)
    then show ?thesis using free by (intro unhashable) (simp_all add: signup_def)
  next
    case (Inr h)
    note hash = Inr
    define u where "u = new_user now (sd_user_id dr) (su_first_name p) (su_last_name p) (su_email p) (Some h) False None"
    show ?thesis
    proof (cases "insert_user u (race (db w))")
      case (Inl err)
      then show ?thesis using free hash
        by (intro raced [of h err]) (simp_all add: signup_def Let_def u_def)
    next
      case (Inr d1)
      note ins = Inr
      let ?a = "new_auth_provider now (sd_provider_id dr) ''email'' None (u_id u) ''Email and Password''"
      let ?r = "store_verification_token e now (hash_token e (sd_raw_token dr)) (uuid_str (u_id u))
         (revoke_previous_verification_token e now (uuid_str (u_id u)) (kv w))"
      show ?thesis
      proof (cases "insert_auth_provider ?a d1")
        case (Inl err)
        then show ?thesis using free hash ins
          by (intro unlinked [of err ?r]) (simp_all add: signup_def Let_def u_def generate_token_def)
      next
        case (Inr d2)
        let ?w = "w\<lparr>db := d2, kv := ?r\<rparr>"
        obtain m w' where m: "send_verification_email e now (su_email p) (sd_raw_token dr) ?w = (m, w')"
          by fastforce
        have d: "db w' = d2" and k: "kv w' = ?r"
          using arg_cong [OF m, of "\<lambda>x. db (snd x)"] arg_cong [OF m, of "\<lambda>x. kv (snd x)"] by simp_all
        define res where "res = (case m of Inr _ \<Rightarrow> Inr (u, True)
            | Inl err \<Rightarrow> if err = EmailDeliveryError then Inr (u, False) else Inl err)"
        have s: "signup e now dr race p w = (res, w')"
          using free hash ins Inr m
          by (cases m) (simp_all add: signup_def Let_def u_def generate_token_def res_def split: app_error.splits)
        have r: "res = Inr (u, True) \<or> res = Inr (u, False) \<or> (\<exists>err. res = Inl err)"
          by (cases m) (simp_all add: res_def)
        show ?thesis by (rule created [OF free hash u_def ins Inr s d k r])
      qed
    qed
  qed
qed

text \<open>Sign in: one equation per outcome.\<close>

definition credentials_ok :: "'r env \<Rightarrow> string \<Rightarrow> user \<Rightarrow> bool" where
  "credentials_ok e password u = (case u_password_hash u of None \<Rightarrow> False
     | Some h \<Rightarrow> h \<noteq> [] \<and> verify_password e password h)"

definition failed_attempt :: "'r env \<Rightarrow> time \<Rightarrow> string \<Rightarrow> 'r \<Rightarrow> app_error" where
  "failed_attempt e now email r =
     (if fst (increment_failed_attempts e now email r) \<ge> MAX_LOGIN_ATTEMPTS (cfg e)
      then AccountLockedError ''Account locked due to too many failed attempts.'' else InvalidCredentialsError)"

definition session_row :: "'r env \<Rightarrow> time \<Rightarrow> session_draws \<Rightarrow> user \<Rightarrow> string option \<Rightarrow> string option \<Rightarrow> refresh_token" where
  "session_row e now dr u agent ip = new_refresh_token now (se_token_id dr) (u_id u)
     (hash_token e (fst (create_refresh_token e now (se_refresh_jti dr) (u_id u))))
     (now + seconds (REFRESH_TOKEN_EXPIRE_DAYS (cfg e) * 86400)) (se_family dr) agent ip"

lemma create_refresh_token_expiry [simp]:
  "snd (create_refresh_token e now jti u) = now + seconds (REFRESH_TOKEN_EXPIRE_DAYS (cfg e) * 86400)"
  by (simp add: create_refresh_token_def Let_def)

lemma create_refresh_token_pair:
  "create_refresh_token e now jti u = (fst (create_refresh_token e now jti u),
     now + seconds (REFRESH_TOKEN_EXPIRE_DAYS (cfg e) * 86400))"
  by (simp add: prod_eq_iff)

lemma signin_locked: "check_lockout e now m (kv w) = Inl err \<Longrightarrow> signin e now dr m p q w = (Inl err, w)"
  by (simp add: signin_def)

lemma signin_unknown:
  assumes "check_lockout e now m (kv w) = Inr ()" "user_by_email m (db w) = None"
  shows "signin e now dr m p q w =
    (Inl (failed_attempt e now m (kv w)), w\<lparr>kv := snd (increment_failed_attempts e now m (kv w))\<rparr>)"
  using assms by (simp add: signin_def failed_attempt_def Let_def split: prod.splits)

lemma credentials_not_ok:
  "\<not> credentials_ok e p u \<longleftrightarrow>
   (case u_password_hash u of None \<Rightarrow> True | Some h \<Rightarrow> h = [] \<or> \<not> verify_password e p h)"
  by (auto simp: credentials_ok_def split: option.splits)

lemma signin_wrong:
  assumes "check_lockout e now m (kv w) = Inr ()" "user_by_email m (db w) = Some u" "\<not> credentials_ok e p u"
  shows "signin e now dr m p q w =
    (let err = failed_attempt e now m (kv w); w1 = w\<lparr>kv := snd (increment_failed_attempts e now m (kv w))\<rparr>
     in if err = InvalidCredentialsError then (Inl err, w1)
        else case send_account_lock_email e now (u_email u) w1 of
          (Inl err', w2) \<Rightarrow> (Inl (if err' = EmailDeliveryError then err else err'), w2)
        | (Inr _, w2) \<Rightarrow> (Inl err, w2))"
  using assms
  by (simp add: signin_def credentials_not_ok failed_attempt_def Let_def split: prod.splits sum.splits app_error.splits)

lemma signin_unverified:
  assumes "check_lockout e now m (kv w) = Inr ()" "user_by_email m (db w) = Some u" "credentials_ok e p u"
    "\<not> u_is_email_verified u"
  shows "signin e now dr m p q w = (Inl EmailNotVerifiedError, w\<lparr>kv := reset_attempts e now m (kv w)\<rparr>)"
  using assms(1,2,4) credentials_not_ok [of e p u] assms(3) by (simp add: signin_def Let_def)

lemma signin_verified:
  assumes "check_lockout e now m (kv w) = Inr ()" "user_by_email m (db w) = Some u" "credentials_ok e p u"
    "u_is_email_verified u"
  shows "signin e now dr m p q w =
    (case insert_refresh_token (session_row e now dr u (case q of None \<Rightarrow> None | Some r \<Rightarrow> user_agent_or_none r)
            (case q of None \<Rightarrow> None | Some r \<Rightarrow> get_client_ip r)) (db w) of
       Inl err \<Rightarrow> (Inl err, w\<lparr>kv := reset_attempts e now m (kv w)\<rparr>)
     | Inr d \<Rightarrow> (Inr (u, create_access_token e now (se_access_jti dr) (u_id u),
           fst (create_refresh_token e now (se_refresh_jti dr) (u_id u))),
         w\<lparr>kv := reset_attempts e now m (kv w), db := d\<rparr>))"
proof -
  obtain raw where raw: "create_refresh_token e now (se_refresh_jti dr) (u_id u)
      = (raw, now + seconds (REFRESH_TOKEN_EXPIRE_DAYS (cfg e) * 86400))"
    using create_refresh_token_pair by blast
  show ?thesis
    using assms(1,2,4) credentials_not_ok [of e p u] assms(3)
    by (simp add: signin_def Let_def session_row_def raw del: create_refresh_token_expiry split: sum.split)
qed

lemmas signin_equations = signin_locked signin_unknown signin_wrong signin_unverified signin_verified

lemma signin_cases:
  obtains (refused) err where "fst (signin e now dr m p q w) = Inl err" "db (snd (signin e now dr m p q w)) = db w"
  | (opened) u agent ip where "check_lockout e now m (kv w) = Inr ()" "user_by_email m (db w) = Some u"
      "credentials_ok e p u" "u_is_email_verified u"
      "fst (signin e now dr m p q w) = Inr (u, create_access_token e now (se_access_jti dr) (u_id u),
         fst (create_refresh_token e now (se_refresh_jti dr) (u_id u)))"
      "insert_refresh_token (session_row e now dr u agent ip) (db w) = Inr (db (snd (signin e now dr m p q w)))"
      "kv (snd (signin e now dr m p q w)) = reset_attempts e now m (kv w)"
proof (cases "check_lockout e now m (kv w)")
  case (Inl err)
  then show ?thesis using signin_locked [OF Inl] by (intro refused) simp_all
next
  case (Inr x)
  then have ok: "check_lockout e now m (kv w) = Inr ()" by simp
  show ?thesis
  proof (cases "user_by_email m (db w)")
    case None
    then show ?thesis using signin_unknown [OF ok] by (intro refused) simp_all
  next
    case (Some u)
    consider "\<not> credentials_ok e p u" | "credentials_ok e p u" "\<not> u_is_email_verified u"
      | "credentials_ok e p u" "u_is_email_verified u" by blast
    then show ?thesis
    proof cases
      case 1
      let ?w1 = "w\<lparr>kv := snd (increment_failed_attempts e now m (kv w))\<rparr>"
      obtain s w2 where s: "send_account_lock_email e now (u_email u) ?w1 = (s, w2)" by fastforce
      have "db w2 = db w" using arg_cong [OF s, of "\<lambda>x. db (snd x)"] by simp
      then show ?thesis using signin_wrong [OF ok Some 1] s
        by (intro refused [of "if failed_attempt e now m (kv w) = InvalidCredentialsError then InvalidCredentialsError
            else case s of Inl err' \<Rightarrow> if err' = EmailDeliveryError then failed_attempt e now m (kv w) else err'
              | Inr _ \<Rightarrow> failed_attempt e now m (kv w)"]) (auto simp: Let_def split: sum.splits)
    next
      case 2
      then show ?thesis using signin_unverified [OF ok Some 2] by (intro refused) simp_all
    next
      case 3
      note eq = signin_verified [OF ok Some 3]
      let ?row = "session_row e now dr u (case q of None \<Rightarrow> None | Some r \<Rightarrow> user_agent_or_none r)
            (case q of None \<Rightarrow> None | Some r \<Rightarrow> get_client_ip r)"
      show ?thesis
      proof (cases "insert_refresh_token ?row (db w)")
        case (Inl err)
        then show ?thesis using eq by (intro refused) simp_all
      next
        case (Inr d)
        then show ?thesis using eq ok Some 3 by (intro opened [of u]) simp_all
      qed
    qed
  qed
qed

lemma signin_token_step:
  assumes "se_family dr \<in> F" "se_family dr \<notin> rt_family_id ` set (refresh_tokens (db w))"
    "range (hash_token e) \<subseteq> H"
  shows "token_step F H (refresh_tokens (db w)) (refresh_tokens (db (snd (signin e now dr m p q w))))"
proof (rule signin_cases [of e now dr m p q w])
  show ?thesis if "db (snd (signin e now dr m p q w)) = db w" using that by (simp add: keep)
  show ?thesis if "insert_refresh_token (session_row e now dr u agent ip) (db w) = Inr (db (snd (signin e now dr m p q w)))"
    for u agent ip
    using insert_refresh_token_tokens [OF that] assms
    by (auto intro!: start simp: session_row_def new_refresh_token_def)
qed

text \<open>Refresh.\<close>

definition in_grace :: "'r env \<Rightarrow> time \<Rightarrow> refresh_token \<Rightarrow> bool" where
  "in_grace e now t = (case rt_last_used_at t of None \<Rightarrow> False
     | Some last_used \<Rightarrow> now - last_used \<le> seconds (REFRESH_REUSE_GRACE_SECONDS (cfg e)))"

definition rotate_token :: "time \<Rightarrow> refresh_token \<Rightarrow> refresh_token list \<Rightarrow> refresh_token list" where
  "rotate_token now t ts = update_where (\<lambda>x. rt_id x = rt_id t)
     (\<lambda>x. x\<lparr>rt_is_revoked := True, rt_last_used_at := Some now\<rparr>) ts"

definition revoke_family :: "uuid \<Rightarrow> refresh_token list \<Rightarrow> refresh_token list" where
  "revoke_family f ts = update_where (\<lambda>t. rt_family_id t = f \<and> \<not> rt_is_revoked t)
     (rt_is_revoked_update (\<lambda>_. True)) ts"

lemma alert_frame [simp]:
  "db (send_security_alert_best_effort e now m at w) = db w"
  "kv (send_security_alert_best_effort e now m at w) = kv w"
  by (simp_all add: send_security_alert_best_effort_def)

lemma refresh_reused_db [simp]:
  "db (refresh_reused e now t w) = (if in_grace e now t then db w
     else (db w)\<lparr>refresh_tokens := revoke_family (rt_family_id t) (refresh_tokens (db w))\<rparr>)"
  "kv (refresh_reused e now t w) = kv w"
  by (simp_all add: refresh_reused_def in_grace_def Let_def revoke_where_def revoke_family_def split: option.split)

lemma refresh_unknown:
  "token_by_hash (hash_token e raw) (db w) = None \<Longrightarrow>
   refresh_session e now dr raw a q w = (Inl InvalidRefreshTokenError, w)"
  by (simp add: refresh_session_def)

lemma refresh_revoked:
  "token_by_hash (hash_token e raw) (db w) = Some t \<Longrightarrow> rt_is_revoked t \<Longrightarrow>
   refresh_session e now dr raw a q w = (Inl InvalidRefreshTokenError, refresh_reused e now t w)"
  by (simp add: refresh_session_def)

lemma refresh_expired:
  "token_by_hash (hash_token e raw) (db w) = Some t \<Longrightarrow> \<not> rt_is_revoked t \<Longrightarrow> rt_expires_at t < now \<Longrightarrow>
   refresh_session e now dr raw a q w = (Inl InvalidRefreshTokenError, w)"
  by (simp add: refresh_session_def)

lemma refresh_orphan:
  "token_by_hash (hash_token e raw) (db w) = Some t \<Longrightarrow> \<not> rt_is_revoked t \<Longrightarrow> \<not> rt_expires_at t < now \<Longrightarrow>
   get_user (rt_user_id t) (db w) = None \<Longrightarrow>
   refresh_session e now dr raw a q w = (Inl InvalidRefreshTokenError, w)"
  by (simp add: refresh_session_def)

definition rotated_row :: "'r env \<Rightarrow> time \<Rightarrow> session_draws \<Rightarrow> refresh_token \<Rightarrow> user \<Rightarrow> request option \<Rightarrow> refresh_token" where
  "rotated_row e now dr t u q = new_refresh_token now (se_token_id dr) (u_id u)
     (hash_token e (fst (create_refresh_token e now (se_refresh_jti dr) (u_id u))))
     (now + seconds (REFRESH_TOKEN_EXPIRE_DAYS (cfg e) * 86400)) (rt_family_id t)
     (case q of Some r \<Rightarrow> Some (user_agent_of r) | None \<Rightarrow> rt_user_agent t)
     (case q of Some r \<Rightarrow> get_client_ip r | None \<Rightarrow> rt_ip_address t)"

lemma refresh_active:
  assumes "token_by_hash (hash_token e raw) (db w) = Some t" "\<not> rt_is_revoked t" "\<not> rt_expires_at t < now"
    "get_user (rt_user_id t) (db w) = Some u"
  shows "refresh_session e now dr raw a q w =
    (let w1 = w\<lparr>kv := blacklist_access_token_if_valid e now a (kv w)\<rparr> in
     case insert_refresh_token (rotated_row e now dr t u q)
         ((db w)\<lparr>refresh_tokens := rotate_token now t (refresh_tokens (db w))\<rparr>) of
       Inl err \<Rightarrow> (Inl err, w1)
     | Inr d \<Rightarrow> (Inr (create_access_token e now (se_access_jti dr) (u_id u),
           fst (create_refresh_token e now (se_refresh_jti dr) (u_id u))), w1\<lparr>db := d\<rparr>))"
proof -
  obtain raw' where raw': "create_refresh_token e now (se_refresh_jti dr) (u_id u)
      = (raw', now + seconds (REFRESH_TOKEN_EXPIRE_DAYS (cfg e) * 86400))"
    using create_refresh_token_pair by blast
  show ?thesis
    using assms
    by (simp add: refresh_session_def Let_def rotated_row_def rotate_token_def raw' del: create_refresh_token_expiry
        split: sum.split option.split)
qed

lemma refresh_cases:
  obtains (refused) err where "fst (refresh_session e now dr raw a q w) = Inl err"
      "db (snd (refresh_session e now dr raw a q w)) = db w"
  | (reused) t where "token_by_hash (hash_token e raw) (db w) = Some t" "rt_is_revoked t" "\<not> in_grace e now t"
      "fst (refresh_session e now dr raw a q w) = Inl InvalidRefreshTokenError"
      "db (snd (refresh_session e now dr raw a q w)) =
         (db w)\<lparr>refresh_tokens := revoke_family (rt_family_id t) (refresh_tokens (db w))\<rparr>"
      "kv (snd (refresh_session e now dr raw a q w)) = kv w"
  | (rotated) t u where "token_by_hash (hash_token e raw) (db w) = Some t" "\<not> rt_is_revoked t"
      "now \<le> rt_expires_at t" "get_user (rt_user_id t) (db w) = Some u"
      "fst (refresh_session e now dr raw a q w) = Inr (create_access_token e now (se_access_jti dr) (u_id u),
         fst (create_refresh_token e now (se_refresh_jti dr) (u_id u)))"
      "insert_refresh_token (rotated_row e now dr t u q)
         ((db w)\<lparr>refresh_tokens := rotate_token now t (refresh_tokens (db w))\<rparr>)
         = Inr (db (snd (refresh_session e now dr raw a q w)))"
      "kv (snd (refresh_session e now dr raw a q w)) = blacklist_access_token_if_valid e now a (kv w)"
proof (cases "token_by_hash (hash_token e raw) (db w)")
  case None
  then show ?thesis using refresh_unknown [OF None] by (intro refused) simp_all
next
  case (Some t)
  consider "rt_is_revoked t" "in_grace e now t" | "rt_is_revoked t" "\<not> in_grace e now t"
    | "\<not> rt_is_revoked t" "rt_expires_at t < now"
    | "\<not> rt_is_revoked t" "\<not> rt_expires_at t < now" "get_user (rt_user_id t) (db w) = None"
    | u where "\<not> rt_is_revoked t" "\<not> rt_expires_at t < now" "get_user (rt_user_id t) (db w) = Some u"
    by (cases "get_user (rt_user_id t) (db w)") blast+
  then show ?thesis
  proof cases
    case 1
    then show ?thesis using refresh_revoked [OF Some 1(1)] by (intro refused) simp_all
  next
    case 2
    then show ?thesis using refresh_revoked [OF Some 2(1)] Some by (intro reused [of t]) simp_all
  next
    case 3
    then show ?thesis using refresh_expired [OF Some 3] by (intro refused) simp_all
  next
    case 4
    then show ?thesis using refresh_orphan [OF Some 4] by (intro refused) simp_all
  next
    case 5
    note eq = refresh_active [OF Some 5]
    show ?thesis
    proof (cases "insert_refresh_token (rotated_row e now dr t u q)
         ((db w)\<lparr>refresh_tokens := rotate_token now t (refresh_tokens (db w))\<rparr>)")
      case (Inl err)
      then show ?thesis using eq by (intro refused) (simp_all add: Let_def)
    next
      case (Inr d)
      then show ?thesis using eq Some 5 by (intro rotated [of t u]) (simp_all add: Let_def)
    qed
  qed
qed

lemma wf_unique_ids: "db_wf d \<Longrightarrow> unique_on rt_id (refresh_tokens d)"
  by (simp add: db_wf_def tokens_ok_def)

lemma refresh_token_step:
  assumes "db_wf (db w)" "range (hash_token e) \<subseteq> H"
  shows "token_step F H (refresh_tokens (db w)) (refresh_tokens (db (snd (refresh_session e now dr raw a q w))))"
proof (rule refresh_cases [of e now dr raw a q w])
  show ?thesis if "db (snd (refresh_session e now dr raw a q w)) = db w" using that by (simp add: keep)
  show ?thesis if "db (snd (refresh_session e now dr raw a q w)) =
         (db w)\<lparr>refresh_tokens := revoke_family (rt_family_id t) (refresh_tokens (db w))\<rparr>" for t
    using that by (simp add: revoke revoke_family_def)
  show ?thesis if t: "token_by_hash (hash_token e raw) (db w) = Some t" "\<not> rt_is_revoked t"
    and u: "get_user (rt_user_id t) (db w) = Some u"
    and ins: "insert_refresh_token (rotated_row e now dr t u q)
         ((db w)\<lparr>refresh_tokens := rotate_token now t (refresh_tokens (db w))\<rparr>)
         = Inr (db (snd (refresh_session e now dr raw a q w)))" for t u
  proof -
    have "refresh_tokens (db (snd (refresh_session e now dr raw a q w)))
        = rotate_token now t (refresh_tokens (db w)) @ [rotated_row e now dr t u q]"
      using insert_refresh_token_tokens [OF ins] by simp
    moreover have "token_step F H (refresh_tokens (db w))
        (rotate_token now t (refresh_tokens (db w)) @ [rotated_row e now dr t u q])"
      unfolding rotate_token_def
      using token_by_hashD [OF t(1)] t(2) get_user_id [OF u] wf_unique_ids [OF assms(1)] assms(2)
      by (intro rotate) (auto simp: rotated_row_def new_refresh_token_def)
    ultimately show ?thesis by simp
  qed
qed

text \<open>Logout, reset and the rest.\<close>

lemma logout_db:
  "db (logout_session e now raw a w) = db w \<or>
   (\<exists>P. db (logout_session e now raw a w) = revoke_where P (db w))"
  by (auto simp: logout_session_def Let_def split: option.split)

lemma logout_token_step:
  "token_step F H (refresh_tokens (db w)) (refresh_tokens (db (logout_session e now raw a w)))"
  using logout_db [of e now raw a w]
proof (elim disjE exE)
  fix P
  assume "db (logout_session e now raw a w) = revoke_where P (db w)"
  then show ?thesis by (simp only: revoke_where_simps revoke)
qed (simp add: keep)

lemma revoke_all_token_step:
  "token_step F H (refresh_tokens (db w)) (refresh_tokens (db (snd (revoke_all_user_sessions e now u a w))))"
  by (simp add: revoke_all_user_sessions_def Let_def revoke)

lemma save_user_tokens: "save_user now uid f d = Inr d' \<Longrightarrow> refresh_tokens d' = refresh_tokens d"
  by (auto simp: save_user_def Let_def)

lemma reset_password_cases:
  obtains (refused) err where "fst (reset_password e now salt tok p w) = Inl err"
      "db (snd (reset_password e now salt tok p w)) = db w"
  | (changed) uid h d where "fst (get_password_reset_user_id e now (hash_token e tok) (kv w)) = Some uid"
      "hash_password e salt p = Inr h" "uuid_parse uid \<noteq> None" "get_user (the (uuid_parse uid)) (db w) \<noteq> None"
      "save_user now (the (uuid_parse uid)) (u_password_hash_update (\<lambda>_. Some h)) (db w) = Inr d"
      "fst (reset_password e now salt tok p w) = Inr ()"
      "db (snd (reset_password e now salt tok p w)) = d\<lparr>refresh_tokens :=
         delete_where (\<lambda>t. rt_user_id t = the (uuid_parse uid)) (refresh_tokens d)\<rparr>"
proof -
  obtain v r where g: "get_password_reset_user_id e now (hash_token e tok) (kv w) = (v, r)" by fastforce
  show ?thesis
  proof (cases v)
    case None
    then show ?thesis using g by (intro refused) (simp_all add: reset_password_def)
  next
    case (Some uid)
    show ?thesis
    proof (cases "uuid_parse uid")
      case None
      then show ?thesis using g Some by (intro refused) (simp_all add: reset_password_def)
    next
      case (Some u)
      show ?thesis
      proof (cases "get_user u (db w)")
        case None
        then show ?thesis using g \<open>v = Some uid\<close> Some by (intro refused) (simp_all add: reset_password_def)
      next
        case (Some usr)
        show ?thesis
        proof (cases "hash_password e salt p")
          case (Inl err)
          then show ?thesis using g \<open>v = Some uid\<close> \<open>uuid_parse uid = Some u\<close> Some
            by (intro refused) (simp_all add: reset_password_def)
        next
          case (Inr h)
          note eqs = g \<open>v = Some uid\<close> \<open>uuid_parse uid = Some u\<close> Some Inr
          show ?thesis
          proof (cases "save_user now u (u_password_hash_update (\<lambda>_. Some h)) (db w)")
            case (Inl err)
            then show ?thesis using eqs by (intro refused) (simp_all add: reset_password_def)
          next
            case (Inr d)
            then show ?thesis using eqs by (intro changed [of uid h d]) (simp_all add: reset_password_def)
          qed
        qed
      qed
    qed
  qed
qed

lemma reset_password_token_step:
  "token_step F H (refresh_tokens (db w)) (refresh_tokens (db (snd (reset_password e now salt tok p w))))"
proof (rule reset_password_cases [of e now salt tok p w])
  show ?thesis if "db (snd (reset_password e now salt tok p w)) = db w" using that by (simp add: keep)
  show ?thesis if "save_user now (the (uuid_parse uid)) (u_password_hash_update (\<lambda>_. Some h)) (db w) = Inr d"
    "db (snd (reset_password e now salt tok p w)) = d\<lparr>refresh_tokens :=
         delete_where (\<lambda>t. rt_user_id t = the (uuid_parse uid)) (refresh_tokens d)\<rparr>" for uid h d
    using that save_user_tokens [OF that(1)] by (simp add: drop)
qed

lemma resend_db [simp]: "db (snd (resend_verification_email e now raw m w)) = db w"
  by (simp add: resend_verification_email_def Let_def generate_token_def split: option.split)

lemma request_reset_db [simp]: "db (snd (request_password_reset e now raw m w)) = db w"
  by (simp add: request_password_reset_def Let_def generate_token_def split: option.split)

section \<open>The services keep the database well formed\<close>

lemma signup_wf:
  assumes "db_wf (db w)" "db_wf (race (db w))"
  shows "db_wf (db (snd (signup e now dr race p w)))"
proof (rule signup_cases [of p w e now dr race])
  show ?thesis if "signup e now dr race p w = (res, w')" "db w' = d2"
    "insert_user u (race (db w)) = Inr d1"
    "insert_auth_provider (new_auth_provider now (sd_provider_id dr) ''email'' None (u_id u) ''Email and Password'') d1
         = Inr d2" for res w' d1 d2 u
    using that insert_auth_provider_wf [OF insert_user_wf [OF assms(2) that(3)] that(4)] by simp
qed (use assms in simp_all)

lemma signin_wf:
  assumes "db_wf (db w)"
  shows "db_wf (db (snd (signin e now dr m p q w)))"
  by (rule signin_cases [of e now dr m p q w]) (use assms insert_refresh_token_wf in auto)

lemma refresh_wf:
  assumes "db_wf (db w)"
  shows "db_wf (db (snd (refresh_session e now dr raw a q w)))"
proof -
  have "db_wf ((db w)\<lparr>refresh_tokens := rotate_token now t (refresh_tokens (db w))\<rparr>)" for t
    unfolding rotate_token_def by (rule update_tokens_wf [OF assms]) simp_all
  moreover have "db_wf ((db w)\<lparr>refresh_tokens := revoke_family f (refresh_tokens (db w))\<rparr>)" for f
    unfolding revoke_family_def by (rule update_tokens_wf [OF assms]) simp_all
  ultimately have steps: "db_wf ((db w)\<lparr>refresh_tokens := ts\<rparr>)"
    if "ts = rotate_token now t (refresh_tokens (db w)) \<or> ts = revoke_family f (refresh_tokens (db w))" for ts t f
    using that by blast
  show ?thesis
  proof (rule refresh_cases [of e now dr raw a q w])
    show ?thesis if "insert_refresh_token (rotated_row e now dr t u q)
         ((db w)\<lparr>refresh_tokens := rotate_token now t (refresh_tokens (db w))\<rparr>)
         = Inr (db (snd (refresh_session e now dr raw a q w)))" for t u
      using insert_refresh_token_wf [OF steps that] by blast
    show ?thesis if "db (snd (refresh_session e now dr raw a q w)) =
         (db w)\<lparr>refresh_tokens := revoke_family (rt_family_id t) (refresh_tokens (db w))\<rparr>" for t
      unfolding that by (rule steps) blast
  qed (use assms in simp_all)
qed

lemma revoke_where_wf: "db_wf d \<Longrightarrow> db_wf (revoke_where P d)"
  unfolding revoke_where_def by (rule update_tokens_wf) simp_all

lemma logout_wf: "db_wf (db w) \<Longrightarrow> db_wf (db (logout_session e now raw a w))"
  using logout_db [of e now raw a w] revoke_where_wf by metis

lemma revoke_all_wf: "db_wf (db w) \<Longrightarrow> db_wf (db (snd (revoke_all_user_sessions e now u a w)))"
  by (simp add: revoke_all_user_sessions_def Let_def revoke_where_wf)

lemma reset_password_wf:
  assumes "db_wf (db w)"
  shows "db_wf (db (snd (reset_password e now salt tok p w)))"
proof (rule reset_password_cases [of e now salt tok p w])
  show ?thesis if "save_user now (the (uuid_parse uid)) (u_password_hash_update (\<lambda>_. Some h)) (db w) = Inr d"
    "db (snd (reset_password e now salt tok p w)) = d\<lparr>refresh_tokens :=
         delete_where (\<lambda>t. rt_user_id t = the (uuid_parse uid)) (refresh_tokens d)\<rparr>" for uid h d
    using that save_user_wf [OF assms that(1)] by (simp add: delete_tokens_wf)
qed (use assms in simp)

end
