(* ===== verification/Stores.thy ===== *)
theory Stores
  imports Laws
begin

text \<open>
  What the Redis stores promise, for every interleaving of the requests: reset links and Google
  states are used once, a new verification link replaces the old ones, a revoked access token is
  refused until it expires, and the login attempts of an address lock it for the window.
\<close>

section \<open>One-time tokens\<close>

definition reset_won :: "string \<Rightarrow> redis_cmd \<times> string option \<Rightarrow> bool" where
  "reset_won h cv = ((case fst cv of GetPasswordResetUserId t k \<Rightarrow> k = h | _ \<Rightarrow> False) \<and> snd cv \<noteq> None)"

definition stores_reset :: "string \<Rightarrow> redis_cmd \<Rightarrow> bool" where
  "stores_reset h c = (case c of StorePasswordResetToken t k u \<Rightarrow> k = h | _ \<Rightarrow> False)"

definition reads_reset :: "string \<Rightarrow> redis_cmd \<Rightarrow> bool" where
  "reads_reset h c = (case c of GetPasswordResetUserId t k \<Rightarrow> k = h | _ \<Rightarrow> False)"

lemma reset_puts_iff: "(\<exists>v x. reset_puts s c = Some (h, v, x)) \<longleftrightarrow> stores_reset h c"
  by (cases c) (auto simp: stores_reset_def)

lemma reset_takes_iff: "(\<exists>t. reset_takes c = Some (t, h)) \<longleftrightarrow> reads_reset h c"
  by (cases c) (auto simp: reads_reset_def)

lemma reset_won_iff: "reset_won h cv \<longleftrightarrow> reads_reset h (fst cv) \<and> snd cv \<noteq> None"
  by (simp add: reset_won_def reads_reset_def)

definition state_won :: "string \<Rightarrow> redis_cmd \<times> string option \<Rightarrow> bool" where
  "state_won h cv = ((case fst cv of GetGoogleOauthState t k \<Rightarrow> k = h | _ \<Rightarrow> False) \<and> snd cv \<noteq> None)"

definition uses_state :: "string \<Rightarrow> redis_cmd \<Rightarrow> bool" where
  "uses_state h c = (case c of StoreGoogleOauthState t k \<Rightarrow> k = h | GetGoogleOauthState t k \<Rightarrow> k = h | _ \<Rightarrow> False)"

lemma uses_state_iff:
  "\<not> uses_state h c \<longleftrightarrow> (\<forall>v x. state_puts s c \<noteq> Some (h, v, x)) \<and> (\<forall>t. state_takes c \<noteq> Some (t, h))"
  by (cases c) (auto simp: uses_state_def)

lemma py_str_1: "py_str 1 = ''1''"
  by code_simp

context token_stores
begin

lemma reset_single_use:
  assumes "list_all (\<lambda>c. \<not> stores_reset h c) cs"
  shows "length (filter (reset_won h) (fst (run_cmds (exec_cmd e) cs r))) \<le> 1"
proof -
  have "reset_won h = pwd_reset.won h"
    by (auto simp: fun_eq_iff pwd_reset.won_def reset_won_iff reset_takes_iff [symmetric])
  moreover have "\<forall>c\<in>set cs. \<forall>v x. reset_puts (cfg e) c \<noteq> Some (h, v, x)"
    using assms reset_puts_iff [of "cfg e" _ h] by (auto simp: list_all_iff)
  ultimately show ?thesis using pwd_reset.single_use [of cs h r] by simp
qed

lemma state_roundtrip:
  assumes "list_all (\<lambda>c. \<not> uses_state st c) cs"
  shows "fst (get_google_oauth_state e t2 st
      (snd (run_cmds (exec_cmd e) (StoreGoogleOauthState t1 st # cs) r)))
    \<longleftrightarrow> t2 < t1 + seconds (GOOGLE_OAUTH_STATE_TTL_MINUTES (cfg e) * 60)"
  using google_state.roundtrip [of "StoreGoogleOauthState t1 st" st "''1''" _ "GetGoogleOauthState t2 st" t2 cs r]
    assms uses_state_iff [of st _ "cfg e"]
  by (simp add: list_all_iff split: if_splits)

lemma lockout:
  assumes ts: "ts \<noteq> []" "live (hd ts) (view r (FAILED_LOGIN_PREFIX (cfg e) @ i)) = None"
    and window: "\<forall>t\<in>set ts. t < hd ts + seconds (LOCKOUT_WINDOW (cfg e))"
    and max: "0 < MAX_LOGIN_ATTEMPTS (cfg e)"
  shows "(\<exists>m. check_lockout e now i (increments e i ts r) = Inl (AccountLockedError m)) \<longleftrightarrow>
      MAX_LOGIN_ATTEMPTS (cfg e) \<le> int (length ts) \<and> now < hd ts + seconds (LOCKOUT_WINDOW (cfg e))"
    and "\<not> (MAX_LOGIN_ATTEMPTS (cfg e) \<le> int (length ts) \<and> now < hd ts + seconds (LOCKOUT_WINDOW (cfg e)))
      \<Longrightarrow> check_lockout e now i (increments e i ts r) = Inr ()"
proof -
  let ?k = "FAILED_LOGIN_PREFIX (cfg e) @ i" and ?x = "hd ts + seconds (LOCKOUT_WINDOW (cfg e))"
  obtain t us where tus: "ts = t # us" using ts(1) by (cases ts) auto
  let ?r = "snd (increment_failed_attempts e t i r)"
  have "view ?r ?k = Some (py_str 1, Some ?x)"
    using increment_new(2) [of t r i] ts(2) tus by (simp add: py_str_1)
  then have v: "view (increments e i ts r) ?k = Some (py_str (int (length ts)), Some ?x)"
    using increments_count [of ?r i 1 ?x us] window tus by (simp add: add.commute)
  have ne: "py_str (int (length ts)) \<noteq> []" by (simp add: py_str_def)
  show "(\<exists>m. check_lockout e now i (increments e i ts r) = Inl (AccountLockedError m)) \<longleftrightarrow>
      MAX_LOGIN_ATTEMPTS (cfg e) \<le> int (length ts) \<and> now < ?x"
    using v ne by (simp add: check_lockout_def Let_def get py_simps)
  show "\<not> (MAX_LOGIN_ATTEMPTS (cfg e) \<le> int (length ts) \<and> now < ?x)
      \<Longrightarrow> check_lockout e now i (increments e i ts r) = Inr ()"
    using v ne by (auto simp: check_lockout_def Let_def get py_simps)
qed

lemma blacklisted:
  assumes "0 < n" "list_all (\<lambda>c. \<forall>t m. c \<noteq> BlacklistToken t jti m) cs"
  shows "is_token_blacklisted e t2 jti (snd (run_cmds (exec_cmd e) cs (blacklist_token e t1 jti n r)))
    \<longleftrightarrow> t2 < t1 + seconds n"
proof -
  have keep: "view (snd (exec_cmd e c r)) (BLACKLIST_PREFIX (cfg e) @ jti) = view r (BLACKLIST_PREFIX (cfg e) @ jti)"
    if "\<forall>t m. c \<noteq> BlacklistToken t jti m" for c r
    using that by (cases c) (auto simp: view_cmds increment_other split: option.splits)
  have "view (snd (run_cmds (exec_cmd e) cs r)) (BLACKLIST_PREFIX (cfg e) @ jti)
      = view r (BLACKLIST_PREFIX (cfg e) @ jti)" for r
    using assms(2)
  proof (induction cs arbitrary: r)
    case (Cons c cs)
    then show ?case using keep [of c r] by (simp add: snd_run_cmds_Cons del: run_cmds.simps)
  qed simp
  then show ?thesis using assms(1) by simp
qed

end

text \<open>C10. A password reset token is accepted at most once: in any sequence of the calls the
  requests make on Redis that does not store it again, at most one lookup of its hash succeeds.\<close>

theorem reset_token_single_use:
  assumes "token_stores e view" "list_all (\<lambda>c. \<not> stores_reset h c) cs"
  shows "length (filter (reset_won h) (fst (run_cmds (exec_cmd e) cs r))) \<le> 1"
  by (rule token_stores.reset_single_use [OF assms])

text \<open>Two lookups, a second reset request in between: the second lookup fails.\<close>

theorem reset_token_single_use_witness:
  "length (filter (reset_won ''h'') (fst (run_cmds (exec_cmd demo_env)
     [GetPasswordResetUserId 5 ''h'', StorePasswordResetToken 6 ''g'' ''u'', GetPasswordResetUserId 7 ''h'']
     (store_password_reset_token demo_env 0 ''h'' ''u'' (\<lambda>k. None))))) \<le> 1"
  by (rule reset_token_single_use [OF token_stores_demo]) (simp add: stores_reset_def)

text \<open>A state of the Google flow is accepted exactly while its minutes last, whatever the
  other requests do in between.\<close>

theorem google_state_window:
  assumes "token_stores e view" "list_all (\<lambda>c. \<not> uses_state st c) cs"
  shows "fst (get_google_oauth_state e t2 st
      (snd (run_cmds (exec_cmd e) (StoreGoogleOauthState t1 st # cs) r)))
    \<longleftrightarrow> t2 < t1 + seconds (GOOGLE_OAUTH_STATE_TTL_MINUTES (cfg e) * 60)"
  by (rule token_stores.state_roundtrip [OF assms])

theorem google_state_window_witness:
  "fst (get_google_oauth_state demo_env (seconds 599) ''st''
      (snd (run_cmds (exec_cmd demo_env) [StoreGoogleOauthState 0 ''st'', StoreGoogleOauthState 1 ''su'',
         GetGoogleOauthState 2 ''su''] (\<lambda>k. None))))"
  using google_state_window [OF token_stores_demo, of "''st''"
      "[StoreGoogleOauthState 1 ''su'', GetGoogleOauthState 2 ''su'']" "seconds 599" 0 "\<lambda>k. None"]
  by (simp add: uses_state_def)

text \<open>The lockout: after failed attempts at the times \<open>ts\<close>, all within the window of the first
  one, the address is locked exactly when there were at least the maximum number of them and the
  window of the first attempt has not ended; then the check raises, otherwise it passes.\<close>

theorem lockout_window:
  assumes "token_stores e view" "0 < MAX_LOGIN_ATTEMPTS (cfg e)"
    and "ts \<noteq> []" "live (hd ts) (view r (FAILED_LOGIN_PREFIX (cfg e) @ i)) = None"
    and "\<forall>t\<in>set ts. t < hd ts + seconds (LOCKOUT_WINDOW (cfg e))"
  shows "if MAX_LOGIN_ATTEMPTS (cfg e) \<le> int (length ts) \<and> now < hd ts + seconds (LOCKOUT_WINDOW (cfg e))
    then \<exists>m. check_lockout e now i (increments e i ts r) = Inl (AccountLockedError m)
    else check_lockout e now i (increments e i ts r) = Inr ()"
  using token_stores.lockout [OF assms(1,3,4,5,2)] by auto

theorem lockout_window_witness:
  "(\<exists>m. check_lockout demo_env (seconds 899) ''a@b.c'' (increments demo_env ''a@b.c'' [0, 1, 2, 3, 4] (\<lambda>k. None))
       = Inl (AccountLockedError m))
   \<and> check_lockout demo_env (seconds 900) ''a@b.c'' (increments demo_env ''a@b.c'' [0, 1, 2, 3, 4] (\<lambda>k. None)) = Inr ()
   \<and> check_lockout demo_env 5 ''a@b.c'' (increments demo_env ''a@b.c'' [0, 1, 2, 3] (\<lambda>k. None)) = Inr ()"
  using lockout_window [OF token_stores_demo, of "[0, 1, 2, 3, 4]" "\<lambda>k. None" "''a@b.c''" "seconds 899"]
    lockout_window [OF token_stores_demo, of "[0, 1, 2, 3, 4]" "\<lambda>k. None" "''a@b.c''" "seconds 900"]
    lockout_window [OF token_stores_demo, of "[0, 1, 2, 3]" "\<lambda>k. None" "''a@b.c''" 5]
  by simp

text \<open>Revoking the previous token before storing a new one leaves the new one as the only
  verification token of the user that any later request can find, and keeps the index in step, so
  the same holds after every further issue.\<close>

theorem verification_token_replaced:
  assumes "token_stores e view" "index_ok (cfg e) (view r) t u" "h \<noteq> []" "t \<le> t'"
  shows "index_ok (cfg e) (view (store_verification_token e t h u (revoke_previous_verification_token e t u r))) t u
    \<and> (live t' (view (store_verification_token e t h u (revoke_previous_verification_token e t u r))
          (TOKEN_PREFIX (cfg e) @ h')) = Some u \<longrightarrow> h' = h)"
  using token_stores.reissue_index_ok [OF assms(1,2,3)] token_stores.reissued_is_only [OF assms(1,2,4)]
  by blast

theorem verification_token_replaced_witness:
  "\<not> live 9 (store_verification_token demo_env 5 ''h2'' ''u'' (revoke_previous_verification_token demo_env 5 ''u''
      (store_verification_token demo_env 0 ''h1'' ''u'' (\<lambda>k. None))) (TOKEN_PREFIX (cfg demo_env) @ ''h1'')) = Some ''u''"
proof -
  let ?r = "store_verification_token demo_env 0 ''h1'' ''u'' (\<lambda>k. None)"
  have "index_ok (cfg demo_env) ?r 5 ''u''"
    by (auto simp: index_ok_def store_verification_token_def ttl_redis_def)
  then have "live 9 (store_verification_token demo_env 5 ''h2'' ''u'' (revoke_previous_verification_token demo_env 5 ''u'' ?r)
      (TOKEN_PREFIX (cfg demo_env) @ ''h1'')) = Some ''u'' \<longrightarrow> ''h1'' = ''h2''"
    by (intro conjunct2 [OF verification_token_replaced [OF token_stores_demo]]) simp_all
  moreover have "''h1'' \<noteq> ''h2''" by simp
  ultimately show ?thesis by blast
qed

text \<open>A blacklisted token identifier is refused for exactly the seconds it was blacklisted for,
  whatever the other requests do meanwhile.\<close>

theorem blacklist_window:
  assumes "token_stores e view" "0 < n" "list_all (\<lambda>c. \<forall>t m. c \<noteq> BlacklistToken t jti m) cs"
  shows "is_token_blacklisted e t2 jti (snd (run_cmds (exec_cmd e) cs (blacklist_token e t1 jti n r)))
    \<longleftrightarrow> t2 < t1 + seconds n"
  by (rule token_stores.blacklisted [OF assms])

theorem blacklist_window_witness:
  "is_token_blacklisted demo_env 5 ''j'' (snd (run_cmds (exec_cmd demo_env)
     [BlacklistToken 1 ''k'' 1, GetPasswordResetUserId 2 ''j''] (blacklist_token demo_env 0 ''j'' 60 (\<lambda>k. None))))"
  using blacklist_window [OF token_stores_demo, of 60 "''j''"
      "[BlacklistToken 1 ''k'' 1, GetPasswordResetUserId 2 ''j'']" 5 0 "\<lambda>k. None"] by simp

end
