(* ===== verification/Access.thy ===== *)
theory Access
  imports Sessions Stores
begin

text \<open>
  The authentication gates of \<open>app/dependencies.py\<close>: which user a request speaks for, and who is
  an administrator.
\<close>

definition unauthorized :: "string \<Rightarrow> app_error" where
  "unauthorized detail = HTTPException 401 detail"

text \<open>\<open>session.get(User, user_id)\<close> with the text of the \<open>sub\<close> claim as the key.\<close>

definition get_user_by_text :: "'r env \<Rightarrow> string \<Rightarrow> database \<Rightarrow> app_error + user option" where
  "get_user_by_text e user_id d =
     (case pg_uuid e user_id of None \<Rightarrow> Inl SQLAlchemyError | Some uid \<Rightarrow> Inr (get_user uid d))"

definition get_current_user :: "'r env \<Rightarrow> time \<Rightarrow> string option \<Rightarrow> 'r world \<Rightarrow> app_error + user" where
  "get_current_user e now token w =
     (case token of
        None \<Rightarrow> Inl (unauthorized ''Not authenticated'')
      | Some tok \<Rightarrow>
          if tok = [] then Inl (unauthorized ''Not authenticated'')
          else (case jwt_decode e tok (SECRET_KEY (cfg e)) [ALGORITHM (cfg e)] True now of
              None \<Rightarrow> Inl (unauthorized ''Could not validate credentials'')
            | Some payload \<Rightarrow> (case cl_jti payload of
                None \<Rightarrow> Inl (unauthorized ''Could not validate credentials'')
              | Some jti \<Rightarrow>
                  if jti = [] then Inl (unauthorized ''Could not validate credentials'')
                  else if is_token_blacklisted e now jti (kv w) then Inl (unauthorized ''Token has been revoked'')
                  else (case cl_sub payload of
                      None \<Rightarrow> Inl (unauthorized ''Could not validate credentials'')
                    | Some user_id \<Rightarrow> (case get_user_by_text e user_id (db w) of
                        Inl err \<Rightarrow> Inl err
                      | Inr None \<Rightarrow> Inl (unauthorized ''User not found'')
                      | Inr (Some user) \<Rightarrow> Inr user)))))"

definition admin_roles :: "uuid \<Rightarrow> database \<Rightarrow> uuid list" where
  "admin_roles uid d = map (\<lambda>(r, ur). r_id r)
     (filter (\<lambda>(r, ur). r_id r = ur_role_id ur \<and> ur_user_id ur = uid \<and> r_name r = ''admin'')
        (List.product (roles d) (user_roles d)))"

text \<open>\<open>scalar_one_or_none\<close> raises when there is more than one row.\<close>

definition get_current_admin :: "'r env \<Rightarrow> time \<Rightarrow> string option \<Rightarrow> 'r world \<Rightarrow> app_error + user" where
  "get_current_admin e now token w =
     (let forbidden = HTTPException 403 ''Admin access required'';
          unauth = HTTPException 401 ''Could not validate credentials'' in
      case token of
        None \<Rightarrow> Inl forbidden
      | Some tok \<Rightarrow>
          if tok = [] then Inl forbidden
          else (case jwt_decode e tok (SECRET_KEY (cfg e)) [ALGORITHM (cfg e)] True now of
              None \<Rightarrow> Inl unauth
            | Some payload \<Rightarrow>
                if (case cl_jti payload of None \<Rightarrow> True
                    | Some jti \<Rightarrow> jti = [] \<or> is_token_blacklisted e now jti (kv w)) then Inl forbidden
                else (case cl_sub payload of
                    None \<Rightarrow> Inl forbidden
                  | Some user_id \<Rightarrow> (case get_user_by_text e user_id (db w) of
                      Inl err \<Rightarrow> Inl err
                    | Inr None \<Rightarrow> Inl forbidden
                    | Inr (Some user) \<Rightarrow> (case admin_roles (u_id user) (db w) of
                        [] \<Rightarrow> Inl forbidden
                      | [_] \<Rightarrow> Inr user
                      | _ \<Rightarrow> Inl SQLAlchemyError)))))"

lemma get_current_user_sound:
  assumes "get_current_user e now tok w = Inr u"
  shows "u \<in> set (users (db w)) \<and> (\<exists>raw c jti s. tok = Some raw \<and>
    jwt_decode e raw (SECRET_KEY (cfg e)) [ALGORITHM (cfg e)] True now = Some c \<and> cl_jti c = Some jti \<and>
    \<not> is_token_blacklisted e now jti (kv w) \<and> cl_sub c = Some s \<and> pg_uuid e s = Some (u_id u))"
  using assms
  by (auto simp: get_current_user_def get_user_by_text_def split: option.splits if_splits sum.splits dest: get_user_id)

lemma set_admin_roles: "admin_roles uid d \<noteq> [] \<longleftrightarrow>
  (\<exists>r\<in>set (roles d). \<exists>ur\<in>set (user_roles d). ur_role_id ur = r_id r \<and> ur_user_id ur = uid \<and> r_name r = ''admin'')"
  by (force simp: admin_roles_def filter_empty_conv)

lemma get_current_admin_user:
  assumes "get_current_admin e now tok w = Inr u"
  shows "get_current_user e now tok w = Inr u \<and> admin_roles (u_id u) (db w) \<noteq> []"
  using assms
  by (auto simp: get_current_admin_def get_current_user_def Let_def split: option.splits if_splits sum.splits list.splits)

section \<open>The life of the tokens\<close>

definition access_expiry :: "'r env \<Rightarrow> time \<Rightarrow> int" where
  "access_expiry e t0 = timestamp (t0 + seconds (ACCESS_TOKEN_EXPIRE_MINUTES (cfg e) * 60))"

definition refresh_expiry :: "'r env \<Rightarrow> time \<Rightarrow> int" where
  "refresh_expiry e t0 = timestamp (t0 + seconds (REFRESH_TOKEN_EXPIRE_DAYS (cfg e) * 86400))"

context sound_env
begin

lemma decode_access:
  "jwt_decode e (create_access_token e t0 jti uid) (SECRET_KEY (cfg e)) [ALGORITHM (cfg e)] verify now =
     (if verify \<and> access_expiry e t0 < timestamp now then None
      else Some \<lparr>cl_sub = Some (uuid_str uid), cl_exp = Some (access_expiry e t0),
        cl_iat = Some (timestamp t0), cl_type = None, cl_jti = Some jti\<rparr>)"
  unfolding create_access_token_def Let_def access_expiry_def
  by (rule jwt.decode_encode) simp_all

lemma decode_refresh:
  "jwt_decode e (fst (create_refresh_token e t0 jti uid)) (SECRET_KEY (cfg e)) [ALGORITHM (cfg e)] verify now =
     (if verify \<and> refresh_expiry e t0 < timestamp now then None
      else Some \<lparr>cl_sub = Some (uuid_str uid), cl_exp = Some (refresh_expiry e t0),
        cl_iat = Some (timestamp t0), cl_type = Some ''refresh'', cl_jti = Some jti\<rparr>)"
  unfolding create_refresh_token_def Let_def refresh_expiry_def fst_conv
  by (rule jwt.decode_encode) simp_all

lemma access_nonempty [simp]: "create_access_token e t0 jti uid \<noteq> []"
  by (simp add: create_access_token_def Let_def jwt.encode_nonempty)

lemma refresh_nonempty [simp]: "fst (create_refresh_token e t0 jti uid) \<noteq> []"
  by (simp add: create_refresh_token_def Let_def jwt.encode_nonempty)

lemma current_user_access:
  assumes "get_user uid (db w) = Some u" "jti \<noteq> []" "timestamp now \<le> access_expiry e t0"
  shows "get_current_user e now (Some (create_access_token e t0 jti uid)) w =
    (if is_token_blacklisted e now jti (kv w) then Inl (unauthorized ''Token has been revoked'') else Inr u)"
  using assms by (simp add: get_current_user_def decode_access get_user_by_text_def pg_law del: is_token_blacklisted)

lemma current_user_refresh:
  assumes "get_user uid (db w) = Some u" "jti \<noteq> []" "timestamp now \<le> refresh_expiry e t0"
  shows "get_current_user e now (Some (fst (create_refresh_token e t0 jti uid))) w =
    (if is_token_blacklisted e now jti (kv w) then Inl (unauthorized ''Token has been revoked'') else Inr u)"
  using assms by (simp add: get_current_user_def decode_refresh get_user_by_text_def pg_law del: is_token_blacklisted)

lemma timestamp_le: "seconds (timestamp t) \<le> t" "t < seconds (timestamp t) + seconds 1"
proof -
  have "t div 1000000 * 1000000 + t mod 1000000 = t" by simp
  moreover have "0 \<le> t mod 1000000" "t mod 1000000 < 1000000" by simp_all
  ultimately show "seconds (timestamp t) \<le> t" "t < seconds (timestamp t) + seconds 1"
    unfolding timestamp_def by linarith+
qed

lemma blacklist_access:
  assumes "jti \<noteq> []" "access_expiry e t0 \<noteq> 0" "timestamp now < access_expiry e t0"
  shows "blacklist_access_token_if_valid e now (Some (create_access_token e t0 jti uid)) r =
    blacklist_token e now jti (access_expiry e t0 - timestamp now) r"
  using assms by (simp add: blacklist_access_token_if_valid_def decode_access Let_def)

text \<open>After the blacklisting, the token is refused up to the second it expires in.\<close>

lemma revoked_access_refused:
  assumes "jti \<noteq> []" "access_expiry e t0 \<noteq> 0" "now \<le> t"
    and "t < seconds (access_expiry e t0) \<or> access_expiry e t0 < timestamp t"
    and kv: "kv w = blacklist_access_token_if_valid e now (Some (create_access_token e t0 jti uid)) r"
  shows "\<exists>detail. get_current_user e t (Some (create_access_token e t0 jti uid)) w = Inl (unauthorized detail)"
proof (cases "access_expiry e t0 < timestamp t")
  case True
  then show ?thesis by (auto simp: get_current_user_def decode_access)
next
  case False
  with assms(4) have t: "t < seconds (access_expiry e t0)" by simp
  have "timestamp now < access_expiry e t0"
    using timestamp_le(1) [of now] assms(3) t by simp
  then have b: "view (kv w) (BLACKLIST_PREFIX (cfg e) @ jti)
      = Some (''1'', Some (now + seconds (access_expiry e t0 - timestamp now)))"
    using kv blacklist_access [OF assms(1,2)] by simp
  have "t < now + seconds (access_expiry e t0 - timestamp now)"
    using t timestamp_le(1) [of now] by (simp add: algebra_simps)
  with b have "is_token_blacklisted e t jti (kv w)" by simp
  with False assms(1) show ?thesis
    by (auto simp: get_current_user_def decode_access simp del: is_token_blacklisted)
qed

end

end
