(* ===== verification/Session_Facts.thy ===== *)
theory Session_Facts
  imports Access
begin

text \<open>
  The guarantees of accounts and sessions, and the concrete accounts at which the witnesses
  instantiate them.
\<close>

section \<open>Concrete accounts\<close>

definition demo_user :: user where
  "demo_user = \<lparr>u_id = 1, u_first_name = ''Ann'', u_last_name = None, u_email = ''ann@x.io'',
     u_password_hash = demo_hashpw [] ''Passw0rd!'', u_is_email_verified = True, u_profile_photo_url = None,
     u_role = None, u_created_at = 0, u_updated_at = 0\<rparr>"

definition demo_token :: refresh_token where
  "demo_token = \<lparr>rt_id = 7, rt_user_id = 1, rt_token_hash = ''#tok'', rt_created_at = 0,
     rt_expires_at = seconds 604800, rt_is_revoked = False, rt_family_id = 5, rt_user_agent = None,
     rt_ip_address = None, rt_last_used_at = Some 0\<rparr>"

definition demo_old_token :: refresh_token where
  "demo_old_token = demo_token\<lparr>rt_id := 6, rt_token_hash := ''#old'', rt_is_revoked := True\<rparr>"

definition demo_db :: database where
  "demo_db = empty_db\<lparr>users := [demo_user], refresh_tokens := [demo_old_token, demo_token]\<rparr>"

definition demo_draws :: session_draws where
  "demo_draws = \<lparr>se_access_jti = ''aj'', se_refresh_jti = ''rj'', se_family = 9, se_token_id = 8\<rparr>"

lemma demo_db_simps [simp]:
  "users demo_db = [demo_user]" "refresh_tokens demo_db = [demo_old_token, demo_token]"
  "u_id demo_user = 1" "u_email demo_user = ''ann@x.io''" "u_is_email_verified demo_user"
  "rt_id demo_token = 7" "rt_id demo_old_token = 6" "rt_family_id demo_token = 5" "rt_family_id demo_old_token = 5"
  "rt_user_id demo_token = 1" "rt_user_id demo_old_token = 1" "\<not> rt_is_revoked demo_token" "rt_is_revoked demo_old_token"
  "rt_token_hash demo_token = ''#tok''" "rt_token_hash demo_old_token = ''#old''"
  "rt_ip_address demo_token = None" "rt_expires_at demo_token = seconds 604800" "rt_last_used_at demo_old_token = Some 0"
  by (simp_all add: demo_db_def demo_user_def demo_token_def demo_old_token_def empty_db_def)

lemma demo_db_wf: "db_wf demo_db"
  by (simp add: db_wf_def demo_db_def empty_db_def table_ok_defs user_ids_def unique_on_def demo_user_def
      demo_token_def demo_old_token_def)

lemma demo_world_simps [simp]: "db (demo_world d) = d" "kv (demo_world d) = (\<lambda>k. None)" "outbox (demo_world d) = []"
  by (simp_all add: demo_world_def)

lemma find_append_none: "\<forall>x\<in>set xs. \<not> P x \<Longrightarrow> find P (xs @ ys) = find P ys"
  by (induction xs) auto

text \<open>The row of a token that was logged out is revoked.\<close>

lemma logout_revokes:
  assumes "db_wf (db w)" "raw \<noteq> []" "token_by_hash (hash_token e raw) (db (logout_session e now (Some raw) a w)) = Some t"
  shows "rt_is_revoked t"
proof (cases "token_by_hash (hash_token e raw) (db w)")
  case None
  then have "db (logout_session e now (Some raw) a w) = db w"
    using assms(2) by (simp add: logout_session_def Let_def)
  with None assms(3) show ?thesis by simp
next
  case (Some x)
  show ?thesis
  proof (cases "rt_is_revoked x")
    case True
    then have "db (logout_session e now (Some raw) a w) = db w"
      using assms(2) Some by (simp add: logout_session_def Let_def)
    with Some True assms(3) show ?thesis by simp
  next
    case False
    let ?P = "\<lambda>t. rt_id t = rt_id x"
    have d: "db (logout_session e now (Some raw) a w) = revoke_where ?P (db w)"
      using assms(2) Some False by (simp add: logout_session_def Let_def)
    have "t \<in> set (refresh_tokens (revoke_where ?P (db w)))" "rt_token_hash t = hash_token e raw"
      using token_by_hashD [OF assms(3)] unfolding d by auto
    then obtain y where y: "y \<in> set (refresh_tokens (db w))" "t = (if ?P y then y\<lparr>rt_is_revoked := True\<rparr> else y)"
      unfolding revoke_where_simps set_update_where by blast
    have "unique_on rt_token_hash (refresh_tokens (db w))" using assms(1) by (simp add: db_wf_def tokens_ok_def)
    moreover have "rt_token_hash y = hash_token e raw"
      using y(2) \<open>rt_token_hash t = hash_token e raw\<close> by (auto split: if_splits)
    ultimately have "y = x" using y(1) token_by_hashD [OF Some] by (metis unique_onD)
    with y(2) show ?thesis by simp
  qed
qed

lemma demo_refresh_not:
  "fst (create_refresh_token demo_env 10 ''rj'' u) \<noteq> ''old''" "fst (create_refresh_token demo_env 10 ''rj'' u) \<noteq> ''tok''"
  using demo_refresh_length(1) [of u] by auto

lemma demo_refresh_ok:
  obtains acc new w' where "refresh_session demo_env 10 demo_draws ''tok'' None None (demo_world demo_db) = (Inr (acc, new), w')"
proof -
  have t: "token_by_hash (hash_token demo_env ''tok'') (db (demo_world demo_db)) = Some demo_token"
    by (simp add: token_by_hash_def hash_token_def)
  have u: "get_user (rt_user_id demo_token) (db (demo_world demo_db)) = Some demo_user"
    by (simp add: get_user_def)
  have "insert_refresh_token (rotated_row demo_env 10 demo_draws demo_token demo_user None)
     (demo_db\<lparr>refresh_tokens := rotate_token 10 demo_token (refresh_tokens demo_db)\<rparr>) \<noteq> Inl err" for err
    using demo_refresh_length [of 1] demo_refresh_not [of 1]
    by (simp add: insert_refresh_token_def rotated_row_def new_refresh_token_def fits_def fits_opt_def rotate_token_def
      update_where_def demo_draws_def hash_token_def checked_def)
  then obtain d where "insert_refresh_token (rotated_row demo_env 10 demo_draws demo_token demo_user None)
     (demo_db\<lparr>refresh_tokens := rotate_token 10 demo_token (refresh_tokens demo_db)\<rparr>) = Inr d"
    by (meson old.sum.exhaust)
  then show ?thesis using refresh_active [OF t _ _ u, of 10 demo_draws None None] that by (simp add: Let_def)
qed

section \<open>Sequences of requests\<close>

text \<open>
  What requests do to the sessions: the services of this part, a new session opened by another
  route, and requests that do not touch the sessions at all.  \<open>F\<close> are the family identifiers that
  may be drawn.
\<close>

inductive service_step :: "'r env \<Rightarrow> uuid set \<Rightarrow> 'r world \<Rightarrow> 'r world \<Rightarrow> bool" for e :: "'r env" and F :: "uuid set" where
  signin: "se_family dr \<in> F \<Longrightarrow> se_family dr \<notin> rt_family_id ` set (refresh_tokens (db w)) \<Longrightarrow>
    service_step e F w (snd (signin e now dr m p q w))"
| renew: "service_step e F w (snd (refresh_session e now dr raw a q w))"
| logout: "service_step e F w (logout_session e now raw' a w)"
| logout_all: "service_step e F w (snd (revoke_all_user_sessions e now u a w))"
| reset: "service_step e F w (snd (reset_password e now salt tok p w))"
| opens: "rt_family_id t \<in> F \<Longrightarrow> rt_family_id t \<notin> rt_family_id ` set (refresh_tokens (db w)) \<Longrightarrow>
    insert_refresh_token t (db w) = Inr d \<Longrightarrow> service_step e F w (w\<lparr>db := d\<rparr>)"
| elsewhere: "db_wf (db w') \<Longrightarrow> refresh_tokens (db w') = refresh_tokens (db w) \<Longrightarrow> service_step e F w w'"

inductive_cases service_stepE: "service_step e F w w'"

text \<open>Every request refines the abstract machine and keeps the database well formed.\<close>

lemma service_step_refines:
  assumes "service_step e F w w'" "db_wf (db w)"
  shows "token_step F UNIV (refresh_tokens (db w)) (refresh_tokens (db w')) \<and> db_wf (db w')"
  using assms
proof cases
  case (signin dr now m p q)
  then show ?thesis
    using signin_token_step [of dr F w e UNIV now m p q] signin_wf [OF assms(2)] by simp
next
  case (renew now dr raw a q)
  then show ?thesis using refresh_token_step [OF assms(2)] refresh_wf [OF assms(2)] by simp
next
  case (logout now raw a)
  then show ?thesis using logout_token_step logout_wf [OF assms(2)] by simp
next
  case (logout_all now u a)
  then show ?thesis using revoke_all_token_step revoke_all_wf [OF assms(2)] by simp
next
  case (reset now salt tok p)
  then show ?thesis using reset_password_token_step reset_password_wf [OF assms(2)] by simp
next
  case (opens t d)
  then show ?thesis
    using insert_refresh_token_tokens [OF opens(4)] insert_refresh_token_wf [OF assms(2) opens(4)]
    by (simp add: token_step.start)
next
  case elsewhere
  then show ?thesis by (simp add: keep)
qed

lemma service_steps_refine:
  assumes "(service_step e F)\<^sup>*\<^sup>* w w'" "db_wf (db w)"
  shows "(token_step F UNIV)\<^sup>*\<^sup>* (refresh_tokens (db w)) (refresh_tokens (db w')) \<and> db_wf (db w')"
  using assms
proof (induction rule: rtranclp_induct)
  case (step y z)
  then show ?case using service_step_refines [of e F y z] by (metis rtranclp.rtrancl_into_rtrancl)
qed simp

text \<open>Rotation keeps sessions single: after any sequence of requests from a database without
  sessions, a token family belongs to one user and has at most one token that is not revoked.\<close>

theorem one_active_token_per_family:
  assumes "(service_step e F)\<^sup>*\<^sup>* w w'" "db_wf (db w)" "refresh_tokens (db w) = []"
    and "x \<in> set (refresh_tokens (db w'))" "y \<in> set (refresh_tokens (db w'))" "rt_family_id x = rt_family_id y"
  shows "rt_user_id x = rt_user_id y \<and> (\<not> rt_is_revoked x \<and> \<not> rt_is_revoked y \<longrightarrow> x = y)"
proof -
  note r = service_steps_refine [OF assms(1,2)]
  have "families_ok (refresh_tokens (db w'))"
    by (rule token_steps_induct [OF conjunct1 [OF r], of families_ok])
      (simp_all add: assms(3) families_ok_def [of "[]"] families_ok_step)
  with assms(4-6) have "rt_user_id x = rt_user_id y \<and> (\<not> rt_is_revoked x \<and> \<not> rt_is_revoked y \<longrightarrow> rt_id x = rt_id y)"
    unfolding families_ok_def by blast
  then show ?thesis
    using unique_onD [OF wf_unique_ids [OF conjunct2 [OF r]], of x y] assms(4,5) by blast
qed

text \<open>A sign in and a refresh from an empty table of sessions.\<close>

theorem one_active_token_per_family_witness:
  "let w0 = demo_world (demo_db\<lparr>refresh_tokens := []\<rparr>);
       w1 = snd (signin demo_env 0 demo_draws ''ann@x.io'' ''Passw0rd!'' None w0)
   in \<forall>x\<in>set (refresh_tokens (db w1)). \<forall>y\<in>set (refresh_tokens (db w1)).
        rt_family_id x = rt_family_id y \<longrightarrow> rt_is_revoked x \<or> rt_is_revoked y \<or> x = y"
proof -
  let ?w0 = "demo_world (demo_db\<lparr>refresh_tokens := []\<rparr>)"
  have "db_wf (demo_db\<lparr>refresh_tokens := []\<rparr>)"
    using demo_db_wf by (simp add: db_wf_def tokens_ok_def)
  moreover have "(service_step demo_env UNIV)\<^sup>*\<^sup>* ?w0 (snd (signin demo_env 0 demo_draws ''ann@x.io'' ''Passw0rd!'' None ?w0))"
    by (intro r_into_rtranclp service_step.signin) simp_all
  ultimately show ?thesis
    using one_active_token_per_family [of demo_env UNIV ?w0] by (simp add: Let_def) blast
qed

lemma revoke_family_closed: "closed_family f (revoke_family f ts)"
  unfolding closed_family_def
proof (intro ballI impI)
  fix t
  assume t: "t \<in> set (revoke_family f ts)" "rt_family_id t = f"
  then obtain r where r: "t = (if rt_family_id r = f \<and> \<not> rt_is_revoked r then r\<lparr>rt_is_revoked := True\<rparr> else r)"
    unfolding revoke_family_def set_update_where by blast
  show "rt_is_revoked t"
  proof (cases "rt_family_id r = f \<and> \<not> rt_is_revoked r")
    case True
    with r show ?thesis by simp
  next
    case False
    with r have "t = r" by simp
    with False t(2) show ?thesis by blast
  qed
qed

text \<open>C2. Reuse detection: a token that was rotated away and is presented again after the grace
  period is refused, and every token of its family is revoked; nothing else changes in the table.\<close>

theorem reuse_revokes_family:
  assumes "token_by_hash (hash_token e raw) (db w) = Some t" "rt_is_revoked t" "rt_last_used_at t = Some used"
    and "used + seconds (REFRESH_REUSE_GRACE_SECONDS (cfg e)) < now"
  shows "fst (refresh_session e now dr raw access req w) = Inl InvalidRefreshTokenError
    \<and> closed_family (rt_family_id t) (refresh_tokens (db (snd (refresh_session e now dr raw access req w))))
    \<and> filter (\<lambda>x. rt_family_id x \<noteq> rt_family_id t) (refresh_tokens (db (snd (refresh_session e now dr raw access req w))))
        = filter (\<lambda>x. rt_family_id x \<noteq> rt_family_id t) (refresh_tokens (db w))
    \<and> users (db (snd (refresh_session e now dr raw access req w))) = users (db w)"
proof -
  have g: "\<not> in_grace e now t" using assms(3,4) by (simp add: in_grace_def)
  have "filter (\<lambda>x. rt_family_id x \<noteq> f) (revoke_family f ts) = filter (\<lambda>x. rt_family_id x \<noteq> f) ts" for f ts
    by (induction ts) (auto simp: revoke_family_def update_where_def)
  moreover have "closed_family f (revoke_family f ts)" for f ts
    by (rule revoke_family_closed)
  ultimately show ?thesis
    using refresh_revoked [OF assms(1,2)] g by simp
qed

theorem reuse_revokes_family_witness:
  "fst (refresh_session demo_env (seconds 60) demo_draws ''old'' None None (demo_world demo_db)) = Inl InvalidRefreshTokenError
   \<and> closed_family 5 (refresh_tokens (db (snd (refresh_session demo_env (seconds 60) demo_draws ''old'' None None (demo_world demo_db)))))"
  using reuse_revokes_family [of demo_env "''old''" "demo_world demo_db" demo_old_token 0 "seconds 60" demo_draws None None]
  by (simp add: token_by_hash_def hash_token_def)

text \<open>A closed family stays closed: once all its tokens are revoked, no sequence of requests
  makes any token of it acceptable again, so both the thief and the victim have to sign in anew.\<close>

theorem closed_family_never_refreshes:
  assumes "(service_step e F)\<^sup>*\<^sup>* w w'" "db_wf (db w)" "closed_family f (refresh_tokens (db w))" "f \<notin> F"
    and "token_by_hash (hash_token e raw) (db w') = Some t" "rt_family_id t = f"
  shows "fst (refresh_session e now dr raw access req w') = Inl InvalidRefreshTokenError"
proof -
  have "closed_family f (refresh_tokens (db w'))"
    by (rule token_steps_induct [OF conjunct1 [OF service_steps_refine [OF assms(1,2)]], of "closed_family f"])
      (simp_all add: assms(3,4) closed_family_step)
  with token_by_hashD [OF assms(5)] assms(6) have "rt_is_revoked t" by (auto simp: closed_family_def)
  then show ?thesis using refresh_revoked [OF assms(5)] by simp
qed

theorem closed_family_never_refreshes_witness:
  "let w = snd (refresh_session demo_env (seconds 60) demo_draws ''old'' None None (demo_world demo_db))
   in fst (refresh_session demo_env (seconds 61) demo_draws ''tok'' None None
        (logout_session demo_env (seconds 60) (Some ''other'') None w)) = Inl InvalidRefreshTokenError"
proof -
  let ?w = "snd (refresh_session demo_env (seconds 60) demo_draws ''old'' None None (demo_world demo_db))"
  let ?w' = "logout_session demo_env (seconds 60) (Some ''other'') None ?w"
  have wf: "db_wf (db ?w)" by (rule refresh_wf) (simp add: demo_db_wf)
  have "refresh_session demo_env (seconds 60) demo_draws ''old'' None None (demo_world demo_db)
      = (Inl InvalidRefreshTokenError, refresh_reused demo_env (seconds 60) demo_old_token (demo_world demo_db))"
    by (rule refresh_revoked) (simp_all add: token_by_hash_def hash_token_def)
  then have d: "refresh_tokens (db ?w) = [demo_old_token, demo_token\<lparr>rt_is_revoked := True\<rparr>]"
    by (simp add: in_grace_def revoke_family_def update_where_def)
  then have cl: "closed_family 5 (refresh_tokens (db ?w))" by (simp add: closed_family_def)
  have st: "(service_step demo_env {9})\<^sup>*\<^sup>* ?w ?w'"
    by (intro r_into_rtranclp service_step.logout)
  have "db ?w' = db ?w" using d by (simp add: logout_session_def token_by_hash_def hash_token_def Let_def)
  then have t: "token_by_hash (hash_token demo_env ''tok'') (db ?w') = Some (demo_token\<lparr>rt_is_revoked := True\<rparr>)"
    using d by (simp add: token_by_hash_def hash_token_def)
  have "(5 :: uuid) \<notin> {9}" by simp
  from closed_family_never_refreshes [OF st wf cl this t] show ?thesis by simp
qed

section \<open>Rotation and logout\<close>

text \<open>C1. A refresh that succeeds spends the token it was given: that token was active, unexpired and
  of an existing user; afterwards it is revoked, and the table holds one more row, active, of the
  same user and family, under the hash of the refresh token that is handed out; the new access token
  opens the session of that user.\<close>

theorem refresh_rotates:
  assumes "sound_env e view" "db_wf (db w)"
    and "refresh_session e now dr raw access req w = (Inr (new_access, new_raw), w')"
    and "se_access_jti dr \<noteq> []" "0 \<le> ACCESS_TOKEN_EXPIRE_MINUTES (cfg e)"
  shows "\<exists>t u row. token_by_hash (hash_token e raw) (db w) = Some t \<and> \<not> rt_is_revoked t \<and> now \<le> rt_expires_at t
    \<and> get_user (rt_user_id t) (db w) = Some u
    \<and> refresh_tokens (db w') = rotate_token now t (refresh_tokens (db w)) @ [row]
    \<and> dead_hash (hash_token e raw) (refresh_tokens (db w'))
    \<and> token_by_hash (hash_token e new_raw) (db w') = Some row \<and> \<not> rt_is_revoked row
    \<and> rt_family_id row = rt_family_id t \<and> rt_user_id row = rt_user_id t
    \<and> get_current_user e now (Some new_access) w'
        = (if is_token_blacklisted e now (se_access_jti dr) (kv w') then Inl (unauthorized ''Token has been revoked'')
           else Inr u)"
proof (rule refresh_cases [of e now dr raw access req w])
  fix err
  assume "fst (refresh_session e now dr raw access req w) = Inl err"
  with assms(3) show ?thesis by simp
next
  fix t
  assume "fst (refresh_session e now dr raw access req w) = Inl InvalidRefreshTokenError"
  with assms(3) show ?thesis by simp
next
  fix t u
  assume t: "token_by_hash (hash_token e raw) (db w) = Some t" "\<not> rt_is_revoked t" "now \<le> rt_expires_at t"
    and u: "get_user (rt_user_id t) (db w) = Some u"
    and res: "fst (refresh_session e now dr raw access req w) = Inr (create_access_token e now (se_access_jti dr) (u_id u),
         fst (create_refresh_token e now (se_refresh_jti dr) (u_id u)))"
    and ins: "insert_refresh_token (rotated_row e now dr t u req)
         ((db w)\<lparr>refresh_tokens := rotate_token now t (refresh_tokens (db w))\<rparr>)
         = Inr (db (snd (refresh_session e now dr raw access req w)))"
  let ?row = "rotated_row e now dr t u req"
  let ?ts = "rotate_token now t (refresh_tokens (db w))"
  from ins assms(3) have ins: "insert_refresh_token ?row ((db w)\<lparr>refresh_tokens := ?ts\<rparr>) = Inr (db w')" by simp
  then have dw: "db w' = (db w)\<lparr>refresh_tokens := ?ts @ [?row]\<rparr>"
    and new: "rt_token_hash ?row \<notin> rt_token_hash ` set ?ts"
    by (auto simp: insert_refresh_token_def)
  from res assms(3) have na: "new_access = create_access_token e now (se_access_jti dr) (u_id u)"
    and nr: "hash_token e new_raw = rt_token_hash ?row"
    by (simp_all add: rotated_row_def new_refresh_token_def)
  have "token_by_hash (hash_token e new_raw) (db w') = Some ?row"
  proof -
    have "\<forall>x\<in>set ?ts. \<not> rt_token_hash x = rt_token_hash ?row" using new by (metis image_eqI)
    then show ?thesis unfolding token_by_hash_def dw nr by (simp add: find_append_none)
  qed
  moreover have "dead_hash (hash_token e raw) (refresh_tokens (db w'))"
  proof -
    note tt = token_by_hashD [OF t(1)]
    have "unique_on rt_token_hash (refresh_tokens (db w))" using assms(2) by (simp add: db_wf_def tokens_ok_def)
    with tt have only: "x = t" if "x \<in> set (refresh_tokens (db w))" "rt_token_hash x = hash_token e raw" for x
      using that by (metis unique_onD)
    have "hash_token e raw \<in> rt_token_hash ` set ?ts"
      using tt unfolding rotate_token_def by (subst image_update_where) (simp, metis image_eqI)
    then have "rt_token_hash ?row \<noteq> hash_token e raw" using new by metis
    moreover have "rt_is_revoked y" if y: "y \<in> set ?ts" "rt_token_hash y = hash_token e raw" for y
    proof -
      from y(1) obtain r where r: "r \<in> set (refresh_tokens (db w))"
        "y = (if rt_id r = rt_id t then r\<lparr>rt_is_revoked := True, rt_last_used_at := Some now\<rparr> else r)"
        unfolding rotate_token_def set_update_where by blast
      then have "rt_token_hash r = hash_token e raw" using y(2) by (auto split: if_splits)
      then have "r = t" using only r(1) by blast
      with r(2) show ?thesis by simp
    qed
    ultimately show ?thesis unfolding dead_hash_def dw by auto
  qed
  moreover have "get_current_user e now (Some new_access) w' =
      (if is_token_blacklisted e now (se_access_jti dr) (kv w') then Inl (unauthorized ''Token has been revoked'') else Inr u)"
    unfolding na
    using u get_user_id [OF u] assms(4,5)
    by (intro sound_env.current_user_access [OF assms(1)])
      (auto simp: dw get_user_def access_expiry_def timestamp_def intro!: zdiv_mono1)
  moreover have "\<not> rt_is_revoked ?row" "rt_family_id ?row = rt_family_id t" "rt_user_id ?row = rt_user_id t"
    using get_user_id [OF u] by (simp_all add: rotated_row_def new_refresh_token_def)
  ultimately show ?thesis using t u dw by auto
qed

theorem refresh_rotates_witness:
  "\<exists>new w' row. fst (refresh_session demo_env 10 demo_draws ''tok'' None None (demo_world demo_db)) = Inr new
     \<and> snd (refresh_session demo_env 10 demo_draws ''tok'' None None (demo_world demo_db)) = w'
     \<and> refresh_tokens (db w') = rotate_token 10 demo_token [demo_old_token, demo_token] @ [row] \<and> rt_family_id row = 5"
proof -
  obtain acc new w' where ok: "refresh_session demo_env 10 demo_draws ''tok'' None None (demo_world demo_db) = (Inr (acc, new), w')"
    by (rule demo_refresh_ok)
  have "token_by_hash (hash_token demo_env ''tok'') demo_db = Some demo_token"
    by (simp add: token_by_hash_def hash_token_def)
  with refresh_rotates [OF sound_env_demo _ ok] ok demo_db_wf show ?thesis
    by (auto simp: demo_draws_def)
qed

text \<open>C4. After a logout the session is over on both sides: the refresh token is refused at any
  later time, and the access token up to the second it expires in and after that second.\<close>

theorem logout_ends_session:
  assumes "sound_env e view" "db_wf (db w)" "raw \<noteq> []"
    and "w' = logout_session e now (Some raw) (Some (create_access_token e t0 jti uid)) w"
    and "jti \<noteq> []" "access_expiry e t0 \<noteq> 0" "now \<le> t"
    and "t < seconds (access_expiry e t0) \<or> access_expiry e t0 < timestamp t"
  shows "fst (refresh_session e t' dr raw a q w') = Inl InvalidRefreshTokenError
    \<and> (\<exists>detail. get_current_user e t (Some (create_access_token e t0 jti uid)) w' = Inl (unauthorized detail))"
proof
  have "\<exists>r. kv w' = blacklist_access_token_if_valid e now (Some (create_access_token e t0 jti uid)) r"
    unfolding assms(4) logout_session_def Let_def by auto
  then show "\<exists>detail. get_current_user e t (Some (create_access_token e t0 jti uid)) w' = Inl (unauthorized detail)"
    using sound_env.revoked_access_refused [OF assms(1,5,6,7,8)] by blast
  show "fst (refresh_session e t' dr raw a q w') = Inl InvalidRefreshTokenError"
  proof (cases "token_by_hash (hash_token e raw) (db w')")
    case None
    then show ?thesis using refresh_unknown [OF None] by simp
  next
    case (Some tk)
    have "rt_is_revoked tk"
      using Some assms(2,3) logout_revokes [of w raw e now "Some (create_access_token e t0 jti uid)" tk]
      by (simp add: assms(4))
    then show ?thesis using refresh_revoked [OF Some] by simp
  qed
qed

theorem logout_ends_session_witness:
  "let w = logout_session demo_env (seconds 60) (Some ''tok'') (Some (create_access_token demo_env 0 ''aj'' 1)) (demo_world demo_db)
   in fst (refresh_session demo_env (seconds 61) demo_draws ''tok'' None None w) = Inl InvalidRefreshTokenError
    \<and> (\<exists>detail. get_current_user demo_env (seconds 61) (Some (create_access_token demo_env 0 ''aj'' 1)) w
         = Inl (unauthorized detail))"
  unfolding Let_def
  by (rule logout_ends_session [OF sound_env_demo, where w = "demo_world demo_db" and now = "seconds 60" and t = "seconds 61"])
    (simp_all add: demo_db_wf access_expiry_def timestamp_def)

end
