(* ===== verification/Account_Facts.thy ===== *)
theory Account_Facts
  imports Session_Facts
begin

text \<open>
  The guarantees of sign in, lockout, password reset, sign up and the session list.
\<close>

section \<open>Sign in\<close>

text \<open>C5. Who signs in: a sign in succeeds only when the address is not locked, belongs to a
  verified account and the password matches its hash.  Then the counter of failed attempts of this address is gone, so that the
  next wrong password counts as the first, and no other entry of Redis changes; the database gains one
  session row with the hash of the refresh token and nothing else; and the access token it returns speaks for that
  account.\<close>

theorem signin_success:
  assumes "sound_env e view"
    and "signin e now dr m p q w = (Inr (u, access, raw), w')"
    and "se_access_jti dr \<noteq> []" "0 \<le> ACCESS_TOKEN_EXPIRE_MINUTES (cfg e)" "db_wf (db w)"
  shows "check_lockout e now m (kv w) = Inr () \<and> u \<in> set (users (db w)) \<and> u_email u = m \<and> u_is_email_verified u
    \<and> credentials_ok e p u
    \<and> (\<exists>row. db w' = (db w)\<lparr>refresh_tokens := refresh_tokens (db w) @ [row]\<rparr> \<and> rt_user_id row = u_id u
         \<and> rt_token_hash row = hash_token e raw \<and> \<not> rt_is_revoked row \<and> rt_family_id row = se_family dr
         \<and> rt_expires_at row = now + seconds (REFRESH_TOKEN_EXPIRE_DAYS (cfg e) * 86400))
    \<and> view (kv w') = (view (kv w))(FAILED_LOGIN_PREFIX (cfg e) @ m := None)
    \<and> (\<forall>t. check_lockout e t m (kv w') = Inr () \<and> fst (increment_failed_attempts e t m (kv w')) = 1)
    \<and> (\<not> is_token_blacklisted e now (se_access_jti dr) (kv w')
        \<longrightarrow> get_current_user e now (Some access) w' = Inr u)"
proof (rule signin_cases [of e now dr m p q w])
  fix err
  assume "fst (signin e now dr m p q w) = Inl err"
  with assms(2) show ?thesis by simp
next
  fix v agent ip
  assume ok: "check_lockout e now m (kv w) = Inr ()" "user_by_email m (db w) = Some v"
      "credentials_ok e p v" "u_is_email_verified v"
    and res: "fst (signin e now dr m p q w) = Inr (v, create_access_token e now (se_access_jti dr) (u_id v),
         fst (create_refresh_token e now (se_refresh_jti dr) (u_id v)))"
    and ins: "insert_refresh_token (session_row e now dr v agent ip) (db w) = Inr (db (snd (signin e now dr m p q w)))"
    and kv: "kv (snd (signin e now dr m p q w)) = reset_attempts e now m (kv w)"
  from res assms(2) have v: "v = u" and acc: "access = create_access_token e now (se_access_jti dr) (u_id u)"
    and raw: "raw = fst (create_refresh_token e now (se_refresh_jti dr) (u_id u))" by auto
  note ts = token_stores.get_view [OF sound_env.axioms(1) [OF assms(1)]]
  from ins assms(2) have tok: "db w' = (db w)\<lparr>refresh_tokens := refresh_tokens (db w) @ [session_row e now dr u agent ip]\<rparr>"
    unfolding v by (auto simp: insert_refresh_token_def)
  then have us: "users (db w') = users (db w)" by simp
  have attempts: "view (kv w') = (view (kv w))(FAILED_LOGIN_PREFIX (cfg e) @ m := None)"
    using kv assms(2) by (simp add: token_stores.view_reset_attempts [OF sound_env.axioms(1) [OF assms(1)]])
  have "check_lockout e t m (kv w') = Inr () \<and> fst (increment_failed_attempts e t m (kv w')) = 1" for t
    using token_stores.increment_new(1) [OF sound_env.axioms(1) [OF assms(1)], of t "kv w'" m]
    by (simp add: attempts check_lockout_def Let_def ts)
  moreover have "get_user (u_id u) (db w') = Some u"
    using user_by_emailD [OF ok(2)] assms(5) unfolding get_user_def us v
    by (intro find_unique) (simp_all add: db_wf_def users_ok_def)
  then have "\<not> is_token_blacklisted e now (se_access_jti dr) (kv w') \<Longrightarrow> get_current_user e now (Some access) w' = Inr u"
    unfolding acc
    using sound_env.current_user_access [OF assms(1) _ assms(3), of "u_id u" w' u now now] assms(4)
    by (simp add: access_expiry_def timestamp_def zdiv_mono1)
  ultimately show ?thesis
    using ok user_by_emailD [OF ok(2)] tok attempts unfolding v raw
    by (auto simp: session_row_def new_refresh_token_def)
qed

lemma demo_credentials: "credentials_ok demo_env ''Passw0rd!'' demo_user" "\<not> credentials_ok demo_env ''wrong'' demo_user"
  by code_simp+

lemma demo_signin_ok:
  obtains acc raw w' where "signin demo_env 10 demo_draws ''ann@x.io'' ''Passw0rd!'' None (demo_world demo_db)
    = (Inr (demo_user, acc, raw), w')"
proof -
  have u: "user_by_email ''ann@x.io'' (db (demo_world demo_db)) = Some demo_user"
    by (simp add: user_by_email_def)
  have l: "check_lockout demo_env 10 ''ann@x.io'' (kv (demo_world demo_db)) = Inr ()"
    by (simp add: check_lockout_def Let_def ttl_redis.get)
  have "insert_refresh_token (session_row demo_env 10 demo_draws demo_user None None) demo_db \<noteq> Inl err" for err
    using demo_refresh_length [of 1] demo_refresh_not [of 1]
    by (simp add: insert_refresh_token_def session_row_def new_refresh_token_def fits_def fits_opt_def
      demo_draws_def hash_token_def checked_def)
  then obtain d where "insert_refresh_token (session_row demo_env 10 demo_draws demo_user None None) demo_db = Inr d"
    by (meson old.sum.exhaust)
  then show ?thesis using signin_verified [OF l u demo_credentials(1)] that by simp
qed

theorem signin_success_witness:
  "\<exists>acc raw w'. signin demo_env 10 demo_draws ''ann@x.io'' ''Passw0rd!'' None (demo_world demo_db)
      = (Inr (demo_user, acc, raw), w')
    \<and> check_lockout demo_env 10 ''ann@x.io'' (kv w') = Inr ()
    \<and> (\<exists>row. refresh_tokens (db w') = [demo_old_token, demo_token, row])"
proof -
  obtain acc raw w' where ok: "signin demo_env 10 demo_draws ''ann@x.io'' ''Passw0rd!'' None (demo_world demo_db)
    = (Inr (demo_user, acc, raw), w')" by (rule demo_signin_ok)
  have "se_access_jti demo_draws \<noteq> []" "0 \<le> ACCESS_TOKEN_EXPIRE_MINUTES (cfg demo_env)" "db_wf (db (demo_world demo_db))"
    by (simp_all add: demo_draws_def demo_db_wf)
  from signin_success [OF sound_env_demo ok this] ok show ?thesis by auto
qed

text \<open>C7. A sign in does not tell whether an address has an account: with the same attempts on
  record, an unknown address and a known one with a wrong password give the same error and leave the
  same counters, unless the mail of the lock cannot even be built.\<close>

theorem signin_same_refusal:
  assumes "kv w1 = kv w2" "user_by_email m (db w1) = None" "user_by_email m (db w2) = Some u"
    and "\<not> credentials_ok e p2 u"
    and "\<forall>w. fst (send_account_lock_email e now (u_email u) w) \<in> {Inr (), Inl EmailDeliveryError}"
  shows "fst (signin e now dr1 m p1 q1 w1) = fst (signin e now dr2 m p2 q2 w2)
    \<and> kv (snd (signin e now dr1 m p1 q1 w1)) = kv (snd (signin e now dr2 m p2 q2 w2))"
proof (cases "check_lockout e now m (kv w1)")
  case (Inl err)
  then show ?thesis using signin_locked [of e now m w1] signin_locked [of e now m w2] assms(1) by simp
next
  case (Inr x)
  then have ok: "check_lockout e now m (kv w1) = Inr ()" "check_lockout e now m (kv w2) = Inr ()"
    using assms(1) by simp_all
  let ?w = "w2\<lparr>kv := snd (increment_failed_attempts e now m (kv w2))\<rparr>"
  obtain r w3 where r: "send_account_lock_email e now (u_email u) ?w = (r, w3)" by fastforce
  have "kv w3 = kv ?w" using arg_cong [OF r, of "\<lambda>x. kv (snd x)"] by simp
  moreover have "r \<in> {Inr (), Inl EmailDeliveryError}" using assms(5) r by (metis fst_conv)
  ultimately show ?thesis
    using signin_unknown [OF ok(1) assms(2)] signin_wrong [OF ok(2) assms(3,4)] r assms(1)
    by (auto simp: Let_def)
qed

theorem signin_same_refusal_witness:
  "fst (signin demo_env 10 demo_draws ''ann@x.io'' ''wrong'' None (demo_world empty_db))
   = fst (signin demo_env 10 demo_draws ''ann@x.io'' ''wrong'' None (demo_world demo_db))"
proof -
  have "build_account_lock_html demo_env 10 \<noteq> Inl err" for err
    by (simp add: build_account_lock_html_def render_def Let_def setdefault_def placeholder_def py_identifier_def
        is_idstart_def is_idpart_def is_lower_az_def is_upper_az_def is_digit_def code_point_def)
  then obtain h where "build_account_lock_html demo_env 10 = Inr h" by (meson old.sum.exhaust)
  then have "fst (send_account_lock_email demo_env 10 (u_email demo_user) w) \<in> {Inr (), Inl EmailDeliveryError}" for w
    by (simp add: send_account_lock_email_def send_html_def send_mail_def Let_def multi_line_def line_break_def code_point_def)
  then show ?thesis
    using signin_same_refusal [of "demo_world empty_db" "demo_world demo_db" "''ann@x.io''" demo_user demo_env "''wrong''" 10]
      demo_credentials(2) by (simp add: user_by_email_def empty_db_def)
qed

text \<open>Failed sign ins one after the other.\<close>

fun signins :: "'r env \<Rightarrow> session_draws \<Rightarrow> string \<Rightarrow> string \<Rightarrow> time list \<Rightarrow> 'r world \<Rightarrow> 'r world" where
  "signins e dr m p [] w = w"
| "signins e dr m p (t # ts) w = signins e dr m p ts (snd (signin e t dr m p None w))"

lemma signins_snoc: "signins e dr m p (ts @ [t]) w = snd (signin e t dr m p None (signins e dr m p ts w))"
  by (induction ts arbitrary: w) auto

lemma increments_snoc: "increments e i (ts @ [t]) r = snd (increment_failed_attempts e t i (increments e i ts r))"
  by (induction ts arbitrary: r) auto

lemma signin_wrong_state:
  assumes "check_lockout e t m (kv w) = Inr ()" "\<forall>u. user_by_email m (db w) = Some u \<longrightarrow> \<not> credentials_ok e p u"
  shows "kv (snd (signin e t dr m p q w)) = snd (increment_failed_attempts e t m (kv w))
    \<and> db (snd (signin e t dr m p q w)) = db w"
proof (cases "user_by_email m (db w)")
  case None
  then show ?thesis using signin_unknown [OF assms(1)] by simp
next
  case (Some u)
  let ?w = "w\<lparr>kv := snd (increment_failed_attempts e t m (kv w))\<rparr>"
  obtain r w2 where r: "send_account_lock_email e t (u_email u) ?w = (r, w2)" by fastforce
  have "kv w2 = kv ?w" "db w2 = db w"
    using arg_cong [OF r, of "\<lambda>x. kv (snd x)"] arg_cong [OF r, of "\<lambda>x. db (snd x)"] by simp_all
  then show ?thesis
    using signin_wrong [OF assms(1) Some] assms(2) Some r
    by (auto simp: Let_def split: sum.splits)
qed

text \<open>The lock holds against the right password: after the maximum number of failed sign ins for
  an address within the window, every sign in is refused, with any password and without looking at
  it, until the window of the first attempt ends; nothing changes meanwhile.\<close>

theorem locked_out_signin:
  assumes "token_stores e view" "0 < MAX_LOGIN_ATTEMPTS (cfg e)" "int (length ts) = MAX_LOGIN_ATTEMPTS (cfg e)"
    and "live (hd ts) (view (kv w) (FAILED_LOGIN_PREFIX (cfg e) @ m)) = None"
    and "\<forall>t\<in>set ts. t < hd ts + seconds (LOCKOUT_WINDOW (cfg e))"
    and "\<forall>u. user_by_email m (db w) = Some u \<longrightarrow> \<not> credentials_ok e p u"
    and "now < hd ts + seconds (LOCKOUT_WINDOW (cfg e))"
  shows "\<exists>msg. signin e now dr' m p' q (signins e dr m p ts w)
    = (Inl (AccountLockedError msg), signins e dr m p ts w)"
proof -
  have "kv (signins e dr m p us w) = increments e m us (kv w) \<and> db (signins e dr m p us w) = db w"
    if "prefix us ts" for us
    using that
  proof (induction us rule: rev_induct)
    case (snoc t us)
    then have us: "prefix us ts" "length us < length ts"
      by (auto simp: prefix_def)
    let ?w = "signins e dr m p us w"
    have IH: "kv ?w = increments e m us (kv w)" "db ?w = db w" using snoc.IH us(1) by simp_all
    have "check_lockout e t m (kv ?w) = Inr ()"
    proof (cases us)
      case Nil
      then have "t = hd ts" using snoc.prems by (auto simp: prefix_def)
      then show ?thesis using Nil assms(4)
        by (simp add: check_lockout_def Let_def token_stores.get_view [OF assms(1)])
    next
      case (Cons a bs)
      then have us': "us \<noteq> []" "hd us = hd ts" "set us \<subseteq> set ts" using us(1) by (auto simp: prefix_def)
      have l: "live (hd us) (view (kv w) (FAILED_LOGIN_PREFIX (cfg e) @ m)) = None"
        and win: "\<forall>t\<in>set us. t < hd us + seconds (LOCKOUT_WINDOW (cfg e))"
        using assms(4,5) us' by auto
      show ?thesis
        using token_stores.lockout(2) [OF assms(1) us'(1) l win assms(2), of t] us(2) assms(3) IH(1) by simp
    qed
    then show ?case
      using signin_wrong_state [of e t m ?w p dr None] assms(6) IH by (simp add: signins_snoc increments_snoc)
  qed simp
  then have kv: "kv (signins e dr m p ts w) = increments e m ts (kv w)" by simp
  have "ts \<noteq> []" using assms(2,3) by auto
  then have "\<exists>msg. check_lockout e now m (kv (signins e dr m p ts w)) = Inl (AccountLockedError msg)"
    using token_stores.lockout(1) [OF assms(1) _ assms(4,5,2), of now] assms(3,7) by (simp add: kv)
  then show ?thesis using signin_locked by blast
qed

theorem locked_out_signin_witness:
  "\<exists>msg. signin demo_env (seconds 800) demo_draws ''ann@x.io'' ''Passw0rd!'' None
      (signins demo_env demo_draws ''ann@x.io'' ''wrong'' [0, 1, 2, 3, 4] (demo_world demo_db))
    = (Inl (AccountLockedError msg), signins demo_env demo_draws ''ann@x.io'' ''wrong'' [0, 1, 2, 3, 4] (demo_world demo_db))"
  by (rule locked_out_signin [OF token_stores_demo])
    (use demo_credentials(2) in \<open>simp_all add: user_by_email_def\<close>)

section \<open>Password reset\<close>

lemma save_user_get:
  assumes "save_user now uid f d = Inr d'" "get_user uid d = Some u" "\<And>u. u_id (f u) = u_id u"
  shows "get_user uid d' = Some (orm_user now f u)"
proof -
  from assms(1) have "users d' = update_where (\<lambda>u. u_id u = uid) (orm_user now f) (users d)"
    by (auto simp: save_user_def Let_def)
  then show ?thesis
    using assms(2) get_user_id [OF assms(2)] assms(3)
    by (simp add: get_user_def find_update_where)
qed

lemma save_user_others:
  assumes "save_user now uid f d = Inr d'" "x \<in> set (users d)" "u_id x \<noteq> uid"
  shows "x \<in> set (users d')"
  using assms by (force simp: save_user_def Let_def set_update_where)

text \<open>A change that keeps the key and the address, and fits, is written.\<close>

lemma save_user_total:
  assumes "db_wf d" "u \<in> set (users d)" "user_fits (f u)" "\<And>x. u_id (f x) = u_id x" "\<And>x. u_email (f x) = u_email x"
  obtains d' where "save_user now (u_id u) f d = Inr d'"
proof -
  let ?us = "update_where (\<lambda>x. u_id x = u_id u) (orm_user now f) (users d)"
  have "user_fits x" if "x \<in> set ?us" "u_id x = u_id u" for x
  proof -
    from that(1) obtain y where y: "y \<in> set (users d)" "x = (if u_id y = u_id u then orm_user now f y else y)"
      by (auto simp: set_update_where)
    have "u_id y = u_id u" using y(2) that(2) by (auto split: if_splits)
    then have "y = u" using assms(1,2) y(1) by (metis db_wf_def unique_onD users_ok_def)
    then show ?thesis using y(2) assms(3) by (auto simp: orm_user_def Let_def user_fits_def)
  qed
  moreover have "unique_on u_email ?us"
    using assms(1,5) by (simp add: unique_on_update_where db_wf_def users_ok_def)
  ultimately show ?thesis using that by (simp add: save_user_def Let_def)
qed

lemma save_user_set:
  assumes "db_wf d" "save_user now uid f d = Inr d'" "get_user uid d = Some x"
  shows "set (users d') = insert (orm_user now f x) (set (users d) - {x})"
proof -
  have x: "x \<in> set (users d)" "u_id x = uid" using assms(3) by (auto simp: get_user_def dest: find_set)
  moreover have only: "u_id y = uid \<longleftrightarrow> y = x" if "y \<in> set (users d)" for y
    using that x unique_onD [of u_id "users d" y x] assms(1) by (auto simp: db_wf_def users_ok_def)
  moreover have "users d' = update_where (\<lambda>u. u_id u = uid) (orm_user now f) (users d)"
    using assms(2) by (auto simp: save_user_def Let_def)
  then have "set (users d') = (\<lambda>y. if y = x then orm_user now f x else y) ` set (users d)"
    using only by (auto simp: update_where_def image_iff)
  then show ?thesis using x(1) by auto
qed

text \<open>C9. What a password reset does: the account is the one that Redis holds under the hash of the token; its
  password becomes the new one and its other columns but the time of the change stay; its sessions, and no others, are
  deleted; no other account and no other table changes; and the token is spent, so that no later reset accepts it.\<close>

theorem reset_password_effect:
  assumes "sound_env e view" "reset_password e now salt tok new w = (Inr (), w')" "db_wf (db w)"
  shows "\<exists>owner uid x u. live now (view (kv w) (PASSWORD_RESET_PREFIX (cfg e) @ hash_token e tok)) = Some owner
    \<and> uuid_parse owner = Some uid \<and> get_user uid (db w) = Some x
    \<and> get_user uid (db w') = Some u \<and> credentials_ok e new u
    \<and> u = x\<lparr>u_password_hash := u_password_hash u, u_updated_at := u_updated_at u\<rparr>
    \<and> set (users (db w')) = insert u (set (users (db w)) - {x})
    \<and> db w' = (db w)\<lparr>users := users (db w'),
         refresh_tokens := filter (\<lambda>t. rt_user_id t \<noteq> uid) (refresh_tokens (db w))\<rparr>
    \<and> view (kv w') = (view (kv w))(PASSWORD_RESET_PREFIX (cfg e) @ hash_token e tok := None)
    \<and> fst (reset_password e now' salt' tok new' w') = Inl InvalidPasswordResetTokenError"
proof (rule reset_password_cases [of e now salt tok new w])
  fix err
  assume "fst (reset_password e now salt tok new w) = Inl err"
  with assms(2) show ?thesis by simp
next
  fix uid h d
  note ts = sound_env.axioms(1) [OF assms(1)]
  let ?u = "the (uuid_parse uid)"
  assume owner: "fst (get_password_reset_user_id e now (hash_token e tok) (kv w)) = Some uid"
    and h: "hash_password e salt new = Inr h" and parsed: "uuid_parse uid \<noteq> None" and u: "get_user ?u (db w) \<noteq> None"
    and s: "save_user now ?u (u_password_hash_update (\<lambda>_. Some h)) (db w) = Inr d"
    and d: "db (snd (reset_password e now salt tok new w)) = d\<lparr>refresh_tokens :=
         delete_where (\<lambda>t. rt_user_id t = ?u) (refresh_tokens d)\<rparr>"
  from u obtain x where x: "get_user ?u (db w) = Some x" by blast
  define v where "v = orm_user now (u_password_hash_update (\<lambda>_. Some h)) x"
  have "get_user ?u (db w') = Some v"
    using save_user_get [OF s x] d assms(2) by (simp add: v_def get_user_def)
  moreover have "credentials_ok e new v"
    using hash_password_verify [OF sound_env.password_law [OF assms(1)] h] by (auto simp: v_def credentials_ok_def)
  moreover have "v = x\<lparr>u_password_hash := u_password_hash v, u_updated_at := u_updated_at v\<rparr>"
    by (simp add: v_def orm_user_def Let_def)
  moreover have "set (users (db w')) = insert v (set (users (db w)) - {x})"
    using save_user_set [OF assms(3) s x] d assms(2) by (simp add: v_def)
  moreover have "db w' = (db w)\<lparr>users := users (db w'), refresh_tokens := filter (\<lambda>t. rt_user_id t \<noteq> ?u) (refresh_tokens (db w))\<rparr>"
    using d s assms(2) by (auto simp: save_user_def delete_where_def Let_def)
  moreover have kv: "view (kv w') = (view (kv w))(PASSWORD_RESET_PREFIX (cfg e) @ hash_token e tok := None)"
    using arg_cong [OF assms(2), of "\<lambda>x. kv (snd x)"] token_stores.get_password_reset_user_id(2) [OF ts, of now "hash_token e tok" "kv w"]
    by (simp add: reset_password_def Let_def split: prod.splits option.splits sum.splits)
  then have "fst (reset_password e now' salt' tok new' w') = Inl InvalidPasswordResetTokenError"
    using token_stores.get_password_reset_user_id(1) [OF ts, of now' "hash_token e tok" "kv w'"]
    by (cases "get_password_reset_user_id e now' (hash_token e tok) (kv w')") (simp add: reset_password_def)
  ultimately show ?thesis
    using kv owner parsed x token_stores.get_password_reset_user_id(1) [OF ts, of now "hash_token e tok" "kv w"] by auto
qed

text \<open>C8. The reset flow works: a link requested for a registered address resets its password as long
  as its minutes last.\<close>

theorem requested_reset_succeeds:
  assumes "sound_env e view" "user_by_email m (db w) = Some u" "user_fits u" "db_wf (db w)"
    and "t2 < t1 + seconds (PASSWORD_RESET_TOKEN_TTL_MINUTES (cfg e) * 60)" "utf8_length new \<le> 72"
  shows "fst (reset_password e t2 salt raw new (snd (request_password_reset e t1 raw m w))) = Inr ()"
proof -
  note ts = sound_env.axioms(1) [OF assms(1)]
  let ?w = "snd (request_password_reset e t1 raw m w)"
  have kv: "kv ?w = store_password_reset_token e t1 (hash_token e raw) (uuid_str (u_id u)) (kv w)"
    using assms(2) by (simp add: request_password_reset_def Let_def generate_token_def)
  have "fst (get_password_reset_user_id e t2 (hash_token e raw) (kv ?w)) = Some (uuid_str (u_id u))"
    using token_stores.get_password_reset_user_id(1) [OF ts] token_stores.view_store_password_reset_token [OF ts]
      assms(5) by (simp add: kv)
  then obtain r where r: "get_password_reset_user_id e t2 (hash_token e raw) (kv ?w) = (Some (uuid_str (u_id u)), r)"
    by (metis prod.collapse)
  have g: "get_user (u_id u) (db w) = Some u"
    using user_by_emailD [OF assms(2)] assms(4) unfolding get_user_def
    by (intro find_unique) (simp_all add: db_wf_def users_ok_def)
  obtain h where h: "hash_password e salt new = Inr h"
    by (rule hash_password_total [OF sound_env.password_law [OF assms(1)] assms(6)])
  have len: "length h = 60" using hash_password_verify [OF sound_env.password_law [OF assms(1)] h] by simp
  have "user_fits (u_password_hash_update (\<lambda>_. Some h) u)"
    using assms(3) len by (simp add: user_fits_def fits_def fits_opt_def)
  then obtain d where "save_user t2 (u_id u) (u_password_hash_update (\<lambda>_. Some h)) (db w) = Inr d"
    using save_user_total [OF assms(4), of u "u_password_hash_update (\<lambda>_. Some h)" t2] user_by_emailD [OF assms(2)] by auto
  then show ?thesis using r g h by (simp add: reset_password_def)
qed

theorem requested_reset_succeeds_witness:
  "fst (reset_password demo_env (seconds 100) [] ''raw'' ''N3w!pass''
     (snd (request_password_reset demo_env 0 ''raw'' ''ann@x.io'' (demo_world demo_db)))) = Inr ()"
proof -
  have "user_fits demo_user" by code_simp
  then show ?thesis
    using requested_reset_succeeds [OF sound_env_demo, of "''ann@x.io''" "demo_world demo_db" demo_user
        "seconds 100" 0 "''N3w!pass''" "[]" "''raw''"] demo_db_wf
    by (simp add: user_by_email_def utf8_length_def)
qed

text \<open>A reset token stored directly, as the request does.\<close>

definition demo_reset_world :: "redis_view world" where
  "demo_reset_world = (demo_world demo_db)
     \<lparr>kv := store_password_reset_token demo_env 0 ''#raw'' (uuid_str 1) (\<lambda>k. None)\<rparr>"

theorem reset_password_effect_witness:
  "\<exists>w' u. reset_password demo_env 5 [] ''raw'' ''N3w!pass'' demo_reset_world = (Inr (), w')
     \<and> get_user 1 (db w') = Some u \<and> credentials_ok demo_env ''N3w!pass'' u \<and> refresh_tokens (db w') = []"
proof -
  have t: "fst (get_password_reset_user_id demo_env 5 ''#raw'' (kv demo_reset_world)) = Some (uuid_str 1)"
    by (simp add: demo_reset_world_def demo.get_password_reset_user_id)
  then obtain r where t: "get_password_reset_user_id demo_env 5 ''#raw'' (kv demo_reset_world) = (Some (uuid_str 1), r)"
    by (metis prod.collapse)
  obtain h where h: "hash_password demo_env [] ''N3w!pass'' = Inr h" "length h = 60"
  proof -
    obtain h where h: "hash_password demo_env [] ''N3w!pass'' = Inr h"
      by (rule hash_password_total [OF sound_env.password_law [OF sound_env_demo]]) (auto simp: utf8_length_def)
    with hash_password_verify [OF sound_env.password_law [OF sound_env_demo] h] that show ?thesis by blast
  qed
  have d: "db demo_reset_world = demo_db" by (simp add: demo_reset_world_def)
  have "save_user 5 1 (u_password_hash_update (\<lambda>_. Some h)) demo_db
      = Inr (demo_db\<lparr>users := [orm_user 5 (u_password_hash_update (\<lambda>_. Some h)) demo_user]\<rparr>)"
    using h(2) by (simp add: save_user_def update_where_def unique_on_def)
      (auto simp: orm_user_def Let_def user_fits_def fits_def fits_opt_def demo_user_def
        split: option.split dest: demo_pw.hash_length)
  then obtain w' where ok: "reset_password demo_env 5 [] ''raw'' ''N3w!pass'' demo_reset_world = (Inr (), w')"
    and w': "users (db w') = [orm_user 5 (u_password_hash_update (\<lambda>_. Some h)) demo_user]"
    "refresh_tokens (db w') = []"
    using t h(1) by (simp add: reset_password_def hash_token_def d get_user_def delete_where_def)
  have "db_wf (db demo_reset_world)" by (simp add: d demo_db_wf)
  from reset_password_effect [OF sound_env_demo ok this] obtain uid u where
    u: "get_user uid (db w') = Some u" "credentials_ok demo_env ''N3w!pass'' u" by metis
  then have "uid = 1" using get_user_id [OF u(1)] w'(1) by auto
  with u ok w' show ?thesis by auto
qed

section \<open>The session list\<close>

text \<open>The pages of the session list, one after the other, are the active sessions of the user,
  most recently used first, each exactly once, and the total counts them.\<close>

theorem session_pages_complete:
  assumes "0 \<le> limit" "length (filter (active_session now uid) (refresh_tokens d)) \<le> pages * nat limit"
  shows "concat (map (\<lambda>p. sl_sessions (list_user_sessions now uid f (int p) limit d)) [1..<Suc pages])
      = map (to_session_response f) (sort_key (\<lambda>t. desc_nulls_last (rt_last_used_at t))
          (filter (active_session now uid) (refresh_tokens d)))
    \<and> sl_total (list_user_sessions now uid f page limit d)
      = int (count_where (\<lambda>t. rt_user_id t = uid \<and> \<not> rt_is_revoked t \<and> now < rt_expires_at t) (refresh_tokens d))"
proof
  let ?s = "sort_key (\<lambda>t. desc_nulls_last (rt_last_used_at t)) (filter (active_session now uid) (refresh_tokens d))"
  have "concat (map (\<lambda>p. sl_sessions (list_user_sessions now uid f (int p) limit d)) [1..<Suc pages])
      = map (to_session_response f) (concat (map (\<lambda>p. page_of (int p) limit ?s) [1..<Suc pages]))"
    by (simp add: list_user_sessions_def Let_def map_concat comp_def)
  also have "concat (map (\<lambda>p. page_of (int p) limit ?s) [1..<Suc pages]) = ?s"
    by (rule concat_pages) (use assms in simp_all)
  finally show "concat (map (\<lambda>p. sl_sessions (list_user_sessions now uid f (int p) limit d)) [1..<Suc pages])
      = map (to_session_response f) ?s" .
  show "sl_total (list_user_sessions now uid f page limit d)
      = int (count_where (\<lambda>t. rt_user_id t = uid \<and> \<not> rt_is_revoked t \<and> now < rt_expires_at t) (refresh_tokens d))"
    by (simp add: list_user_sessions_def Let_def count_where_def active_session_def [abs_def])
qed

theorem session_pages_complete_witness:
  "concat (map (\<lambda>p. sl_sessions (list_user_sessions 0 1 (Some 5) (int p) 1 demo_db)) [1..<Suc 2])
     = [to_session_response (Some 5) demo_token]"
  using session_pages_complete [of 1 0 1 demo_db 2 "Some 5" 1] by (simp add: active_session_def)

text \<open>Logging out everywhere: the number reported is the number of sessions the list showed,
  afterwards the list is empty at any later time, none of the user's refresh tokens is accepted, and
  the sessions of other users are untouched.\<close>

theorem logout_all_complete:
  assumes "revoke_all_user_sessions e now uid access w = (count, w')" "now \<le> t"
  shows "count = sl_total (list_user_sessions now uid f p l (db w))
    \<and> sl_total (list_user_sessions t uid f p l (db w')) = 0
    \<and> (\<forall>raw tok. token_by_hash (hash_token e raw) (db w') = Some tok \<and> rt_user_id tok = uid \<and> now < t
         \<longrightarrow> fst (refresh_session e t dr raw a q w') = Inl InvalidRefreshTokenError)
    \<and> filter (\<lambda>x. rt_user_id x \<noteq> uid) (refresh_tokens (db w')) = filter (\<lambda>x. rt_user_id x \<noteq> uid) (refresh_tokens (db w))"
proof -
  let ?P = "active_session now uid"
  let ?f = "rt_is_revoked_update (\<lambda>_. True) :: refresh_token \<Rightarrow> refresh_token"
  from assms(1) have c: "count = int (count_where ?P (refresh_tokens (db w)))" and d: "db w' = revoke_where ?P (db w)"
    by (auto simp: revoke_all_user_sessions_def Let_def)
  have dead: "rt_is_revoked x \<or> rt_expires_at x \<le> now"
    if x: "x \<in> set (refresh_tokens (db w'))" "rt_user_id x = uid" for x
  proof -
    from x(1) obtain y where "x = (if ?P y then ?f y else y)"
      unfolding d revoke_where_simps set_update_where by blast
    with x(2) show ?thesis by (cases "?P y") (auto simp: active_session_def)
  qed
  have "\<not> active_session t uid x" if "x \<in> set (refresh_tokens (db w'))" for x
    using dead [OF that] assms(2) by (auto simp: active_session_def)
  then have "sl_total (list_user_sessions t uid f p l (db w')) = 0"
    by (simp add: list_user_sessions_def Let_def filter_empty_conv)
  moreover have "fst (refresh_session e t dr raw a q w') = Inl InvalidRefreshTokenError"
    if "token_by_hash (hash_token e raw) (db w') = Some tok" "rt_user_id tok = uid" "now < t" for raw tok
  proof -
    have "rt_is_revoked tok \<or> rt_expires_at tok \<le> now"
      using dead [of tok] token_by_hashD [OF that(1)] that(2) by blast
    then show ?thesis
      using refresh_revoked [OF that(1)] refresh_expired [OF that(1)] that(3) by (cases "rt_is_revoked tok") auto
  qed
  moreover have "filter (\<lambda>x. rt_user_id x \<noteq> uid) (refresh_tokens (db w')) = filter (\<lambda>x. rt_user_id x \<noteq> uid) (refresh_tokens (db w))"
  proof -
    have "filter (\<lambda>x. rt_user_id x \<noteq> uid) (update_where ?P ?f ts) = filter (\<lambda>x. rt_user_id x \<noteq> uid) ts" for ts
      by (induction ts) (auto simp: update_where_def active_session_def)
    then show ?thesis by (simp add: d)
  qed
  ultimately show ?thesis
    using c by (simp add: list_user_sessions_def Let_def count_where_def)
qed

theorem logout_all_complete_witness:
  "\<exists>w'. revoke_all_user_sessions demo_env 0 1 None (demo_world demo_db) = (1, w')
     \<and> fst (refresh_session demo_env 5 demo_draws ''tok'' None None w') = Inl InvalidRefreshTokenError"
proof -
  let ?w' = "snd (revoke_all_user_sessions demo_env 0 1 None (demo_world demo_db))"
  have eq: "revoke_all_user_sessions demo_env 0 1 None (demo_world demo_db) = (1, ?w')"
    by (simp add: revoke_all_user_sessions_def Let_def count_where_def active_session_def)
  have "token_by_hash (hash_token demo_env ''tok'') (db ?w') = Some (demo_token\<lparr>rt_is_revoked := True\<rparr>)"
    by (simp add: revoke_all_user_sessions_def Let_def token_by_hash_def hash_token_def update_where_def active_session_def)
  with logout_all_complete [OF eq, of 5 None 1 1 demo_draws None None] eq show ?thesis by auto
qed

section \<open>Sign up\<close>

text \<open>C11. A sign up that succeeds creates one unverified account with the address it was given, which no
  account had before, whose hash verifies the password, together with its e-mail provider; the link it
  stores stays good for its minutes and leads to that account.\<close>

theorem signup_creates:
  assumes "sound_env e view" "signup e now dr race p w = (Inr (u, sent), w')"
  shows "u \<in> set (users (db w')) \<and> u_email u = su_email p \<and> \<not> u_is_email_verified u
    \<and> su_email p \<notin> u_email ` set (users (db w)) \<and> su_email p \<notin> u_email ` set (users (race (db w)))
    \<and> credentials_ok e (su_password p) u
    \<and> (\<exists>ap\<in>set (auth_providers (db w')). ap_user_id ap = u_id u \<and> ap_provider ap = ''email'')
    \<and> (t < now + seconds (VERIFICATION_TOKEN_TTL_MINUTES (cfg e) * 60) \<longrightarrow>
         live t (view (kv w') (TOKEN_PREFIX (cfg e) @ hash_token e (sd_raw_token dr))) = Some (uuid_str (u_id u)))"
proof (rule signup_cases [of p w e now dr race])
  fix h d1 d2 u' res w''
  note ts = sound_env.axioms(1) [OF assms(1)]
  assume new: "user_by_email (su_email p) (db w) = None"
    and h: "hash_password e (sd_salt dr) (su_password p) = Inr h"
    and u': "u' = new_user now (sd_user_id dr) (su_first_name p) (su_last_name p) (su_email p) (Some h) False None"
    and i1: "insert_user u' (race (db w)) = Inr d1"
    and i2: "insert_auth_provider (new_auth_provider now (sd_provider_id dr) ''email'' None (u_id u') ''Email and Password'') d1 = Inr d2"
    and s: "signup e now dr race p w = (res, w'')" and d: "db w'' = d2"
    and k: "kv w'' = store_verification_token e now (hash_token e (sd_raw_token dr)) (uuid_str (u_id u'))
         (revoke_previous_verification_token e now (uuid_str (u_id u')) (kv w))"
    and r: "res = Inr (u', True) \<or> res = Inr (u', False) \<or> (\<exists>err. res = Inl err)"
  from s r assms(2) have eqs: "u = u'" "w' = w''" by auto
  have "credentials_ok e (su_password p) u'"
    using hash_password_verify [OF sound_env.password_law [OF assms(1)] h] by (auto simp: u' new_user_def credentials_ok_def)
  moreover have "t < now + seconds (VERIFICATION_TOKEN_TTL_MINUTES (cfg e) * 60) \<longrightarrow>
         live t (view (kv w'') (TOKEN_PREFIX (cfg e) @ hash_token e (sd_raw_token dr))) = Some (uuid_str (u_id u'))"
    using token_stores.reissued_live [OF ts] by (simp add: k)
  moreover have "su_email p \<notin> u_email ` set (users (db w))"
    using new by (auto simp: user_by_email_def find_none_iff)
  ultimately show ?thesis
    using i1 i2 d unfolding eqs
    by (auto simp: insert_user_def insert_auth_provider_def u' new_user_def new_auth_provider_def)
qed (use assms(2) in auto)

text \<open>When two sign ups race for one address, the later one fails with the same error as one that
  finds the address taken, and adds nothing.\<close>

theorem signup_race_conflict:
  assumes "password_contract (bcrypt_hashpw e) (bcrypt_checkpw e)"
    and "user_by_email (su_email p) (db w) = None" "user_by_email (su_email p) (race (db w)) \<noteq> None"
    and "utf8_length (su_password p) \<le> 72"
    and "fits 200 (su_first_name p)" "fits_opt 200 (su_last_name p)" "fits 255 (su_email p)"
  shows "signup e now dr race p w = (Inl EmailConflictError, w\<lparr>db := race (db w)\<rparr>)"
proof -
  obtain h where h: "hash_password e (sd_salt dr) (su_password p) = Inr h"
    by (rule hash_password_total [OF assms(1,4)])
  have "length h = 60" using hash_password_verify [OF assms(1) h] by simp
  let ?u = "new_user now (sd_user_id dr) (su_first_name p) (su_last_name p) (su_email p) (Some h) False None"
  have "su_email p \<in> u_email ` set (users (race (db w)))"
    using assms(3) user_by_emailD [of "su_email p" "race (db w)"] by force
  then have "insert_user ?u (race (db w)) = Inl IntegrityError"
    using assms(5-7) \<open>length h = 60\<close>
    by (simp add: insert_user_def new_user_def user_fits_def fits_opt_def fits_def)
  then show ?thesis using assms(2) h by (simp add: signup_def Let_def)
qed

definition demo_signup :: signup_request where
  "demo_signup = \<lparr>su_first_name = ''Bob'', su_last_name = None, su_email = ''bob@x.io'', su_password = ''Passw0rd!''\<rparr>"

definition demo_signup_draws :: signup_draws where
  "demo_signup_draws = \<lparr>sd_user_id = 2, sd_provider_id = 3, sd_salt = [], sd_raw_token = ''raw''\<rparr>"

theorem signup_race_conflict_witness:
  "fst (signup demo_env 0 demo_signup_draws (\<lambda>_. demo_db\<lparr>users := [demo_user\<lparr>u_email := ''bob@x.io''\<rparr>]\<rparr>)
     demo_signup (demo_world demo_db)) = Inl EmailConflictError"
  using signup_race_conflict [OF sound_env.password_law [OF sound_env_demo], of demo_signup "demo_world demo_db"
      "\<lambda>_. demo_db\<lparr>users := [demo_user\<lparr>u_email := ''bob@x.io''\<rparr>]\<rparr>" 0 demo_signup_draws]
  by (simp add: demo_signup_def user_by_email_def utf8_length_def fits_def fits_opt_def)

theorem signup_creates_witness:
  "\<exists>u sent w'. signup demo_env 0 demo_signup_draws id demo_signup (demo_world demo_db) = (Inr (u, sent), w')
     \<and> u \<in> set (users (db w')) \<and> u_email u = ''bob@x.io''
     \<and> live 9 (kv w' (''verify:'' @ hash_token demo_env ''raw'')) = Some (uuid_str (u_id u))"
proof -
  obtain h where h: "hash_password demo_env [] ''Passw0rd!'' = Inr h"
    by (rule hash_password_total [OF sound_env.password_law [OF sound_env_demo]]) (auto simp: utf8_length_def)
  then have len: "length h = 60" using hash_password_verify [OF sound_env.password_law [OF sound_env_demo] h] by simp
  let ?u = "new_user 0 2 ''Bob'' None ''bob@x.io'' (Some h) False None"
  have i1: "insert_user ?u demo_db = Inr (demo_db\<lparr>users := [demo_user, ?u]\<rparr>)"
    using len by (simp add: insert_user_def new_user_def user_fits_def fits_def fits_opt_def)
  have i2: "insert_auth_provider (new_auth_provider 0 3 ''email'' None 2 ''Email and Password'') (demo_db\<lparr>users := [demo_user, ?u]\<rparr>)
      = Inr (demo_db\<lparr>users := [demo_user, ?u], auth_providers := [new_auth_provider 0 3 ''email'' None 2 ''Email and Password'']\<rparr>)"
    by (simp add: insert_auth_provider_def new_auth_provider_def new_user_def fits_def fits_opt_def demo_db_def empty_db_def)
  have "fst (send_verification_email demo_env 0 ''bob@x.io'' ''raw'' w) = Inr ()" for w
  proof -
    have "build_verification_html demo_env 0 ''raw'' \<noteq> Inl err" for err
      by (simp add: build_verification_html_def render_def Let_def setdefault_def placeholder_def py_identifier_def
        is_idstart_def is_idpart_def is_lower_az_def is_upper_az_def is_digit_def code_point_def)
    then obtain x where "build_verification_html demo_env 0 ''raw'' = Inr x" by (meson old.sum.exhaust)
    then show ?thesis
      by (simp add: send_verification_email_def send_html_def send_mail_def Let_def multi_line_def line_break_def code_point_def)
  qed
  then have send: "\<exists>w'. send_verification_email demo_env 0 ''bob@x.io'' ''raw'' w = (Inr (), w')" for w
    by (metis prod.collapse)
  obtain w' where s: "signup demo_env 0 demo_signup_draws id demo_signup (demo_world demo_db) = (Inr (?u, True), w')"
  proof -
    let ?r = "store_verification_token demo_env 0 (hash_token demo_env ''raw'') (uuid_str 2)
      (revoke_previous_verification_token demo_env 0 (uuid_str 2) (kv (demo_world demo_db)))"
    let ?d = "demo_db\<lparr>users := [demo_user, ?u], auth_providers := [new_auth_provider 0 3 ''email'' None 2 ''Email and Password'']\<rparr>"
    obtain w' where "send_verification_email demo_env 0 ''bob@x.io'' ''raw'' ((demo_world demo_db)\<lparr>db := ?d, kv := ?r\<rparr>) = (Inr (), w')"
      using send by blast
    moreover have "user_by_email ''bob@x.io'' demo_db = None" by (simp add: user_by_email_def)
    moreover have "u_id ?u = 2" by (simp add: new_user_def)
    ultimately have "signup demo_env 0 demo_signup_draws id demo_signup (demo_world demo_db) = (Inr (?u, True), w')"
      using h i1 i2
      by (simp add: signup_def Let_def demo_signup_def demo_signup_draws_def generate_token_def
          del: demo_world_simps(2))
    then show ?thesis by (rule that)
  qed
  from signup_creates [OF sound_env_demo s, of 9] s show ?thesis
    by (auto simp: demo_signup_def demo_signup_draws_def)
qed

section \<open>Refresh tokens as access tokens\<close>

text \<open>C12. The gate never looks at the type of a token: a refresh token in the access cookie opens the
  session of its user for all its days, and a logout with it, which blacklists the access token only,
  does not end that.\<close>

theorem refresh_token_opens_session:
  assumes "sound_env e view" "get_user uid (db w) = Some u" "rj \<noteq> []" "rj \<noteq> aj"
    and "\<not> is_token_blacklisted e t rj (kv w)" "timestamp t \<le> refresh_expiry e t0"
    and "w' = logout_session e now (Some (fst (create_refresh_token e t0 rj uid))) (Some (create_access_token e t0 aj uid)) w"
  shows "get_current_user e t (Some (fst (create_refresh_token e t0 rj uid))) w' = Inr u"
proof -
  note ts = sound_env.axioms(1) [OF assms(1)]
  have us: "users (db w') = users (db w)"
    unfolding assms(7) by (simp add: logout_session_def Let_def split: option.split)
  have "is_token_blacklisted e t rj (kv w') = is_token_blacklisted e t rj (kv w)"
  proof -
    have "kv w' = blacklist_access_token_if_valid e now (Some (create_access_token e t0 aj uid)) (kv w)"
      unfolding assms(7) by (simp add: logout_session_def Let_def split: option.split)
    then show ?thesis using assms(4)
      by (simp add: blacklist_access_token_if_valid_def sound_env.decode_access [OF assms(1)]
          sound_env.access_nonempty [OF assms(1)] token_stores.is_token_blacklisted [OF ts]
          token_stores.view_blacklist_token [OF ts] Let_def)
  qed
  then show ?thesis
    using sound_env.current_user_refresh [OF assms(1) _ assms(3,6), of uid w' u] assms(2,5) us
    by (simp add: get_user_def)
qed

theorem refresh_token_opens_session_witness:
  "get_current_user demo_env (seconds 500000) (Some (fst (create_refresh_token demo_env 0 ''rj'' 1)))
     (logout_session demo_env 5 (Some (fst (create_refresh_token demo_env 0 ''rj'' 1)))
        (Some (create_access_token demo_env 0 ''aj'' 1)) (demo_world demo_db)) = Inr demo_user"
  by (rule refresh_token_opens_session [OF sound_env_demo, where t = "seconds 500000" and t0 = 0 and now = 5
        and w = "demo_world demo_db"])
    (simp_all add: get_user_def refresh_expiry_def timestamp_def demo.is_token_blacklisted)

end
