(* ===== verification/Notifications.thy ===== *)
theory Notifications
  imports Integrity Laws Calendar
begin

text \<open>
  Notifications: the preferences and the inbox of \<open>app/services/notification.py\<close>, and the daily
  and weekly jobs of \<open>app/workers/digest_jobs.py\<close>.  The jobs visit a set of users; the model visits
  them in the order of a list without repetitions.
\<close>

section \<open>Preferences\<close>

record preferences_response =
  pr_email_template_published :: bool
  pr_email_new_signin :: bool
  pr_notify_badge_creation :: bool
  pr_notify_daily_digest :: bool
  pr_notify_weekly_report :: bool
  pr_updated_at :: "time option"

text \<open>The dictionary of updates: \<open>None\<close> is a key that is absent.\<close>

record pref_updates =
  pu_email_template_published :: "bool option"
  pu_email_new_signin :: "bool option"
  pu_notify_badge_creation :: "bool option"
  pu_notify_daily_digest :: "bool option"
  pu_notify_weekly_report :: "bool option"

definition pref_row :: "uuid \<Rightarrow> database \<Rightarrow> user_notification_preference option" where
  "pref_row user_id d = find (\<lambda>p. np_user_id p = user_id) (preferences d)"

definition DEFAULTS :: preferences_response where
  "DEFAULTS = \<lparr>pr_email_template_published = True, pr_email_new_signin = True, pr_notify_badge_creation = True,
     pr_notify_daily_digest = True, pr_notify_weekly_report = True, pr_updated_at = None\<rparr>"

definition to_preferences_response :: "user_notification_preference \<Rightarrow> preferences_response" where
  "to_preferences_response p = \<lparr>pr_email_template_published = np_email_template_published p,
     pr_email_new_signin = np_email_new_signin p, pr_notify_badge_creation = np_notify_badge_creation p,
     pr_notify_daily_digest = np_notify_daily_digest p, pr_notify_weekly_report = np_notify_weekly_report p,
     pr_updated_at = Some (np_updated_at p)\<rparr>"

definition get_notification_preferences :: "uuid \<Rightarrow> database \<Rightarrow> preferences_response" where
  "get_notification_preferences user_id d =
     (case pref_row user_id d of None \<Rightarrow> DEFAULTS | Some prefs \<Rightarrow> to_preferences_response prefs)"

definition or_else :: "'a option \<Rightarrow> 'a \<Rightarrow> 'a" where
  "or_else v d = (case v of None \<Rightarrow> d | Some x \<Rightarrow> x)"

lemma or_else_simps [simp]: "or_else None d = d" "or_else (Some x) d = x"
  by (simp_all add: or_else_def)

definition apply_pref_updates :: "time \<Rightarrow> pref_updates \<Rightarrow> user_notification_preference \<Rightarrow> user_notification_preference" where
  "apply_pref_updates now u p = p\<lparr>
     np_email_template_published := or_else (pu_email_template_published u) (np_email_template_published p),
     np_email_new_signin := or_else (pu_email_new_signin u) (np_email_new_signin p),
     np_notify_badge_creation := or_else (pu_notify_badge_creation u) (np_notify_badge_creation p),
     np_notify_daily_digest := or_else (pu_notify_daily_digest u) (np_notify_daily_digest p),
     np_notify_weekly_report := or_else (pu_notify_weekly_report u) (np_notify_weekly_report p),
     np_updated_at := now\<rparr>"

definition new_preferences :: "time \<Rightarrow> uuid \<Rightarrow> uuid \<Rightarrow> pref_updates \<Rightarrow> user_notification_preference" where
  "new_preferences now pid user_id u = \<lparr>np_id = pid, np_user_id = user_id,
     np_email_template_published = or_else (pu_email_template_published u) (pr_email_template_published DEFAULTS),
     np_email_new_signin = or_else (pu_email_new_signin u) (pr_email_new_signin DEFAULTS),
     np_notify_badge_creation = or_else (pu_notify_badge_creation u) (pr_notify_badge_creation DEFAULTS),
     np_notify_daily_digest = or_else (pu_notify_daily_digest u) (pr_notify_daily_digest DEFAULTS),
     np_notify_weekly_report = or_else (pu_notify_weekly_report u) (pr_notify_weekly_report DEFAULTS),
     np_updated_at = now\<rparr>"

text \<open>\<open>INSERT .. ON CONFLICT (user_id) DO UPDATE\<close>, then the row is read back.\<close>

definition update_notification_preferences :: "time \<Rightarrow> uuid \<Rightarrow> uuid \<Rightarrow> pref_updates \<Rightarrow> database \<Rightarrow>
    (app_error + preferences_response) \<times> database" where
  "update_notification_preferences now pid user_id updates d =
     (case pref_row user_id d of
        Some p \<Rightarrow>
          (let d = d\<lparr>preferences := update_where (\<lambda>p. np_user_id p = user_id) (apply_pref_updates now updates) (preferences d)\<rparr>
           in (Inr (get_notification_preferences user_id d), d))
      | None \<Rightarrow>
          if user_id \<in> u_id ` set (users d) \<and> pid \<notin> np_id ` set (preferences d)
          then (let d = d\<lparr>preferences := preferences d @ [new_preferences now pid user_id updates]\<rparr>
                in (Inr (get_notification_preferences user_id d), d))
          else (Inl IntegrityError, d))"

section \<open>The inbox\<close>

fun TYPE_TO_PREF_FIELD :: "notification_type \<Rightarrow> user_notification_preference \<Rightarrow> bool" where
  "TYPE_TO_PREF_FIELD BADGE_CREATION = np_notify_badge_creation"
| "TYPE_TO_PREF_FIELD DAILY_DIGEST = np_notify_daily_digest"
| "TYPE_TO_PREF_FIELD WEEKLY_REPORT = np_notify_weekly_report"

definition create_notification :: "time \<Rightarrow> uuid \<Rightarrow> uuid \<Rightarrow> notification_type \<Rightarrow> string \<Rightarrow> string \<Rightarrow> json option \<Rightarrow>
    database \<Rightarrow> app_error + notification option \<times> database" where
  "create_notification now nid user_id notif_type title body extra_data d =
     (if (case pref_row user_id d of None \<Rightarrow> False | Some prefs \<Rightarrow> \<not> TYPE_TO_PREF_FIELD notif_type prefs)
      then Inr (None, d)
      else (let n = \<lparr>n_id = nid, n_user_id = user_id, n_type = notif_type, n_title = title, n_body = body,
              n_is_read = False, n_extra_data = extra_data, n_created_at = now\<rparr>
            in case insert_notification n d of Inl err \<Rightarrow> Inl err | Inr d \<Rightarrow> Inr (Some n, d)))"

definition list_notifications :: "uuid \<Rightarrow> int \<Rightarrow> int \<Rightarrow> database \<Rightarrow> notification list \<times> int" where
  "list_notifications user_id page limit d =
     (let mine = filter (\<lambda>n. n_user_id n = user_id) (notifications d)
      in (page_of page limit (sort_key (\<lambda>n. (- n_created_at n, - uint (n_id n))) mine), int (length mine)))"

definition get_unread_count :: "uuid \<Rightarrow> database \<Rightarrow> int" where
  "get_unread_count user_id d =
     int (count_where (\<lambda>n. n_user_id n = user_id \<and> \<not> n_is_read n) (notifications d))"

definition set_read :: "(notification \<Rightarrow> bool) \<Rightarrow> database \<Rightarrow> database" where
  "set_read P d = d\<lparr>notifications := update_where P (n_is_read_update (\<lambda>_. True)) (notifications d)\<rparr>"

definition mark_notification_read :: "uuid \<Rightarrow> uuid \<Rightarrow> database \<Rightarrow> bool \<times> database" where
  "mark_notification_read user_id notification_id d =
     (let P = (\<lambda>n. n_id n = notification_id \<and> n_user_id n = user_id)
      in (count_where P (notifications d) > 0, set_read P d))"

definition mark_all_notifications_read :: "uuid \<Rightarrow> database \<Rightarrow> int \<times> database" where
  "mark_all_notifications_read user_id d =
     (let P = (\<lambda>n. n_user_id n = user_id \<and> \<not> n_is_read n)
      in (int (count_where P (notifications d)), set_read P d))"

section \<open>The digest jobs\<close>

record digest_result =
  dr_sent :: int
  dr_skipped :: int
  dr_total_targets :: int

text \<open>Opted in, or owners of a badge without a preference row.\<close>

definition digest_targets :: "(user_notification_preference \<Rightarrow> bool) \<Rightarrow> database \<Rightarrow> uuid list" where
  "digest_targets field d =
     (let opted_in_user_ids = map np_user_id (filter field (preferences d));
          all_owner_ids = map b_organiser_id (badges d);
          users_with_prefs = map np_user_id (preferences d);
          defaulted_in = filter (\<lambda>u. u \<notin> set users_with_prefs) all_owner_ids
      in remdups (opted_in_user_ids @ defaulted_in))"

definition alerts_between :: "time \<Rightarrow> time \<Rightarrow> uuid \<Rightarrow> database \<Rightarrow> notification list" where
  "alerts_between from until user_id d = filter (\<lambda>n. n_user_id n = user_id \<and> n_type n = BADGE_CREATION
     \<and> from \<le> n_created_at n \<and> n_created_at n < until) (notifications d)"

definition plural :: "int \<Rightarrow> string" where
  "plural n = (if n \<noteq> 1 then ''s'' else '''')"

text \<open>\<open>isoformat()\<close> of a midnight in UTC.\<close>

definition isoformat_midnight :: "time \<Rightarrow> string" where
  "isoformat_midnight t = date_str t @ ''T00:00:00+00:00''"

definition daily_body :: "int \<Rightarrow> string" where
  "daily_body n = ''Today's recap: '' @ py_str n @ '' new badge'' @ plural n @ '' created from your badges.''"

text \<open>
  One turn of the loop of the daily job; \<open>ids\<close> gives the row id drawn for a user.  The counts are
  read once, before the loop, in the state \<open>d0\<close>.
\<close>

definition daily_turn :: "time \<Rightarrow> (uuid \<Rightarrow> uuid) \<Rightarrow> database \<Rightarrow> uuid \<Rightarrow> database \<Rightarrow> app_error + bool \<times> database" where
  "daily_turn now ids d0 user_id d =
     (let day_start = midnight now; day_end = day_start + day_us;
          badges_created_today = int (length (alerts_between day_start day_end user_id d0))
      in if badges_created_today = 0 then Inr (False, d)
         else (case create_notification now (ids user_id) user_id DAILY_DIGEST ''Daily digest''
             (daily_body badges_created_today)
             (Some (JObj [(''badges_created'', JInt badges_created_today),
               (''period_start'', JStr (isoformat_midnight day_start)),
               (''period_end'', JStr (isoformat_midnight day_end))])) d of
            Inl err \<Rightarrow> Inl err
          | Inr (Some _, d) \<Rightarrow> Inr (True, d)
          | Inr (None, d) \<Rightarrow> Inr (False, d)))"

definition weekday_names :: "string list" where
  "weekday_names = [''Monday'', ''Tuesday'', ''Wednesday'', ''Thursday'', ''Friday'', ''Saturday'', ''Sunday'']"

text \<open>\<open>extract(dow)\<close>: Sunday is 0.\<close>

definition dow :: "time \<Rightarrow> int" where
  "dow t = (weekday t + 1) mod 7"

text \<open>The groups by day of the week, largest first, the earlier day first among equals.\<close>

definition per_day_counts :: "notification list \<Rightarrow> (int \<times> int) list" where
  "per_day_counts ns = sort_key (\<lambda>(day, n). (- n, day))
     (map (\<lambda>day. (day, int (count_where (\<lambda>x. dow (n_created_at x) = day) ns)))
       (remdups (map (\<lambda>x. dow (n_created_at x)) ns)))"

definition weekly_body :: "int \<Rightarrow> string \<Rightarrow> string" where
  "weekly_body n top_day_name = ''This week: '' @ py_str n @ '' new badge'' @ plural n
     @ '' created. Highest-traffic day: '' @ top_day_name @ ''.''"

definition weekly_turn :: "time \<Rightarrow> (uuid \<Rightarrow> uuid) \<Rightarrow> database \<Rightarrow> uuid \<Rightarrow> database \<Rightarrow> app_error + bool \<times> database" where
  "weekly_turn now ids d0 user_id d =
     (let week_end = midnight now + day_us; week_start = week_end - 7 * day_us;
          week_total = int (length (alerts_between week_start week_end user_id d0))
      in if week_total = 0 then Inr (False, d)
         else (let per_day = per_day_counts (alerts_between week_start week_end user_id d);
                   top_dow = fst (hd per_day);
                   top_day_name = weekday_names ! nat ((top_dow - 1) mod 7)
           in case create_notification now (ids user_id) user_id WEEKLY_REPORT ''Weekly report''
             (weekly_body week_total top_day_name)
             (Some (JObj [(''week_total'', JInt week_total), (''top_day'', JStr top_day_name),
               (''per_day_counts'', JList (map (\<lambda>(day, n). JObj [(''dow'', JInt day), (''count'', JInt n)]) per_day)),
               (''period_start'', JStr (isoformat_midnight week_start)),
               (''period_end'', JStr (isoformat_midnight week_end))])) d of
            Inl err \<Rightarrow> Inl err
          | Inr (Some _, d) \<Rightarrow> Inr (True, d)
          | Inr (None, d) \<Rightarrow> Inr (False, d)))"

text \<open>The loop over the targets: each notification is committed, an error ends the job.\<close>

fun digest_loop :: "(uuid \<Rightarrow> database \<Rightarrow> app_error + bool \<times> database) \<Rightarrow> uuid list \<Rightarrow> int \<Rightarrow> int \<Rightarrow> database \<Rightarrow>
    (app_error + int \<times> int) \<times> database" where
  "digest_loop turn [] sent skipped d = (Inr (sent, skipped), d)"
| "digest_loop turn (u # us) sent skipped d = (case turn u d of
     Inl err \<Rightarrow> (Inl err, d)
   | Inr (True, d) \<Rightarrow> digest_loop turn us (sent + 1) skipped d
   | Inr (False, d) \<Rightarrow> digest_loop turn us sent (skipped + 1) d)"

definition run_digest :: "(database \<Rightarrow> uuid \<Rightarrow> database \<Rightarrow> app_error + bool \<times> database) \<Rightarrow> uuid list \<Rightarrow> database \<Rightarrow>
    (app_error + digest_result) \<times> database" where
  "run_digest turn targets d = (case digest_loop (turn d) targets 0 0 d of
     (Inl err, d) \<Rightarrow> (Inl err, d)
   | (Inr (sent, skipped), d) \<Rightarrow>
       (Inr \<lparr>dr_sent = sent, dr_skipped = skipped, dr_total_targets = int (length targets)\<rparr>, d))"

definition send_daily_digests :: "time \<Rightarrow> (uuid \<Rightarrow> uuid) \<Rightarrow> database \<Rightarrow> (app_error + digest_result) \<times> database" where
  "send_daily_digests now ids d = run_digest (daily_turn now ids) (digest_targets np_notify_daily_digest d) d"

definition send_weekly_reports :: "time \<Rightarrow> (uuid \<Rightarrow> uuid) \<Rightarrow> database \<Rightarrow> (app_error + digest_result) \<times> database" where
  "send_weekly_reports now ids d = run_digest (weekly_turn now ids) (digest_targets np_notify_weekly_report d) d"

section \<open>Lemmas\<close>

lemma set_read_wf: "db_wf d \<Longrightarrow> db_wf (set_read P d)"
  unfolding set_read_def by (rule update_notifications_wf) simp_all

lemma create_notification_cases:
  assumes "create_notification now nid u ty ti bo ex d = Inr (v, d')"
  obtains (muted) p where "v = None" "d' = d" "pref_row u d = Some p" "\<not> TYPE_TO_PREF_FIELD ty p"
  | (sent) n where "v = Some n" "insert_notification n d = Inr d'" "d' = d\<lparr>notifications := notifications d @ [n]\<rparr>"
      "n = \<lparr>n_id = nid, n_user_id = u, n_type = ty, n_title = ti, n_body = bo, n_is_read = False,
             n_extra_data = ex, n_created_at = now\<rparr>"
      "\<And>p. pref_row u d = Some p \<Longrightarrow> TYPE_TO_PREF_FIELD ty p"
proof (cases "case pref_row u d of None \<Rightarrow> False | Some prefs \<Rightarrow> \<not> TYPE_TO_PREF_FIELD ty prefs")
  case True
  then show ?thesis using assms by (auto simp: create_notification_def split: option.splits intro: muted)
next
  case False
  then show ?thesis using assms sent
    by (auto simp: create_notification_def Let_def insert_notification_def split: sum.splits option.splits)
qed

lemma create_notification_wf:
  assumes "db_wf d" "create_notification now nid u ty ti bo ex d = Inr (v, d')"
  shows "db_wf d'"
  using assms(2) by (cases rule: create_notification_cases) (use assms(1) insert_notification_wf in auto)

lemma pref_row_iff:
  "preferences_ok U (preferences d) \<Longrightarrow> pref_row u d = Some p \<longleftrightarrow> p \<in> set (preferences d) \<and> np_user_id p = u"
  by (auto simp: pref_row_def preferences_ok_def find_unique dest: find_set)

lemma digest_loop_counts:
  "digest_loop turn us a b d = (Inr (s, k), d') \<Longrightarrow> s + k = a + b + int (length us)"
proof (induction us arbitrary: a b d)
  case (Cons u us)
  show ?case
  proof (cases "turn u d")
    case (Inr r)
    then show ?thesis using Cons by (cases r; cases "fst r") force+
  qed (use Cons.prems in simp)
qed simp

lemma digest_loop_inv:
  assumes "\<And>u d v d'. u \<in> set us \<Longrightarrow> turn u d = Inr (v, d') \<Longrightarrow> P d \<Longrightarrow> P d'" "P d"
  shows "P (snd (digest_loop turn us a b d))"
  using assms
proof (induction us arbitrary: a b d)
  case (Cons u us)
  show ?case
  proof (cases "turn u d")
    case (Inr r)
    obtain v d' where r: "r = (v, d')" by (cases r)
    then have "P d'" using Cons.prems Inr by auto
    have "P (snd (digest_loop turn us a b d'))" for a b
      by (rule Cons.IH) (use Cons.prems(1) \<open>P d'\<close> in \<open>auto\<close>)
    then show ?thesis using Inr r by (cases v) simp_all
  qed (use Cons.prems in simp)
qed simp

lemma update_notification_preferences_wf:
  assumes "db_wf d"
  shows "db_wf (snd (update_notification_preferences now pid u upd d))"
proof -
  have k: "np_id (apply_pref_updates now upd p) = np_id p" "np_user_id (apply_pref_updates now upd p) = np_user_id p" for p
    by (simp_all add: apply_pref_updates_def)
  show ?thesis
  proof (cases "pref_row u d")
    case None
    then have "u \<notin> np_user_id ` set (preferences d)" by (auto simp: pref_row_def find_none_iff)
    with None assms show ?thesis
      by (auto simp: update_notification_preferences_def Let_def db_wf_def preferences_ok_def table_simps new_preferences_def user_ids_def)
  next
    case (Some p)
    with assms show ?thesis
      by (simp add: update_notification_preferences_def Let_def db_wf_def preferences_ok_def unique_on_update_where image_update_where k)
  qed
qed

end
