(* ===== verification/Badges.thy ===== *)
theory Badges
  imports Notifications
begin

text \<open>
  Badges: the service functions of \<open>app/services/badge.py\<close> and the asset calls of
  \<open>app/services/cloudinary.py\<close>.  The operations an organiser may only apply to a badge of their
  own share the contract \<open>owned_operation\<close>.
\<close>

section \<open>Assets\<close>

definition configure_cloudinary :: "settings \<Rightarrow> app_error + unit" where
  "configure_cloudinary s =
     (if \<not> (CLOUDINARY_CLOUD_NAME s \<noteq> [] \<and> CLOUDINARY_API_KEY s \<noteq> [] \<and> CLOUDINARY_API_SECRET s \<noteq> [])
      then Inl CloudinaryUploadError else Inr ())"

definition upload_sync :: "'r env \<Rightarrow> bytes \<Rightarrow> string \<Rightarrow> 'r world \<Rightarrow> (app_error + string) \<times> 'r world" where
  "upload_sync e data filename w = (case configure_cloudinary (cfg e) of
     Inl err \<Rightarrow> (Inl err, w)
   | Inr _ \<Rightarrow>
       (let public_id = LOGO_FOLDER (cfg e) @ ''/'' @ filename;
            w = w\<lparr>cdn_log := cdn_log w @ [CdnUpload public_id data]\<rparr>
        in case cdn_upload e public_id data of
            None \<Rightarrow> (Inl CloudinaryUploadError, w)
          | Some url \<Rightarrow> (Inr url, w)))"

definition delete_sync :: "'r env \<Rightarrow> string \<Rightarrow> 'r world \<Rightarrow> (app_error + unit) \<times> 'r world" where
  "delete_sync e public_id w = (case configure_cloudinary (cfg e) of
     Inl err \<Rightarrow> (Inl err, w)
   | Inr _ \<Rightarrow>
       (let w = w\<lparr>cdn_log := cdn_log w @ [CdnDestroy public_id]\<rparr>
        in if cdn_destroy e public_id then (Inr (), w) else (Inl CloudinaryUploadError, w)))"

text \<open>\<open>u\<close> is the draw of \<open>uuid.uuid4()\<close>.\<close>

definition upload_logo :: "'r env \<Rightarrow> uuid \<Rightarrow> bytes \<Rightarrow> 'r world \<Rightarrow> (app_error + string \<times> string) \<times> 'r world" where
  "upload_logo e u data w =
     (let filename = uuid_str u; public_id = LOGO_FOLDER (cfg e) @ ''/'' @ filename
      in case upload_sync e data filename w of
          (Inl err, w) \<Rightarrow> (Inl err, w)
        | (Inr url, w) \<Rightarrow> (Inr (url, public_id), w))"

definition delete_logo :: "'r env \<Rightarrow> string \<Rightarrow> 'r world \<Rightarrow> (app_error + unit) \<times> 'r world" where
  "delete_logo e public_id w = delete_sync e public_id w"

definition delete_asset :: "'r env \<Rightarrow> string \<Rightarrow> 'r world \<Rightarrow> (app_error + unit) \<times> 'r world" where
  "delete_asset e public_id w = delete_sync e public_id w"

section \<open>Creating and finding\<close>

definition increment_template_badge_count :: "time \<Rightarrow> uuid \<Rightarrow> database \<Rightarrow> database" where
  "increment_template_badge_count now platform_template_id d = d\<lparr>platform_templates :=
     update_where (\<lambda>t. pt_id t = platform_template_id)
       (\<lambda>t. t\<lparr>pt_total_badges_made := pt_total_badges_made t + 1, pt_updated_at := Some now\<rparr>) (platform_templates d)\<rparr>"

text \<open>\<open>value or {}\<close> of a JSON column.\<close>

definition json_or_empty :: "json option \<Rightarrow> json" where
  "json_or_empty v = (case v of None \<Rightarrow> JObj []
     | Some x \<Rightarrow> if x \<in> {JNull, JBool False, JInt 0, JStr [], JList []} 
         \<or> (case x of JDec m n \<Rightarrow> m = 0 | _ \<Rightarrow> False) then JObj [] else x)"

definition new_badge :: "time \<Rightarrow> uuid \<Rightarrow> uuid \<Rightarrow> uuid \<Rightarrow> string \<Rightarrow> json \<Rightarrow> badge" where
  "new_badge now bid organiser_id template_id title canvas =
     \<lparr>b_id = bid, b_organiser_id = organiser_id, b_platform_template_id = template_id, b_title = title,
      b_canvas_data = canvas, b_default_caption = None, b_destination_link = None, b_thumbnail_url = None,
      b_logo_url = None, b_logo_public_id = None, b_access_type = 0, b_access_code = None, b_is_published = False,
      b_published_at = None, b_share_slug = None, b_share_count = 0, b_creation_count = 0,
      b_created_at = Some now, b_updated_at = None, b_deleted_at = None\<rparr>"

definition create_badge :: "time \<Rightarrow> uuid \<Rightarrow> uuid \<Rightarrow> uuid \<Rightarrow> 'r world \<Rightarrow> (app_error + badge) \<times> 'r world" where
  "create_badge now bid organiser_id platform_template_id w =
     (case find (\<lambda>t. pt_id t = platform_template_id) (platform_templates (db w)) of
        None \<Rightarrow> (Inl PlatformTemplateNotFoundError, w)
      | Some platform_template \<Rightarrow>
          if \<not> pt_is_active platform_template then (Inl PlatformTemplateNotActiveError, w)
          else (let instance' = new_badge now bid organiser_id platform_template_id (pt_title platform_template)
                  (json_or_empty (pt_canvas_data platform_template))
                in case insert_badge instance' (db w) of
                    Inl err \<Rightarrow> (Inl err, w)
                  | Inr d \<Rightarrow> (Inr instance', w\<lparr>db := increment_template_badge_count now platform_template_id d\<rparr>)))"

definition live_badge :: "uuid \<Rightarrow> database \<Rightarrow> badge option" where
  "live_badge bid d = find (\<lambda>b. b_id b = bid \<and> b_deleted_at b = None) (badges d)"

text \<open>The row of a badge after the commit, as \<open>session.refresh\<close> reads it.\<close>

definition badge_row :: "uuid \<Rightarrow> database \<Rightarrow> badge" where
  "badge_row bid d = hd (filter (\<lambda>b. b_id b = bid) (badges d))"

section \<open>Publishing\<close>

text \<open>The fields set on the row; \<open>choice\<close> are the draws of \<open>generate_share_slug()\<close>.\<close>

definition publish_row :: "time \<Rightarrow> (nat \<Rightarrow> nat) \<Rightarrow> badge \<Rightarrow> badge" where
  "publish_row now choice b = b\<lparr>b_is_published := True, b_published_at := Some now,
     b_share_slug := (case b_share_slug b of
        Some (c # s) \<Rightarrow> Some (c # s) | _ \<Rightarrow> Some (generate_share_slug choice SLUG_LENGTH))\<rparr>"

definition publish_badge :: "time \<Rightarrow> (nat \<Rightarrow> nat) \<Rightarrow> uuid \<Rightarrow> uuid \<Rightarrow> 'r world \<Rightarrow> (app_error + badge) \<times> 'r world" where
  "publish_badge now choice organiser_id bid w =
     (case live_badge bid (db w) of
        None \<Rightarrow> (Inl BadgeNotFoundError, w)
      | Some badge \<Rightarrow>
          if b_organiser_id badge \<noteq> organiser_id then (Inl NotBadgeOwnerError, w)
          else if b_is_published badge then (Inl BadgeAlreadyPublishedError, w)
          else (case save_badge now bid (publish_row now choice) (db w) of
              Inl err \<Rightarrow> (Inl err, w)
            | Inr d \<Rightarrow> (Inr (badge_row bid d), w\<lparr>db := d\<rparr>)))"

definition unpublish_badge :: "time \<Rightarrow> uuid \<Rightarrow> uuid \<Rightarrow> 'r world \<Rightarrow> (app_error + badge) \<times> 'r world" where
  "unpublish_badge now organiser_id bid w =
     (case find (\<lambda>b. b_id b = bid) (badges (db w)) of
        None \<Rightarrow> (Inl BadgeNotFoundError, w)
      | Some template \<Rightarrow>
          if b_deleted_at template \<noteq> None then (Inl BadgeNotFoundError, w)
          else if b_organiser_id template \<noteq> organiser_id then (Inl NotBadgeOwnerError, w)
          else (case save_badge now bid (\<lambda>b. b\<lparr>b_is_published := False, b_published_at := None\<rparr>) (db w) of
              Inl err \<Rightarrow> (Inl err, w)
            | Inr d \<Rightarrow> (Inr (badge_row bid d), w\<lparr>db := d\<rparr>)))"

definition upload_badge_logo :: "'r env \<Rightarrow> time \<Rightarrow> uuid \<Rightarrow> uuid \<Rightarrow> uuid \<Rightarrow> bytes \<Rightarrow> 'r world \<Rightarrow>
    (app_error + string) \<times> 'r world" where
  "upload_badge_logo e now u bid organiser_id image_data w =
     (case live_badge bid (db w) of
        None \<Rightarrow> (Inl BadgeNotFoundError, w)
      | Some instance' \<Rightarrow>
          if b_organiser_id instance' \<noteq> organiser_id then (Inl NotBadgeOwnerError, w)
          else (let old_public_id = b_logo_public_id instance' in
            case upload_logo e u image_data w of
              (Inl err, w) \<Rightarrow> (Inl err, w)
            | (Inr (logo_url, public_id), w) \<Rightarrow>
                (case (case save_badge now bid (\<lambda>b. b\<lparr>b_logo_url := Some logo_url, b_logo_public_id := Some public_id\<rparr>) (db w) of
                     Inl err \<Rightarrow> Inl err | Inr d \<Rightarrow> if commit_ok e d then Inr d else Inl SQLAlchemyError) of
                   Inl err \<Rightarrow> (Inl err, snd (delete_logo e public_id w))
                 | Inr d \<Rightarrow>
                     (let w = w\<lparr>db := d\<rparr> in
                      (Inr logo_url, case old_public_id of
                         Some (c # s) \<Rightarrow> snd (delete_logo e (c # s) w) | _ \<Rightarrow> w)))))"

section \<open>The public page\<close>

definition public_where :: "string \<Rightarrow> badge \<Rightarrow> bool" where
  "public_where slug b = (b_share_slug b = Some slug \<and> b_is_published b \<and> b_deleted_at b = None)"

definition get_public_badge_by_slug :: "string \<Rightarrow> database \<Rightarrow> app_error + badge" where
  "get_public_badge_by_slug slug d =
     (case find (public_where slug) (badges d) of
        None \<Rightarrow> Inl PublicBadgeNotFoundError | Some template \<Rightarrow> Inr template)"

definition increment_badge_share_count :: "time \<Rightarrow> string \<Rightarrow> 'r world \<Rightarrow> (app_error + unit) \<times> 'r world" where
  "increment_badge_share_count now slug w =
     (let rowcount = count_where (public_where slug) (badges (db w));
          w = set_badges (update_where (public_where slug)
            (\<lambda>b. b\<lparr>b_share_count := b_share_count b + 1, b_updated_at := Some now\<rparr>) (badges (db w))) w
      in if rowcount = 0 then (Inl PublicBadgeNotFoundError, w) else (Inr (), w))"

definition increment_badge_creation_count :: "time \<Rightarrow> uuid \<Rightarrow> string \<Rightarrow> 'r world \<Rightarrow> (app_error + unit) \<times> 'r world" where
  "increment_badge_creation_count now nid slug w =
     (case find (public_where slug) (badges (db w)) of
        None \<Rightarrow> (Inl PublicBadgeNotFoundError, w)
      | Some row \<Rightarrow>
          (let d = (db w)\<lparr>badges := update_where (public_where slug)
                (\<lambda>b. b\<lparr>b_creation_count := b_creation_count b + 1, b_updated_at := Some now\<rparr>) (badges (db w))\<rparr>
           in case create_notification now nid (b_organiser_id row) BADGE_CREATION
                  ''A new participant has just created a new badge''
                  (''A new participant just created a badge from '' @ [CHR 0x27] @ b_title row @ [CHR 0x27] @ ''.'')
                  (Some (JObj [(''badge_id'', JStr (uuid_str (b_id row))), (''share_slug'', JStr slug)])) d of
                Inl err \<Rightarrow> (Inl err, w)
              | Inr (_, d) \<Rightarrow> (Inr (), w\<lparr>db := d\<rparr>)))"

section \<open>The gallery\<close>

definition VALID_CATEGORIES :: "string list" where
  "VALID_CATEGORIES = [''bootcamp'', ''community'', ''conferences'', ''festivals'', ''hackathons'', ''meetups'',
     ''speakers'', ''summit'', ''trending'']"

text \<open>\<open>coll\<close> is the sort key of the collation of the database.\<close>

definition list_platform_templates :: "(string \<Rightarrow> string) \<Rightarrow> string option \<Rightarrow> int \<Rightarrow> int \<Rightarrow> database \<Rightarrow>
    app_error + platform_template list \<times> int" where
  "list_platform_templates coll category page limit d =
     (case category of
        Some category \<Rightarrow>
          (let normalised = py_lower (py_strip category) in
           if normalised \<notin> set VALID_CATEGORIES
           then Inl (ValueError (''Unknown category '' @ [CHR 0x27] @ category @ [CHR 0x27] @ ''. Valid options: ''
             @ py_join '', '' VALID_CATEGORIES))
           else (let rows = filter (\<lambda>t. pt_is_active t \<and> pt_category t = normalised) (platform_templates d)
                 in Inr (page_of page limit (sort_key (\<lambda>t. coll (pt_title t)) rows), int (length rows))))
      | None \<Rightarrow>
          (let rows = filter pt_is_active (platform_templates d)
           in Inr (page_of page limit (sort_key (\<lambda>t. (coll (pt_category t), coll (pt_title t))) rows), int (length rows))))"

definition get_platform_template :: "uuid \<Rightarrow> database \<Rightarrow> app_error + platform_template" where
  "get_platform_template tid d =
     (case find (\<lambda>t. pt_id t = tid \<and> pt_is_active t) (platform_templates d) of
        None \<Rightarrow> Inl PlatformTemplateNotFoundError | Some template \<Rightarrow> Inr template)"

section \<open>Copies, lists, deletion\<close>

definition badge_tags :: "uuid \<Rightarrow> database \<Rightarrow> string list" where
  "badge_tags bid d = map bh_hashtag (filter (\<lambda>h. bh_badge_id h = bid) (badge_hashtags d))"

text \<open>\<open>ids i\<close> is the row id drawn for the i-th hashtag.\<close>

fun insert_hashtags :: "(nat \<Rightarrow> uuid) \<Rightarrow> nat \<Rightarrow> uuid \<Rightarrow> string list \<Rightarrow> database \<Rightarrow> app_error + database" where
  "insert_hashtags ids i bid [] d = Inr d"
| "insert_hashtags ids i bid (tag # tags) d =
     (case insert_hashtag \<lparr>bh_id = ids i, bh_badge_id = bid, bh_hashtag = tag\<rparr> d of
        Inl err \<Rightarrow> Inl err | Inr d \<Rightarrow> insert_hashtags ids (Suc i) bid tags d)"

definition copy_of :: "time \<Rightarrow> uuid \<Rightarrow> uuid \<Rightarrow> badge \<Rightarrow> badge" where
  "copy_of now bid organiser_id original =
     (new_badge now bid organiser_id (b_platform_template_id original) (b_title original @ '' (Copy)'') (b_canvas_data original))
     \<lparr>b_default_caption := b_default_caption original, b_destination_link := b_destination_link original,
      b_thumbnail_url := b_thumbnail_url original, b_access_type := b_access_type original,
      b_access_code := b_access_code original\<rparr>"

definition duplicate_badge :: "time \<Rightarrow> uuid \<Rightarrow> (nat \<Rightarrow> uuid) \<Rightarrow> uuid \<Rightarrow> uuid \<Rightarrow> 'r world \<Rightarrow> (app_error + badge) \<times> 'r world" where
  "duplicate_badge now new_id ids organiser_id bid w =
     (case live_badge bid (db w) of
        None \<Rightarrow> (Inl BadgeNotFoundError, w)
      | Some original \<Rightarrow>
          if b_organiser_id original \<noteq> organiser_id then (Inl NotBadgeOwnerError, w)
          else (let copy = copy_of now new_id organiser_id original in
            case insert_badge copy (db w) of
              Inl err \<Rightarrow> (Inl err, w)
            | Inr d \<Rightarrow> (case insert_hashtags ids 0 new_id (badge_tags bid (db w)) d of
                Inl err \<Rightarrow> (Inl err, w)
              | Inr d \<Rightarrow> (Inr copy, w\<lparr>db := increment_template_badge_count now (b_platform_template_id original) d\<rparr>))))"

definition list_badges :: "uuid \<Rightarrow> int \<Rightarrow> int \<Rightarrow> database \<Rightarrow> badge list \<times> int" where
  "list_badges organiser_id page limit d =
     (let rows = filter (\<lambda>b. b_organiser_id b = organiser_id \<and> b_deleted_at b = None) (badges d)
      in (page_of page limit
            (sort_key (\<lambda>b. (desc_nulls_last (b_updated_at b), desc_nulls_last (b_created_at b))) rows),
          int (length rows)))"

definition delete_badge :: "'r env \<Rightarrow> time \<Rightarrow> uuid \<Rightarrow> uuid \<Rightarrow> 'r world \<Rightarrow> (app_error + unit) \<times> 'r world" where
  "delete_badge e now organiser_id bid w =
     (case live_badge bid (db w) of
        None \<Rightarrow> (Inl BadgeNotFoundError, w)
      | Some template \<Rightarrow>
          if b_organiser_id template \<noteq> organiser_id then (Inl NotBadgeOwnerError, w)
          else (let logo_public_id = b_logo_public_id template in
            case save_badge now bid (\<lambda>b. b\<lparr>b_deleted_at := Some now, b_is_published := False, b_published_at := None\<rparr>) (db w) of
              Inl err \<Rightarrow> (Inl err, w)
            | Inr d \<Rightarrow>
                (let w = w\<lparr>db := d\<rparr> in
                 (Inr (), case logo_public_id of Some (c # s) \<Rightarrow> snd (delete_logo e (c # s) w) | _ \<Rightarrow> w))))"

definition get_badge_by_id :: "uuid \<Rightarrow> uuid \<Rightarrow> database \<Rightarrow> app_error + badge" where
  "get_badge_by_id organiser_id bid d =
     (case live_badge bid d of
        None \<Rightarrow> Inl BadgeNotFoundError
      | Some badge \<Rightarrow> if b_organiser_id badge \<noteq> organiser_id then Inl NotBadgeOwnerError else Inr badge)"

section \<open>Editing\<close>

text \<open>The dictionary of updates: \<open>None\<close> is an absent key, \<open>Some v\<close> sets the field to \<open>v\<close>.\<close>

record badge_updates =
  bu_title :: "string option option"
  bu_canvas_data :: "json option option"
  bu_default_caption :: "string option option"
  bu_destination_link :: "string option option"
  bu_thumbnail_url :: "string option option"
  bu_access_type :: "int option option"
  bu_access_code :: "string option option"

definition check_access :: "badge \<Rightarrow> badge_updates \<Rightarrow> app_error + badge_updates" where
  "check_access badge u =
     (if bu_access_type u = None \<and> bu_access_code u = None then Inr u
      else (let target_type = (case bu_access_type u of None \<Rightarrow> Some (b_access_type badge) | Some v \<Rightarrow> v);
                target_code = (case bu_access_code u of None \<Rightarrow> b_access_code badge | Some v \<Rightarrow> v)
            in if target_type = Some 1
               then (if (case target_code of None \<Rightarrow> True | Some c \<Rightarrow> c = [] \<or> length c < 4 \<or> length c > 10)
                     then Inl (ValueError (''access_code is required and must be between 4 and 10 characters ''
                       @ ''when access_type is private.''))
                     else Inr (u\<lparr>bu_access_code := Some target_code\<rparr>))
               else if target_type = Some 0 then Inr (u\<lparr>bu_access_code := Some None\<rparr>)
               else Inl (ValueError ''access_type must be 0 (public) or 1 (private).'')))"

text \<open>\<open>setattr\<close> of every field; a null in the title is caught by the column at the commit, after the lengths of the others.\<close>

definition apply_updates :: "badge_updates \<Rightarrow> badge \<Rightarrow> badge" where
  "apply_updates u b = b\<lparr>
     b_title := (case bu_title u of Some (Some t) \<Rightarrow> t | _ \<Rightarrow> b_title b),
     b_canvas_data := (case bu_canvas_data u of None \<Rightarrow> b_canvas_data b | Some None \<Rightarrow> JNull | Some (Some j) \<Rightarrow> j),
     b_default_caption := (case bu_default_caption u of None \<Rightarrow> b_default_caption b | Some v \<Rightarrow> v),
     b_destination_link := (case bu_destination_link u of None \<Rightarrow> b_destination_link b | Some v \<Rightarrow> v),
     b_thumbnail_url := (case bu_thumbnail_url u of None \<Rightarrow> b_thumbnail_url b | Some v \<Rightarrow> v),
     b_access_type := (case bu_access_type u of Some (Some t) \<Rightarrow> t | _ \<Rightarrow> b_access_type b),
     b_access_code := (case bu_access_code u of None \<Rightarrow> b_access_code b | Some v \<Rightarrow> v)\<rparr>"

definition edit_badge :: "time \<Rightarrow> (nat \<Rightarrow> uuid) \<Rightarrow> uuid \<Rightarrow> uuid \<Rightarrow> badge_updates \<Rightarrow> string list option \<Rightarrow> bool \<Rightarrow>
    'r world \<Rightarrow> (app_error + badge) \<times> 'r world" where
  "edit_badge now ids organiser_id bid field_updates new_hashtags update_hashtags w =
     (case live_badge bid (db w) of
        None \<Rightarrow> (Inl BadgeNotFoundError, w)
      | Some badge \<Rightarrow>
          if b_organiser_id badge \<noteq> organiser_id then (Inl NotBadgeOwnerError, w)
          else (case check_access badge field_updates of
              Inl err \<Rightarrow> (Inl err, w)
            | Inr u \<Rightarrow>
                if bu_title u = Some None
                then (Inl (if badge_fits (apply_updates u badge) then IntegrityError else DataError), w)
                else (case save_badge now bid (apply_updates u) (db w) of
                    Inl err \<Rightarrow> (Inl err, w)
                  | Inr d \<Rightarrow>
                      if update_hashtags
                      then (case insert_hashtags ids 0 bid (case new_hashtags of None \<Rightarrow> [] | Some ts \<Rightarrow> ts)
                              (d\<lparr>badge_hashtags := delete_where (\<lambda>h. bh_badge_id h = bid) (badge_hashtags d)\<rparr>) of
                          Inl err \<Rightarrow> (Inl err, w)
                        | Inr d \<Rightarrow> (Inr (badge_row bid d), w\<lparr>db := d\<rparr>))
                      else (Inr (badge_row bid d), w\<lparr>db := d\<rparr>))))"

section \<open>Analytics\<close>

definition sum_of :: "('a \<Rightarrow> int) \<Rightarrow> 'a list \<Rightarrow> int" where
  "sum_of f xs = sum_list (map f xs)"

text \<open>Groups of equal size keep the order in which their template first occurs.\<close>

definition get_badge_analytics :: "uuid \<Rightarrow> database \<Rightarrow> int \<times> int \<times> int \<times> int \<times> (uuid \<times> int) list" where
  "get_badge_analytics organiser_id d =
     (let rows = filter (\<lambda>b. b_organiser_id b = organiser_id \<and> b_deleted_at b = None) (badges d);
          total = int (length rows);
          active = sum_of (\<lambda>b. if b_is_published b then 1 else 0) rows;
          total_shares = sum_of b_share_count rows;
          total_creations = sum_of b_creation_count rows;
          usage_rows = sort_key (\<lambda>(t, n). - n)
            (map (\<lambda>t. (t, int (count_where (\<lambda>b. b_platform_template_id b = t) rows)))
              (remdups (map b_platform_template_id rows)))
      in (total, active, total_shares, total_creations, usage_rows))"

end
