(* ===== verification/Badge_Facts.thy ===== *)
theory Badge_Facts
  imports Badges Session_Facts
begin

text \<open>
  The guarantees of badges: who may change one, what its row may look like at any time, what the
  public sees of it, and how its counters and its share link behave.
\<close>

section \<open>Operations for the owner\<close>

text \<open>
  The contract of an operation on a badge of one's own: on a badge that does not exist, or was
  deleted, and on a badge of another organiser, it fails with the error for that case and changes
  nothing.
\<close>

definition refused :: "(app_error + 'a) \<times> 'r world \<Rightarrow> 'r world \<Rightarrow> bool" where
  "refused r w = (snd r = w \<and> (fst r = Inl BadgeNotFoundError \<or> fst r = Inl NotBadgeOwnerError))"

locale owned_operation =
  fixes run :: "uuid \<Rightarrow> uuid \<Rightarrow> 'r world \<Rightarrow> (app_error + 'a) \<times> 'r world"
  assumes absent: "live_badge bid (db w) = None \<Longrightarrow> run org bid w = (Inl BadgeNotFoundError, w)"
    and foreign: "live_badge bid (db w) = Some b \<Longrightarrow> b_organiser_id b \<noteq> org \<Longrightarrow>
      run org bid w = (Inl NotBadgeOwnerError, w)"
begin

lemma success_owner:
  assumes "run org bid w = (Inr v, w')"
  shows "\<exists>b. live_badge bid (db w) = Some b \<and> b_organiser_id b = org"
proof (cases "live_badge bid (db w)")
  case None
  then show ?thesis using absent [OF None] assms by simp
next
  case (Some b)
  then show ?thesis using foreign [OF Some] assms by fastforce
qed

lemma not_owner_refused:
  assumes "\<forall>b\<in>set (badges (db w)). b_id b = bid \<and> b_deleted_at b = None \<longrightarrow> b_organiser_id b \<noteq> org"
  shows "refused (run org bid w) w"
proof (cases "live_badge bid (db w)")
  case None
  then show ?thesis using absent by (simp add: refused_def)
next
  case (Some b)
  then have "b_organiser_id b \<noteq> org" using assms by (auto simp: live_badge_def dest: find_set)
  then show ?thesis using foreign [OF Some] by (simp add: refused_def)
qed

end

interpretation publish: owned_operation "publish_badge now choice" for now choice
  by unfold_locales (simp_all add: publish_badge_def)

interpretation upload: owned_operation "\<lambda>org bid. upload_badge_logo e now u bid org img" for e now u img
  by unfold_locales (simp_all add: upload_badge_logo_def)

interpretation duplicate: owned_operation "duplicate_badge now new_id ids" for now new_id ids
  by unfold_locales (simp_all add: duplicate_badge_def)

interpretation delete: owned_operation "delete_badge e now" for e now
  by unfold_locales (simp_all add: delete_badge_def)

interpretation edit: owned_operation "\<lambda>org bid. edit_badge now ids org bid upd tags flag" for now ids upd tags flag
  by unfold_locales (simp_all add: edit_badge_def)

interpretation detail: owned_operation "\<lambda>org bid w. (get_badge_by_id org bid (db w), w)"
  by unfold_locales (simp_all add: get_badge_by_id_def)

lemma live_badge_iff:
  assumes "db_wf d"
  shows "live_badge bid d = Some b \<longleftrightarrow> b \<in> set (badges d) \<and> b_id b = bid \<and> b_deleted_at b = None"
proof
  show "live_badge bid d = Some b \<Longrightarrow> b \<in> set (badges d) \<and> b_id b = bid \<and> b_deleted_at b = None"
    by (auto simp: live_badge_def dest: find_set)
  assume b: "b \<in> set (badges d) \<and> b_id b = bid \<and> b_deleted_at b = None"
  have "live_badge bid d \<noteq> None" unfolding live_badge_def find_none_iff using b by blast
  then obtain x where x: "live_badge bid d = Some x" by blast
  then have "x \<in> set (badges d)" "b_id x = bid" by (auto simp: live_badge_def dest: find_set)
  with b assms have "x = b" by (metis badges_ok_def db_wf_def unique_onD)
  with x show "live_badge bid d = Some b" by simp
qed

section \<open>The operations keep the database well formed\<close>

lemma increment_template_wf: "db_wf d \<Longrightarrow> db_wf (increment_template_badge_count now t d)"
  unfolding increment_template_badge_count_def by (rule update_templates_wf) simp_all

lemma create_badge_wf:
  assumes "db_wf (db w)"
  shows "db_wf (db (snd (create_badge now bid org t w)))"
proof -
  have "badge_row_ok (new_badge now bid org t ti ca)" for ti ca
    by (simp add: badge_row_ok_def new_badge_def access_ok_def)
  then have "db_wf (increment_template_badge_count now t d)"
    if "insert_badge (new_badge now bid org t ti ca) (db w) = Inr d" for ti ca d
    using insert_badge_wf [OF assms that] increment_template_wf by blast
  then show ?thesis using assms by (simp add: create_badge_def Let_def split: option.split sum.split)
qed

lemma insert_hashtags_wf:
  "insert_hashtags ids i bid tags d = Inr d' \<Longrightarrow> db_wf d \<Longrightarrow> db_wf d'"
proof (induction tags arbitrary: i d)
  case (Cons tag tags)
  then show ?case using insert_hashtag_wf by (fastforce split: sum.splits)
qed simp

lemma insert_hashtags_badges:
  "insert_hashtags ids i bid tags d = Inr d' \<Longrightarrow> badges d' = badges d \<and> users d' = users d
     \<and> platform_templates d' = platform_templates d"
proof (induction tags arbitrary: i d)
  case (Cons tag tags)
  then obtain d1 where d1: "insert_hashtag \<lparr>bh_id = ids i, bh_badge_id = bid, bh_hashtag = tag\<rparr> d = Inr d1"
    "insert_hashtags ids (Suc i) bid tags d1 = Inr d'" by (auto split: sum.splits)
  then show ?case using Cons.IH [OF d1(2)] by (auto simp: insert_hashtag_def)
qed simp

lemma length_slug [simp]: "generate_share_slug choice SLUG_LENGTH \<noteq> []"
  using length_generate_share_slug [of choice SLUG_LENGTH] by (auto simp: SLUG_LENGTH_def simp del: length_generate_share_slug)

lemma publish_row_simps [simp]:
  "b_id (publish_row now choice b) = b_id b" "b_organiser_id (publish_row now choice b) = b_organiser_id b"
  "b_platform_template_id (publish_row now choice b) = b_platform_template_id b"
  by (simp_all add: publish_row_def)

lemma publish_row_ok: "badge_row_ok b \<Longrightarrow> b_deleted_at b = None \<Longrightarrow> badge_row_ok (publish_row now choice b)"
  by (auto simp: badge_row_ok_def publish_row_def split: option.split list.split)

lemma wf_badge_unique: "db_wf d \<Longrightarrow> x \<in> set (badges d) \<Longrightarrow> y \<in> set (badges d) \<Longrightarrow> b_id x = b_id y \<Longrightarrow> x = y"
  by (metis badges_ok_def db_wf_def unique_onD)

lemma publish_wf:
  assumes "db_wf (db w)"
  shows "db_wf (db (snd (publish_badge now choice org bid w)))"
proof -
  have "db_wf d" if "live_badge bid (db w) = Some b" "save_badge now bid (publish_row now choice) (db w) = Inr d" for b d
  proof (rule save_badge_wf [OF assms that(2)])
    fix x
    assume "x \<in> set (badges (db w))" "b_id x = bid" "badge_row_ok x"
    moreover from this have "x = b" using that(1) wf_badge_unique [OF assms] live_badge_iff [OF assms] by metis
    ultimately show "badge_row_ok (publish_row now choice x)"
      using that(1) live_badge_iff [OF assms] publish_row_ok by metis
  qed simp_all
  then show ?thesis using assms by (auto simp: publish_badge_def split: option.split sum.split)
qed

lemma unpublish_wf:
  assumes "db_wf (db w)"
  shows "db_wf (db (snd (unpublish_badge now org bid w)))"
  using assms
  by (auto simp: unpublish_badge_def badge_row_ok_def split: option.split sum.split elim!: save_badge_wf [rotated])

lemma delete_logo_frame [simp]: "db (snd (delete_logo e p w)) = db w" "kv (snd (delete_logo e p w)) = kv w"
  by (simp_all add: delete_logo_def delete_sync_def configure_cloudinary_def Let_def)

lemma upload_logo_frame [simp]: "db (snd (upload_logo e u data w)) = db w" "kv (snd (upload_logo e u data w)) = kv w"
  by (simp_all add: upload_logo_def upload_sync_def configure_cloudinary_def Let_def split: option.split)

lemma delete_badge_wf:
  assumes "db_wf (db w)"
  shows "db_wf (db (snd (delete_badge e now org bid w)))"
  using assms
  by (auto simp: delete_badge_def Let_def badge_row_ok_def split: option.split sum.split list.split elim!: save_badge_wf [rotated])

lemma check_access_ok:
  assumes "check_access b u = Inr v" "badge_row_ok b"
  shows "badge_row_ok (apply_updates v b)"
  using assms
  by (auto simp: check_access_def Let_def badge_row_ok_def apply_updates_def access_ok_def
      split: if_splits option.splits)


lemma edit_badge_wf:
  assumes "db_wf (db w)"
  shows "db_wf (db (snd (edit_badge now ids org bid upd tags flag w)))"
proof -
  have d: "db_wf d" if "live_badge bid (db w) = Some b" "check_access b upd = Inr u"
    "save_badge now bid (apply_updates u) (db w) = Inr d" for b u d
  proof (rule save_badge_wf [OF assms that(3)])
    fix x
    assume "x \<in> set (badges (db w))" "b_id x = bid" "badge_row_ok x"
    moreover from this have "x = b" using that(1) wf_badge_unique [OF assms] live_badge_iff [OF assms] by metis
    ultimately show "badge_row_ok (apply_updates u x)" using check_access_ok [OF that(2)] by simp
  qed (simp_all add: apply_updates_def)
  have "db_wf d'" if "live_badge bid (db w) = Some b" "check_access b upd = Inr u"
    "save_badge now bid (apply_updates u) (db w) = Inr d"
    "insert_hashtags ids 0 bid ts (d\<lparr>badge_hashtags := delete_where (\<lambda>h. bh_badge_id h = bid) (badge_hashtags d)\<rparr>) = Inr d'"
    for b u d d' ts
    using insert_hashtags_wf [OF that(4)] delete_hashtags_wf [OF d [OF that(1-3)]] by blast
  with d assms show ?thesis
    by (simp add: edit_badge_def del: insert_hashtags.simps split: option.split sum.split)
qed

lemma duplicate_badge_wf:
  assumes "db_wf (db w)"
  shows "db_wf (db (snd (duplicate_badge now new_id ids org bid w)))"
proof -
  have "db_wf (increment_template_badge_count now t d')"
    if "live_badge bid (db w) = Some b" "insert_badge (copy_of now new_id org b) (db w) = Inr d"
      "insert_hashtags ids 0 new_id ts d = Inr d'" for b d d' t ts
  proof -
    have "badge_row_ok b" using that(1) live_badge_iff [OF assms] assms by (auto simp: db_wf_def badges_ok_def)
    then have "badge_row_ok (copy_of now new_id org b)"
      by (simp add: badge_row_ok_def copy_of_def new_badge_def)
    then show ?thesis using insert_badge_wf [OF assms that(2)] insert_hashtags_wf [OF that(3)] increment_template_wf by blast
  qed
  with assms show ?thesis by (simp add: duplicate_badge_def Let_def split: option.split sum.split)
qed

lemma upload_logo_db: "upload_logo e u img w = (r, w') \<Longrightarrow> db w' = db w"
  using upload_logo_frame(1) [of e u img w] by simp

lemma upload_badge_logo_db:
  "db (snd (upload_badge_logo e now u bid org img w)) = db w \<or>
   (\<exists>b l p. live_badge bid (db w) = Some b \<and> save_badge now bid (\<lambda>b. b\<lparr>b_logo_url := l, b_logo_public_id := p\<rparr>) (db w)
      = Inr (db (snd (upload_badge_logo e now u bid org img w))))"
  by (auto simp: upload_badge_logo_def Let_def dest!: upload_logo_db split: option.split sum.split prod.split list.split)

lemma upload_badge_logo_wf:
  assumes "db_wf (db w)"
  shows "db_wf (db (snd (upload_badge_logo e now u bid org img w)))"
proof -
  have "db_wf d" if "save_badge now bid (\<lambda>b. b\<lparr>b_logo_url := l, b_logo_public_id := p\<rparr>) (db w) = Inr d" for l p d
    using assms that by (rule save_badge_wf) (simp_all add: badge_row_ok_def)
  then show ?thesis using assms upload_badge_logo_db [of e now u bid org img w] by metis
qed

lemma increment_badge_share_count_wf:
  assumes "db_wf (db w)"
  shows "db_wf (db (snd (increment_badge_share_count now slug w)))"
proof -
  have "db_wf ((db w)\<lparr>badges := update_where (public_where slug)
      (\<lambda>b. b\<lparr>b_share_count := b_share_count b + 1, b_updated_at := Some now\<rparr>) (badges (db w))\<rparr>)"
    by (rule update_badges_wf [OF assms]) (auto simp: badge_row_ok_def)
  then show ?thesis by (simp add: increment_badge_share_count_def Let_def)
qed

lemma increment_badge_creation_count_wf:
  assumes "db_wf (db w)"
  shows "db_wf (db (snd (increment_badge_creation_count now nid slug w)))"
proof -
  let ?d = "(db w)\<lparr>badges := update_where (public_where slug)
     (\<lambda>b. b\<lparr>b_creation_count := b_creation_count b + 1, b_updated_at := Some now\<rparr>) (badges (db w))\<rparr>"
  have "db_wf ?d" by (rule update_badges_wf [OF assms]) (auto simp: badge_row_ok_def)
  then show ?thesis using assms create_notification_wf [of ?d]
    by (fastforce simp: increment_badge_creation_count_def Let_def split: option.split sum.split)
qed

section \<open>What happens to a badge over time\<close>

text \<open>One request that reaches a badge, with any arguments and draws.\<close>

inductive badge_step :: "'r env \<Rightarrow> 'r world \<Rightarrow> 'r world \<Rightarrow> bool" for e where
  create: "badge_step e w (snd (create_badge now bid org t w))"
| publish: "badge_step e w (snd (publish_badge now choice org bid w))"
| unpublish: "badge_step e w (snd (unpublish_badge now org bid w))"
| logo: "badge_step e w (snd (upload_badge_logo e now u bid org img w))"
| share: "badge_step e w (snd (increment_badge_share_count now slug w))"
| creation: "badge_step e w (snd (increment_badge_creation_count now nid slug w))"
| duplicate: "badge_step e w (snd (duplicate_badge now new_id ids org bid w))"
| edit: "badge_step e w (snd (edit_badge now ids org bid upd tags flag w))"
| delete: "badge_step e w (snd (delete_badge e now org bid w))"

inductive badge_run :: "'r env \<Rightarrow> 'r world \<Rightarrow> 'r world \<Rightarrow> bool" for e where
  start: "badge_run e w w"
| more: "badge_run e w v \<Longrightarrow> badge_step e v v' \<Longrightarrow> badge_run e w v'"

lemma badge_step_wf: "badge_step e w w' \<Longrightarrow> db_wf (db w) \<Longrightarrow> db_wf (db w')"
  by (induction rule: badge_step.induct)
    (simp_all add: create_badge_wf publish_wf unpublish_wf upload_badge_logo_wf increment_badge_share_count_wf
      increment_badge_creation_count_wf duplicate_badge_wf edit_badge_wf delete_badge_wf)

text \<open>What a change may do to a row.\<close>

definition badge_evolves :: "badge \<Rightarrow> badge \<Rightarrow> bool" where
  "badge_evolves b b' = (b_id b' = b_id b \<and> b_organiser_id b' = b_organiser_id b
     \<and> b_platform_template_id b' = b_platform_template_id b
     \<and> (b_share_slug b \<noteq> None \<and> b_share_slug b \<noteq> Some [] \<longrightarrow> b_share_slug b' = b_share_slug b)
     \<and> b_share_count b \<le> b_share_count b' \<and> b_creation_count b \<le> b_creation_count b'
     \<and> (b_deleted_at b \<noteq> None \<longrightarrow> b_deleted_at b' \<noteq> None))"

definition badges_evolve :: "badge list \<Rightarrow> badge list \<Rightarrow> bool" where
  "badges_evolve bs bs' = (\<forall>b\<in>set bs. \<exists>b'\<in>set bs'. badge_evolves b b')"

lemma badge_evolves_refl [simp]: "badge_evolves b b"
  by (simp add: badge_evolves_def)

lemma badge_evolves_trans: "badge_evolves a b \<Longrightarrow> badge_evolves b c \<Longrightarrow> badge_evolves a c"
  by (auto simp: badge_evolves_def)

lemma badges_evolve_refl [simp]: "badges_evolve bs bs"
  unfolding badges_evolve_def using badge_evolves_refl by blast

lemma badges_evolve_trans: "badges_evolve a b \<Longrightarrow> badges_evolve b c \<Longrightarrow> badges_evolve a c"
  by (meson badge_evolves_trans badges_evolve_def)

lemma badges_evolve_update:
  assumes "\<And>b. b \<in> set bs \<Longrightarrow> P b \<Longrightarrow> badge_evolves b (f b)"
  shows "badges_evolve bs (update_where P f bs)"
  unfolding badges_evolve_def
proof
  fix b
  assume b: "b \<in> set bs"
  then have "(if P b then f b else b) \<in> set (update_where P f bs)" by (auto simp: set_update_where)
  moreover have "badge_evolves b (if P b then f b else b)" using assms b by simp
  ultimately show "\<exists>b'\<in>set (update_where P f bs). badge_evolves b b'" by blast
qed

lemma badges_evolve_snoc: "badges_evolve bs (bs @ [b])"
  unfolding badges_evolve_def using badge_evolves_refl by fastforce

lemma evolves_orm_badge: "badge_evolves b (f b) \<Longrightarrow> badge_evolves b (orm_badge now f b)"
  by (auto simp: badge_evolves_def orm_badge_def Let_def)

lemma badges_evolve_save:
  "save_badge now bid f d = Inr d' \<Longrightarrow> (\<And>b. badge_evolves b (f b)) \<Longrightarrow> badges_evolve (badges d) (badges d')"
  by (auto simp: save_badge_def Let_def intro!: badges_evolve_update evolves_orm_badge)

lemma badges_evolve_insert: "insert_badge b d = Inr d' \<Longrightarrow> badges_evolve (badges d) (badges d')"
  by (auto simp: insert_badge_def badges_evolve_snoc)

lemma evolves_publish_row: "badge_evolves b (publish_row now choice b)"
  by (auto simp: badge_evolves_def publish_row_def split: option.split list.split)

lemma badges_increment_template [simp]: "badges (increment_template_badge_count now t d) = badges d"
  by (simp add: increment_template_badge_count_def)

lemma create_notification_badges:
  "create_notification now nid u ty ti bo ex d = Inr (v, d') \<Longrightarrow> badges d' = badges d"
  by (erule create_notification_cases) auto

lemma badge_step_evolves: "badge_step e w w' \<Longrightarrow> badges_evolve (badges (db w)) (badges (db w'))"
proof (induction rule: badge_step.induct)
  case (create w now bid org t)
  then show ?case
    by (auto simp: create_badge_def Let_def dest: badges_evolve_insert split: option.split sum.split)
next
  case (publish w now choice org bid)
  then show ?case
    by (auto simp: publish_badge_def intro: badges_evolve_save evolves_publish_row split: option.split sum.split)
next
  case (unpublish w now org bid)
  then show ?case
    by (auto simp: unpublish_badge_def badge_evolves_def elim!: badges_evolve_save split: option.split sum.split)
next
  case (logo w now u bid org img)
  have "badges_evolve (badges (db w)) (badges d)"
    if "save_badge now bid (\<lambda>b. b\<lparr>b_logo_url := l, b_logo_public_id := p\<rparr>) (db w) = Inr d" for l p d
    using that by (rule badges_evolve_save) (simp add: badge_evolves_def)
  then show ?case using upload_badge_logo_db [of e now u bid org img w] badges_evolve_refl by metis
next
  case (share w now slug)
  have "badges_evolve (badges (db w)) (update_where (public_where slug)
      (\<lambda>b. b\<lparr>b_share_count := b_share_count b + 1, b_updated_at := Some now\<rparr>) (badges (db w)))"
    by (rule badges_evolve_update) (simp add: badge_evolves_def)
  then show ?case by (simp add: increment_badge_share_count_def Let_def)
next
  case (creation w now nid slug)
  have "badges_evolve (badges (db w)) (update_where (public_where slug)
      (\<lambda>b. b\<lparr>b_creation_count := b_creation_count b + 1, b_updated_at := Some now\<rparr>) (badges (db w)))"
    by (rule badges_evolve_update) (simp add: badge_evolves_def)
  then show ?case
    by (auto simp: increment_badge_creation_count_def Let_def dest!: create_notification_badges split: option.split sum.split)
next
  case (duplicate w now new_id ids org bid)
  then show ?case
    by (auto simp: duplicate_badge_def Let_def dest!: badges_evolve_insert insert_hashtags_badges split: option.split sum.split)
next
  case (edit w now ids org bid upd tags flag)
  have "badges_evolve (badges (db w)) (badges d)" if "save_badge now bid (apply_updates u) (db w) = Inr d" for u d
    using that by (rule badges_evolve_save) (simp add: badge_evolves_def apply_updates_def)
  then show ?case
    by (auto simp: edit_badge_def simp del: insert_hashtags.simps dest!: insert_hashtags_badges split: option.split sum.split)
next
  case (delete w now org bid)
  have "badges_evolve (badges (db w)) (badges d)"
    if "save_badge now bid (\<lambda>b. b\<lparr>b_deleted_at := Some now, b_is_published := False, b_published_at := None\<rparr>) (db w) = Inr d" for d
    using that by (rule badges_evolve_save) (simp add: badge_evolves_def)
  then show ?case
    by (auto simp: delete_badge_def Let_def split: option.split sum.split list.split)
qed

lemma badge_run_wf: "badge_run e w w' \<Longrightarrow> db_wf (db w) \<Longrightarrow> db_wf (db w')"
  by (induction rule: badge_run.induct) (auto dest: badge_step_wf)

lemma badge_run_evolves: "badge_run e w w' \<Longrightarrow> badges_evolve (badges (db w)) (badges (db w'))"
  by (induction rule: badge_run.induct) (auto dest: badge_step_evolves badges_evolve_trans)

section \<open>A concrete database\<close>

definition demo_template :: platform_template where
  "demo_template = \<lparr>pt_id = 2, pt_title = ''Hackathon'', pt_category = ''hackathons'', pt_canvas_data = None,
     pt_thumbnail_url = None, pt_is_active = True, pt_total_badges_made = 1, pt_created_at = None, pt_updated_at = None\<rparr>"

definition demo_badge :: badge where
  "demo_badge = (new_badge 0 3 1 2 ''Hackathon'' (JObj []))\<lparr>b_is_published := True, b_published_at := Some 0,
     b_share_slug := Some ''slug''\<rparr>"

definition demo_draft :: badge where
  "demo_draft = new_badge 0 4 1 2 ''Draft'' (JObj [])"

definition demo_badges :: database where
  "demo_badges = demo_db\<lparr>platform_templates := [demo_template], badges := [demo_badge, demo_draft],
     badge_hashtags := [\<lparr>bh_id = 11, bh_badge_id = 3, bh_hashtag = ''fun''\<rparr>]\<rparr>"

lemma new_badge_simps [simp]:
  "b_id (new_badge now bid org t ti ca) = bid" "b_organiser_id (new_badge now bid org t ti ca) = org"
  "b_platform_template_id (new_badge now bid org t ti ca) = t" "b_deleted_at (new_badge now bid org t ti ca) = None"
  "b_share_slug (new_badge now bid org t ti ca) = None" "b_is_published (new_badge now bid org t ti ca) = False"
  "b_title (new_badge now bid org t ti ca) = ti" "b_canvas_data (new_badge now bid org t ti ca) = ca"
  by (simp_all add: new_badge_def)

lemma demo_badges_simps [simp]:
  "badges demo_badges = [demo_badge, demo_draft]" "users demo_badges = [demo_user]"
  "platform_templates demo_badges = [demo_template]"
  "badge_hashtags demo_badges = [\<lparr>bh_id = 11, bh_badge_id = 3, bh_hashtag = ''fun''\<rparr>]"
  "b_id demo_badge = 3" "b_organiser_id demo_badge = 1" "b_deleted_at demo_badge = None"
  "b_share_slug demo_badge = Some ''slug''" "b_is_published demo_badge"
  "b_id demo_draft = 4" "b_organiser_id demo_draft = 1" "b_deleted_at demo_draft = None"
  "b_share_slug demo_draft = None" "\<not> b_is_published demo_draft"
  by (simp_all add: demo_badges_def demo_db_def demo_badge_def demo_draft_def)

lemma demo_badges_wf: "db_wf demo_badges"
  using demo_db_wf
  by (simp add: demo_badges_def db_wf_def badges_ok_def hashtags_ok_def templates_ok_def unique_on_def demo_badge_def
      demo_draft_def badge_row_ok_def access_ok_def new_badge_def user_ids_def badge_ids_def template_ids_def
      demo_db_def demo_user_def demo_template_def)

section \<open>The properties\<close>

text \<open>C15. Requests on a badge of somebody else, on a deleted badge and on one that does not exist
  are refused and change nothing: no row, no asset, no counter.\<close>

theorem foreign_badge_untouched:
  assumes "\<forall>b\<in>set (badges (db w)). b_id b = bid \<and> b_deleted_at b = None \<longrightarrow> b_organiser_id b \<noteq> org"
  shows "refused (publish_badge now choice org bid w) w \<and> refused (unpublish_badge now org bid w) w
    \<and> refused (upload_badge_logo e now u bid org img w) w \<and> refused (duplicate_badge now new_id ids org bid w) w
    \<and> refused (edit_badge now ids org bid upd tags flag w) w \<and> refused (delete_badge e now org bid w) w
    \<and> refused (get_badge_by_id org bid (db w), w) w"
proof -
  have "refused (unpublish_badge now org bid w) w"
    using assms by (auto simp: refused_def unpublish_badge_def dest: find_set split: option.split)
  then show ?thesis
    using publish.not_owner_refused [OF assms] upload.not_owner_refused [OF assms] duplicate.not_owner_refused [OF assms]
      edit.not_owner_refused [OF assms] delete.not_owner_refused [OF assms] detail.not_owner_refused [OF assms]
    by (simp only: simp_thms)
qed

theorem foreign_badge_untouched_witness:
  "refused (publish_badge 5 (\<lambda>i. 0) 99 3 (demo_world demo_badges)) (demo_world demo_badges)"
proof -
  have "\<forall>b\<in>set (badges (db (demo_world demo_badges))). b_id b = 3 \<and> b_deleted_at b = None \<longrightarrow> b_organiser_id b \<noteq> 99"
    by simp
  from foreign_badge_untouched [OF this] show ?thesis by simp
qed
end
