(* ===== verification/Badge_Claims.thy ===== *)
theory Badge_Claims
  imports Badge_Facts "HOL-Library.Multiset"
begin

text \<open>
  The properties of badges over time and of their single operations: share links and counters,
  deletion, publishing, editing, copying, the gallery and the analytics.
\<close>

lemma orm_badge_fields [simp]:
  "b_deleted_at (orm_badge now f b) = b_deleted_at (f b)" "b_is_published (orm_badge now f b) = b_is_published (f b)"
  "b_published_at (orm_badge now f b) = b_published_at (f b)" "b_title (orm_badge now f b) = b_title (f b)"
  "b_share_count (orm_badge now f b) = b_share_count (f b)" "b_creation_count (orm_badge now f b) = b_creation_count (f b)"
  "b_access_type (orm_badge now f b) = b_access_type (f b)" "b_access_code (orm_badge now f b) = b_access_code (f b)"
  "b_canvas_data (orm_badge now f b) = b_canvas_data (f b)"
  by (simp_all add: orm_badge_def Let_def)

section \<open>Over any sequence of requests\<close>

lemma slug_unique:
  assumes "db_wf d" "x \<in> set (badges d)" "y \<in> set (badges d)" "b_share_slug x = Some s" "b_share_slug y = Some s"
  shows "x = y"
  using assms unique_onD [of b_share_slug "filter (\<lambda>b. b_share_slug b \<noteq> None) (badges d)" x y]
  by (simp add: db_wf_def badges_ok_def)

lemma public_Inr:
  assumes "get_public_badge_by_slug s d = Inr x"
  shows "x \<in> set (badges d)" "b_share_slug x = Some s" "b_is_published x" "b_deleted_at x = None"
  using assms by (auto simp: get_public_badge_by_slug_def public_where_def dest: find_set split: option.splits)

lemma public_iff:
  assumes "db_wf d"
  shows "get_public_badge_by_slug s d = Inr x \<longleftrightarrow>
    x \<in> set (badges d) \<and> b_share_slug x = Some s \<and> b_is_published x \<and> b_deleted_at x = None"
proof
  assume x: "x \<in> set (badges d) \<and> b_share_slug x = Some s \<and> b_is_published x \<and> b_deleted_at x = None"
  then have "find (public_where s) (badges d) \<noteq> None" unfolding find_none_iff by (auto simp: public_where_def)
  then obtain y where y: "get_public_badge_by_slug s d = Inr y"
    by (auto simp: get_public_badge_by_slug_def)
  then have "y = x" using x public_Inr [OF y] slug_unique [OF assms] by blast
  then show "get_public_badge_by_slug s d = Inr x" using y by simp
qed (use public_Inr in blast)

text \<open>A share link is for ever: once a badge has its slug, no sequence of requests changes the slug
  or the owner of the badge, removes its row or lowers its counters, and the public page of that slug
  never shows another badge.\<close>

theorem share_link_permanent:
  assumes "db_wf (db w)" "b \<in> set (badges (db w))" "b_share_slug b = Some (c # s)" "badge_run e w w'"
  shows "(\<exists>b'\<in>set (badges (db w')). b_id b' = b_id b \<and> b_organiser_id b' = b_organiser_id b
      \<and> b_share_slug b' = Some (c # s) \<and> b_share_count b \<le> b_share_count b' \<and> b_creation_count b \<le> b_creation_count b')
    \<and> (\<forall>x. get_public_badge_by_slug (c # s) (db w') = Inr x \<longrightarrow> b_id x = b_id b)"
proof -
  obtain b' where b': "b' \<in> set (badges (db w'))" "badge_evolves b b'"
    using badge_run_evolves [OF assms(4)] assms(2) by (auto simp: badges_evolve_def)
  then have slug: "b_share_slug b' = Some (c # s)" using assms(3) by (simp add: badge_evolves_def)
  have "b_id x = b_id b" if "get_public_badge_by_slug (c # s) (db w') = Inr x" for x
    using slug_unique [OF badge_run_wf [OF assms(4,1)] public_Inr(1) [OF that] b'(1) public_Inr(2) [OF that] slug] b'(2)
    by (simp add: badge_evolves_def)
  moreover have "b_id b' = b_id b \<and> b_organiser_id b' = b_organiser_id b \<and> b_share_slug b' = Some (c # s)
      \<and> b_share_count b \<le> b_share_count b' \<and> b_creation_count b \<le> b_creation_count b'"
    using b'(2) slug by (simp add: badge_evolves_def)
  ultimately show ?thesis using b'(1) by blast
qed

theorem share_link_permanent_witness:
  "\<exists>b'\<in>set (badges (db (snd (delete_badge demo_env 5 1 3 (demo_world demo_badges))))). b_share_slug b' = Some ''slug''"
proof -
  let ?w = "demo_world demo_badges"
  have "badge_run demo_env ?w (snd (delete_badge demo_env 5 1 3 ?w))"
    by (rule badge_run.more [OF badge_run.start badge_step.delete])
  then show ?thesis
    using share_link_permanent [of ?w demo_badge "CHR ''s''" "''lug''" demo_env] demo_badges_wf by auto
qed

text \<open>A deleted badge stays deleted: after the deletion, whatever is requested, its owner finds it no
  more, no operation on it is accepted, and no share link shows it.\<close>

theorem deleted_badge_gone:
  assumes "db_wf (db w)" "delete_badge e now org bid w = (Inr (), w1)" "badge_run e w1 w2"
  shows "refused (get_badge_by_id o2 bid (db w2), w2) w2 \<and> refused (publish_badge n2 choice o2 bid w2) w2
    \<and> refused (edit_badge n2 ids o2 bid upd tags flag w2) w2 \<and> refused (duplicate_badge n2 new_id ids o2 bid w2) w2
    \<and> (\<forall>slug b. get_public_badge_by_slug slug (db w2) = Inr b \<longrightarrow> b_id b \<noteq> bid)"
proof -
  obtain b where b: "live_badge bid (db w) = Some b" using delete.success_owner [OF assms(2)] by blast
  have w1: "save_badge now bid (\<lambda>b. b\<lparr>b_deleted_at := Some now, b_is_published := False, b_published_at := None\<rparr>) (db w) = Inr (db w1)"
    using assms(2) b by (auto simp: delete_badge_def Let_def split: if_splits sum.splits option.splits list.splits)
  have in_w: "b \<in> set (badges (db w))" "b_id b = bid" using b live_badge_iff [OF assms(1)] by auto
  then have "orm_badge now (\<lambda>b. b\<lparr>b_deleted_at := Some now, b_is_published := False, b_published_at := None\<rparr>) b \<in> set (badges (db w1))"
    (is "?b1 \<in> _") using w1 by (auto simp: save_badge_def Let_def set_update_where)
  then obtain b2 where b2': "b2 \<in> set (badges (db w2))" "badge_evolves ?b1 b2"
    using badge_run_evolves [OF assms(3)] unfolding badges_evolve_def by blast
  then have b2: "b2 \<in> set (badges (db w2))" "b_id b2 = bid" "b_deleted_at b2 \<noteq> None"
    using in_w by (simp_all add: badge_evolves_def)
  have "db_wf (db w1)" using delete_badge_wf [OF assms(1), of e now org bid] assms(2) by simp
  then have wf2: "db_wf (db w2)" by (rule badge_run_wf [OF assms(3)])
  have dead: "b_deleted_at x \<noteq> None" if "x \<in> set (badges (db w2))" "b_id x = bid" for x
    using wf_badge_unique [OF wf2 that(1) b2(1)] that b2 by auto
  then have none: "\<forall>b\<in>set (badges (db w2)). b_id b = bid \<and> b_deleted_at b = None \<longrightarrow> b_organiser_id b \<noteq> o2"
    by blast
  have "b_id x \<noteq> bid" if "get_public_badge_by_slug slug (db w2) = Inr x" for slug x
    using dead [OF public_Inr(1) [OF that]] public_Inr(4) [OF that] by blast
  then show ?thesis
    using detail.not_owner_refused [OF none] publish.not_owner_refused [OF none] edit.not_owner_refused [OF none]
      duplicate.not_owner_refused [OF none] by simp
qed

theorem deleted_badge_gone_witness:
  "refused (get_badge_by_id 1 3 (db (snd (delete_badge demo_env 5 1 3 (demo_world demo_badges)))),
     snd (delete_badge demo_env 5 1 3 (demo_world demo_badges))) (snd (delete_badge demo_env 5 1 3 (demo_world demo_badges)))"
proof -
  let ?w = "demo_world demo_badges"
  have "fst (delete_badge demo_env 5 1 3 ?w) = Inr ()"
    by (simp add: delete_badge_def live_badge_def save_badge_def Let_def update_where_def orm_badge_def
        demo_badge_def demo_draft_def new_badge_def checked_def badge_fits_def fits_def fits_opt_def slug_free_def)
  then have "delete_badge demo_env 5 1 3 ?w = (Inr (), snd (delete_badge demo_env 5 1 3 ?w))" by (metis prod.collapse)
  from deleted_badge_gone [OF _ this badge_run.start] show ?thesis using demo_badges_wf by simp
qed

section \<open>Publishing\<close>

text \<open>The row of a badge after a change of it.\<close>

lemma save_badge_row:
  assumes "db_wf d" "live_badge bid d = Some b" "save_badge now bid f d = Inr d'" "b_id (f b) = b_id b"
  shows "badge_row bid d' = orm_badge now f b" "badge_row bid d' \<in> set (badges d')"
    "\<forall>x\<in>set (badges d). b_id x \<noteq> bid \<longrightarrow> x \<in> set (badges d')"
proof -
  have b: "b \<in> set (badges d)" "b_id b = bid" using assms(2) live_badge_iff [OF assms(1)] by auto
  have d': "badges d' = update_where (\<lambda>b. b_id b = bid) (orm_badge now f) (badges d)"
    using assms(3) by (simp add: save_badge_def Let_def)
  have m: "orm_badge now f b \<in> set (badges d')" using b by (auto simp: d' set_update_where)
  have only: "x = orm_badge now f b" if "x \<in> set (badges d')" "b_id x = bid" for x
    using that b wf_badge_unique [OF assms(1)] by (fastforce simp: d' set_update_where split: if_splits)
  have "orm_badge now f b \<in> set (filter (\<lambda>b. b_id b = bid) (badges d'))" using m b assms(4) by simp
  then have "badge_row bid d' \<in> set (filter (\<lambda>b. b_id b = bid) (badges d'))"
    unfolding badge_row_def by (metis empty_iff hd_in_set list.set(1))
  then show "badge_row bid d' = orm_badge now f b" using only by simp
  then show "badge_row bid d' \<in> set (badges d')" using m by simp
  show "\<forall>x\<in>set (badges d). b_id x \<noteq> bid \<longrightarrow> x \<in> set (badges d')" by (auto simp: d' set_update_where)
qed

lemma find_badge:
  assumes "db_wf d" "b \<in> set (badges d)"
  shows "find (\<lambda>x. b_id x = b_id b) (badges d) = Some b"
  using assms find_unique [of b_id "badges d" b] by (simp add: db_wf_def badges_ok_def)

text \<open>A change that keeps the slug and fits the columns is accepted.\<close>

lemma save_badge_accepted:
  assumes "db_wf d" "b \<in> set (badges d)" "badge_fits (orm_badge now f b)"
    "\<And>b. b_id (f b) = b_id b" "\<And>b. b_share_slug (f b) = b_share_slug b"
  shows "\<exists>d'. save_badge now (b_id b) f d = Inr d'"
proof -
  let ?bs = "update_where (\<lambda>x. b_id x = b_id b) (orm_badge now f) (badges d)"
  have only: "x = orm_badge now f b" if x: "x \<in> set ?bs" "b_id x = b_id b" for x
  proof -
    obtain r where r: "r \<in> set (badges d)" "x = (if b_id r = b_id b then orm_badge now f r else r)"
      using x(1) unfolding set_update_where by blast
    with x(2) assms(4) have "b_id r = b_id b" by (simp split: if_splits)
    with r show ?thesis using wf_badge_unique [OF assms(1) r(1) assms(2)] by simp
  qed
  have "slug_free x ?bs" if x: "x \<in> set ?bs" "b_id x = b_id b" for x
  proof -
    have "b_share_slug y \<noteq> b_share_slug x" if "y \<in> set ?bs" "b_id y \<noteq> b_id x" "b_share_slug x \<noteq> None" for y
    proof -
      have y: "y \<in> set (badges d)" using that(1,2) x(2) by (auto simp: set_update_where assms(4) split: if_splits)
      have "b_share_slug x = b_share_slug b" using only [OF x] assms(5) by simp
      then show ?thesis using slug_unique [OF assms(1) y assms(2)] that(2,3) x(2) by auto
    qed
    then show ?thesis unfolding slug_free_def by blast
  qed
  then show ?thesis using only assms(3) by (auto simp: save_badge_def Let_def checked_def)
qed

lemma unpublish_accepted:
  assumes "db_wf (db w)" "b \<in> set (badges (db w))" "b_deleted_at b = None" "badge_fits b"
  obtains d' where
    "save_badge now (b_id b) (\<lambda>b. b\<lparr>b_is_published := False, b_published_at := None\<rparr>) (db w) = Inr d'"
    "unpublish_badge now (b_organiser_id b) (b_id b) w = (Inr (badge_row (b_id b) d'), w\<lparr>db := d'\<rparr>)"
proof -
  have "badge_fits (orm_badge now (\<lambda>b. b\<lparr>b_is_published := False, b_published_at := None\<rparr>) b)"
    using assms(4) by (simp add: orm_badge_def Let_def badge_fits_def)
  then obtain d' where "save_badge now (b_id b) (\<lambda>b. b\<lparr>b_is_published := False, b_published_at := None\<rparr>) (db w) = Inr d'"
    using save_badge_accepted [OF assms(1,2), of now "\<lambda>b. b\<lparr>b_is_published := False, b_published_at := None\<rparr>"] by auto
  then show ?thesis using that find_badge [OF assms(1,2)] assms(3) by (simp add: unpublish_badge_def)
qed

lemma unpublished_not_public:
  assumes "db_wf (db w)" "b \<in> set (badges (db w))" "b_deleted_at b = None" "badge_fits b" "b_share_slug b = Some s"
  shows "get_public_badge_by_slug s (db (snd (unpublish_badge now (b_organiser_id b) (b_id b) w))) = Inl PublicBadgeNotFoundError"
proof -
  let ?f = "\<lambda>b. b\<lparr>b_is_published := False, b_published_at := None\<rparr>"
  obtain d' where d': "save_badge now (b_id b) ?f (db w) = Inr d'"
    "unpublish_badge now (b_organiser_id b) (b_id b) w = (Inr (badge_row (b_id b) d'), w\<lparr>db := d'\<rparr>)"
    using unpublish_accepted [OF assms(1-4)] by blast
  have wf': "db_wf d'" using unpublish_wf [OF assms(1), of now "b_organiser_id b" "b_id b"] d'(2) by simp
  have "live_badge (b_id b) (db w) = Some b" using live_badge_iff [OF assms(1)] assms(2,3) by blast
  from save_badge_row [OF assms(1) this d'(1)] have r: "orm_badge now ?f b \<in> set (badges d')" by simp
  have "find (public_where s) (badges d') = None"
    unfolding find_none_iff
  proof
    fix x
    assume "x \<in> set (badges d')"
    then have "b_share_slug x = Some s \<Longrightarrow> x = orm_badge now ?f b"
      using slug_unique [OF wf' _ r] assms(5) by simp
    then show "\<not> public_where s x" by (auto simp: public_where_def)
  qed
  then show ?thesis using d'(2) by (simp add: get_public_badge_by_slug_def)
qed

text \<open>C19. Publishing makes the badge public under its slug: the slug it had before, or a new one of
  twelve letters and digits; the public page of that slug shows exactly the row returned, and taking the
  badge back makes that page unavailable.\<close>

theorem publish_then_public:
  assumes "db_wf (db w)" "publish_badge now choice org bid w = (Inr b, w')"
  shows "\<exists>s. b_id b = bid \<and> b_organiser_id b = org \<and> b_share_slug b = Some s \<and> b_published_at b = Some now
    \<and> get_public_badge_by_slug s (db w') = Inr b
    \<and> ((\<exists>b0\<in>set (badges (db w)). b_id b0 = bid \<and> b_share_slug b0 = Some s) \<or> (length s = 12 \<and> set s \<subseteq> set SLUG_ALPHABET))
    \<and> get_public_badge_by_slug s (db (snd (unpublish_badge t2 org bid w'))) = Inl PublicBadgeNotFoundError"
proof -
  obtain b0 where b0: "live_badge bid (db w) = Some b0" "b_organiser_id b0 = org"
    using publish.success_owner [OF assms(2)] by blast
  then have d': "save_badge now bid (publish_row now choice) (db w) = Inr (db w')" "b = badge_row bid (db w')"
    using assms(2) by (auto simp: publish_badge_def split: if_splits sum.splits)
  have in0: "b0 \<in> set (badges (db w))" "b_id b0 = bid" "b_deleted_at b0 = None"
    using b0(1) live_badge_iff [OF assms(1)] by auto
  have row: "b = orm_badge now (publish_row now choice) b0" "b \<in> set (badges (db w'))"
    using save_badge_row [OF assms(1) b0(1) d'(1)] d'(2) by simp_all
  have wf': "db_wf (db w')" using publish_wf [OF assms(1), of now choice org bid] assms(2) by simp
  have fits: "badge_fits b" using d'(1) row in0 by (auto simp: save_badge_def Let_def)
  have id: "b_id b = bid" "b_organiser_id b = org" "b_deleted_at b = None" "b_is_published b" "b_published_at b = Some now"
    using in0 b0 row by (simp_all add: publish_row_def)
  define s where "s = (case b_share_slug b0 of Some (c # r) \<Rightarrow> c # r | _ \<Rightarrow> generate_share_slug choice SLUG_LENGTH)"
  have slug: "b_share_slug b = Some s"
    using row(1) by (auto simp: s_def publish_row_def split: option.split list.split)
  have "b_share_slug b0 = Some s \<or> (length s = 12 \<and> set s \<subseteq> set SLUG_ALPHABET)"
    using generate_share_slug_alphabet [of choice SLUG_LENGTH]
    by (auto simp: s_def SLUG_LENGTH_def split: option.split list.split)
  moreover have "get_public_badge_by_slug s (db w') = Inr b" using public_iff [OF wf'] row(2) slug id by blast
  moreover have "get_public_badge_by_slug s (db (snd (unpublish_badge t2 org bid w'))) = Inl PublicBadgeNotFoundError"
    using unpublished_not_public [OF wf' row(2) id(3) fits slug, of t2] id(1,2) by simp
  ultimately show ?thesis using id slug in0 by blast
qed

lemma demo_publish:
  "\<exists>b w'. publish_badge 5 (\<lambda>i. 0) 1 4 (demo_world demo_badges) = (Inr b, w')"
proof -
  have "\<exists>d. save_badge 5 4 (publish_row 5 (\<lambda>i. 0)) demo_badges = Inr d"
    by (simp add: save_badge_def Let_def update_where_def orm_badge_def publish_row_def demo_badge_def demo_draft_def
        new_badge_def checked_def badge_fits_def fits_def fits_opt_def slug_free_def SLUG_LENGTH_def
        generate_share_slug_def SLUG_ALPHABET_def upt_rec)
  then show ?thesis by (auto simp: publish_badge_def live_badge_def)
qed

theorem publish_then_public_witness:
  "\<exists>s b. get_public_badge_by_slug s (db (snd (publish_badge 5 (\<lambda>i. 0) 1 4 (demo_world demo_badges)))) = Inr b"
proof -
  obtain b w' where p: "publish_badge 5 (\<lambda>i. 0) 1 4 (demo_world demo_badges) = (Inr b, w')" using demo_publish by blast
  from publish_then_public [OF _ p, of 0] show ?thesis using demo_badges_wf p by (metis demo_world_simps(1) snd_conv)
qed

section \<open>Editing and copying\<close>

lemma insert_hashtags_rows:
  "insert_hashtags ids i bid tags d = Inr d' \<Longrightarrow>
   \<exists>hs. badge_hashtags d' = badge_hashtags d @ hs \<and> map bh_hashtag hs = tags \<and> (\<forall>h\<in>set hs. bh_badge_id h = bid)"
proof (induction tags arbitrary: i d)
  case (Cons tag tags)
  then obtain d1 where d1: "insert_hashtag \<lparr>bh_id = ids i, bh_badge_id = bid, bh_hashtag = tag\<rparr> d = Inr d1"
    "insert_hashtags ids (Suc i) bid tags d1 = Inr d'" by (auto split: sum.splits)
  from Cons.IH [OF d1(2)] obtain hs where hs: "badge_hashtags d' = badge_hashtags d1 @ hs" "map bh_hashtag hs = tags"
    "\<forall>h\<in>set hs. bh_badge_id h = bid" by blast
  moreover have "badge_hashtags d1 = badge_hashtags d @ [\<lparr>bh_id = ids i, bh_badge_id = bid, bh_hashtag = tag\<rparr>]"
    using d1(1) by (auto simp: insert_hashtag_def)
  ultimately show ?case
    by (intro exI [of _ "\<lparr>bh_id = ids i, bh_badge_id = bid, bh_hashtag = tag\<rparr> # hs"]) simp
qed simp

lemma insert_hashtags_tags:
  assumes "insert_hashtags ids i bid tags d = Inr d'"
  shows "badge_tags bid d' = badge_tags bid d @ tags" "x \<noteq> bid \<Longrightarrow> badge_tags x d' = badge_tags x d"
proof -
  obtain hs where hs: "badge_hashtags d' = badge_hashtags d @ hs" "map bh_hashtag hs = tags" "\<forall>h\<in>set hs. bh_badge_id h = bid"
    using insert_hashtags_rows [OF assms] by blast
  then have "filter (\<lambda>h. bh_badge_id h = bid) hs = hs" "x \<noteq> bid \<Longrightarrow> filter (\<lambda>h. bh_badge_id h = x) hs = []"
    by (auto simp: filter_id_conv filter_empty_conv)
  then show "badge_tags bid d' = badge_tags bid d @ tags" "x \<noteq> bid \<Longrightarrow> badge_tags x d' = badge_tags x d"
    using hs by (simp_all add: badge_tags_def)
qed

lemma save_badge_hashtags: "save_badge now bid f d = Inr d' \<Longrightarrow> badge_hashtags d' = badge_hashtags d"
  by (auto simp: save_badge_def Let_def)

text \<open>The row after a change, among the others.\<close>

lemma save_badge_set:
  assumes "db_wf d" "live_badge bid d = Some b" "save_badge now bid f d = Inr d'"
  shows "set (badges d') = insert (orm_badge now f b) (set (badges d) - {b})" "d' = d\<lparr>badges := badges d'\<rparr>"
proof -
  have b: "b \<in> set (badges d)" "b_id b = bid" using assms(2) live_badge_iff [OF assms(1)] by auto
  have only: "b_id x = bid \<longleftrightarrow> x = b" if "x \<in> set (badges d)" for x
    using wf_badge_unique [OF assms(1) that b(1)] b(2) by auto
  have "badges d' = update_where (\<lambda>b. b_id b = bid) (orm_badge now f) (badges d)"
    using assms(3) by (simp add: save_badge_def Let_def)
  then have "set (badges d') = (\<lambda>x. if x = b then orm_badge now f b else x) ` set (badges d)"
    using only by (auto simp: update_where_def image_iff)
  then show "set (badges d') = insert (orm_badge now f b) (set (badges d) - {b})" using b(1) by auto
  show "d' = d\<lparr>badges := badges d'\<rparr>" using assms(3) by (auto simp: save_badge_def Let_def)
qed

lemma insert_hashtags_only: "insert_hashtags ids i bid tags d = Inr d' \<Longrightarrow> d' = d\<lparr>badge_hashtags := badge_hashtags d'\<rparr>"
proof (induction tags arbitrary: i d)
  case (Cons tag tags)
  let ?h = "\<lparr>bh_id = ids i, bh_badge_id = bid, bh_hashtag = tag\<rparr>"
  from Cons.prems obtain d1 where d1: "insert_hashtag ?h d = Inr d1" "insert_hashtags ids (Suc i) bid tags d1 = Inr d'"
    by (auto split: sum.splits)
  then have "d1 = d\<lparr>badge_hashtags := badge_hashtags d @ [?h]\<rparr>" by (auto simp: insert_hashtag_def)
  with Cons.IH [OF d1(2)] show ?case by simp
qed simp

text \<open>What the check leaves in the request: the type is a valid one, and the code is decided by the type.\<close>

lemma check_access_result:
  assumes "check_access b upd = Inr u"
  shows "bu_title u = bu_title upd" "bu_canvas_data u = bu_canvas_data upd" "bu_default_caption u = bu_default_caption upd"
    "bu_destination_link u = bu_destination_link upd" "bu_thumbnail_url u = bu_thumbnail_url upd" "bu_access_type u = bu_access_type upd"
    and "bu_access_type upd \<noteq> Some None"
    and "bu_access_code u = (if bu_access_type upd = None \<and> bu_access_code upd = None then None
      else if or_else (bu_access_type upd) (Some (b_access_type b)) = Some 1
        then Some (or_else (bu_access_code upd) (b_access_code b)) else Some None)"
  using assms by (auto simp: check_access_def or_else_def Let_def split: option.splits if_splits)

lemma orm_badge_columns:
  "b_title (orm_badge now f b) = b_title (f b)" "b_canvas_data (orm_badge now f b) = b_canvas_data (f b)"
  "b_default_caption (orm_badge now f b) = b_default_caption (f b)" "b_destination_link (orm_badge now f b) = b_destination_link (f b)"
  "b_thumbnail_url (orm_badge now f b) = b_thumbnail_url (f b)" "b_access_type (orm_badge now f b) = b_access_type (f b)"
  "b_access_code (orm_badge now f b) = b_access_code (f b)"
  by (simp_all add: orm_badge_def Let_def)

lemma edited_row:
  assumes "check_access b upd = Inr u" "bu_title u \<noteq> Some None" "b' = orm_badge now (apply_updates u) b"
  shows "Some (b_title b') = or_else (bu_title upd) (Some (b_title b))"
    and "b_canvas_data b' = or_else (map_option (\<lambda>j. or_else j JNull) (bu_canvas_data upd)) (b_canvas_data b)"
    and "b_default_caption b' = or_else (bu_default_caption upd) (b_default_caption b)"
    and "b_destination_link b' = or_else (bu_destination_link upd) (b_destination_link b)"
    and "b_thumbnail_url b' = or_else (bu_thumbnail_url upd) (b_thumbnail_url b)"
    and "Some (b_access_type b') = or_else (bu_access_type upd) (Some (b_access_type b))"
    and "b_access_code b' = (if bu_access_type upd = None \<and> bu_access_code upd = None then b_access_code b
      else if b_access_type b' = 1 then or_else (bu_access_code upd) (b_access_code b) else None)"
    and "b' = b\<lparr>b_title := b_title b', b_canvas_data := b_canvas_data b', b_default_caption := b_default_caption b',
      b_destination_link := b_destination_link b', b_thumbnail_url := b_thumbnail_url b',
      b_access_type := b_access_type b', b_access_code := b_access_code b', b_updated_at := b_updated_at b'\<rparr>"
    and "b' = b \<or> b_updated_at b' = Some now"
proof -
  note r = check_access_result [OF assms(1)]
  have fields: "b_title b' = (case bu_title u of Some (Some t) \<Rightarrow> t | _ \<Rightarrow> b_title b)"
    "b_canvas_data b' = (case bu_canvas_data u of None \<Rightarrow> b_canvas_data b | Some None \<Rightarrow> JNull | Some (Some j) \<Rightarrow> j)"
    "b_default_caption b' = (case bu_default_caption u of None \<Rightarrow> b_default_caption b | Some v \<Rightarrow> v)"
    "b_destination_link b' = (case bu_destination_link u of None \<Rightarrow> b_destination_link b | Some v \<Rightarrow> v)"
    "b_thumbnail_url b' = (case bu_thumbnail_url u of None \<Rightarrow> b_thumbnail_url b | Some v \<Rightarrow> v)"
    "b_access_type b' = (case bu_access_type u of Some (Some t) \<Rightarrow> t | _ \<Rightarrow> b_access_type b)"
    "b_access_code b' = (case bu_access_code u of None \<Rightarrow> b_access_code b | Some v \<Rightarrow> v)"
    unfolding assms(3) orm_badge_columns by (simp_all add: apply_updates_def)
  show "Some (b_title b') = or_else (bu_title upd) (Some (b_title b))"
    using assms(2) unfolding fields r by (auto simp: or_else_def split: option.split)
  show "b_canvas_data b' = or_else (map_option (\<lambda>j. or_else j JNull) (bu_canvas_data upd)) (b_canvas_data b)"
    unfolding fields r by (simp add: or_else_def split: option.split)
  show "b_default_caption b' = or_else (bu_default_caption upd) (b_default_caption b)"
    "b_destination_link b' = or_else (bu_destination_link upd) (b_destination_link b)"
    "b_thumbnail_url b' = or_else (bu_thumbnail_url upd) (b_thumbnail_url b)"
    unfolding fields r by (simp_all add: or_else_def)
  show type: "Some (b_access_type b') = or_else (bu_access_type upd) (Some (b_access_type b))"
    using r(7) unfolding fields r by (auto simp: or_else_def split: option.split)
  show "b_access_code b' = (if bu_access_type upd = None \<and> bu_access_code upd = None then b_access_code b
      else if b_access_type b' = 1 then or_else (bu_access_code upd) (b_access_code b) else None)"
    using r(8) unfolding type [symmetric] fields(7) by simp
  show "b' = b\<lparr>b_title := b_title b', b_canvas_data := b_canvas_data b', b_default_caption := b_default_caption b',
      b_destination_link := b_destination_link b', b_thumbnail_url := b_thumbnail_url b',
      b_access_type := b_access_type b', b_access_code := b_access_code b', b_updated_at := b_updated_at b'\<rparr>"
    unfolding assms(3) orm_badge_def Let_def by (cases b) (simp add: apply_updates_def)
  show "b' = b \<or> b_updated_at b' = Some now" by (simp add: assms(3) orm_badge_def Let_def)
qed

text \<open>C20. A successful edit gives the badge the title, the canvas, the caption, the link, the thumbnail and the access type of the
  request where it has them and keeps each that it does not have; a public badge has no code then, and a private one the code of the
  request or its old one; nothing else of the row changes but the time of the change.  The hashtags are replaced exactly when the
  request has them.  The hashtags of other badges, the other badges and the rest of the world stay as they are.\<close>

theorem edit_badge_effect:
  assumes "db_wf (db w)" "edit_badge now ids org bid upd tags flag w = (Inr b', w')"
  shows "\<exists>b. live_badge bid (db w) = Some b \<and> b_organiser_id b = org \<and> live_badge bid (db w') = Some b'
    \<and> Some (b_title b') = or_else (bu_title upd) (Some (b_title b))
    \<and> b_canvas_data b' = or_else (map_option (\<lambda>j. or_else j JNull) (bu_canvas_data upd)) (b_canvas_data b)
    \<and> b_default_caption b' = or_else (bu_default_caption upd) (b_default_caption b)
    \<and> b_destination_link b' = or_else (bu_destination_link upd) (b_destination_link b)
    \<and> b_thumbnail_url b' = or_else (bu_thumbnail_url upd) (b_thumbnail_url b)
    \<and> Some (b_access_type b') = or_else (bu_access_type upd) (Some (b_access_type b))
    \<and> b_access_code b' = (if bu_access_type upd = None \<and> bu_access_code upd = None then b_access_code b
        else if b_access_type b' = 1 then or_else (bu_access_code upd) (b_access_code b) else None)
    \<and> access_ok (b_access_type b') (b_access_code b')
    \<and> b' = b\<lparr>b_title := b_title b', b_canvas_data := b_canvas_data b', b_default_caption := b_default_caption b',
        b_destination_link := b_destination_link b', b_thumbnail_url := b_thumbnail_url b',
        b_access_type := b_access_type b', b_access_code := b_access_code b', b_updated_at := b_updated_at b'\<rparr>
    \<and> (b' = b \<or> b_updated_at b' = Some now)
    \<and> badge_tags bid (db w') = (if flag then or_else tags [] else badge_tags bid (db w))
    \<and> (\<forall>x. x \<noteq> bid \<longrightarrow> badge_tags x (db w') = badge_tags x (db w))
    \<and> set (badges (db w')) = insert b' (set (badges (db w)) - {b})
    \<and> w' = w\<lparr>db := (db w)\<lparr>badges := badges (db w'), badge_hashtags := badge_hashtags (db w')\<rparr>\<rparr>"
proof -
  obtain b where b: "live_badge bid (db w) = Some b" "b_organiser_id b = org"
    using edit.success_owner [OF assms(2)] by blast
  obtain u where u: "check_access b upd = Inr u" "bu_title u \<noteq> Some None"
    using assms(2) b by (auto simp: edit_badge_def split: sum.splits if_splits)
  obtain d1 where d1: "save_badge now bid (apply_updates u) (db w) = Inr d1"
    using assms(2) b u by (auto simp: edit_badge_def split: if_splits sum.splits)
  let ?d2 = "d1\<lparr>badge_hashtags := delete_where (\<lambda>h. bh_badge_id h = bid) (badge_hashtags d1)\<rparr>"
  have t: "b' = badge_row bid d1 \<and> badges (db w') = badges d1 \<and> w' = w\<lparr>db := db w'\<rparr> \<and> (if flag
       then insert_hashtags ids 0 bid (or_else tags []) ?d2 = Inr (db w') else db w' = d1)"
    using assms(2) b u d1 insert_hashtags_badges [of ids 0 bid "or_else tags []" ?d2]
    by (auto simp: edit_badge_def or_else_def badge_row_def simp del: insert_hashtags.simps split: if_splits sum.splits)
  note set = save_badge_set [OF assms(1) b(1) d1]
  have row: "b' = orm_badge now (apply_updates u) b" "b' \<in> set (badges (db w'))"
    using save_badge_row [OF assms(1) b(1) d1] t by (simp_all add: apply_updates_def)
  have wf': "db_wf (db w')" using edit_badge_wf [OF assms(1), of now ids org bid upd tags flag] assms(2) by simp
  have live: "live_badge bid (db w') = Some b'"
    using live_badge_iff [OF wf'] row b(1) live_badge_iff [OF assms(1)] by (simp add: apply_updates_def)
  have acc: "access_ok (b_access_type b') (b_access_code b')"
    using wf' row(2) by (auto simp: db_wf_def badges_ok_def badge_row_ok_def)
  have "badge_tags bid ?d2 = []" "\<And>x. x \<noteq> bid \<Longrightarrow> badge_tags x ?d2 = badge_tags x d1"
    by (auto simp: badge_tags_def delete_where_def filter_empty_conv intro!: arg_cong [where f = "map bh_hashtag"] filter_cong)
  then have tags: "badge_tags bid (db w') = (if flag then or_else tags [] else badge_tags bid (db w))"
    "\<forall>x. x \<noteq> bid \<longrightarrow> badge_tags x (db w') = badge_tags x (db w)"
    using t insert_hashtags_tags [of ids 0 bid "or_else tags []" ?d2 "db w'"] save_badge_hashtags [OF d1]
    by (auto simp: badge_tags_def split: if_splits)
  have "d1 = (db w)\<lparr>badges := badges d1\<rparr>" "db w' = d1\<lparr>badge_hashtags := badge_hashtags (db w')\<rparr>"
    using set(2) t insert_hashtags_only [of ids 0 bid "or_else tags []" ?d2 "db w'"] by (auto split: if_splits)
  then have rest: "w' = w\<lparr>db := (db w)\<lparr>badges := badges (db w'), badge_hashtags := badge_hashtags (db w')\<rparr>\<rparr>"
    using t by metis
  have set': "set (badges (db w')) = insert b' (set (badges (db w)) - {b})" using set(1) t row(1) by simp
  show ?thesis
    by (intro exI [of _ b] conjI) (fact b live acc tags set' rest edited_row [OF u row(1)])+
qed

definition demo_edit :: badge_updates where
  "demo_edit = \<lparr>bu_title = None, bu_canvas_data = None, bu_default_caption = None, bu_destination_link = None,
     bu_thumbnail_url = None, bu_access_type = Some (Some 1), bu_access_code = Some (Some ''code1'')\<rparr>"

lemma demo_live: "live_badge 3 demo_badges = Some demo_badge"
  by (simp add: live_badge_def)

lemma demo_edit_accepted: "\<exists>b w'. edit_badge 5 (\<lambda>i. of_nat i) 1 3 demo_edit (Some []) True (demo_world demo_badges) = (Inr b, w')"
proof -
  have "\<exists>d. save_badge 5 3 (apply_updates demo_edit) demo_badges = Inr d"
    by (simp add: save_badge_def Let_def update_where_def orm_badge_def apply_updates_def demo_edit_def demo_badge_def
        demo_draft_def new_badge_def checked_def badge_fits_def fits_def fits_opt_def slug_free_def)
  moreover have "check_access demo_badge demo_edit = Inr demo_edit" "bu_title demo_edit = None"
    by (simp_all add: check_access_def demo_edit_def)
  ultimately show ?thesis by (auto simp: edit_badge_def demo_live)
qed

theorem edit_badge_effect_witness:
  "badge_tags 3 (db (snd (edit_badge 5 (\<lambda>i. of_nat i) 1 3 demo_edit (Some []) True (demo_world demo_badges)))) = []"
proof -
  obtain b w' where e: "edit_badge 5 (\<lambda>i. of_nat i) 1 3 demo_edit (Some []) True (demo_world demo_badges) = (Inr b, w')"
    using demo_edit_accepted by blast
  from edit_badge_effect [OF _ e] demo_badges_wf have "badge_tags 3 (db w') = []" by auto
  with e show ?thesis by simp
qed

text \<open>A copy is a new unpublished badge of the same organiser, with the content, the access settings and
  the hashtags of the original, no slug and zero counters; the original is not changed and the template's
  counter goes up by one.\<close>

theorem duplicate_badge_effect:
  assumes "db_wf (db w)" "duplicate_badge now new_id ids org bid w = (Inr c, w')" "new_id \<noteq> bid"
  shows "\<exists>b. live_badge bid (db w) = Some b \<and> b_organiser_id b = org \<and> live_badge bid (db w') = Some b
    \<and> live_badge new_id (db w') = Some c \<and> live_badge new_id (db w) = None
    \<and> b_title c = b_title b @ '' (Copy)'' \<and> b_canvas_data c = b_canvas_data b
    \<and> (b_access_type c, b_access_code c) = (b_access_type b, b_access_code b)
    \<and> \<not> b_is_published c \<and> b_share_slug c = None \<and> b_share_count c = 0 \<and> b_creation_count c = 0
    \<and> badge_tags new_id (db w') = badge_tags bid (db w) \<and> badge_tags bid (db w') = badge_tags bid (db w)
    \<and> platform_templates (db w') = update_where (\<lambda>t. pt_id t = b_platform_template_id b)
        (\<lambda>t. t\<lparr>pt_total_badges_made := pt_total_badges_made t + 1, pt_updated_at := Some now\<rparr>) (platform_templates (db w))"
proof -
  obtain b where b: "live_badge bid (db w) = Some b" "b_organiser_id b = org"
    using duplicate.success_owner [OF assms(2)] by blast
  let ?c = "copy_of now new_id org b"
  obtain d1 d2 where d: "insert_badge ?c (db w) = Inr d1" "insert_hashtags ids 0 new_id (badge_tags bid (db w)) d1 = Inr d2"
    "c = ?c" "db w' = increment_template_badge_count now (b_platform_template_id b) d2"
    using assms(2) b by (auto simp: duplicate_badge_def Let_def split: if_splits sum.splits)
  have d1: "d1 = (db w)\<lparr>badges := badges (db w) @ [?c]\<rparr>" and new: "new_id \<notin> b_id ` set (badges (db w))"
    using d(1) by (simp_all add: insert_badge_def copy_of_def)
  have bs: "badges (db w') = badges (db w) @ [?c]" "platform_templates d2 = platform_templates (db w)"
    using insert_hashtags_badges [OF d(2)] d(4) d1 by simp_all
  have old: "live_badge new_id (db w) = None" unfolding live_badge_def find_none_iff using new by (metis image_eqI)
  have wf': "db_wf (db w')" using duplicate_badge_wf [OF assms(1), of now new_id ids org bid] assms(2) by simp
  have live: "live_badge new_id (db w') = Some ?c" "live_badge bid (db w') = Some b"
    using live_badge_iff [OF wf'] b(1) live_badge_iff [OF assms(1)] bs(1) by (simp_all add: copy_of_def)
  have no_tags: "badge_tags new_id d1 = []"
    using new assms(1) by (auto simp: badge_tags_def d1 filter_empty_conv db_wf_def hashtags_ok_def badge_ids_def)
  have "badge_tags x (db w') = badge_tags x d2" for x
    by (simp add: d(4) badge_tags_def increment_template_badge_count_def)
  then have tags: "badge_tags new_id (db w') = badge_tags bid (db w)" "badge_tags bid (db w') = badge_tags bid (db w)"
    using insert_hashtags_tags [OF d(2)] no_tags assms(3) by (simp_all add: d1 badge_tags_def)
  have "platform_templates (db w') = update_where (\<lambda>t. pt_id t = b_platform_template_id b)
        (\<lambda>t. t\<lparr>pt_total_badges_made := pt_total_badges_made t + 1, pt_updated_at := Some now\<rparr>) (platform_templates (db w))"
    using bs(2) d(4) by (simp add: increment_template_badge_count_def)
  moreover have "b_title ?c = b_title b @ '' (Copy)'' \<and> b_canvas_data ?c = b_canvas_data b
    \<and> (b_access_type ?c, b_access_code ?c) = (b_access_type b, b_access_code b)
    \<and> \<not> b_is_published ?c \<and> b_share_slug ?c = None \<and> b_share_count ?c = 0 \<and> b_creation_count ?c = 0"
    by (simp add: copy_of_def new_badge_def)
  ultimately show ?thesis using b live old tags d(3) by blast
qed

theorem duplicate_badge_effect_witness:
  "badge_tags 9 (db (snd (duplicate_badge 5 9 (\<lambda>i. 12) 1 3 (demo_world demo_badges)))) = [''fun'']"
proof -
  have "\<exists>d. insert_badge (copy_of 5 9 1 demo_badge) demo_badges = Inr d \<and> badge_hashtags d = badge_hashtags demo_badges
    \<and> 9 \<in> b_id ` set (badges d)"
    by (simp add: insert_badge_def checked_def badge_fits_def copy_of_def new_badge_def fits_def fits_opt_def demo_badge_def
        slug_free_def demo_draft_def demo_template_def)
  then have "\<exists>c w'. duplicate_badge 5 9 (\<lambda>i. 12) 1 3 (demo_world demo_badges) = (Inr c, w')"
    by (auto simp: duplicate_badge_def demo_live badge_tags_def insert_hashtag_def checked_def fits_def)
  then obtain c w' where e: "duplicate_badge 5 9 (\<lambda>i. 12) 1 3 (demo_world demo_badges) = (Inr c, w')" by blast
  from duplicate_badge_effect [OF _ e] demo_badges_wf have "badge_tags 9 (db w') = [''fun'']" by (auto simp: badge_tags_def)
  with e show ?thesis by simp
qed

section \<open>Counters, gallery and analytics\<close>

definition shares_at :: "time list \<Rightarrow> string \<Rightarrow> 'r world \<Rightarrow> 'r world" where
  "shares_at ts slug w = fold (\<lambda>now w. snd (increment_badge_share_count now slug w)) ts w"

abbreviation counted_share :: "time \<Rightarrow> badge \<Rightarrow> badge" where
  "counted_share now b \<equiv> b\<lparr>b_share_count := b_share_count b + 1, b_updated_at := Some now\<rparr>"

lemma share_db:
  "db (snd (increment_badge_share_count now slug w)) =
     (db w)\<lparr>badges := update_where (public_where slug) (counted_share now) (badges (db w))\<rparr>"
  by (simp add: increment_badge_share_count_def Let_def)

lemma share_one:
  assumes "db_wf (db w)" "get_public_badge_by_slug slug (db w) = Inr b"
  shows "get_public_badge_by_slug slug (db (snd (increment_badge_share_count now slug w))) = Inr (counted_share now b)"
    and "b_id x \<noteq> b_id b \<Longrightarrow> x \<in> set (badges (db (snd (increment_badge_share_count now slug w)))) \<longleftrightarrow> x \<in> set (badges (db w))"
proof -
  have b: "b \<in> set (badges (db w))" "public_where slug b"
    using assms public_iff [OF assms(1)] by (auto simp: public_where_def)
  have only: "x = b" if "x \<in> set (badges (db w))" "public_where slug x" for x
  proof -
    have "get_public_badge_by_slug slug (db w) = Inr x"
      using that unfolding public_iff [OF assms(1)] public_where_def by blast
    then show ?thesis using assms(2) by simp
  qed
  have "counted_share now b \<in> set (badges (db (snd (increment_badge_share_count now slug w))))"
    unfolding share_db using b by (auto simp: set_update_where)
  then show "get_public_badge_by_slug slug (db (snd (increment_badge_share_count now slug w))) = Inr (counted_share now b)"
    using public_iff [OF increment_badge_share_count_wf [OF assms(1)], of slug now slug] b(2)
    by (simp add: public_where_def)
  assume ne: "b_id x \<noteq> b_id b"
  show "x \<in> set (badges (db (snd (increment_badge_share_count now slug w)))) \<longleftrightarrow> x \<in> set (badges (db w))"
    unfolding share_db using ne only by (auto simp: set_update_where)
qed

text \<open>Every share of a public badge is counted, once: after any number of shares the counter has
  grown by exactly that number and no other badge has changed; a share of an unknown or unpublished
  slug is refused and changes nothing.\<close>

theorem shares_counted:
  assumes "db_wf (db w)" "get_public_badge_by_slug slug (db w) = Inr b"
  shows "(\<exists>b'. get_public_badge_by_slug slug (db (shares_at ts slug w)) = Inr b' \<and> b_id b' = b_id b
      \<and> b_share_count b' = b_share_count b + int (length ts))
    \<and> (\<forall>x. b_id x \<noteq> b_id b \<longrightarrow> (x \<in> set (badges (db (shares_at ts slug w))) \<longleftrightarrow> x \<in> set (badges (db w))))
    \<and> (\<forall>other err. get_public_badge_by_slug other (db w) = Inl err \<longrightarrow>
         increment_badge_share_count now other w = (Inl PublicBadgeNotFoundError, w))"
proof (intro conjI)
  have "(\<exists>b'. get_public_badge_by_slug slug (db (shares_at ts slug w)) = Inr b' \<and> b_id b' = b_id b
      \<and> b_share_count b' = b_share_count b + int (length ts))
    \<and> (\<forall>x. b_id x \<noteq> b_id b \<longrightarrow> (x \<in> set (badges (db (shares_at ts slug w))) \<longleftrightarrow> x \<in> set (badges (db w))))"
    using assms
  proof (induction ts arbitrary: w b)
    case (Cons t ts)
    note wf = increment_badge_share_count_wf [OF Cons.prems(1), of t slug]
    from Cons.IH [OF wf share_one(1) [OF Cons.prems]] share_one(2) [OF Cons.prems, of _ t]
    show ?case by (simp add: shares_at_def ac_simps)
  qed (simp add: shares_at_def)
  then show "\<exists>b'. get_public_badge_by_slug slug (db (shares_at ts slug w)) = Inr b' \<and> b_id b' = b_id b
      \<and> b_share_count b' = b_share_count b + int (length ts)"
    and "\<forall>x. b_id x \<noteq> b_id b \<longrightarrow> (x \<in> set (badges (db (shares_at ts slug w))) \<longleftrightarrow> x \<in> set (badges (db w)))" by blast+
  have "\<forall>x\<in>set (badges (db w)). \<not> public_where other x" if "get_public_badge_by_slug other (db w) = Inl err" for other err
    using that by (auto simp: get_public_badge_by_slug_def find_none_iff split: option.splits)
  then show "\<forall>other err. get_public_badge_by_slug other (db w) = Inl err \<longrightarrow>
         increment_badge_share_count now other w = (Inl PublicBadgeNotFoundError, w)"
    by (auto simp: increment_badge_share_count_def Let_def update_where_none count_where_def)
qed

lemma demo_public: "get_public_badge_by_slug ''slug'' (db (demo_world demo_badges)) = Inr demo_badge"
  by (simp add: get_public_badge_by_slug_def public_where_def)

theorem shares_counted_witness:
  "\<exists>b'. get_public_badge_by_slug ''slug'' (db (shares_at [5, 6, 7] ''slug'' (demo_world demo_badges))) = Inr b' \<and> b_share_count b' = 3"
proof -
  have "b_share_count demo_badge = 0" by (simp add: demo_badge_def new_badge_def)
  then show ?thesis using shares_counted [OF _ demo_public, of "[5, 6, 7]" 0] demo_badges_wf by auto
qed

text \<open>The gallery of a category (or of all categories) lists the active templates it has, ordered by title
  (by category and title), and reports how many there are; its pages one after the other are that list.\<close>

theorem gallery_pages_complete:
  assumes "0 < l" "case category of None \<Rightarrow> True | Some c \<Rightarrow> py_lower (py_strip c) \<in> set VALID_CATEGORIES"
  shows "\<exists>rows. (\<forall>p. list_platform_templates coll category p l d = Inr (page_of p l rows, int (length rows)))
    \<and> mset rows = mset (filter (\<lambda>t. pt_is_active t \<and> (case category of None \<Rightarrow> True
         | Some c \<Rightarrow> pt_category t = py_lower (py_strip c))) (platform_templates d))
    \<and> (if category = None then sorted (map (\<lambda>t. (coll (pt_category t), coll (pt_title t))) rows)
       else sorted (map (\<lambda>t. coll (pt_title t)) rows))
    \<and> (\<forall>m. length rows \<le> m * nat l \<longrightarrow> concat (map (\<lambda>p. page_of (int p) l rows) [1..<Suc m]) = rows)"
proof (cases category)
  case None
  let ?rows = "sort_key (\<lambda>t. (coll (pt_category t), coll (pt_title t))) (filter pt_is_active (platform_templates d))"
  have "list_platform_templates coll category p l d = Inr (page_of p l ?rows, int (length ?rows))" for p
    by (simp add: list_platform_templates_def None Let_def)
  moreover have "concat (map (\<lambda>p. page_of (int p) l ?rows) [1..<Suc m]) = ?rows" if "length ?rows \<le> m * nat l" for m
    using concat_pages [OF _ that] assms(1) by simp
  ultimately show ?thesis using None by (intro exI [of _ ?rows]) simp
next
  case (Some c)
  let ?rows = "sort_key (\<lambda>t. coll (pt_title t))
     (filter (\<lambda>t. pt_is_active t \<and> pt_category t = py_lower (py_strip c)) (platform_templates d))"
  have "list_platform_templates coll category p l d = Inr (page_of p l ?rows, int (length ?rows))" for p
    using assms(2) by (simp add: list_platform_templates_def Some Let_def)
  moreover have "concat (map (\<lambda>p. page_of (int p) l ?rows) [1..<Suc m]) = ?rows" if "length ?rows \<le> m * nat l" for m
    using concat_pages [OF _ that] assms(1) by simp
  ultimately show ?thesis using Some by (intro exI [of _ ?rows]) simp
qed

theorem gallery_pages_complete_witness:
  "\<exists>rows. list_platform_templates (\<lambda>s. s) (Some '' Hackathons'') 1 20 demo_badges = Inr (page_of 1 20 rows, int (length rows))
     \<and> mset rows = {#demo_template#}"
proof -
  have k: "py_lower (py_strip '' Hackathons'') = ''hackathons''" by code_simp
  then show ?thesis
    using gallery_pages_complete [of 20 "Some '' Hackathons''" "\<lambda>s. s" demo_badges]
    by (auto simp: VALID_CATEGORIES_def demo_template_def)
qed

lemma sum_counts:
  assumes "distinct ks" "f ` set rows \<subseteq> set ks"
  shows "sum_list (map (\<lambda>k. int (count_where (\<lambda>b. f b = k) rows)) ks) = int (length rows)"
  unfolding sum_list_distinct_conv_sum_set [OF assms(1)]
  using assms(2)
proof (induction rows)
  case (Cons b rows)
  have "int (count_where (\<lambda>x. f x = k) (b # rows)) = (if k = f b then 1 else 0) + int (count_where (\<lambda>x. f x = k) rows)" for k
    by (auto simp: count_where_def)
  moreover have "(\<Sum>k\<in>set ks. if k = f b then 1 else (0 :: int)) = 1" using Cons.prems by simp
  ultimately show ?case using Cons by (simp add: sum.distrib)
qed (simp add: count_where_def)

lemma sum_of_filter: "sum_of (\<lambda>b. if P b then 1 else 0) xs = int (length (filter P xs))"
  by (induction xs) (auto simp: sum_of_def)

text \<open>The analytics add up: the badges per template sum to the total, each template occurs once with the
  number of live badges made from it, largest first, and the active ones are the published badges.\<close>

theorem analytics_consistent:
  "let rows = filter (\<lambda>b. b_organiser_id b = org \<and> b_deleted_at b = None) (badges d);
       (total, active, shares, creations, usage) = get_badge_analytics org d
   in total = int (length rows) \<and> active = int (length (filter b_is_published rows))
     \<and> sum_list (map snd usage) = total \<and> distinct (map fst usage) \<and> sorted (map (\<lambda>u. - snd u) usage)
     \<and> set usage = (\<lambda>t. (t, int (count_where (\<lambda>b. b_platform_template_id b = t) rows))) ` b_platform_template_id ` set rows"
proof -
  let ?rows = "filter (\<lambda>b. b_organiser_id b = org \<and> b_deleted_at b = None) (badges d)"
  let ?ks = "remdups (map b_platform_template_id ?rows)"
  let ?g = "map (\<lambda>t. (t, int (count_where (\<lambda>b. b_platform_template_id b = t) ?rows))) ?ks"
  have k: "(\<lambda>(t, n). - n) = (\<lambda>u :: uuid \<times> int. - snd u)" by (simp add: fun_eq_iff split: prod.split)
  have p: "mset (sort_key (\<lambda>(t, n). - n) ?g) = mset ?g" by simp
  then have "mset (map snd (sort_key (\<lambda>(t, n). - n) ?g)) = mset (map snd ?g)" by (simp only: mset_map)
  then have "sum_list (map snd (sort_key (\<lambda>(t, n). - n) ?g)) = sum_list (map snd ?g)"
    unfolding sum_mset_sum_list [symmetric] by (rule arg_cong)
  also have "\<dots> = int (length ?rows)"
    using sum_counts [of ?ks b_platform_template_id ?rows] by (simp add: comp_def)
  finally have sum: "sum_list (map snd (sort_key (\<lambda>(t, n). - n) ?g)) = int (length ?rows)" .
  have "mset (map fst (sort_key (\<lambda>(t, n). - n) ?g)) = mset (map fst ?g)" 
    using p by (simp only: mset_map)
  moreover have "distinct (map fst ?g)" by (simp add: comp_def)
  ultimately have dist: "distinct (map fst (sort_key (\<lambda>(t, n). - n) ?g))" by (blast dest: mset_eq_imp_distinct_iff)
  have "sorted (map (\<lambda>u. - snd u) (sort_key (\<lambda>(t, n). - n) ?g))" unfolding k by (rule sorted_sort_key)
  moreover have "set (sort_key (\<lambda>(t, n). - n) ?g) =
      (\<lambda>t. (t, int (count_where (\<lambda>b. b_platform_template_id b = t) ?rows))) ` b_platform_template_id ` set ?rows"
    by (simp only: set_sort set_map set_remdups)
  ultimately show ?thesis unfolding get_badge_analytics_def Let_def sum_of_filter prod.case
    using sum dist by (intro conjI refl)
qed

end
