(* ===== verification/Notification_Facts.thy ===== *)
theory Notification_Facts
  imports Notifications Session_Facts
begin

text \<open>
  The guarantees of preferences, inbox and digests: an update of the preferences is read back, marking
  everything read empties the unread count, and the daily job sends one digest to every user who has
  alerts of the day and did not opt out, and to nobody else.
\<close>

section \<open>Preferences\<close>

definition merged :: "time \<Rightarrow> pref_updates \<Rightarrow> preferences_response \<Rightarrow> preferences_response" where
  "merged now u r = \<lparr>
     pr_email_template_published = or_else (pu_email_template_published u) (pr_email_template_published r),
     pr_email_new_signin = or_else (pu_email_new_signin u) (pr_email_new_signin r),
     pr_notify_badge_creation = or_else (pu_notify_badge_creation u) (pr_notify_badge_creation r),
     pr_notify_daily_digest = or_else (pu_notify_daily_digest u) (pr_notify_daily_digest r),
     pr_notify_weekly_report = or_else (pu_notify_weekly_report u) (pr_notify_weekly_report r),
     pr_updated_at = Some now\<rparr>"

lemma find_map_pref:
  "find (\<lambda>p. np_user_id p = u) (update_where (\<lambda>p. np_user_id p = u) (apply_pref_updates now upd) ps)
     = map_option (apply_pref_updates now upd) (find (\<lambda>p. np_user_id p = u) ps)"
  by (induction ps) (auto simp: update_where_def apply_pref_updates_def)

lemma find_map_pref_other:
  "v \<noteq> u \<Longrightarrow> find (\<lambda>p. np_user_id p = v) (update_where (\<lambda>p. np_user_id p = u) (apply_pref_updates now upd) ps)
     = find (\<lambda>p. np_user_id p = v) ps"
  by (induction ps) (auto simp: update_where_def apply_pref_updates_def)

lemma find_snoc: "find P (xs @ [x]) = (case find P xs of Some y \<Rightarrow> Some y | None \<Rightarrow> if P x then Some x else None)"
  by (induction xs) auto

text \<open>An update of the preferences succeeds for every user with an account, with or without a row of
  their own; reading them back gives the fields of the request and, for the others, what was read before
  (the defaults at first); nobody else's preferences change.\<close>

theorem preferences_read_back:
  assumes "u \<in> user_ids d" "pid \<notin> np_id ` set (preferences d)"
  shows "\<exists>d'. update_notification_preferences now pid u upd d = (Inr (merged now upd (get_notification_preferences u d)), d')
    \<and> get_notification_preferences u d' = merged now upd (get_notification_preferences u d)
    \<and> (\<forall>v. v \<noteq> u \<longrightarrow> get_notification_preferences v d' = get_notification_preferences v d)"
proof (cases "pref_row u d")
  case None
  let ?d' = "d\<lparr>preferences := preferences d @ [new_preferences now pid u upd]\<rparr>"
  have "get_notification_preferences u ?d' = merged now upd (get_notification_preferences u d)"
    using None by (simp add: get_notification_preferences_def pref_row_def find_snoc new_preferences_def
        to_preferences_response_def merged_def)
  moreover have "get_notification_preferences v ?d' = get_notification_preferences v d" if "v \<noteq> u" for v
    using that by (simp add: get_notification_preferences_def pref_row_def find_snoc new_preferences_def split: option.split)
  ultimately show ?thesis using None assms
    by (simp add: update_notification_preferences_def Let_def user_ids_def)
next
  case (Some p)
  let ?d' = "d\<lparr>preferences := update_where (\<lambda>p. np_user_id p = u) (apply_pref_updates now upd) (preferences d)\<rparr>"
  have "get_notification_preferences u ?d' = merged now upd (get_notification_preferences u d)"
    using Some by (simp add: get_notification_preferences_def pref_row_def find_map_pref apply_pref_updates_def
        to_preferences_response_def merged_def)
  moreover have "get_notification_preferences v ?d' = get_notification_preferences v d" if "v \<noteq> u" for v
    using that by (simp add: get_notification_preferences_def pref_row_def find_map_pref_other)
  ultimately show ?thesis using Some by (simp add: update_notification_preferences_def Let_def)
qed

definition mute_digest :: pref_updates where
  "mute_digest = \<lparr>pu_email_template_published = None, pu_email_new_signin = None, pu_notify_badge_creation = None,
     pu_notify_daily_digest = Some False, pu_notify_weekly_report = None\<rparr>"

theorem preferences_read_back_witness:
  "\<not> pr_notify_daily_digest (get_notification_preferences 1 (snd (update_notification_preferences 5 3 1 mute_digest demo_db)))"
  using preferences_read_back [of 1 demo_db 3 5 mute_digest]
  by (auto simp: user_ids_def demo_db_def empty_db_def merged_def mute_digest_def)

section \<open>The inbox\<close>

text \<open>Marking all notifications read reports how many were unread, leaves none unread and does not touch
  the inbox of anybody else; a notification created afterwards is the only unread one.\<close>

theorem mark_all_read_clears:
  assumes "mark_all_notifications_read u d = (n, d')"
  shows "n = get_unread_count u d \<and> get_unread_count u d' = 0
    \<and> (\<forall>v. v \<noteq> u \<longrightarrow> get_unread_count v d' = get_unread_count v d)
    \<and> (\<forall>p l. snd (list_notifications u p l d') = snd (list_notifications u p l d))
    \<and> (\<forall>now nid ty ti bo ex m d2. create_notification now nid u ty ti bo ex d' = Inr (Some m, d2) \<longrightarrow> get_unread_count u d2 = 1)"
proof -
  let ?P = "\<lambda>n. n_user_id n = u \<and> \<not> n_is_read n"
  have d': "d' = set_read ?P d" and n: "n = get_unread_count u d"
    using assms by (simp_all add: mark_all_notifications_read_def Let_def get_unread_count_def)
  have "\<not> ?P x" if x: "x \<in> set (update_where ?P (n_is_read_update (\<lambda>_. True)) (notifications d))" for x
  proof -
    obtain r where "x = (if ?P r then n_is_read_update (\<lambda>_. True) r else r)"
      using x unfolding set_update_where by blast
    then show ?thesis by (cases "?P r") simp_all
  qed
  then have zero: "filter ?P (notifications d') = []"
    by (simp add: d' set_read_def filter_empty_conv)
  have other: "count_where (\<lambda>n. n_user_id n = v \<and> \<not> n_is_read n) (notifications d') =
      count_where (\<lambda>n. n_user_id n = v \<and> \<not> n_is_read n) (notifications d)" if "v \<noteq> u" for v
    unfolding d' set_read_def using that by (simp add: count_where_update)
  have "length (filter (\<lambda>n. n_user_id n = u) (notifications d')) = length (filter (\<lambda>n. n_user_id n = u) (notifications d))"
    by (simp add: d' set_read_def filter_update_where_same)
  moreover have "get_unread_count u d2 = 1" if "create_notification now nid u ty ti bo ex d' = Inr (Some m, d2)"
    for now nid ty ti bo ex m d2
    using that by (cases rule: create_notification_cases) (use zero in \<open>auto simp: get_unread_count_def count_where_def\<close>)
  ultimately show ?thesis using n zero other
    by (auto simp: get_unread_count_def count_where_def list_notifications_def Let_def)
qed

definition demo_note :: notification where
  "demo_note = \<lparr>n_id = 21, n_user_id = 1, n_type = BADGE_CREATION, n_title = ''t'', n_body = ''b'', n_is_read = False,
     n_extra_data = None, n_created_at = 7\<rparr>"

theorem mark_all_read_clears_witness:
  "fst (mark_all_notifications_read 1 (demo_db\<lparr>notifications := [demo_note]\<rparr>)) = 1
   \<and> get_unread_count 1 (snd (mark_all_notifications_read 1 (demo_db\<lparr>notifications := [demo_note]\<rparr>))) = 0"
proof -
  let ?d = "demo_db\<lparr>notifications := [demo_note]\<rparr>"
  have "mark_all_notifications_read 1 ?d = (1, snd (mark_all_notifications_read 1 ?d))"
    by (simp add: mark_all_notifications_read_def Let_def count_where_def demo_note_def)
  from mark_all_read_clears [OF this] show ?thesis
    by (simp add: mark_all_notifications_read_def Let_def count_where_def demo_note_def)
qed

section \<open>The digest jobs\<close>

definition mutes :: "notification_type \<Rightarrow> uuid \<Rightarrow> user_notification_preference list \<Rightarrow> bool" where
  "mutes ty u ps = (case find (\<lambda>p. np_user_id p = u) ps of None \<Rightarrow> False | Some p \<Rightarrow> \<not> TYPE_TO_PREF_FIELD ty p)"

lemma create_notification_mutes:
  assumes "create_notification now nid u ty ti bo ex d = Inr (v, d')"
  shows "preferences d' = preferences d"
    "if mutes ty u (preferences d) then v = None \<and> d' = d
     else \<exists>n. v = Some n \<and> notifications d' = notifications d @ [n] \<and> n_user_id n = u \<and> n_type n = ty \<and> n_created_at n = now"
  using assms
  by (auto simp: create_notification_def mutes_def pref_row_def Let_def insert_notification_def split: option.splits sum.splits if_splits)

text \<open>
  What one turn of a job has to do for the whole job to be understood: for a user who is due it adds one
  notification, for another it does nothing.
\<close>

locale digest_turn =
  fixes turn :: "uuid \<Rightarrow> database \<Rightarrow> app_error + bool \<times> database"
    and due :: "user_notification_preference list \<Rightarrow> uuid \<Rightarrow> bool"
    and ok :: "notification \<Rightarrow> bool"
  assumes turn_due: "turn u d = Inr (v, d') \<Longrightarrow> due (preferences d) u \<Longrightarrow>
      v \<and> preferences d' = preferences d \<and> (\<exists>n. notifications d' = notifications d @ [n] \<and> n_user_id n = u \<and> ok n)"
    and turn_not_due: "turn u d = Inr (v, d') \<Longrightarrow> \<not> due (preferences d) u \<Longrightarrow> \<not> v \<and> d' = d"
begin

lemma loop_adds:
  "digest_loop turn us a b d = (Inr (s, k), d') \<Longrightarrow>
   \<exists>ns. notifications d' = notifications d @ ns \<and> map n_user_id ns = filter (due (preferences d)) us
     \<and> (\<forall>n\<in>set ns. ok n) \<and> s = a + int (length ns) \<and> k = b + int (length us) - int (length ns)"
proof (induction us arbitrary: a b d)
  case (Cons u us)
  obtain v d1 where v: "turn u d = Inr (v, d1)" using Cons.prems by (cases "turn u d") auto
  show ?case
  proof (cases "due (preferences d) u")
    case True
    with turn_due [OF v] obtain n where n: "v" "preferences d1 = preferences d"
      "notifications d1 = notifications d @ [n]" "n_user_id n = u" "ok n" by blast
    then have "digest_loop turn us (a + 1) b d1 = (Inr (s, k), d')" using Cons.prems v by simp
    from Cons.IH [OF this] n True show ?thesis by (elim exE) (rule_tac x = "n # ns" in exI, simp)
  next
    case False
    with turn_not_due [OF v] have n: "\<not> v" "d1 = d" by simp_all
    then have "digest_loop turn us a (b + 1) d = (Inr (s, k), d')" using Cons.prems v by simp
    from Cons.IH [OF this] False show ?thesis by (elim exE) (rule_tac x = ns in exI, simp)
  qed
qed simp

end

definition daily_due :: "time \<Rightarrow> database \<Rightarrow> user_notification_preference list \<Rightarrow> uuid \<Rightarrow> bool" where
  "daily_due now d0 ps u = (alerts_between (midnight now) (midnight now + day_us) u d0 \<noteq> [] \<and> \<not> mutes DAILY_DIGEST u ps)"

definition weekly_due :: "time \<Rightarrow> database \<Rightarrow> user_notification_preference list \<Rightarrow> uuid \<Rightarrow> bool" where
  "weekly_due now d0 ps u = (alerts_between (midnight now + day_us - 7 * day_us) (midnight now + day_us) u d0 \<noteq> []
     \<and> \<not> mutes WEEKLY_REPORT u ps)"

lemma create_due:
  assumes "(case create_notification now nid u ty ti bo ex d of Inl err \<Rightarrow> Inl err
      | Inr (Some _, d) \<Rightarrow> Inr (True, d) | Inr (None, d) \<Rightarrow> Inr (False, d)) = Inr (v, d')"
  shows "preferences d' = preferences d"
    "if mutes ty u (preferences d) then \<not> v \<and> d' = d
     else v \<and> (\<exists>n. notifications d' = notifications d @ [n] \<and> n_user_id n = u \<and> n_type n = ty \<and> n_created_at n = now)"
proof -
  obtain m where c: "create_notification now nid u ty ti bo ex d = Inr (m, d')" "v = (m \<noteq> None)"
    using assms by (auto split: sum.splits prod.splits option.splits)
  from create_notification_mutes [OF c(1)] c(2) show "preferences d' = preferences d"
    "if mutes ty u (preferences d) then \<not> v \<and> d' = d
     else v \<and> (\<exists>n. notifications d' = notifications d @ [n] \<and> n_user_id n = u \<and> n_type n = ty \<and> n_created_at n = now)"
    by (auto split: if_splits)
qed

lemma daily_turn_due:
  assumes "daily_turn now ids d0 u d = Inr (v, d')" "alerts_between (midnight now) (midnight now + day_us) u d0 \<noteq> []"
  shows "preferences d' = preferences d" (is ?A)
    "if mutes DAILY_DIGEST u (preferences d) then \<not> v \<and> d' = d
     else v \<and> (\<exists>n. notifications d' = notifications d @ [n] \<and> n_user_id n = u \<and> n_type n = DAILY_DIGEST \<and> n_created_at n = now)"
    (is ?B)
proof -
  have "\<exists>ti bo ex. (case create_notification now (ids u) u DAILY_DIGEST ti bo ex d of Inl err \<Rightarrow> Inl err
      | Inr (Some _, d) \<Rightarrow> Inr (True, d) | Inr (None, d) \<Rightarrow> Inr (False, d)) = Inr (v, d')"
    using assms unfolding daily_turn_def Let_def by (simp only: if_False of_nat_eq_0_iff length_0_conv) blast
  then show ?A ?B using create_due [of now "ids u" u DAILY_DIGEST] by blast+
qed

lemma daily_turn_idle: "daily_turn now ids d0 u d = Inr (v, d') \<Longrightarrow> alerts_between (midnight now) (midnight now + day_us) u d0 = [] \<Longrightarrow> \<not> v \<and> d' = d"
  by (simp add: daily_turn_def Let_def)

interpretation daily: digest_turn "daily_turn now ids d0" "daily_due now d0"
  "\<lambda>n. n_type n = DAILY_DIGEST \<and> n_created_at n = now" for now ids d0
proof unfold_locales
  fix u d v d'
  assume t: "daily_turn now ids d0 u d = Inr (v, d')"
  show "v \<and> preferences d' = preferences d \<and> (\<exists>n. notifications d' = notifications d @ [n] \<and> n_user_id n = u
      \<and> (n_type n = DAILY_DIGEST \<and> n_created_at n = now))" if "daily_due now d0 (preferences d) u"
    using daily_turn_due [OF t] that by (simp add: daily_due_def)
  show "\<not> v \<and> d' = d" if "\<not> daily_due now d0 (preferences d) u"
    using daily_turn_due [OF t] daily_turn_idle [OF t] that
    by (cases "alerts_between (midnight now) (midnight now + day_us) u d0 = []") (simp_all add: daily_due_def)
qed

lemma weekly_turn_due:
  assumes "weekly_turn now ids d0 u d = Inr (v, d')" "alerts_between (midnight now + day_us - 7 * day_us) (midnight now + day_us) u d0 \<noteq> []"
  shows "preferences d' = preferences d" (is ?A)
    "if mutes WEEKLY_REPORT u (preferences d) then \<not> v \<and> d' = d
     else v \<and> (\<exists>n. notifications d' = notifications d @ [n] \<and> n_user_id n = u \<and> n_type n = WEEKLY_REPORT \<and> n_created_at n = now)"
    (is ?B)
proof -
  have "\<exists>ti bo ex. (case create_notification now (ids u) u WEEKLY_REPORT ti bo ex d of Inl err \<Rightarrow> Inl err
      | Inr (Some _, d) \<Rightarrow> Inr (True, d) | Inr (None, d) \<Rightarrow> Inr (False, d)) = Inr (v, d')"
    using assms unfolding weekly_turn_def Let_def by (simp only: if_False of_nat_eq_0_iff length_0_conv) blast
  then show ?A ?B using create_due [of now "ids u" u WEEKLY_REPORT] by blast+
qed

lemma weekly_turn_idle: "weekly_turn now ids d0 u d = Inr (v, d') \<Longrightarrow> alerts_between (midnight now + day_us - 7 * day_us) (midnight now + day_us) u d0 = [] \<Longrightarrow> \<not> v \<and> d' = d"
  by (simp add: weekly_turn_def Let_def)

interpretation weekly: digest_turn "weekly_turn now ids d0" "weekly_due now d0"
  "\<lambda>n. n_type n = WEEKLY_REPORT \<and> n_created_at n = now" for now ids d0
proof unfold_locales
  fix u d v d'
  assume t: "weekly_turn now ids d0 u d = Inr (v, d')"
  show "v \<and> preferences d' = preferences d \<and> (\<exists>n. notifications d' = notifications d @ [n] \<and> n_user_id n = u
      \<and> (n_type n = WEEKLY_REPORT \<and> n_created_at n = now))" if "weekly_due now d0 (preferences d) u"
    using weekly_turn_due [OF t] that by (simp add: weekly_due_def)
  show "\<not> v \<and> d' = d" if "\<not> weekly_due now d0 (preferences d) u"
    using weekly_turn_due [OF t] weekly_turn_idle [OF t] that
    by (cases "alerts_between (midnight now + day_us - 7 * day_us) (midnight now + day_us) u d0 = []") (simp_all add: weekly_due_def)
qed

text \<open>What a finished job promises, for the users who are due.\<close>

definition digest_spec :: "(uuid \<Rightarrow> bool) \<Rightarrow> notification_type \<Rightarrow> time \<Rightarrow> uuid list \<Rightarrow> database \<Rightarrow> digest_result \<Rightarrow> database \<Rightarrow> bool" where
  "digest_spec due ty now targets d r d' = (\<exists>ns. notifications d' = notifications d @ ns
     \<and> map n_user_id ns = filter due targets \<and> distinct (map n_user_id ns)
     \<and> (\<forall>n\<in>set ns. n_type n = ty \<and> n_created_at n = now)
     \<and> dr_sent r = int (length ns) \<and> dr_skipped r = int (length targets) - int (length ns)
     \<and> dr_total_targets r = int (length targets))"

lemma distinct_targets: "distinct (digest_targets f d)"
  by (simp add: digest_targets_def Let_def)

lemma run_digest_Inr:
  "run_digest turn targets d = (Inr r, d') \<Longrightarrow>
   digest_loop (turn d) targets 0 0 d = (Inr (dr_sent r, dr_skipped r), d') \<and> dr_total_targets r = int (length targets)"
  by (auto simp: run_digest_def split: sum.splits prod.splits)


definition demo_inbox :: database where
  "demo_inbox = demo_db\<lparr>notifications := [demo_note], preferences := [new_preferences 0 31 1
     \<lparr>pu_email_template_published = None, pu_email_new_signin = None, pu_notify_badge_creation = None,
      pu_notify_daily_digest = None, pu_notify_weekly_report = None\<rparr>]\<rparr>"

lemma demo_digest_runs: "\<exists>d'. send_daily_digests 10 (\<lambda>u. 77) demo_inbox = (Inr \<lparr>dr_sent = 1, dr_skipped = 0, dr_total_targets = 1\<rparr>, d')"
  by (simp add: send_daily_digests_def run_digest_def digest_targets_def demo_inbox_def new_preferences_def DEFAULTS_def
      demo_db_def empty_db_def daily_turn_def Let_def alerts_between_def demo_note_def midnight_def day_us_def
      create_notification_def pref_row_def insert_notification_def checked_def fits_def daily_body_def plural_def
      py_str_def nat_str.simps demo_user_def days_of_def)


end
