(* ===== verification/Web.thy ===== *)
theory Web
  imports World
begin

text \<open>
  What the code uses of \<open>urllib.parse\<close>: \<open>urlencode\<close>, \<open>unquote\<close> and the path of \<open>urlparse\<close>; the
  words of \<open>str.split\<close>; and the look-up of a key in a JSON object.  \<open>unquote\<close> is exact for escapes
  that decode to characters up to U+00FF; other byte sequences give \<open>?\<close>.
\<close>

section \<open>Percent encoding\<close>

definition unreserved :: "char \<Rightarrow> bool" where
  "unreserved c = (is_digit c \<or> is_upper_az c \<or> is_lower_az c \<or> c \<in> {CHR ''_'', CHR ''.'', CHR ''-'', CHR ''~''})"

definition upper_hex :: "nat \<Rightarrow> char" where
  "upper_hex n = (if n < 10 then char_of (48 + n) else char_of (55 + n))"

definition percent :: "nat \<Rightarrow> string" where
  "percent b = [CHR ''%'', upper_hex (b div 16), upper_hex (b mod 16)]"

definition quote_char :: "char \<Rightarrow> string" where
  "quote_char c = (let n = code_point c in
     if unreserved c then [c]
     else if n < 128 then percent n
     else percent (192 + n div 64) @ percent (128 + n mod 64))"

text \<open>\<open>quote_plus\<close>: a space becomes a plus sign.\<close>

definition quote_plus :: "string \<Rightarrow> string" where
  "quote_plus s = concat (map (\<lambda>c. if c = CHR '' '' then ''+'' else quote_char c) s)"

definition urlencode :: "(string \<times> string) list \<Rightarrow> string" where
  "urlencode ps = py_join ''&'' (map (\<lambda>(k, v). quote_plus k @ ''='' @ quote_plus v) ps)"

definition hex_pair :: "string \<Rightarrow> nat option" where
  "hex_pair s = (case s of a # b # _ \<Rightarrow> (case (hex_val a, hex_val b) of
       (Some x, Some y) \<Rightarrow> Some (16 * x + y) | _ \<Rightarrow> None)
     | _ \<Rightarrow> None)"

text \<open>The byte an escape at the head of the text stands for.\<close>

definition escape_at :: "string \<Rightarrow> nat option" where
  "escape_at s = (case s of c # r \<Rightarrow> if c = CHR ''%'' then hex_pair r else None | [] \<Rightarrow> None)"

function unquote :: "string \<Rightarrow> string" where
  "unquote [] = []"
| "unquote (c # s) = (case escape_at (c # s) of
     None \<Rightarrow> c # unquote s
   | Some b \<Rightarrow>
       if b < 128 then char_of b # unquote (drop 2 s)
       else (case escape_at (drop 2 s) of
           Some b2 \<Rightarrow>
             if 194 \<le> b \<and> b < 196 \<and> 128 \<le> b2 \<and> b2 < 192
             then char_of ((b - 192) * 64 + (b2 - 128)) # unquote (drop 5 s)
             else CHR ''?'' # unquote (drop 2 s)
         | None \<Rightarrow> CHR ''?'' # unquote (drop 2 s)))"
  by pat_completeness auto
termination
  by (relation "measure length") auto

lemma unquote_plain: "CHR ''%'' \<notin> set s \<Longrightarrow> unquote s = s"
  by (induction s) (auto simp: escape_at_def)

section \<open>The path of a URL\<close>

definition scheme_char :: "char \<Rightarrow> bool" where
  "scheme_char c = (is_digit c \<or> is_upper_az c \<or> is_lower_az c \<or> c \<in> {CHR ''+'', CHR ''-'', CHR ''.''})"

definition before :: "(char \<Rightarrow> bool) \<Rightarrow> string \<Rightarrow> string" where
  "before P s = takeWhile (\<lambda>c. \<not> P c) s"

text \<open>\<open>urlsplit\<close>: control characters are dropped, then the scheme, the network location, the fragment and the query.\<close>

definition split_scheme :: "string \<Rightarrow> string \<times> string" where
  "split_scheme url = (let s = before (\<lambda>c. c = CHR '':'') url in
     if s \<noteq> [] \<and> s \<noteq> url \<and> (is_upper_az (hd url) \<or> is_lower_az (hd url)) \<and> list_all scheme_char s
     then (py_lower s, drop (length s + 1) url) else ([], url))"

definition uses_params :: "string list" where
  "uses_params = [[], ''ftp'', ''hdl'', ''prospero'', ''http'', ''https'', ''shttp'', ''rtsp'', ''rtsps'', ''rtspu'',
     ''sip'', ''sips'', ''mms'', ''sftp'', ''tel'']"

text \<open>\<open>_splitparams\<close>: what follows a semicolon in the last segment is cut off.\<close>

definition cut_params :: "string \<Rightarrow> string" where
  "cut_params p = (if CHR ''/'' \<in> set p
     then (case split_last (CHR ''/'') p of (a, b) \<Rightarrow> a @ ''/'' @ before (\<lambda>c. c = CHR '';'') b)
     else before (\<lambda>c. c = CHR '';'') p)"

text \<open>\<open>None\<close> is the \<open>ValueError\<close> for a network location with one bracket.\<close>

definition urlparse_path :: "string \<Rightarrow> string option" where
  "urlparse_path url =
     (let url = dropWhile (\<lambda>c. code_point c \<le> 32) url;
          url = filter (\<lambda>c. code_point c \<notin> {9, 10, 13}) url;
          (scheme, rest) = split_scheme url;
          netloc = (if py_startswith rest ''//'' then before (\<lambda>c. c \<in> {CHR ''/'', CHR ''?'', CHR ''#''}) (drop 2 rest) else []);
          rest = (if py_startswith rest ''//'' then drop (2 + length netloc) rest else rest);
          path = before (\<lambda>c. c = CHR ''?'') (before (\<lambda>c. c = CHR ''#'') rest)
      in if (CHR ''['' \<in> set netloc) \<noteq> (CHR '']'' \<in> set netloc) then None
         else Some (if scheme \<in> set uses_params \<and> CHR '';'' \<in> set path then cut_params path else path))"

section \<open>Words and JSON objects\<close>

text \<open>\<open>s.split(maxsplit=1)\<close> of a text that is not blank: the first word and what follows it.\<close>

definition first_word :: "string \<Rightarrow> string \<times> string option" where
  "first_word s = (let s = py_lstrip s; r = py_lstrip (dropWhile (\<lambda>c. \<not> py_isspace c) s) in
     (takeWhile (\<lambda>c. \<not> py_isspace c) s, if r = [] then None else Some r))"

text \<open>\<open>payload.get(key)\<close>: a missing key reads as null.\<close>

definition json_get :: "(string \<times> json) list \<Rightarrow> string \<Rightarrow> json" where
  "json_get kvs k = (case map_of kvs k of None \<Rightarrow> JNull | Some v \<Rightarrow> v)"

definition non_empty_str :: "json \<Rightarrow> string option" where
  "non_empty_str j = (case j of JStr (c # s) \<Rightarrow> Some (c # s) | _ \<Rightarrow> None)"

end
