(* ===== verification/Google.thy ===== *)
theory Google
  imports Auth Web
begin

text \<open>
  The Google flow of \<open>app/services/auth.py\<close>.  Google's endpoints and the decoding of the middle
  segment of an ID token (\<open>base64.urlsafe_b64decode\<close>, then \<open>json.loads\<close>) are the record \<open>google_api\<close>.
\<close>

text \<open>
  The outcome of an HTTP call: an error status, no answer, or a body, which is \<open>None\<close> when it is not
  JSON.
\<close>

datatype http_result = HttpStatusError nat | HttpError | HttpBody "json option"

record google_api =
  ga_token :: "string \<Rightarrow> http_result"
  ga_user_info :: "string \<Rightarrow> http_result"
  ga_segment :: "string \<Rightarrow> json option"

definition google_error :: "string \<Rightarrow> app_error" where
  "google_error msg = GoogleOAuthError msg 400"

definition GOOGLE_SCOPES :: "string list" where
  "GOOGLE_SCOPES = [''openid'', ''email'', ''profile'']"

text \<open>\<open>state\<close> is the draw of \<open>generate_token\<close>.\<close>

definition build_google_auth_url :: "'r env \<Rightarrow> time \<Rightarrow> string \<Rightarrow> 'r world \<Rightarrow> string \<times> 'r world" where
  "build_google_auth_url e now state w =
     (let w = w\<lparr>kv := store_google_oauth_state e now state (kv w)\<rparr>;
          params = urlencode [(''client_id'', GOOGLE_CLIENT_ID (cfg e)), (''redirect_uri'', GOOGLE_REDIRECT_URI (cfg e)),
            (''response_type'', ''code''), (''scope'', py_join '' '' GOOGLE_SCOPES), (''state'', state)]
      in (GOOGLE_AUTH_URL (cfg e) @ ''?'' @ params, w))"

definition exchange_google_code :: "google_api \<Rightarrow> string \<Rightarrow> app_error + string \<times> string option" where
  "exchange_google_code g code = (case ga_token g code of
     HttpStatusError status \<Rightarrow> Inl (GoogleOAuthError ''Google token exchange failed'' status)
   | HttpError \<Rightarrow> Inl (GoogleOAuthError ''Could not reach Google token endpoint'' 502)
   | HttpBody None \<Rightarrow> Inl (ValueError ''Expecting value'')
   | HttpBody (Some (JObj payload)) \<Rightarrow>
       (case non_empty_str (json_get payload ''access_token'') of
          None \<Rightarrow> Inl (google_error ''Google token response did not include an access token'')
        | Some access_token \<Rightarrow>
            (case json_get payload ''id_token'' of
               JNull \<Rightarrow> Inr (access_token, None)
             | v \<Rightarrow> (case non_empty_str v of
                 None \<Rightarrow> Inl (google_error ''Google token response included an invalid ID token'')
               | Some id_token \<Rightarrow> Inr (access_token, Some id_token))))
   | HttpBody (Some _) \<Rightarrow> Inl (google_error ''Google token response was not a JSON object''))"

record google_user_info =
  gi_sub :: string
  gi_email :: string
  gi_name :: string
  gi_picture :: "string option"

definition fetch_google_user_info :: "google_api \<Rightarrow> string \<Rightarrow> app_error + google_user_info" where
  "fetch_google_user_info g access_token = (case ga_user_info g access_token of
     HttpStatusError status \<Rightarrow> Inl (GoogleOAuthError ''Google user info lookup failed'' status)
   | HttpError \<Rightarrow> Inl (GoogleOAuthError ''Could not reach Google user info endpoint'' 502)
   | HttpBody None \<Rightarrow> Inl (ValueError ''Expecting value'')
   | HttpBody (Some (JObj payload)) \<Rightarrow>
       (case non_empty_str (json_get payload ''sub'') of
          None \<Rightarrow> Inl (google_error ''Google account did not provide a stable account ID'')
        | Some subject \<Rightarrow> (case non_empty_str (json_get payload ''email'') of
            None \<Rightarrow> Inl (google_error ''Google account did not provide an email address'')
          | Some email \<Rightarrow>
              if json_get payload ''email_verified'' \<noteq> JBool True
              then Inl (google_error ''Google account email is not verified'')
              else (case json_get payload ''name'' of
                  JStr name \<Rightarrow>
                    if py_strip name = []
                    then Inl (google_error ''Google account did not provide a valid display name'')
                    else Inr \<lparr>gi_sub = subject, gi_email = email, gi_name = py_strip name,
                      gi_picture = non_empty_str (json_get payload ''picture'')\<rparr>
                | _ \<Rightarrow> Inl (google_error ''Google account did not provide a valid display name''))))
   | HttpBody (Some _) \<Rightarrow> Inl (google_error ''Google user info response was not a JSON object''))"

definition extract_google_id_token_subject :: "google_api \<Rightarrow> string \<Rightarrow> app_error + string" where
  "extract_google_id_token_subject g id_token = (case py_split (CHR ''.'') id_token of
     [_, payload_segment, _] \<Rightarrow>
       if list_ex (\<lambda>c. 128 \<le> code_point c) payload_segment
       then Inl (ValueError ''string argument should contain only ASCII characters'')
       else (case ga_segment g payload_segment of
         None \<Rightarrow> Inl (google_error ''Google token response included a malformed ID token'')
       | Some (JObj payload) \<Rightarrow> (case non_empty_str (json_get payload ''sub'') of
           None \<Rightarrow> Inl (google_error ''Google token response did not include a valid subject'')
         | Some subject \<Rightarrow> Inr subject)
       | Some _ \<Rightarrow> Inl (google_error ''Google token response did not include a valid subject''))
   | _ \<Rightarrow> Inl (google_error ''Google token response included a malformed ID token''))"

definition validate_google_subject_consistency :: "google_api \<Rightarrow> string option \<Rightarrow> string \<Rightarrow> app_error + unit" where
  "validate_google_subject_consistency g id_token userinfo_subject = (case id_token of
     None \<Rightarrow> Inr ()
   | Some t \<Rightarrow> (case extract_google_id_token_subject g t of
       Inl err \<Rightarrow> Inl err
     | Inr token_subject \<Rightarrow>
         if token_subject \<noteq> userinfo_subject
         then Inl (google_error ''Google token subject did not match the user info response'') else Inr ()))"

definition google_provider :: "string \<Rightarrow> database \<Rightarrow> auth_provider option" where
  "google_provider subject d =
     find (\<lambda>a. ap_provider a = ''google'' \<and> ap_provider_user_id a = Some subject) (auth_providers d)"

text \<open>The changes of an account that Google vouches for.\<close>

definition link_google :: "string option \<Rightarrow> user \<Rightarrow> user" where
  "link_google picture u = u\<lparr>u_is_email_verified := True,
     u_profile_photo_url := (case picture of None \<Rightarrow> u_profile_photo_url u | Some p \<Rightarrow> Some p)\<rparr>"

definition add_google_provider :: "time \<Rightarrow> uuid \<Rightarrow> string \<Rightarrow> uuid \<Rightarrow> database \<Rightarrow> app_error + database" where
  "add_google_provider now pid subject user_id d =
     insert_auth_provider (new_auth_provider now pid ''google'' (Some subject) user_id ''Google'') d"

text \<open>\<open>uid\<close> and \<open>pid\<close> are the row ids drawn for a new user and a new provider.\<close>

definition upsert_google_user :: "time \<Rightarrow> uuid \<Rightarrow> uuid \<Rightarrow> google_user_info \<Rightarrow> database \<Rightarrow>
    app_error + (user \<times> bool) \<times> database" where
  "upsert_google_user now uid pid info d =
     (case google_provider (gi_sub info) d of
        Some provider \<Rightarrow> (case get_user (ap_user_id provider) d of
            None \<Rightarrow> Inl (google_error ''Linked Google account references a missing user'')
          | Some user \<Rightarrow> Inr ((user, False), d))
      | None \<Rightarrow> (case user_by_email (gi_email info) d of
            None \<Rightarrow>
              (let (first_name, last_name) = (if py_strip (gi_name info) \<noteq> [] then first_word (gi_name info)
                     else (hd (py_split (CHR ''@'') (gi_email info)), None));
                   user = new_user now uid first_name last_name (gi_email info) None True (gi_picture info)
               in case insert_user user d of
                   Inl err \<Rightarrow> Inl err
                 | Inr d \<Rightarrow> (case add_google_provider now pid (gi_sub info) uid d of
                     Inl err \<Rightarrow> Inl err | Inr d \<Rightarrow> Inr ((user, True), d)))
          | Some user \<Rightarrow>
              if u_password_hash user \<noteq> None \<and> \<not> u_is_email_verified user
              then Inl (GoogleOAuthError (''An unverified password account already exists for this email. ''
                @ ''Please sign in with your password and verify your email before linking Google.'') 409)
              else (case save_user now (u_id user) (link_google (gi_picture info)) d of
                  Inl err \<Rightarrow> Inl err
                | Inr d \<Rightarrow> (case add_google_provider now pid (gi_sub info) (u_id user) d of
                    Inl err \<Rightarrow> Inl err
                  | Inr d \<Rightarrow> Inr ((orm_user now (link_google (gi_picture info)) user, False), d)))))"

definition authenticate_with_google :: "'r env \<Rightarrow> google_api \<Rightarrow> time \<Rightarrow> uuid \<Rightarrow> uuid \<Rightarrow> string \<Rightarrow> string \<Rightarrow>
    'r world \<Rightarrow> (app_error + user \<times> bool) \<times> 'r world" where
  "authenticate_with_google e g now uid pid code state w =
     (let (state_is_valid, r) = get_google_oauth_state e now state (kv w); w = w\<lparr>kv := r\<rparr> in
      if \<not> state_is_valid then (Inl (google_error ''Invalid or expired Google OAuth state''), w)
      else (case exchange_google_code g code of
          Inl err \<Rightarrow> (Inl err, w)
        | Inr (access_token, id_token) \<Rightarrow> (case fetch_google_user_info g access_token of
            Inl err \<Rightarrow> (Inl err, w)
          | Inr user_info \<Rightarrow> (case validate_google_subject_consistency g id_token (gi_sub user_info) of
              Inl err \<Rightarrow> (Inl err, w)
            | Inr _ \<Rightarrow> (case upsert_google_user now uid pid user_info (db w) of
                Inl err \<Rightarrow> (Inl err, w)
              | Inr (r, d) \<Rightarrow> (Inr r, w\<lparr>db := d\<rparr>))))))"

section \<open>Lemmas\<close>

lemma link_google_id [simp]: "u_id (link_google p u) = u_id u" "u_email (link_google p u) = u_email u"
  by (simp_all add: link_google_def)

lemma upsert_google_user_wf:
  assumes "db_wf d" "upsert_google_user now uid pid info d = Inr (r, d')"
  shows "db_wf d'"
proof (cases "google_provider (gi_sub info) d")
  case (Some p)
  then show ?thesis using assms by (auto simp: upsert_google_user_def split: option.splits)
next
  case None
  show ?thesis
  proof (cases "user_by_email (gi_email info) d")
    case new: None
    obtain us d1 where "insert_user us d = Inr d1" "add_google_provider now pid (gi_sub info) uid d1 = Inr d'"
      using assms(2) None new by (auto simp: upsert_google_user_def Let_def split: prod.splits sum.splits)
    then show ?thesis using insert_user_wf [OF assms(1)] insert_auth_provider_wf unfolding add_google_provider_def by blast
  next
    case (Some u)
    obtain d1 where "save_user now (u_id u) (link_google (gi_picture info)) d = Inr d1"
      "add_google_provider now pid (gi_sub info) (u_id u) d1 = Inr d'"
      using assms(2) None Some by (auto simp: upsert_google_user_def split: sum.splits if_splits)
    then show ?thesis using save_user_wf [OF assms(1)] insert_auth_provider_wf unfolding add_google_provider_def by (metis link_google_id(1))
  qed
qed

lemma authenticate_with_google_wf:
  "db_wf (db w) \<Longrightarrow> db_wf (db (snd (authenticate_with_google e g now uid pid code state w)))"
  by (auto simp: authenticate_with_google_def Let_def dest: upsert_google_user_wf split: prod.split sum.split)

end
