(* ===== verification/Google_Facts.thy ===== *)
theory Google_Facts
  imports Google Account_Facts
begin

text \<open>
  The guarantee of the Google flow: what a successful sign in with Google implies, and that the
  account found once is found again.
\<close>

lemma find_google_after:
  assumes "google_provider subject d = None" "add_google_provider now pid subject uid d = Inr d'"
  shows "google_provider subject d' = Some (new_auth_provider now pid ''google'' (Some subject) uid ''Google'')"
    and "users d' = users d"
proof -
  have "auth_providers d' = auth_providers d @ [new_auth_provider now pid ''google'' (Some subject) uid ''Google'']"
    using assms(2) by (auto simp: add_google_provider_def insert_auth_provider_def)
  then show "google_provider subject d' = Some (new_auth_provider now pid ''google'' (Some subject) uid ''Google'')"
    using assms(1) by (simp add: google_provider_def find_none_iff find_append_none new_auth_provider_def)
  show "users d' = users d" using assms(2) by (auto simp: add_google_provider_def insert_auth_provider_def)
qed

lemma get_user_iff: "db_wf d \<Longrightarrow> get_user uid d = Some u \<longleftrightarrow> u \<in> set (users d) \<and> u_id u = uid"
  by (auto simp: get_user_def db_wf_def users_ok_def find_unique dest: find_set)

text \<open>A new account, an account found by its address, or the account already linked.\<close>

lemma upsert_google_user_cases:
  assumes "db_wf d" "upsert_google_user now uid pid info d = Inr ((u, new), d')"
  obtains (linked) p where "google_provider (gi_sub info) d = Some p" "get_user (ap_user_id p) d = Some u" "\<not> new" "d' = d"
  | (created) d1 f l where "google_provider (gi_sub info) d = None" "user_by_email (gi_email info) d = None" "new"
      "u = new_user now uid f l (gi_email info) None True (gi_picture info)" "insert_user u d = Inr d1"
      "add_google_provider now pid (gi_sub info) (u_id u) d1 = Inr d'"
  | (joined) v d1 where "google_provider (gi_sub info) d = None" "user_by_email (gi_email info) d = Some v" "\<not> new"
      "u_password_hash v = None \<or> u_is_email_verified v" "save_user now (u_id v) (link_google (gi_picture info)) d = Inr d1"
      "u = orm_user now (link_google (gi_picture info)) v" "add_google_provider now pid (gi_sub info) (u_id u) d1 = Inr d'"
proof (cases "google_provider (gi_sub info) d")
  case (Some p)
  then show ?thesis using assms(2) linked by (auto simp: upsert_google_user_def split: option.splits)
next
  case none: None
  show ?thesis
  proof (cases "user_by_email (gi_email info) d")
    case None
    obtain f l where fl: "(if py_strip (gi_name info) \<noteq> [] then first_word (gi_name info)
                     else (hd (py_split (CHR ''@'') (gi_email info)), None)) = (f, l)" by (meson surj_pair)
    let ?u = "new_user now uid f l (gi_email info) None True (gi_picture info)"
    obtain d1 where "insert_user ?u d = Inr d1" "add_google_provider now pid (gi_sub info) uid d1 = Inr d'" "u = ?u" new
      using assms(2) none None fl by (auto simp: upsert_google_user_def Let_def split: sum.splits)
    then show ?thesis using created none None by (simp add: new_user_def)
  next
    case (Some v)
    then show ?thesis using assms(2) none joined
      by (auto simp: upsert_google_user_def split: sum.splits if_splits)
  qed
qed

lemma upsert_google_user_linked:
  assumes "db_wf d" "upsert_google_user now uid pid info d = Inr ((u, new), d')"
  shows "\<exists>p. google_provider (gi_sub info) d' = Some p \<and> ap_user_id p = u_id u \<and> get_user (u_id u) d' = Some u"
  using assms
proof (cases rule: upsert_google_user_cases)
  case (linked p)
  then show ?thesis using get_user_id by auto
next
  case (created d1 f l)
  have "db_wf d'" using upsert_google_user_wf [OF assms] .
  moreover have "google_provider (gi_sub info) d1 = None"
    using created(1,5) by (auto simp: google_provider_def insert_user_def)
  note after = find_google_after [OF this created(6)]
  moreover have "u \<in> set (users d')" using created(5) after(2) by (auto simp: insert_user_def)
  ultimately show ?thesis using get_user_iff by (auto simp: new_auth_provider_def)
next
  case (joined v d1)
  have "google_provider (gi_sub info) d1 = None"
    using joined(1,5) by (auto simp: google_provider_def save_user_def Let_def)
  note after = find_google_after [OF this joined(7)]
  have "get_user (u_id v) d = Some v" using user_by_emailD [OF joined(2)] get_user_iff [OF assms(1)] by blast
  from save_user_get [OF joined(5) this] have "get_user (u_id u) d1 = Some u" using joined(6) by simp
  then have "get_user (u_id u) d' = Some u" using after(2) by (simp add: get_user_def)
  then show ?thesis using after by (simp add: new_auth_provider_def)
qed

text \<open>C22. Signing in with Google: it succeeds only with a state that is pending, which is spent by the attempt;
  the account is the one linked to the Google identity, and every later sign in with that identity finds it
  again, whatever its address or name have become; an account with a password is linked by its address only
  if that address was verified; and nobody else's account changes.\<close>

theorem google_signin:
  assumes "sound_env e view" "db_wf (db w)"
    and "authenticate_with_google e g now uid pid code state w = (Inr (u, new), w')"
  shows "fst (get_google_oauth_state e now state (kv w))
    \<and> fst (authenticate_with_google e g' now' uid' pid' code' state w') = Inl (google_error ''Invalid or expired Google OAuth state'')
    \<and> (\<exists>t i info. exchange_google_code g code = Inr (t, i) \<and> fetch_google_user_info g t = Inr info
        \<and> get_user (u_id u) (db w') = Some u
        \<and> upsert_google_user now' uid' pid' (info\<lparr>gi_email := m', gi_name := n', gi_picture := pic'\<rparr>) (db w') = Inr ((u, False), db w')
        \<and> (google_provider (gi_sub info) (db w) = None \<longrightarrow>
            (\<forall>v. user_by_email (gi_email info) (db w) = Some v \<longrightarrow> u_id v = u_id u \<and> (u_password_hash v = None \<or> u_is_email_verified v)) \<and>
            (user_by_email (gi_email info) (db w) = None \<longleftrightarrow> new) \<and> u_is_email_verified u))
    \<and> (\<forall>x\<in>set (users (db w)). u_id x \<noteq> u_id u \<longrightarrow> x \<in> set (users (db w')))"
proof -
  obtain t i info d where steps: "fst (get_google_oauth_state e now state (kv w))" "exchange_google_code g code = Inr (t, i)"
    "fetch_google_user_info g t = Inr info" "upsert_google_user now uid pid info (db w) = Inr ((u, new), d)"
    "w' = w\<lparr>kv := snd (get_google_oauth_state e now state (kv w)), db := d\<rparr>"
    using assms(3) by (auto simp: authenticate_with_google_def Let_def split: prod.splits sum.splits if_splits)
  have "\<not> fst (get_google_oauth_state e now' state (kv w'))"
    using token_stores.get_google_oauth_state [OF sound_env.axioms(1) [OF assms(1)]] steps(5) by simp
  then have spent: "fst (authenticate_with_google e g' now' uid' pid' code' state w')
      = Inl (google_error ''Invalid or expired Google OAuth state'')"
    by (auto simp: authenticate_with_google_def Let_def split: prod.split)
  from upsert_google_user_linked [OF assms(2) steps(4)] obtain p where p: "google_provider (gi_sub info) (db w') = Some p"
    "ap_user_id p = u_id u" "get_user (u_id u) (db w') = Some u" using steps(5) by auto
  then have again: "upsert_google_user now' uid' pid' (info\<lparr>gi_email := m', gi_name := n', gi_picture := pic'\<rparr>) (db w')
      = Inr ((u, False), db w')" by (simp add: upsert_google_user_def)
  have rest: "(google_provider (gi_sub info) (db w) = None \<longrightarrow>
            (\<forall>v. user_by_email (gi_email info) (db w) = Some v \<longrightarrow> u_id v = u_id u \<and> (u_password_hash v = None \<or> u_is_email_verified v)) \<and>
            (user_by_email (gi_email info) (db w) = None \<longleftrightarrow> new) \<and> u_is_email_verified u)
    \<and> (\<forall>x\<in>set (users (db w)). u_id x \<noteq> u_id u \<longrightarrow> x \<in> set (users d))"
    using assms(2) steps(4)
  proof (cases rule: upsert_google_user_cases)
    case (created d1 f l)
    then show ?thesis using find_google_after(2) [OF _ created(6)]
      by (auto simp: new_user_def insert_user_def add_google_provider_def insert_auth_provider_def)
  next
    case (joined v d1)
    then have "users d = users d1" by (auto simp: add_google_provider_def insert_auth_provider_def)
    then show ?thesis using joined save_user_others [OF joined(5)] by (simp add: link_google_def)
  qed auto
  have "\<exists>t i info. exchange_google_code g code = Inr (t, i) \<and> fetch_google_user_info g t = Inr info
        \<and> get_user (u_id u) (db w') = Some u
        \<and> upsert_google_user now' uid' pid' (info\<lparr>gi_email := m', gi_name := n', gi_picture := pic'\<rparr>) (db w') = Inr ((u, False), db w')
        \<and> (google_provider (gi_sub info) (db w) = None \<longrightarrow>
            (\<forall>v. user_by_email (gi_email info) (db w) = Some v \<longrightarrow> u_id v = u_id u \<and> (u_password_hash v = None \<or> u_is_email_verified v)) \<and>
            (user_by_email (gi_email info) (db w) = None \<longleftrightarrow> new) \<and> u_is_email_verified u)"
    by (rule exI [of _ t], rule exI [of _ i], rule exI [of _ info]) (use steps(2,3) p(3) again rest in blast)
  moreover have "\<forall>x\<in>set (users (db w)). u_id x \<noteq> u_id u \<longrightarrow> x \<in> set (users (db w'))"
    using rest steps(5) by simp
  ultimately show ?thesis using steps(1) spent by blast
qed

definition demo_google :: google_api where
  "demo_google = \<lparr>ga_token = (\<lambda>c. HttpBody (Some (JObj [(''access_token'', JStr ''at''), (''id_token'', JNull)]))),
     ga_user_info = (\<lambda>a. HttpBody (Some (JObj [(''sub'', JStr ''g1''), (''email'', JStr ''ann@x.io''),
       (''email_verified'', JBool True), (''name'', JStr ''Ann Lee'')]))),
     ga_segment = (\<lambda>s. None)\<rparr>"

definition demo_google_world :: "redis_view world" where
  "demo_google_world = demo_world demo_db\<lparr>kv := store_google_oauth_state demo_env 0 ''st'' (\<lambda>k. None)\<rparr>"

lemma demo_google_runs:
  "\<exists>u w'. authenticate_with_google demo_env demo_google 5 11 12 ''code'' ''st'' demo_google_world = (Inr (u, False), w')"
proof -
  have state: "fst (get_google_oauth_state demo_env 5 ''st'' (kv demo_google_world))"
    by (simp add: demo_google_world_def demo.view_store_google_oauth_state)
  have ex: "exchange_google_code demo_google ''code'' = Inr (''at'', None)"
    by (simp add: exchange_google_code_def demo_google_def json_get_def non_empty_str_def)
  have name: "py_strip ''Ann Lee'' = ''Ann Lee''" by code_simp
  have info: "fetch_google_user_info demo_google ''at'' = Inr \<lparr>gi_sub = ''g1'', gi_email = ''ann@x.io'', gi_name = ''Ann Lee'', gi_picture = None\<rparr>"
    by (simp add: fetch_google_user_info_def demo_google_def json_get_def non_empty_str_def name)
  have "db demo_google_world = demo_db" by (simp add: demo_google_world_def)
  moreover have "google_provider ''g1'' demo_db = None" "user_by_email ''ann@x.io'' demo_db = Some demo_user"
    by (simp_all add: google_provider_def user_by_email_def demo_db_def empty_db_def demo_user_def)
  moreover have "\<exists>d. save_user 5 1 (link_google None) demo_db = Inr d \<and> auth_providers d = [] \<and> 1 \<in> u_id ` set (users d)"
    by (simp add: save_user_def Let_def update_where_def orm_user_def link_google_def checked_def user_fits_def
        demo_user_def demo_db_def empty_db_def fits_def fits_opt_def unique_on_def demo_hashpw_def)
  ultimately have "\<exists>u d. upsert_google_user 5 11 12 \<lparr>gi_sub = ''g1'', gi_email = ''ann@x.io'', gi_name = ''Ann Lee'', gi_picture = None\<rparr>
      (db demo_google_world) = Inr ((u, False), d)"
    by (auto simp: upsert_google_user_def add_google_provider_def insert_auth_provider_def new_auth_provider_def checked_def fits_def fits_opt_def)
  moreover obtain r where "get_google_oauth_state demo_env 5 ''st'' (kv demo_google_world) = (True, r)"
    using state by (metis prod.collapse)
  ultimately show ?thesis using ex info
    by (auto simp: authenticate_with_google_def Let_def validate_google_subject_consistency_def split: prod.split)
qed

theorem google_signin_witness:
  "\<exists>u w'. authenticate_with_google demo_env demo_google 5 11 12 ''code'' ''st'' demo_google_world = (Inr (u, False), w')
    \<and> fst (authenticate_with_google demo_env demo_google 6 13 14 ''code'' ''st'' w')
      = Inl (google_error ''Invalid or expired Google OAuth state'')"
proof -
  obtain u w' where a: "authenticate_with_google demo_env demo_google 5 11 12 ''code'' ''st'' demo_google_world = (Inr (u, False), w')"
    using demo_google_runs by blast
  have "db_wf (db demo_google_world)" using demo_db_wf by (simp add: demo_google_world_def)
  from google_signin [where view = "\<lambda>r. r" and e = demo_env and w = demo_google_world and w' = w' and now = 5
      and g = demo_google and code = "''code''" and uid = 11 and pid = 12 and state = "''st''" and u = u and new = False
      and g' = demo_google and now' = 6 and uid' = 13 and pid' = 14 and code' = "''code''", OF sound_env_demo this a]
  show ?thesis using a by blast
qed

end
