(* ===== verification/Profile.thy ===== *)
theory Profile
  imports Badges Auth Web
begin

text \<open>
  Profiles: the functions of \<open>app/services/profile.py\<close>.  \<open>user\<close> is the row the authentication gate
  loaded in the same session.
\<close>

section \<open>Cloudinary addresses\<close>

text \<open>\<open>parts.index("upload")\<close> and what follows it; \<open>None\<close> is the \<open>ValueError\<close>.\<close>

fun after_upload :: "string list \<Rightarrow> string list option" where
  "after_upload [] = None"
| "after_upload (p # ps) = (if p = ''upload'' then Some ps else after_upload ps)"

definition is_version :: "string \<Rightarrow> bool" where
  "is_version p = (case p of [] \<Rightarrow> False | c # r \<Rightarrow> c = CHR ''v'' \<and> r \<noteq> [] \<and> list_all py_isdigit r)"

definition drop_extension :: "string \<Rightarrow> string" where
  "drop_extension p = (if CHR ''.'' \<in> set p then fst (split_last (CHR ''.'') p) else p)"

definition extract_cloudinary_public_id :: "string \<Rightarrow> string option" where
  "extract_cloudinary_public_id url = (case urlparse_path url of
     None \<Rightarrow> None
   | Some path \<Rightarrow>
       (let path_parts = filter (\<lambda>p. p \<noteq> []) (py_split (CHR ''/'') path) in
        case after_upload path_parts of
          None \<Rightarrow> None
        | Some [] \<Rightarrow> None
        | Some parts \<Rightarrow>
            (let parts = (if is_version (hd parts) then tl parts else parts) in
             if parts = [] then None
             else Some (unquote (py_join ''/'' (butlast parts @ [drop_extension (last parts)]))))))"

text \<open>\<open>if url: ..\<close>, where the column may be null or empty.\<close>

definition public_id_of :: "string option \<Rightarrow> string option" where
  "public_id_of url = (case url of Some (c # s) \<Rightarrow> extract_cloudinary_public_id (c # s) | _ \<Rightarrow> None)"

definition delete_if_any :: "'r env \<Rightarrow> string option \<Rightarrow> 'r world \<Rightarrow> 'r world" where
  "delete_if_any e public_id w = (case public_id of Some (c # s) \<Rightarrow> snd (delete_asset e (c # s) w) | _ \<Rightarrow> w)"

section \<open>Photo and text fields\<close>

definition set_photo :: "string option \<Rightarrow> user \<Rightarrow> user" where
  "set_photo url u = u\<lparr>u_profile_photo_url := url\<rparr>"

definition update_profile_photo :: "'r env \<Rightarrow> time \<Rightarrow> uuid \<Rightarrow> user \<Rightarrow> bytes \<Rightarrow> 'r world \<Rightarrow> (app_error + user) \<times> 'r world" where
  "update_profile_photo e now draw user photo_data w =
     (let old_public_id = public_id_of (u_profile_photo_url user) in
      case upload_logo e draw photo_data w of
        (Inl err, w) \<Rightarrow> (Inl err, w)
      | (Inr (url, public_id), w) \<Rightarrow>
          (case save_user now (u_id user) (set_photo (Some url)) (db w) of
             Inl err \<Rightarrow> (Inl err, w)
           | Inr d \<Rightarrow> (Inr (orm_user now (set_photo (Some url)) user), delete_if_any e old_public_id (w\<lparr>db := d\<rparr>))))"

definition remove_profile_photo :: "'r env \<Rightarrow> time \<Rightarrow> user \<Rightarrow> 'r world \<Rightarrow> (app_error + user) \<times> 'r world" where
  "remove_profile_photo e now user w =
     (if u_profile_photo_url user = None \<or> u_profile_photo_url user = Some [] then (Inr user, w)
      else (let public_id = public_id_of (u_profile_photo_url user) in
        case save_user now (u_id user) (set_photo None) (db w) of
          Inl err \<Rightarrow> (Inl err, w)
        | Inr d \<Rightarrow> (Inr (orm_user now (set_photo None) user), delete_if_any e public_id (w\<lparr>db := d\<rparr>))))"

definition apply_profile :: "string option \<Rightarrow> string option \<Rightarrow> string option \<Rightarrow> string option \<Rightarrow> user \<Rightarrow> user" where
  "apply_profile first_name last_name email role u = u\<lparr>
     u_first_name := or_else first_name (u_first_name u),
     u_last_name := (if last_name = None then u_last_name u else last_name),
     u_email := or_else email (u_email u),
     u_role := (if role = None then u_role u else role)\<rparr>"

definition update_profile :: "time \<Rightarrow> user \<Rightarrow> string option \<Rightarrow> string option \<Rightarrow> string option \<Rightarrow> string option \<Rightarrow>
    'r world \<Rightarrow> (app_error + user) \<times> 'r world" where
  "update_profile now user first_name last_name email role w =
     (let f = apply_profile first_name last_name email role in
      case save_user now (u_id user) f (db w) of
        Inl err \<Rightarrow> (Inl err, w)
      | Inr d \<Rightarrow> (Inr (orm_user now f user), w\<lparr>db := d\<rparr>))"

section \<open>Deleting an account\<close>

definition badge_assets :: "badge \<Rightarrow> string list" where
  "badge_assets b = (case b_logo_public_id b of Some (c # s) \<Rightarrow> [c # s] | _ \<Rightarrow> [])
     @ (case public_id_of (b_thumbnail_url b) of Some (c # s) \<Rightarrow> [c # s] | _ \<Rightarrow> [])"

definition public_ids_to_delete :: "uuid \<Rightarrow> database \<Rightarrow> string list" where
  "public_ids_to_delete user_id d =
     (case get_user user_id d of None \<Rightarrow> []
      | Some user \<Rightarrow> (case public_id_of (u_profile_photo_url user) of Some (c # s) \<Rightarrow> [c # s] | _ \<Rightarrow> []))
     @ concat (map badge_assets (filter (\<lambda>b. b_organiser_id b = user_id) (badges d)))"

text \<open>\<open>gather(.., return_exceptions=True)\<close>: every asset is tried, errors are logged.\<close>

definition delete_assets :: "'r env \<Rightarrow> string list \<Rightarrow> 'r world \<Rightarrow> 'r world" where
  "delete_assets e pids w = fold (\<lambda>pid w. snd (delete_asset e pid w)) pids w"

definition delete_profile :: "'r env \<Rightarrow> time \<Rightarrow> uuid \<Rightarrow> string option \<Rightarrow> string option \<Rightarrow> 'r world \<Rightarrow> 'r world" where
  "delete_profile e now user_id access_token refresh_token w =
     (let pids = public_ids_to_delete user_id (db w);
          w = w\<lparr>db := delete_user user_id (db w)\<rparr>;
          w = delete_assets e pids w
      in logout_session e now refresh_token access_token w)"

section \<open>Changing the password\<close>

record change_password_request =
  cp_current_password :: string
  cp_new_password :: string
  cp_confirm_password :: string

definition change_password :: "'r env \<Rightarrow> time \<Rightarrow> bytes \<Rightarrow> user \<Rightarrow> change_password_request \<Rightarrow> string option \<Rightarrow>
    string option \<Rightarrow> 'r world \<Rightarrow> (app_error + unit) \<times> 'r world" where
  "change_password e now salt user payload access_token refresh_token w =
     (if (case u_password_hash user of None \<Rightarrow> True
          | Some h \<Rightarrow> h = [] \<or> \<not> verify_password e (cp_current_password payload) h)
      then (Inl InvalidCredentialsError, w)
      else (case hash_password e salt (cp_new_password payload) of
          Inl err \<Rightarrow> (Inl err, w)
        | Inr h \<Rightarrow> (case save_user now (u_id user) (u_password_hash_update (\<lambda>_. Some h)) (db w) of
            Inl err \<Rightarrow> (Inl err, w)
          | Inr d \<Rightarrow> (Inr (), logout_session e now refresh_token access_token (w\<lparr>db := d\<rparr>)))))"

section \<open>Lemmas\<close>

lemma delete_asset_frame [simp]: "db (snd (delete_asset e p w)) = db w" "kv (snd (delete_asset e p w)) = kv w"
  by (simp_all add: delete_asset_def delete_sync_def configure_cloudinary_def Let_def)

lemma delete_if_any_frame [simp]: "db (delete_if_any e p w) = db w" "kv (delete_if_any e p w) = kv w"
  by (simp_all add: delete_if_any_def split: option.split list.split)

lemma delete_assets_frame [simp]: "db (delete_assets e ps w) = db w" "kv (delete_assets e ps w) = kv w"
  unfolding delete_assets_def by (induction ps arbitrary: w) simp_all

lemma set_photo_id [simp]: "u_id (set_photo p u) = u_id u"
  by (simp add: set_photo_def)

lemma apply_profile_id [simp]: "u_id (apply_profile a b c r u) = u_id u"
  by (simp add: apply_profile_def)

end
