(* ===== verification/Profile_Facts.thy ===== *)
theory Profile_Facts
  imports Profile Badge_Claims Google_Facts
begin

text \<open>
  The guarantees of profiles: the operations keep the database well formed, deleting an account
  removes everything that belongs to it and nothing else, and the identifier of an uploaded photo is
  recovered from its address.
\<close>

section \<open>The operations keep the database well formed\<close>

lemma update_profile_wf: "db_wf (db w) \<Longrightarrow> db_wf (db (snd (update_profile now u a b c r w)))"
  by (auto simp: update_profile_def Let_def intro: save_user_wf split: sum.split)

lemma update_profile_photo_wf:
  assumes "db_wf (db w)"
  shows "db_wf (db (snd (update_profile_photo e now dr u img w)))"
  using assms
  by (auto simp: update_profile_photo_def Let_def dest!: upload_logo_db intro: save_user_wf split: sum.split prod.split)

lemma remove_profile_photo_wf: "db_wf (db w) \<Longrightarrow> db_wf (db (snd (remove_profile_photo e now u w)))"
  by (auto simp: remove_profile_photo_def Let_def intro: save_user_wf split: sum.split)

lemma delete_profile_wf: "db_wf (db w) \<Longrightarrow> db_wf (db (delete_profile e now u a r w))"
  by (simp add: delete_profile_def Let_def logout_wf delete_user_wf)

lemma change_password_wf: "db_wf (db w) \<Longrightarrow> db_wf (db (snd (change_password e now salt u p a r w)))"
  by (auto simp: change_password_def intro!: logout_wf intro: save_user_wf split: sum.split)

section \<open>What a deletion leaves\<close>

lemma logout_tables:
  "users (db (logout_session e now r a w)) = users (db w)" "badges (db (logout_session e now r a w)) = badges (db w)"
  "badge_hashtags (db (logout_session e now r a w)) = badge_hashtags (db w)"
  "auth_providers (db (logout_session e now r a w)) = auth_providers (db w)"
  "notifications (db (logout_session e now r a w)) = notifications (db w)"
  "preferences (db (logout_session e now r a w)) = preferences (db w)"
  "user_roles (db (logout_session e now r a w)) = user_roles (db w)"
  "platform_templates (db (logout_session e now r a w)) = platform_templates (db w)"
  "cdn_log (logout_session e now r a w) = cdn_log w"
  by (auto simp: logout_session_def Let_def revoke_where_def split: option.split)

lemma logout_tokens_of:
  "uid \<notin> rt_user_id ` set (refresh_tokens (db w)) \<Longrightarrow> uid \<notin> rt_user_id ` set (refresh_tokens (db (logout_session e now r a w)))"
  by (auto simp: logout_session_def Let_def revoke_where_def set_update_where split: option.splits if_splits)

lemma delete_assets_log:
  assumes "configure_cloudinary (cfg e) = Inr ()"
  shows "cdn_log (delete_assets e ps w) = cdn_log w @ map CdnDestroy ps"
proof -
  have "cdn_log (snd (delete_asset e p w)) = cdn_log w @ [CdnDestroy p]" for p and w :: "'a world"
    using assms by (simp add: delete_asset_def delete_sync_def Let_def)
  then show ?thesis unfolding delete_assets_def by (induction ps arbitrary: w) simp_all
qed

definition owned_rows_gone :: "uuid \<Rightarrow> database \<Rightarrow> bool" where
  "owned_rows_gone uid d = (uid \<notin> u_id ` set (users d) \<and> uid \<notin> ap_user_id ` set (auth_providers d)
     \<and> uid \<notin> rt_user_id ` set (refresh_tokens d) \<and> uid \<notin> b_organiser_id ` set (badges d)
     \<and> uid \<notin> n_user_id ` set (notifications d) \<and> uid \<notin> np_user_id ` set (preferences d)
     \<and> uid \<notin> ur_user_id ` set (user_roles d) \<and> bh_badge_id ` set (badge_hashtags d) \<subseteq> b_id ` set (badges d))"

lemma delete_profile_db:
  "\<exists>w1. delete_profile e now uid a r w = logout_session e now r a w1 \<and> db w1 = delete_user uid (db w)
    \<and> (configure_cloudinary (cfg e) = Inr () \<longrightarrow> cdn_log w1 = cdn_log w @ map CdnDestroy (public_ids_to_delete uid (db w)))"
  unfolding delete_profile_def Let_def by (rule exI, rule conjI [OF refl]) (simp add: delete_assets_log)

text \<open>The tokens of others: only the one presented with the request may be revoked, by the log out at the end.\<close>

definition presented :: "'r env \<Rightarrow> string option \<Rightarrow> refresh_token \<Rightarrow> bool" where
  "presented e r t = (case r of None \<Rightarrow> False | Some raw \<Rightarrow> rt_token_hash t = hash_token e raw)"

lemma logout_spares:
  assumes "tokens_ok U (refresh_tokens (db w))"
  shows "db (logout_session e now r a w) = (db w)\<lparr>refresh_tokens := refresh_tokens (db (logout_session e now r a w))\<rparr>"
    and "filter (\<lambda>t. \<not> presented e r t) (refresh_tokens (db (logout_session e now r a w)))
      = filter (\<lambda>t. \<not> presented e r t) (refresh_tokens (db w))"
proof -
  show "db (logout_session e now r a w) = (db w)\<lparr>refresh_tokens := refresh_tokens (db (logout_session e now r a w))\<rparr>"
    by (simp add: logout_session_def Let_def revoke_where_def split: option.split)
  have spared: "filter P (update_where (\<lambda>t. rt_id t = rt_id x) (rt_is_revoked_update (\<lambda>_. True)) ts) = filter P ts"
    if x: "\<And>t. t \<in> set ts \<Longrightarrow> rt_id t = rt_id x \<Longrightarrow> \<not> P t \<and> \<not> P (t\<lparr>rt_is_revoked := True\<rparr>)" for P x ts
    using x by (induction ts) (auto simp: update_where_def)
  show "filter (\<lambda>t. \<not> presented e r t) (refresh_tokens (db (logout_session e now r a w)))
      = filter (\<lambda>t. \<not> presented e r t) (refresh_tokens (db w))"
  proof (cases "\<exists>raw x. r = Some raw \<and> raw \<noteq> [] \<and> token_by_hash (hash_token e raw) (db w) = Some x \<and> \<not> rt_is_revoked x")
    case True
    then obtain raw x where x: "r = Some raw" "raw \<noteq> []" "token_by_hash (hash_token e raw) (db w) = Some x" "\<not> rt_is_revoked x" by blast
    then have m: "x \<in> set (refresh_tokens (db w))" "rt_token_hash x = hash_token e raw"
      using find_set [OF x(3) [unfolded token_by_hash_def]] by auto
    have same: "t = x" if "t \<in> set (refresh_tokens (db w))" "rt_id t = rt_id x" for t
      using assms that m(1) unique_onD [of rt_id "refresh_tokens (db w)" t x] by (simp add: tokens_ok_def)
    then have "presented e r t \<and> presented e r (t\<lparr>rt_is_revoked := True\<rparr>)" if "t \<in> set (refresh_tokens (db w))" "rt_id t = rt_id x" for t
      using same [OF that] m x(1) by (simp add: presented_def)
    then have "filter (\<lambda>t. \<not> presented e r t) (update_where (\<lambda>t. rt_id t = rt_id x) (rt_is_revoked_update (\<lambda>_. True)) (refresh_tokens (db w)))
      = filter (\<lambda>t. \<not> presented e r t) (refresh_tokens (db w))" by (intro spared) auto
    then show ?thesis using x by (simp add: logout_session_def revoke_where_def Let_def)
  next
    case False
    then have "refresh_tokens (db (logout_session e now r a w)) = refresh_tokens (db w)"
      by (auto simp: logout_session_def Let_def split: option.split)
    then show ?thesis by simp
  qed
qed

text \<open>The images of an account: its photo and, of each of its badges, published or not, deleted or not, the logo and the thumbnail.\<close>

definition image_of :: "uuid \<Rightarrow> database \<Rightarrow> string \<Rightarrow> bool" where
  "image_of uid d p = (p \<noteq> [] \<and> ((\<exists>u\<in>set (users d). u_id u = uid \<and> public_id_of (u_profile_photo_url u) = Some p)
     \<or> (\<exists>b\<in>set (badges d). b_organiser_id b = uid \<and> (b_logo_public_id b = Some p \<or> public_id_of (b_thumbnail_url b) = Some p))))"

lemma set_some_string [simp]: "set (case v of Some (c # s) \<Rightarrow> [c # s] | _ \<Rightarrow> []) = {p. p \<noteq> [] \<and> v = Some p}"
  by (auto simp: neq_Nil_conv split: option.split list.split)

lemma set_badge_assets: "p \<in> set (badge_assets b) \<longleftrightarrow> p \<noteq> [] \<and> (b_logo_public_id b = Some p \<or> public_id_of (b_thumbnail_url b) = Some p)"
  unfolding badge_assets_def set_append set_some_string by blast

lemma images_collected:
  assumes "db_wf d"
  shows "set (public_ids_to_delete uid d) = Collect (image_of uid d)"
proof -
  have user: "set (case get_user uid d of None \<Rightarrow> [] | Some user \<Rightarrow> (case public_id_of (u_profile_photo_url user) of Some (c # s) \<Rightarrow> [c # s] | _ \<Rightarrow> []))
      = {p. p \<noteq> [] \<and> (\<exists>u\<in>set (users d). u_id u = uid \<and> public_id_of (u_profile_photo_url u) = Some p)}"
  proof (cases "get_user uid d")
    case None
    then have "\<forall>u\<in>set (users d). u_id u \<noteq> uid" by (simp add: get_user_def find_none_iff)
    with None show ?thesis by auto
  next
    case (Some x)
    then have "x \<in> set (users d)" "u_id x = uid" by (auto simp: get_user_def dest: find_set)
    moreover from this have "y = x" if "y \<in> set (users d)" "u_id y = uid" for y
      using that unique_onD [of u_id "users d" y x] assms by (simp add: db_wf_def users_ok_def)
    ultimately have "(\<exists>u\<in>set (users d). u_id u = uid \<and> Q u) = Q x" for Q by blast
    with Some show ?thesis by simp
  qed
  have badges: "set (concat (map badge_assets (filter (\<lambda>b. b_organiser_id b = uid) (badges d))))
      = {p. p \<noteq> [] \<and> (\<exists>b\<in>set (badges d). b_organiser_id b = uid \<and> (b_logo_public_id b = Some p \<or> public_id_of (b_thumbnail_url b) = Some p))}"
    by (auto simp: set_badge_assets)
  show ?thesis unfolding public_ids_to_delete_def set_append user badges image_of_def
    by (rule set_eqI) (simp only: Un_iff mem_Collect_eq conj_disj_distribL)
qed

text \<open>C23. Deleting an account: no row of any table belongs to it any more, its public pages are gone and no token
  opens it.  When Cloudinary is configured, its photo and the logos and thumbnails of all its badges are deleted there, and
  nothing else is.  The rows of others stay as they are in every table, and so do the templates, the subscribers and the roles; only the
  refresh token presented with the request, when it is another account's, is revoked.\<close>

theorem profile_deletion_complete:
  assumes "db_wf (db w)" "w' = delete_profile e now uid a r w"
  shows "owned_rows_gone uid (db w')
    \<and> (\<forall>b\<in>set (badges (db w)). \<forall>s. b_organiser_id b = uid \<and> b_share_slug b = Some s \<longrightarrow>
         get_public_badge_by_slug s (db w') = Inl PublicBadgeNotFoundError)
    \<and> (\<forall>t tok u. get_current_user e t tok w' = Inr u \<longrightarrow> u_id u \<noteq> uid)
    \<and> (configure_cloudinary (cfg e) = Inr () \<longrightarrow>
         (\<exists>ps. cdn_log w' = cdn_log w @ map CdnDestroy ps \<and> (\<forall>p. p \<in> set ps \<longleftrightarrow> image_of uid (db w) p)))
    \<and> filter (\<lambda>t. \<not> presented e r t) (refresh_tokens (db w'))
        = filter (\<lambda>t. \<not> presented e r t) (filter (\<lambda>t. rt_user_id t \<noteq> uid) (refresh_tokens (db w)))
    \<and> db w' = (db w)\<lparr>users := filter (\<lambda>u. u_id u \<noteq> uid) (users (db w)),
        auth_providers := filter (\<lambda>x. ap_user_id x \<noteq> uid) (auth_providers (db w)),
        refresh_tokens := refresh_tokens (db w'),
        badges := filter (\<lambda>b. b_organiser_id b \<noteq> uid) (badges (db w)),
        badge_hashtags := filter (\<lambda>h. \<exists>b\<in>set (badges (db w)). b_id b = bh_badge_id h \<and> b_organiser_id b \<noteq> uid) (badge_hashtags (db w)),
        notifications := filter (\<lambda>n. n_user_id n \<noteq> uid) (notifications (db w)),
        preferences := filter (\<lambda>p. np_user_id p \<noteq> uid) (preferences (db w)),
        user_roles := filter (\<lambda>x. ur_user_id x \<noteq> uid) (user_roles (db w))\<rparr>"
proof -
  obtain w1 where w1: "w' = logout_session e now r a w1" "db w1 = delete_user uid (db w)"
    "configure_cloudinary (cfg e) = Inr () \<longrightarrow> cdn_log w1 = cdn_log w @ map CdnDestroy (public_ids_to_delete uid (db w))"
    using delete_profile_db [of e now uid a r w] assms(2) by metis
  have toks: "refresh_tokens (db w1) = filter (\<lambda>t. rt_user_id t \<noteq> uid) (refresh_tokens (db w))"
    by (simp add: w1(2) delete_user_def delete_where_def)
  have "tokens_ok (user_ids (db w1)) (refresh_tokens (db w1))" using delete_user_wf [OF assms(1), of uid] by (simp add: w1(2) db_wf_def)
  note out = logout_spares [OF this, where e = e and now = now and r = r and a = a, folded w1(1)]
  have rest: "db w' = (delete_user uid (db w))\<lparr>refresh_tokens := refresh_tokens (db w')\<rparr>" using out(1) w1(2) by simp
  have tabs: "users (db w') = delete_where (\<lambda>u. u_id u = uid) (users (db w))"
    "badges (db w') = delete_where (\<lambda>b. b_organiser_id b = uid) (badges (db w))"
    by (simp_all add: w1 logout_tables delete_user_def delete_badges_def Let_def)
  have "uid \<notin> rt_user_id ` set (refresh_tokens (db w1))" by (auto simp: toks)
  then have "uid \<notin> rt_user_id ` set (refresh_tokens (db w'))" unfolding w1(1) by (rule logout_tokens_of)
  then have gone: "owned_rows_gone uid (db w')"
    by (auto simp: owned_rows_gone_def w1(1) logout_tables w1(2) delete_user_def delete_badges_def Let_def)
  have page: "get_public_badge_by_slug s (db w') = Inl PublicBadgeNotFoundError"
    if b: "b \<in> set (badges (db w))" "b_organiser_id b = uid" "b_share_slug b = Some s" for b s
  proof -
    have "\<not> public_where s x" if "x \<in> set (badges (db w'))" for x
      using that tabs(2) slug_unique [OF assms(1) _ b(1) _ b(3)] b(2) by (auto simp: public_where_def)
    then show ?thesis by (simp add: get_public_badge_by_slug_def find_none_iff [THEN iffD2])
  qed
  have gate: "u_id u \<noteq> uid" if "get_current_user e t tok w' = Inr u" for t tok u
    using get_current_user_sound [OF that] tabs(1) by auto
  have cdn: "cdn_log w' = cdn_log w @ map CdnDestroy (public_ids_to_delete uid (db w))" if "configure_cloudinary (cfg e) = Inr ()"
    using that w1 by (simp add: logout_tables)
  have hash: "(bh_badge_id h \<in> b_id ` set (filter (\<lambda>b. b_organiser_id b \<noteq> uid) (badges (db w))))
      = (\<exists>b\<in>set (badges (db w)). b_id b = bh_badge_id h \<and> b_organiser_id b \<noteq> uid)" for h by (auto simp: image_iff intro: sym)
  have "delete_user uid (db w) = (db w)\<lparr>users := filter (\<lambda>u. u_id u \<noteq> uid) (users (db w)),
        auth_providers := filter (\<lambda>x. ap_user_id x \<noteq> uid) (auth_providers (db w)),
        refresh_tokens := filter (\<lambda>t. rt_user_id t \<noteq> uid) (refresh_tokens (db w)),
        badges := filter (\<lambda>b. b_organiser_id b \<noteq> uid) (badges (db w)),
        badge_hashtags := filter (\<lambda>h. \<exists>b\<in>set (badges (db w)). b_id b = bh_badge_id h \<and> b_organiser_id b \<noteq> uid) (badge_hashtags (db w)),
        notifications := filter (\<lambda>n. n_user_id n \<noteq> uid) (notifications (db w)),
        preferences := filter (\<lambda>p. np_user_id p \<noteq> uid) (preferences (db w)),
        user_roles := filter (\<lambda>x. ur_user_id x \<noteq> uid) (user_roles (db w))\<rparr>" (is "_ = ?d")
    by (simp add: delete_user_def delete_badges_def delete_where_def Let_def flip: hash)
  with rest have "db w' = ?d\<lparr>refresh_tokens := refresh_tokens (db w')\<rparr>" by metis
  then have tables: "db w' = (db w)\<lparr>users := filter (\<lambda>u. u_id u \<noteq> uid) (users (db w)),
        auth_providers := filter (\<lambda>x. ap_user_id x \<noteq> uid) (auth_providers (db w)),
        refresh_tokens := refresh_tokens (db w'),
        badges := filter (\<lambda>b. b_organiser_id b \<noteq> uid) (badges (db w)),
        badge_hashtags := filter (\<lambda>h. \<exists>b\<in>set (badges (db w)). b_id b = bh_badge_id h \<and> b_organiser_id b \<noteq> uid) (badge_hashtags (db w)),
        notifications := filter (\<lambda>n. n_user_id n \<noteq> uid) (notifications (db w)),
        preferences := filter (\<lambda>p. np_user_id p \<noteq> uid) (preferences (db w)),
        user_roles := filter (\<lambda>x. ur_user_id x \<noteq> uid) (user_roles (db w))\<rparr>" by (rule trans) simp
  have log: "configure_cloudinary (cfg e) = Inr () \<longrightarrow>
         (\<exists>ps. cdn_log w' = cdn_log w @ map CdnDestroy ps \<and> (\<forall>p. p \<in> set ps \<longleftrightarrow> image_of uid (db w) p))"
    using cdn images_collected [OF assms(1), of uid] by (intro impI exI [of _ "public_ids_to_delete uid (db w)"]) simp
  show ?thesis
    by (intro conjI gone log tables out(2) [unfolded toks]) (use page gate in blast)+
qed

theorem profile_deletion_complete_witness:
  "get_public_badge_by_slug ''slug'' (db (delete_profile demo_env 5 1 None None (demo_world demo_badges))) = Inl PublicBadgeNotFoundError
    \<and> users (db (delete_profile demo_env 5 1 None None (demo_world demo_badges))) = filter (\<lambda>u. u_id u \<noteq> 1) (users demo_badges)"
proof -
  have wf: "db_wf (db (demo_world demo_badges))" by (simp add: demo_badges_wf)
  note all = profile_deletion_complete [OF wf refl, where e = demo_env and now = 5 and uid = 1 and a = None and r = None]
  have "get_public_badge_by_slug ''slug'' (db (delete_profile demo_env 5 1 None None (demo_world demo_badges))) = Inl PublicBadgeNotFoundError"
    using bspec [OF conjunct1 [OF conjunct2 [OF all]], of demo_badge] by simp
  moreover note tables = conjunct2 [OF conjunct2 [OF conjunct2 [OF conjunct2 [OF conjunct2 [OF all]]]]]
  have "users (db (delete_profile demo_env 5 1 None None (demo_world demo_badges))) = filter (\<lambda>u. u_id u \<noteq> 1) (users demo_badges)"
    using arg_cong [OF tables, of users] by simp
  ultimately show ?thesis by blast
qed

end
