(* ===== verification/Sanitizer.thy ===== *)
theory Sanitizer
  imports World "HOL-Library.AList"
begin

text \<open>
  \<open>app/core/sanitizer.py\<close>: the check user texts go through, and the redaction of what is logged.
  Each regular expression is written as the function that decides a match at a position (on the
  characters up to U+00FF); a search tries every position, a substitution goes from left to right and
  continues after a match.
\<close>

section \<open>Markup in user texts\<close>

definition newline :: char where
  "newline = CHR 0x0A"

text \<open>\<open><.*?>\<close>; the dot stops at a newline.\<close>

definition tag_at :: "string \<Rightarrow> bool" where
  "tag_at s = (case s of [] \<Rightarrow> False
     | c # r \<Rightarrow> c = CHR ''<'' \<and> CHR ''>'' \<in> set (takeWhile (\<lambda>x. x \<noteq> newline) r))"

text \<open>A word that starts with \<open>on\<close>, then an equals sign, at a word boundary.\<close>

definition handler_at :: "bool \<Rightarrow> string \<Rightarrow> bool" where
  "handler_at after_word s = (\<not> after_word \<and> py_startswith (py_lower s) ''on''
     \<and> (case drop 2 s of [] \<Rightarrow> False | c # r \<Rightarrow> is_word c)
     \<and> py_startswith (py_lstrip (dropWhile is_word s)) ''='')"

definition protocol_at :: "string \<Rightarrow> bool" where
  "protocol_at s = list_ex (\<lambda>p. py_startswith (py_lower s) p \<and> py_startswith (py_lstrip (drop (length p) s)) '':'')
     [''javascript'', ''vbscript'', ''data'']"

fun scan_html :: "bool \<Rightarrow> string \<Rightarrow> bool" where
  "scan_html after_word [] = False"
| "scan_html after_word (c # s) =
     (tag_at (c # s) \<or> handler_at after_word (c # s) \<or> protocol_at (c # s) \<or> scan_html (is_word c) s)"

definition contains_html :: "string \<Rightarrow> bool" where
  "contains_html value = scan_html False value"

definition validate_no_html :: "string \<Rightarrow> string \<Rightarrow> app_error + string" where
  "validate_no_html value field_name = (if contains_html value
     then Inl (ValueError (field_name @ '' must not contain HTML tags or scripts'')) else Inr value)"

section \<open>Sensitive names\<close>

definition SENSITIVE_HEADERS :: "string list" where
  "SENSITIVE_HEADERS = [''authorization'', ''cookie'', ''set-cookie'', ''x-api-key'', ''x-auth-token'', ''x-csrf-token'',
     ''x-forwarded-for'', ''x-real-ip'', ''proxy-authorization'']"

text \<open>\<open>a[-_]?b\<close>.\<close>

definition joined :: "string \<Rightarrow> string \<Rightarrow> string list" where
  "joined a b = [a @ b, a @ ''-'' @ b, a @ ''_'' @ b]"

definition SENSITIVE_PATTERNS :: "string list" where
  "SENSITIVE_PATTERNS = [''passwd'', ''secret'', ''access_token'', ''refresh_token''] @ joined ''api'' ''key''
     @ joined ''auth'' ''token'' @ joined ''session'' ''id'' @ joined ''csrf'' ''token''"

definition is_sensitive_field :: "string \<Rightarrow> bool" where
  "is_sensitive_field field_name = (let f = py_lower field_name in
     f = ''password'' \<or> f = ''password'' @ [newline] \<or> list_ex (\<lambda>p. py_contains p f) SENSITIVE_PATTERNS)"

section \<open>Headers and query strings\<close>

definition sanitize_headers :: "(string \<times> string) list \<Rightarrow> (string \<times> string) list" where
  "sanitize_headers headers = filter (\<lambda>(name, value). py_lower name \<notin> set SENSITIVE_HEADERS) headers"

definition REDACTED :: string where
  "REDACTED = ''[REDACTED]''"

text \<open>A repeated key keeps its place and takes the later value.\<close>

definition parse_query :: "string \<Rightarrow> (string \<times> string) list" where
  "parse_query query_string = fold (\<lambda>param_pair params.
       if CHR ''='' \<in> set param_pair
       then (case split_first (CHR ''='') param_pair of (key, val) \<Rightarrow> AList.update key val params)
       else AList.update param_pair [] params)
     (py_split (CHR ''&'') query_string) []"

definition redact_pairs :: "(string \<times> string) list \<Rightarrow> (string \<times> string) list" where
  "redact_pairs ps = map (\<lambda>(key, val). (key, if is_sensitive_field key then REDACTED else val)) ps"

definition sanitize_query :: "string \<Rightarrow> string" where
  "sanitize_query query_string = (if query_string = [] then []
     else py_join ''&'' (map (\<lambda>(k, v). k @ ''='' @ v) (redact_pairs (parse_query query_string))))"

section \<open>Texts\<close>

definition mask_email :: "string \<Rightarrow> string" where
  "mask_email email = (if CHR ''@'' \<in> set email
     then (let (local, domain) = split_first (CHR ''@'') email;
               masked_local = (if length local \<le> 2 then replicate (length local) (CHR ''*'')
                 else [hd local] @ replicate (length local - 2) (CHR ''*'') @ [last local])
           in masked_local @ ''@'' @ domain)
     else ''***@***.***'')"

definition is_letter :: "char \<Rightarrow> bool" where
  "is_letter c = (is_upper_az c \<or> is_lower_az c)"

definition local_char :: "char \<Rightarrow> bool" where
  "local_char c = (is_letter c \<or> is_digit c \<or> c \<in> set ''._%+-'')"

definition domain_char :: "char \<Rightarrow> bool" where
  "domain_char c = (is_letter c \<or> is_digit c \<or> c \<in> set ''.-'')"

text \<open>
  How long a match of \<open>[a-zA-Z0-9.-]+\.[a-zA-Z]{2,}\<close> at the start of a text is: the domain is the
  longest one that a dot and two letters follow.
\<close>

definition top_level_at :: "string \<Rightarrow> nat \<Rightarrow> bool" where
  "top_level_at d i = (0 < i \<and> d ! i = CHR ''.'' \<and> i + 2 < length d \<and> is_letter (d ! (i + 1)) \<and> is_letter (d ! (i + 2)))"

definition domain_match :: "string \<Rightarrow> nat" where
  "domain_match s = (let d = takeWhile domain_char s; dots = filter (top_level_at d) [0..<length d] in
     if dots = [] then 0
     else (let i = last dots in i + 1 + length (takeWhile is_letter (drop (i + 1) d))))"

definition email_match :: "string \<Rightarrow> nat" where
  "email_match s = (let l = takeWhile local_char s; r = drop (length l) s in
     if l = [] \<or> \<not> py_startswith r ''@'' \<or> domain_match (tl r) = 0 then 0
     else length l + 1 + domain_match (tl r))"

text \<open>A substitution: \<open>m\<close> gives the length of a match, 0 for none, and \<open>f\<close> the replacement.\<close>

function re_sub :: "(string \<Rightarrow> nat) \<Rightarrow> (string \<Rightarrow> string) \<Rightarrow> string \<Rightarrow> string" where
  "re_sub m f [] = []"
| "re_sub m f (c # s) = (if m (c # s) = 0 then c # re_sub m f s
     else f (take (m (c # s)) (c # s)) @ re_sub m f (drop (m (c # s)) (c # s)))"
  by pat_completeness auto
termination
  by (relation "measure (\<lambda>(m, f, s). length s)") auto

text \<open>\<open>([?&]?\w+)=([^&\s]+)\<close>.\<close>

definition param_name :: "string \<Rightarrow> string" where
  "param_name s = (case s of c # r \<Rightarrow> if c \<in> {CHR ''?'', CHR ''&''} then c # takeWhile is_word r else takeWhile is_word s
     | [] \<Rightarrow> [])"

definition param_char :: "char \<Rightarrow> bool" where
  "param_char c = (c \<noteq> CHR ''&'' \<and> \<not> py_isspace c)"

definition bare_name :: "string \<Rightarrow> string" where
  "bare_name p = dropWhile (\<lambda>c. c \<in> {CHR ''?'', CHR ''&''}) p"

definition param_match :: "string \<Rightarrow> nat" where
  "param_match s = (let n = param_name s; r = drop (length n) s; v = takeWhile param_char (tl r) in
     if bare_name n = [] \<or> \<not> py_startswith r ''='' \<or> v = [] then 0 else length n + 1 + length v)"

definition redact_param :: "string \<Rightarrow> string" where
  "redact_param m = (let n = param_name m in
     if is_sensitive_field (bare_name n) then n @ ''='' @ REDACTED else m)"

definition sanitize_string :: "string \<Rightarrow> nat \<Rightarrow> string" where
  "sanitize_string text max_length =
     (let text = (if length text > max_length then take max_length text @ ''...'' else text);
          text = re_sub email_match mask_email text
      in re_sub param_match redact_param text)"

section \<open>Structured values\<close>

lemma size_json_pair [termination_simp]: "(k, v) \<in> set data \<Longrightarrow> size v < Suc (size_list (size_prod (\<lambda>x. 0) size) data)"
  by (induction data) auto

lemma size_json_item [termination_simp]: "v \<in> set (take n data) \<Longrightarrow> size v < Suc (size_list size data)"
  using size_list_estimation' [of v data "size v" size] by (fastforce dest: in_set_takeD)

function sanitize_value :: "json \<Rightarrow> int \<Rightarrow> json" where
  "sanitize_value (JObj data) max_depth =
     (if max_depth \<le> 0 then JObj [(''<max_depth_reached>'', JStr ''...'')]
      else JObj (map (\<lambda>(key, v). (key, if is_sensitive_field key then JStr REDACTED
        else sanitize_value v (max_depth - 1))) data))"
| "sanitize_value (JList data) max_depth =
     (if max_depth \<le> 0 then JList [JStr ''<max_depth_reached>'']
      else JList (map (\<lambda>item. sanitize_value item (max_depth - 1)) (take 10 data)))"
| "sanitize_value (JStr s) max_depth = JStr (sanitize_string s 1000)"
| "sanitize_value JNull max_depth = JNull"
| "sanitize_value (JBool b) max_depth = JBool b"
| "sanitize_value (JInt i) max_depth = JInt i"
| "sanitize_value (JDec m n) max_depth = JDec m n"
  by pat_completeness auto

termination
  by (relation "measure (\<lambda>(j, n). size j)") (auto simp: size_json_pair size_json_item)

definition sanitize_for_logging :: "json \<Rightarrow> json" where
  "sanitize_for_logging data = sanitize_value data 5"

text \<open>\<open>_sanitize_sql_params\<close> for a list of parameters.\<close>

definition mask_sql_param :: "bool \<Rightarrow> json \<Rightarrow> json" where
  "mask_sql_param has_sensitive_fields param = (case param of
     JStr s \<Rightarrow> if py_contains ''$2b$'' s \<or> py_contains ''$argon2'' s \<or> length s > 36 \<or> (has_sensitive_fields \<and> length s > 5)
       then JStr REDACTED else sanitize_value param 5
   | _ \<Rightarrow> sanitize_value param 5)"

definition sanitize_sql_for_logging :: "string \<Rightarrow> json \<Rightarrow> string \<times> json" where
  "sanitize_sql_for_logging sql params = (case params of
     JList ps \<Rightarrow> (sql, JList (map (mask_sql_param (is_sensitive_field sql)) ps))
   | _ \<Rightarrow> (sql, sanitize_value params 5))"

end
