(* ===== verification/Schemas.thy ===== *)
theory Schemas
  imports Sanitizer Profile
begin

text \<open>
  The request models of \<open>app/schemas\<close>: their validators, and the error with one entry per field that a
  body with invalid fields gives.  \<open>ev\<close> is the check behind \<open>EmailStr\<close>: it accepts an address, in
  normal form, or refuses it with a message.
\<close>

type_synonym email_check = "string \<Rightarrow> string + string"

section \<open>Errors by field\<close>

definition field_errors :: "string \<Rightarrow> app_error + 'a \<Rightarrow> (string list \<times> string) list" where
  "field_errors name r = (case r of Inr _ \<Rightarrow> []
     | Inl (ValueError msg) \<Rightarrow> [([''body'', name], ''Value error, '' @ msg)]
     | Inl (RequestValidationError es) \<Rightarrow> es
     | Inl _ \<Rightarrow> [([''body'', name], [])])"

definition builtin_error :: "string \<Rightarrow> string \<Rightarrow> app_error + 'a" where
  "builtin_error name msg = Inl (RequestValidationError [([''body'', name], msg)])"

definition the_field :: "app_error + 'a \<Rightarrow> 'a" where
  "the_field r = (case r of Inr x \<Rightarrow> x | Inl _ \<Rightarrow> undefined)"

text \<open>A model validator runs after the fields, its errors are those of the whole body.\<close>

definition body_error :: "string \<Rightarrow> app_error + 'a" where
  "body_error msg = Inl (RequestValidationError [([''body''], ''Value error, '' @ msg)])"

section \<open>Fields\<close>

definition email_field :: "email_check \<Rightarrow> string \<Rightarrow> app_error + string" where
  "email_field ev val = (case ev val of Inr m \<Rightarrow> Inr m | Inl msg \<Rightarrow> builtin_error ''email'' msg)"

definition normalize_email :: "string \<Rightarrow> string" where
  "normalize_email val = py_lower (py_strip val)"

definition validate_first_name :: "string \<Rightarrow> app_error + string" where
  "validate_first_name val = (if py_strip val = [] then Inl (ValueError ''First name cannot be empty'')
     else validate_no_html (py_strip val) ''First name'')"

text \<open>\<open>SignupRequest\<close>: a blank last name becomes the empty text, not null.\<close>

definition signup_last_name :: "string option \<Rightarrow> app_error + string option" where
  "signup_last_name val = (case val of None \<Rightarrow> Inr None
     | Some v \<Rightarrow> if py_strip v = [] then Inr (Some [])
         else (case validate_no_html (py_strip v) ''Last name'' of Inl err \<Rightarrow> Inl err | Inr x \<Rightarrow> Inr (Some x)))"

text \<open>\<open>UpdateProfileRequest\<close>, \<open>ContactRequest\<close>: a blank text becomes null.\<close>

definition optional_text :: "string \<Rightarrow> string option \<Rightarrow> app_error + string option" where
  "optional_text field_name val = (case val of None \<Rightarrow> Inr None
     | Some v \<Rightarrow> if py_strip v = [] then Inr None
         else (case validate_no_html (py_strip v) field_name of Inl err \<Rightarrow> Inl err | Inr x \<Rightarrow> Inr (Some x)))"

definition bounded_bytes :: "string \<Rightarrow> string \<Rightarrow> app_error + string" where
  "bounded_bytes name val = (if utf8_length val > 500 then Inl (ValueError (name @ '' must not exceed 500 bytes'')) else Inr val)"

definition validate_password :: "string \<Rightarrow> string \<Rightarrow> app_error + string" where
  "validate_password name val = (case bounded_bytes name val of Inl err \<Rightarrow> Inl err | Inr v \<Rightarrow> validate_password_strength v)"

definition max_length :: "nat \<Rightarrow> string \<Rightarrow> string \<Rightarrow> app_error + string" where
  "max_length n name val = (if length val > n
     then builtin_error name (''String should have at most '' @ nat_str n @ '' characters'') else Inr val)"

section \<open>Accounts\<close>

definition SignupRequest :: "email_check \<Rightarrow> signup_request \<Rightarrow> app_error + signup_request" where
  "SignupRequest ev raw =
     (let f = validate_first_name (su_first_name raw); l = signup_last_name (su_last_name raw);
          m = email_field ev (normalize_email (su_email raw)); p = validate_password ''Password'' (su_password raw);
          errs = field_errors ''first_name'' f @ field_errors ''last_name'' l @ field_errors ''email'' m @ field_errors ''password'' p
      in if errs \<noteq> [] then Inl (RequestValidationError errs)
         else Inr \<lparr>su_first_name = the_field f, su_last_name = the_field l, su_email = the_field m, su_password = the_field p\<rparr>)"

text \<open>\<open>ResendVerificationRequest\<close> and \<open>ForgotPasswordRequest\<close>.\<close>

definition EmailRequest :: "email_check \<Rightarrow> string \<Rightarrow> app_error + string" where
  "EmailRequest ev email = email_field ev (normalize_email email)"

text \<open>The address of a log in is not normalised.\<close>

definition LoginRequest :: "email_check \<Rightarrow> string \<Rightarrow> string \<Rightarrow> app_error + string \<times> string" where
  "LoginRequest ev email password =
     (let m = email_field ev email; p = bounded_bytes ''Password'' password;
          errs = field_errors ''email'' m @ field_errors ''password'' p
      in if errs \<noteq> [] then Inl (RequestValidationError errs) else Inr (the_field m, the_field p))"

definition ResetPasswordRequest :: "string \<Rightarrow> string \<Rightarrow> string \<Rightarrow> app_error + string \<times> string" where
  "ResetPasswordRequest token new_password confirm_password =
     (let t = (if token = [] then builtin_error ''token'' ''String should have at least 1 character'' else Inr token);
          p = validate_password ''Password'' new_password;
          errs = field_errors ''token'' t @ field_errors ''new_password'' p
      in if errs \<noteq> [] then Inl (RequestValidationError errs)
         else if new_password \<noteq> confirm_password then body_error ''Passwords do not match''
         else Inr (token, new_password))"

record update_profile_request =
  up_first_name :: "string option"
  up_last_name :: "string option"
  up_email :: "string option"
  up_role :: "string option"

definition UpdateProfileRequest :: "email_check \<Rightarrow> update_profile_request \<Rightarrow> app_error + update_profile_request" where
  "UpdateProfileRequest ev raw =
     (let f = (case up_first_name raw of None \<Rightarrow> Inr None
            | Some v \<Rightarrow> (case validate_first_name v of Inl err \<Rightarrow> Inl err | Inr x \<Rightarrow> Inr (Some x)));
          l = optional_text ''Last name'' (up_last_name raw);
          m = (case up_email raw of None \<Rightarrow> Inr None
            | Some v \<Rightarrow> (case email_field ev (normalize_email v) of Inl err \<Rightarrow> Inl err | Inr x \<Rightarrow> Inr (Some x)));
          r = (case up_role raw of None \<Rightarrow> Inr None
            | Some v \<Rightarrow> (case max_length 200 ''role'' v of Inl err \<Rightarrow> Inl err | Inr x \<Rightarrow> optional_text ''Role/title'' (Some x)));
          errs = field_errors ''first_name'' f @ field_errors ''last_name'' l @ field_errors ''email'' m @ field_errors ''role'' r
      in if errs \<noteq> [] then Inl (RequestValidationError errs)
         else Inr \<lparr>up_first_name = the_field f, up_last_name = the_field l, up_email = the_field m, up_role = the_field r\<rparr>)"

definition ChangePasswordRequest :: "change_password_request \<Rightarrow> app_error + change_password_request" where
  "ChangePasswordRequest raw =
     (let c = bounded_bytes ''current_password'' (cp_current_password raw);
          p = validate_password ''new_password'' (cp_new_password raw);
          k = bounded_bytes ''confirm_password'' (cp_confirm_password raw);
          errs = field_errors ''current_password'' c @ field_errors ''new_password'' p @ field_errors ''confirm_password'' k
      in if errs \<noteq> [] then Inl (RequestValidationError errs)
         else if cp_new_password raw \<noteq> cp_confirm_password raw then body_error ''Passwords do not match''
         else if cp_current_password raw = cp_new_password raw
         then body_error ''New password must differ from the current password''
         else Inr raw)"

section \<open>Badges\<close>

definition title_not_empty :: "string option \<Rightarrow> app_error + string option" where
  "title_not_empty val = (case val of None \<Rightarrow> Inr None
     | Some v \<Rightarrow> if py_strip v = [] then Inl (ValueError ''title cannot be empty'') else Inr (Some (py_strip v)))"

definition validate_access_code :: "string option \<Rightarrow> app_error + string option" where
  "validate_access_code val = (case val of None \<Rightarrow> Inr None
     | Some v \<Rightarrow> (let v = py_strip v in
         if v = [] then Inr None
         else if length v < 4 \<or> length v > 10 then Inl (ValueError ''access_code must be between 4 and 10 characters'')
         else Inr (Some v)))"

text \<open>\<open>list(dict.fromkeys(..))\<close> keeps the first of equal tags.\<close>

definition clean_hashtags :: "string list option \<Rightarrow> string list option" where
  "clean_hashtags val = map_option (\<lambda>tags.
     rev (remdups (rev (map py_strip (filter (\<lambda>tag. py_strip tag \<noteq> []) tags))))) val"

definition on_present :: "('a \<Rightarrow> app_error + 'a) \<Rightarrow> 'a option \<Rightarrow> app_error + 'a option" where
  "on_present f v = (case v of None \<Rightarrow> Inr None
     | Some x \<Rightarrow> (case f x of Inl err \<Rightarrow> Inl err | Inr y \<Rightarrow> Inr (Some y)))"

definition EditBadgeRequest :: "badge_updates \<Rightarrow> string list option option \<Rightarrow>
    app_error + badge_updates \<times> string list option option" where
  "EditBadgeRequest raw tags =
     (let t = on_present title_not_empty (bu_title raw); c = on_present validate_access_code (bu_access_code raw);
          errs = field_errors ''title'' t @ field_errors ''access_code'' c
      in if errs \<noteq> [] then Inl (RequestValidationError errs)
         else Inr (raw\<lparr>bu_title := the_field t, bu_access_code := the_field c\<rparr>, map_option clean_hashtags tags))"

section \<open>Platform templates\<close>

definition VALID_TEMPLATE_CATEGORIES :: "string list" where
  "VALID_TEMPLATE_CATEGORIES = [''bootcamp'', ''community'', ''conferences'', ''event'', ''festivals'', ''general'',
     ''hackathons'', ''meetups'', ''speakers'', ''summit'', ''trending'', ''updated event'']"

text \<open>The category is checked in lower case and kept as it was written.\<close>

definition validate_category :: "string \<Rightarrow> app_error + string" where
  "validate_category v = (case max_length 50 ''category'' v of Inl err \<Rightarrow> Inl err
     | Inr v \<Rightarrow> if py_lower v \<notin> set VALID_TEMPLATE_CATEGORIES
         then Inl (ValueError (''Invalid category '' @ [CHR 0x27] @ v @ [CHR 0x27] @ ''. Valid options: ''
           @ py_join '', '' VALID_TEMPLATE_CATEGORIES))
         else Inr v)"

record template_request =
  tr_title :: "string option"
  tr_category :: "string option"
  tr_canvas_data :: "json option"
  tr_thumbnail_url :: "string option"
  tr_is_active :: "bool option"

text \<open>\<open>UpdatePlatformTemplateRequest\<close>; \<open>CreatePlatformTemplateRequest\<close> needs a title and a category.\<close>

definition UpdatePlatformTemplateRequest :: "template_request \<Rightarrow> app_error + template_request" where
  "UpdatePlatformTemplateRequest raw =
     (let t = on_present (max_length 200 ''title'') (tr_title raw); c = on_present validate_category (tr_category raw);
          errs = field_errors ''title'' t @ field_errors ''category'' c
      in if errs \<noteq> [] then Inl (RequestValidationError errs) else Inr raw)"

definition CreatePlatformTemplateRequest :: "template_request \<Rightarrow> app_error + template_request" where
  "CreatePlatformTemplateRequest raw =
     (let missing = (if tr_title raw = None then [([''body'', ''title''], ''Field required'')] else [])
            @ (if tr_category raw = None then [([''body'', ''category''], ''Field required'')] else [])
      in case UpdatePlatformTemplateRequest raw of
          Inl (RequestValidationError errs) \<Rightarrow> Inl (RequestValidationError (missing @ errs))
        | Inl err \<Rightarrow> Inl err
        | Inr r \<Rightarrow> if missing \<noteq> [] then Inl (RequestValidationError missing)
            else Inr (r\<lparr>tr_is_active := Some (or_else (tr_is_active r) True)\<rparr>))"

section \<open>Contact\<close>

datatype contact_topic = GENERAL | PARTNERSHIP | BUG_REPORT | FEEDBACK | BILLING | OTHER

record contact_request =
  cr_first_name :: string
  cr_last_name :: "string option"
  cr_email :: string
  cr_subject :: contact_topic
  cr_message :: string

definition validate_message :: "string \<Rightarrow> app_error + string" where
  "validate_message val = (let stripped = py_strip val in
     if length stripped < 10 then Inl (ValueError ''Message must be at least 10 characters long'')
     else if length stripped > 500 then Inl (ValueError ''Message must not exceed 500 characters'')
     else validate_no_html stripped ''Message'')"

definition ContactRequest :: "email_check \<Rightarrow> contact_request \<Rightarrow> app_error + contact_request" where
  "ContactRequest ev raw =
     (let f = validate_first_name (cr_first_name raw); l = optional_text ''Last name'' (cr_last_name raw);
          m = email_field ev (normalize_email (cr_email raw)); b = validate_message (cr_message raw);
          errs = field_errors ''first_name'' f @ field_errors ''last_name'' l @ field_errors ''email'' m @ field_errors ''message'' b
      in if errs \<noteq> [] then Inl (RequestValidationError errs)
         else Inr \<lparr>cr_first_name = the_field f, cr_last_name = the_field l, cr_email = the_field m,
           cr_subject = cr_subject raw, cr_message = the_field b\<rparr>)"

section \<open>Lemmas\<close>

lemma field_errors_none: "field_errors n r = [] \<longleftrightarrow> (\<exists>x. r = Inr x) \<or> r = Inl (RequestValidationError [])"
  by (auto simp: field_errors_def split: sum.split app_error.split)

lemma the_field_Inr [simp]: "the_field (Inr x) = x"
  by (simp add: the_field_def)

lemma validate_no_html_Inr: "validate_no_html v n = Inr x \<longleftrightarrow> x = v \<and> \<not> contains_html v"
  by (auto simp: validate_no_html_def)

lemma validate_first_name_Inr:
  "validate_first_name v = Inr x \<longleftrightarrow> x = py_strip v \<and> x \<noteq> [] \<and> \<not> contains_html x"
  by (auto simp: validate_first_name_def validate_no_html_Inr)

end
