(* ===== verification/Outreach.thy ===== *)
theory Outreach
  imports Auth Schemas
begin

text \<open>
  Newsletter and contact form: \<open>app/services/newsletter.py\<close> and \<open>app/services/contact.py\<close>.
\<close>

section \<open>Newsletter\<close>

definition subscriber_by_email :: "string \<Rightarrow> database \<Rightarrow> newsletter_subscriber option" where
  "subscriber_by_email email d = find (\<lambda>s. ns_email s = email) (subscribers d)"

definition subscriber_by_token :: "string \<Rightarrow> database \<Rightarrow> newsletter_subscriber option" where
  "subscriber_by_token token d = find (\<lambda>s. ns_unsubscribe_token s = token) (subscribers d)"

definition new_subscriber :: "time \<Rightarrow> uuid \<Rightarrow> string \<Rightarrow> string \<Rightarrow> newsletter_subscriber" where
  "new_subscriber now sid email token = \<lparr>ns_id = sid, ns_email = email, ns_is_active = True,
     ns_unsubscribe_token = token, ns_subscribed_at = now, ns_unsubscribed_at = None\<rparr>"

definition reactivate :: "string \<Rightarrow> newsletter_subscriber \<Rightarrow> newsletter_subscriber" where
  "reactivate token s = s\<lparr>ns_is_active := True, ns_unsubscribe_token := token, ns_unsubscribed_at := None\<rparr>"

text \<open>A row that is no longer there cannot be written.\<close>

definition save_subscriber :: "uuid \<Rightarrow> (newsletter_subscriber \<Rightarrow> newsletter_subscriber) \<Rightarrow> database \<Rightarrow>
    app_error + database" where
  "save_subscriber sid f d =
     (let ss = update_where (\<lambda>s. ns_id s = sid) f (subscribers d) in
      if sid \<notin> ns_id ` set (subscribers d) then Inl SQLAlchemyError
      else checked (\<forall>s\<in>set ss. ns_id s = sid \<longrightarrow> fits 64 (ns_unsubscribe_token s))
        (unique_on ns_unsubscribe_token ss) (d\<lparr>subscribers := ss\<rparr>))"

text \<open>
  \<open>sid\<close> and \<open>token\<close> are the row id and the token drawn, \<open>race\<close> is what other transactions commit
  between the look-up and the commit.
\<close>

definition subscribe_rows :: "time \<Rightarrow> uuid \<Rightarrow> string \<Rightarrow> string \<Rightarrow> newsletter_subscriber option \<Rightarrow> database \<Rightarrow>
    app_error + database" where
  "subscribe_rows now sid token email subscriber d = (case subscriber of
     None \<Rightarrow> insert_subscriber (new_subscriber now sid email token) d
   | Some s \<Rightarrow> save_subscriber (ns_id s) (reactivate token) d)"

definition subscribe :: "'r env \<Rightarrow> time \<Rightarrow> uuid \<Rightarrow> string \<Rightarrow> (database \<Rightarrow> database) \<Rightarrow> string \<Rightarrow> 'r world \<Rightarrow>
    (app_error + newsletter_subscriber \<times> bool) \<times> 'r world" where
  "subscribe e now sid token race email w =
     (let subscriber = subscriber_by_email email (db w) in
      case (case subscriber of Some s \<Rightarrow> if ns_is_active s then Some s else None | None \<Rightarrow> None) of
        Some s \<Rightarrow> (Inr (s, False), w)
      | None \<Rightarrow>
          (let w = w\<lparr>db := race (db w)\<rparr> in
           case subscribe_rows now sid token email subscriber (db w) of
             Inr d \<Rightarrow>
               (Inr (case subscriber of None \<Rightarrow> new_subscriber now sid email token | Some s \<Rightarrow> reactivate token s, True),
                snd (send_newsletter_welcome_email e now email token (w\<lparr>db := d\<rparr>)))
           | Inl IntegrityError \<Rightarrow> (case subscriber_by_email email (db w) of
               None \<Rightarrow> (Inl (RuntimeError (''Subscriber row missing after IntegrityError for ''
                 @ [CHR 0x27] @ email @ [CHR 0x27])), w)
             | Some s \<Rightarrow> (Inr (s, False), w))
           | Inl err \<Rightarrow> (Inl err, w)))"

definition unsubscribe :: "time \<Rightarrow> string \<Rightarrow> 'r world \<Rightarrow> bool \<times> 'r world" where
  "unsubscribe now token w = (case subscriber_by_token token (db w) of
     None \<Rightarrow> (False, w)
   | Some s \<Rightarrow>
       (True, if ns_is_active s
        then w\<lparr>db := (db w)\<lparr>subscribers := update_where (\<lambda>x. ns_id x = ns_id s)
          (\<lambda>x. x\<lparr>ns_is_active := False, ns_unsubscribed_at := Some now\<rparr>) (subscribers (db w))\<rparr>\<rparr>
        else w))"

section \<open>Contact form\<close>

fun topic_value :: "contact_topic \<Rightarrow> string" where
  "topic_value GENERAL = ''general''"
| "topic_value PARTNERSHIP = ''partnership''"
| "topic_value BUG_REPORT = ''bug_report''"
| "topic_value FEEDBACK = ''feedback''"
| "topic_value BILLING = ''billing''"
| "topic_value OTHER = ''other''"

definition TOPIC_LABELS :: "(contact_topic \<times> string) list" where
  "TOPIC_LABELS = [(GENERAL, ''General Question''), (PARTNERSHIP, ''Partnership Idea''), (BUG_REPORT, ''Bug Report''),
     (FEEDBACK, ''Feedback''), (BILLING, ''Billing''), (OTHER, ''Other'')]"

definition get_contact_subjects :: "(string \<times> string) list" where
  "get_contact_subjects = map (\<lambda>(topic, label). (topic_value topic, label)) TOPIC_LABELS"

definition REFERENCE_ALPHABET :: string where
  "REFERENCE_ALPHABET = ''ABCDEFGHIJKLMNOPQRSTUVWXYZ0123456789''"

definition generate_reference_id :: "time \<Rightarrow> (nat \<Rightarrow> nat) \<Rightarrow> string" where
  "generate_reference_id now choice =
     ''CONTACT-'' @ py_str (year_of now) @ ''-''
       @ map (\<lambda>i. REFERENCE_ALPHABET ! (choice i mod length REFERENCE_ALPHABET)) [0..<6]"

definition subject_label :: "contact_topic \<Rightarrow> string" where
  "subject_label t = (case map_of TOPIC_LABELS t of None \<Rightarrow> topic_value t | Some label \<Rightarrow> label)"

text \<open>The notification must be delivered; the confirmation is best effort.\<close>

definition submit_contact_form :: "'r env \<Rightarrow> time \<Rightarrow> (nat \<Rightarrow> nat) \<Rightarrow> contact_request \<Rightarrow> 'r world \<Rightarrow>
    (app_error + string) \<times> 'r world" where
  "submit_contact_form e now choice payload w =
     (let reference_id = generate_reference_id now choice in
      case send_contact_notification e now reference_id (cr_first_name payload) (cr_last_name payload)
          (cr_email payload) (subject_label (cr_subject payload)) (cr_message payload) w of
        (Inl err, w) \<Rightarrow> (Inl err, w)
      | (Inr _, w) \<Rightarrow> (Inr reference_id,
          snd (send_contact_confirmation e now (cr_email payload) (cr_first_name payload) reference_id w)))"

section \<open>Lemmas\<close>

lemma subject_label_listed: "subject_label t \<in> snd ` set TOPIC_LABELS"
  by (cases t) (simp_all add: subject_label_def TOPIC_LABELS_def)

lemma generate_reference_id_shape:
  "\<exists>suffix. generate_reference_id now choice = ''CONTACT-'' @ py_str (year_of now) @ ''-'' @ suffix
     \<and> length suffix = 6 \<and> set suffix \<subseteq> set REFERENCE_ALPHABET"
proof -
  have "0 < length REFERENCE_ALPHABET" by (simp add: REFERENCE_ALPHABET_def)
  then have "set (map (\<lambda>i. REFERENCE_ALPHABET ! (choice i mod length REFERENCE_ALPHABET)) [0..<6]) \<subseteq> set REFERENCE_ALPHABET"
    by (auto simp del: upt.simps)
  then show ?thesis unfolding generate_reference_id_def by (intro exI conjI) (rule refl, simp_all)
qed

lemma send_contact_frames [simp]:
  "db (snd (send_contact_notification e now r f l m s t w)) = db w"
  "kv (snd (send_contact_notification e now r f l m s t w)) = kv w"
  "db (snd (send_contact_confirmation e now m f r w)) = db w"
  "kv (snd (send_contact_confirmation e now m f r w)) = kv w"
  by (simp_all add: send_contact_notification_def send_contact_confirmation_def split: sum.split)

lemma submit_contact_form_frame [simp]:
  "db (snd (submit_contact_form e now choice p w)) = db w" "kv (snd (submit_contact_form e now choice p w)) = kv w"
proof -
  obtain r w1 where eq: "send_contact_notification e now (generate_reference_id now choice) (cr_first_name p)
      (cr_last_name p) (cr_email p) (subject_label (cr_subject p)) (cr_message p) w = (r, w1)" by (meson surj_pair)
  then have "db w1 = db w" "kv w1 = kv w" using send_contact_frames(1,2) by (metis snd_conv)+
  then show "db (snd (submit_contact_form e now choice p w)) = db w" "kv (snd (submit_contact_form e now choice p w)) = kv w"
    unfolding submit_contact_form_def Let_def eq by (cases r; simp)+
qed

text \<open>A reference is given out exactly when the support staff was notified.\<close>

lemma submit_contact_form_Inr:
  "fst (submit_contact_form e now choice p w) = Inr r \<longleftrightarrow>
     r = generate_reference_id now choice
     \<and> fst (send_contact_notification e now r (cr_first_name p) (cr_last_name p) (cr_email p)
         (subject_label (cr_subject p)) (cr_message p) w) = Inr ()"
  by (auto simp: submit_contact_form_def Let_def split: prod.split sum.split)

lemma subscriber_by_email_iff:
  "db_wf d \<Longrightarrow> subscriber_by_email m d = Some s \<longleftrightarrow> s \<in> set (subscribers d) \<and> ns_email s = m"
  using find_unique [of ns_email "subscribers d" s]
  by (auto simp: subscriber_by_email_def db_wf_def subscribers_ok_def dest: find_set)

lemma subscriber_by_token_iff:
  "db_wf d \<Longrightarrow> subscriber_by_token t d = Some s \<longleftrightarrow> s \<in> set (subscribers d) \<and> ns_unsubscribe_token s = t"
  using find_unique [of ns_unsubscribe_token "subscribers d" s]
  by (auto simp: subscriber_by_token_def db_wf_def subscribers_ok_def dest: find_set)

end
