(* ===== verification/Outreach_Facts.thy ===== *)
theory Outreach_Facts
  imports Outreach Session_Facts
begin

text \<open>
  The life of a newsletter subscription, and that the operations of the newsletter keep the database
  well formed.
\<close>

section \<open>Rows\<close>

definition cancelled :: "time \<Rightarrow> newsletter_subscriber \<Rightarrow> newsletter_subscriber" where
  "cancelled now s = s\<lparr>ns_is_active := False, ns_unsubscribed_at := Some now\<rparr>"

lemma subscriber_simps [simp]:
  "ns_id (reactivate t s) = ns_id s" "ns_email (reactivate t s) = ns_email s" "ns_is_active (reactivate t s)"
  "ns_unsubscribe_token (reactivate t s) = t" "ns_unsubscribed_at (reactivate t s) = None"
  "ns_id (cancelled n s) = ns_id s" "ns_email (cancelled n s) = ns_email s" "\<not> ns_is_active (cancelled n s)"
  "ns_unsubscribe_token (cancelled n s) = ns_unsubscribe_token s" "ns_unsubscribed_at (cancelled n s) = Some n"
  "ns_id (new_subscriber n i m t) = i" "ns_email (new_subscriber n i m t) = m" "ns_is_active (new_subscriber n i m t)"
  "ns_unsubscribe_token (new_subscriber n i m t) = t" "ns_unsubscribed_at (new_subscriber n i m t) = None"
  by (simp_all add: reactivate_def cancelled_def new_subscriber_def)

lemma wf_subscribers:
  "db_wf d \<Longrightarrow> subscribers_ok (subscribers d)"
  by (simp add: db_wf_def)

lemma subscriber_ids: "db_wf d \<Longrightarrow> x \<in> set (subscribers d) \<Longrightarrow> y \<in> set (subscribers d) \<Longrightarrow>
    (ns_id x = ns_id y \<longleftrightarrow> x = y) \<and> (ns_email x = ns_email y \<longleftrightarrow> x = y)
      \<and> (ns_unsubscribe_token x = ns_unsubscribe_token y \<longleftrightarrow> x = y)"
  using wf_subscribers [of d] unfolding subscribers_ok_def by (metis unique_onD)

lemma set_subscribers_wf: "db_wf d \<Longrightarrow> subscribers_ok ss \<Longrightarrow> db_wf (d\<lparr>subscribers := ss\<rparr>)"
  by (simp add: db_wf_def)

lemma save_subscriber_wf:
  assumes "db_wf d" "save_subscriber sid (reactivate t) d = Inr d'"
  shows "db_wf d'"
proof -
  let ?ss = "update_where (\<lambda>s. ns_id s = sid) (reactivate t) (subscribers d)"
  have d': "d' = d\<lparr>subscribers := ?ss\<rparr>" "unique_on ns_unsubscribe_token ?ss"
    using assms(2) by (auto simp: save_subscriber_def Let_def split: if_splits)
  have "subscribers_ok ?ss"
    using wf_subscribers [OF assms(1)] d'(2)
    by (auto simp: subscribers_ok_def unique_on_update_where set_update_where)
  then show ?thesis unfolding d'(1) by (rule set_subscribers_wf [OF assms(1)])
qed

lemma subscribe_rows_wf:
  assumes "db_wf d" "subscribe_rows now sid token email s d = Inr d'"
  shows "db_wf d'"
  using assms insert_subscriber_wf [of d "new_subscriber now sid email token" d'] save_subscriber_wf
  by (auto simp: subscribe_rows_def split: option.splits)

lemma unsubscribe_db:
  "snd (unsubscribe now token w) = w \<or> (\<exists>s. subscriber_by_token token (db w) = Some s \<and> ns_is_active s
     \<and> snd (unsubscribe now token w) = w\<lparr>db := (db w)\<lparr>subscribers :=
         update_where (\<lambda>x. ns_id x = ns_id s) (cancelled now) (subscribers (db w))\<rparr>\<rparr>)"
  by (auto simp: unsubscribe_def cancelled_def [abs_def] split: option.split)

lemma cancel_ok:
  "subscribers_ok ss \<Longrightarrow> subscribers_ok (update_where (\<lambda>x. ns_id x = i) (cancelled now) ss)"
  by (auto simp: subscribers_ok_def unique_on_update_where set_update_where)

lemma unsubscribe_wf: "db_wf (db w) \<Longrightarrow> db_wf (db (snd (unsubscribe now token w)))"
  using unsubscribe_db [of now token w] cancel_ok wf_subscribers [of "db w"] set_subscribers_wf [of "db w"] by auto

section \<open>Subscribing\<close>

text \<open>A subscription that exists and is active is found and nothing happens.\<close>

lemma subscribe_active:
  assumes "db_wf (db w)" "s \<in> set (subscribers (db w))" "ns_is_active s" "ns_email s = email"
  shows "subscribe e now sid token race email w = (Inr (s, False), w)"
proof -
  have "subscriber_by_email email (db w) = Some s" using assms by (simp add: subscriber_by_email_iff)
  then show ?thesis using assms(3) by (simp add: subscribe_def)
qed

lemma reactivated_rows:
  assumes "db_wf d" "x \<in> set (subscribers d)" "token \<notin> ns_unsubscribe_token ` set (subscribers d)"
  shows "update_where (\<lambda>s. ns_id s = ns_id x) (reactivate token) (subscribers d)
      = update_where (\<lambda>s. s = x) (reactivate token) (subscribers d)" (is "?l = ?r")
    and "unique_on ns_unsubscribe_token (update_where (\<lambda>s. ns_id s = ns_id x) (reactivate token) (subscribers d))"
proof -
  show eq: "?l = ?r"
    unfolding update_where_def using subscriber_ids [OF assms(1) _ assms(2)] by (intro map_cong) auto
  show "unique_on ns_unsubscribe_token ?l"
    unfolding eq using wf_subscribers [OF assms(1)] assms(2,3)
    by (auto simp: subscribers_ok_def unique_on_def update_where_def distinct_map inj_on_def)
qed

text \<open>Otherwise, with a fresh token, one row is added or taken up again.\<close>

lemma subscribe_inactive:
  assumes "db_wf (db w)" "token \<notin> ns_unsubscribe_token ` set (subscribers (db w))" "length token \<le> 64"
    "\<forall>x\<in>set (subscribers (db w)). ns_email x = email \<longrightarrow> \<not> ns_is_active x"
    "\<exists>x\<in>set (subscribers (db w)). ns_email x = email"
  obtains s w' where "subscribe e now sid token (\<lambda>d. d) email w = (Inr (s, True), w')"
proof -
  from assms(5) obtain x where x: "x \<in> set (subscribers (db w))" "ns_email x = email" by blast
  then have sel: "subscriber_by_email email (db w) = Some x" using assms(1) by (simp add: subscriber_by_email_iff)
  let ?ss = "update_where (\<lambda>s. ns_id s = ns_id x) (reactivate token) (subscribers (db w))"
  have "unique_on ns_unsubscribe_token ?ss" by (rule reactivated_rows(2) [OF assms(1) x(1) assms(2)])
  moreover have "\<forall>s\<in>set ?ss. ns_id s = ns_id x \<longrightarrow> fits 64 (ns_unsubscribe_token s)"
    using assms(3) by (auto simp: set_update_where fits_def)
  ultimately have "subscribe_rows now sid token email (Some x) (db w) = Inr ((db w)\<lparr>subscribers := ?ss\<rparr>)"
    using x(1) by (auto simp: subscribe_rows_def save_subscriber_def Let_def checked_def)
  then show ?thesis using that sel x assms(4) by (simp add: subscribe_def)
qed

lemma subscribe_ok:
  assumes "db_wf (db w)" "token \<notin> ns_unsubscribe_token ` set (subscribers (db w))"
    "subscribe e now sid token (\<lambda>d. d) email w = (Inr (s, fresh), w')"
  shows "db_wf (db w')" "s \<in> set (subscribers (db w'))" "ns_email s = email" "ns_is_active s"
    "fresh \<longleftrightarrow> (\<forall>x\<in>set (subscribers (db w)). ns_email x = email \<longrightarrow> \<not> ns_is_active x)"
    "\<forall>x. ns_email x \<noteq> email \<longrightarrow> (x \<in> set (subscribers (db w')) \<longleftrightarrow> x \<in> set (subscribers (db w)))"
    "fresh \<longrightarrow> ns_unsubscribe_token s = token"
proof -
  consider (active) x where "x \<in> set (subscribers (db w))" "ns_email x = email" "ns_is_active x"
    | (inactive) x where "x \<in> set (subscribers (db w))" "ns_email x = email" "\<not> ns_is_active x"
    | (none) "\<forall>x\<in>set (subscribers (db w)). ns_email x \<noteq> email" by blast
  then have "db_wf (db w') \<and> s \<in> set (subscribers (db w')) \<and> ns_email s = email \<and> ns_is_active s
      \<and> (fresh \<longleftrightarrow> (\<forall>x\<in>set (subscribers (db w)). ns_email x = email \<longrightarrow> \<not> ns_is_active x))
      \<and> (\<forall>x. ns_email x \<noteq> email \<longrightarrow> (x \<in> set (subscribers (db w')) \<longleftrightarrow> x \<in> set (subscribers (db w))))
      \<and> (fresh \<longrightarrow> ns_unsubscribe_token s = token)"
  proof cases
    case active
    then show ?thesis using subscribe_active [OF assms(1) active(1,3,2)] assms(1,3) by auto
  next
    case inactive
    have sel: "subscriber_by_email email (db w) = Some x" using inactive assms(1) by (simp add: subscriber_by_email_iff)
    let ?ss = "update_where (\<lambda>s. ns_id s = ns_id x) (reactivate token) (subscribers (db w))"
    note rows = reactivated_rows [OF assms(1) inactive(1) assms(2)]
    have no: "subscribe_rows now sid token email (Some x) (db w) \<noteq> Inl IntegrityError"
      using rows(2) by (simp add: subscribe_rows_def save_subscriber_def Let_def)
    have eq: "subscribe e now sid token (\<lambda>d. d) email w = (case subscribe_rows now sid token email (Some x) (db w) of
        Inr d \<Rightarrow> (Inr (reactivate token x, True), snd (send_newsletter_welcome_email e now email token (w\<lparr>db := d\<rparr>)))
      | Inl err \<Rightarrow> (Inl err, w))"
      using sel inactive(3) no by (simp add: subscribe_def Let_def split: sum.split app_error.split)
    obtain d where d: "subscribe_rows now sid token email (Some x) (db w) = Inr d" "s = reactivate token x" fresh "db w' = d"
      using assms(3) unfolding eq by (auto split: sum.splits)
    have "subscribers d = ?ss"
      using d(1) by (auto simp: subscribe_rows_def save_subscriber_def Let_def split: if_splits)
    then have ss: "subscribers (db w') = update_where (\<lambda>s. s = x) (reactivate token) (subscribers (db w))"
      using rows(1) d(4) by simp
    have only: "\<forall>y\<in>set (subscribers (db w)). ns_email y = email \<longrightarrow> y = x"
      using subscriber_ids [OF assms(1) _ inactive(1)] inactive(2) by metis
    have "db_wf (db w')" using subscribe_rows_wf [OF assms(1) d(1)] d(4) by simp
    moreover have set: "set (subscribers (db w')) = insert (reactivate token x) (set (subscribers (db w)) - {x})"
      unfolding ss update_where_def using inactive(1,3) subscriber_simps(3) [of token x] by (auto split: if_splits)
    moreover have "fresh \<longleftrightarrow> (\<forall>y\<in>set (subscribers (db w)). ns_email y = email \<longrightarrow> \<not> ns_is_active y)"
      using d(3) only inactive(3) by metis
    moreover have "\<forall>y. ns_email y \<noteq> email \<longrightarrow> (y \<in> set (subscribers (db w')) \<longleftrightarrow> y \<in> set (subscribers (db w)))"
      unfolding set using inactive(2) by auto
    ultimately show ?thesis using d(2) inactive(2) by simp
  next
    case none
    then have "subscriber_by_email email (db w) = None"
      by (auto simp: subscriber_by_email_def find_none_iff)
    then obtain d where d: "subscribe_rows now sid token email None (db w) = Inr d" "s = new_subscriber now sid email token"
        fresh "db w' = d"
      using assms(3) by (auto simp: subscribe_def Let_def split: sum.splits app_error.splits)
    then have "subscribers d = subscribers (db w) @ [s]"
      by (auto simp: subscribe_rows_def insert_subscriber_def)
    then have "set (subscribers (db w')) = insert s (set (subscribers (db w)))" using d(4) by simp
    moreover have "db_wf (db w')" using subscribe_rows_wf [OF assms(1) d(1)] d(4) by simp
    ultimately show ?thesis using d(2,3) none by auto
  qed
  then show "db_wf (db w')" "s \<in> set (subscribers (db w'))" "ns_email s = email" "ns_is_active s"
    "fresh \<longleftrightarrow> (\<forall>x\<in>set (subscribers (db w)). ns_email x = email \<longrightarrow> \<not> ns_is_active x)"
    "\<forall>x. ns_email x \<noteq> email \<longrightarrow> (x \<in> set (subscribers (db w')) \<longleftrightarrow> x \<in> set (subscribers (db w)))"
    "fresh \<longrightarrow> ns_unsubscribe_token s = token" by blast+
qed

text \<open>The welcome mail has the token, and without one nothing happens.\<close>

lemma subscribe_mail:
  assumes "subscribe e now sid token (\<lambda>d. d) email w = (Inr (s, fresh), w')"
  shows "fresh \<Longrightarrow> w' = snd (send_newsletter_welcome_email e now email token (w\<lparr>db := db w'\<rparr>))"
    and "\<not> fresh \<Longrightarrow> w' = w"
proof -
  have "fresh \<and> (\<exists>d. w' = snd (send_newsletter_welcome_email e now email token (w\<lparr>db := d\<rparr>))) \<or> \<not> fresh \<and> w' = w"
    using assms by (auto simp: subscribe_def Let_def split: option.splits sum.splits app_error.splits if_splits)
  moreover have "db (snd (send_newsletter_welcome_email e now email token w0)) = db w0" for w0 by simp
  ultimately show "fresh \<Longrightarrow> w' = snd (send_newsletter_welcome_email e now email token (w\<lparr>db := db w'\<rparr>))"
    "\<not> fresh \<Longrightarrow> w' = w" by auto
qed

section \<open>The life of a subscription\<close>

lemma unsubscribe_found:
  assumes "db_wf (db w)" "s \<in> set (subscribers (db w))" "ns_is_active s"
  shows "unsubscribe now (ns_unsubscribe_token s) w = (True, w\<lparr>db := (db w)\<lparr>subscribers :=
      update_where (\<lambda>x. ns_id x = ns_id s) (cancelled now) (subscribers (db w))\<rparr>\<rparr>)"
    and "set (update_where (\<lambda>x. ns_id x = ns_id s) (cancelled now) (subscribers (db w)))
      = insert (cancelled now s) (set (subscribers (db w)) - {s})"
proof -
  have "subscriber_by_token (ns_unsubscribe_token s) (db w) = Some s"
    using assms by (simp add: subscriber_by_token_iff)
  then show "unsubscribe now (ns_unsubscribe_token s) w = (True, w\<lparr>db := (db w)\<lparr>subscribers :=
      update_where (\<lambda>x. ns_id x = ns_id s) (cancelled now) (subscribers (db w))\<rparr>\<rparr>)"
    using assms(3) by (simp add: unsubscribe_def cancelled_def [abs_def])
  have "update_where (\<lambda>x. ns_id x = ns_id s) (cancelled now) (subscribers (db w))
      = update_where (\<lambda>x. x = s) (cancelled now) (subscribers (db w))"
    unfolding update_where_def using subscriber_ids [OF assms(1) _ assms(2)] by (intro map_cong) auto
  then show "set (update_where (\<lambda>x. ns_id x = ns_id s) (cancelled now) (subscribers (db w)))
      = insert (cancelled now s) (set (subscribers (db w)) - {s})"
    unfolding update_where_def using assms(2,3) subscriber_simps(8) [of now s] by (auto split: if_splits)
qed

lemma unsubscribe_inactive:
  assumes "db_wf (db w)" "s \<in> set (subscribers (db w))" "\<not> ns_is_active s"
  shows "unsubscribe now (ns_unsubscribe_token s) w = (True, w)"
proof -
  have "subscriber_by_token (ns_unsubscribe_token s) (db w) = Some s"
    using assms by (simp add: subscriber_by_token_iff)
  then show ?thesis using assms(3) by (simp add: unsubscribe_def)
qed

lemma unsubscribe_unknown:
  "token \<notin> ns_unsubscribe_token ` set (subscribers (db w)) \<Longrightarrow> unsubscribe now token w = (False, w)"
  by (auto simp: unsubscribe_def subscriber_by_token_def find_none_iff split: option.split dest: find_set)



end
