(* ===== verification/Templates_Admin.thy ===== *)
theory Templates_Admin
  imports Badge_Claims Schemas
begin

text \<open>
  The platform templates as an administrator manages them: \<open>app/services/admin.py\<close>.  The names carry
  the prefix \<open>admin_\<close> where \<open>app/services/badge.py\<close> has a function of the same name.
\<close>

definition new_template :: "time \<Rightarrow> uuid \<Rightarrow> string \<Rightarrow> string \<Rightarrow> json option \<Rightarrow> string option \<Rightarrow> bool \<Rightarrow> platform_template" where
  "new_template now tid title category canvas_data thumbnail_url is_active =
     \<lparr>pt_id = tid, pt_title = title, pt_category = category, pt_canvas_data = canvas_data,
      pt_thumbnail_url = thumbnail_url, pt_is_active = is_active, pt_total_badges_made = 0,
      pt_created_at = Some now, pt_updated_at = None\<rparr>"

definition create_platform_template :: "time \<Rightarrow> uuid \<Rightarrow> string \<Rightarrow> string \<Rightarrow> json option \<Rightarrow> string option \<Rightarrow> bool \<Rightarrow>
    'r world \<Rightarrow> (app_error + platform_template) \<times> 'r world" where
  "create_platform_template now tid title category canvas_data thumbnail_url is_active w =
     (let template = new_template now tid title category canvas_data thumbnail_url is_active in
      case insert_template template (db w) of
        Inl err \<Rightarrow> (Inl err, w) | Inr d \<Rightarrow> (Inr template, w\<lparr>db := d\<rparr>))"

text \<open>\<open>created_at.asc()\<close>: rows without a creation time come last; equal times keep the order of the table.\<close>

definition asc_nulls_last :: "time option \<Rightarrow> bool \<times> time" where
  "asc_nulls_last v = (case v of None \<Rightarrow> (True, 0) | Some t \<Rightarrow> (False, t))"

definition admin_list_platform_templates :: "string option \<Rightarrow> int \<Rightarrow> int \<Rightarrow> database \<Rightarrow> platform_template list" where
  "admin_list_platform_templates category limit offset d =
     (let rows = (case category of None \<Rightarrow> platform_templates d
            | Some c \<Rightarrow> filter (\<lambda>t. pt_category t = c) (platform_templates d))
      in take (nat limit) (drop (nat offset) (sort_key (\<lambda>t. asc_nulls_last (pt_created_at t)) rows)))"

definition admin_get_platform_template :: "uuid \<Rightarrow> database \<Rightarrow> platform_template option" where
  "admin_get_platform_template template_id d = find (\<lambda>t. pt_id t = template_id) (platform_templates d)"

definition change_template :: "template_request \<Rightarrow> platform_template \<Rightarrow> platform_template" where
  "change_template r t = t\<lparr>
     pt_title := or_else (tr_title r) (pt_title t),
     pt_category := or_else (tr_category r) (pt_category t),
     pt_canvas_data := (case tr_canvas_data r of None \<Rightarrow> pt_canvas_data t | Some c \<Rightarrow> Some c),
     pt_thumbnail_url := (case tr_thumbnail_url r of None \<Rightarrow> pt_thumbnail_url t | Some u \<Rightarrow> Some u),
     pt_is_active := or_else (tr_is_active r) (pt_is_active t)\<rparr>"

definition save_template :: "time \<Rightarrow> uuid \<Rightarrow> (platform_template \<Rightarrow> platform_template) \<Rightarrow> database \<Rightarrow>
    app_error + database" where
  "save_template now tid f d =
     (let ts = update_where (\<lambda>t. pt_id t = tid) (orm_template now f) (platform_templates d) in
      checked (\<forall>t\<in>set ts. pt_id t = tid \<longrightarrow> template_fits t) True (d\<lparr>platform_templates := ts\<rparr>))"

definition admin_update_platform_template :: "time \<Rightarrow> platform_template \<Rightarrow> template_request \<Rightarrow> 'r world \<Rightarrow>
    (app_error + platform_template) \<times> 'r world" where
  "admin_update_platform_template now template r w =
     (case save_template now (pt_id template) (change_template r) (db w) of
        Inl err \<Rightarrow> (Inl err, w)
      | Inr d \<Rightarrow> (Inr (orm_template now (change_template r) template), w\<lparr>db := d\<rparr>))"

text \<open>The badges made from the template go with it, and their hashtags.\<close>

definition admin_delete_platform_template :: "platform_template \<Rightarrow> 'r world \<Rightarrow> 'r world" where
  "admin_delete_platform_template template w =
     (let d = delete_badges (\<lambda>b. b_platform_template_id b = pt_id template) (db w)
      in w\<lparr>db := d\<lparr>platform_templates := delete_where (\<lambda>t. pt_id t = pt_id template) (platform_templates d)\<rparr>\<rparr>)"

section \<open>Lemmas\<close>

lemma change_template_id [simp]: "pt_id (change_template r t) = pt_id t"
  by (simp add: change_template_def)

lemma admin_get_platform_template_iff:
  "db_wf d \<Longrightarrow> admin_get_platform_template tid d = Some t \<longleftrightarrow> t \<in> set (platform_templates d) \<and> pt_id t = tid"
  using find_unique [of pt_id "platform_templates d" t]
  by (auto simp: admin_get_platform_template_def db_wf_def templates_ok_def dest: find_set)

lemma create_platform_template_wf:
  "db_wf (db w) \<Longrightarrow> db_wf (db (snd (create_platform_template now tid t c j u a w)))"
  using insert_template_wf [of "db w" "new_template now tid t c j u a"]
  by (auto simp: create_platform_template_def Let_def split: sum.split)

lemma admin_update_platform_template_wf:
  assumes "db_wf (db w)"
  shows "db_wf (db (snd (admin_update_platform_template now t r w)))"
  using update_templates_wf [OF assms, of "orm_template now (change_template r)"] assms
  by (auto simp: admin_update_platform_template_def save_template_def Let_def split: sum.split)

lemma admin_delete_tables:
  "badges (db (admin_delete_platform_template t w)) = delete_where (\<lambda>b. b_platform_template_id b = pt_id t) (badges (db w))"
  "platform_templates (db (admin_delete_platform_template t w)) = delete_where (\<lambda>x. pt_id x = pt_id t) (platform_templates (db w))"
  "users (db (admin_delete_platform_template t w)) = users (db w)"
  "badge_hashtags (db (admin_delete_platform_template t w)) = filter (\<lambda>h. bh_badge_id h \<in>
     b_id ` set (badges (db (admin_delete_platform_template t w)))) (badge_hashtags (db w))"
  by (simp_all add: admin_delete_platform_template_def delete_badges_def Let_def)

lemma admin_delete_platform_template_wf:
  assumes "db_wf (db w)"
  shows "db_wf (db (admin_delete_platform_template t w))"
proof -
  let ?P = "\<lambda>b. b_platform_template_id b = pt_id t"
  have wf: "db_wf (delete_badges ?P (db w))" by (rule delete_badges_wf [OF assms])
  have "templates_ok (delete_where (\<lambda>x. pt_id x = pt_id t) (platform_templates (delete_badges ?P (db w))))"
    using wf by (simp add: db_wf_def templates_ok_def unique_on_delete_where)
  moreover have "b_platform_template_id ` set (badges (delete_badges ?P (db w)))
      \<subseteq> pt_id ` set (delete_where (\<lambda>x. pt_id x = pt_id t) (platform_templates (delete_badges ?P (db w))))"
    using assms by (auto simp: delete_badges_def Let_def db_wf_def badges_ok_def template_ids_def)
  ultimately show ?thesis using wf
    unfolding admin_delete_platform_template_def Let_def by (simp add: db_wf_def badges_ok_def template_ids_def)
qed

text \<open>C25. Deleting a platform template takes the badges of every organiser made from it out of the database, with
  their hashtags and public pages, and nothing else; the template can no longer be chosen.\<close>

theorem template_deletion_cascades:
  assumes "db_wf (db w)" "admin_get_platform_template tid (db w) = Some t" "w' = admin_delete_platform_template t w"
  shows "(\<forall>b. b \<in> set (badges (db w')) \<longleftrightarrow> b \<in> set (badges (db w)) \<and> b_platform_template_id b \<noteq> tid)
    \<and> (\<forall>b\<in>set (badges (db w)). b_platform_template_id b = tid \<longrightarrow>
         live_badge (b_id b) (db w') = None \<and> badge_tags (b_id b) (db w') = []
         \<and> (\<forall>slug. b_share_slug b = Some slug \<longrightarrow> get_public_badge_by_slug slug (db w') = Inl PublicBadgeNotFoundError))
    \<and> (\<forall>b\<in>set (badges (db w')). badge_tags (b_id b) (db w') = badge_tags (b_id b) (db w))
    \<and> w' = w\<lparr>db := (db w)\<lparr>badges := filter (\<lambda>b. b_platform_template_id b \<noteq> tid) (badges (db w)),
         badge_hashtags := filter (\<lambda>h. \<exists>b\<in>set (badges (db w)). b_id b = bh_badge_id h \<and> b_platform_template_id b \<noteq> tid) (badge_hashtags (db w)),
         platform_templates := filter (\<lambda>x. pt_id x \<noteq> tid) (platform_templates (db w))\<rparr>\<rparr>
    \<and> fst (create_badge now bid uid tid w') = Inl PlatformTemplateNotFoundError"
proof -
  have tid: "pt_id t = tid" using assms by (simp add: admin_get_platform_template_iff)
  note tables = admin_delete_tables [of t w, folded assms(3), unfolded tid]
  have kept: "\<forall>b. b \<in> set (badges (db w')) \<longleftrightarrow> b \<in> set (badges (db w)) \<and> b_platform_template_id b \<noteq> tid"
    by (auto simp: tables(1))
  have other: "b_id x \<noteq> b_id b" "b_share_slug b = Some s \<longrightarrow> b_share_slug x \<noteq> Some s"
    if "b \<in> set (badges (db w))" "b_platform_template_id b = tid" "x \<in> set (badges (db w'))" for b x s
  proof -
    have x: "x \<in> set (badges (db w))" "x \<noteq> b" using that kept by auto
    then show "b_id x \<noteq> b_id b" using wf_badge_unique [OF assms(1)] that(1) by metis
    show "b_share_slug b = Some s \<longrightarrow> b_share_slug x \<noteq> Some s" using slug_unique [OF assms(1) x(1) that(1)] x(2) by metis
  qed
  have gone: "live_badge (b_id b) (db w') = None \<and> badge_tags (b_id b) (db w') = []
         \<and> (\<forall>slug. b_share_slug b = Some slug \<longrightarrow> get_public_badge_by_slug slug (db w') = Inl PublicBadgeNotFoundError)"
    if b: "b \<in> set (badges (db w))" "b_platform_template_id b = tid" for b
  proof (intro conjI allI impI)
    show "live_badge (b_id b) (db w') = None"
      using other(1) [OF b] by (auto simp: live_badge_def find_none_iff)
    show "badge_tags (b_id b) (db w') = []"
      using other(1) [OF b] by (simp add: badge_tags_def tables(4) filter_empty_conv) (metis imageE)
    show "get_public_badge_by_slug slug (db w') = Inl PublicBadgeNotFoundError" if "b_share_slug b = Some slug" for slug
    proof -
      have "find (public_where slug) (badges (db w')) = None"
        using other(2) [OF b] that by (auto simp: find_none_iff public_where_def)
      then show ?thesis by (simp add: get_public_badge_by_slug_def)
    qed
  qed
  have tags: "badge_tags (b_id b) (db w') = badge_tags (b_id b) (db w)" if "b \<in> set (badges (db w'))" for b
    using that by (auto simp: badge_tags_def tables(4) filter_filter intro!: arg_cong [where f = "map bh_hashtag"] filter_cong)
  have "find (\<lambda>x. pt_id x = tid) (platform_templates (db w')) = None"
    by (auto simp: tables(2) find_none_iff)
  then have "fst (create_badge now bid uid tid w') = Inl PlatformTemplateNotFoundError"
    by (simp add: create_badge_def)
  moreover have hash: "(bh_badge_id h \<in> b_id ` set (filter (\<lambda>b. b_platform_template_id b \<noteq> tid) (badges (db w))))
      = (\<exists>b\<in>set (badges (db w)). b_id b = bh_badge_id h \<and> b_platform_template_id b \<noteq> tid)" for h by (auto simp: image_iff intro: sym)
  have "w' = w\<lparr>db := (db w)\<lparr>badges := filter (\<lambda>b. b_platform_template_id b \<noteq> tid) (badges (db w)),
         badge_hashtags := filter (\<lambda>h. \<exists>b\<in>set (badges (db w)). b_id b = bh_badge_id h \<and> b_platform_template_id b \<noteq> tid) (badge_hashtags (db w)),
         platform_templates := filter (\<lambda>x. pt_id x \<noteq> tid) (platform_templates (db w))\<rparr>\<rparr>"
    unfolding assms(3) by (simp add: admin_delete_platform_template_def delete_badges_def delete_where_def Let_def tid flip: hash)
  moreover have "\<forall>b\<in>set (badges (db w)). b_platform_template_id b = tid \<longrightarrow>
         live_badge (b_id b) (db w') = None \<and> badge_tags (b_id b) (db w') = []
         \<and> (\<forall>slug. b_share_slug b = Some slug \<longrightarrow> get_public_badge_by_slug slug (db w') = Inl PublicBadgeNotFoundError)"
    using gone by (intro ballI impI)
  moreover have "\<forall>b\<in>set (badges (db w')). badge_tags (b_id b) (db w') = badge_tags (b_id b) (db w)" using tags by (intro ballI)
  ultimately show ?thesis using kept by (intro conjI)
qed

theorem template_deletion_cascades_witness:
  "get_public_badge_by_slug ''slug'' demo_badges = Inr demo_badge
     \<and> get_public_badge_by_slug ''slug'' (db (admin_delete_platform_template demo_template (demo_world demo_badges)))
         = Inl PublicBadgeNotFoundError"
proof -
  have wf: "db_wf (db (demo_world demo_badges))" by (simp add: demo_badges_wf)
  have t: "admin_get_platform_template (pt_id demo_template) (db (demo_world demo_badges)) = Some demo_template"
    using wf by (simp add: admin_get_platform_template_iff)
  have b: "b_platform_template_id demo_badge = pt_id demo_template" "b_share_slug demo_badge = Some ''slug''"
    by (simp_all add: demo_badge_def demo_template_def new_badge_def)
  show ?thesis
    using bspec [OF conjunct1 [OF conjunct2 [OF template_deletion_cascades [OF wf t refl, of 0 0 0]]], of demo_badge] demo_public b
    by simp
qed

end
