(* ===== verification/Middleware.thy ===== *)
theory Middleware
  imports Sanitizer Security
begin

text \<open>
  The middleware of \<open>app/core/middleware\<close>: the limit on the size of a body and what is logged of a
  request; and the upload routines of the routers, which read a body piece by piece.
\<close>

section \<open>The size limit\<close>

text \<open>A message of the server: a piece of the body, or anything else.\<close>

datatype message = HttpRequest bytes | OtherMessage

text \<open>
  The application behind the middleware, as it talks to \<open>receive\<close>: it answers, it waits for a message,
  which is \<open>None\<close> when \<open>receive\<close> raises \<open>_PayloadTooLarge\<close>, or it ends with that exception.
\<close>

datatype 'a asgi = Answer 'a | Receive "message option \<Rightarrow> 'a asgi" | TooLarge

definition http_body :: "message \<Rightarrow> bytes" where
  "http_body m = (case m of HttpRequest body \<Rightarrow> body | OtherMessage \<Rightarrow> [])"

text \<open>
  The messages come from a list; when it is used up the connection is closed.  Besides its answer,
  \<open>None\<close> for the exception, a run gives the messages the application was handed.
\<close>

primrec run_app :: "'a asgi \<Rightarrow> message list \<Rightarrow> 'a option \<times> message list" where
  "run_app (Answer r) ms = (Some r, [])"
| "run_app (Receive k) ms =
     (let m = (case ms of [] \<Rightarrow> OtherMessage | m # _ \<Rightarrow> m);
          (r, seen) = run_app (k (Some m)) (tl ms)
      in (r, m # seen))"
| "run_app TooLarge ms = (None, [])"

primrec limited_app :: "'a asgi \<Rightarrow> nat \<Rightarrow> nat \<Rightarrow> message list \<Rightarrow> 'a option \<times> message list" where
  "limited_app (Answer r) max_body_bytes received_size ms = (Some r, [])"
| "limited_app (Receive k) max_body_bytes received_size ms =
     (let m = (case ms of [] \<Rightarrow> OtherMessage | m # _ \<Rightarrow> m) in
      if received_size + length (http_body m) > max_body_bytes
      then limited_app (k None) max_body_bytes received_size (tl ms)
      else (let (r, seen) = limited_app (k (Some m)) max_body_bytes (received_size + length (http_body m)) (tl ms)
            in (r, m # seen)))"
| "limited_app TooLarge max_body_bytes received_size ms = (None, [])"

datatype 'a reply = App 'a | JSONResponse nat string

text \<open>\<open>None\<close> is an exception that leaves the middleware, which only happens outside HTTP.\<close>

definition content_size_limit :: "nat \<Rightarrow> string \<Rightarrow> string option \<Rightarrow> 'a asgi \<Rightarrow> message list \<Rightarrow>
    'a reply option \<times> message list" where
  "content_size_limit max_body_bytes scope_type content_length app ms =
     (let run = (let (r, seen) = limited_app app max_body_bytes 0 ms in
            (Some (case r of Some a \<Rightarrow> App a | None \<Rightarrow> JSONResponse 413 ''Request body too large''), seen)) in
      if scope_type \<noteq> ''http'' then (let (r, seen) = run_app app ms in (map_option App r, seen))
      else (case content_length of
          None \<Rightarrow> run
        | Some v \<Rightarrow> (case py_int v of
            None \<Rightarrow> (Some (JSONResponse 400 ''Invalid Content-Length header''), [])
          | Some n \<Rightarrow> if n > int max_body_bytes
              then (Some (JSONResponse 413 ''Request body too large''), []) else run)))"

definition body_size :: "message list \<Rightarrow> nat" where
  "body_size ms = sum_list (map (\<lambda>m. length (http_body m)) ms)"

lemma body_size_Cons [simp]: "body_size (m # ms) = length (http_body m) + body_size ms" "body_size [] = 0"
  by (simp_all add: body_size_def)

lemma limited_app_bound:
  "received_size \<le> max_body_bytes \<Longrightarrow>
   received_size + body_size (snd (limited_app app max_body_bytes received_size ms)) \<le> max_body_bytes"
proof (induction app arbitrary: received_size ms)
  case (Receive k)
  let ?m = "case ms of [] \<Rightarrow> OtherMessage | m # _ \<Rightarrow> m"
  show ?case
  proof (cases "received_size + length (http_body ?m) > max_body_bytes")
    case True
    then show ?thesis using Receive.IH [of "k None" received_size "tl ms"] Receive.prems by (simp add: Let_def)
  next
    case False
    then have "received_size + length (http_body ?m) \<le> max_body_bytes" by simp
    from Receive.IH [of "k (Some ?m)", OF _ this] False show ?thesis
      by (simp add: Let_def case_prod_unfold add.assoc)
  qed
qed simp_all

text \<open>A body that stays below the limit passes unchanged.\<close>

lemma limited_app_transparent:
  "received_size + body_size ms \<le> max_body_bytes \<Longrightarrow> limited_app app max_body_bytes received_size ms = run_app app ms"
proof (induction app arbitrary: received_size ms)
  case (Receive k)
  let ?m = "case ms of [] \<Rightarrow> OtherMessage | m # _ \<Rightarrow> m"
  have le: "received_size + length (http_body ?m) + body_size (tl ms) \<le> max_body_bytes"
    using Receive.prems by (cases ms) (auto simp: http_body_def)
  then show ?case using Receive.IH [of "k (Some ?m)", OF _ le] by (simp add: Let_def)
qed simp_all

text \<open>
  An application that lets the exception of \<open>receive\<close> pass.  One that catches it answers what it likes: the parsing of a
  body in FastAPI makes a 400 of it.
\<close>

primrec lets_pass :: "'a asgi \<Rightarrow> bool" where
  "lets_pass (Answer r) = True"
| "lets_pass (Receive k) = (k None = TooLarge \<and> (\<forall>m. lets_pass (k (Some m))))"
| "lets_pass TooLarge = True"

lemma limited_app_stops:
  "lets_pass app \<Longrightarrow> max_body_bytes < received_size + body_size (snd (run_app app ms)) \<Longrightarrow> received_size \<le> max_body_bytes
   \<Longrightarrow> fst (limited_app app max_body_bytes received_size ms) = None"
proof (induction app arbitrary: received_size ms)
  case (Receive k)
  let ?m = "case ms of [] \<Rightarrow> OtherMessage | m # _ \<Rightarrow> m"
  show ?case
  proof (cases "received_size + length (http_body ?m) > max_body_bytes")
    case True
    then show ?thesis using Receive.prems(1) by (simp add: Let_def)
  next
    case False
    then have "fst (limited_app (k (Some ?m)) max_body_bytes (received_size + length (http_body ?m)) (tl ms)) = None"
      using Receive.prems by (intro Receive.IH [of "k (Some ?m)"]) (simp_all add: Let_def case_prod_unfold add.assoc)
    with False show ?thesis by (simp add: Let_def case_prod_unfold)
  qed
qed simp_all

text \<open>C26. Whatever pieces a client sends and whatever length it announces, the application is handed at most the
  allowed number of bytes; a body within the limit reaches it exactly as without the middleware; a larger
  announced length is refused before the application runs; and when the application asks for more than the limit, piece by piece, and
  does not catch the exception this raises, the answer is 413.\<close>

theorem body_limit_enforced:
  shows "body_size (snd (content_size_limit m ''http'' len app ms)) \<le> m
    \<and> (body_size ms \<le> m \<longrightarrow> (len = None \<or> (\<exists>v n. len = Some v \<and> py_int v = Some n \<and> n \<le> int m)) \<longrightarrow>
         content_size_limit m ''http'' len app ms =
           (let (r, seen) = run_app app ms in
            (Some (case r of Some a \<Rightarrow> App a | None \<Rightarrow> JSONResponse 413 ''Request body too large''), seen)))
    \<and> (\<forall>n. int m < n \<longrightarrow> content_size_limit m ''http'' (Some (py_str n)) app ms
         = (Some (JSONResponse 413 ''Request body too large''), []))
    \<and> (lets_pass app \<longrightarrow> m < body_size (snd (run_app app ms)) \<longrightarrow>
         (len = None \<or> (\<exists>v n. len = Some v \<and> py_int v = Some n \<and> n \<le> int m)) \<longrightarrow>
         fst (content_size_limit m ''http'' len app ms) = Some (JSONResponse 413 ''Request body too large''))"
proof -
  have "body_size (snd (limited_app app m 0 ms)) \<le> m" using limited_app_bound [of 0 m app ms] by simp
  then have "body_size (snd (content_size_limit m ''http'' len app ms)) \<le> m"
    by (auto simp: content_size_limit_def Let_def split: option.split prod.split)
  moreover have "content_size_limit m ''http'' len app ms =
           (let (r, seen) = run_app app ms in
            (Some (case r of Some a \<Rightarrow> App a | None \<Rightarrow> JSONResponse 413 ''Request body too large''), seen))"
    if "body_size ms \<le> m" "len = None \<or> (\<exists>v n. len = Some v \<and> py_int v = Some n \<and> n \<le> int m)"
    using that limited_app_transparent [of 0 ms m app] by (auto simp: content_size_limit_def Let_def)
  moreover have "content_size_limit m ''http'' (Some (py_str n)) app ms = (Some (JSONResponse 413 ''Request body too large''), [])"
    if "int m < n" for n
    using that by (simp add: content_size_limit_def py_simps)
  moreover have "fst (content_size_limit m ''http'' len app ms) = Some (JSONResponse 413 ''Request body too large'')"
    if "lets_pass app" "m < body_size (snd (run_app app ms))" "len = None \<or> (\<exists>v n. len = Some v \<and> py_int v = Some n \<and> n \<le> int m)"
    using that limited_app_stops [of app m 0 ms] by (auto simp: content_size_limit_def Let_def case_prod_unfold)
  ultimately show ?thesis by blast
qed

text \<open>An application that reads three pieces and counts them: the limit stops it at the third.\<close>

definition demo_app :: "nat asgi" where
  "demo_app = Receive (\<lambda>a. case a of None \<Rightarrow> TooLarge | Some _ \<Rightarrow>
     Receive (\<lambda>b. case b of None \<Rightarrow> TooLarge | Some _ \<Rightarrow>
       Receive (\<lambda>c. case c of None \<Rightarrow> TooLarge | Some _ \<Rightarrow> Answer 3)))"

theorem body_limit_enforced_witness:
  "content_size_limit 5 ''http'' None demo_app [HttpRequest ''ab'', HttpRequest ''cd'', HttpRequest ''ef'']
     = (Some (JSONResponse 413 ''Request body too large''), [HttpRequest ''ab'', HttpRequest ''cd''])
   \<and> content_size_limit 6 ''http'' (Some ''6'') demo_app [HttpRequest ''ab'', HttpRequest ''cd'', HttpRequest ''ef'']
     = (Some (App 3), [HttpRequest ''ab'', HttpRequest ''cd'', HttpRequest ''ef''])"
proof -
  have "py_int ''6'' = Some 6" by code_simp
  then show ?thesis
    using body_limit_enforced [of 6 "Some ''6''" demo_app "[HttpRequest ''ab'', HttpRequest ''cd'', HttpRequest ''ef'']"]
    by (auto simp: content_size_limit_def demo_app_def http_body_def)
qed

end
