(* ===== verification/Uploads.thy ===== *)
theory Uploads
  imports World
begin

text \<open>
  The upload routines of the routers: reading a file piece by piece under a size limit
  (\<open>_read_file_with_size_check\<close>) and the checks of the first bytes of an image.  A file is a state with
  its \<open>read\<close>; nothing is assumed of it.
\<close>

section \<open>Reading with a limit\<close>

definition MAX_FILE_SIZE :: nat where
  "MAX_FILE_SIZE = 10 * 1024 * 1024"

definition CHUNK_SIZE :: nat where
  "CHUNK_SIZE = 8 * 1024"

definition too_large :: "nat \<Rightarrow> app_error" where
  "too_large max_size = HTTPException 400
     (''File size exceeds maximum allowed size of '' @ nat_str (max_size div 1024 div 1024) @ '' MB'')"

function read_chunks :: "(nat \<Rightarrow> 'f \<Rightarrow> bytes \<times> 'f) \<Rightarrow> nat \<Rightarrow> bytes list \<Rightarrow> nat \<Rightarrow> 'f \<Rightarrow> (app_error + bytes) \<times> 'f" where
  "read_chunks read max_size chunks total_size fl =
     (let (chunk, fl) = read CHUNK_SIZE fl in
      if chunk = [] then (Inr (concat chunks), fl)
      else (let total_size = total_size + length chunk in
        if total_size > max_size then (Inl (too_large max_size), fl)
        else read_chunks read max_size (chunks @ [chunk]) total_size fl))"
  by pat_completeness auto

termination
  by (relation "measure (\<lambda>(read, max_size, chunks, total_size, fl). max_size + 1 - total_size)")
    (auto simp: neq_Nil_conv)

declare read_chunks.simps [simp del]

definition read_file_with_size_check :: "(nat \<Rightarrow> 'f \<Rightarrow> bytes \<times> 'f) \<Rightarrow> nat \<Rightarrow> 'f \<Rightarrow> (app_error + bytes) \<times> 'f" where
  "read_file_with_size_check read max_size fl = read_chunks read max_size [] 0 fl"

text \<open>A file that holds some bytes, and a file that counts the reads.\<close>

definition file_read :: "nat \<Rightarrow> bytes \<Rightarrow> bytes \<times> bytes" where
  "file_read n content = (take n content, drop n content)"

definition counted :: "(nat \<Rightarrow> 'f \<Rightarrow> bytes \<times> 'f) \<Rightarrow> nat \<Rightarrow> 'f \<times> nat \<Rightarrow> bytes \<times> 'f \<times> nat" where
  "counted read n fc = (let (chunk, fl) = read n (fst fc) in (chunk, fl, Suc (snd fc)))"

lemma counted_simp: "counted read n (f, c) = (fst (read n f), snd (read n f), Suc c)"
  by (simp add: counted_def split: prod.split)

lemma read_chunks_step:
  assumes "read CHUNK_SIZE fl = (chunk, fl')"
  shows "read_chunks read max_size chunks got fl =
     (if chunk = [] then (Inr (concat chunks), fl')
      else if got + length chunk > max_size then (Inl (too_large max_size), fl')
      else read_chunks read max_size (chunks @ [chunk]) (got + length chunk) fl')"
  using assms by (subst read_chunks.simps) (simp add: Let_def)

lemma read_chunks_count:
  "got \<le> max_size \<Longrightarrow>
   snd (snd (read_chunks (counted read) max_size chunks got (fl, c))) \<le> c + (max_size - got) + 1"
proof (induction "max_size - got" arbitrary: chunks got fl c rule: less_induct)
  case less
  obtain chunk fl' where r: "counted read CHUNK_SIZE (fl, c) = (chunk, fl', Suc c)"
    by (simp add: counted_simp)
  show ?case
  proof (cases "chunk = [] \<or> got + length chunk > max_size")
    case True
    then show ?thesis by (auto simp: read_chunks_step [where read = "counted read", OF r])
  next
    case False
    then have len: "0 < length chunk" "got + length chunk \<le> max_size" by auto
    have "snd (snd (read_chunks (counted read) max_size (chunks @ [chunk]) (got + length chunk) (fl', Suc c)))
        \<le> Suc c + (max_size - (got + length chunk)) + 1"
      using False len less.prems by (intro less.hyps) linarith+
    moreover have eq: "read_chunks (counted read) max_size chunks got (fl, c)
        = read_chunks (counted read) max_size (chunks @ [chunk]) (got + length chunk) (fl', Suc c)"
      using False by (simp add: read_chunks_step [where read = "counted read", OF r])
    ultimately show ?thesis using len unfolding eq by linarith
  qed
qed

lemma read_chunks_size:
  "length (concat chunks) = got \<Longrightarrow> got \<le> max_size \<Longrightarrow>
   fst (read_chunks read max_size chunks got fl) = Inr b \<Longrightarrow> length b \<le> max_size"
proof (induction "max_size - got" arbitrary: chunks got fl rule: less_induct)
  case less
  obtain chunk fl' where r: "read CHUNK_SIZE fl = (chunk, fl')" by (meson surj_pair)
  note step = read_chunks_step [where read = read, OF r]
  show ?case
  proof (cases "chunk = [] \<or> got + length chunk > max_size")
    case True
    then show ?thesis using less.prems by (auto simp: step split: if_splits)
  next
    case False
    then have "0 < length chunk" "got + length chunk \<le> max_size" by auto
    then have "max_size - (got + length chunk) < max_size - got" by linarith
    with False show ?thesis
      using less.hyps [of "got + length chunk" "chunks @ [chunk]" fl'] less.prems
      by (simp add: step diff_less_mono2 split: if_splits)
  qed
qed

lemma chunk_div:
  assumes "0 < k" "k \<le> (n::nat)"
  shows "n div k = Suc ((n - k) div k)"
  using assms by (metis Suc_eq_plus1 div_add_self2 le_add_diff_inverse2 less_numeral_extra(3))

lemma read_chunks_file:
  "got \<le> max_size \<Longrightarrow>
   fst (read_chunks (counted file_read) max_size chunks got (content, c)) =
     (if got + length content \<le> max_size then Inr (concat chunks @ content) else Inl (too_large max_size))
   \<and> snd (snd (read_chunks (counted file_read) max_size chunks got (content, c)))
     \<le> c + (max_size - got) div CHUNK_SIZE + 2"
proof (induction "length content" arbitrary: chunks got content c rule: less_induct)
  case less
  have r: "counted file_read CHUNK_SIZE (content, c) = (take CHUNK_SIZE content, drop CHUNK_SIZE content, Suc c)"
    by (simp add: counted_simp file_read_def)
  note step = read_chunks_step [where read = "counted file_read", OF r]
  have pos: "0 < CHUNK_SIZE" by (simp add: CHUNK_SIZE_def)
  consider (stop) "content = [] \<or> got + length (take CHUNK_SIZE content) > max_size"
    | (last) "content \<noteq> []" "got + length (take CHUNK_SIZE content) \<le> max_size" "length content < CHUNK_SIZE"
    | (more) "got + length (take CHUNK_SIZE content) \<le> max_size" "CHUNK_SIZE \<le> length content"
    by linarith
  then show ?case
  proof cases
    case stop
    then show ?thesis using less.prems pos unfolding step by (auto simp: min_def split: if_splits)
  next
    case last
    have "counted file_read CHUNK_SIZE ([], Suc c) = ([], [], Suc (Suc c))"
      by (simp add: counted_simp file_read_def)
    note step' = read_chunks_step [where read = "counted file_read", OF this]
    show ?thesis using last pos unfolding step by (simp add: step')
  next
    case more
    then have "length (drop CHUNK_SIZE content) < length content" "got + CHUNK_SIZE \<le> max_size" using pos by auto
    note ih = less.hyps [OF this, of "chunks @ [take CHUNK_SIZE content]" "Suc c"]
    have "(max_size - got) div CHUNK_SIZE = Suc ((max_size - (got + CHUNK_SIZE)) div CHUNK_SIZE)"
      using chunk_div [OF pos, of "max_size - got"] \<open>got + CHUNK_SIZE \<le> max_size\<close> by (simp add: diff_diff_left)
    then show ?thesis using more pos ih unfolding step by (auto simp: min_def)
  qed
qed

text \<open>C28. The upload loop ends for every file, an endless one included: after at most one read per byte allowed, and one
  more; what it returns is never longer than the limit; and of a file it returns the content when that is
  within the limit and refuses it otherwise, with one read per started piece and one more.\<close>

theorem upload_read_terminates:
  shows "snd (snd (read_file_with_size_check (counted read) m (fl, 0))) \<le> m + 1
    \<and> (\<forall>b. fst (read_file_with_size_check read m fl) = Inr b \<longrightarrow> length b \<le> m)
    \<and> fst (read_file_with_size_check (counted file_read) m (content, 0)) =
        (if length content \<le> m then Inr content else Inl (too_large m))
    \<and> snd (snd (read_file_with_size_check (counted file_read) m (content, 0))) \<le> m div CHUNK_SIZE + 2"
proof -
  have "snd (snd (read_chunks (counted read) m [] 0 (fl, 0))) \<le> 0 + (m - 0) + 1"
    by (rule read_chunks_count) simp
  moreover have "length b \<le> m" if "fst (read_chunks read m [] 0 fl) = Inr b" for b
    by (rule read_chunks_size [OF _ _ that]) simp_all
  moreover note read_chunks_file [of 0 m "[]" content 0]
  ultimately show ?thesis by (simp add: read_file_with_size_check_def)
qed

text \<open>An endless file.\<close>

theorem upload_read_terminates_witness:
  "fst (read_file_with_size_check (counted file_read) 3 (''abc'', 0)) = Inr ''abc''
   \<and> fst (read_file_with_size_check (counted file_read) 3 (''abcd'', 0)) = Inl (too_large 3)
   \<and> snd (snd (read_file_with_size_check (counted (\<lambda>n u. (''x'', u))) 3 ((), 0))) \<le> 4"
  using upload_read_terminates [where read = "\<lambda>n u. (''x'', u)" and m = 3 and fl = "()" and content = "''abc''"]
    upload_read_terminates [where read = "\<lambda>n u. (''x'', u)" and m = 3 and fl = "()" and content = "''abcd''"]
  by simp

section \<open>The first bytes\<close>

definition IMAGE_MAGIC_BYTES :: "(bytes \<times> string) list" where
  "IMAGE_MAGIC_BYTES = [([CHR 0xFF, CHR 0xD8, CHR 0xFF], ''image/jpeg''),
     ([CHR 0x89, CHR 0x50, CHR 0x4E, CHR 0x47], ''image/png''), ([CHR 0x47, CHR 0x49, CHR 0x46, CHR 0x38], ''image/gif'')]"

definition validate_image_content :: "bytes \<Rightarrow> app_error + string" where
  "validate_image_content content =
     (if length content < 4 then Inl (HTTPException 400 ''File is too small to be a valid image'')
      else (case find (\<lambda>(magic_bytes, mime_type). py_startswith content magic_bytes) IMAGE_MAGIC_BYTES of
          Some (_, mime_type) \<Rightarrow> Inr mime_type
        | None \<Rightarrow> Inl (HTTPException 400 ''Invalid file format. Only JPEG, PNG, and GIF are supported.'')))"

definition MAX_LOGO_BYTES :: nat where
  "MAX_LOGO_BYTES = 2 * 1024 * 1024"

definition ALLOWED_CONTENT_TYPES :: "string list" where
  "ALLOWED_CONTENT_TYPES = [''image/png'', ''image/jpeg'', ''image/svg+xml'']"

definition PNG_MAGIC :: bytes where
  "PNG_MAGIC = [CHR 0x89, CHR ''P'', CHR ''N'', CHR ''G'', CHR 0x0D, CHR 0x0A, CHR 0x1A, CHR 0x0A]"

definition JPEG_MAGIC :: bytes where
  "JPEG_MAGIC = [CHR 0xFF, CHR 0xD8, CHR 0xFF]"

text \<open>\<open>bytes.lstrip\<close> strips the six ASCII white space bytes.\<close>

definition bytes_isspace :: "char \<Rightarrow> bool" where
  "bytes_isspace c = (let n = code_point c in (9 \<le> n \<and> n \<le> 13) \<or> n = 32)"

definition is_valid_image :: "bytes \<Rightarrow> bool" where
  "is_valid_image data =
     (if take 8 data = PNG_MAGIC \<or> take 3 data = JPEG_MAGIC then True
      else (let stripped_data = dropWhile bytes_isspace data in
        py_startswith stripped_data ''<?xml'' \<or> py_startswith stripped_data ''<svg''))"

lemma validate_image_content_Inr:
  "validate_image_content content = Inr t \<Longrightarrow> t \<in> {''image/jpeg'', ''image/png'', ''image/gif''}"
  by (auto simp: validate_image_content_def IMAGE_MAGIC_BYTES_def split: if_splits option.splits)

end
