(* ===== verification/Request_Log.thy ===== *)
theory Request_Log
  imports Sanitizer Security
begin

text \<open>
  What \<open>app/core/middleware/request_logging.py\<close> writes to the log of a request, and the guarantee of the
  sanitizer: a value under a sensitive name is never logged.
\<close>

section \<open>The log of a request\<close>

record logged_request =
  lr_request :: request
  lr_method :: string
  lr_path :: string
  lr_query :: string

record log_context =
  lc_client_ip :: string
  lc_method :: string
  lc_path :: string
  lc_user_agent :: string
  lc_query :: "string option"
  lc_headers :: "(string \<times> string) list option"

definition client_ip :: "request \<Rightarrow> string" where
  "client_ip req = (case header_get req ''X-Forwarded-For'' of
     Some (c # forwarded) \<Rightarrow> py_strip (hd (py_split (CHR '','') (c # forwarded)))
   | _ \<Rightarrow> (case header_get req ''X-Real-IP'' of
       Some (c # real_ip) \<Rightarrow> py_strip (c # real_ip)
     | _ \<Rightarrow> (case req_client_host req of Some host \<Rightarrow> host | None \<Rightarrow> ''unknown'')))"

definition request_context :: "logged_request \<Rightarrow> log_context" where
  "request_context q =
     (let query = sanitize_query (lr_query q);
          user_agent = take 200 (case header_get (lr_request q) ''user-agent'' of None \<Rightarrow> [] | Some v \<Rightarrow> v);
          safe_hdrs = sanitize_headers (req_headers (lr_request q))
      in \<lparr>lc_client_ip = client_ip (lr_request q), lc_method = lr_method q, lc_path = lr_path q,
          lc_user_agent = user_agent, lc_query = (if query \<noteq> [] then Some query else None),
          lc_headers = (if safe_hdrs \<noteq> [] then Some safe_hdrs else None)\<rparr>)"

datatype log_line = LogStarted string string | LogFailed string string | LogFinished string string string nat

definition is_health_check :: "string \<Rightarrow> bool" where
  "is_health_check path = (path \<in> {''/'', ''/health'', ''/api/v1/health''})"

text \<open>\<open>status\<close> is the status of the response, \<open>None\<close> for an exception that left the application.\<close>

definition log_lines :: "string \<Rightarrow> string \<Rightarrow> nat option \<Rightarrow> log_line list" where
  "log_lines method path status =
     (if is_health_check path then [] else [LogStarted method path])
     @ (case status of None \<Rightarrow> [LogFailed method path]
        | Some code \<Rightarrow>
            if \<not> is_health_check path \<or> code \<ge> 400
            then [LogFinished (if code \<ge> 400 then ''WARNING'' else ''INFO'') method path code] else [])"

section \<open>Redacted values\<close>

lemma size_json_elem: "v \<in> set data \<Longrightarrow> size v < Suc (size_list size data)"
  using size_json_item [of v "length data" data] by simp

function redacted :: "json \<Rightarrow> bool" where
  "redacted (JObj kvs) = (\<forall>(k, v)\<in>set kvs. (is_sensitive_field k \<longrightarrow> v = JStr REDACTED) \<and> redacted v)"
| "redacted (JList js) = (\<forall>j\<in>set js. redacted j)"
| "redacted (JStr s) = True"
| "redacted JNull = True"
| "redacted (JBool b) = True"
| "redacted (JInt i) = True"
| "redacted (JDec m n) = True"
  by pat_completeness auto

termination
  by (relation "measure size") (auto simp: size_json_pair size_json_elem)

lemma not_sensitive_marker: "\<not> is_sensitive_field ''<max_depth_reached>''"
  by code_simp

lemma redacted_sanitize: "redacted (sanitize_value j n)"
proof (induction j n rule: sanitize_value.induct)
  case (1 data n)
  then show ?case by (auto simp: not_sensitive_marker)
next
  case (2 data n)
  then show ?case by auto
qed simp_all

text \<open>The pieces of a query string, and what a piece is: a key without an equals sign, and a value.\<close>

abbreviation pieces :: "string \<Rightarrow> string list" where
  "pieces s \<equiv> py_split (CHR ''&'') s"

definition from_piece :: "string list \<Rightarrow> string \<times> string \<Rightarrow> bool" where
  "from_piece ps pair = (case pair of (k, v) \<Rightarrow> CHR ''='' \<notin> set k \<and> CHR ''&'' \<notin> set k \<and> CHR ''&'' \<notin> set v
     \<and> (k @ ''='' @ v \<in> set ps \<or> v = [] \<and> k \<in> set ps))"

lemma alist_update_in: "x \<in> set (AList.update k v al) \<Longrightarrow> x = (k, v) \<or> x \<in> set al"
  by (induction al) (auto split: if_splits)

lemma alist_update_not_Nil: "AList.update k v al \<noteq> []"
  by (cases al) auto

lemma piece_read:
  assumes "p \<in> set (pieces s)"
  shows "CHR ''='' \<in> set p \<Longrightarrow> from_piece (pieces s) (split_first (CHR ''='') p)"
    and "CHR ''='' \<notin> set p \<Longrightarrow> from_piece (pieces s) (p, [])"
proof -
  have amp: "CHR ''&'' \<notin> set p" by (rule py_split_no_sep [OF assms])
  show "from_piece (pieces s) (split_first (CHR ''='') p)" if "CHR ''='' \<in> set p"
  proof -
    obtain k v where pair: "split_first (CHR ''='') p = (k, v)" by fastforce
    from split_first_append [OF that pair] have "p = k @ ''='' @ v" "CHR ''='' \<notin> set k" by simp_all
    then show ?thesis using amp assms pair by (auto simp: from_piece_def)
  qed
  show "from_piece (pieces s) (p, [])" if "CHR ''='' \<notin> set p" using that amp assms by (simp add: from_piece_def)
qed

lemma parse_query_pieces: "list_all (from_piece (pieces s)) (parse_query s) \<and> parse_query s \<noteq> []"
proof -
  let ?f = "\<lambda>p params. if CHR ''='' \<in> set p then (case split_first (CHR ''='') p of (key, val) \<Rightarrow> AList.update key val params)
       else AList.update p [] params"
  have "list_all (from_piece (pieces s)) (fold ?f (pieces s) [])"
  proof (rule fold_invariant [where Q = "\<lambda>p. p \<in> set (pieces s)"])
    fix p params
    assume "p \<in> set (pieces s)" and params: "list_all (from_piece (pieces s)) params"
    from piece_read [OF this(1)] params show "list_all (from_piece (pieces s)) (?f p params)"
      by (auto simp: list_all_iff split: prod.split dest!: alist_update_in)
  qed simp_all
  moreover have "fold ?f ps params \<noteq> []" if "ps \<noteq> []" for ps params
  proof -
    obtain qs p where "ps = qs @ [p]" using \<open>ps \<noteq> []\<close> by (cases ps rule: rev_cases) auto
    then show ?thesis using alist_update_not_Nil by (simp split: prod.split)
  qed
  ultimately show ?thesis by (simp add: parse_query_def)
qed

lemma redacted_no_sep: "CHR ''&'' \<notin> set REDACTED"
  by (simp add: REDACTED_def)

text \<open>The pieces of what is logged of a query string: a sensitive name has the placeholder, and the others are those of the query.\<close>

lemma sanitized_pieces:
  assumes "s \<noteq> []" "p \<in> set (pieces (sanitize_query s))"
  shows "\<exists>k v. p = k @ ''='' @ v \<and> CHR ''='' \<notin> set k
    \<and> (if is_sensitive_field k then v = REDACTED else p \<in> set (pieces s) \<or> v = [] \<and> k \<in> set (pieces s))"
proof -
  let ?ws = "map (\<lambda>(k, v). k @ ''='' @ v) (redact_pairs (parse_query s))"
  note from_query = parse_query_pieces [of s, unfolded list_all_iff]
  have "pieces (sanitize_query s) = ?ws"
    unfolding sanitize_query_def using assms(1) from_query redacted_no_sep
    by (simp, intro py_split_join) (auto simp: redact_pairs_def from_piece_def split: if_splits)
  then obtain k v where pair: "(k, v) \<in> set (parse_query s)" "p = k @ ''='' @ (if is_sensitive_field k then REDACTED else v)"
    using assms(2) by (auto simp: redact_pairs_def)
  then have "from_piece (pieces s) (k, v)" using from_query by blast
  with pair(2) show ?thesis
    by (intro exI [of _ k] exI [of _ "if is_sensitive_field k then REDACTED else v"]) (simp add: from_piece_def)
qed


definition demo_logged :: logged_request where
  "demo_logged = \<lparr>lr_request = \<lparr>req_headers = [(''cookie'', ''sid''), (''accept'', ''*'')], req_client_host = None\<rparr>,
     lr_method = ''GET'', lr_path = ''/'', lr_query = ''page=1&api_key=k''\<rparr>"

lemma demo_logged_context:
  "lc_headers (request_context demo_logged) = Some [(''accept'', ''*'')]"
  "lc_query (request_context demo_logged) = Some ''page=1&api_key=[REDACTED]''"
  by code_simp+


text \<open>
  The names are matched literally: the access code of a private page, an OAuth code and state, and the
  changed passwords of a profile do not count as sensitive.
\<close>

lemma unredacted_names:
  "sanitize_query ''access_code=AB12'' = ''access_code=AB12''"
  "sanitize_query ''code=c1&state=s1'' = ''code=c1&state=s1''"
  "sanitize_query ''token=t1'' = ''token=t1''"
  "\<not> is_sensitive_field ''new_password''" "\<not> is_sensitive_field ''current_password''"
  by code_simp+

end
