(* ===== verification/Responses.thy ===== *)
theory Responses
  imports Outreach Templates_Admin Google
begin

text \<open>
  The response models of \<open>app/schemas\<close>: which fields of a row a client sees.  Reading a badge into a
  model that declares \<open>canvas_data\<close> as an object fails with a validation error when the column holds
  another JSON value.
\<close>

section \<open>Accounts\<close>

record user_response =
  us_id :: uuid
  us_first_name :: string
  us_last_name :: "string option"
  us_email :: string
  us_is_email_verified :: bool
  us_profile_photo_url :: "string option"
  us_role :: "string option"
  us_created_at :: time
  us_updated_at :: time

definition UserResponse :: "user \<Rightarrow> user_response" where
  "UserResponse u = \<lparr>us_id = u_id u, us_first_name = u_first_name u, us_last_name = u_last_name u, us_email = u_email u,
     us_is_email_verified = u_is_email_verified u, us_profile_photo_url = u_profile_photo_url u,
     us_role = u_role u, us_created_at = u_created_at u, us_updated_at = u_updated_at u\<rparr>"

record login_user_response =
  lu_first_name :: string
  lu_last_name :: "string option"
  lu_email :: string
  lu_is_email_verified :: bool

definition LoginUserResponse :: "user \<Rightarrow> login_user_response" where
  "LoginUserResponse u = \<lparr>lu_first_name = u_first_name u, lu_last_name = u_last_name u, lu_email = u_email u,
     lu_is_email_verified = u_is_email_verified u\<rparr>"

section \<open>Badges\<close>

record create_badge_response =
  cb_id :: uuid
  cb_platform_template_id :: uuid
  cb_organiser_id :: uuid
  cb_created_at :: "time option"

definition CreateBadgeResponse :: "badge \<Rightarrow> create_badge_response" where
  "CreateBadgeResponse b = \<lparr>cb_id = b_id b, cb_platform_template_id = b_platform_template_id b, cb_organiser_id = b_organiser_id b,
     cb_created_at = b_created_at b\<rparr>"

record published_badge_response =
  pb_id :: uuid
  pb_title :: string
  pb_is_published :: bool
  pb_access_type :: int
  pb_access_code :: "string option"
  pb_published_at :: "time option"
  pb_share_slug :: "string option"
  pb_updated_at :: "time option"

definition PublishedBadgeResponse :: "badge \<Rightarrow> published_badge_response" where
  "PublishedBadgeResponse b = \<lparr>pb_id = b_id b, pb_title = b_title b, pb_is_published = b_is_published b,
     pb_access_type = b_access_type b, pb_access_code = b_access_code b, pb_published_at = b_published_at b,
     pb_share_slug = b_share_slug b, pb_updated_at = b_updated_at b\<rparr>"

record duplicate_badge_response =
  dp_id :: uuid
  dp_title :: string
  dp_platform_template_id :: uuid
  dp_organiser_id :: uuid
  dp_is_published :: bool
  dp_access_type :: int
  dp_access_code :: "string option"
  dp_created_at :: "time option"

definition DuplicateBadgeResponse :: "badge \<Rightarrow> duplicate_badge_response" where
  "DuplicateBadgeResponse b = \<lparr>dp_id = b_id b, dp_title = b_title b, dp_platform_template_id = b_platform_template_id b,
     dp_organiser_id = b_organiser_id b, dp_is_published = b_is_published b,
     dp_access_type = b_access_type b, dp_access_code = b_access_code b, dp_created_at = b_created_at b\<rparr>"

record badge_summary =
  bs_id :: uuid
  bs_title :: string
  bs_platform_template_id :: uuid
  bs_thumbnail_url :: "string option"
  bs_is_published :: bool
  bs_access_type :: int
  bs_access_code :: "string option"
  bs_share_slug :: "string option"
  bs_published_at :: "time option"
  bs_created_at :: "time option"
  bs_updated_at :: "time option"
  bs_total_shares :: int
  bs_total_badges_created :: int
  bs_status :: string

definition BadgeSummary :: "badge \<Rightarrow> badge_summary" where
  "BadgeSummary b = \<lparr>bs_id = b_id b, bs_title = b_title b, bs_platform_template_id = b_platform_template_id b,
     bs_thumbnail_url = b_thumbnail_url b, bs_is_published = b_is_published b,
     bs_access_type = b_access_type b, bs_access_code = b_access_code b, bs_share_slug = b_share_slug b,
     bs_published_at = b_published_at b, bs_created_at = b_created_at b, bs_updated_at = b_updated_at b,
     bs_total_shares = b_share_count b, bs_total_badges_created = b_creation_count b,
     bs_status = (if b_is_published b then ''published'' else ''draft'')\<rparr>"

text \<open>A pydantic error outside the validation of a request.\<close>

definition response_error :: app_error where
  "response_error = RuntimeError ''response validation''"

definition canvas_object :: "json \<Rightarrow> app_error + (string \<times> json) list" where
  "canvas_object j = (case j of JObj kvs \<Rightarrow> Inr kvs | _ \<Rightarrow> Inl response_error)"

record public_badge_page_response =
  pp_title :: string
  pp_access_type :: int
  pp_canvas_data :: "(string \<times> json) list"
  pp_logo_url :: "string option"
  pp_default_caption :: "string option"
  pp_destination_link :: "string option"
  pp_hashtags :: "string list"

definition PublicBadgePageResponse :: "string list \<Rightarrow> badge \<Rightarrow> app_error + public_badge_page_response" where
  "PublicBadgePageResponse tags b = (case canvas_object (b_canvas_data b) of Inl err \<Rightarrow> Inl err
   | Inr canvas \<Rightarrow> Inr \<lparr>pp_title = b_title b, pp_access_type = b_access_type b, pp_canvas_data = canvas,
     pp_logo_url = b_logo_url b, pp_default_caption = b_default_caption b,
     pp_destination_link = b_destination_link b, pp_hashtags = tags\<rparr>)"

record badge_detail_response =
  bd_id :: uuid
  bd_title :: string
  bd_platform_template_id :: uuid
  bd_canvas_data :: "(string \<times> json) list"
  bd_default_caption :: "string option"
  bd_destination_link :: "string option"
  bd_thumbnail_url :: "string option"
  bd_logo_url :: "string option"
  bd_access_type :: int
  bd_access_code :: "string option"
  bd_is_published :: bool
  bd_share_slug :: "string option"
  bd_published_at :: "time option"
  bd_hashtags :: "string list"
  bd_created_at :: "time option"
  bd_updated_at :: "time option"
  bd_total_shares :: int
  bd_total_badges_created :: int

definition BadgeDetailResponse :: "string list \<Rightarrow> badge \<Rightarrow> app_error + badge_detail_response" where
  "BadgeDetailResponse tags b = (case canvas_object (b_canvas_data b) of Inl err \<Rightarrow> Inl err
   | Inr canvas \<Rightarrow> Inr \<lparr>bd_id = b_id b, bd_title = b_title b, bd_platform_template_id = b_platform_template_id b,
     bd_canvas_data = canvas, bd_default_caption = b_default_caption b,
     bd_destination_link = b_destination_link b, bd_thumbnail_url = b_thumbnail_url b,
     bd_logo_url = b_logo_url b, bd_access_type = b_access_type b, bd_access_code = b_access_code b,
     bd_is_published = b_is_published b, bd_share_slug = b_share_slug b, bd_published_at = b_published_at b,
     bd_hashtags = tags, bd_created_at = b_created_at b, bd_updated_at = b_updated_at b,
     bd_total_shares = b_share_count b, bd_total_badges_created = b_creation_count b\<rparr>)"

record badge_analytics_response =
  an_total_organiser_badges :: int
  an_total_active_badges :: int
  an_total_draft_badges :: int
  an_total_shares :: int
  an_total_badges_created :: int
  an_platform_template_usage :: "(uuid \<times> int) list"

definition BadgeAnalyticsResponse :: "int \<times> int \<times> int \<times> int \<times> (uuid \<times> int) list \<Rightarrow> badge_analytics_response" where
  "BadgeAnalyticsResponse a = (case a of (all, active, total_shares, total_creations, usage_rows) \<Rightarrow>
     \<lparr>an_total_organiser_badges = all, an_total_active_badges = active, an_total_draft_badges = all - active,
      an_total_shares = total_shares, an_total_badges_created = total_creations, an_platform_template_usage = usage_rows\<rparr>)"

section \<open>Templates and notifications\<close>

record admin_template_response =
  at_id :: uuid
  at_title :: string
  at_category :: string
  at_canvas_data :: "json option"
  at_thumbnail_url :: "string option"
  at_is_active :: bool
  at_created_at :: "time option"
  at_updated_at :: "time option"

definition AdminTemplateResponse :: "platform_template \<Rightarrow> admin_template_response" where
  "AdminTemplateResponse t = \<lparr>at_id = pt_id t, at_title = pt_title t, at_category = pt_category t, at_canvas_data = pt_canvas_data t,
     at_thumbnail_url = pt_thumbnail_url t, at_is_active = pt_is_active t, at_created_at = pt_created_at t,
     at_updated_at = pt_updated_at t\<rparr>"

record platform_template_response =
  tp_id :: uuid
  tp_title :: string
  tp_category :: string
  tp_thumbnail_url :: "string option"
  tp_canvas_data :: "json option"
  tp_is_active :: bool
  tp_total_badges_made :: int
  tp_created_at :: "time option"

definition PlatformTemplateResponse :: "platform_template \<Rightarrow> platform_template_response" where
  "PlatformTemplateResponse t = \<lparr>tp_id = pt_id t, tp_title = pt_title t, tp_category = pt_category t,
     tp_thumbnail_url = pt_thumbnail_url t, tp_canvas_data = pt_canvas_data t,
     tp_is_active = pt_is_active t, tp_total_badges_made = pt_total_badges_made t,
     tp_created_at = pt_created_at t\<rparr>"

record notification_response =
  nt_id :: uuid
  nt_type :: notification_type
  nt_title :: string
  nt_body :: string
  nt_is_read :: bool
  nt_extra_data :: "json option"
  nt_created_at :: time

definition NotificationResponse :: "notification \<Rightarrow> notification_response" where
  "NotificationResponse n = \<lparr>nt_id = n_id n, nt_type = n_type n, nt_title = n_title n, nt_body = n_body n, nt_is_read = n_is_read n,
     nt_extra_data = n_extra_data n, nt_created_at = n_created_at n\<rparr>"

section \<open>Pages\<close>

text \<open>The list models: the items of a page, the number of all items and the relative links.\<close>

record 'a page =
  pg_items :: "'a list"
  pg_total :: int
  pg_page :: int
  pg_limit :: int
  pg_prev :: "string option"
  pg_next :: "string option"

text \<open>\<open>link p\<close> is the address of page \<open>p\<close>.\<close>

definition make_page :: "(int \<Rightarrow> string) \<Rightarrow> int \<Rightarrow> int \<Rightarrow> 'a list \<times> int \<Rightarrow> 'a page" where
  "make_page link page limit r = \<lparr>pg_items = fst r, pg_total = snd r, pg_page = page, pg_limit = limit,
     pg_prev = (if page > 1 then Some (link (page - 1)) else None),
     pg_next = (if page * limit < snd r then Some (link (page + 1)) else None)\<rparr>"

lemma make_page_links:
  "pg_next (make_page link p l (xs, n)) = None \<longleftrightarrow> n \<le> p * l"
  "pg_prev (make_page link p l (xs, n)) = None \<longleftrightarrow> p \<le> 1"
  by (auto simp: make_page_def)

end
