(* ===== verification/Http.thy ===== *)
theory Http
  imports Responses Access
begin

text \<open>
  Requests and responses as the routers see them.  A handler of a route takes the world and gives the
  response with the world after it; an exception that leaves it becomes the response of the handler of
  \<open>app/core/exceptions\<close>, without the cookies set so far.
\<close>

record http_request = request +
  req_cookies :: "(string \<times> string) list"

text \<open>\<open>request.cookies.get(name)\<close>.\<close>

definition cookie_get :: "http_request \<Rightarrow> string \<Rightarrow> string option" where
  "cookie_get q name = map_of (req_cookies q) name"

definition plain_request :: "http_request \<Rightarrow> request" where
  "plain_request q = \<lparr>req_headers = req_headers q, req_client_host = req_client_host q\<rparr>"

text \<open>\<open>response.delete_cookie(key, secure, httponly, samesite)\<close>: no domain is given.\<close>

datatype cookie_op = SetCookie cookie | DeleteCookie string bool string

datatype payload =
    NoData
  | UserData user_response
  | LoginData login_user_response
  | NextData string
  | SessionData session_list_response
  | RevokedData int
  | DeletedData uuid
  | CreatedBadge create_badge_response
  | PublishedBadge published_badge_response
  | DuplicatedBadge duplicate_badge_response
  | BadgeDetail badge_detail_response
  | BadgePage "badge_summary page"
  | BadgeAnalytics badge_analytics_response
  | LogoData string
  | PublicPage public_badge_page_response
  | TemplatePage "platform_template_response page"
  | TemplateData platform_template_response
  | AdminTemplate admin_template_response
  | AdminTemplates "admin_template_response list"
  | Preferences preferences_response
  | NotificationPage "notification_response page"
  | UnreadCount int
  | MarkedCount int
  | SubjectOptions "(string \<times> string) list"
  | ContactData string string
  | SubscriberData string time

record http_response =
  hr_status :: nat
  hr_message :: string
  hr_data :: payload
  hr_cookies :: "cookie_op list"
  hr_location :: "string option"

definition ok :: "nat \<Rightarrow> string \<Rightarrow> payload \<Rightarrow> http_response" where
  "ok status message d = \<lparr>hr_status = status, hr_message = message, hr_data = d, hr_cookies = [], hr_location = None\<rparr>"

definition error_response :: "app_error \<Rightarrow> http_response" where
  "error_response exc = (case global_exception_handler exc of (status, message) \<Rightarrow> ok status message NoData)"

definition redirect :: "string \<Rightarrow> cookie_op list \<Rightarrow> http_response" where
  "redirect url cookies = \<lparr>hr_status = 307, hr_message = [], hr_data = NoData, hr_cookies = cookies, hr_location = Some url\<rparr>"

text \<open>The end of a handler: \<open>raised\<close> are the \<open>except\<close> clauses around the call, \<open>result\<close> builds the response.\<close>

definition reply :: "(app_error \<Rightarrow> app_error) \<Rightarrow> ('a \<Rightarrow> app_error + http_response) \<Rightarrow> (app_error + 'a) \<times> 'r world \<Rightarrow>
    http_response \<times> 'r world" where
  "reply raised result rw = (case fst rw of
     Inl exc \<Rightarrow> (error_response (raised exc), snd rw)
   | Inr x \<Rightarrow> (case result x of Inl exc \<Rightarrow> (error_response exc, snd rw) | Inr r \<Rightarrow> (r, snd rw)))"

text \<open>The dependency \<open>CurrentUser\<close>, and the router dependency \<open>Depends(get_current_admin)\<close>.\<close>

definition access_cookie :: "'r env \<Rightarrow> http_request \<Rightarrow> string option" where
  "access_cookie e q = cookie_get q (ACCESS_COOKIE (cfg e))"

definition refresh_cookie :: "'r env \<Rightarrow> http_request \<Rightarrow> string option" where
  "refresh_cookie e q = cookie_get q (REFRESH_COOKIE (cfg e))"

definition as_user :: "'r env \<Rightarrow> time \<Rightarrow> http_request \<Rightarrow> (user \<Rightarrow> 'r world \<Rightarrow> http_response \<times> 'r world) \<Rightarrow>
    'r world \<Rightarrow> http_response \<times> 'r world" where
  "as_user e now q handler w = (case get_current_user e now (access_cookie e q) w of
     Inl exc \<Rightarrow> (error_response exc, w) | Inr current_user \<Rightarrow> handler current_user w)"

definition as_admin :: "'r env \<Rightarrow> time \<Rightarrow> http_request \<Rightarrow> ('r world \<Rightarrow> http_response \<times> 'r world) \<Rightarrow>
    'r world \<Rightarrow> http_response \<times> 'r world" where
  "as_admin e now q handler w = (case get_current_admin e now (access_cookie e q) w of
     Inl exc \<Rightarrow> (error_response exc, w) | Inr _ \<Rightarrow> handler w)"

text \<open>The body of a request goes through its model before the handler runs.\<close>

definition validated :: "app_error + 'a \<Rightarrow> ('a \<Rightarrow> 'r world \<Rightarrow> http_response \<times> 'r world) \<Rightarrow> 'r world \<Rightarrow>
    http_response \<times> 'r world" where
  "validated body handler w = (case body of Inl exc \<Rightarrow> (error_response exc, w) | Inr payload \<Rightarrow> handler payload w)"

definition with_cookies :: "cookie_op list \<Rightarrow> http_response \<Rightarrow> http_response" where
  "with_cookies ops r = r\<lparr>hr_cookies := hr_cookies r @ ops\<rparr>"

definition session_cookies :: "settings \<Rightarrow> string \<Rightarrow> string \<Rightarrow> cookie_op list" where
  "session_cookies s access_token refresh_token =
     [SetCookie (set_access_cookie s access_token), SetCookie (set_refresh_cookie s refresh_token)]"

definition clear_cookies :: "settings \<Rightarrow> cookie_op list" where
  "clear_cookies s = [DeleteCookie (REFRESH_COOKIE s) (COOKIE_SECURE s) (COOKIE_SAMESITE s),
     DeleteCookie (ACCESS_COOKIE s) (COOKIE_SECURE s) (COOKIE_SAMESITE s)]"

text \<open>The bounds of the query parameters \<open>page\<close> and \<open>limit\<close>.\<close>

definition query_range :: "string \<Rightarrow> int \<Rightarrow> int option \<Rightarrow> int \<Rightarrow> (string list \<times> string) list" where
  "query_range name low high v =
     (if v < low then [([''query'', name], ''Input should be greater than or equal to '' @ py_str low)]
      else (case high of None \<Rightarrow> [] | Some h \<Rightarrow>
        if v > h then [([''query'', name], ''Input should be less than or equal to '' @ py_str h)] else []))"

definition page_query :: "int \<Rightarrow> int \<Rightarrow> app_error + int \<times> int" where
  "page_query page limit =
     (let errs = query_range ''page'' 1 None page @ query_range ''limit'' 1 (Some 100) limit
      in if errs \<noteq> [] then Inl (RequestValidationError errs) else Inr (page, limit))"

section \<open>Lemmas\<close>

named_theorems route_frames \<open>the world after a handler\<close>

lemma snd_reply [simp]: "snd (reply f g rw) = snd rw"
  by (simp add: reply_def split: sum.split)

lemma as_user_cases:
  obtains (refused) exc where "get_current_user e now (access_cookie e q) w = Inl exc"
      "as_user e now q h w = (error_response exc, w)"
  | (known) u where "get_current_user e now (access_cookie e q) w = Inr u" "as_user e now q h w = h u w"
  by (cases "get_current_user e now (access_cookie e q) w") (auto simp: as_user_def)

lemma as_user_inv: "P w \<Longrightarrow> (\<And>u. get_current_user e now (access_cookie e q) w = Inr u \<Longrightarrow> P (snd (h u w))) \<Longrightarrow>
    P (snd (as_user e now q h w))"
  by (rule as_user_cases [of e now q w h]) auto

lemma as_admin_inv: "P w \<Longrightarrow> P (snd (h w)) \<Longrightarrow> P (snd (as_admin e now q h w))"
  by (simp add: as_admin_def split: sum.split)

lemma validated_inv: "P w \<Longrightarrow> (\<And>p. body = Inr p \<Longrightarrow> P (snd (h p w))) \<Longrightarrow> P (snd (validated body h w))"
  by (simp add: validated_def split: sum.split)

lemma page_query_Inr: "page_query p l = Inr x \<longleftrightarrow> x = (p, l) \<and> 1 \<le> p \<and> 1 \<le> l \<and> l \<le> 100"
  by (auto simp: page_query_def query_range_def)

end
