(* ===== verification/Auth_Routes.thy ===== *)
theory Auth_Routes
  imports Http
begin

text \<open>
  The handlers of \<open>app/routers/v1/auth.py\<close>.  \<open>now\<close> is the instant of the request and \<open>q\<close> the request;
  a background task runs at once, after the handler.
\<close>

definition get_current_user_profile :: "'r env \<Rightarrow> time \<Rightarrow> http_request \<Rightarrow> 'r world \<Rightarrow> http_response \<times> 'r world" where
  "get_current_user_profile e now q = as_user e now q (\<lambda>current_user w.
     (ok 200 ''Profile retrieved successfully'' (UserData (UserResponse current_user)), w))"

definition register :: "'r env \<Rightarrow> time \<Rightarrow> signup_draws \<Rightarrow> (database \<Rightarrow> database) \<Rightarrow> email_check \<Rightarrow> signup_request \<Rightarrow>
    'r world \<Rightarrow> http_response \<times> 'r world" where
  "register e now dr race ev body = validated (SignupRequest ev body) (\<lambda>payload w.
     reply (\<lambda>exc. if exc = EmailConflictError
         then HTTPException 409 ''Unable to create account. Please use a different email or login.'' else exc)
       (\<lambda>(user, email_sent). Inr (ok 201
         (if email_sent then ''Registration successful. Please check your email to verify your account.''
          else ''Account created. Verification email failed to send. Please request a new one.'')
         (UserData (UserResponse user))))
       (signup e now dr race payload w))"

text \<open>A failed delivery is only logged.\<close>

definition ignore_delivery :: "(app_error + unit) \<times> 'r world \<Rightarrow> (app_error + unit) \<times> 'r world" where
  "ignore_delivery rw = (if fst rw = Inl EmailDeliveryError then Inr () else fst rw, snd rw)"

definition resend_verification :: "'r env \<Rightarrow> time \<Rightarrow> string \<Rightarrow> email_check \<Rightarrow> string \<Rightarrow> 'r world \<Rightarrow>
    http_response \<times> 'r world" where
  "resend_verification e now raw ev email = validated (EmailRequest ev email) (\<lambda>email w.
     reply (\<lambda>exc. if exc = EmailAlreadyVerifiedError then HTTPException 400 ''Email is already verified.'' else exc)
       (\<lambda>_. Inr (ok 200 (''If your email is registered and unverified, ''
          @ ''a new verification email has been sent.'') NoData))
       (ignore_delivery (resend_verification_email e now raw email w)))"

definition reset_organizer_password :: "'r env \<Rightarrow> time \<Rightarrow> bytes \<Rightarrow> string \<Rightarrow> string \<Rightarrow> string \<Rightarrow> 'r world \<Rightarrow>
    http_response \<times> 'r world" where
  "reset_organizer_password e now salt token new_password confirm_password =
     validated (ResetPasswordRequest token new_password confirm_password) (\<lambda>(token, new_password) w.
       reply (\<lambda>exc. if exc = InvalidPasswordResetTokenError then HTTPException 400 ''token is invalid or expired'' else exc)
         (\<lambda>_. Inr (ok 200 ''Password reset successful. Please proceed to login.'' NoData))
         (reset_password e now salt token new_password w))"

fun login_error :: "app_error \<Rightarrow> app_error" where
  "login_error EmailNotVerifiedError = HTTPException 403 ''Please verify your email''"
| "login_error InvalidCredentialsError = HTTPException 401 ''Invalid credentials''"
| "login_error (AccountLockedError msg) =
     HTTPException 423 (if msg = [] then ''Too many failed login attempts.'' else msg)"
| "login_error exc = exc"

definition login :: "'r env \<Rightarrow> time \<Rightarrow> session_draws \<Rightarrow> email_check \<Rightarrow> http_request \<Rightarrow> string \<Rightarrow> string \<Rightarrow> 'r world \<Rightarrow>
    http_response \<times> 'r world" where
  "login e now dr ev q email password = validated (LoginRequest ev email password) (\<lambda>(email, password) w.
     reply login_error
       (\<lambda>(user, access_token, refresh_token). Inr (with_cookies (session_cookies (cfg e) access_token refresh_token)
          (ok 200 ''Login successful'' (LoginData (LoginUserResponse user)))))
       (signin e now dr email password (Some (plain_request q)) w))"

definition refresh :: "'r env \<Rightarrow> time \<Rightarrow> session_draws \<Rightarrow> http_request \<Rightarrow> 'r world \<Rightarrow> http_response \<times> 'r world" where
  "refresh e now dr q w = (case refresh_cookie e q of
     Some (c # s) \<Rightarrow>
       reply (\<lambda>exc. if exc = InvalidRefreshTokenError then HTTPException 401 ''Invalid or expired refresh token'' else exc)
         (\<lambda>(new_access, new_refresh). Inr (with_cookies (session_cookies (cfg e) new_access new_refresh)
            (ok 200 ''Token refreshed'' NoData)))
         (refresh_session e now dr (c # s) (access_cookie e q) (Some (plain_request q)) w)
   | _ \<Rightarrow> (error_response (HTTPException 401 ''Refresh token missing''), w))"

definition logout :: "'r env \<Rightarrow> time \<Rightarrow> http_request \<Rightarrow> 'r world \<Rightarrow> http_response \<times> 'r world" where
  "logout e now q w =
     (with_cookies (clear_cookies (cfg e)) (ok 204 [] NoData),
      logout_session e now (refresh_cookie e q) (access_cookie e q) w)"

definition forgot_password :: "'r env \<Rightarrow> time \<Rightarrow> string \<Rightarrow> email_check \<Rightarrow> string \<Rightarrow> 'r world \<Rightarrow>
    http_response \<times> 'r world" where
  "forgot_password e now raw ev email = validated (EmailRequest ev email) (\<lambda>email w.
     reply id
       (\<lambda>_. Inr (ok 200 (''If an account with that email exists, ''
          @ ''a password reset email has been sent.'') NoData))
       (ignore_delivery (request_password_reset e now raw email w)))"

text \<open>The key is spelled out in the handler: it is not built from \<open>TOKEN_PREFIX\<close>.\<close>

definition take_verification :: "'r env \<Rightarrow> time \<Rightarrow> string \<Rightarrow> 'r world \<Rightarrow> (app_error + user) \<times> 'r world" where
  "take_verification e now token w =
     (let expired = HTTPException 401 ''Token has expired. Please request a new verification email'';
          (user_id, r) = rd_getdel (redis e) (kv w) now (''verify:'' @ hash_token e token);
          w = w\<lparr>kv := r\<rparr>
      in case user_id of
          Some (c # s) \<Rightarrow> (case get_user_by_text e (c # s) (db w) of
              Inl err \<Rightarrow> (Inl err, w)
            | Inr None \<Rightarrow> (Inl expired, w)
            | Inr (Some user) \<Rightarrow>
                (if u_is_email_verified user then Inl (HTTPException 400 ''User already verified'') else Inr user, w))
        | _ \<Rightarrow> (Inl expired, w))"

text \<open>The row of a new session.\<close>

definition new_session :: "'r env \<Rightarrow> time \<Rightarrow> session_draws \<Rightarrow> http_request \<Rightarrow> user \<Rightarrow> refresh_token" where
  "new_session e now dr q user =
     (let (raw_refresh_token, expire) = create_refresh_token e now (se_refresh_jti dr) (u_id user) in
      new_refresh_token now (se_token_id dr) (u_id user) (hash_token e raw_refresh_token) expire (se_family dr)
        (user_agent_or_none (plain_request q)) (get_client_ip (plain_request q)))"

definition session_tokens :: "'r env \<Rightarrow> time \<Rightarrow> session_draws \<Rightarrow> user \<Rightarrow> cookie_op list" where
  "session_tokens e now dr user = session_cookies (cfg e) (create_access_token e now (se_access_jti dr) (u_id user))
     (fst (create_refresh_token e now (se_refresh_jti dr) (u_id user)))"

definition mark_verified :: "time \<Rightarrow> uuid \<Rightarrow> database \<Rightarrow> app_error + database" where
  "mark_verified now uid d = save_user now uid (u_is_email_verified_update (\<lambda>_. True)) d"

definition verify_email :: "'r env \<Rightarrow> time \<Rightarrow> session_draws \<Rightarrow> http_request \<Rightarrow> string \<Rightarrow> 'r world \<Rightarrow>
    http_response \<times> 'r world" where
  "verify_email e now dr q token w = (case take_verification e now token w of
     (Inl err, w) \<Rightarrow> (error_response err, w)
   | (Inr user, w) \<Rightarrow>
       (case (case mark_verified now (u_id user) (db w) of
            Inl err \<Rightarrow> Inl err | Inr d \<Rightarrow> insert_refresh_token (new_session e now dr q user) d) of
          Inl err \<Rightarrow> (error_response (HTTPException 500 ''Database update failed, please try again''), w)
        | Inr d \<Rightarrow>
            (with_cookies (session_tokens e now dr user) (ok 200 ''Email verified'' (NextData ''onboarding'')),
             snd (send_onboarding_email e now (u_email user) (w\<lparr>db := d\<rparr>)))))"

definition google_login :: "'r env \<Rightarrow> time \<Rightarrow> string \<Rightarrow> 'r world \<Rightarrow> http_response \<times> 'r world" where
  "google_login e now state w = (case build_google_auth_url e now state w of (auth_url, w) \<Rightarrow> (redirect auth_url [], w))"

definition google_callback :: "'r env \<Rightarrow> google_api \<Rightarrow> time \<Rightarrow> uuid \<Rightarrow> uuid \<Rightarrow> session_draws \<Rightarrow> http_request \<Rightarrow> string \<Rightarrow>
    string \<Rightarrow> 'r world \<Rightarrow> http_response \<times> 'r world" where
  "google_callback e g now uid pid dr q code state w =
     (case authenticate_with_google e g now uid pid code state w of
        (Inl (GoogleOAuthError message status_code), w) \<Rightarrow>
          (redirect (FRONTEND_URL (cfg e) @ ''/login?'' @ urlencode [(''error'', message)]) [], w)
      | (Inl err, w) \<Rightarrow> (error_response err, w)
      | (Inr (user, is_new_user), w) \<Rightarrow> (case insert_refresh_token (new_session e now dr q user) (db w) of
          Inl err \<Rightarrow> (error_response err, w)
        | Inr d \<Rightarrow>
            (let w = w\<lparr>db := d\<rparr> in
             (redirect (FRONTEND_URL (cfg e) @ ''/auth/callback'') (session_tokens e now dr user),
              if is_new_user then snd (send_onboarding_email e now (u_email user) w) else w))))"

definition list_sessions :: "'r env \<Rightarrow> time \<Rightarrow> http_request \<Rightarrow> int \<Rightarrow> int \<Rightarrow> 'r world \<Rightarrow> http_response \<times> 'r world" where
  "list_sessions e now q page limit = as_user e now q (\<lambda>current_user.
     validated (page_query page limit) (\<lambda>(page, limit) w.
       (let current_family_id = resolve_current_family_id e now (refresh_cookie e q) (db w)
        in (ok 200 ''Active sessions retrieved.''
             (SessionData (list_user_sessions now (u_id current_user) current_family_id page limit (db w))), w))))"

definition logout_all :: "'r env \<Rightarrow> time \<Rightarrow> http_request \<Rightarrow> 'r world \<Rightarrow> http_response \<times> 'r world" where
  "logout_all e now q = as_user e now q (\<lambda>current_user w.
     (let (count, w) = revoke_all_user_sessions e now (u_id current_user) (access_cookie e q) w
      in (with_cookies (clear_cookies (cfg e)) (ok 200 ''All sessions have been terminated.'' (RevokedData count)), w)))"

end
