(* ===== verification/Verification.thy ===== *)
theory Verification
  imports Auth_Routes Account_Facts
begin

text \<open>
  The life of an account between sign-up and its first session: the link of the verification mail opens the
  account, once.
\<close>

context sound_env
begin

text \<open>The token of a mail that is still live, as the route reads it.\<close>

lemma take_verification_live:
  assumes "view (kv w) (''verify:'' @ hash_token e raw) = Some (uuid_str (u_id u), Some x)" "now < x"
    "get_user (u_id u) (db w) = Some u" "\<not> u_is_email_verified u"
  obtains w' where "take_verification e now raw w = (Inr u, w')" "db w' = db w"
    "view (kv w') = (view (kv w))(''verify:'' @ hash_token e raw := None)"
proof -
  let ?k = "''verify:'' @ hash_token e raw"
  obtain v r where g: "rd_getdel (redis e) (kv w) now ?k = (v, r)" by (meson surj_pair)
  then have v: "v = Some (uuid_str (u_id u))" and r: "view r = (view (kv w))(?k := None)"
    using getdel [of "kv w" now ?k] getdel_state [of "kv w" now ?k] assms(1,2) by auto
  obtain c s where c: "uuid_str (u_id u) = c # s"
    using length_uuid_str [of "u_id u"] by (cases "uuid_str (u_id u)") auto
  have "get_user_by_text e (c # s) (db w) = Inr (Some u)"
    using pg_law [of "u_id u"] assms(3) by (simp add: get_user_by_text_def c)
  then have "take_verification e now raw w = (Inr u, w\<lparr>kv := r\<rparr>)"
    using g v c assms(4) by (simp add: take_verification_def)
  with r show ?thesis by (intro that [of "w\<lparr>kv := r\<rparr>"]) simp_all
qed

lemma take_verification_dead:
  assumes "view (kv w) (''verify:'' @ hash_token e raw) = None"
  shows "fst (take_verification e now raw w) = Inl (HTTPException 401 ''Token has expired. Please request a new verification email'')"
proof -
  let ?k = "''verify:'' @ hash_token e raw"
  obtain v r where g: "rd_getdel (redis e) (kv w) now ?k = (v, r)" by (meson surj_pair)
  then have "v = None" using getdel [of "kv w" now ?k] assms by simp
  with g show ?thesis by (simp add: take_verification_def)
qed

lemma resend_stores:
  assumes "user_by_email m (db w) = Some u" "\<not> u_is_email_verified u" "TOKEN_PREFIX (cfg e) = ''verify:''"
  shows "view (kv (snd (resend_verification_email e now raw m w))) (''verify:'' @ hash_token e raw)
    = Some (uuid_str (u_id u), Some (now + seconds (VERIFICATION_TOKEN_TTL_MINUTES (cfg e) * 60)))"
  using assms keys_apart by (simp add: resend_verification_email_def Let_def generate_token_def flip: assms(3))

end

text \<open>C29. A new account is opened by the link of its verification mail, exactly once: as long as the link lives the
  route marks the account verified, opens one session for it, with its cookies, and a second use of the link
  is refused with 401.\<close>

theorem verification_opens_account:
  assumes "sound_env e view" "TOKEN_PREFIX (cfg e) = ''verify:''" "db_wf (db w)"
    and "user_by_email m (db w) = Some u" "\<not> u_is_email_verified u" "user_fits u"
    and "t2 < t1 + seconds (VERIFICATION_TOKEN_TTL_MINUTES (cfg e) * 60)"
    and "insert_refresh_token (new_session e t2 dr q u) (db w) = Inr d"
    and "verify_email e t2 dr q raw (snd (resend_verification_email e t1 raw m w)) = (r, w2)"
  shows "hr_status r = 200 \<and> hr_cookies r = session_tokens e t2 dr u
    \<and> (\<exists>u'. get_user (u_id u) (db w2) = Some u' \<and> u_is_email_verified u' \<and> u_email u' = u_email u)
    \<and> refresh_tokens (db w2) = refresh_tokens (db w) @ [new_session e t2 dr q u]
    \<and> hr_status (fst (verify_email e t3 dr3 q3 raw w2)) = 401"
proof -
  let ?w = "snd (resend_verification_email e t1 raw m w)" and ?f = "u_is_email_verified_update (\<lambda>_. True)"
  let ?k = "''verify:'' @ hash_token e raw"
  have u: "u \<in> set (users (db w))" using user_by_emailD [OF assms(4)] by simp
  then have g: "get_user (u_id u) (db ?w) = Some u"
    using assms(3) unfolding resend_db get_user_def by (intro find_unique) (simp_all add: db_wf_def users_ok_def)
  obtain w1 where t: "take_verification e t2 raw ?w = (Inr u, w1)" "db w1 = db ?w"
      "view (kv w1) = (view (kv ?w))(?k := None)"
    using sound_env.take_verification_live [OF assms(1) sound_env.resend_stores [OF assms(1,4,5,2)] assms(7) g assms(5)] .
  have "user_fits (?f u)" using assms(6) by (simp add: user_fits_def)
  then obtain d1 where d1: "save_user t2 (u_id u) ?f (db w) = Inr d1"
    using save_user_total [OF assms(3) u, of ?f t2] by auto
  have us: "users d1 = update_where (\<lambda>x. u_id x = u_id u) (orm_user t2 ?f) (users (db w))"
    and ts: "refresh_tokens d1 = refresh_tokens (db w)" "u_id ` set (users d1) = u_id ` set (users (db w))"
    using d1 by (auto simp: save_user_def Let_def image_update_where)
  let ?d = "d1\<lparr>refresh_tokens := refresh_tokens (db w) @ [new_session e t2 dr q u]\<rparr>"
  have i: "insert_refresh_token (new_session e t2 dr q u) d1 = Inr ?d"
    using assms(8) ts by (simp add: insert_refresh_token_def)
  have w2: "r = with_cookies (session_tokens e t2 dr u) (ok 200 ''Email verified'' (NextData ''onboarding''))"
      "db w2 = ?d" "kv w2 = kv w1"
    using assms(9) t(1,2) d1 i by (auto simp: verify_email_def mark_verified_def)
  have "unique_on u_id (users d1)"
    using assms(3) unfolding us by (simp add: unique_on_update_where db_wf_def users_ok_def)
  moreover have "orm_user t2 ?f u \<in> set (users d1)" using u us by (auto simp: set_update_where)
  ultimately have "get_user (u_id u) (db w2) = Some (orm_user t2 ?f u)"
    using find_unique [of u_id "users d1" "orm_user t2 ?f u"] by (simp add: get_user_def w2(2))
  moreover have "fst (verify_email e t3 dr3 q3 raw w2) =
      error_response (HTTPException 401 ''Token has expired. Please request a new verification email'')"
    using sound_env.take_verification_dead [OF assms(1), of w2 raw t3] t(3) w2(3)
    by (cases "take_verification e t3 raw w2") (simp add: verify_email_def)
  ultimately show ?thesis
    using w2 by (simp add: with_cookies_def ok_def error_response_def)
qed

definition demo_new_user :: user where
  "demo_new_user = new_user 0 1 ''Ann'' None ''ann@x.io'' (Some ''hash'') False None"

definition demo_new_db :: database where
  "demo_new_db = empty_db\<lparr>users := [demo_new_user]\<rparr>"

lemma demo_new: "db_wf demo_new_db" "users demo_new_db = [demo_new_user]" "refresh_tokens demo_new_db = []"
  "u_id demo_new_user = 1" "u_email demo_new_user = ''ann@x.io''" "\<not> u_is_email_verified demo_new_user"
  by (simp_all add: db_wf_def demo_new_db_def empty_db_def table_ok_defs user_ids_def unique_on_def demo_new_user_def new_user_def)

theorem verification_opens_account_witness:
  "\<exists>r w2. verify_email demo_env 10 demo_draws \<lparr>req_headers = [], req_client_host = None, req_cookies = []\<rparr> ''raw''
      (snd (resend_verification_email demo_env 0 ''raw'' ''ann@x.io'' (demo_world demo_new_db))) = (r, w2)
    \<and> hr_status r = 200 \<and> (\<exists>u. get_user 1 (db w2) = Some u \<and> u_is_email_verified u)"
proof -
  let ?q = "\<lparr>req_headers = [], req_client_host = None, req_cookies = []\<rparr> :: http_request"
  let ?w = "demo_world demo_new_db"
  obtain r w2 where v: "verify_email demo_env 10 demo_draws ?q ''raw''
      (snd (resend_verification_email demo_env 0 ''raw'' ''ann@x.io'' ?w)) = (r, w2)" by (meson surj_pair)
  have fits: "user_fits demo_new_user" by code_simp
  have "insert_refresh_token (new_session demo_env 10 demo_draws ?q demo_new_user) (db ?w) \<noteq> Inl err" for err
    using demo_refresh_length [of 1]
    by (simp add: insert_refresh_token_def new_session_def new_refresh_token_def fits_def fits_opt_def demo_new
      demo_draws_def hash_token_def checked_def plain_request_def get_client_ip_def header_get_def split_beta)
  then obtain d where i: "insert_refresh_token (new_session demo_env 10 demo_draws ?q demo_new_user) (db ?w) = Inr d"
    by (meson old.sum.exhaust)
  have "user_by_email ''ann@x.io'' (db ?w) = Some demo_new_user" by (simp add: user_by_email_def demo_new)
  from verification_opens_account [OF sound_env_demo _ _ this demo_new(6) fits _ i v, of 20 demo_draws ?q]
  have "hr_status r = 200 \<and> (\<exists>u. get_user 1 (db w2) = Some u \<and> u_is_email_verified u)"
    by (simp add: demo_new) blast
  then show ?thesis using v by blast
qed

end
