(* ===== verification/Badge_Routes.thy ===== *)
theory Badge_Routes
  imports Http Uploads
begin

text \<open>
  The handlers of \<open>app/routers/v1/badges.py\<close> and \<open>app/routers/v1/platform_templates.py\<close>.
\<close>

section \<open>The badges of an organiser\<close>

text \<open>The \<open>except\<close> clauses the badge handlers share.\<close>

fun owner_error :: "app_error \<Rightarrow> app_error" where
  "owner_error BadgeNotFoundError = HTTPException 404 ''Badge not found.''"
| "owner_error NotBadgeOwnerError = HTTPException 403 ''You do not own this badge.''"
| "owner_error exc = exc"

definition create_instance :: "'r env \<Rightarrow> time \<Rightarrow> uuid \<Rightarrow> http_request \<Rightarrow> uuid \<Rightarrow> 'r world \<Rightarrow> http_response \<times> 'r world" where
  "create_instance e now bid q platform_template_id = as_user e now q (\<lambda>current_user w.
     reply (\<lambda>exc. if exc = PlatformTemplateNotFoundError then HTTPException 404 ''Platform template not found.''
         else if exc = PlatformTemplateNotActiveError then HTTPException 400 ''Platform template is not active.'' else exc)
       (\<lambda>instance'. Inr (ok 201 ''Badge created successfully.'' (CreatedBadge (CreateBadgeResponse instance'))))
       (create_badge now bid (u_id current_user) platform_template_id w))"

definition page_link :: "string \<Rightarrow> int \<Rightarrow> int \<Rightarrow> string" where
  "page_link base_url limit page = base_url @ ''?page='' @ py_str page @ ''&limit='' @ py_str limit"

definition list_instances :: "'r env \<Rightarrow> time \<Rightarrow> http_request \<Rightarrow> int \<Rightarrow> int \<Rightarrow> 'r world \<Rightarrow> http_response \<times> 'r world" where
  "list_instances e now q page limit = as_user e now q (\<lambda>current_user.
     validated (page_query page limit) (\<lambda>(page, limit) w.
       (let (badges, total) = list_badges (u_id current_user) page limit (db w)
        in (ok 200 ''Badges retrieved successfully.''
             (BadgePage (make_page (page_link ''/api/v1/badges'' limit) page limit (map BadgeSummary badges, total))), w))))"

definition get_analytics :: "'r env \<Rightarrow> time \<Rightarrow> http_request \<Rightarrow> 'r world \<Rightarrow> http_response \<times> 'r world" where
  "get_analytics e now q = as_user e now q (\<lambda>current_user w.
     (ok 200 ''Analytics retrieved successfully.''
        (BadgeAnalytics (BadgeAnalyticsResponse (get_badge_analytics (u_id current_user) (db w)))), w))"

text \<open>The detail of a badge, with its hashtags.\<close>

definition detail_data :: "string \<Rightarrow> database \<Rightarrow> badge \<Rightarrow> app_error + http_response" where
  "detail_data message d badge = (case BadgeDetailResponse (badge_tags (b_id badge) d) badge of
     Inl err \<Rightarrow> Inl err | Inr r \<Rightarrow> Inr (ok 200 message (BadgeDetail r)))"

definition get_single_badge :: "'r env \<Rightarrow> time \<Rightarrow> http_request \<Rightarrow> uuid \<Rightarrow> 'r world \<Rightarrow> http_response \<times> 'r world" where
  "get_single_badge e now q bid = as_user e now q (\<lambda>current_user w.
     reply owner_error (detail_data ''Badge retrieved successfully.'' (db w))
       (get_badge_by_id (u_id current_user) bid (db w), w))"

definition publish :: "'r env \<Rightarrow> time \<Rightarrow> (nat \<Rightarrow> nat) \<Rightarrow> http_request \<Rightarrow> uuid \<Rightarrow> 'r world \<Rightarrow> http_response \<times> 'r world" where
  "publish e now choice q bid = as_user e now q (\<lambda>current_user w.
     reply (\<lambda>exc. if exc = BadgeAlreadyPublishedError then HTTPException 409 ''Badge is already published.''
         else owner_error exc)
       (\<lambda>badge. Inr (ok 200 ''Badge published successfully.'' (PublishedBadge (PublishedBadgeResponse badge))))
       (publish_badge now choice (u_id current_user) bid w))"

definition unpublish :: "'r env \<Rightarrow> time \<Rightarrow> http_request \<Rightarrow> uuid \<Rightarrow> 'r world \<Rightarrow> http_response \<times> 'r world" where
  "unpublish e now q bid = as_user e now q (\<lambda>current_user w.
     reply owner_error
       (\<lambda>badge. Inr (ok 200 ''Badge unpublished successfully.'' (PublishedBadge (PublishedBadgeResponse badge))))
       (unpublish_badge now (u_id current_user) bid w))"

definition duplicate :: "'r env \<Rightarrow> time \<Rightarrow> uuid \<Rightarrow> (nat \<Rightarrow> uuid) \<Rightarrow> http_request \<Rightarrow> uuid \<Rightarrow> 'r world \<Rightarrow>
    http_response \<times> 'r world" where
  "duplicate e now new_id ids q bid = as_user e now q (\<lambda>current_user w.
     reply owner_error
       (\<lambda>copy. Inr (ok 201 ''Badge duplicated successfully.'' (DuplicatedBadge (DuplicateBadgeResponse copy))))
       (duplicate_badge now new_id ids (u_id current_user) bid w))"

definition remove_badge :: "'r env \<Rightarrow> time \<Rightarrow> http_request \<Rightarrow> uuid \<Rightarrow> 'r world \<Rightarrow> http_response \<times> 'r world" where
  "remove_badge e now q bid = as_user e now q (\<lambda>current_user w.
     reply owner_error (\<lambda>_. Inr (ok 204 [] NoData)) (delete_badge e now (u_id current_user) bid w))"

text \<open>
  \<open>tags\<close> is the key \<open>hashtags\<close> of the body: absent, null or a list.  A \<open>ValueError\<close> of the service is a 422.
\<close>

definition update_badge :: "'r env \<Rightarrow> time \<Rightarrow> (nat \<Rightarrow> uuid) \<Rightarrow> http_request \<Rightarrow> uuid \<Rightarrow> badge_updates \<Rightarrow>
    string list option option \<Rightarrow> 'r world \<Rightarrow> http_response \<times> 'r world" where
  "update_badge e now ids q bid body tags = as_user e now q (\<lambda>current_user.
     validated (EditBadgeRequest body tags) (\<lambda>(field_updates, tags) w.
       (let new_hashtags = (case tags of None \<Rightarrow> None | Some v \<Rightarrow> v); update_hashtags = tags \<noteq> None;
            (r, w) = edit_badge now ids (u_id current_user) bid field_updates new_hashtags update_hashtags w
        in reply (\<lambda>exc. case exc of ValueError msg \<Rightarrow> HTTPException 422 msg | _ \<Rightarrow> owner_error exc)
             (detail_data ''Badge updated successfully.'' (db w)) (r, w))))"

fun logo_error :: "app_error \<Rightarrow> app_error" where
  "logo_error BadgeNotFoundError = HTTPException 404 ''Badge not found.''"
| "logo_error NotBadgeOwnerError = HTTPException 403 ''You do not have permission to modify this badge.''"
| "logo_error CloudinaryUploadError = HTTPException 502 (''Logo upload failed. ''
     @ ''The upload service is unavailable or rejected the file.'')"
| "logo_error exc = exc"

definition unsupported_media :: app_error where
  "unsupported_media = HTTPException 415 ''Unsupported file type. Only PNG, JPG, and SVG images are allowed.''"

text \<open>The checks of the uploaded file: its declared type, its size and its first bytes.\<close>

definition check_logo :: "string option \<Rightarrow> bytes \<Rightarrow> app_error + bytes" where
  "check_logo content_type content =
     (if content_type \<notin> Some ` set ALLOWED_CONTENT_TYPES then Inl unsupported_media
      else (let image_data = take (MAX_LOGO_BYTES + 1) content in
        if length image_data > MAX_LOGO_BYTES then Inl (HTTPException 413 ''File size exceeds the 2 MB limit.'')
        else if \<not> is_valid_image image_data then Inl unsupported_media
        else Inr image_data))"

definition upload_logo_route :: "'r env \<Rightarrow> time \<Rightarrow> uuid \<Rightarrow> http_request \<Rightarrow> uuid \<Rightarrow> string option \<Rightarrow> bytes \<Rightarrow> 'r world \<Rightarrow>
    http_response \<times> 'r world" where
  "upload_logo_route e now u q bid content_type content = as_user e now q (\<lambda>current_user w.
     (case check_logo content_type content of
        Inl err \<Rightarrow> (error_response err, w)
      | Inr image_data \<Rightarrow> reply logo_error (\<lambda>logo_url. Inr (ok 200 ''Logo uploaded successfully.'' (LogoData logo_url)))
          (upload_badge_logo e now u bid (u_id current_user) image_data w)))"

section \<open>The public page\<close>

definition normal_code :: "string \<Rightarrow> string" where
  "normal_code c = py_lower (py_strip c)"

text \<open>The gate of a private badge.\<close>

definition check_access_code :: "badge \<Rightarrow> string option \<Rightarrow> app_error + unit" where
  "check_access_code badge access_code =
     (if b_access_type badge = 1
      then (case access_code of
          None \<Rightarrow> Inl (HTTPException 401 ''This badge is private. Please provide an access code.'')
        | Some code \<Rightarrow> (case b_access_code badge of
            Some (c # s) \<Rightarrow> if normal_code (c # s) \<noteq> normal_code code
              then Inl (HTTPException 403 ''Invalid access code.'') else Inr ()
          | _ \<Rightarrow> Inl (HTTPException 403 ''Invalid access code.'')))
      else Inr ())"

definition no_page :: "app_error \<Rightarrow> app_error" where
  "no_page exc = (if exc = PublicBadgeNotFoundError then HTTPException 404 ''Badge not found.'' else exc)"

definition get_participant_page :: "string \<Rightarrow> string option \<Rightarrow> 'r world \<Rightarrow> http_response \<times> 'r world" where
  "get_participant_page slug access_code w =
     reply no_page
       (\<lambda>badge. case check_access_code badge access_code of
          Inl err \<Rightarrow> Inl err
        | Inr _ \<Rightarrow> (case PublicBadgePageResponse (badge_tags (b_id badge) (db w)) badge of
            Inl err \<Rightarrow> Inl err
          | Inr r \<Rightarrow> Inr (ok 200 ''Badge data retrieved successfully.'' (PublicPage r))))
       (get_public_badge_by_slug slug (db w), w)"

definition increment_creation :: "time \<Rightarrow> uuid \<Rightarrow> string \<Rightarrow> 'r world \<Rightarrow> http_response \<times> 'r world" where
  "increment_creation now nid slug w =
     reply no_page (\<lambda>_. Inr (ok 200 ''Creation count incremented.'' NoData)) (increment_badge_creation_count now nid slug w)"

definition increment_share :: "time \<Rightarrow> string \<Rightarrow> 'r world \<Rightarrow> http_response \<times> 'r world" where
  "increment_share now slug w = (case get_public_badge_by_slug slug (db w) of
     Inl err \<Rightarrow> (error_response (no_page err), w)
   | Inr _ \<Rightarrow> (ok 200 ''Share count increment scheduled.'' NoData, snd (increment_badge_share_count now slug w)))"

section \<open>The gallery\<close>

text \<open>The links carry the category when there is one.\<close>

definition gallery_link :: "int \<Rightarrow> string option \<Rightarrow> int \<Rightarrow> string" where
  "gallery_link limit category page = ''/api/v1/templates/platform?''
     @ urlencode ([(''page'', py_str page), (''limit'', py_str limit)]
         @ (case category of Some (c # s) \<Rightarrow> [(''category'', c # s)] | _ \<Rightarrow> []))"

definition normal_category :: "string option \<Rightarrow> string option" where
  "normal_category category = (case category of None \<Rightarrow> None
     | Some c \<Rightarrow> if py_lower (py_strip c) = [] then None else Some (py_lower (py_strip c)))"

definition list_templates :: "(string \<Rightarrow> string) \<Rightarrow> string option \<Rightarrow> int \<Rightarrow> int \<Rightarrow> 'r world \<Rightarrow> http_response \<times> 'r world" where
  "list_templates coll category page limit = validated (page_query page limit) (\<lambda>(page, limit) w.
     (let category = normal_category category in
      reply (\<lambda>exc. case exc of ValueError msg \<Rightarrow> HTTPException 400 msg | _ \<Rightarrow> exc)
        (\<lambda>(templates, total). Inr (ok 200 ''Platform templates retrieved successfully.''
           (TemplatePage (make_page (gallery_link limit category) page limit (map PlatformTemplateResponse templates, total)))))
        (list_platform_templates coll category page limit (db w), w)))"

definition get_template_page :: "uuid \<Rightarrow> 'r world \<Rightarrow> http_response \<times> 'r world" where
  "get_template_page tid w =
     reply (\<lambda>exc. if exc = PlatformTemplateNotFoundError then HTTPException 404 ''Platform template not found.'' else exc)
       (\<lambda>template. Inr (ok 200 ''Platform template retrieved successfully.'' (TemplateData (PlatformTemplateResponse template))))
       (get_platform_template tid (db w), w)"

end
