(* ===== verification/Page_Facts.thy ===== *)
theory Page_Facts
  imports Badge_Routes Badge_Claims
begin

text \<open>
  The public page of a badge: a private one shows itself to the holders of its code only.
\<close>

lemma page_found:
  assumes "get_public_badge_by_slug slug (db w) = Inr b"
  shows "get_participant_page slug code w = (case check_access_code b code of
     Inl err \<Rightarrow> (error_response err, w)
   | Inr _ \<Rightarrow> (case PublicBadgePageResponse (badge_tags (b_id b) (db w)) b of
       Inl err \<Rightarrow> (error_response err, w)
     | Inr r \<Rightarrow> (ok 200 ''Badge data retrieved successfully.'' (PublicPage r), w)))"
  using assms by (simp add: get_participant_page_def reply_def split: sum.split)

lemma page_missing:
  assumes "get_public_badge_by_slug slug (db w) = Inl err"
  shows "get_participant_page slug code w = (error_response (HTTPException 404 ''Badge not found.''), w)"
  using assms
  by (auto simp: get_participant_page_def reply_def no_page_def get_public_badge_by_slug_def split: option.splits)

lemma private_badge_code:
  assumes "db_wf d" "b \<in> set (badges d)" "b_access_type b = 1"
  obtains c s where "b_access_code b = Some (c # s)"
proof -
  have "access_ok (b_access_type b) (b_access_code b)"
    using assms(1,2) by (simp add: db_wf_def badges_ok_def badge_row_ok_def)
  then have "\<exists>code. b_access_code b = Some code \<and> code \<noteq> []"
    using assms(3) by (auto simp: access_ok_def split: option.splits)
  then show ?thesis using that by (metis neq_Nil_conv)
qed

lemma check_private:
  assumes "b_access_type b = 1" "b_access_code b = Some (c # s)"
  shows "check_access_code b code = (case code of
      None \<Rightarrow> Inl (HTTPException 401 ''This badge is private. Please provide an access code.'')
    | Some x \<Rightarrow> if normal_code (c # s) \<noteq> normal_code x then Inl (HTTPException 403 ''Invalid access code.'') else Inr ())"
  using assms by (simp add: check_access_code_def split: option.split)

lemma page_response_error:
  "PublicBadgePageResponse tags b = Inl err \<Longrightarrow> hr_status (error_response err) \<notin> {200, 401, 403, 404}"
  by (auto simp: PublicBadgePageResponse_def canvas_object_def response_error_def error_response_def
      global_exception_handler_def ok_def split: sum.splits json.splits)

text \<open>C30. The page of a private badge is for those who know its code: without the code, or with another one, the
  answer is 401, 403 or 404 and holds nothing of the badge, whoever asks; with the code, in any mixture of upper and
  lower case and with blanks around it, a published badge is never refused.\<close>

theorem private_page_needs_code:
  assumes "db_wf (db w)" "b \<in> set (badges (db w))" "b_share_slug b = Some slug" "b_access_type b = 1"
  shows "(code = None \<or> normal_code (the code) \<noteq> normal_code (the (b_access_code b)) \<longrightarrow>
      hr_status (fst (get_participant_page slug code w)) \<in> {401, 403, 404}
      \<and> hr_data (fst (get_participant_page slug code w)) = NoData)
    \<and> (b_is_published b \<and> b_deleted_at b = None \<and> code \<noteq> None \<and> normal_code (the code) = normal_code (the (b_access_code b)) \<longrightarrow>
      hr_status (fst (get_participant_page slug code w)) \<notin> {401, 403, 404})
    \<and> snd (get_participant_page slug code w) = w"
proof -
  obtain c s where code: "b_access_code b = Some (c # s)" by (rule private_badge_code [OF assms(1,2,4)])
  show ?thesis
  proof (cases "get_public_badge_by_slug slug (db w)")
    case (Inl err)
    then have "\<not> (b_is_published b \<and> b_deleted_at b = None)"
      using public_iff [OF assms(1), of slug b] assms(2,3) by auto
    then show ?thesis by (auto simp: page_missing [OF Inl] error_response_def ok_def)
  next
    case (Inr x)
    then have "x = b"
      using public_Inr [OF Inr] assms(1-3) slug_unique [OF assms(1), of x b slug] by auto
    then show ?thesis
      using page_response_error [of "badge_tags (b_id b) (db w)" b]
      by (auto simp: page_found [OF Inr] check_private [OF assms(4) code] code ok_def error_response_def
          split: option.split sum.split)
  qed
qed

definition demo_private :: database where
  "demo_private = demo_badges\<lparr>badges := [demo_badge\<lparr>b_access_type := 1, b_access_code := Some ''Code12''\<rparr>]\<rparr>"

lemma demo_private_wf: "db_wf demo_private"
  using demo_badges_wf
  by (simp add: demo_private_def db_wf_def badges_ok_def hashtags_ok_def unique_on_def badge_row_ok_def access_ok_def
      user_ids_def badge_ids_def template_ids_def demo_badges_def demo_db_def demo_badge_def)

theorem private_page_needs_code_witness:
  "hr_status (fst (get_participant_page ''slug'' (Some ''wrong'') (demo_world demo_private))) \<in> {401, 403, 404}
   \<and> hr_status (fst (get_participant_page ''slug'' (Some '' cODE12 '') (demo_world demo_private))) \<notin> {401, 403, 404}"
proof -
  let ?b = "demo_badge\<lparr>b_access_type := 1, b_access_code := Some ''Code12''\<rparr>"
  have b: "?b \<in> set (badges (db (demo_world demo_private)))" by (simp add: demo_private_def)
  have w: "db_wf (db (demo_world demo_private))" using demo_private_wf by simp
  have s: "b_share_slug ?b = Some ''slug''" "b_access_type ?b = 1" "b_is_published ?b" "b_deleted_at ?b = None"
    by (simp_all add: demo_badge_def)
  have n: "normal_code ''wrong'' \<noteq> normal_code ''Code12''" "normal_code '' cODE12 '' = normal_code ''Code12''"
    by code_simp+
  show ?thesis
    using private_page_needs_code [OF w b s(1,2), of "Some ''wrong''"]
      private_page_needs_code [OF w b s(1,2), of "Some '' cODE12 ''"] n s by simp
qed

end
