(* ===== verification/Seed_Data.thy ===== *)
theory Seed_Data
  imports World
begin

text \<open>
  The rows of \<open>app/db/seed/definitions.py\<close>: the roles and the platform templates the seeder writes.
\<close>

definition ROLE_SEED :: "string list" where
  "ROLE_SEED = [''admin'', ''user'']"

definition ADMIN_SEED_EMAILS :: "string list" where
  "ADMIN_SEED_EMAILS = []"

record template_seed =
  ts_title :: string
  ts_category :: string
  ts_canvas_data :: json
  ts_thumbnail_url :: "string option"

definition DESIGN_WEEK_PINK :: template_seed where
  "DESIGN_WEEK_PINK = \<lparr>ts_title = ''Design Week Pink'', ts_category = ''summit'',
    ts_canvas_data = JObj [
        (''layout_id'', JStr ''bold_name_pink_v1''),
        (''background'', JObj [
          (''type'', JStr ''split''), (''split_ratio'', JDec 85 2),
          (''primary'', JObj [(''type'', JStr ''solid''), (''color'', JStr ''#F5C6D0''), (''gradient'', JNull)]),
          (''secondary'', JObj [(''type'', JStr ''solid''), (''color'', JStr ''#e61b62''), (''gradient'', JNull)])]),
        (''typography'', JObj [
          (''font_family'', JStr ''DM Sans''), (''size_px'', JInt 56), (''weight'', JStr ''bold''),
          (''italic'', JBool False), (''underline'', JBool False)]),
        (''logo'', JObj [(''url'', JNull), (''public_id'', JNull), (''position'', JNull), (''has_logo'', JBool False)]),
        (''fields'', JList [
          JObj [
            (''key'', JStr ''participant_photo''), (''type'', JStr ''participant_upload''),
            (''label'', JStr ''YOUR PHOTO''), (''required'', JBool False),
            (''accepted_formats'', JList [JStr ''jpg'', JStr ''png'', JStr ''webp'']), (''max_size_mb'', JInt 5),
            (''visible'', JBool True)],
          JObj [
            (''key'', JStr ''participant_name''), (''type'', JStr ''participant_input''),
            (''label'', JStr ''NAME''), (''placeholder'', JStr ''Your name''), (''required'', JBool True),
            (''visible'', JBool True)],
          JObj [
            (''key'', JStr ''role_title''), (''type'', JStr ''participant_input''),
            (''label'', JStr ''ROLE / TITLE''), (''placeholder'', JStr ''e.g. Product Designer''),
            (''required'', JBool False), (''visible'', JBool True)],
          JObj [
            (''key'', JStr ''event_hashtag''), (''type'', JStr ''static''), (''label'', JStr ''Event Hashtag''),
            (''value'', JStr ''#DesignWeekLagos''), (''visible'', JBool True)]]),
        (''output'', JObj [(''width_px'', JInt 1080), (''height_px'', JInt 1350), (''format'', JStr ''png'')])],
    ts_thumbnail_url = Some ''https://res.cloudinary.com/dr4shcu93/image/upload/v1780184750/template_1_3x_tygy1h.webp''\<rparr>"

definition DESIGN_WEEK_PURPLE_TEAL :: template_seed where
  "DESIGN_WEEK_PURPLE_TEAL = \<lparr>ts_title = ''Design Week Purple Teal'', ts_category = ''summit'',
    ts_canvas_data = JObj [
        (''layout_id'', JStr ''split_purple_teal_v1''),
        (''background'', JObj [
          (''type'', JStr ''split''), (''split_ratio'', JDec 45 2),
          (''primary'', JObj [(''type'', JStr ''solid''), (''color'', JStr ''#6B3FA0''), (''gradient'', JNull)]),
          (''secondary'', JObj [(''type'', JStr ''solid''), (''color'', JStr ''#3ECFBF''), (''gradient'', JNull)])]),
        (''typography'', JObj [
          (''font_family'', JStr ''DM Sans''), (''size_px'', JInt 42), (''weight'', JStr ''bold''),
          (''italic'', JBool False), (''underline'', JBool False)]),
        (''logo'', JObj [
          (''url'', JNull), (''public_id'', JNull), (''position'', JStr ''top-left''),
          (''has_logo'', JBool True)]),
        (''fields'', JList [
          JObj [
            (''key'', JStr ''event_name''), (''type'', JStr ''static''), (''label'', JStr ''Event Name''),
            (''value'', JStr ''DESIGNWEEKLAGOS''), (''visible'', JBool True)],
          JObj [
            (''key'', JStr ''participant_name''), (''type'', JStr ''participant_input''),
            (''label'', JStr ''NAME''), (''placeholder'', JStr ''Your name''), (''required'', JBool True),
            (''visible'', JBool True)],
          JObj [
            (''key'', JStr ''role_title''), (''type'', JStr ''participant_input''),
            (''label'', JStr ''ROLE / TITLE''), (''placeholder'', JStr ''e.g. Product Designer''),
            (''required'', JBool False), (''visible'', JBool True)],
          JObj [
            (''key'', JStr ''participant_photo''), (''type'', JStr ''participant_upload''),
            (''label'', JStr ''YOUR PHOTO''), (''required'', JBool False),
            (''accepted_formats'', JList [JStr ''jpg'', JStr ''png'', JStr ''webp'']), (''max_size_mb'', JInt 5),
            (''visible'', JBool True)]]),
        (''output'', JObj [(''width_px'', JInt 1080), (''height_px'', JInt 1350), (''format'', JStr ''png'')])],
    ts_thumbnail_url = Some ''https://res.cloudinary.com/dr4shcu93/image/upload/v1780184750/template_9_3x_ngj43r.webp''\<rparr>"

definition DARK_LAYOUT :: template_seed where
  "DARK_LAYOUT = \<lparr>ts_title = ''Dark Layout'', ts_category = ''conferences'',
    ts_canvas_data = JObj [
        (''layout_id'', JStr ''dark_name_photo_v1''),
        (''background'', JObj [(''type'', JStr ''solid''), (''color'', JStr ''#1A1A1A'')]),
        (''typography'', JObj [
          (''font_family'', JStr ''DM Sans''), (''size_px'', JInt 42), (''weight'', JStr ''bold''),
          (''italic'', JBool False), (''underline'', JBool False)]),
        (''logo'', JObj [
          (''url'', JNull), (''public_id'', JNull), (''position'', JStr ''top-left''),
          (''has_logo'', JBool True)]),
        (''fields'', JList [
          JObj [
            (''key'', JStr ''event_name''), (''type'', JStr ''static''), (''label'', JStr ''Event Name''),
            (''value'', JStr ''DESIGNWEEKLAGOS''), (''visible'', JBool True)],
          JObj [
            (''key'', JStr ''participant_name''), (''type'', JStr ''participant_input''),
            (''label'', JStr ''NAME''), (''placeholder'', JStr ''Your name''), (''required'', JBool True),
            (''visible'', JBool True)],
          JObj [
            (''key'', JStr ''role_title''), (''type'', JStr ''participant_input''),
            (''label'', JStr ''ROLE / TITLE''), (''placeholder'', JStr ''e.g. Product Designer''),
            (''required'', JBool False), (''visible'', JBool True)],
          JObj [
            (''key'', JStr ''participant_photo''), (''type'', JStr ''participant_upload''),
            (''label'', JStr ''YOUR PHOTO''), (''required'', JBool False),
            (''accepted_formats'', JList [JStr ''jpg'', JStr ''png'', JStr ''webp'']), (''max_size_mb'', JInt 5),
            (''visible'', JBool True)]]),
        (''output'', JObj [(''width_px'', JInt 1080), (''height_px'', JInt 1350), (''format'', JStr ''png'')])],
    ts_thumbnail_url = Some ''https://res.cloudinary.com/dr4shcu93/image/upload/v1780184750/template_7_3x_kerhur.webp''\<rparr>"

definition DARK_CIRCLE :: template_seed where
  "DARK_CIRCLE = \<lparr>ts_title = ''Dark Circle'', ts_category = ''conferences'',
    ts_canvas_data = JObj [
        (''layout_id'', JStr ''circle_photo_dark_v1''),
        (''background'', JObj [
          (''type'', JStr ''split''), (''split_ratio'', JDec 65 2),
          (''primary'', JObj [(''type'', JStr ''solid''), (''color'', JStr ''#1E1E1E''), (''gradient'', JNull)]),
          (''secondary'', JObj [(''type'', JStr ''solid''), (''color'', JStr ''#E0E0E0''), (''gradient'', JNull)])]),
        (''typography'', JObj [
          (''font_family'', JStr ''DM Sans''), (''size_px'', JInt 38), (''weight'', JStr ''bold''),
          (''italic'', JBool False), (''underline'', JBool False)]),
        (''logo'', JObj [
          (''url'', JNull), (''public_id'', JNull), (''position'', JStr ''top-center''),
          (''has_logo'', JBool True)]),
        (''fields'', JList [
          JObj [
            (''key'', JStr ''participant_photo''), (''type'', JStr ''participant_upload''),
            (''label'', JStr ''YOUR PHOTO''), (''required'', JBool False),
            (''accepted_formats'', JList [JStr ''jpg'', JStr ''png'', JStr ''webp'']), (''max_size_mb'', JInt 5),
            (''visible'', JBool True)],
          JObj [
            (''key'', JStr ''participant_name''), (''type'', JStr ''participant_input''),
            (''label'', JStr ''NAME''), (''placeholder'', JStr ''Your name''), (''required'', JBool True),
            (''visible'', JBool True)],
          JObj [
            (''key'', JStr ''role_title''), (''type'', JStr ''participant_input''),
            (''label'', JStr ''ROLE / TITLE''), (''placeholder'', JStr ''e.g. Product Designer''),
            (''required'', JBool False), (''visible'', JBool True)]]),
        (''output'', JObj [(''width_px'', JInt 1080), (''height_px'', JInt 1350), (''format'', JStr ''png'')])],
    ts_thumbnail_url = Some ''https://res.cloudinary.com/dr4shcu93/image/upload/v1780184751/template_4_3x_yk8sav.webp''\<rparr>"

definition HNG_FINALIST_DESIGN :: template_seed where
  "HNG_FINALIST_DESIGN = \<lparr>ts_title = ''HNG Finalist - Design'', ts_category = ''internship'',
    ts_canvas_data = JObj [
        (''layout_id'', JStr ''hng_finalist_design_v1''),
        (''background'', JObj [(''type'', JStr ''image''), (''url'', JNull), (''public_id'', JNull)]),
        (''typography'', JObj [
          (''font_family'', JStr ''DM Sans''), (''size_px'', JInt 42), (''weight'', JStr ''bold''),
          (''italic'', JBool False), (''underline'', JBool False)]),
        (''logo'', JObj [
          (''url'', JNull), (''public_id'', JNull), (''position'', JStr ''top-center''),
          (''has_logo'', JBool True)]),
        (''fields'', JList [
          JObj [
            (''key'', JStr ''badge_title''), (''type'', JStr ''static''), (''label'', JStr ''Badge Title''),
            (''value'', JStr ''Finalist''), (''visible'', JBool True)],
          JObj [
            (''key'', JStr ''track''), (''type'', JStr ''static''), (''label'', JStr ''Track''),
            (''value'', JStr ''Design''), (''visible'', JBool True)],
          JObj [
            (''key'', JStr ''percentile_badge''), (''type'', JStr ''static''), (''label'', JStr ''Percentile''),
            (''value'', JStr ''Top 5%''), (''visible'', JBool True)],
          JObj [
            (''key'', JStr ''participant_photo''), (''type'', JStr ''participant_upload''),
            (''label'', JStr ''YOUR PHOTO''), (''required'', JBool False),
            (''accepted_formats'', JList [JStr ''jpg'', JStr ''png'', JStr ''webp'']), (''max_size_mb'', JInt 5),
            (''visible'', JBool True)],
          JObj [
            (''key'', JStr ''participant_name''), (''type'', JStr ''participant_input''),
            (''label'', JStr ''NAME''), (''placeholder'', JStr ''Your name''), (''required'', JBool True),
            (''visible'', JBool True)]]),
        (''output'', JObj [(''width_px'', JInt 1080), (''height_px'', JInt 1350), (''format'', JStr ''png'')])],
    ts_thumbnail_url = Some ''https://res.cloudinary.com/dr4shcu93/image/upload/v1780888578/design_ususcl.webp''\<rparr>"

definition HNG_FINALIST_DEV :: template_seed where
  "HNG_FINALIST_DEV = \<lparr>ts_title = ''HNG Finalist - Dev'', ts_category = ''internship'',
    ts_canvas_data = JObj [
        (''layout_id'', JStr ''hng_finalist_dev_v1''),
        (''background'', JObj [(''type'', JStr ''image''), (''url'', JNull), (''public_id'', JNull)]),
        (''typography'', JObj [
          (''font_family'', JStr ''DM Sans''), (''size_px'', JInt 42), (''weight'', JStr ''bold''),
          (''italic'', JBool False), (''underline'', JBool False)]),
        (''logo'', JObj [
          (''url'', JNull), (''public_id'', JNull), (''position'', JStr ''top-center''),
          (''has_logo'', JBool True)]),
        (''fields'', JList [
          JObj [
            (''key'', JStr ''badge_title''), (''type'', JStr ''static''), (''label'', JStr ''Badge Title''),
            (''value'', JStr ''Finalist''), (''visible'', JBool True)],
          JObj [
            (''key'', JStr ''track''), (''type'', JStr ''static''), (''label'', JStr ''Track''),
            (''value'', JStr ''FrontEnd Dev.''), (''visible'', JBool True)],
          JObj [
            (''key'', JStr ''percentile_badge''), (''type'', JStr ''static''), (''label'', JStr ''Percentile''),
            (''value'', JStr ''Top 5%''), (''visible'', JBool True)],
          JObj [
            (''key'', JStr ''participant_photo''), (''type'', JStr ''participant_upload''),
            (''label'', JStr ''YOUR PHOTO''), (''required'', JBool False),
            (''accepted_formats'', JList [JStr ''jpg'', JStr ''png'', JStr ''webp'']), (''max_size_mb'', JInt 5),
            (''visible'', JBool True)],
          JObj [
            (''key'', JStr ''participant_name''), (''type'', JStr ''participant_input''),
            (''label'', JStr ''NAME''), (''placeholder'', JStr ''Your name''), (''required'', JBool True),
            (''visible'', JBool True)]]),
        (''output'', JObj [(''width_px'', JInt 1080), (''height_px'', JInt 1350), (''format'', JStr ''png'')])],
    ts_thumbnail_url = Some ''https://res.cloudinary.com/dr4shcu93/image/upload/v1780888578/dev_gdoexx.webp''\<rparr>"

definition HNG_FINALIST_PM :: template_seed where
  "HNG_FINALIST_PM = \<lparr>ts_title = ''HNG Finalist - PM'', ts_category = ''internship'',
    ts_canvas_data = JObj [
        (''layout_id'', JStr ''hng_finalist_pm_v1''),
        (''background'', JObj [(''type'', JStr ''image''), (''url'', JNull), (''public_id'', JNull)]),
        (''typography'', JObj [
          (''font_family'', JStr ''DM Sans''), (''size_px'', JInt 42), (''weight'', JStr ''bold''),
          (''italic'', JBool False), (''underline'', JBool False)]),
        (''logo'', JObj [
          (''url'', JNull), (''public_id'', JNull), (''position'', JStr ''top-center''),
          (''has_logo'', JBool True)]),
        (''fields'', JList [
          JObj [
            (''key'', JStr ''badge_title''), (''type'', JStr ''static''), (''label'', JStr ''Badge Title''),
            (''value'', JStr ''Finalist''), (''visible'', JBool True)],
          JObj [
            (''key'', JStr ''track''), (''type'', JStr ''static''), (''label'', JStr ''Track''),
            (''value'', JStr ''Product Management''), (''visible'', JBool True)],
          JObj [
            (''key'', JStr ''percentile_badge''), (''type'', JStr ''static''), (''label'', JStr ''Percentile''),
            (''value'', JStr ''Top 5%''), (''visible'', JBool True)],
          JObj [
            (''key'', JStr ''participant_photo''), (''type'', JStr ''participant_upload''),
            (''label'', JStr ''YOUR PHOTO''), (''required'', JBool False),
            (''accepted_formats'', JList [JStr ''jpg'', JStr ''png'', JStr ''webp'']), (''max_size_mb'', JInt 5),
            (''visible'', JBool True)],
          JObj [
            (''key'', JStr ''participant_name''), (''type'', JStr ''participant_input''),
            (''label'', JStr ''NAME''), (''placeholder'', JStr ''Your name''), (''required'', JBool True),
            (''visible'', JBool True)]]),
        (''output'', JObj [(''width_px'', JInt 1080), (''height_px'', JInt 1350), (''format'', JStr ''png'')])],
    ts_thumbnail_url = Some ''https://res.cloudinary.com/dr4shcu93/image/upload/v1780888577/design_2_uourqz.webp''\<rparr>"

definition HNG_FINALIST :: template_seed where
  "HNG_FINALIST = \<lparr>ts_title = ''HNG Finalist'', ts_category = ''internship'',
    ts_canvas_data = JObj [
        (''layout_id'', JStr ''hng_finalist_v1''),
        (''background'', JObj [(''type'', JStr ''image''), (''url'', JNull), (''public_id'', JNull)]),
        (''typography'', JObj [
          (''font_family'', JStr ''DM Sans''), (''size_px'', JInt 42), (''weight'', JStr ''bold''),
          (''italic'', JBool False), (''underline'', JBool False)]),
        (''logo'', JObj [
          (''url'', JNull), (''public_id'', JNull), (''position'', JStr ''top-center''),
          (''has_logo'', JBool True)]),
        (''fields'', JList [
          JObj [
            (''key'', JStr ''badge_title''), (''type'', JStr ''static''), (''label'', JStr ''Badge Title''),
            (''value'', JStr ''Finalist''), (''visible'', JBool True)],
          JObj [
            (''key'', JStr ''track''), (''type'', JStr ''static''), (''label'', JStr ''Track''),
            (''value'', JStr ''Virtual Assistant''), (''visible'', JBool True)],
          JObj [
            (''key'', JStr ''percentile_badge''), (''type'', JStr ''static''), (''label'', JStr ''Percentile''),
            (''value'', JStr ''Top 5%''), (''visible'', JBool True)],
          JObj [
            (''key'', JStr ''participant_photo''), (''type'', JStr ''participant_upload''),
            (''label'', JStr ''YOUR PHOTO''), (''required'', JBool False),
            (''accepted_formats'', JList [JStr ''jpg'', JStr ''png'', JStr ''webp'']), (''max_size_mb'', JInt 5),
            (''visible'', JBool True)],
          JObj [
            (''key'', JStr ''participant_name''), (''type'', JStr ''participant_input''),
            (''label'', JStr ''NAME''), (''placeholder'', JStr ''Your name''), (''required'', JBool True),
            (''visible'', JBool True)]]),
        (''output'', JObj [(''width_px'', JInt 1080), (''height_px'', JInt 1350), (''format'', JStr ''png'')])],
    ts_thumbnail_url = Some ''https://res.cloudinary.com/dr4shcu93/image/upload/v1780888577/design_1_e6spww.webp''\<rparr>"

definition HNG_FINALIST_FLARETAG :: template_seed where
  "HNG_FINALIST_FLARETAG = \<lparr>ts_title = ''HNG Finalist - FlareTag'', ts_category = ''internship'',
    ts_canvas_data = JObj [
        (''layout_id'', JStr ''hng_finalist_flaretag_v1''),
        (''background'', JObj [(''type'', JStr ''image''), (''url'', JNull), (''public_id'', JNull)]),
        (''typography'', JObj [
          (''font_family'', JStr ''DM Sans''), (''size_px'', JInt 42), (''weight'', JStr ''bold''),
          (''italic'', JBool False), (''underline'', JBool False)]),
        (''logo'', JObj [
          (''url'', JNull), (''public_id'', JNull), (''position'', JStr ''top-center''),
          (''has_logo'', JBool True)]),
        (''fields'', JList [
          JObj [
            (''key'', JStr ''badge_title''), (''type'', JStr ''static''), (''label'', JStr ''Badge Title''),
            (''value'', JStr ''Finalist''), (''visible'', JBool True)],
          JObj [
            (''key'', JStr ''track''), (''type'', JStr ''static''), (''label'', JStr ''Track''),
            (''value'', JStr ''Design''), (''visible'', JBool True)],
          JObj [
            (''key'', JStr ''percentile_badge''), (''type'', JStr ''static''), (''label'', JStr ''Percentile''),
            (''value'', JStr ''Top 5%''), (''visible'', JBool True)],
          JObj [
            (''key'', JStr ''participant_photo''), (''type'', JStr ''participant_upload''),
            (''label'', JStr ''YOUR PHOTO''), (''required'', JBool False),
            (''accepted_formats'', JList [JStr ''jpg'', JStr ''png'', JStr ''webp'']), (''max_size_mb'', JInt 5),
            (''visible'', JBool True)],
          JObj [
            (''key'', JStr ''participant_name''), (''type'', JStr ''participant_input''),
            (''label'', JStr ''NAME''), (''placeholder'', JStr ''Your name''), (''required'', JBool True),
            (''visible'', JBool True)],
          JObj [
            (''key'', JStr ''organization''), (''type'', JStr ''participant_input''),
            (''label'', JStr ''ORGANIZATION''), (''placeholder'', JStr ''e.g. Flaretag''),
            (''required'', JBool False), (''visible'', JBool True)]]),
        (''output'', JObj [(''width_px'', JInt 1080), (''height_px'', JInt 1350), (''format'', JStr ''png'')])],
    ts_thumbnail_url = Some ''https://res.cloudinary.com/dr4shcu93/image/upload/v1780898542/design_3_lzjz4y.webp''\<rparr>"

definition BABY_SHOWER :: template_seed where
  "BABY_SHOWER = \<lparr>ts_title = ''Baby Shower'', ts_category = ''celebration'',
    ts_canvas_data = JObj [
        (''layout_id'', JStr ''baby_shower_v1''),
        (''background'', JObj [
          (''type'', JStr ''split''), (''split_ratio'', JDec 65 2),
          (''primary'', JObj [(''type'', JStr ''solid''), (''color'', JStr ''#FEF5FC''), (''gradient'', JNull)]),
          (''secondary'', JObj [(''type'', JStr ''solid''), (''color'', JStr ''#FAB6E5''), (''gradient'', JNull)])]),
        (''typography'', JObj [
          (''font_family'', JStr ''DM Sans''), (''size_px'', JInt 19), (''weight'', JStr ''bold''),
          (''italic'', JBool False), (''underline'', JBool False)]),
        (''logo'', JObj [(''url'', JNull), (''public_id'', JNull), (''position'', JNull), (''has_logo'', JBool False)]),
        (''fields'', JList [
          JObj [
            (''key'', JStr ''event_name''), (''type'', JStr ''static''), (''label'', JStr ''Event Name''),
            (''value'', JStr ''BabyDoe2026''), (''visible'', JBool True)],
          JObj [
            (''key'', JStr ''team''), (''type'', JStr ''static''), (''label'', JStr ''Team''),
            (''value'', JStr ''Girl''), (''visible'', JBool True)],
          JObj [
            (''key'', JStr ''participant_photo''), (''type'', JStr ''participant_upload''),
            (''label'', JStr ''YOUR PHOTO''), (''required'', JBool True),
            (''accepted_formats'', JList [JStr ''jpg'', JStr ''png'', JStr ''webp'']), (''max_size_mb'', JInt 5),
            (''visible'', JBool True)],
          JObj [
            (''key'', JStr ''participant_name''), (''type'', JStr ''participant_input''),
            (''label'', JStr ''NAME''), (''placeholder'', JStr ''Your name''), (''required'', JBool True),
            (''visible'', JBool True)],
          JObj [
            (''key'', JStr ''relationship''), (''type'', JStr ''participant_input''),
            (''label'', JStr ''RELATIONSHIP''), (''placeholder'', JStr ''e.g. Uncle''),
            (''required'', JBool True), (''visible'', JBool True)]]),
        (''output'', JObj [(''width_px'', JInt 1080), (''height_px'', JInt 1350), (''format'', JStr ''png'')])],
    ts_thumbnail_url = Some ''https://res.cloudinary.com/dqnh5cpel/image/upload/v1785797715/template-logos/Babyshower_Template_cmqrus.png''\<rparr>"

definition PLATFORM_TEMPLATES_SEED :: "template_seed list" where
  "PLATFORM_TEMPLATES_SEED = [DESIGN_WEEK_PINK, DESIGN_WEEK_PURPLE_TEAL, DARK_LAYOUT, DARK_CIRCLE, HNG_FINALIST_DESIGN, HNG_FINALIST_DEV, HNG_FINALIST_PM, HNG_FINALIST, HNG_FINALIST_FLARETAG, BABY_SHOWER]"

lemmas seed_defs = DESIGN_WEEK_PINK_def DESIGN_WEEK_PURPLE_TEAL_def DARK_LAYOUT_def DARK_CIRCLE_def HNG_FINALIST_DESIGN_def HNG_FINALIST_DEV_def HNG_FINALIST_PM_def HNG_FINALIST_def HNG_FINALIST_FLARETAG_def BABY_SHOWER_def

end
