(* ===== verification/Seeder.thy ===== *)
theory Seeder
  imports Seed_Data Templates_Admin
begin

text \<open>
  \<open>app/db/seed/seeder.py\<close>: a start of the service brings the roles and the platform templates in step with
  their definitions.  A seeding run is one transaction; its counts are what it logs.
\<close>

section \<open>Roles\<close>

definition insert_role :: "role \<Rightarrow> database \<Rightarrow> app_error + database" where
  "insert_role r d = checked (fits 50 (r_name r))
     (r_id r \<notin> r_id ` set (roles d) \<and> r_name r \<notin> r_name ` set (roles d)) (d\<lparr>roles := roles d @ [r]\<rparr>)"

definition insert_user_role :: "user_role \<Rightarrow> database \<Rightarrow> app_error + database" where
  "insert_user_role l d = checked True
     (ur_id l \<notin> ur_id ` set (user_roles d)
      \<and> (ur_user_id l, ur_role_id l) \<notin> (\<lambda>x. (ur_user_id x, ur_role_id x)) ` set (user_roles d)
      \<and> ur_user_id l \<in> u_id ` set (users d) \<and> ur_role_id l \<in> r_id ` set (roles d))
     (d\<lparr>user_roles := user_roles d @ [l]\<rparr>)"

text \<open>\<open>ids\<close> gives the row ids drawn, one after the other from \<open>i\<close>.\<close>

fun add_roles :: "time \<Rightarrow> (nat \<Rightarrow> uuid) \<Rightarrow> nat \<Rightarrow> string list \<Rightarrow> database \<Rightarrow> app_error + database" where
  "add_roles now ids i [] d = Inr d"
| "add_roles now ids i (role_name # names) d =
     (if role_name \<in> r_name ` set (roles d) then add_roles now ids i names d
      else (case insert_role \<lparr>r_id = ids i, r_name = role_name, r_created_at = now\<rparr> d of
          Inl err \<Rightarrow> Inl err | Inr d \<Rightarrow> add_roles now ids (Suc i) names d))"

fun assign_role :: "time \<Rightarrow> (nat \<Rightarrow> uuid) \<Rightarrow> nat \<Rightarrow> uuid \<Rightarrow> uuid list \<Rightarrow> user list \<Rightarrow> database \<Rightarrow> app_error + database" where
  "assign_role now ids i rid existing_user_ids [] d = Inr d"
| "assign_role now ids i rid existing_user_ids (user # us) d =
     (if u_id user \<in> set existing_user_ids then assign_role now ids i rid existing_user_ids us d
      else (case insert_user_role \<lparr>ur_id = ids i, ur_user_id = u_id user, ur_role_id = rid, ur_created_at = now\<rparr> d of
          Inl err \<Rightarrow> Inl err | Inr d \<Rightarrow> assign_role now ids (Suc i) rid existing_user_ids us d))"

definition seed_roles :: "time \<Rightarrow> (nat \<Rightarrow> uuid) \<Rightarrow> (nat \<Rightarrow> uuid) \<Rightarrow> string list option \<Rightarrow> database \<Rightarrow> app_error + database" where
  "seed_roles now ids link_ids admin_emails d =
     (let admin_emails = (case admin_emails of None \<Rightarrow> ADMIN_SEED_EMAILS | Some es \<Rightarrow> es) in
      case add_roles now ids 0 ROLE_SEED d of
        Inl err \<Rightarrow> Inl err
      | Inr d \<Rightarrow> (case find (\<lambda>r. r_name r = ''admin'') (roles d) of
          None \<Rightarrow> Inr d
        | Some admin_role \<Rightarrow>
            (let us = filter (\<lambda>u. u_email u \<in> set admin_emails) (users d);
                 existing_user_ids = map ur_user_id (filter (\<lambda>l. ur_role_id l = r_id admin_role
                   \<and> ur_user_id l \<in> u_id ` set us) (user_roles d))
             in assign_role now link_ids 0 (r_id admin_role) existing_user_ids us d)))"

section \<open>Platform templates\<close>

text \<open>Equality of decoded JSON: the order of the keys of an object does not count, \<open>True == 1 == 1.0\<close>.\<close>

fun json_number :: "json \<Rightarrow> (int \<times> nat) option" where
  "json_number (JBool b) = Some (if b then 1 else 0, 0)"
| "json_number (JInt i) = Some (i, 0)"
| "json_number (JDec m n) = Some (m, n)"
| "json_number _ = None"

lemma size_json_zip: "(v, u) \<in> set (zip xs ys) \<Longrightarrow> size v < Suc (size_list size (xs :: json list))"
  using size_json_item [of v "length xs" xs] by (auto dest: set_zip_leftD)

function json_same :: "json \<Rightarrow> json \<Rightarrow> bool" where
  "json_same x y = (case (x, y) of
     (JObj xs, JObj ys) \<Rightarrow> length xs = length ys
       \<and> (\<forall>(k, v)\<in>set xs. case map_of ys k of None \<Rightarrow> False | Some u \<Rightarrow> json_same v u)
   | (JList xs, JList ys) \<Rightarrow> length xs = length ys \<and> (\<forall>(v, u)\<in>set (zip xs ys). json_same v u)
   | _ \<Rightarrow> if json_number x = None \<or> json_number y = None then x = y else json_number x = json_number y)"
  by pat_completeness auto

termination
  by (relation "measure (\<lambda>(x, y). size x)") (auto simp: size_json_pair size_json_zip)

definition LEGACY_TITLES :: "string list" where
  "LEGACY_TITLES = [''Web3 Summit'', ''Dev Hackathon'', ''Builder Blitz'', ''Founder'' @ [CHR 0x27] @ ''s Circle'',
     ''Men'' @ [CHR 0x27] @ ''s Summit 2026'', ''Harvesta 2026'', ''Reddit Summit'', ''Reddit Summit Badge'',
     ''Community Connect'', ''Open Source Day'', ''Bootcamp Badge'', ''Graduate Cohort'', ''Next Gen Meetup'',
     ''Meetup Connect'', ''Spark Support'', ''Meet Our Speaker'', ''Keynote Speaker'', ''Achieveher'', ''Dev Summit'',
     ''Men'' @ [CHR 0x27] @ ''s Summit'', ''Next Gen'']"

text \<open>The dictionary \<open>existing\<close>: of several rows with one title it keeps the last.\<close>

definition by_title :: "platform_template list \<Rightarrow> string \<Rightarrow> platform_template option" where
  "by_title ts title = find (\<lambda>t. pt_title t = title) (rev ts)"

definition legacy :: "platform_template list \<Rightarrow> platform_template \<Rightarrow> bool" where
  "legacy ts t = (pt_title t \<in> set LEGACY_TITLES \<and> by_title ts (pt_title t) = Some t)"

text \<open>A deleted template takes its badges along, and their hashtags.\<close>

definition delete_templates :: "(platform_template \<Rightarrow> bool) \<Rightarrow> database \<Rightarrow> database" where
  "delete_templates P d =
     (let gone = pt_id ` set (filter P (platform_templates d));
          d = delete_badges (\<lambda>b. b_platform_template_id b \<in> gone) d
      in d\<lparr>platform_templates := delete_where P (platform_templates d)\<rparr>)"

definition sync_row :: "template_seed \<Rightarrow> platform_template \<Rightarrow> platform_template" where
  "sync_row data t = t\<lparr>
     pt_canvas_data := (if (case pt_canvas_data t of None \<Rightarrow> False | Some c \<Rightarrow> json_same c (ts_canvas_data data))
       then pt_canvas_data t else Some (ts_canvas_data data)),
     pt_category := ts_category data,
     pt_thumbnail_url := (if ts_thumbnail_url data = None then pt_thumbnail_url t else ts_thumbnail_url data)\<rparr>"

definition seeded_template :: "time \<Rightarrow> uuid \<Rightarrow> template_seed \<Rightarrow> platform_template" where
  "seeded_template now tid data =
     new_template now tid (ts_title data) (ts_category data) (Some (ts_canvas_data data)) (ts_thumbnail_url data) True"

text \<open>The loop over the definitions: how many rows were inserted and how many updated, and the database.\<close>

fun sync_templates :: "time \<Rightarrow> (nat \<Rightarrow> uuid) \<Rightarrow> platform_template list \<Rightarrow> nat \<Rightarrow> nat \<Rightarrow> template_seed list \<Rightarrow> database \<Rightarrow>
    app_error + (nat \<times> nat) \<times> database" where
  "sync_templates now ids existing inserted updated [] d = Inr ((inserted, updated), d)"
| "sync_templates now ids existing inserted updated (data # seeds) d = (case by_title existing (ts_title data) of
     Some row \<Rightarrow> (case save_template now (pt_id row) (sync_row data) d of
         Inl err \<Rightarrow> Inl err
       | Inr d' \<Rightarrow> sync_templates now ids existing inserted (if d' \<noteq> d then Suc updated else updated) seeds d')
   | None \<Rightarrow> (case insert_template (seeded_template now (ids inserted) data) d of
         Inl err \<Rightarrow> Inl err
       | Inr d' \<Rightarrow> sync_templates now ids existing (Suc inserted) updated seeds d'))"

definition seed_platform_templates :: "time \<Rightarrow> (nat \<Rightarrow> uuid) \<Rightarrow> database \<Rightarrow> app_error + (nat \<times> nat \<times> nat) \<times> database" where
  "seed_platform_templates now ids d =
     (let old = legacy (platform_templates d);
          deleted = length (filter old (platform_templates d));
          existing = delete_where old (platform_templates d)
      in case sync_templates now ids existing 0 0 PLATFORM_TEMPLATES_SEED (delete_templates old d) of
          Inl err \<Rightarrow> Inl err
        | Inr ((inserted, updated), d) \<Rightarrow> Inr ((deleted, inserted, updated), d))"

end
