(* ===== verification/Seeder_Facts.thy ===== *)
theory Seeder_Facts
  imports Seeder
begin

text \<open>
  Seeding brings every definition in step, keeps the other templates and the constraints of the database, and
  a second run changes nothing.
\<close>

lemma by_title_Some: "by_title ts title = Some t \<Longrightarrow> t \<in> set ts \<and> pt_title t = title"
  unfolding by_title_def by (auto dest: find_set)

lemma by_title_None: "by_title ts title = None \<longleftrightarrow> title \<notin> pt_title ` set ts"
  by (auto simp: by_title_def find_None_iff)

lemma by_title_iff:
  assumes "distinct (map pt_title ts)"
  shows "by_title ts title = Some t \<longleftrightarrow> t \<in> set ts \<and> pt_title t = title"
proof
  assume a: "t \<in> set ts \<and> pt_title t = title"
  then obtain u where u: "by_title ts title = Some u" using by_title_None [of ts title] by fastforce
  then have "u = t" using by_title_Some [OF u] a assms by (auto simp: distinct_map dest: inj_onD)
  with u show "by_title ts title = Some t" by simp
qed (rule by_title_Some)

lemma sync_row_simps [simp]:
  "pt_id (sync_row s t) = pt_id t" "pt_title (sync_row s t) = pt_title t" "sync_row s (sync_row s t) = sync_row s t"
  by (auto simp: sync_row_def simp del: json_same.simps)

lemma seeded_simps [simp]:
  "pt_id (seeded_template now i s) = i" "pt_title (seeded_template now i s) = ts_title s"
  "sync_row s (seeded_template now i s) = seeded_template now i s"
  by (auto simp: seeded_template_def new_template_def sync_row_def simp del: json_same.simps)

lemma sync_row_orm:
  "sync_row s (orm_template now (sync_row s) t) = orm_template now (sync_row s) t"
  "pt_title (orm_template now (sync_row s) t) = pt_title t"
proof -
  have "sync_row s (sync_row s t\<lparr>pt_updated_at := v\<rparr>) = (sync_row s (sync_row s t))\<lparr>pt_updated_at := v\<rparr>" for v
    by (simp add: sync_row_def del: json_same.simps sync_row_simps)
  then show "sync_row s (orm_template now (sync_row s) t) = orm_template now (sync_row s) t"
    by (simp add: orm_template_def Let_def)
qed (simp add: orm_template_def Let_def)

lemma orm_same: "sync_row s t = t \<Longrightarrow> orm_template now (sync_row s) t = t"
  by (simp add: orm_template_def)

section \<open>One step of the loop\<close>

abbreviation pts :: "database \<Rightarrow> platform_template list" where
  "pts \<equiv> platform_templates"

text \<open>The state of the loop: titles and ids are unique, and the dictionary names the rows with a title.\<close>

definition in_step :: "template_seed \<Rightarrow> platform_template \<Rightarrow> bool" where
  "in_step s t = (pt_title t = ts_title s \<and> sync_row s t = t \<and> template_fits t)"

definition titled :: "platform_template list \<Rightarrow> template_seed \<Rightarrow> database \<Rightarrow> bool" where
  "titled ex s d = (case by_title ex (ts_title s) of
     None \<Rightarrow> ts_title s \<notin> pt_title ` set (pts d)
   | Some r \<Rightarrow> \<exists>t\<in>set (pts d). pt_id t = pt_id r \<and> pt_title t = ts_title s)"

text \<open>A row before and after: only the category, the layout, the thumbnail and the time of the change may differ.\<close>

definition same_row :: "platform_template \<Rightarrow> platform_template \<Rightarrow> bool" where
  "same_row t t' = (pt_id t' = pt_id t \<and> pt_title t' = pt_title t \<and> pt_is_active t' = pt_is_active t
     \<and> pt_total_badges_made t' = pt_total_badges_made t \<and> pt_created_at t' = pt_created_at t)"

lemma same_row_trans: "same_row t u \<Longrightarrow> same_row u v \<Longrightarrow> same_row t v"
  by (simp add: same_row_def)

lemma same_row_sync: "same_row t t" "same_row t (orm_template now (sync_row s) t)"
  by (simp_all add: same_row_def orm_template_def sync_row_def Let_def del: json_same.simps)

text \<open>What a step does to the rows: only those with the title change, and one is in step after it.\<close>

definition sync_effect :: "string set \<Rightarrow> database \<Rightarrow> database \<Rightarrow> bool" where
  "sync_effect S d d' = (d' = d\<lparr>platform_templates := pts d'\<rparr>
     \<and> distinct (map pt_title (pts d')) \<and> unique_on pt_id (pts d')
     \<and> (\<forall>t. pt_title t \<notin> S \<longrightarrow> t \<in> set (pts d') \<longleftrightarrow> t \<in> set (pts d))
     \<and> template_ids d \<subseteq> template_ids d'
     \<and> (\<forall>t\<in>set (pts d). \<exists>t'\<in>set (pts d'). same_row t t')
     \<and> (\<forall>t'\<in>set (pts d'). pt_title t' \<in> S \<or> (\<exists>t\<in>set (pts d). pt_title t = pt_title t')))"

lemma save_effect:
  assumes "distinct (map pt_title (pts d))" "unique_on pt_id (pts d)"
    "r \<in> set (pts d)" "pt_title r = ts_title s" "save_template now (pt_id r) (sync_row s) d = Inr d'"
  shows "sync_effect {ts_title s} d d' \<and> (\<exists>t\<in>set (pts d'). in_step s t)"
proof -
  let ?f = "orm_template now (sync_row s)"
  let ?ts = "update_where (\<lambda>t. pt_id t = pt_id r) ?f (pts d)"
  have d': "d' = d\<lparr>platform_templates := ?ts\<rparr>" and fits: "\<forall>t\<in>set ?ts. pt_id t = pt_id r \<longrightarrow> template_fits t"
    using assms(5) by (auto simp: save_template_def Let_def)
  have same: "t = r" if "t \<in> set (pts d)" "pt_id t = pt_id r" for t
    using unique_onD [OF assms(2) that(1) assms(3)] that(2) .
  have titles: "map pt_title ?ts = map pt_title (pts d)"
    by (rule map_update_where) (simp add: sync_row_orm)
  have other: "t \<in> set ?ts \<longleftrightarrow> t \<in> set (pts d)" if "pt_title t \<noteq> ts_title s" for t
    using that assms(4) by (auto simp: set_update_where sync_row_orm image_iff dest: same)
  have "?f r \<in> set ?ts" using assms(3) by (auto simp: set_update_where)
  then have "\<exists>t\<in>set ?ts. in_step s t"
    using fits assms(4) by (intro bexI [of _ "?f r"]) (simp_all add: in_step_def sync_row_orm)
  moreover have "unique_on pt_id ?ts" by (simp add: unique_on_update_where assms(2))
  moreover have "\<exists>t'\<in>set ?ts. same_row t t'" if "t \<in> set (pts d)" for t
  proof
    show "(if pt_id t = pt_id r then ?f t else t) \<in> set ?ts"
      using that unfolding update_where_def by auto
  qed (simp add: same_row_sync)
  moreover have "\<exists>t\<in>set (pts d). pt_title t = pt_title t'" if "t' \<in> set ?ts" for t'
  proof -
    from that have "pt_title t' \<in> set (map pt_title ?ts)" by simp
    then show ?thesis unfolding titles by auto
  qed
  ultimately show ?thesis
    using assms(1) titles other by (auto simp: sync_effect_def d' template_ids_def image_update_where)
qed

lemma insert_effect:
  assumes "distinct (map pt_title (pts d))" "unique_on pt_id (pts d)" "ts_title s \<notin> pt_title ` set (pts d)"
    "insert_template (seeded_template now i s) d = Inr d'"
  shows "sync_effect {ts_title s} d d' \<and> (\<exists>t\<in>set (pts d'). in_step s t)"
  using assms
  by (auto simp: insert_template_def sync_effect_def in_step_def table_simps template_ids_def intro: same_row_sync)


lemma effect_titled:
  assumes "sync_effect S d d'" "titled ex s d" "ts_title s \<notin> S"
  shows "titled ex s d'"
proof (cases "by_title ex (ts_title s)")
  case None
  then have "pt_title t \<noteq> ts_title s" if "t \<in> set (pts d')" for t
    using assms that unfolding sync_effect_def titled_def by (metis image_eqI option.simps(4))
  with None show ?thesis by (fastforce simp: titled_def)
next
  case (Some r)
  then obtain t where t: "t \<in> set (pts d)" "pt_id t = pt_id r" "pt_title t = ts_title s"
    using assms(2) by (auto simp: titled_def)
  then obtain t' where "t' \<in> set (pts d')" "pt_id t' = pt_id t" "pt_title t' = pt_title t"
    using assms(1) unfolding sync_effect_def same_row_def by blast
  with Some t show ?thesis by (auto simp: titled_def)
qed

lemma effect_trans:
  assumes "sync_effect S d d1" "sync_effect T d1 d2"
  shows "sync_effect (S \<union> T) d d2"
proof -
  have "d2 = d\<lparr>platform_templates := pts d2\<rparr>"
    using assms unfolding sync_effect_def by (metis database.update_convs(6) database.surjective)
  moreover have "\<forall>t'\<in>set (pts d2). pt_title t' \<in> S \<union> T \<or> (\<exists>t\<in>set (pts d). pt_title t = pt_title t')"
    using assms unfolding sync_effect_def by (metis UnCI)
  moreover have "\<forall>t\<in>set (pts d). \<exists>t'\<in>set (pts d2). same_row t t'"
    using assms same_row_trans unfolding sync_effect_def by meson
  ultimately show ?thesis using assms by (auto simp: sync_effect_def)
qed

lemma sync_templates_effect:
  assumes "sync_templates now ids ex i u seeds d = Inr (n, d')" "distinct (map ts_title seeds)"
    "distinct (map pt_title (pts d))" "unique_on pt_id (pts d)" "\<forall>s\<in>set seeds. titled ex s d"
  shows "sync_effect (ts_title ` set seeds) d d' \<and> (\<forall>s\<in>set seeds. \<exists>t\<in>set (pts d'). in_step s t)"
  using assms
proof (induction seeds arbitrary: i u d)
  case Nil
  then show ?case by (auto simp: sync_effect_def intro: same_row_sync)
next
  case (Cons s seeds)
  obtain d1 i1 u1 where d1: "sync_effect {ts_title s} d d1 \<and> (\<exists>t\<in>set (pts d1). in_step s t)"
    and rest: "sync_templates now ids ex i1 u1 seeds d1 = Inr (n, d')"
  proof (cases "by_title ex (ts_title s)")
    case None
    with Cons.prems(5) have "ts_title s \<notin> pt_title ` set (pts d)" by (auto simp: titled_def)
    with None Cons.prems show ?thesis
      by (auto split: sum.splits intro: that dest!: insert_effect [OF Cons.prems(3,4)])
  next
    case (Some r)
    with Cons.prems(5) obtain t where t: "t \<in> set (pts d)" "pt_id t = pt_id r" "pt_title t = ts_title s"
      by (auto simp: titled_def)
    obtain e where e: "save_template now (pt_id r) (sync_row s) d = Inr e"
      using Cons.prems(1) Some by (auto split: sum.splits)
    have "sync_effect {ts_title s} d e \<and> (\<exists>t\<in>set (pts e). in_step s t)"
      using save_effect [OF Cons.prems(3,4) t(1,3)] e t(2) by metis
    with e Some Cons.prems(1) show ?thesis by (auto intro: that)
  qed
  have tail: "sync_effect (ts_title ` set seeds) d1 d' \<and> (\<forall>s\<in>set seeds. \<exists>t\<in>set (pts d'). in_step s t)"
  proof (rule Cons.IH [OF rest])
    show "distinct (map ts_title seeds)" using Cons.prems(2) by simp
    show "distinct (map pt_title (pts d1))" "unique_on pt_id (pts d1)" using d1 by (simp_all add: sync_effect_def)
    show "\<forall>x\<in>set seeds. titled ex x d1"
    proof
      fix x assume x: "x \<in> set seeds"
      then have "ts_title x \<notin> {ts_title s}" using Cons.prems(2) by (auto simp: image_iff)
      then show "titled ex x d1" using effect_titled [OF conjunct1 [OF d1]] x Cons.prems(5) by simp
    qed
  qed
  obtain t where t: "t \<in> set (pts d1)" "in_step s t" using d1 by blast
  then have "t \<in> set (pts d')"
    using tail Cons.prems(2) by (auto simp: sync_effect_def in_step_def)
  with t(2) tail effect_trans [OF conjunct1 [OF d1] conjunct1 [OF tail]] show ?case by auto
qed

text \<open>When every definition is in step, the loop does nothing.\<close>

lemma sync_templates_same:
  assumes "\<forall>s\<in>set seeds. \<exists>t\<in>set (pts d). in_step s t" "distinct (map pt_title (pts d))" "unique_on pt_id (pts d)"
  shows "sync_templates now ids (pts d) i u seeds d = Inr ((i, u), d)"
  using assms(1)
proof (induction seeds)
  case (Cons s seeds)
  then obtain t where t: "t \<in> set (pts d)" "in_step s t" by auto
  then have b: "by_title (pts d) (ts_title s) = Some t"
    using by_title_iff [OF assms(2)] by (simp add: in_step_def)
  have same: "x = t" if "x \<in> set (pts d)" "pt_id x = pt_id t" for x
    using unique_onD [OF assms(3) that(1) t(1)] that(2) .
  have "update_where (\<lambda>x. pt_id x = pt_id t) (orm_template now (sync_row s)) (pts d) = pts d"
    unfolding update_where_def
    by (rule map_idI) (use same t(2) orm_same in \<open>auto simp: in_step_def\<close>)
  moreover have "\<forall>x\<in>set (pts d). pt_id x = pt_id t \<longrightarrow> template_fits x"
    using same t(2) by (auto simp: in_step_def)
  ultimately have "save_template now (pt_id t) (sync_row s) d = Inr d"
    by (simp add: save_template_def Let_def)
  with b Cons show ?case by simp
qed simp

section \<open>A whole run\<close>

lemma delete_badges_frame [simp]:
  "pts (delete_badges B d) = pts d" "user_ids (delete_badges B d) = user_ids d" "template_ids (delete_badges B d) = template_ids d"
  "badges (delete_badges B d) = delete_where B (badges d)"
  by (simp_all add: delete_badges_def Let_def)

lemma titled_self: "titled (pts d) s d"
proof (cases "by_title (pts d) (ts_title s)")
  case None
  then have "ts_title s \<notin> pt_title ` set (pts d)" using by_title_None [of "pts d"] by blast
  with None show ?thesis unfolding titled_def by simp
next
  case (Some r)
  then show ?thesis using by_title_Some [OF Some] by (auto simp: titled_def)
qed

lemma delete_templates_wf:
  assumes "db_wf d"
  shows "db_wf (delete_templates P d)"
proof -
  let ?B = "\<lambda>b. b_platform_template_id b \<in> pt_id ` set (filter P (pts d))"
  have wf: "db_wf (delete_badges ?B d)" by (rule delete_badges_wf [OF assms])
  have sub: "b_platform_template_id b \<in> pt_id ` set (delete_where P (pts d))"
    if "b \<in> set (badges d)" "\<not> ?B b" for b
  proof -
    from assms that(1) have "b_platform_template_id b \<in> pt_id ` set (pts d)"
      by (auto simp: db_wf_def badges_ok_def template_ids_def)
    with that(2) show ?thesis by auto
  qed
  have "badges_ok (user_ids d) (pt_id ` set (delete_where P (pts d))) (delete_where ?B (badges d))"
    using wf sub unfolding badges_ok_def db_wf_def delete_badges_frame by auto
  moreover have "templates_ok (delete_where P (pts d))"
    using assms by (simp add: db_wf_def templates_ok_def unique_on_delete_where)
  ultimately show ?thesis
    using wf unfolding db_wf_def delete_templates_def Let_def by simp
qed

lemma delete_templates_none:
  assumes "db_wf d" "filter P (pts d) = []"
  shows "delete_templates P d = d"
proof -
  have "filter (\<lambda>h. bh_badge_id h \<in> b_id ` set (badges d)) (badge_hashtags d) = badge_hashtags d"
    using assms(1) by (intro filter_True) (auto simp: db_wf_def hashtags_ok_def badge_ids_def image_subset_iff)
  moreover have "delete_where P (pts d) = pts d"
    using assms(2) by (auto simp: delete_where_def filter_empty_conv filter_id_conv)
  ultimately show ?thesis
    using assms(2) by (simp add: delete_templates_def delete_badges_def Let_def) (simp add: delete_where_def)
qed

lemma delete_templates_pts [simp]: "pts (delete_templates P d) = delete_where P (pts d)"
  by (simp add: delete_templates_def Let_def)

lemma delete_templates_badges:
  "badges (delete_templates P d) = filter (\<lambda>b. b_platform_template_id b \<notin> pt_id ` set (filter P (pts d))) (badges d)"
  by (simp add: delete_templates_def Let_def) (simp add: delete_where_def)

lemma delete_templates_frame:
  assumes "d' = (delete_templates P d)\<lparr>platform_templates := ts\<rparr>"
  shows "d' = d\<lparr>platform_templates := ts, badges := badges d', badge_hashtags := badge_hashtags d'\<rparr>"
  unfolding assms by (simp add: delete_templates_def delete_badges_def Let_def)

lemma effect_badges: "sync_effect S d d' \<Longrightarrow> badges d' = badges d"
proof -
  assume "sync_effect S d d'"
  then obtain ts where "d' = d\<lparr>platform_templates := ts\<rparr>" unfolding sync_effect_def by blast
  then show ?thesis by simp
qed

lemma legacy_iff:
  "distinct (map pt_title ts) \<Longrightarrow> t \<in> set ts \<Longrightarrow> legacy ts t \<longleftrightarrow> pt_title t \<in> set LEGACY_TITLES"
  by (simp add: legacy_def by_title_iff)

lemma distinct_delete_where: "distinct (map f ts) \<Longrightarrow> distinct (map f (delete_where P ts))"
  by (simp add: delete_where_def distinct_map_filter)

lemma seed_titles: "distinct (map ts_title PLATFORM_TEMPLATES_SEED)"
  "ts_title ` set PLATFORM_TEMPLATES_SEED \<inter> set LEGACY_TITLES = {}"
  by (simp_all add: PLATFORM_TEMPLATES_SEED_def seed_defs LEGACY_TITLES_def)

lemma seeding_effect:
  assumes "db_wf d" "distinct (map pt_title (pts d))" "seed_platform_templates now ids d = Inr (n, d')"
  shows "sync_effect (ts_title ` set PLATFORM_TEMPLATES_SEED) (delete_templates (legacy (pts d)) d) d'
    \<and> (\<forall>s\<in>set PLATFORM_TEMPLATES_SEED. \<exists>t\<in>set (pts d'). in_step s t)"
proof -
  let ?d = "delete_templates (legacy (pts d)) d"
  obtain i u where r: "sync_templates now ids (pts ?d) 0 0 PLATFORM_TEMPLATES_SEED ?d = Inr ((i, u), d')"
    using assms(3) by (auto simp: seed_platform_templates_def Let_def split: sum.splits)
  have "db_wf ?d" by (rule delete_templates_wf [OF assms(1)])
  then have "unique_on pt_id (pts ?d)" by (simp only: db_wf_def templates_ok_def)
  moreover have "distinct (map pt_title (pts ?d))" using assms(2) by (simp add: distinct_delete_where)
  moreover have "\<forall>s\<in>set PLATFORM_TEMPLATES_SEED. titled (pts ?d) s ?d"
    using titled_self by blast
  ultimately show ?thesis by (intro sync_templates_effect [OF r seed_titles(1)])
qed

text \<open>Whatever the titles, a run keeps the constraints and the sessions.\<close>

lemma sync_templates_wf:
  assumes "sync_templates now ids ex i u seeds d = Inr (n, d')" "db_wf d"
  shows "db_wf d' \<and> refresh_tokens d' = refresh_tokens d"
  using assms
proof (induction seeds arbitrary: i u d)
  case (Cons s seeds)
  have save: "db_wf d1 \<and> refresh_tokens d1 = refresh_tokens d" if "save_template now tid (sync_row s) d = Inr d1" for tid d1
    using that Cons.prems(2) update_templates_wf [of d "orm_template now (sync_row s)"]
    by (auto simp: save_template_def Let_def)
  have add: "db_wf d1 \<and> refresh_tokens d1 = refresh_tokens d" if "insert_template t d = Inr d1" for t d1
    using that insert_template_wf [OF Cons.prems(2) that] by (auto simp: insert_template_def)
  from Cons.prems(1) obtain i1 u1 d1 where "sync_templates now ids ex i1 u1 seeds d1 = Inr (n, d')"
    "db_wf d1 \<and> refresh_tokens d1 = refresh_tokens d"
    using save add by (auto split: option.splits sum.splits)
  with Cons.IH show ?case by metis
qed simp

lemma seeding_wf:
  assumes "db_wf d" "seed_platform_templates now ids d = Inr (n, d')"
  shows "db_wf d' \<and> refresh_tokens d' = refresh_tokens d"
proof -
  let ?d = "delete_templates (legacy (pts d)) d"
  obtain i u where "sync_templates now ids (pts ?d) 0 0 PLATFORM_TEMPLATES_SEED ?d = Inr ((i, u), d')"
    using assms(2) by (auto simp: seed_platform_templates_def Let_def split: sum.splits)
  from sync_templates_wf [OF this delete_templates_wf [OF assms(1)]] show ?thesis
    by (simp add: delete_templates_def delete_badges_def Let_def)
qed


text \<open>A row in step has the category of the definition, its layout up to the order of keys, and its thumbnail if it has one.\<close>

lemma in_step_row:
  assumes "sync_row s t = t"
  shows "pt_category t = ts_category s"
    and "\<exists>c. pt_canvas_data t = Some c \<and> (c = ts_canvas_data s \<or> json_same c (ts_canvas_data s))"
    and "ts_thumbnail_url s = None \<or> pt_thumbnail_url t = ts_thumbnail_url s"
proof -
  show "pt_category t = ts_category s" using arg_cong [OF assms, of pt_category] by (simp add: sync_row_def)
  show "ts_thumbnail_url s = None \<or> pt_thumbnail_url t = ts_thumbnail_url s"
    using arg_cong [OF assms, of pt_thumbnail_url] by (auto simp: sync_row_def split: if_splits)
  show "\<exists>c. pt_canvas_data t = Some c \<and> (c = ts_canvas_data s \<or> json_same c (ts_canvas_data s))"
    using arg_cong [OF assms, of pt_canvas_data]
    by (auto simp: sync_row_def simp del: json_same.simps split: if_splits option.splits)
qed

text \<open>C31. Seeding, where no two templates have the same title, brings the templates in step with their definitions, and does so once:
  every definition has a row with its title, its category, its layout as a JSON value and its thumbnail where it names one; no legacy
  title is left; every template that was there and has no legacy title keeps its id, its title, its state, its
  counter and its creation time, and when no definition has its title it is as it was; the badges of the templates that stay are untouched and
  those of the legacy ones are gone; no table but those of the templates, the badges and their hashtags changes; the constraints of
  the database hold; and a second run deletes, inserts and updates nothing.\<close>

theorem seeding_synchronises:
  assumes "db_wf d" "distinct (map pt_title (platform_templates d))" "seed_platform_templates now ids d = Inr (n, d')"
  shows "(\<forall>s\<in>set PLATFORM_TEMPLATES_SEED. \<exists>t\<in>set (platform_templates d'). pt_title t = ts_title s \<and> pt_category t = ts_category s
         \<and> (\<exists>c. pt_canvas_data t = Some c \<and> (c = ts_canvas_data s \<or> json_same c (ts_canvas_data s)))
         \<and> (ts_thumbnail_url s = None \<or> pt_thumbnail_url t = ts_thumbnail_url s))
    \<and> pt_title ` set (platform_templates d') \<inter> set LEGACY_TITLES = {}
    \<and> (\<forall>t\<in>set (platform_templates d). pt_title t \<notin> set LEGACY_TITLES \<longrightarrow> (\<exists>t'\<in>set (platform_templates d').
         pt_id t' = pt_id t \<and> pt_title t' = pt_title t \<and> pt_is_active t' = pt_is_active t
         \<and> pt_total_badges_made t' = pt_total_badges_made t \<and> pt_created_at t' = pt_created_at t))
    \<and> (\<forall>t. pt_title t \<notin> ts_title ` set PLATFORM_TEMPLATES_SEED \<union> set LEGACY_TITLES \<longrightarrow>
         t \<in> set (platform_templates d') \<longleftrightarrow> t \<in> set (platform_templates d))
    \<and> badges d' = filter (\<lambda>b. \<forall>t\<in>set (platform_templates d).
         pt_id t = b_platform_template_id b \<longrightarrow> pt_title t \<notin> set LEGACY_TITLES) (badges d)
    \<and> d' = d\<lparr>platform_templates := platform_templates d', badges := badges d', badge_hashtags := badge_hashtags d'\<rparr>
    \<and> db_wf d' \<and> seed_platform_templates now2 ids2 d' = Inr ((0, 0, 0), d')"
proof -
  let ?d = "delete_templates (legacy (pts d)) d" and ?S = "ts_title ` set PLATFORM_TEMPLATES_SEED"
  have eff: "sync_effect ?S ?d d'" and steps: "\<forall>s\<in>set PLATFORM_TEMPLATES_SEED. \<exists>t\<in>set (pts d'). in_step s t"
    using seeding_effect [OF assms] by blast+
  have wf: "db_wf d'" using seeding_wf [OF assms(1,3)] by simp
  have leg: "legacy (pts d) t \<longleftrightarrow> pt_title t \<in> set LEGACY_TITLES" if "t \<in> set (pts d)" for t
    by (rule legacy_iff [OF assms(2) that])
  have "pt_title t' \<notin> set LEGACY_TITLES" if "t' \<in> set (pts d')" for t'
  proof -
    have "pt_title t' \<in> ?S \<or> (\<exists>t\<in>set (pts ?d). pt_title t = pt_title t')"
      using eff that unfolding sync_effect_def by blast
    then show ?thesis using seed_titles(2) leg by fastforce
  qed
  then have none: "pt_title ` set (pts d') \<inter> set LEGACY_TITLES = {}" by auto
  have dist: "distinct (map pt_title (pts d'))" and uniq: "unique_on pt_id (pts d')"
    using eff by (simp_all add: sync_effect_def)
  have no_legacy: "delete_where (legacy (pts d')) (pts d') = pts d'" "filter (legacy (pts d')) (pts d') = []"
    using none legacy_iff [OF dist] by (auto simp: delete_where_def filter_id_conv filter_empty_conv)
  then have "delete_templates (legacy (pts d')) d' = d'" by (intro delete_templates_none [OF wf])
  then have again: "seed_platform_templates now2 ids2 d' = Inr ((0, 0, 0), d')"
    using sync_templates_same [OF steps dist uniq, of now2 ids2 0 0] no_legacy
    by (simp add: seed_platform_templates_def)
  have "badges d' = badges ?d" by (rule effect_badges [OF eff])
  also have "\<dots> = filter (\<lambda>b. \<forall>t\<in>set (pts d). pt_id t = b_platform_template_id b \<longrightarrow> pt_title t \<notin> set LEGACY_TITLES) (badges d)"
  proof -
    have "b_platform_template_id b \<in> pt_id ` set (filter (legacy (pts d)) (pts d)) \<longleftrightarrow>
        \<not> (\<forall>t\<in>set (pts d). pt_id t = b_platform_template_id b \<longrightarrow> pt_title t \<notin> set LEGACY_TITLES)" for b
      using leg by (simp add: image_iff) metis
    then show ?thesis unfolding delete_templates_badges by (intro filter_cong refl) blast
  qed
  finally have kept: "badges d' = filter (\<lambda>b. \<forall>t\<in>set (pts d). pt_id t = b_platform_template_id b \<longrightarrow>
      pt_title t \<notin> set LEGACY_TITLES) (badges d)" .
  have "t \<in> set (pts d') \<longleftrightarrow> t \<in> set (pts d)" if "pt_title t \<notin> ?S" "pt_title t \<notin> set LEGACY_TITLES" for t
  proof -
    have "t \<in> set (pts d') \<longleftrightarrow> t \<in> set (pts ?d)" using eff that(1) unfolding sync_effect_def by blast
    then show ?thesis using leg that(2) by auto
  qed
  then have same: "\<forall>t. pt_title t \<notin> ?S \<union> set LEGACY_TITLES \<longrightarrow> t \<in> set (pts d') \<longleftrightarrow> t \<in> set (pts d)" by blast
  have sync: "\<forall>s\<in>set PLATFORM_TEMPLATES_SEED. \<exists>t\<in>set (pts d'). pt_title t = ts_title s \<and> pt_category t = ts_category s
         \<and> (\<exists>c. pt_canvas_data t = Some c \<and> (c = ts_canvas_data s \<or> json_same c (ts_canvas_data s)))
         \<and> (ts_thumbnail_url s = None \<or> pt_thumbnail_url t = ts_thumbnail_url s)"
    using steps in_step_row unfolding in_step_def by blast
  have stay: "\<forall>t\<in>set (pts d). pt_title t \<notin> set LEGACY_TITLES \<longrightarrow> (\<exists>t'\<in>set (pts d').
         pt_id t' = pt_id t \<and> pt_title t' = pt_title t \<and> pt_is_active t' = pt_is_active t
         \<and> pt_total_badges_made t' = pt_total_badges_made t \<and> pt_created_at t' = pt_created_at t)"
    using eff leg unfolding sync_effect_def same_row_def by (simp add: delete_where_def)
  have "d' = ?d\<lparr>platform_templates := pts d'\<rparr>" using eff unfolding sync_effect_def by blast
  then have "d' = d\<lparr>platform_templates := pts d', badges := badges d', badge_hashtags := badge_hashtags d'\<rparr>"
    by (rule delete_templates_frame)
  then have frame: "d' = d\<lparr>platform_templates := pts d', badges := badges d', badge_hashtags := badge_hashtags d'\<rparr>" .
  show ?thesis by (intro conjI sync none stay same kept frame wf again)
qed

definition demo_old_db :: database where
  "demo_old_db = demo_badges\<lparr>platform_templates := [demo_template\<lparr>pt_title := ''Dev Summit''\<rparr>]\<rparr>"

lemma demo_old_wf: "db_wf demo_old_db"
  using demo_badges_wf
  by (simp add: demo_old_db_def db_wf_def badges_ok_def templates_ok_def template_ids_def unique_on_def demo_badges_def
      hashtags_ok_def badge_ids_def user_ids_def demo_db_def demo_badge_def demo_draft_def demo_template_def)

lemma demo_seeding_runs: "case seed_platform_templates 5 (\<lambda>i. word_of_nat (100 + i)) demo_old_db of
    Inr (n, d') \<Rightarrow> n = (1, 10, 0) | Inl _ \<Rightarrow> False"
  by code_simp

theorem seeding_synchronises_witness:
  "\<exists>d'. seed_platform_templates 5 (\<lambda>i. word_of_nat (100 + i)) demo_old_db = Inr ((1, 10, 0), d') \<and> badges d' = []
    \<and> seed_platform_templates 9 (\<lambda>i. 0) d' = Inr ((0, 0, 0), d')"
proof -
  obtain d' where d': "seed_platform_templates 5 (\<lambda>i. word_of_nat (100 + i)) demo_old_db = Inr ((1, 10, 0), d')"
    using demo_seeding_runs by (auto split: sum.splits)
  have "distinct (map pt_title (platform_templates demo_old_db))" by (simp add: demo_old_db_def)
  from seeding_synchronises [OF demo_old_wf this d', of 9 "\<lambda>i. 0"] d' show ?thesis
    by (simp add: demo_old_db_def demo_badges_def demo_badge_def demo_draft_def demo_template_def LEGACY_TITLES_def)
qed


text \<open>
  Titles are not unique: of two templates with one legacy title a run deletes the one it read last, and the next run the
  other.
\<close>

definition demo_twice_db :: database where
  "demo_twice_db = demo_old_db\<lparr>platform_templates := [demo_template\<lparr>pt_title := ''Dev Summit''\<rparr>,
     demo_template\<lparr>pt_id := 99, pt_title := ''Dev Summit''\<rparr>]\<rparr>"

theorem repeated_legacy_title_stays:
  "case seed_platform_templates 5 (\<lambda>i. word_of_nat (100 + i)) demo_twice_db of Inl _ \<Rightarrow> False
   | Inr (n, d) \<Rightarrow> n = (1, 10, 0) \<and> ''Dev Summit'' \<in> pt_title ` set (platform_templates d)
       \<and> (case seed_platform_templates 9 (\<lambda>i. 0) d of Inl _ \<Rightarrow> False | Inr (n, d) \<Rightarrow> n = (1, 0, 0))"
  by code_simp

section \<open>Roles\<close>

lemma add_roles_effect:
  assumes "add_roles now ids i names d = Inr d'"
  shows "\<exists>rs. d' = d\<lparr>roles := roles d @ rs\<rparr> \<and> set names \<subseteq> r_name ` set (roles d')
    \<and> r_id ` set rs \<inter> r_id ` set (roles d) = {}"
  using assms
proof (induction names arbitrary: i d)
  case (Cons n names)
  show ?case
  proof (cases "n \<in> r_name ` set (roles d)")
    case True
    with Cons.prems have "add_roles now ids i names d = Inr d'" by simp
    from Cons.IH [OF this] obtain rs where "d' = d\<lparr>roles := roles d @ rs\<rparr>" "set names \<subseteq> r_name ` set (roles d')"
      "r_id ` set rs \<inter> r_id ` set (roles d) = {}" by blast
    with True show ?thesis by (intro exI [of _ rs]) auto
  next
    case False
    let ?r = "\<lparr>r_id = ids i, r_name = n, r_created_at = now\<rparr>"
    let ?d = "d\<lparr>roles := roles d @ [?r]\<rparr>"
    from False Cons.prems have "add_roles now ids (Suc i) names ?d = Inr d'" and new: "ids i \<notin> r_id ` set (roles d)"
      by (auto simp: insert_role_def checked_def split: if_splits)
    from Cons.IH [OF this(1)] obtain rs where "d' = ?d\<lparr>roles := roles ?d @ rs\<rparr>" "set names \<subseteq> r_name ` set (roles d')"
      "r_id ` set rs \<inter> r_id ` set (roles ?d) = {}" by blast
    with new show ?thesis by (intro exI [of _ "?r # rs"]) auto
  qed
qed (auto intro: exI [of _ "[]"])

lemma assign_role_effect:
  assumes "assign_role now ids i rid old us d = Inr d'"
  shows "\<exists>ls. d' = d\<lparr>user_roles := user_roles d @ ls\<rparr> \<and>
    (\<lambda>l. (ur_user_id l, ur_role_id l)) ` set ls = (\<lambda>u. (u_id u, rid)) ` {u \<in> set us. u_id u \<notin> set old}"
  using assms
proof (induction us arbitrary: i d)
  case (Cons u us)
  show ?case
  proof (cases "u_id u \<in> set old")
    case True
    with Cons.prems have "assign_role now ids i rid old us d = Inr d'" by simp
    moreover have "{x \<in> set (u # us). u_id x \<notin> set old} = {x \<in> set us. u_id x \<notin> set old}" using True by auto
    ultimately show ?thesis using Cons.IH by simp
  next
    case False
    let ?l = "\<lparr>ur_id = ids i, ur_user_id = u_id u, ur_role_id = rid, ur_created_at = now\<rparr>"
    let ?d = "d\<lparr>user_roles := user_roles d @ [?l]\<rparr>"
    from False Cons.prems have "assign_role now ids (Suc i) rid old us ?d = Inr d'"
      by (auto simp: insert_user_role_def checked_def split: if_splits)
    from Cons.IH [OF this] obtain ls where "d' = ?d\<lparr>user_roles := user_roles ?d @ ls\<rparr>"
      "(\<lambda>l. (ur_user_id l, ur_role_id l)) ` set ls = (\<lambda>u. (u_id u, rid)) ` {u \<in> set us. u_id u \<notin> set old}" by blast
    moreover have "{x \<in> set (u # us). u_id x \<notin> set old} = insert u {x \<in> set us. u_id x \<notin> set old}" using False by auto
    ultimately show ?thesis by (intro exI [of _ "?l # ls"]) simp
  qed
qed (auto intro: exI [of _ "[]"])

lemma image_restrict: "v \<in> f ` {u \<in> A. f u \<notin> B} \<longleftrightarrow> (\<exists>u\<in>A. f u = v \<and> v \<notin> B)"
  by auto

lemma image_ex: "v \<in> f ` A \<longleftrightarrow> (\<exists>x\<in>A. f x = v)"
  by auto

text \<open>After a run both roles exist, and the administrators are those of before and the listed accounts.\<close>

lemma seed_roles_grants:
  assumes "seed_roles now ids lids emails d = Inr d'" "ur_role_id ` set (user_roles d) \<subseteq> r_id ` set (roles d)"
  shows "set ROLE_SEED \<subseteq> r_name ` set (roles d') \<and> users d' = users d \<and>
    (admin_roles uid d' \<noteq> [] \<longleftrightarrow> admin_roles uid d \<noteq> [] \<or>
      (\<exists>u\<in>set (users d). u_id u = uid \<and> u_email u \<in> set (case emails of None \<Rightarrow> ADMIN_SEED_EMAILS | Some es \<Rightarrow> es)))"
proof -
  let ?es = "case emails of None \<Rightarrow> ADMIN_SEED_EMAILS | Some es \<Rightarrow> es"
  obtain d1 where d1: "add_roles now ids 0 ROLE_SEED d = Inr d1" using assms(1) by (auto simp: seed_roles_def split: sum.splits)
  obtain rs where rs: "d1 = d\<lparr>roles := roles d @ rs\<rparr>" "set ROLE_SEED \<subseteq> r_name ` set (roles d1)"
      "r_id ` set rs \<inter> r_id ` set (roles d) = {}" using add_roles_effect [OF d1] by blast
  then have "''admin'' \<in> r_name ` set (roles d1)" by (simp add: ROLE_SEED_def)
  then obtain a where a: "find (\<lambda>r. r_name r = ''admin'') (roles d1) = Some a"
    by (cases "find (\<lambda>r. r_name r = ''admin'') (roles d1)") (auto simp: find_None_iff)
  then have adm: "a \<in> set (roles d1)" "r_name a = ''admin''" by (auto dest: find_set)
  let ?us = "filter (\<lambda>u. u_email u \<in> set ?es) (users d)"
  let ?old = "map ur_user_id (filter (\<lambda>l. ur_role_id l = r_id a \<and> ur_user_id l \<in> u_id ` set ?us) (user_roles d))"
  have "assign_role now lids 0 (r_id a) ?old ?us d1 = Inr d'"
    using assms(1) d1 a by (simp add: seed_roles_def rs(1))
  then obtain ls where ls: "d' = d1\<lparr>user_roles := user_roles d1 @ ls\<rparr>"
    "(\<lambda>l. (ur_user_id l, ur_role_id l)) ` set ls = (\<lambda>u. (u_id u, r_id a)) ` {u \<in> set ?us. u_id u \<notin> set ?old}"
    using assign_role_effect by blast
  have grant: "admin_roles v d' \<noteq> [] \<longleftrightarrow>
      (\<exists>r\<in>set (roles d1). \<exists>l\<in>set (user_roles d) \<union> set ls. ur_role_id l = r_id r \<and> ur_user_id l = v \<and> r_name r = ''admin'')" for v
    by (simp add: set_admin_roles ls(1) rs(1))
  have old_role: "r \<in> set (roles d)" if "r \<in> set (roles d1)" "l \<in> set (user_roles d)" "ur_role_id l = r_id r" for r l
  proof -
    have "r_id r \<in> r_id ` set (roles d)" using assms(2) that(2,3) by (metis image_subset_iff)
    then show ?thesis using that(1) rs(3) by (auto simp: rs(1))
  qed
  have new_link: "(\<exists>l\<in>set ls. ur_user_id l = v) \<longleftrightarrow> (\<exists>u\<in>set ?us. u_id u = v \<and> v \<notin> set ?old)" for v
  proof -
    have "fst ` (\<lambda>l. (ur_user_id l, ur_role_id l)) ` set ls = fst ` (\<lambda>u. (u_id u, r_id a)) ` {u \<in> set ?us. u_id u \<notin> set ?old}"
      unfolding ls(2) ..
    then have "ur_user_id ` set ls = u_id ` {u \<in> set ?us. u_id u \<notin> set ?old}" by (simp add: image_image)
    then have "v \<in> ur_user_id ` set ls \<longleftrightarrow> v \<in> u_id ` {u \<in> set ?us. u_id u \<notin> set ?old}" by simp
    then show ?thesis
      using image_ex [of v ur_user_id "set ls"] image_restrict [of v u_id "set ?us" "set ?old"] by argo
  qed
  have link_role: "ur_role_id l = r_id a" if "l \<in> set ls" for l
  proof -
    have "(ur_user_id l, ur_role_id l) \<in> (\<lambda>u. (u_id u, r_id a)) ` {u \<in> set ?us. u_id u \<notin> set ?old}"
      unfolding ls(2) [symmetric] using that by blast
    then show ?thesis by blast
  qed
  have "admin_roles uid d' \<noteq> [] \<longleftrightarrow> admin_roles uid d \<noteq> [] \<or> (\<exists>u\<in>set ?us. u_id u = uid)"
  proof
    assume "admin_roles uid d' \<noteq> []"
    then obtain r l where "r \<in> set (roles d1)" "l \<in> set (user_roles d) \<union> set ls" "ur_role_id l = r_id r"
      "ur_user_id l = uid" "r_name r = ''admin''" using grant by blast
    then show "admin_roles uid d \<noteq> [] \<or> (\<exists>u\<in>set ?us. u_id u = uid)"
      using old_role new_link unfolding set_admin_roles by blast
  next
    assume "admin_roles uid d \<noteq> [] \<or> (\<exists>u\<in>set ?us. u_id u = uid)"
    then show "admin_roles uid d' \<noteq> []"
    proof
      assume "admin_roles uid d \<noteq> []"
      then obtain r l where "r \<in> set (roles d1)" "l \<in> set (user_roles d)" "ur_role_id l = r_id r"
        "ur_user_id l = uid" "r_name r = ''admin''" unfolding set_admin_roles rs(1) by auto
      then show ?thesis unfolding grant by blast
    next
      assume u: "\<exists>u\<in>set ?us. u_id u = uid"
      show ?thesis
      proof (cases "uid \<in> set ?old")
        case True
        then show ?thesis using adm unfolding grant by auto
      next
        case False
        with u obtain l where "l \<in> set ls" "ur_user_id l = uid" using new_link by blast
        then show ?thesis using adm link_role unfolding grant by blast
      qed
    qed
  qed
  moreover have "(\<exists>u\<in>set ?us. u_id u = uid) \<longleftrightarrow> (\<exists>u\<in>set (users d). u_id u = uid \<and> u_email u \<in> set ?es)" by auto
  moreover have "users d' = users d" "roles d' = roles d1" by (simp_all add: ls(1) rs(1))
  ultimately show ?thesis using rs(2) by simp
qed


lemma insert_role_wf: "db_wf d \<Longrightarrow> insert_role r d = Inr d' \<Longrightarrow> db_wf d'"
  by (auto simp: insert_role_def db_wf_def roles_ok_def table_simps)

lemma insert_user_role_wf: "db_wf d \<Longrightarrow> insert_user_role l d = Inr d' \<Longrightarrow> db_wf d'"
  by (auto simp: insert_user_role_def db_wf_def roles_ok_def table_simps user_ids_def)

lemma add_roles_wf: "db_wf d \<Longrightarrow> add_roles now ids i names d = Inr d' \<Longrightarrow> db_wf d'"
  by (induction now ids i names d rule: add_roles.induct) (auto split: if_splits sum.splits dest: insert_role_wf)

lemma assign_role_wf: "db_wf d \<Longrightarrow> assign_role now ids i rid old us d = Inr d' \<Longrightarrow> db_wf d'"
  by (induction now ids i rid old us d rule: assign_role.induct)
    (auto split: if_splits sum.splits dest: insert_user_role_wf)

lemma seed_roles_wf:
  assumes "db_wf d" "seed_roles now ids lids emails d = Inr d'"
  shows "db_wf d' \<and> refresh_tokens d' = refresh_tokens d"
proof -
  obtain d1 where d1: "add_roles now ids 0 ROLE_SEED d = Inr d1" using assms(2) by (auto simp: seed_roles_def split: sum.splits)
  then have wf: "db_wf d1" "refresh_tokens d1 = refresh_tokens d"
    using add_roles_wf [OF assms(1)] add_roles_effect [OF d1] by auto
  have "d' = d1 \<or> (\<exists>rid old us. assign_role now lids 0 rid old us d1 = Inr d')"
    using assms(2) d1 by (auto simp: seed_roles_def Let_def split: option.splits)
  then show ?thesis using wf assign_role_wf [OF wf(1)] assign_role_effect by fastforce
qed

end
