(* ===== verification/Site_Routes.thy ===== *)
theory Site_Routes
  imports Http Uploads Notifications
begin

text \<open>
  The handlers of the routers \<open>profile\<close>, \<open>notifications\<close>, \<open>newsletter\<close>, \<open>contact\<close>, \<open>admin\<close> and
  \<open>health\<close> under \<open>app/routers/v1\<close>.
\<close>

section \<open>Profile\<close>

definition get_profile :: "'r env \<Rightarrow> time \<Rightarrow> http_request \<Rightarrow> 'r world \<Rightarrow> http_response \<times> 'r world" where
  "get_profile e now q = as_user e now q (\<lambda>current_user w.
     (ok 200 ''Profile retrieved successfully'' (UserData (UserResponse current_user)), w))"

definition update_user_profile :: "'r env \<Rightarrow> time \<Rightarrow> http_request \<Rightarrow> email_check \<Rightarrow> update_profile_request \<Rightarrow> 'r world \<Rightarrow>
    http_response \<times> 'r world" where
  "update_user_profile e now q ev body = as_user e now q (\<lambda>current_user.
     validated (UpdateProfileRequest ev body) (\<lambda>payload w.
       if up_first_name payload = None \<and> up_last_name payload = None \<and> up_email payload = None \<and> up_role payload = None
       then (error_response (HTTPException 400 ''At least one field must be provided''), w)
       else reply id (\<lambda>u. Inr (ok 200 ''Profile updated successfully'' (UserData (UserResponse u))))
         (update_profile now current_user (up_first_name payload) (up_last_name payload) (up_email payload)
            (up_role payload) w)))"

definition delete_user_profile :: "'r env \<Rightarrow> time \<Rightarrow> http_request \<Rightarrow> 'r world \<Rightarrow> http_response \<times> 'r world" where
  "delete_user_profile e now q = as_user e now q (\<lambda>current_user w.
     (with_cookies (clear_cookies (cfg e))
        (ok 200 ''Your profile has been permanently deleted.'' (DeletedData (u_id current_user))),
      delete_profile e now (u_id current_user) (access_cookie e q) (refresh_cookie e q) w))"

text \<open>\<open>u\<close> is the name drawn for the asset, \<open>read\<close> and \<open>fl\<close> the uploaded file.\<close>

definition upload_profile_photo_endpoint :: "'r env \<Rightarrow> time \<Rightarrow> uuid \<Rightarrow> http_request \<Rightarrow> (nat \<Rightarrow> 'f \<Rightarrow> bytes \<times> 'f) \<Rightarrow> 'f \<Rightarrow>
    'r world \<Rightarrow> http_response \<times> 'r world" where
  "upload_profile_photo_endpoint e now u q read fl = as_user e now q (\<lambda>current_user w.
     (case fst (read_file_with_size_check read MAX_FILE_SIZE fl) of
        Inl err \<Rightarrow> (error_response err, w)
      | Inr content \<Rightarrow> (case validate_image_content content of
          Inl err \<Rightarrow> (error_response err, w)
        | Inr _ \<Rightarrow>
            reply (\<lambda>exc. if exc = CloudinaryUploadError
                then HTTPException 400 ''Failed to upload image to Cloudinary'' else exc)
              (\<lambda>x. Inr (ok 200 ''Profile photo updated successfully'' (UserData (UserResponse x))))
              (update_profile_photo e now u current_user content w))))"

definition remove_profile_photo_endpoint :: "'r env \<Rightarrow> time \<Rightarrow> http_request \<Rightarrow> 'r world \<Rightarrow> http_response \<times> 'r world" where
  "remove_profile_photo_endpoint e now q = as_user e now q (\<lambda>current_user w.
     reply id (\<lambda>x. Inr (ok 200 ''Profile photo removed successfully'' (UserData (UserResponse x))))
       (remove_profile_photo e now current_user w))"

definition change_user_password :: "'r env \<Rightarrow> time \<Rightarrow> bytes \<Rightarrow> http_request \<Rightarrow> change_password_request \<Rightarrow> 'r world \<Rightarrow>
    http_response \<times> 'r world" where
  "change_user_password e now salt q body = as_user e now q (\<lambda>current_user.
     validated (ChangePasswordRequest body) (\<lambda>payload w.
       reply (\<lambda>exc. if exc = InvalidCredentialsError then HTTPException 401 ''Current password is incorrect'' else exc)
         (\<lambda>_. Inr (ok 200 ''Password changed successfully'' NoData))
         (change_password e now salt current_user payload (access_cookie e q) (refresh_cookie e q) w)))"

section \<open>Notifications\<close>

definition on_db :: "('a \<times> database) \<Rightarrow> 'r world \<Rightarrow> 'a \<times> 'r world" where
  "on_db rd w = (fst rd, w\<lparr>db := snd rd\<rparr>)"

definition get_preferences :: "'r env \<Rightarrow> time \<Rightarrow> http_request \<Rightarrow> 'r world \<Rightarrow> http_response \<times> 'r world" where
  "get_preferences e now q = as_user e now q (\<lambda>current_user w.
     (ok 200 ''Notification preferences retrieved successfully.''
        (Preferences (get_notification_preferences (u_id current_user) (db w))), w))"

definition no_updates :: "pref_updates \<Rightarrow> bool" where
  "no_updates u = (pu_email_template_published u = None \<and> pu_email_new_signin u = None
     \<and> pu_notify_badge_creation u = None \<and> pu_notify_daily_digest u = None \<and> pu_notify_weekly_report u = None)"

definition INVALID_PREFERENCE_ERROR :: string where
  "INVALID_PREFERENCE_ERROR = ''Request body must include at least one preference field.''"

definition patch_preferences :: "'r env \<Rightarrow> time \<Rightarrow> uuid \<Rightarrow> http_request \<Rightarrow> pref_updates option \<Rightarrow> 'r world \<Rightarrow>
    http_response \<times> 'r world" where
  "patch_preferences e now pid q payload = as_user e now q (\<lambda>current_user w.
     (case payload of
        None \<Rightarrow> (error_response (HTTPException 400 INVALID_PREFERENCE_ERROR), w)
      | Some updates \<Rightarrow>
          if no_updates updates then (error_response (HTTPException 400 INVALID_PREFERENCE_ERROR), w)
          else reply id (\<lambda>prefs. Inr (ok 200 ''Notification preferences updated successfully.'' (Preferences prefs)))
            (on_db (update_notification_preferences now pid (u_id current_user) updates (db w)) w)))"

definition notifications_link :: "int \<Rightarrow> int \<Rightarrow> string" where
  "notifications_link limit page =
     ''/api/v1/organiser/notifications/list?page='' @ py_str page @ ''&limit='' @ py_str limit"

definition list_user_notifications :: "'r env \<Rightarrow> time \<Rightarrow> http_request \<Rightarrow> int \<Rightarrow> int \<Rightarrow> 'r world \<Rightarrow>
    http_response \<times> 'r world" where
  "list_user_notifications e now q page limit = as_user e now q (\<lambda>current_user.
     validated (page_query page limit) (\<lambda>(page, limit) w.
       (let (notifications, total) = list_notifications (u_id current_user) page limit (db w)
        in (ok 200 ''Notifications retrieved successfully.'' (NotificationPage
             (make_page (notifications_link limit) page limit (map NotificationResponse notifications, total))), w))))"

definition get_unread_notifications_count :: "'r env \<Rightarrow> time \<Rightarrow> http_request \<Rightarrow> 'r world \<Rightarrow> http_response \<times> 'r world" where
  "get_unread_notifications_count e now q = as_user e now q (\<lambda>current_user w.
     (ok 200 ''Unread count retrieved successfully.'' (UnreadCount (get_unread_count (u_id current_user) (db w))), w))"

definition mark_one_read :: "'r env \<Rightarrow> time \<Rightarrow> http_request \<Rightarrow> uuid \<Rightarrow> 'r world \<Rightarrow> http_response \<times> 'r world" where
  "mark_one_read e now q notification_id = as_user e now q (\<lambda>current_user w.
     (let (found, d) = mark_notification_read (u_id current_user) notification_id (db w); w = w\<lparr>db := d\<rparr>
      in (if \<not> found then error_response (HTTPException 404 ''Notification not found.'')
          else ok 200 ''Notification marked as read.'' NoData, w)))"

definition mark_all_read :: "'r env \<Rightarrow> time \<Rightarrow> http_request \<Rightarrow> 'r world \<Rightarrow> http_response \<times> 'r world" where
  "mark_all_read e now q = as_user e now q (\<lambda>current_user w.
     (let (marked, d) = mark_all_notifications_read (u_id current_user) (db w)
      in (ok 200 ''All notifications marked as read.'' (MarkedCount marked), w\<lparr>db := d\<rparr>)))"

section \<open>Newsletter and contact\<close>

text \<open>The address is checked but not normalised.\<close>

definition subscribe_to_newsletter :: "'r env \<Rightarrow> time \<Rightarrow> uuid \<Rightarrow> string \<Rightarrow> (database \<Rightarrow> database) \<Rightarrow> email_check \<Rightarrow> string \<Rightarrow>
    'r world \<Rightarrow> http_response \<times> 'r world" where
  "subscribe_to_newsletter e now sid token race ev email = validated (email_field ev email) (\<lambda>email w.
     reply id
       (\<lambda>(subscriber, created). Inr (ok 200
          (if created then ''You have successfully subscribed to the newsletter.''
           else ''This email address is already subscribed.'')
          (SubscriberData (ns_email subscriber) (ns_subscribed_at subscriber))))
       (subscribe e now sid token race email w))"

definition unsubscribe_from_newsletter :: "time \<Rightarrow> string \<Rightarrow> 'r world \<Rightarrow> http_response \<times> 'r world" where
  "unsubscribe_from_newsletter now token w =
     (let (found, w) = unsubscribe now token w
      in (if \<not> found then error_response (HTTPException 404 ''Unsubscribe token not found.'')
          else ok 200 ''You have been unsubscribed from the newsletter.'' NoData, w))"

definition list_contact_subjects :: "'r world \<Rightarrow> http_response \<times> 'r world" where
  "list_contact_subjects w =
     (ok 200 ''Contact subject options retrieved successfully'' (SubjectOptions get_contact_subjects), w)"

definition contact_us :: "'r env \<Rightarrow> time \<Rightarrow> (nat \<Rightarrow> nat) \<Rightarrow> email_check \<Rightarrow> contact_request \<Rightarrow> 'r world \<Rightarrow>
    http_response \<times> 'r world" where
  "contact_us e now choice ev body = validated (ContactRequest ev body) (\<lambda>payload w.
     reply (\<lambda>exc. if exc = EmailDeliveryError
         then HTTPException 502 (''We could not deliver your message due to an email service error. ''
           @ ''Please try again or email us directly at '' @ CONTACT_RECIPIENT_EMAIL (cfg e) @ ''.'')
         else exc)
       (\<lambda>reference_id. Inr (ok 201 ''Thanks for reaching out! We'll get back to you within one business day.''
          (ContactData reference_id (cr_email payload))))
       (submit_contact_form e now choice payload w))"

section \<open>Administration\<close>

definition template_not_found :: app_error where
  "template_not_found = HTTPException 404 ''Platform template not found.''"

definition create_template :: "'r env \<Rightarrow> time \<Rightarrow> uuid \<Rightarrow> http_request \<Rightarrow> template_request \<Rightarrow> 'r world \<Rightarrow>
    http_response \<times> 'r world" where
  "create_template e now tid q body = as_admin e now q (validated (CreatePlatformTemplateRequest body) (\<lambda>payload w.
     reply id (\<lambda>t. Inr (ok 201 ''Platform template created successfully.'' (AdminTemplate (AdminTemplateResponse t))))
       (create_platform_template now tid (or_else (tr_title payload) []) (or_else (tr_category payload) [])
          (tr_canvas_data payload) (tr_thumbnail_url payload) (or_else (tr_is_active payload) True) w)))"

definition update_template :: "'r env \<Rightarrow> time \<Rightarrow> http_request \<Rightarrow> uuid \<Rightarrow> template_request \<Rightarrow> 'r world \<Rightarrow>
    http_response \<times> 'r world" where
  "update_template e now q template_id body = as_admin e now q (validated (UpdatePlatformTemplateRequest body) (\<lambda>payload w.
     (case admin_get_platform_template template_id (db w) of
        None \<Rightarrow> (error_response template_not_found, w)
      | Some template \<Rightarrow>
          reply id (\<lambda>t. Inr (ok 200 ''Platform template updated successfully.'' (AdminTemplate (AdminTemplateResponse t))))
            (admin_update_platform_template now template payload w))))"

definition delete_template :: "'r env \<Rightarrow> time \<Rightarrow> http_request \<Rightarrow> uuid \<Rightarrow> 'r world \<Rightarrow> http_response \<times> 'r world" where
  "delete_template e now q template_id = as_admin e now q (\<lambda>w.
     (case admin_get_platform_template template_id (db w) of
        None \<Rightarrow> (error_response template_not_found, w)
      | Some template \<Rightarrow> (ok 200 ''Platform template deleted successfully.'' NoData,
          admin_delete_platform_template template w)))"

definition admin_list_query :: "int \<Rightarrow> int \<Rightarrow> app_error + int \<times> int" where
  "admin_list_query limit offset =
     (let errs = query_range ''limit'' 1 (Some 200) limit @ query_range ''offset'' 0 None offset
      in if errs \<noteq> [] then Inl (RequestValidationError errs) else Inr (limit, offset))"

definition admin_list_templates :: "'r env \<Rightarrow> time \<Rightarrow> http_request \<Rightarrow> string option \<Rightarrow> int \<Rightarrow> int \<Rightarrow> 'r world \<Rightarrow>
    http_response \<times> 'r world" where
  "admin_list_templates e now q category limit offset = as_admin e now q (validated (admin_list_query limit offset)
     (\<lambda>(limit, offset) w. (ok 200 ''Platform templates retrieved successfully.'' (AdminTemplates
        (map AdminTemplateResponse (admin_list_platform_templates category limit offset (db w)))), w)))"

definition admin_get_template :: "'r env \<Rightarrow> time \<Rightarrow> http_request \<Rightarrow> uuid \<Rightarrow> 'r world \<Rightarrow> http_response \<times> 'r world" where
  "admin_get_template e now q template_id = as_admin e now q (\<lambda>w.
     (case admin_get_platform_template template_id (db w) of
        None \<Rightarrow> error_response template_not_found
      | Some t \<Rightarrow> ok 200 ''Platform template retrieved successfully.'' (AdminTemplate (AdminTemplateResponse t)), w))"

section \<open>Health\<close>

definition health :: "'r world \<Rightarrow> http_response \<times> 'r world" where
  "health w = (ok 200 ''ok'' NoData, w)"

end
