(* ===== verification/Api.thy ===== *)
theory Api
  imports Auth_Routes Badge_Routes Site_Routes Seeder
begin

text \<open>
  The whole interface: one constructor per route of \<open>app/routers/v1\<close>, with what the client sends and what
  the handler draws at random, and the function that dispatches a call.  Requests are handled one after
  another; the mail check, Google's interface, the collation of the database and the environment are
  parameters.
\<close>

datatype (plugins only: code size) api_call =
    Health
  | Me
  | Register signup_draws signup_request
  | ResendVerification string string
  | ResetPassword bytes string string string
  | Login session_draws string string
  | Refresh session_draws
  | Logout
  | ForgotPassword string string
  | VerifyEmail session_draws string
  | GoogleLogin string
  | GoogleCallback uuid uuid session_draws string string
  | ListSessions int int
  | LogoutAll
  | GetProfile
  | UpdateProfile update_profile_request
  | DeleteProfile
  | UploadPhoto uuid bytes
  | RemovePhoto
  | ChangePassword bytes change_password_request
  | GetPreferences
  | PatchPreferences uuid "pref_updates option"
  | ListNotifications int int
  | UnreadNotifications
  | MarkOneRead uuid
  | MarkAllRead
  | CreateInstance uuid uuid
  | ListInstances int int
  | GetAnalytics
  | GetBadge uuid
  | Publish "nat \<Rightarrow> nat" uuid
  | Unpublish uuid
  | Duplicate uuid "nat \<Rightarrow> uuid" uuid
  | RemoveBadge uuid
  | UpdateBadge "nat \<Rightarrow> uuid" uuid badge_updates "string list option option"
  | UploadLogo uuid uuid "string option" bytes
  | ParticipantPage string "string option"
  | IncrementCreation uuid string
  | IncrementShare string
  | ListGallery "string option" int int
  | GetGalleryTemplate uuid
  | Subscribe uuid string string
  | Unsubscribe string
  | ContactSubjects
  | ContactUs "nat \<Rightarrow> nat" contact_request
  | CreateTemplate uuid template_request
  | UpdateTemplate uuid template_request
  | DeleteTemplate uuid
  | AdminListTemplates "string option" int int
  | AdminGetTemplate uuid

record site =
  st_google :: google_api
  st_email :: email_check
  st_collation :: "string \<Rightarrow> string"

primrec api :: "'r env \<Rightarrow> site \<Rightarrow> time \<Rightarrow> http_request \<Rightarrow> api_call \<Rightarrow> 'r world \<Rightarrow> http_response \<times> 'r world" where
  "api e s now q Health = health"
| "api e s now q Me = get_current_user_profile e now q"
| "api e s now q (Register dr body) = register e now dr (\<lambda>d. d) (st_email s) body"
| "api e s now q (ResendVerification raw email) = resend_verification e now raw (st_email s) email"
| "api e s now q (ResetPassword salt tok p c) = reset_organizer_password e now salt tok p c"
| "api e s now q (Login dr email p) = login e now dr (st_email s) q email p"
| "api e s now q (Refresh dr) = refresh e now dr q"
| "api e s now q Logout = logout e now q"
| "api e s now q (ForgotPassword raw email) = forgot_password e now raw (st_email s) email"
| "api e s now q (VerifyEmail dr tok) = verify_email e now dr q tok"
| "api e s now q (GoogleLogin state) = google_login e now state"
| "api e s now q (GoogleCallback uid pid dr code state) = google_callback e (st_google s) now uid pid dr q code state"
| "api e s now q (ListSessions p l) = list_sessions e now q p l"
| "api e s now q LogoutAll = logout_all e now q"
| "api e s now q GetProfile = get_profile e now q"
| "api e s now q (UpdateProfile body) = update_user_profile e now q (st_email s) body"
| "api e s now q DeleteProfile = delete_user_profile e now q"
| "api e s now q (UploadPhoto u content) = upload_profile_photo_endpoint e now u q file_read content"
| "api e s now q RemovePhoto = remove_profile_photo_endpoint e now q"
| "api e s now q (ChangePassword salt body) = change_user_password e now salt q body"
| "api e s now q GetPreferences = get_preferences e now q"
| "api e s now q (PatchPreferences pid body) = patch_preferences e now pid q body"
| "api e s now q (ListNotifications p l) = list_user_notifications e now q p l"
| "api e s now q UnreadNotifications = get_unread_notifications_count e now q"
| "api e s now q (MarkOneRead nid) = mark_one_read e now q nid"
| "api e s now q MarkAllRead = mark_all_read e now q"
| "api e s now q (CreateInstance bid tid) = create_instance e now bid q tid"
| "api e s now q (ListInstances p l) = list_instances e now q p l"
| "api e s now q GetAnalytics = get_analytics e now q"
| "api e s now q (GetBadge bid) = get_single_badge e now q bid"
| "api e s now q (Publish choice bid) = publish e now choice q bid"
| "api e s now q (Unpublish bid) = unpublish e now q bid"
| "api e s now q (Duplicate new_id ids bid) = duplicate e now new_id ids q bid"
| "api e s now q (RemoveBadge bid) = remove_badge e now q bid"
| "api e s now q (UpdateBadge ids bid body tags) = update_badge e now ids q bid body tags"
| "api e s now q (UploadLogo u bid ct content) = upload_logo_route e now u q bid ct content"
| "api e s now q (ParticipantPage slug code) = get_participant_page slug code"
| "api e s now q (IncrementCreation nid slug) = increment_creation now nid slug"
| "api e s now q (IncrementShare slug) = increment_share now slug"
| "api e s now q (ListGallery c p l) = list_templates (st_collation s) c p l"
| "api e s now q (GetGalleryTemplate tid) = get_template_page tid"
| "api e s now q (Subscribe sid tok email) = subscribe_to_newsletter e now sid tok (\<lambda>d. d) (st_email s) email"
| "api e s now q (Unsubscribe tok) = unsubscribe_from_newsletter now tok"
| "api e s now q ContactSubjects = list_contact_subjects"
| "api e s now q (ContactUs choice body) = contact_us e now choice (st_email s) body"
| "api e s now q (CreateTemplate tid body) = create_template e now tid q body"
| "api e s now q (UpdateTemplate tid body) = update_template e now q tid body"
| "api e s now q (DeleteTemplate tid) = delete_template e now q tid"
| "api e s now q (AdminListTemplates c l off) = admin_list_templates e now q c l off"
| "api e s now q (AdminGetTemplate tid) = admin_get_template e now q tid"

section \<open>Who may call what\<close>

datatype gate = Public | Organiser | Administrator

primrec gate_of :: "api_call \<Rightarrow> gate" where
  "gate_of Health = Public"
| "gate_of Me = Organiser"
| "gate_of (Register a b) = Public"
| "gate_of (ResendVerification a b) = Public"
| "gate_of (ResetPassword a b c d) = Public"
| "gate_of (Login a b c) = Public"
| "gate_of (Refresh a) = Public"
| "gate_of Logout = Public"
| "gate_of (ForgotPassword a b) = Public"
| "gate_of (VerifyEmail a b) = Public"
| "gate_of (GoogleLogin a) = Public"
| "gate_of (GoogleCallback a b c d e) = Public"
| "gate_of (ListSessions a b) = Organiser"
| "gate_of LogoutAll = Organiser"
| "gate_of GetProfile = Organiser"
| "gate_of (UpdateProfile a) = Organiser"
| "gate_of DeleteProfile = Organiser"
| "gate_of (UploadPhoto a b) = Organiser"
| "gate_of RemovePhoto = Organiser"
| "gate_of (ChangePassword a b) = Organiser"
| "gate_of GetPreferences = Organiser"
| "gate_of (PatchPreferences a b) = Organiser"
| "gate_of (ListNotifications a b) = Organiser"
| "gate_of UnreadNotifications = Organiser"
| "gate_of (MarkOneRead a) = Organiser"
| "gate_of MarkAllRead = Organiser"
| "gate_of (CreateInstance a b) = Organiser"
| "gate_of (ListInstances a b) = Organiser"
| "gate_of GetAnalytics = Organiser"
| "gate_of (GetBadge a) = Organiser"
| "gate_of (Publish a b) = Organiser"
| "gate_of (Unpublish a) = Organiser"
| "gate_of (Duplicate a b c) = Organiser"
| "gate_of (RemoveBadge a) = Organiser"
| "gate_of (UpdateBadge a b c d) = Organiser"
| "gate_of (UploadLogo a b c d) = Organiser"
| "gate_of (ParticipantPage a b) = Public"
| "gate_of (IncrementCreation a b) = Public"
| "gate_of (IncrementShare a) = Public"
| "gate_of (ListGallery a b c) = Public"
| "gate_of (GetGalleryTemplate a) = Public"
| "gate_of (Subscribe a b c) = Public"
| "gate_of (Unsubscribe a) = Public"
| "gate_of ContactSubjects = Public"
| "gate_of (ContactUs a b) = Public"
| "gate_of (CreateTemplate a b) = Administrator"
| "gate_of (UpdateTemplate a b) = Administrator"
| "gate_of (DeleteTemplate a) = Administrator"
| "gate_of (AdminListTemplates a b c) = Administrator"
| "gate_of (AdminGetTemplate a) = Administrator"

text \<open>The family a call may open a session with.\<close>

primrec drawn_family :: "api_call \<Rightarrow> uuid option" where
  "drawn_family Health = None"
| "drawn_family Me = None"
| "drawn_family (Register a b) = None"
| "drawn_family (ResendVerification a b) = None"
| "drawn_family (ResetPassword a b c d) = None"
| "drawn_family (Login a b c) = Some (se_family a)"
| "drawn_family (Refresh a) = None"
| "drawn_family Logout = None"
| "drawn_family (ForgotPassword a b) = None"
| "drawn_family (VerifyEmail a b) = Some (se_family a)"
| "drawn_family (GoogleLogin a) = None"
| "drawn_family (GoogleCallback a b c d e) = Some (se_family c)"
| "drawn_family (ListSessions a b) = None"
| "drawn_family LogoutAll = None"
| "drawn_family GetProfile = None"
| "drawn_family (UpdateProfile a) = None"
| "drawn_family DeleteProfile = None"
| "drawn_family (UploadPhoto a b) = None"
| "drawn_family RemovePhoto = None"
| "drawn_family (ChangePassword a b) = None"
| "drawn_family GetPreferences = None"
| "drawn_family (PatchPreferences a b) = None"
| "drawn_family (ListNotifications a b) = None"
| "drawn_family UnreadNotifications = None"
| "drawn_family (MarkOneRead a) = None"
| "drawn_family MarkAllRead = None"
| "drawn_family (CreateInstance a b) = None"
| "drawn_family (ListInstances a b) = None"
| "drawn_family GetAnalytics = None"
| "drawn_family (GetBadge a) = None"
| "drawn_family (Publish a b) = None"
| "drawn_family (Unpublish a) = None"
| "drawn_family (Duplicate a b c) = None"
| "drawn_family (RemoveBadge a) = None"
| "drawn_family (UpdateBadge a b c d) = None"
| "drawn_family (UploadLogo a b c d) = None"
| "drawn_family (ParticipantPage a b) = None"
| "drawn_family (IncrementCreation a b) = None"
| "drawn_family (IncrementShare a) = None"
| "drawn_family (ListGallery a b c) = None"
| "drawn_family (GetGalleryTemplate a) = None"
| "drawn_family (Subscribe a b c) = None"
| "drawn_family (Unsubscribe a) = None"
| "drawn_family ContactSubjects = None"
| "drawn_family (ContactUs a b) = None"
| "drawn_family (CreateTemplate a b) = None"
| "drawn_family (UpdateTemplate a b) = None"
| "drawn_family (DeleteTemplate a) = None"
| "drawn_family (AdminListTemplates a b c) = None"
| "drawn_family (AdminGetTemplate a) = None"

text \<open>
  A step of the service: a call whose draws are fresh, a digest job, or a run of the seeder.
\<close>

inductive api_step :: "'r env \<Rightarrow> site \<Rightarrow> uuid set \<Rightarrow> 'r world \<Rightarrow> 'r world \<Rightarrow> bool"
  for e :: "'r env" and s :: site and F :: "uuid set" where
  call: "\<forall>f. drawn_family c = Some f \<longrightarrow> f \<in> F \<and> f \<notin> rt_family_id ` set (refresh_tokens (db w)) \<Longrightarrow>
    api_step e s F w (snd (api e s now q c w))"
| daily: "send_daily_digests now ids (db w) = (r, d) \<Longrightarrow> api_step e s F w (w\<lparr>db := d\<rparr>)"
| weekly: "send_weekly_reports now ids (db w) = (r, d) \<Longrightarrow> api_step e s F w (w\<lparr>db := d\<rparr>)"
| roles: "seed_roles now ids lids emails (db w) = Inr d \<Longrightarrow> api_step e s F w (w\<lparr>db := d\<rparr>)"
| templates: "seed_platform_templates now ids (db w) = Inr (n, d) \<Longrightarrow> api_step e s F w (w\<lparr>db := d\<rparr>)"

inductive_cases api_stepE: "api_step e s F w w'"

abbreviation api_run :: "'r env \<Rightarrow> site \<Rightarrow> uuid set \<Rightarrow> 'r world \<Rightarrow> 'r world \<Rightarrow> bool" where
  "api_run e s F \<equiv> (api_step e s F)\<^sup>*\<^sup>*"

end
