(* ===== verification/Api_Facts.thy ===== *)
theory Api_Facts
  imports Api Profile_Facts Notification_Facts Outreach_Facts Seeder_Facts
begin

text \<open>
  The interface as a whole: every call keeps the database well formed and moves the sessions only as the
  abstract session machine does.
\<close>

section \<open>What the services do to the sessions\<close>

named_theorems token_frames \<open>changes that leave the sessions alone\<close>

lemma insert_tokens [token_frames]:
  "insert_user u d = Inr d' \<Longrightarrow> refresh_tokens d' = refresh_tokens d"
  "insert_auth_provider a d = Inr d' \<Longrightarrow> refresh_tokens d' = refresh_tokens d"
  "insert_badge b d = Inr d' \<Longrightarrow> refresh_tokens d' = refresh_tokens d"
  "insert_hashtag h d = Inr d' \<Longrightarrow> refresh_tokens d' = refresh_tokens d"
  "insert_template t d = Inr d' \<Longrightarrow> refresh_tokens d' = refresh_tokens d"
  "insert_notification n d = Inr d' \<Longrightarrow> refresh_tokens d' = refresh_tokens d"
  "insert_subscriber s d = Inr d' \<Longrightarrow> refresh_tokens d' = refresh_tokens d"
  by (auto simp: insert_user_def insert_auth_provider_def insert_badge_def insert_hashtag_def insert_template_def
      insert_notification_def insert_subscriber_def)

lemma save_tokens [token_frames]:
  "save_user now uid f d = Inr d' \<Longrightarrow> refresh_tokens d' = refresh_tokens d"
  "save_badge now bid g d = Inr d' \<Longrightarrow> refresh_tokens d' = refresh_tokens d"
  "save_template now tid h d = Inr d' \<Longrightarrow> refresh_tokens d' = refresh_tokens d"
  "save_subscriber sid k d = Inr d' \<Longrightarrow> refresh_tokens d' = refresh_tokens d"
  by (auto simp: save_user_def save_badge_def save_template_def save_subscriber_def Let_def split: if_splits)

lemma insert_hashtags_tokens [token_frames]:
  "insert_hashtags ids i bid ts d = Inr d' \<Longrightarrow> refresh_tokens d' = refresh_tokens d"
  by (induction ids i bid ts d rule: insert_hashtags.induct) (auto split: sum.splits dest: insert_tokens)

lemma increment_template_tokens [simp]:
  "refresh_tokens (increment_template_badge_count now t d) = refresh_tokens d"
  by (simp add: increment_template_badge_count_def)

lemma create_notification_tokens [token_frames]:
  "create_notification now nid u ty ti bo ex d = Inr (v, d') \<Longrightarrow> refresh_tokens d' = refresh_tokens d"
  by (auto simp: create_notification_def Let_def split: if_splits sum.splits dest: insert_tokens)

lemma badge_tokens:
  "refresh_tokens (db (snd (create_badge now bid org t w))) = refresh_tokens (db w)"
  "refresh_tokens (db (snd (publish_badge now choice org bid w))) = refresh_tokens (db w)"
  "refresh_tokens (db (snd (unpublish_badge now org bid w))) = refresh_tokens (db w)"
  "refresh_tokens (db (snd (increment_badge_share_count now slug w))) = refresh_tokens (db w)"
  "refresh_tokens (db (snd (increment_badge_creation_count now nid slug w))) = refresh_tokens (db w)"
  "refresh_tokens (db (snd (duplicate_badge now new_id ids org bid w))) = refresh_tokens (db w)"
  "refresh_tokens (db (snd (edit_badge now ids org bid upd tags flag w))) = refresh_tokens (db w)"
  by (simp_all add: create_badge_def publish_badge_def unpublish_badge_def increment_badge_share_count_def
      increment_badge_creation_count_def duplicate_badge_def edit_badge_def Let_def insert_hashtags_tokens
      del: insert_hashtags.simps split: option.split sum.split prod.split)
    (auto dest!: token_frames)


section \<open>Refinement of the session machine\<close>

text \<open>
  What a step of the service owes: it keeps the database well formed, and its effect on the refresh tokens is
  a sequence of moves of the abstract session machine in which new families come from \<open>F\<close> and
  every new hash is the hash of a token.
\<close>

definition refines :: "'r env \<Rightarrow> uuid set \<Rightarrow> 'r world \<Rightarrow> 'r world \<Rightarrow> bool" where
  "refines e F w w' = (db_wf (db w) \<longrightarrow> db_wf (db w') \<and>
     (token_step F (range (hash_token e)))\<^sup>*\<^sup>* (refresh_tokens (db w)) (refresh_tokens (db w')))"

named_theorems refining \<open>services that refine the session machine\<close>

lemma refines_refl [simp, intro]: "refines e F w w"
  by (simp add: refines_def)

lemma refines_trans: "refines e F w w1 \<Longrightarrow> refines e F w1 w2 \<Longrightarrow> refines e F w w2"
  by (auto simp: refines_def)

lemma refines_frame: "db w' = db w \<Longrightarrow> refines e F w w'"
  by (simp add: refines_def)

lemma refines_db: "refines e F w w' \<Longrightarrow> db w'' = db w' \<Longrightarrow> refines e F w w''"
  by (simp add: refines_def)

lemma refines_tables:
  "(db_wf (db w) \<Longrightarrow> db_wf (db w')) \<Longrightarrow> (db_wf (db w) \<Longrightarrow> refresh_tokens (db w') = refresh_tokens (db w)) \<Longrightarrow>
    refines e F w w'"
  by (simp add: refines_def)

lemma refines_step:
  "(db_wf (db w) \<Longrightarrow> db_wf (db w')) \<Longrightarrow>
    (db_wf (db w) \<Longrightarrow> token_step F (range (hash_token e)) (refresh_tokens (db w)) (refresh_tokens (db w'))) \<Longrightarrow> refines e F w w'"
  by (auto simp: refines_def)

text \<open>Opening a session with a fresh family.\<close>

lemma refines_open:
  assumes "insert_refresh_token t (db w) = Inr (db w')" "rt_family_id t \<in> F"
    "rt_family_id t \<notin> rt_family_id ` set (refresh_tokens (db w))" "rt_token_hash t \<in> range (hash_token e)"
  shows "refines e F w w'"
proof (rule refines_step)
  show "db_wf (db w) \<Longrightarrow> db_wf (db w')" using insert_refresh_token_wf [OF _ assms(1)] .
  show "token_step F (range (hash_token e)) (refresh_tokens (db w)) (refresh_tokens (db w'))"
    unfolding insert_refresh_token_tokens [OF assms(1)] by (rule token_step.start [OF assms(3,2,4)])
qed

lemma refines_save_user:
  "save_user now uid f (db w) = Inr (db w') \<Longrightarrow> (\<And>u. u_id (f u) = u_id u) \<Longrightarrow> refines e F w w'"
  by (rule refines_tables) (auto intro: save_user_wf dest: save_tokens)

section \<open>Sessions\<close>

lemma signup_refines [refining]: "refines e F w (snd (signup e now dr (\<lambda>d. d) p w))"
proof (rule refines_tables)
  show "db_wf (db w) \<Longrightarrow> db_wf (db (snd (signup e now dr (\<lambda>d. d) p w)))" by (rule signup_wf)
  show "refresh_tokens (db (snd (signup e now dr (\<lambda>d. d) p w))) = refresh_tokens (db w)"
    by (rule signup_cases [of p w e now dr "\<lambda>d. d"]) (auto dest!: insert_tokens)
qed

lemma signin_refines [refining]:
  assumes "se_family dr \<in> F" "se_family dr \<notin> rt_family_id ` set (refresh_tokens (db w))"
  shows "refines e F w (snd (signin e now dr m p q w))"
  using assms by (intro refines_step signin_wf signin_token_step) auto

lemma refresh_refines [refining]: "refines e F w (snd (refresh_session e now dr raw a q w))"
  by (intro refines_step refresh_wf refresh_token_step) auto

lemma logout_refines [refining]: "refines e F w (logout_session e now raw a w)"
  by (intro refines_step logout_wf logout_token_step)

lemma revoke_all_refines [refining]: "refines e F w (snd (revoke_all_user_sessions e now u a w))"
  by (intro refines_step revoke_all_wf revoke_all_token_step)

lemma reset_refines [refining]: "refines e F w (snd (reset_password e now salt tok p w))"
  by (intro refines_step reset_password_wf reset_password_token_step)


section \<open>Google and verification\<close>

lemma upsert_google_user_tokens [token_frames]:
  assumes "db_wf d" "upsert_google_user now uid pid info d = Inr (r, d')"
  shows "refresh_tokens d' = refresh_tokens d"
proof -
  obtain u new where r: "r = (u, new)" by (cases r)
  show ?thesis
    using upsert_google_user_cases [OF assms(1) assms(2) [unfolded r]]
    by cases (auto simp: add_google_provider_def dest!: token_frames)
qed


lemma authenticate_google_refines:
  "authenticate_with_google e g now uid pid code state w = (r, w') \<Longrightarrow> db_wf (db w) \<Longrightarrow>
     db_wf (db w') \<and> refresh_tokens (db w') = refresh_tokens (db w)"
  by (auto simp: authenticate_with_google_def Let_def split: prod.splits if_splits sum.splits
      dest: upsert_google_user_wf upsert_google_user_tokens)

lemma take_verification_db: "db (snd (take_verification e now tok w)) = db w"
  by (simp add: take_verification_def Let_def split: option.split list.split sum.split prod.split)

lemma new_session_simps [simp]:
  "rt_family_id (new_session e now dr q u) = se_family dr" "rt_user_id (new_session e now dr q u) = u_id u"
  "rt_token_hash (new_session e now dr q u) = hash_token e (fst (create_refresh_token e now (se_refresh_jti dr) (u_id u)))"
  "\<not> rt_is_revoked (new_session e now dr q u)"
  by (simp_all add: new_session_def new_refresh_token_def split: prod.split)

lemma verify_email_refines [refining]:
  assumes "se_family dr \<in> F" "se_family dr \<notin> rt_family_id ` set (refresh_tokens (db w))"
  shows "refines e F w (snd (verify_email e now dr q tok w))"
proof -
  obtain r w1 where t: "take_verification e now tok w = (r, w1)" by (meson surj_pair)
  then have w1: "db w1 = db w" using take_verification_db [of e now tok w] by simp
  have opened: "refines e F w w2"
    if m: "mark_verified now (u_id u) (db w) = Inr d" and i: "insert_refresh_token (new_session e now dr q u) d = Inr (db w2)"
    for u d w2
  proof -
    have "refines e F w (w\<lparr>db := d\<rparr>)"
      by (rule refines_save_user [of now "u_id u" "u_is_email_verified_update (\<lambda>_. True)"])
        (simp_all add: m [unfolded mark_verified_def])
    moreover have "refines e F (w\<lparr>db := d\<rparr>) w2"
      using i assms save_tokens(1) [OF m [unfolded mark_verified_def]]
      by (intro refines_open [where t = "new_session e now dr q u"]) auto
    ultimately show ?thesis by (rule refines_trans)
  qed
  show ?thesis
  proof (cases r)
    case (Inl err)
    then show ?thesis using t w1 by (simp add: verify_email_def refines_frame)
  next
    case (Inr u)
    then show ?thesis
      using t w1 opened by (auto simp: verify_email_def refines_frame split: sum.split)
  qed
qed

lemma google_callback_refines [refining]:
  assumes "se_family dr \<in> F" "se_family dr \<notin> rt_family_id ` set (refresh_tokens (db w))"
  shows "refines e F w (snd (google_callback e g now uid pid dr q code state w))"
proof -
  obtain r w1 where a: "authenticate_with_google e g now uid pid code state w = (r, w1)" by (meson surj_pair)
  have r1: "refines e F w w1" using authenticate_google_refines [OF a] by (intro refines_tables) auto
  have opened: "refines e F w w2"
    if i: "insert_refresh_token (new_session e now dr q u) (db w1) = Inr (db w2)" for u w2
  proof (cases "db_wf (db w)")
    case True
    then have "refines e F w1 w2"
      using i assms authenticate_google_refines [OF a] by (intro refines_open [where t = "new_session e now dr q u"]) auto
    with r1 show ?thesis by (rule refines_trans)
  qed (simp add: refines_def)
  show ?thesis
  proof (cases r)
    case (Inl err)
    then show ?thesis using a r1 by (cases err) (simp_all add: google_callback_def)
  next
    case (Inr un)
    obtain u new where "un = (u, new)" by (cases un)
    then show ?thesis
      using Inr a r1 opened by (auto simp: google_callback_def Let_def split: sum.split)
  qed
qed


section \<open>Profile\<close>

lemma profile_refines [refining]:
  "refines e F w (snd (update_profile now u a b c r w))"
  "refines e F w (snd (update_profile_photo e now dr u img w))"
  "refines e F w (snd (remove_profile_photo e now u w))"
  by (intro refines_tables update_profile_wf update_profile_photo_wf remove_profile_photo_wf; assumption?;
      auto simp: update_profile_def update_profile_photo_def remove_profile_photo_def Let_def
        dest!: upload_logo_db save_tokens split: sum.split prod.split)+

lemma delete_user_tokens:
  "refresh_tokens (delete_user uid d) = delete_where (\<lambda>t. rt_user_id t = uid) (refresh_tokens d)"
  by (simp add: delete_user_def delete_badges_def Let_def)

lemma delete_profile_refines [refining]: "refines e F w (delete_profile e now uid a r w)"
proof -
  obtain w1 where w1: "delete_profile e now uid a r w = logout_session e now r a w1" "db w1 = delete_user uid (db w)"
    using delete_profile_db [of e now uid a r w] by metis
  have "refines e F w w1"
    by (intro refines_step) (simp_all add: w1(2) delete_user_wf delete_user_tokens token_step.drop)
  then show ?thesis unfolding w1(1) by (rule refines_trans) (rule logout_refines)
qed

lemma change_password_refines [refining]: "refines e F w (snd (change_password e now salt u p a r w))"
proof -
  have "refines e F w (logout_session e now r a (w\<lparr>db := d\<rparr>))"
    if "save_user now (u_id u) (u_password_hash_update (\<lambda>_. Some h)) (db w) = Inr d" for h d
  proof (rule refines_trans [OF _ logout_refines])
    show "refines e F w (w\<lparr>db := d\<rparr>)"
      by (rule refines_save_user [of now "u_id u" "u_password_hash_update (\<lambda>_. Some h)"]) (simp_all add: that)
  qed
  then show ?thesis by (auto simp: change_password_def split: sum.split)
qed

section \<open>Badges, notifications, newsletter, contact and templates\<close>

lemma badge_refines [refining]:
  "refines e F w (snd (create_badge now bid org t w))"
  "refines e F w (snd (publish_badge now choice org bid w))"
  "refines e F w (snd (unpublish_badge now org bid w))"
  "refines e F w (snd (increment_badge_share_count now slug w))"
  "refines e F w (snd (increment_badge_creation_count now nid slug w))"
  "refines e F w (snd (duplicate_badge now new_id ids org bid w))"
  "refines e F w (snd (edit_badge now ids org bid upd tags flag w))"
  by (rule refines_tables; simp add: badge_tokens create_badge_wf publish_wf unpublish_wf duplicate_badge_wf edit_badge_wf
      increment_badge_share_count_wf increment_badge_creation_count_wf)+

lemma upload_badge_logo_refines [refining]: "refines e F w (snd (upload_badge_logo e now u bid org img w))"
proof (rule refines_tables [OF upload_badge_logo_wf])
  show "refresh_tokens (db (snd (upload_badge_logo e now u bid org img w))) = refresh_tokens (db w)"
    using upload_badge_logo_db [of e now u bid org img w] save_tokens(2) by metis
qed

lemma delete_badge_refines [refining]: "refines e F w (snd (delete_badge e now org bid w))"
  by (rule refines_tables [OF delete_badge_wf])
    (auto simp: delete_badge_def Let_def dest!: save_tokens split: option.split sum.split list.split)

lemma preference_refines [refining]:
  "refines e F w (w\<lparr>db := snd (update_notification_preferences now pid u upd (db w))\<rparr>)"
  by (rule refines_tables, simp add: update_notification_preferences_wf)
    (simp add: update_notification_preferences_def Let_def split: option.split)

lemma set_read_refines [refining]: "refines e F w (w\<lparr>db := set_read P (db w)\<rparr>)"
  by (rule refines_tables, simp add: set_read_wf) (simp add: set_read_def)

lemma digest_refines [refining]:
  assumes "\<And>u d v d'. turn u d = Inr (v, d') \<Longrightarrow> db_wf d \<Longrightarrow> db_wf d' \<and> refresh_tokens d' = refresh_tokens d"
  shows "refines e F w (w\<lparr>db := snd (digest_loop turn us a b (db w))\<rparr>)"
proof (cases "db_wf (db w)")
  case True
  have "db_wf (snd (digest_loop turn us a b (db w))) \<and>
      refresh_tokens (snd (digest_loop turn us a b (db w))) = refresh_tokens (db w)"
    by (rule digest_loop_inv [where P = "\<lambda>d. db_wf d \<and> refresh_tokens d = refresh_tokens (db w)"])
      (use assms True in auto)
  then show ?thesis by (simp add: refines_def)
qed (simp add: refines_def)

lemma daily_turn_refines:
  "daily_turn now ids d0 u d = Inr (v, d') \<Longrightarrow> db_wf d \<Longrightarrow> db_wf d' \<and> refresh_tokens d' = refresh_tokens d"
  by (auto simp: daily_turn_def Let_def split: if_splits sum.splits option.splits
      dest: create_notification_wf create_notification_tokens)

lemma weekly_turn_refines:
  "weekly_turn now ids d0 u d = Inr (v, d') \<Longrightarrow> db_wf d \<Longrightarrow> db_wf d' \<and> refresh_tokens d' = refresh_tokens d"
  by (auto simp: weekly_turn_def Let_def split: if_splits sum.splits option.splits
      dest: create_notification_wf create_notification_tokens)

lemma run_digest_db: "snd (run_digest turn us d) = snd (digest_loop (turn d) us 0 0 d)"
  by (simp add: run_digest_def split: prod.split sum.split)

lemma jobs_refine [refining]:
  assumes "send_daily_digests now ids (db w) = (r, d) \<or> send_weekly_reports now ids (db w) = (r, d)"
  shows "refines e F w (w\<lparr>db := d\<rparr>)"
proof -
  from assms obtain us where "d = snd (digest_loop (daily_turn now ids (db w)) us 0 0 (db w))
      \<or> d = snd (digest_loop (weekly_turn now ids (db w)) us 0 0 (db w))"
    by (metis send_daily_digests_def send_weekly_reports_def run_digest_db snd_conv)
  then show ?thesis
    by (elim disjE; simp only:) (rule digest_refines, erule (1) daily_turn_refines weekly_turn_refines)+
qed

lemma subscribe_rows_tokens [token_frames]:
  "subscribe_rows now sid tok m s d = Inr d' \<Longrightarrow> refresh_tokens d' = refresh_tokens d"
  by (auto simp: subscribe_rows_def split: option.splits dest: insert_tokens save_tokens)

lemma unsubscribe_refines [refining]: "refines e F w (snd (unsubscribe now tok w))"
  by (rule refines_tables [OF unsubscribe_wf]) (auto simp: unsubscribe_def split: option.split)

lemma subscribe_refines [refining]: "refines e F w (snd (subscribe e now sid tok (\<lambda>d. d) m w))"
proof (cases "case subscriber_by_email m (db w) of Some s \<Rightarrow> ns_is_active s | None \<Rightarrow> False")
  case True
  then show ?thesis by (auto simp: subscribe_def split: option.splits)
next
  case False
  note inactive = this
  show ?thesis
  proof (cases "subscribe_rows now sid tok m (subscriber_by_email m (db w)) (db w)")
    case (Inl err)
    with inactive show ?thesis
      by (cases err; cases "subscriber_by_email m (db w)") (simp_all add: subscribe_def)
  next
    case (Inr d)
    have "refines e F w (w\<lparr>db := d\<rparr>)"
      using subscribe_rows_wf [OF _ Inr] subscribe_rows_tokens [OF Inr] by (simp add: refines_def)
    then have "refines e F w (snd (send_newsletter_welcome_email e now m tok (w\<lparr>db := d\<rparr>)))"
      by (rule refines_db) simp
    with Inr inactive show ?thesis by (cases "subscriber_by_email m (db w)") (simp_all add: subscribe_def)
  qed
qed

lemma contact_refines [refining]: "refines e F w (snd (submit_contact_form e now choice p w))"
  by (rule refines_frame) simp


lemma template_refines [refining]:
  "refines e F w (snd (create_platform_template now tid t c j u a w))"
  "refines e F w (snd (admin_update_platform_template now pt r w))"
  "refines e F w (admin_delete_platform_template pt w)"
proof -
  show "refines e F w (snd (create_platform_template now tid t c j u a w))"
    by (rule refines_tables [OF create_platform_template_wf])
      (auto simp: create_platform_template_def Let_def dest: insert_tokens split: sum.split)
  show "refines e F w (snd (admin_update_platform_template now pt r w))"
    by (rule refines_tables [OF admin_update_platform_template_wf])
      (auto simp: admin_update_platform_template_def dest: save_tokens split: sum.split)
  show "refines e F w (admin_delete_platform_template pt w)"
    by (rule refines_tables [OF admin_delete_platform_template_wf])
      (auto simp: admin_delete_platform_template_def delete_badges_def Let_def)
qed

section \<open>The handlers\<close>

lemma as_user_refines: "(\<And>u w. refines e F w (snd (h u w))) \<Longrightarrow> refines e F w (snd (as_user e now q h w))"
  by (rule as_user_inv [where P = "refines e F w"]) auto

lemma as_admin_refines: "(\<And>w. refines e F w (snd (h w))) \<Longrightarrow> refines e F w (snd (as_admin e now q h w))"
  by (rule as_admin_inv [where P = "refines e F w"]) auto

lemma validated_refines: "(\<And>p w. refines e F w (snd (h p w))) \<Longrightarrow> refines e F w (snd (validated body h w))"
  by (rule validated_inv [where P = "refines e F w"]) auto

lemma ignore_delivery_world [simp]: "snd (ignore_delivery rw) = snd rw"
  by (simp add: ignore_delivery_def)

lemma auth_routes_refine:
  "refines e F w (snd (get_current_user_profile e now q w))"
  "refines e F w (snd (register e now sdr (\<lambda>d. d) ev body w))"
  "refines e F w (snd (resend_verification e now raw ev m w))"
  "refines e F w (snd (reset_organizer_password e now salt tok p c w))"
  "refines e F w (snd (refresh e now dr q w))"
  "refines e F w (snd (logout e now q w))"
  "refines e F w (snd (forgot_password e now raw ev m w))"
  "refines e F w (snd (google_login e now st w))"
  "refines e F w (snd (list_sessions e now q pg l w))"
  unfolding get_current_user_profile_def register_def resend_verification_def reset_organizer_password_def
    logout_def forgot_password_def google_login_def list_sessions_def
  by (auto intro!: as_user_refines validated_refines refining intro: refines_frame
      simp: refresh_def build_google_auth_url_def Let_def split: prod.split option.split list.split)


lemma logout_all_refines: "refines e F w (snd (logout_all e now q w))"
  unfolding logout_all_def by (intro as_user_refines) (simp add: split_beta revoke_all_refines)

lemma profile_routes_refine:
  "refines e F w (snd (get_profile e now q w))"
  "refines e F w (snd (update_user_profile e now q ev body w))"
  "refines e F w (snd (delete_user_profile e now q w))"
  "refines e F w (snd (upload_profile_photo_endpoint e now u q rd fl w))"
  "refines e F w (snd (remove_profile_photo_endpoint e now q w))"
  "refines e F w (snd (change_user_password e now salt q pw w))"
  unfolding get_profile_def update_user_profile_def delete_user_profile_def upload_profile_photo_endpoint_def
    remove_profile_photo_endpoint_def change_user_password_def
  by (auto intro!: as_user_refines validated_refines refining split: sum.split)

lemma notification_routes_refine:
  "refines e F w (snd (get_preferences e now q w))"
  "refines e F w (snd (patch_preferences e now pid q up w))"
  "refines e F w (snd (list_user_notifications e now q pg l w))"
  "refines e F w (snd (get_unread_notifications_count e now q w))"
  "refines e F w (snd (mark_one_read e now q nid w))"
  "refines e F w (snd (mark_all_read e now q w))"
  unfolding get_preferences_def patch_preferences_def list_user_notifications_def get_unread_notifications_count_def
    mark_one_read_def mark_all_read_def
  by (auto intro!: as_user_refines validated_refines refining
      simp: on_db_def mark_notification_read_def mark_all_notifications_read_def Let_def split: option.split prod.split)

lemma badge_routes_refine:
  "refines e F w (snd (create_instance e now bid q tid w))"
  "refines e F w (snd (list_instances e now q pg l w))"
  "refines e F w (snd (get_analytics e now q w))"
  "refines e F w (snd (get_single_badge e now q bid w))"
  "refines e F w (snd (publish e now choice q bid w))"
  "refines e F w (snd (unpublish e now q bid w))"
  "refines e F w (snd (duplicate e now new_id ids q bid w))"
  "refines e F w (snd (remove_badge e now q bid w))"
  "refines e F w (snd (upload_logo_route e now u q bid ct content w))"
  "refines e F w (snd (get_participant_page slug code w))"
  "refines e F w (snd (increment_creation now nid slug w))"
  "refines e F w (snd (increment_share now slug w))"
  "refines e F w (snd (list_templates coll cat pg l w))"
  "refines e F w (snd (get_template_page tid w))"
  unfolding create_instance_def list_instances_def get_analytics_def get_single_badge_def publish_def unpublish_def
    duplicate_def remove_badge_def upload_logo_route_def get_participant_page_def increment_creation_def
    increment_share_def list_templates_def get_template_page_def
  by (auto intro!: as_user_refines validated_refines refining simp: Let_def split: sum.split prod.split)

lemma update_badge_refines: "refines e F w (snd (update_badge e now ids q bid body tags w))"
  unfolding update_badge_def
proof (intro as_user_refines validated_refines)
  fix u :: user and p :: "badge_updates \<times> string list option option" and w :: "'a world"
  obtain upd tags' where p: "p = (upd, tags')" by (cases p)
  obtain r w1 where ed: "edit_badge now ids (u_id u) bid upd (case tags' of None \<Rightarrow> None | Some v \<Rightarrow> v) (tags' \<noteq> None) w = (r, w1)"
    by (meson surj_pair)
  have "refines e F w w1" using badge_refines(7) [of e F w now ids "u_id u" bid upd] ed by (metis snd_conv)
  then show "refines e F w (snd ((\<lambda>(field_updates, tags) w.
       (let new_hashtags = (case tags of None \<Rightarrow> None | Some v \<Rightarrow> v); update_hashtags = tags \<noteq> None;
            (r, w) = edit_badge now ids (u_id u) bid field_updates new_hashtags update_hashtags w
        in reply (\<lambda>exc. case exc of ValueError msg \<Rightarrow> HTTPException 422 msg | _ \<Rightarrow> owner_error exc)
             (detail_data ''Badge updated successfully.'' (db w)) (r, w))) p w))"
    using ed by (simp add: p Let_def)
qed

lemma outreach_routes_refine:
  "refines e F w (snd (subscribe_to_newsletter e now sid tok (\<lambda>d. d) ev m w))"
  "refines e F w (snd (unsubscribe_from_newsletter now tok w))"
  "refines e F w (snd (list_contact_subjects w))"
  "refines e F w (snd (contact_us e now choice ev cr w))"
  "refines e F w (snd (health w))"
  using unsubscribe_refines [of e F w now tok]
  unfolding subscribe_to_newsletter_def unsubscribe_from_newsletter_def list_contact_subjects_def contact_us_def health_def
  by (auto intro!: validated_refines refining split: prod.split)

lemma admin_routes_refine:
  "refines e F w (snd (create_template e now tid q body w))"
  "refines e F w (snd (update_template e now q tid body w))"
  "refines e F w (snd (delete_template e now q tid w))"
  "refines e F w (snd (admin_list_templates e now q cat l off w))"
  "refines e F w (snd (admin_get_template e now q tid w))"
  unfolding create_template_def update_template_def delete_template_def admin_list_templates_def admin_get_template_def
  by (auto intro!: as_admin_refines validated_refines refining split: option.split)

lemma login_refines:
  assumes "se_family dr \<in> F" "se_family dr \<notin> rt_family_id ` set (refresh_tokens (db w))"
  shows "refines e F w (snd (login e now dr ev q m p w))"
  unfolding login_def
  by (rule validated_inv [where P = "refines e F w"]) (simp_all add: signin_refines [OF assms] split: prod.split)

lemmas routes_refine = auth_routes_refine logout_all_refines profile_routes_refine notification_routes_refine badge_routes_refine
  update_badge_refines outreach_routes_refine admin_routes_refine

lemma api_refines:
  assumes "\<And>f. drawn_family c = Some f \<Longrightarrow> f \<in> F \<and> f \<notin> rt_family_id ` set (refresh_tokens (db w))"
  shows "refines e F w (snd (api e s now q c w))"
  using assms by (cases c) (simp_all add: routes_refine login_refines verify_email_refines google_callback_refines)

lemma seed_roles_refines:
  assumes "seed_roles now ids lids emails (db w) = Inr d"
  shows "refines e F w (w\<lparr>db := d\<rparr>)"
  using seed_roles_wf [OF _ assms] by (intro refines_tables) simp_all

lemma seed_templates_refines:
  assumes "seed_platform_templates now ids (db w) = Inr (n, d)"
  shows "refines e F w (w\<lparr>db := d\<rparr>)"
  using seeding_wf [OF _ assms] by (intro refines_tables) simp_all

lemma api_step_refines: "api_step e s F w w' \<Longrightarrow> refines e F w w'"
  by (cases rule: api_step.cases) (auto intro: api_refines jobs_refine seed_roles_refines seed_templates_refines)

lemma api_run_refines: "api_run e s F w w' \<Longrightarrow> refines e F w w'"
  by (induction rule: rtranclp_induct) (auto intro: refines_trans api_step_refines)


section \<open>Who gets in\<close>

lemma as_user_refused:
  "get_current_user e now (access_cookie e q) w = Inl exc \<Longrightarrow> as_user e now q h w = (error_response exc, w)"
  by (simp add: as_user_def)

lemma as_admin_refused:
  "get_current_admin e now (access_cookie e q) w = Inl exc \<Longrightarrow> as_admin e now q h w = (error_response exc, w)"
  by (simp add: as_admin_def)

lemma api_organiser:
  assumes "gate_of c = Organiser" "get_current_user e now (access_cookie e q) w = Inl exc"
  shows "api e s now q c w = (error_response exc, w)"
  using assms(1)
  by (cases c) (simp_all add: as_user_refused [OF assms(2)] get_current_user_profile_def list_sessions_def logout_all_def
      get_profile_def update_user_profile_def delete_user_profile_def upload_profile_photo_endpoint_def
      remove_profile_photo_endpoint_def change_user_password_def get_preferences_def patch_preferences_def
      list_user_notifications_def get_unread_notifications_count_def mark_one_read_def mark_all_read_def
      create_instance_def list_instances_def get_analytics_def get_single_badge_def publish_def unpublish_def
      duplicate_def remove_badge_def upload_logo_route_def update_badge_def)

lemma api_administrator:
  assumes "gate_of c = Administrator" "get_current_admin e now (access_cookie e q) w = Inl exc"
  shows "api e s now q c w = (error_response exc, w)"
  using assms(1)
  by (cases c) (simp_all add: as_admin_refused [OF assms(2)] create_template_def update_template_def
      delete_template_def admin_list_templates_def admin_get_template_def)


text \<open>An account has the administrator role at most once, so the gate never meets two rows.\<close>

lemma distinct_le_one:
  assumes "\<And>x y. x \<in> set xs \<Longrightarrow> y \<in> set xs \<Longrightarrow> x = y" "distinct xs"
  shows "length xs \<le> 1"
proof (rule ccontr)
  assume "\<not> length xs \<le> 1"
  then obtain x y zs where xs: "xs = x # y # zs" by (metis One_nat_def Suc_le_mono le0 length_Cons list.exhaust list.size(3))
  then have "x = y" using assms(1) [of x y] by simp
  with assms(2) xs show False by simp
qed

lemma one_admin_role:
  assumes "db_wf d"
  shows "length (admin_roles uid d) \<le> 1"
proof -
  let ?rows = "filter (\<lambda>(r, l). r_id r = ur_role_id l \<and> ur_user_id l = uid \<and> r_name r = ''admin'')
    (List.product (roles d) (user_roles d))"
  have ok: "unique_on r_id (roles d)" "unique_on r_name (roles d)" "unique_on (\<lambda>l. (ur_user_id l, ur_role_id l)) (user_roles d)"
      "unique_on ur_id (user_roles d)"
    using assms by (simp_all add: db_wf_def roles_ok_def)
  have same: "r = r' \<and> l = l'" if "(r, l) \<in> set ?rows" "(r', l') \<in> set ?rows" for r l r' l'
  proof -
    from that have "r = r'" by (intro unique_onD [OF ok(2)]) simp_all
    moreover from this that have "l = l'" by (intro unique_onD [OF ok(3)]) simp_all
    ultimately show ?thesis ..
  qed
  have "x = y" if "x \<in> set ?rows" "y \<in> set ?rows" for x y
    using same [of "fst x" "snd x" "fst y" "snd y"] that unfolding prod.collapse by (simp only: prod_eq_iff)
  moreover have "distinct ?rows" using ok by (intro distinct_filter distinct_product) (auto simp: unique_on_def distinct_map)
  ultimately have "length ?rows \<le> 1" by (rule distinct_le_one)
  then show ?thesis by (simp add: admin_roles_def)
qed

section \<open>The properties\<close>

text \<open>C32. Whatever sequence of requests, digest jobs and seeding runs the service handles, whatever the clients send: the
  database keeps its constraints.  No two accounts share an address, no two badges a link, every session and badge
  belongs to an existing account, every badge to an existing template, a published badge is dated and linked, a
  private one has a code of 4 to 10 characters, a public one none, and nobody holds the administrator role twice.\<close>

theorem api_keeps_constraints:
  assumes "api_run e s F w w'" "db_wf (db w)"
  shows "db_wf (db w') \<and> distinct (map u_email (users (db w')))
    \<and> (\<forall>t\<in>set (refresh_tokens (db w')). \<exists>u\<in>set (users (db w')). u_id u = rt_user_id t)
    \<and> (\<forall>b\<in>set (badges (db w')). (\<exists>u\<in>set (users (db w')). u_id u = b_organiser_id b)
        \<and> (\<exists>t\<in>set (platform_templates (db w')). pt_id t = b_platform_template_id b)
        \<and> (b_is_published b \<longrightarrow> b_deleted_at b = None \<and> b_published_at b \<noteq> None
             \<and> (\<exists>c l. b_share_slug b = Some (c # l) \<and> (\<forall>x\<in>set (badges (db w')). b_share_slug x = b_share_slug b \<longrightarrow> x = b)))
        \<and> (case b_access_code b of None \<Rightarrow> b_access_type b = 0
           | Some code \<Rightarrow> b_access_type b = 1 \<and> 4 \<le> length code \<and> length code \<le> 10))
    \<and> (\<forall>uid. length (admin_roles uid (db w')) \<le> 1)"
proof -
  have wf: "db_wf (db w')" using api_run_refines [OF assms(1)] assms(2) by (simp add: refines_def)
  then have b: "badges_ok (user_ids (db w')) (template_ids (db w')) (badges (db w'))"
    and t: "rt_user_id ` set (refresh_tokens (db w')) \<subseteq> user_ids (db w')"
    and u: "distinct (map u_email (users (db w')))"
    by (simp_all add: db_wf_def tokens_ok_def users_ok_def unique_on_def)
  have slug: "x = y" if "x \<in> set (badges (db w'))" "y \<in> set (badges (db w'))" "b_share_slug x = b_share_slug y"
      "b_share_slug y \<noteq> None" for x y
    using b that unique_onD [of b_share_slug "filter (\<lambda>b. b_share_slug b \<noteq> None) (badges (db w'))" x y]
    by (simp add: badges_ok_def)
  have row: "badge_row_ok x" "\<exists>u\<in>set (users (db w')). u_id u = b_organiser_id x"
      "\<exists>t\<in>set (platform_templates (db w')). pt_id t = b_platform_template_id x" if "x \<in> set (badges (db w'))" for x
    using b that by (auto simp: badges_ok_def user_ids_def template_ids_def image_subset_iff image_iff eq_commute)
  have "\<exists>u\<in>set (users (db w')). u_id u = rt_user_id x" if "x \<in> set (refresh_tokens (db w'))" for x
    using t that by (auto simp: user_ids_def image_subset_iff image_iff eq_commute)
  moreover have "b_is_published x \<longrightarrow> b_deleted_at x = None \<and> b_published_at x \<noteq> None
      \<and> (\<exists>c l. b_share_slug x = Some (c # l) \<and> (\<forall>y\<in>set (badges (db w')). b_share_slug y = b_share_slug x \<longrightarrow> y = x))"
    if "x \<in> set (badges (db w'))" for x
    using row(1) [OF that] slug [OF _ that] by (auto simp: badge_row_ok_def neq_Nil_conv)
  moreover have "case b_access_code x of None \<Rightarrow> b_access_type x = 0
      | Some code \<Rightarrow> b_access_type x = 1 \<and> 4 \<le> length code \<and> length code \<le> 10" if "x \<in> set (badges (db w'))" for x
    using row(1) [OF that] by (auto simp: badge_row_ok_def access_ok_def split: option.splits)
  ultimately show ?thesis using wf u row(2,3) one_admin_role [OF wf] by simp
qed


text \<open>A concrete site and request.\<close>

definition demo_site :: site where
  "demo_site = \<lparr>st_google = demo_google, st_email = Inr, st_collation = id\<rparr>"

definition demo_http :: "(string \<times> string) list \<Rightarrow> http_request" where
  "demo_http cookies = \<lparr>req_headers = [], req_client_host = None, req_cookies = cookies\<rparr>"

lemma demo_run:
  "api_run demo_env demo_site {} (demo_world demo_badges)
     (snd (api demo_env demo_site 5 (demo_http []) (IncrementShare ''slug'') (demo_world demo_badges)))"
  by (rule r_into_rtranclp, rule api_step.call) simp

theorem api_keeps_constraints_witness:
  "db_wf (db (snd (api demo_env demo_site 5 (demo_http []) (IncrementShare ''slug'') (demo_world demo_badges))))"
  using api_keeps_constraints [OF demo_run] demo_badges_wf by simp

text \<open>C33. The sessions of the whole service are those of the abstract session machine: any sequence of requests,
  jobs and seeding runs moves the refresh tokens by opening fresh families, rotating an active token inside its family, revoking
  and dropping, and by nothing else.  So a family keeps one owner and at most one active token, and a family that is
  closed, by a log-out or because a token was used twice, never opens again.\<close>

theorem api_refines_sessions:
  assumes "api_run e s F w w'" "db_wf (db w)" "families_ok (refresh_tokens (db w))"
  shows "(token_step F (range (hash_token e)))\<^sup>*\<^sup>* (refresh_tokens (db w)) (refresh_tokens (db w'))
    \<and> families_ok (refresh_tokens (db w'))
    \<and> (\<forall>f. f \<notin> F \<longrightarrow> closed_family f (refresh_tokens (db w)) \<longrightarrow> closed_family f (refresh_tokens (db w')))"
proof -
  have steps: "(token_step F (range (hash_token e)))\<^sup>*\<^sup>* (refresh_tokens (db w)) (refresh_tokens (db w'))"
    using api_run_refines [OF assms(1)] assms(2) by (simp add: refines_def)
  moreover have "families_ok (refresh_tokens (db w'))"
    by (rule token_steps_induct [OF steps, of families_ok]) (use assms(3) families_ok_step in auto)
  moreover have "closed_family f (refresh_tokens (db w'))" if "f \<notin> F" "closed_family f (refresh_tokens (db w))" for f
    by (rule token_steps_induct [OF steps, of "closed_family f"]) (use that closed_family_step in auto)
  ultimately show ?thesis by blast
qed


lemma demo_families: "families_ok (refresh_tokens demo_db)"
  by (simp add: families_ok_def)

theorem api_refines_sessions_witness:
  "families_ok (refresh_tokens (db (snd (api demo_env demo_site (seconds 60) (demo_http [(''refresh_token'', ''old'')])
     (Refresh demo_draws) (demo_world demo_db)))))"
proof -
  let ?w = "demo_world demo_db"
  have "api_run demo_env demo_site {} ?w
      (snd (api demo_env demo_site (seconds 60) (demo_http [(''refresh_token'', ''old'')]) (Refresh demo_draws) ?w))"
    by (rule r_into_rtranclp, rule api_step.call) simp
  from api_refines_sessions [OF this] show ?thesis using demo_db_wf demo_families by simp
qed

lemma error_status:
  "hr_status (error_response exc) = fst (global_exception_handler exc)" "hr_data (error_response exc) = NoData"
  "hr_cookies (error_response exc) = []"
  by (simp_all add: error_response_def ok_def split: prod.split)

text \<open>The refusals of the gates.\<close>

definition gate_refusals :: "app_error set" where
  "gate_refusals = {exc. (\<exists>d. exc = HTTPException 401 d) \<or> (\<exists>d. exc = HTTPException 403 d) \<or> exc = SQLAlchemyError}"

lemma get_current_user_refusal: "get_current_user e now tok w = Inl exc \<Longrightarrow> exc \<in> gate_refusals"
  by (auto simp: get_current_user_def get_user_by_text_def gate_refusals_def unauthorized_def
      split: option.splits if_splits sum.splits)

lemma get_current_admin_refusal: "get_current_admin e now tok w = Inl exc \<Longrightarrow> exc \<in> gate_refusals"
  by (auto simp: get_current_admin_def get_user_by_text_def gate_refusals_def Let_def
      split: option.splits if_splits sum.splits list.splits)

lemma no_token:
  assumes "tok = None \<or> tok = Some []"
  shows "get_current_user e now tok w = Inl (unauthorized ''Not authenticated'')"
    "get_current_admin e now tok w = Inl (HTTPException 403 ''Admin access required'')"
  using assms by (auto simp: get_current_user_def get_current_admin_def)

lemma gate_refusal_status: "exc \<in> gate_refusals \<Longrightarrow> hr_status (error_response exc) \<in> {401, 403, 500}"
  by (auto simp: gate_refusals_def error_status global_exception_handler_def)


text \<open>C34. Nothing of an organiser's or of the administration's is reached without the right token: when the access
  cookie names no account that the request may act for, or the route is an administrator's and the account has no
  admin role, the call changes nothing, no row, mail, asset or stored key, and answers 401, 403 or 500, without data
  and without cookies; without a cookie it is 401 or 403.\<close>

theorem api_requires_token:
  assumes "gate_of c \<noteq> Public"
    "\<forall>u. get_current_user e now (access_cookie e q) w = Inr u \<longrightarrow>
       gate_of c = Administrator \<and> admin_roles (u_id u) (db w) = []"
  shows "snd (api e s now q c w) = w \<and> hr_status (fst (api e s now q c w)) \<in> {401, 403, 500}
    \<and> hr_data (fst (api e s now q c w)) = NoData \<and> hr_cookies (fst (api e s now q c w)) = []
    \<and> (access_cookie e q = None \<or> access_cookie e q = Some [] \<longrightarrow> hr_status (fst (api e s now q c w)) \<in> {401, 403})"
proof -
  obtain exc where exc: "api e s now q c w = (error_response exc, w)" "exc \<in> gate_refusals"
    "access_cookie e q = None \<or> access_cookie e q = Some [] \<longrightarrow> exc \<noteq> SQLAlchemyError"
  proof (cases "gate_of c")
    case Organiser
    then obtain err where err: "get_current_user e now (access_cookie e q) w = Inl err"
      using assms(2) by (cases "get_current_user e now (access_cookie e q) w") auto
    then show ?thesis
      using that [OF api_organiser [OF Organiser err] get_current_user_refusal [OF err]] no_token(1)
      by (metis app_error.distinct unauthorized_def sum.inject(1))
  next
    case Administrator
    then obtain err where err: "get_current_admin e now (access_cookie e q) w = Inl err"
      using assms(2) get_current_admin_user by (cases "get_current_admin e now (access_cookie e q) w") blast+
    then show ?thesis
      using that [OF api_administrator [OF Administrator err] get_current_admin_refusal [OF err]] no_token(2)
      by (metis app_error.distinct sum.inject(1))
  qed (use assms(1) in simp)
  then show ?thesis
    using gate_refusal_status [OF exc(2)] by (auto simp: error_status gate_refusals_def)
qed

text \<open>The account of the demonstration has a valid token and no admin role.\<close>

definition demo_cookies :: "(string \<times> string) list" where
  "demo_cookies = [(ACCESS_COOKIE (cfg demo_env), create_access_token demo_env 0 ''j'' 1)]"

lemma demo_access_cookie: "access_cookie demo_env (demo_http demo_cookies) = Some (create_access_token demo_env 0 ''j'' 1)"
  by (simp add: access_cookie_def cookie_get_def demo_http_def demo_cookies_def)

lemma demo_current_user:
  "get_current_user demo_env 5 (access_cookie demo_env (demo_http demo_cookies)) (demo_world demo_badges) = Inr demo_user"
proof -
  have "timestamp 5 \<le> access_expiry demo_env 0" by (simp add: access_expiry_def timestamp_def)
  moreover have "get_user 1 (db (demo_world demo_badges)) = Some demo_user" by (simp add: get_user_def)
  moreover have "\<not> is_token_blacklisted demo_env 5 ''j'' (kv (demo_world demo_badges))"
    by (simp add: demo.is_token_blacklisted)
  ultimately show ?thesis
    unfolding demo_access_cookie by (simp add: sound_env.current_user_access [OF sound_env_demo])
qed

theorem api_requires_token_witness:
  "snd (api demo_env demo_site 5 (demo_http demo_cookies) (DeleteTemplate 2) (demo_world demo_badges)) = demo_world demo_badges"
proof -
  have "admin_roles (u_id demo_user) (db (demo_world demo_badges)) = []"
    by (simp add: admin_roles_def demo_badges_def demo_db_def empty_db_def)
  then show ?thesis
    using api_requires_token [of "DeleteTemplate 2" demo_env 5 "demo_http demo_cookies" "demo_world demo_badges" demo_site]
      demo_current_user by simp
qed

end
