(* ===== verification/Error_Log.thy ===== *)
theory Error_Log
  imports Sanitizer Errors
begin

text \<open>
  What \<open>app/core/exceptions/handlers.py\<close> logs of an exception before it answers: the sanitizing of the
  arguments of an exception (\<open>app/core/sanitizer.py\<close>) and the line of the log.
\<close>

section \<open>The arguments of an exception\<close>

text \<open>
  An argument is a text or another value; \<open>JStr\<close> there stands for the text of an object that is neither.
  \<open>text\<close> is \<open>str\<close> of a value.
\<close>

datatype exception_arg = ArgText string | ArgValue json

datatype exception_args = ArgsTuple "exception_arg list" | ArgsDict "(string \<times> json) list" | ArgsOther string

text \<open>\<open>\[parameters: \([^)]+\)\]\<close>: how long a match at the start of the text is.\<close>

definition parameters_head :: string where
  "parameters_head = ''[parameters: (''"

definition parameters_match :: "string \<Rightarrow> nat" where
  "parameters_match s = (let r = drop (length parameters_head) s; p = takeWhile (\<lambda>c. c \<noteq> CHR '')'') r in
     if py_startswith s parameters_head \<and> p \<noteq> [] \<and> py_startswith (drop (length p) r) '')]''
     then length parameters_head + length p + 2 else 0)"

definition mask_parameters :: "string \<Rightarrow> string" where
  "mask_parameters a = (if py_contains ''[parameters:'' a
     then re_sub parameters_match (\<lambda>m. ''[parameters: ***SANITIZED***]'') a else a)"

definition sanitize_dict :: "(string \<times> json) list \<Rightarrow> (string \<times> json) list" where
  "sanitize_dict data = map (\<lambda>(k, v). (k, if is_sensitive_field k then JStr REDACTED else sanitize_value v 4)) data"

lemma sanitize_dict_value: "sanitize_value (JObj data) 5 = JObj (sanitize_dict data)"
  by (auto simp: sanitize_dict_def)

fun sanitize_exception_args :: "(json \<Rightarrow> string) \<Rightarrow> exception_args \<Rightarrow> json list" where
  "sanitize_exception_args text (ArgsTuple args) = map (\<lambda>arg. case arg of
     ArgText a \<Rightarrow> JStr (sanitize_string (mask_parameters a) 1000) | ArgValue v \<Rightarrow> sanitize_value v 5) args"
| "sanitize_exception_args text (ArgsDict data) = [JList (map (\<lambda>(k, v). JStr (k @ ''='' @ text v)) (sanitize_dict data))]"
| "sanitize_exception_args text (ArgsOther s) = [sanitize_value (JStr s) 5]"

text \<open>
  An exception has its arguments and its text; any other value has no \<open>args\<close>, and only a dict is taken apart.
  The fallback for a failure of the sanitizing is not reached: none of the steps raises on these values.
\<close>

datatype logged_object = LoggedException "exception_arg list" string | LoggedDict "(string \<times> json) list" | LoggedOther string

definition sanitize_exception_for_logging :: "(json \<Rightarrow> string) \<Rightarrow> logged_object \<Rightarrow> json list" where
  "sanitize_exception_for_logging text e = (case e of
     LoggedException args s \<Rightarrow>
       (let sanitized = sanitize_exception_args text (ArgsTuple args) in
        if sanitized = [] then sanitize_exception_args text (ArgsOther s) else sanitized)
   | LoggedDict data \<Rightarrow> sanitize_exception_args text (ArgsDict data)
   | LoggedOther s \<Rightarrow> sanitize_exception_args text (ArgsOther s))"

section \<open>The handler with its log\<close>

text \<open>
  What the handler looks at: the type, the statement and parameters of an SQL error, where a failure outside of a
  statement has none, the text of the response of an HTTP client error, and the frames of the traceback.
\<close>

record raised =
  ex_type :: string
  ex_error :: app_error
  ex_object :: logged_object
  ex_str :: string
  ex_sql :: "(string option \<times> json) option"
  ex_response_text :: "string option"
  ex_orig :: "logged_object option"
  ex_frames :: "string list"

datatype exception_message = SqlMessage string json | ArgsMessage "json list"

text \<open>
  \<open>json_loads\<close> is \<open>json.loads\<close>, \<open>None\<close> for a text that is not JSON.  The search for sensitive names in the
  statement raises \<open>TypeError\<close> when there is none.
\<close>

definition exception_message ::
  "(json \<Rightarrow> string) \<Rightarrow> (string \<Rightarrow> logged_object option) \<Rightarrow> raised \<Rightarrow> string + exception_message" where
  "exception_message text json_loads x = (case ex_sql x of
     Some (None, params) \<Rightarrow> Inl ''TypeError''
   | Some (Some statement, params) \<Rightarrow>
       (case sanitize_sql_for_logging statement params of (sql, ps) \<Rightarrow> Inr (SqlMessage sql ps))
   | None \<Rightarrow> (case ex_response_text x of
       None \<Rightarrow> Inr (ArgsMessage (sanitize_exception_for_logging text (ex_object x)))
     | Some body \<Rightarrow> Inr (ArgsMessage (sanitize_exception_for_logging text
         (case json_loads body of Some v \<Rightarrow> v | None \<Rightarrow> LoggedOther (ex_str x))))))"

datatype error_line =
    DatabaseLine string exception_message "json list"
  | UnhandledLine string exception_message string

definition traceback_text :: "string list \<Rightarrow> string" where
  "traceback_text frames = (if frames \<noteq> []
     then sanitize_string ([newline] @ ''Traceback:'' @ [newline] @ concat frames) 1000
     else ''No traceback available'')"

definition error_line :: "(json \<Rightarrow> string) \<Rightarrow> raised \<Rightarrow> exception_message \<Rightarrow> error_line option" where
  "error_line text x msg =
     (if ex_error x = IntegrityError then None
      else if is_sqlalchemy_error (ex_error x)
      then Some (DatabaseLine (ex_type x) msg (sanitize_exception_for_logging text
        (case ex_orig x of Some orig \<Rightarrow> orig | None \<Rightarrow> LoggedOther ''None'')))
      else (case ex_error x of
        RequestValidationError errors \<Rightarrow> None
      | RateLimitExceeded \<Rightarrow> None
      | HTTPException status detail \<Rightarrow> None
      | _ \<Rightarrow> Some (UnhandledLine (ex_type x) msg (traceback_text (ex_frames x)))))"

definition handle_exception ::
  "(json \<Rightarrow> string) \<Rightarrow> (string \<Rightarrow> logged_object option) \<Rightarrow> raised \<Rightarrow> string + error_line option \<times> (nat \<times> string)" where
  "handle_exception text json_loads x = (case exception_message text json_loads x of
     Inl e \<Rightarrow> Inl e
   | Inr msg \<Rightarrow> Inr (error_line text x msg, global_exception_handler (ex_error x)))"

section \<open>Lemmas\<close>

lemma sanitized_args_nonempty: "sanitize_exception_for_logging text e \<noteq> []"
  by (cases e) (auto simp: sanitize_exception_for_logging_def Let_def)

text \<open>
  The handler answers every exception but an error of the database without a statement, such as one of a
  commit: there it raises \<open>TypeError\<close> itself and the client gets the plain text of the server.
\<close>

lemma handler_answers_iff:
  "(\<exists>line. handle_exception text json_loads x = Inr (line, global_exception_handler (ex_error x)))
     \<longleftrightarrow> (\<nexists>params. ex_sql x = Some (None, params))"
  by (auto simp: handle_exception_def exception_message_def split: option.splits prod.splits)

text \<open>A list of parameters is masked up to its closing bracket.\<close>

lemma py_startswith_append [simp]: "py_startswith (p @ s) p"
  by (simp add: py_startswith_def)

lemma parameters_match_list:
  assumes "p \<noteq> []" "CHR '')'' \<notin> set p"
  shows "parameters_match (parameters_head @ p @ '')]'' @ s) = length (parameters_head @ p @ '')]'')"
proof -
  have "takeWhile (\<lambda>c. c \<noteq> CHR '')'') (p @ '')]'' @ s) = p"
    using assms(2) by (subst takeWhile_append2) auto
  with assms(1) show ?thesis by (simp add: parameters_match_def Let_def py_startswith_def)
qed

lemma parameters_masked:
  assumes "p \<noteq> []" "CHR '')'' \<notin> set p"
  shows "re_sub parameters_match f (parameters_head @ p @ '')]'' @ s)
    = f (parameters_head @ p @ '')]'') @ re_sub parameters_match f s"
proof -
  obtain c r where c: "parameters_head @ p @ '')]'' = c # r" by (auto simp: parameters_head_def)
  have "parameters_match (c # r @ s) = length (c # r)"
    using parameters_match_list [OF assms, of s] c by (metis append.assoc append_Cons)
  then have "re_sub parameters_match f (c # r @ s) = f (c # r) @ re_sub parameters_match f s" by simp
  then show ?thesis using c by (metis append.assoc append_Cons)
qed

text \<open>A parameter that holds a closing bracket is not masked, nor are the ones after it.\<close>

lemma bracket_unmasked:
  "mask_parameters ''[parameters: (f(x), pw)]'' = ''[parameters: (f(x), pw)]''"
  "mask_parameters ''[parameters: (a, pw)]'' = ''[parameters: ***SANITIZED***]''"
  by code_simp+

end
