(* ===== verification/Log_Format.thy ===== *)
theory Log_Format
  imports Sanitizer Calendar
begin

text \<open>
  \<open>app/core/logging\<close>: the context of a request that every record carries (\<open>context.py\<close>), the patcher
  that adds it and sanitizes the message (\<open>setup.py\<close>), and the texts of the sinks (\<open>format.py\<close>).  These
  texts are formats: loguru passes them to \<open>str.format_map\<close>, which is \<open>format_plain\<close> here.
\<close>

section \<open>The context of a request\<close>

type_synonym log_fields = "(string \<times> json) list"

text \<open>
  The context variable holds the fields of the request that is served.  An instance remembers the value
  its entry replaced; the fallback for a missing id is the text of a random UUID.
\<close>

record context_logger =
  cl_context :: log_fields
  cl_token :: "log_fields option option"

definition new_context_logger :: "string \<Rightarrow> string option \<Rightarrow> log_fields \<Rightarrow> context_logger" where
  "new_context_logger random request_id context =
     (let rid = (case request_id of Some (c # r) \<Rightarrow> c # r | _ \<Rightarrow> take 8 random)
      in \<lparr>cl_context = (''request_id'', JStr rid) # context, cl_token = None\<rparr>)"

definition enter_context :: "context_logger \<Rightarrow> log_fields option \<Rightarrow> log_fields option \<times> context_logger" where
  "enter_context l var = (Some (cl_context l), l\<lparr>cl_token := Some var\<rparr>)"

definition exit_context :: "context_logger \<Rightarrow> log_fields option \<Rightarrow> log_fields option \<times> context_logger" where
  "exit_context l var = (case cl_token l of None \<Rightarrow> (var, l) | Some old \<Rightarrow> (old, l\<lparr>cl_token := None\<rparr>))"

text \<open>\<open>async with\<close> around a body that may raise: the exit runs in both cases.\<close>

definition with_context :: "context_logger \<Rightarrow> (log_fields option \<Rightarrow> 'a \<times> log_fields option) \<Rightarrow> log_fields option \<Rightarrow> 'a \<times> log_fields option" where
  "with_context l body var = (case enter_context l var of (var, l) \<Rightarrow>
     (case body var of (result, var) \<Rightarrow> (result, fst (exit_context l var))))"

lemma context_restored: "snd (with_context l body var) = var"
  by (simp add: with_context_def enter_context_def exit_context_def split: prod.splits)

section \<open>Records\<close>

record log_record =
  lg_time :: string
  lg_level :: string
  lg_function :: string
  lg_file :: string
  lg_line :: nat
  lg_message :: string
  lg_extra :: log_fields

definition context_patcher :: "log_fields option \<Rightarrow> log_record \<Rightarrow> log_record" where
  "context_patcher ctx r =
     (let r = (case ctx of Some (f # fs) \<Rightarrow> r\<lparr>lg_extra := fold (\<lambda>(k, v). AList.update k v) (f # fs) (lg_extra r)\<rparr> | _ \<Rightarrow> r)
      in (case sanitize_for_logging (JStr (lg_message r)) of JStr m \<Rightarrow> r\<lparr>lg_message := m\<rparr> | _ \<Rightarrow> r))"

section \<open>The texts of the sinks\<close>

definition LEVEL_COLOURS :: "(string \<times> string) list" where
  "LEVEL_COLOURS = [(''CRITICAL'', ''red''), (''ERROR'', ''magenta''), (''WARNING'', ''yellow''), (''SUCCESS'', ''green''),
     (''INFO'', ''blue''), (''DEBUG'', ''white''), (''TRACE'', ''dim'')]"

text \<open>\<open>time\<close> is the time of the record to the microsecond; the milliseconds are kept.\<close>

definition time_str :: "log_record \<Rightarrow> string" where
  "time_str r = take (length (lg_time r) - 3) (lg_time r)"

definition colour :: "log_record \<Rightarrow> string" where
  "colour r = (case map_of LEVEL_COLOURS (lg_level r) of Some c \<Rightarrow> c | None \<Rightarrow> ''white'')"

definition location :: "log_record \<Rightarrow> string" where
  "location r = lg_file r @ '':'' @ lg_function r @ '':'' @ py_str (int (lg_line r))"

definition ljust :: "nat \<Rightarrow> string \<Rightarrow> string" where
  "ljust n s = s @ replicate (n - length s) (CHR '' '')"

definition console :: "log_record \<Rightarrow> string" where
  "console r = ''<dim><bold>'' @ time_str r @ ''</bold></dim> | '' @ ''<'' @ colour r @ ''>'' @ ljust 8 (lg_level r)
     @ ''</'' @ colour r @ ''> | <cyan>'' @ location r @ ''</cyan> - <'' @ colour r @ ''>'' @ lg_message r
     @ ''</'' @ colour r @ ''>'' @ [newline]"

text \<open>\<open>dumps\<close> is \<open>json.dumps\<close> of a dict or list, \<open>show\<close> is \<open>str\<close> of a number or a truth value.\<close>

definition safe_value :: "(json \<Rightarrow> string) \<Rightarrow> (json \<Rightarrow> string) \<Rightarrow> json \<Rightarrow> string" where
  "safe_value dumps show v = (case v of JObj kvs \<Rightarrow> dumps v | JList js \<Rightarrow> dumps v | JStr s \<Rightarrow> s | _ \<Rightarrow> show v)"

definition escape_braces :: "string \<Rightarrow> string" where
  "escape_braces s = concat (map (\<lambda>c. if c = CHR ''{'' \<or> c = CHR ''}'' then [c, c] else [c]) s)"

definition extra_fields :: "log_record \<Rightarrow> log_fields" where
  "extra_fields r = filter (\<lambda>(k, v). k \<noteq> ''request_id'' \<and> v \<noteq> JNull) (lg_extra r)"

definition context_text :: "(string \<Rightarrow> string) \<Rightarrow> (json \<Rightarrow> string) \<Rightarrow> (json \<Rightarrow> string) \<Rightarrow> log_record \<Rightarrow> string" where
  "context_text escape dumps show r =
     (let parts = map (\<lambda>(k, v). k @ ''='' @ escape (safe_value dumps show v)) (extra_fields r)
      in if parts = [] then [] else '' | '' @ py_join '', '' parts)"

definition rid_text :: "log_record \<Rightarrow> string" where
  "rid_text r = (case map_of (lg_extra r) ''request_id'' of Some (JStr (c # rid)) \<Rightarrow> '' | rid='' @ c # rid | _ \<Rightarrow> [])"

definition line_text :: "(string \<Rightarrow> string) \<Rightarrow> (json \<Rightarrow> string) \<Rightarrow> (json \<Rightarrow> string) \<Rightarrow> log_record \<Rightarrow> string" where
  "line_text escape dumps show r = time_str r @ '' | '' @ ljust 8 (lg_level r) @ '' | '' @ location r @ rid_text r
     @ '' - '' @ lg_message r @ context_text escape dumps show r @ [newline]"

definition file_format :: "(json \<Rightarrow> string) \<Rightarrow> (json \<Rightarrow> string) \<Rightarrow> log_record \<Rightarrow> string" where
  "file_format dumps show r = line_text escape_braces dumps show r"

section \<open>The sinks\<close>

text \<open>
  \<open>setup_logging\<close>: the console, a file, and a second file for errors, whose name has \<open>_errors\<close> before the
  suffix.  A sink takes the records of its level and above.
\<close>

datatype sink_target = Stdout | File string

record sink =
  sk_target :: sink_target
  sk_level :: string
  sk_colorize :: bool
  sk_serialize :: bool

definition is_local :: "string \<Rightarrow> bool" where
  "is_local environment = (py_lower environment \<in> {''local'', ''dev'', ''development''})"

definition error_log_file :: "string \<Rightarrow> string" where
  "error_log_file log_file =
     (let (parent, file_name) = (if CHR ''/'' \<in> set log_file then split_last (CHR ''/'') log_file else ([], log_file));
          (stem, suffix) = (if CHR ''.'' \<in> set (tl file_name)
             then (case split_last (CHR ''.'') file_name of (a, b) \<Rightarrow> (a, CHR ''.'' # b)) else (file_name, []))
      in (if CHR ''/'' \<in> set log_file then parent @ ''/'' else []) @ stem @ ''_errors'' @ suffix)"

definition sinks :: "string \<Rightarrow> string \<Rightarrow> string \<Rightarrow> sink list" where
  "sinks log_level log_file environment =
     [\<lparr>sk_target = Stdout, sk_level = log_level, sk_colorize = is_local environment, sk_serialize = \<not> is_local environment\<rparr>,
      \<lparr>sk_target = File log_file, sk_level = ''INFO'', sk_colorize = False, sk_serialize = True\<rparr>,
      \<lparr>sk_target = File (error_log_file log_file), sk_level = ''ERROR'', sk_colorize = False, sk_serialize = True\<rparr>]"

text \<open>The severities of the levels.\<close>

definition severity :: "string \<Rightarrow> nat option" where
  "severity = map_of [(''TRACE'', 5), (''DEBUG'', 10), (''INFO'', 20), (''SUCCESS'', 25), (''WARNING'', 30), (''ERROR'', 40),
     (''CRITICAL'', 50)]"

definition takes :: "sink \<Rightarrow> log_record \<Rightarrow> bool" where
  "takes k r = (case (severity (sk_level k), severity (lg_level r)) of (Some a, Some b) \<Rightarrow> a \<le> b | _ \<Rightarrow> False)"

lemma error_log_file_default: "error_log_file ''logs/app.log'' = ''logs/app_errors.log''"
  by code_simp

text \<open>A record of the request log, of level INFO or WARNING, goes to the first file and not to the second.\<close>

lemma request_sinks:
  assumes "lg_level r = ''INFO'' \<or> lg_level r = ''WARNING''"
  shows "filter (\<lambda>k. takes k r) (tl (sinks log_level log_file environment))
    = [\<lparr>sk_target = File log_file, sk_level = ''INFO'', sk_colorize = False, sk_serialize = True\<rparr>]"
  using assms by (auto simp: sinks_def takes_def severity_def)

section \<open>Formatting\<close>

text \<open>
  \<open>str.format_map\<close> of a text without replacement fields: doubled braces become single ones.  \<open>None\<close> for a
  text with a field, which is looked up in the record, or with a stray brace, which raises \<open>ValueError\<close>.
\<close>

fun format_plain :: "string \<Rightarrow> string option" where
  "format_plain [] = Some []"
| "format_plain [c] = (if c = CHR ''{'' \<or> c = CHR ''}'' then None else Some [c])"
| "format_plain (c # d # s) =
     (if c = CHR ''{'' \<or> c = CHR ''}'' then (if d = c then map_option (Cons c) (format_plain s) else None)
      else map_option (Cons c) (format_plain (d # s)))"

definition brace_free :: "string \<Rightarrow> bool" where
  "brace_free s = (CHR ''{'' \<notin> set s \<and> CHR ''}'' \<notin> set s)"

lemma format_plain_char:
  "c \<noteq> CHR ''{'' \<Longrightarrow> c \<noteq> CHR ''}'' \<Longrightarrow> format_plain (c # s) = map_option (Cons c) (format_plain s)"
  by (cases s) auto

lemma map_option_append [simp]:
  "map_option ((@) []) x = x" "map_option (\<lambda>x. c # p @ x) y = map_option ((@) (c # p)) y"
  by (cases x; cases y; simp)+

lemma format_plain_free: "brace_free p \<Longrightarrow> format_plain (p @ s) = map_option ((@) p) (format_plain s)"
  by (induction p) (auto simp: brace_free_def format_plain_char option.map_comp comp_def option.map_ident)

lemma format_plain_escaped: "format_plain (escape_braces p @ s) = map_option ((@) p) (format_plain s)"
  by (induction p) (auto simp: escape_braces_def format_plain_char option.map_comp comp_def option.map_ident)

lemma brace_free_append [simp]: "brace_free (s @ t) \<longleftrightarrow> brace_free s \<and> brace_free t"
  by (auto simp: brace_free_def)

lemma brace_free_Cons [simp]: "brace_free (c # s) \<longleftrightarrow> c \<noteq> CHR ''{'' \<and> c \<noteq> CHR ''}'' \<and> brace_free s"
  by (auto simp: brace_free_def)

lemma brace_free_consts [simp]:
  "brace_free []" "brace_free '' | ''" "brace_free '', ''" "brace_free '' - ''" "brace_free ''=''" "brace_free [newline]"
  by (simp_all add: brace_free_def newline_def)

lemma format_parts:
  assumes "\<And>k v. (k, v) \<in> set kvs \<Longrightarrow> brace_free k"
  shows "format_plain (py_join '', '' (map (\<lambda>(k, v). k @ ''='' @ escape_braces (f v)) kvs) @ s)
    = map_option ((@) (py_join '', '' (map (\<lambda>(k, v). k @ ''='' @ f v) kvs))) (format_plain s)"
  using assms
proof (induction "'', ''" "map (\<lambda>(k, v). k @ ''='' @ escape_braces (f v)) kvs" arbitrary: kvs rule: py_join.induct)
  case 1
  then show ?case by simp
next
  case (2 w)
  then obtain k v where kvs: "kvs = [(k, v)]" by auto
  with 2(2) have "brace_free (k @ ''='')" by simp
  from format_plain_free [OF this] show ?case
    by (cases "format_plain s") (simp_all add: kvs format_plain_escaped)
next
  case (3 w x ws)
  then obtain k v kv rest where kvs: "kvs = (k, v) # kv # rest" by auto
  with 3(3) [of k v] have free: "brace_free (k @ ''='')" "brace_free '', ''" by simp_all
  have "x # ws = map (\<lambda>(k, v). k @ ''='' @ escape_braces (f v)) (kv # rest)" using 3(2) kvs by simp
  from 3(1) [OF this] 3(3) kvs
  have IH: "format_plain (py_join '', '' (map (\<lambda>(k, v). k @ ''='' @ escape_braces (f v)) (kv # rest)) @ s)
      = map_option ((@) (py_join '', '' (map (\<lambda>(k, v). k @ ''='' @ f v) (kv # rest)))) (format_plain s)" by auto
  show ?case using format_plain_free [OF free(1)] format_plain_free [OF free(2)] IH
    by (cases "format_plain s") (simp_all add: kvs format_plain_escaped option.map_comp comp_def)
qed

text \<open>
  A line of the file is printed as it is meant, whatever the values of the context: they are escaped.
  The message, the place, the id and the keys are not: the line needs them to be free of braces, and a
  message with a single opening brace has no line.
\<close>

lemma file_line_printed:
  assumes "brace_free (time_str r @ ljust 8 (lg_level r) @ location r @ rid_text r @ lg_message r)"
    and "\<And>k v. (k, v) \<in> set (extra_fields r) \<Longrightarrow> brace_free k"
  shows "format_plain (file_format dumps show r) = Some (line_text (\<lambda>s. s) dumps show r)"
proof -
  let ?head = "time_str r @ '' | '' @ ljust 8 (lg_level r) @ '' | '' @ location r @ rid_text r @ '' - '' @ lg_message r"
  have "format_plain (context_text escape_braces dumps show r @ [newline])
      = Some (context_text (\<lambda>s. s) dumps show r @ [newline])"
    using format_parts [OF assms(2), where f = "safe_value dumps show" and s = "[newline]"]
    by (simp add: format_plain_free [of "'' | ''", simplified] context_text_def Let_def format_plain_char newline_def)
  moreover have "brace_free ?head" using assms(1) by simp
  from format_plain_free [OF this] have "format_plain (?head @ s) = map_option ((@) ?head) (format_plain s)" for s .
  ultimately show ?thesis by (simp add: file_format_def line_text_def)
qed

lemma brace_loses_line:
  assumes "brace_free p" "c \<noteq> CHR ''{''"
  shows "format_plain (p @ CHR ''{'' # c # s) = None"
  using format_plain_free [OF assms(1)] assms(2) by simp

end
