(* ===== verification/Library_Logs.thy ===== *)
theory Library_Logs
  imports Log_Format
begin

text \<open>
  How \<open>setup_logging\<close> (\<open>app/core/logging/setup.py\<close>) takes over the loggers of Python's \<open>logging\<close>, which the
  libraries use: what it sets on the root and on the existing loggers, which handlers a record meets after it, and
  how \<open>InterceptHandler\<close> names the level of a record.
\<close>

section \<open>The loggers of the standard library\<close>

text \<open>
  The table holds the loggers by their dotted names; \<open>None\<close> is a placeholder, which stands for a name that only has
  loggers below it.  A logger without a level has 0.
\<close>

datatype handler = InterceptHandler | OtherHandler string

record std_logger =
  sl_level :: nat
  sl_handlers :: "handler list"
  sl_propagate :: bool

record log_tree =
  lt_root_level :: nat
  lt_root_handlers :: "handler list"
  lt_loggers :: "(string \<times> std_logger option) list"

definition new_logger :: std_logger where
  "new_logger = \<lparr>sl_level = 0, sl_handlers = [], sl_propagate = True\<rparr>"

definition get_logger :: "log_tree \<Rightarrow> string \<Rightarrow> std_logger" where
  "get_logger t name = (case map_of (lt_loggers t) name of Some (Some l) \<Rightarrow> l | _ \<Rightarrow> new_logger)"

text \<open>The names above a name, the nearest first, and the loggers a record passes on its way to the root.\<close>

definition names_above :: "string \<Rightarrow> string list" where
  "names_above name = (let parts = py_split (CHR ''.'') name
     in map (\<lambda>n. py_join ''.'' (take n parts)) (rev [1..<length parts]))"

definition is_logger :: "log_tree \<Rightarrow> string \<Rightarrow> bool" where
  "is_logger t name = (case map_of (lt_loggers t) name of Some (Some l) \<Rightarrow> True | _ \<Rightarrow> False)"

definition logger_chain :: "log_tree \<Rightarrow> string \<Rightarrow> std_logger list" where
  "logger_chain t name = map (get_logger t) (name # filter (is_logger t) (names_above name))"

primrec call_handlers :: "std_logger list \<Rightarrow> handler list \<Rightarrow> handler list" where
  "call_handlers [] root = root"
| "call_handlers (l # ls) root = sl_handlers l @ (if sl_propagate l then call_handlers ls root else [])"

definition handlers_met :: "log_tree \<Rightarrow> string \<Rightarrow> handler list" where
  "handlers_met t name = call_handlers (logger_chain t name) (lt_root_handlers t)"

primrec effective_level :: "std_logger list \<Rightarrow> nat \<Rightarrow> nat" where
  "effective_level [] root = root"
| "effective_level (l # ls) root = (if sl_level l \<noteq> 0 then sl_level l else effective_level ls root)"

definition delivered :: "log_tree \<Rightarrow> string \<Rightarrow> nat \<Rightarrow> handler list" where
  "delivered t name level =
     (if effective_level (logger_chain t name) (lt_root_level t) \<le> level then handlers_met t name else [])"

section \<open>Setting up\<close>

text \<open>The level names that \<open>setLevel\<close> takes; loguru knows those of \<open>severity\<close>.\<close>

definition std_level :: "string \<Rightarrow> nat option" where
  "std_level = map_of [(''CRITICAL'', 50), (''FATAL'', 50), (''ERROR'', 40), (''WARN'', 30), (''WARNING'', 30), (''INFO'', 20),
     (''DEBUG'', 10), (''NOTSET'', 0)]"

definition take_over :: "nat \<Rightarrow> log_tree \<Rightarrow> log_tree" where
  "take_over level t =
     (let t = t\<lparr>lt_root_level := level, lt_root_handlers := [InterceptHandler],
            lt_loggers := map (\<lambda>(name, l). (name, Some ((case l of None \<Rightarrow> new_logger | Some l \<Rightarrow> l)
              \<lparr>sl_handlers := [], sl_propagate := True\<rparr>))) (lt_loggers t)\<rparr>
      in t\<lparr>lt_loggers := AList.update ''uvicorn.access''
           (Some ((get_logger t ''uvicorn.access'')\<lparr>sl_propagate := False\<rparr>)) (lt_loggers t)\<rparr>)"

text \<open>\<open>Inl\<close> is the \<open>ValueError\<close> for an unknown level, of \<open>setLevel\<close> or of the first \<open>logger.add\<close>.\<close>

definition setup_logging :: "string \<Rightarrow> string \<Rightarrow> string \<Rightarrow> log_tree \<Rightarrow> app_error + sink list \<times> log_tree" where
  "setup_logging log_level log_file environment t = (case std_level log_level of
     None \<Rightarrow> Inl (ValueError ''Unknown level'')
   | Some level \<Rightarrow>
       if severity log_level = None then Inl (ValueError ''Level does not exist'')
       else Inr (sinks log_level log_file environment, take_over level t))"

text \<open>The service starts with five levels; TRACE and SUCCESS, which the sinks know as well, stop it.\<close>

lemma accepted_levels:
  "(\<exists>r. setup_logging log_level log_file environment t = Inr r) \<longleftrightarrow>
   log_level \<in> {''CRITICAL'', ''ERROR'', ''WARNING'', ''INFO'', ''DEBUG''}"
  by (auto simp: setup_logging_def std_level_def severity_def split: if_splits)

lemma trace_refused: "setup_logging ''TRACE'' log_file environment t = Inl (ValueError ''Unknown level'')"
  by (simp add: setup_logging_def std_level_def)

section \<open>Where the records go\<close>

lemma taken_logger:
  "get_logger (take_over level t) name =
     (get_logger t name)\<lparr>sl_handlers := (if name \<in> dom (map_of (lt_loggers t)) then [] else sl_handlers (get_logger t name)),
        sl_propagate := (if name = ''uvicorn.access'' then False
          else if name \<in> dom (map_of (lt_loggers t)) then True else sl_propagate (get_logger t name))\<rparr>"
  by (auto simp: take_over_def get_logger_def Let_def update_conv' map_of_map new_logger_def split: option.splits)

lemma taken_handlers: "sl_handlers (get_logger (take_over level t) name) = []"
  unfolding taken_logger by (auto simp: get_logger_def new_logger_def split: option.splits)

lemma taken_propagate: "sl_propagate (get_logger (take_over level t) name) \<longleftrightarrow> name \<noteq> ''uvicorn.access''"
  unfolding taken_logger by (auto simp: get_logger_def new_logger_def split: option.splits)

lemma call_handlers_quiet:
  "(\<And>l. l \<in> set ls \<Longrightarrow> sl_handlers l = []) \<Longrightarrow>
   call_handlers ls root = (if \<forall>l\<in>set ls. sl_propagate l then root else [])"
  by (induction ls) auto

text \<open>
  After the set-up a record of any logger meets the interceptor, once and nothing else, but for the access log of
  uvicorn and what is below it, which meets no handler: the middleware logs the requests.
\<close>

lemma record_intercepted:
  assumes "setup_logging log_level log_file environment t = Inr (ks, t')"
  shows "handlers_met t' name =
    (if ''uvicorn.access'' \<in> set (name # names_above name) then [] else [InterceptHandler])"
proof -
  obtain level where t': "t' = take_over level t"
    using assms by (auto simp: setup_logging_def split: option.splits if_splits)
  have "is_logger t' ''uvicorn.access''" "lt_root_handlers t' = [InterceptHandler]"
    by (simp_all add: t' take_over_def is_logger_def Let_def update_conv')
  moreover have "handlers_met t' name =
      (if \<forall>l\<in>set (logger_chain t' name). sl_propagate l then lt_root_handlers t' else [])"
    unfolding handlers_met_def by (rule call_handlers_quiet) (auto simp: logger_chain_def t' taken_handlers)
  ultimately show ?thesis by (auto simp: logger_chain_def t' taken_propagate)
qed

section \<open>The interceptor\<close>

text \<open>The level handed to loguru: the name of the record's level where loguru knows it, its number otherwise.\<close>

definition emit_level :: "string \<Rightarrow> nat \<Rightarrow> string + nat" where
  "emit_level levelname levelno = (if severity levelname \<noteq> None then Inl levelname else Inr levelno)"

text \<open>The record that loguru gets: the context of the request is bound to it, besides what the patcher adds.\<close>

definition bound_context :: "log_fields option \<Rightarrow> log_fields" where
  "bound_context ctx = (case ctx of Some fs \<Rightarrow> fs | None \<Rightarrow> [])"

text \<open>A level of the standard library keeps its number.\<close>

lemma emitted_severity:
  assumes "(levelname, levelno) \<in> {(''CRITICAL'', 50), (''ERROR'', 40), (''WARNING'', 30), (''INFO'', 20), (''DEBUG'', 10)}"
  shows "emit_level levelname levelno = Inl levelname" "severity levelname = Some levelno"
  using assms by (auto simp: emit_level_def severity_def)

end
