(* ===== verification/Ddl.thy ===== *)
theory Ddl
  imports Prelude
begin

text \<open>
  The database the scripts of \<open>alembic/versions\<close> work on, and the operations they are made of.  A schema
  is its tables, with columns, constraints, indexes and rows, and its enumerations; an operation
  fails as PostgreSQL fails, and the rest of a script is not run then.
\<close>

section \<open>Schemas\<close>

text \<open>
  The types the scripts use.  \<open>sa.Enum\<close> carries its labels; a column of a table refers to the
  enumeration by its name.
\<close>

datatype sql_type = Uuid | VarChar nat | TextType | IntegerType | BooleanType | Jsonb | TimestampTz
  | Enum "string list" string | EnumRef string

datatype server_default = Now | Literal string

record column_def =
  cd_name :: string
  cd_type :: sql_type
  cd_nullable :: bool
  cd_default :: "server_default option"

datatype table_constraint =
    PrimaryKey "string list"
  | Unique "string option" "string list"
  | ForeignKey "string list" string "string list" string

record index_def =
  ix_name :: string
  ix_columns :: "string list"
  ix_unique :: bool

text \<open>A cell holds the text of its value, \<open>None\<close> for NULL.\<close>

type_synonym cells = "(string \<times> string option) list"

record table_def =
  td_columns :: "column_def list"
  td_constraints :: "table_constraint list"
  td_indexes :: "index_def list"
  td_rows :: "cells list"

text \<open>
  \<open>sc_fresh\<close> are the labels added to an enumeration by the transaction that runs: they cannot be used
  before it commits.
\<close>

record schema =
  sc_tables :: "(string \<times> table_def) list"
  sc_enums :: "(string \<times> string list) list"
  sc_fresh :: "(string \<times> string) list"

definition empty_schema :: schema where
  "empty_schema = \<lparr>sc_tables = [], sc_enums = [], sc_fresh = []\<rparr>"

definition table_names :: "schema \<Rightarrow> string list" where
  "table_names s = map fst (sc_tables s)"

definition enum_names :: "schema \<Rightarrow> string list" where
  "enum_names s = map fst (sc_enums s)"

definition column_names :: "table_def \<Rightarrow> string list" where
  "column_names t = map cd_name (td_columns t)"

definition alter_table :: "string \<Rightarrow> (table_def \<Rightarrow> table_def) \<Rightarrow> schema \<Rightarrow> schema" where
  "alter_table n f s = s\<lparr>sc_tables := map (\<lambda>(m, t). (m, if m = n then f t else t)) (sc_tables s)\<rparr>"

definition index_names :: "schema \<Rightarrow> string list" where
  "index_names s = concat (map (\<lambda>(n, t). map ix_name (td_indexes t)) (sc_tables s))"

fun constraint_columns :: "table_constraint \<Rightarrow> string list" where
  "constraint_columns (PrimaryKey cs) = cs"
| "constraint_columns (Unique n cs) = cs"
| "constraint_columns (ForeignKey cs target refs ondelete) = cs"

fun references :: "string \<Rightarrow> table_constraint \<Rightarrow> string list" where
  "references n (ForeignKey cs target refs ondelete) = (if target = n then refs else [])"
| "references n _ = []"

section \<open>Checks\<close>

text \<open>Two rows with the same values under a unique key are refused; NULL differs from NULL.\<close>

definition row_key :: "string list \<Rightarrow> cells \<Rightarrow> string option list" where
  "row_key cs r = map (\<lambda>c. case map_of r c of Some v \<Rightarrow> v | None \<Rightarrow> None) cs"

definition key_holds :: "cells list \<Rightarrow> string list \<Rightarrow> bool" where
  "key_holds rs cs = distinct (filter (\<lambda>k. None \<notin> set k) (map (row_key cs) rs))"

fun constraint_key :: "table_constraint \<Rightarrow> string list list" where
  "constraint_key (PrimaryKey cs) = [cs]"
| "constraint_key (Unique n cs) = [cs]"
| "constraint_key (ForeignKey cs target refs ondelete) = []"

definition unique_keys :: "table_def \<Rightarrow> string list list" where
  "unique_keys t = concat (map constraint_key (td_constraints t)) @ map ix_columns (filter ix_unique (td_indexes t))"

definition uniques_hold :: "table_def \<Rightarrow> bool" where
  "uniques_hold t = list_all (key_holds (td_rows t)) (unique_keys t)"

fun target_ok :: "(string \<times> table_def) list \<Rightarrow> table_constraint \<Rightarrow> bool" where
  "target_ok ts (ForeignKey cs target refs ondelete) =
     (case map_of ts target of None \<Rightarrow> False | Some t \<Rightarrow> set refs \<subseteq> set (column_names t))"
| "target_ok ts _ = True"

fun type_ok :: "string list \<Rightarrow> sql_type \<Rightarrow> bool" where
  "type_ok es (EnumRef e) = (e \<in> set es)"
| "type_ok es (Enum labels e) = (e \<in> set es)"
| "type_ok es _ = True"

fun stored_type :: "sql_type \<Rightarrow> sql_type" where
  "stored_type (Enum labels e) = EnumRef e"
| "stored_type ty = ty"

definition stored_column :: "column_def \<Rightarrow> column_def" where
  "stored_column c = c\<lparr>cd_type := stored_type (cd_type c)\<rparr>"

definition declared_enums :: "column_def list \<Rightarrow> (string \<times> string list) list" where
  "declared_enums cols = concat (map (\<lambda>c. case cd_type c of Enum labels e \<Rightarrow> [(e, labels)] | _ \<Rightarrow> []) cols)"

section \<open>Operations\<close>

datatype operation =
    CreateTable string "column_def list" "table_constraint list"
  | DropTable string
  | CreateIndex string string "string list" bool
  | DropIndex string string
  | AddColumn string column_def
  | DropColumn string string
  | AddEnumValue string string
  | Commit
  | UpdateEnum string string string string
  | DropTypeIfExists string

definition new_table :: "column_def list \<Rightarrow> table_constraint list \<Rightarrow> table_def" where
  "new_table cols cons = \<lparr>td_columns = map stored_column cols, td_constraints = cons, td_indexes = [], td_rows = []\<rparr>"

definition default_cell :: "string \<Rightarrow> column_def \<Rightarrow> string option" where
  "default_cell now c = (case cd_default c of None \<Rightarrow> None | Some Now \<Rightarrow> Some now | Some (Literal v) \<Rightarrow> Some v)"

definition add_column :: "string \<Rightarrow> column_def \<Rightarrow> table_def \<Rightarrow> table_def" where
  "add_column now c t = t\<lparr>td_columns := td_columns t @ [stored_column c],
     td_rows := map (\<lambda>r. r @ [(cd_name c, default_cell now c)]) (td_rows t)\<rparr>"

text \<open>The constraints and indexes of the table that use the column go with it.\<close>

definition drop_column :: "string \<Rightarrow> table_def \<Rightarrow> table_def" where
  "drop_column c t = t\<lparr>td_columns := filter (\<lambda>d. cd_name d \<noteq> c) (td_columns t),
     td_constraints := filter (\<lambda>k. c \<notin> set (constraint_columns k)) (td_constraints t),
     td_indexes := filter (\<lambda>i. c \<notin> set (ix_columns i)) (td_indexes t),
     td_rows := map (filter (\<lambda>(d, v). d \<noteq> c)) (td_rows t)\<rparr>"

definition add_index :: "index_def \<Rightarrow> table_def \<Rightarrow> table_def" where
  "add_index i t = t\<lparr>td_indexes := td_indexes t @ [i]\<rparr>"

definition drop_index :: "string \<Rightarrow> table_def \<Rightarrow> table_def" where
  "drop_index n t = t\<lparr>td_indexes := filter (\<lambda>i. ix_name i \<noteq> n) (td_indexes t)\<rparr>"

definition set_cell :: "string \<Rightarrow> string \<Rightarrow> string \<Rightarrow> cells \<Rightarrow> cells" where
  "set_cell c new old r = map (\<lambda>(d, v). (d, if d = c \<and> v = Some old then Some new else v)) r"

definition update_cells :: "string \<Rightarrow> string \<Rightarrow> string \<Rightarrow> table_def \<Rightarrow> table_def" where
  "update_cells c new old t = t\<lparr>td_rows := map (set_cell c new old) (td_rows t)\<rparr>"

definition column_enum :: "table_def \<Rightarrow> string \<Rightarrow> string option" where
  "column_enum t c = (case find (\<lambda>d. cd_name d = c) (td_columns t) of
     Some d \<Rightarrow> (case cd_type d of EnumRef e \<Rightarrow> Some e | _ \<Rightarrow> None) | None \<Rightarrow> None)"

definition enum_used :: "string \<Rightarrow> schema \<Rightarrow> bool" where
  "enum_used e s = list_ex (\<lambda>(n, t). list_ex (\<lambda>c. cd_type c = EnumRef e) (td_columns t)) (sc_tables s)"

definition add_label :: "string \<Rightarrow> (string \<times> string list) \<Rightarrow> (string \<times> string list)" where
  "add_label v el = (fst el, if v \<in> set (snd el) then snd el else snd el @ [v])"

text \<open>\<open>now\<close> is the text of the current time.  \<open>CREATE TABLE\<close> creates the enumerations of its columns first.\<close>

fun apply_op :: "string \<Rightarrow> operation \<Rightarrow> schema \<Rightarrow> schema option" where
  "apply_op now (CreateTable n cols cons) s =
     (let ts = sc_tables s @ [(n, new_table cols cons)]; es = sc_enums s @ declared_enums cols in
      if n \<notin> set (table_names s) \<and> distinct (map fst es) \<and> distinct (map cd_name cols)
         \<and> list_all (\<lambda>c. type_ok (map fst es) (cd_type c)) cols
         \<and> list_all (\<lambda>k. set (constraint_columns k) \<subseteq> set (map cd_name cols) \<and> target_ok ts k) cons
      then Some (s\<lparr>sc_tables := ts, sc_enums := es\<rparr>) else None)"
| "apply_op now (DropTable n) s =
     (if n \<in> set (table_names s)
         \<and> list_all (\<lambda>(m, t). m = n \<or> list_all (\<lambda>k. references n k = []) (td_constraints t)) (sc_tables s)
      then Some (s\<lparr>sc_tables := filter (\<lambda>(m, t). m \<noteq> n) (sc_tables s)\<rparr>) else None)"
| "apply_op now (CreateIndex i n cs unique) s =
     (case map_of (sc_tables s) n of None \<Rightarrow> None
      | Some t \<Rightarrow> let ix = \<lparr>ix_name = i, ix_columns = cs, ix_unique = unique\<rparr> in
          if i \<notin> set (index_names s) \<and> set cs \<subseteq> set (column_names t) \<and> (unique \<longrightarrow> key_holds (td_rows t) cs)
          then Some (alter_table n (add_index ix) s) else None)"
| "apply_op now (DropIndex i n) s =
     (case map_of (sc_tables s) n of None \<Rightarrow> None
      | Some t \<Rightarrow> if i \<in> set (map ix_name (td_indexes t)) then Some (alter_table n (drop_index i) s) else None)"
| "apply_op now (AddColumn n c) s =
     (case map_of (sc_tables s) n of None \<Rightarrow> None
      | Some t \<Rightarrow>
          if cd_name c \<notin> set (column_names t) \<and> type_ok (enum_names s) (cd_type c)
             \<and> (cd_nullable c \<or> default_cell now c \<noteq> None \<or> td_rows t = [])
          then Some (alter_table n (add_column now c) s) else None)"
| "apply_op now (DropColumn n c) s =
     (case map_of (sc_tables s) n of None \<Rightarrow> None
      | Some t \<Rightarrow>
          if c \<in> set (column_names t)
             \<and> list_all (\<lambda>(m, u). m = n \<or> list_all (\<lambda>k. c \<notin> set (references n k)) (td_constraints u)) (sc_tables s)
          then Some (alter_table n (drop_column c) s) else None)"
| "apply_op now (AddEnumValue e v) s =
     (case map_of (sc_enums s) e of None \<Rightarrow> None
      | Some labels \<Rightarrow> Some (s\<lparr>sc_enums := map (\<lambda>el. if fst el = e then add_label v el else el) (sc_enums s),
          sc_fresh := (if v \<in> set labels then sc_fresh s else (e, v) # sc_fresh s)\<rparr>))"
| "apply_op now Commit s = Some (s\<lparr>sc_fresh := []\<rparr>)"
| "apply_op now (UpdateEnum n c new old) s =
     (case map_of (sc_tables s) n of None \<Rightarrow> None
      | Some t \<Rightarrow> (case column_enum t c of None \<Rightarrow> None
        | Some e \<Rightarrow> (case map_of (sc_enums s) e of None \<Rightarrow> None
          | Some labels \<Rightarrow>
              if new \<in> set labels \<and> old \<in> set labels \<and> (e, new) \<notin> set (sc_fresh s) \<and> (e, old) \<notin> set (sc_fresh s)
                 \<and> uniques_hold (update_cells c new old t)
              then Some (alter_table n (update_cells c new old) s) else None)))"
| "apply_op now (DropTypeIfExists e) s =
     (if enum_used e s then None else Some (s\<lparr>sc_enums := filter (\<lambda>(f, labels). f \<noteq> e) (sc_enums s)\<rparr>))"

fun run_script :: "string \<Rightarrow> operation list \<Rightarrow> schema \<Rightarrow> schema option" where
  "run_script now [] s = Some s"
| "run_script now (op # ops) s = (case apply_op now op s of None \<Rightarrow> None | Some t \<Rightarrow> run_script now ops t)"

lemma run_script_append [simp]:
  "run_script now (xs @ ys) s = (case run_script now xs s of None \<Rightarrow> None | Some t \<Rightarrow> run_script now ys t)"
  by (induction xs arbitrary: s) (auto split: option.splits)

section \<open>Sound schemas\<close>

definition sound_table :: "schema \<Rightarrow> table_def \<Rightarrow> bool" where
  "sound_table s t = (distinct (column_names t)
     \<and> list_all (\<lambda>k. set (constraint_columns k) \<subseteq> set (column_names t) \<and> target_ok (sc_tables s) k) (td_constraints t)
     \<and> list_all (\<lambda>i. set (ix_columns i) \<subseteq> set (column_names t)) (td_indexes t)
     \<and> list_all (\<lambda>c. type_ok (enum_names s) (cd_type c)) (td_columns t)
     \<and> list_all (\<lambda>r. map fst r = column_names t) (td_rows t))"

definition sound :: "schema \<Rightarrow> bool" where
  "sound s = (distinct (table_names s) \<and> distinct (enum_names s)
     \<and> list_all (\<lambda>(n, t). sound_table s t) (sc_tables s))"

lemma sound_empty [simp]: "sound empty_schema"
  by (simp add: sound_def empty_schema_def table_names_def enum_names_def)

section \<open>Undoing an operation\<close>

text \<open>What a downgrade script runs for an operation of the upgrade, and the operations that have such an inverse.\<close>

fun inverse_op :: "operation \<Rightarrow> operation list" where
  "inverse_op (CreateTable n cols cons) = DropTable n # map (\<lambda>el. DropTypeIfExists (fst el)) (declared_enums cols)"
| "inverse_op (CreateIndex i n cs unique) = [DropIndex i n]"
| "inverse_op (AddColumn n c) = [DropColumn n (cd_name c)]"
| "inverse_op _ = []"

fun invertible :: "operation \<Rightarrow> bool" where
  "invertible (CreateTable n cols cons) = True"
| "invertible (CreateIndex i n cs unique) = True"
| "invertible (AddColumn n c) = True"
| "invertible _ = False"

definition inverse_script :: "operation list \<Rightarrow> operation list" where
  "inverse_script ops = concat (map inverse_op (rev ops))"

lemma map_of_alter:
  "map_of (map (\<lambda>(m, t). (m, if m = n then f t else t)) ts) m = map_option (\<lambda>t. if m = n then f t else t) (map_of ts m)"
  by (induction ts) auto

lemma alter_names [simp]:
  "table_names (alter_table n f s) = table_names s" "enum_names (alter_table n f s) = enum_names s"
  "sc_enums (alter_table n f s) = sc_enums s" "sc_fresh (alter_table n f s) = sc_fresh s"
  by (auto simp: alter_table_def table_names_def enum_names_def)

lemma tables_alter: "map_of (sc_tables (alter_table n f s)) m = map_option (\<lambda>t. if m = n then f t else t) (map_of (sc_tables s) m)"
  by (simp add: alter_table_def map_of_alter)

lemma alter_back:
  assumes "\<And>t. (n, t) \<in> set (sc_tables s) \<Longrightarrow> g (f t) = t"
  shows "alter_table n g (alter_table n f s) = s"
proof -
  have "map (\<lambda>(m, t). (m, if m = n then g t else t)) (map (\<lambda>(m, t). (m, if m = n then f t else t)) (sc_tables s)) = sc_tables s"
    using assms by (auto intro!: map_idI)
  then show ?thesis by (simp add: alter_table_def)
qed

lemma table_in: "sound s \<Longrightarrow> (n, t) \<in> set (sc_tables s) \<longleftrightarrow> map_of (sc_tables s) n = Some t"
  by (simp add: sound_def table_names_def)

lemma sound_tableD: "sound s \<Longrightarrow> map_of (sc_tables s) n = Some t \<Longrightarrow> sound_table s t"
  by (auto simp: sound_def list_all_iff dest!: map_of_SomeD)

text \<open>A reference stays good when the tables only gain columns.\<close>

lemma target_ok_mono:
  assumes "target_ok ts k" "\<And>m t. map_of ts m = Some t \<Longrightarrow> \<exists>u. map_of us m = Some u \<and> set (column_names t) \<subseteq> set (column_names u)"
  shows "target_ok us k"
proof (cases k)
  case (ForeignKey cs target refs ondelete)
  then obtain t where "map_of ts target = Some t" "set refs \<subseteq> set (column_names t)"
    using assms(1) by (auto split: option.splits)
  with assms(2) [of target t] ForeignKey show ?thesis by auto
qed simp_all

lemma type_ok_mono: "type_ok es ty \<Longrightarrow> set es \<subseteq> set fs \<Longrightarrow> type_ok fs ty"
  by (cases ty) auto

lemma type_ok_stored [simp]: "type_ok es (stored_type ty) = type_ok es ty"
  by (cases ty) auto

lemma sound_alter:
  assumes "sound s"
    and cols: "\<And>t. (n, t) \<in> set (sc_tables s) \<Longrightarrow> set (column_names t) \<subseteq> set (column_names (f t))"
    and keep: "\<And>t. (n, t) \<in> set (sc_tables s) \<Longrightarrow> sound_table s t \<Longrightarrow> sound_table s (f t)"
  shows "sound (alter_table n f s)"
proof -
  have grow: "\<exists>u. map_of (sc_tables (alter_table n f s)) m = Some u \<and> set (column_names t) \<subseteq> set (column_names u)"
    if "map_of (sc_tables s) m = Some t" for m t
    using that cols [of t] table_in [OF assms(1)] by (cases "m = n") (auto simp: tables_alter)
  have lift: "sound_table (alter_table n f s) u" if "sound_table s u" for u
    using that target_ok_mono [OF _ grow] by (auto simp: sound_table_def list_all_iff)
  have "sound_table s u" if "(m, u) \<in> set (sc_tables (alter_table n f s))" for m u
    using that assms(1) keep by (fastforce simp: alter_table_def sound_def list_all_iff)
  then have "\<forall>(m, u)\<in>set (sc_tables (alter_table n f s)). sound_table (alter_table n f s) u" using lift by blast
  then show ?thesis using assms(1) by (simp add: sound_def list_all_iff)
qed

lemma inverse_index:
  assumes "sound s" "apply_op now (CreateIndex i n cs unique) s = Some t"
  shows "run_script now' (inverse_op (CreateIndex i n cs unique)) t = Some s \<and> sound t"
proof -
  let ?ix = "\<lparr>ix_name = i, ix_columns = cs, ix_unique = unique\<rparr>"
  obtain d where d: "map_of (sc_tables s) n = Some d" "i \<notin> set (index_names s)" "set cs \<subseteq> set (column_names d)"
    and t: "t = alter_table n (add_index ?ix) s"
    using assms(2) by (auto simp: Let_def split: option.splits if_splits)
  have fresh: "i \<notin> ix_name ` set (td_indexes u)" if "(n, u) \<in> set (sc_tables s)" for u
    using d(2) that by (force simp: index_names_def)
  have "alter_table n (drop_index i) t = s"
    unfolding t by (rule alter_back) (use fresh in \<open>force simp: drop_index_def add_index_def filter_id_conv intro: table_def.equality\<close>)
  moreover have "map_of (sc_tables t) n = Some (add_index ?ix d)" by (simp add: t tables_alter d(1))
  moreover have "sound t"
    unfolding t
    by (rule sound_alter [OF assms(1)])
      (use d(1) d(3) table_in [OF assms(1)] in \<open>auto simp: add_index_def sound_table_def column_names_def\<close>)
  ultimately show ?thesis by (simp add: add_index_def)
qed

lemma filter_cells: "c \<notin> set (map fst r) \<Longrightarrow> filter (\<lambda>(d, v). d \<noteq> c) (r @ [(c, v)]) = r"
  by (force simp: filter_id_conv)

lemma drop_added_column:
  assumes "sound_table s t" "cd_name c \<notin> set (column_names t)"
  shows "drop_column (cd_name c) (add_column now c t) = t"
proof -
  have cons: "cd_name c \<notin> set (constraint_columns k)" if "k \<in> set (td_constraints t)" for k
    using assms that by (auto simp: sound_table_def list_all_iff)
  have idx: "cd_name c \<notin> set (ix_columns i)" if "i \<in> set (td_indexes t)" for i
    using assms that by (auto simp: sound_table_def list_all_iff)
  have rows: "cd_name c \<notin> set (map fst r)" if "r \<in> set (td_rows t)" for r
    using assms that by (simp add: sound_table_def list_all_iff)
  have "map (filter (\<lambda>(d, v). d \<noteq> cd_name c)) (map (\<lambda>r. r @ [(cd_name c, default_cell now c)]) (td_rows t)) = td_rows t"
    using rows by (auto intro!: map_idI simp: filter_cells simp del: filter_append)
  moreover have "filter (\<lambda>d. cd_name d \<noteq> cd_name c) (td_columns t @ [stored_column c]) = td_columns t"
    using assms(2) by (auto simp: column_names_def stored_column_def filter_id_conv) (metis imageI)
  moreover have "filter (\<lambda>k. cd_name c \<notin> set (constraint_columns k)) (td_constraints t) = td_constraints t"
    "filter (\<lambda>i. cd_name c \<notin> set (ix_columns i)) (td_indexes t) = td_indexes t"
    using cons idx by (simp_all add: filter_id_conv)
  ultimately show ?thesis by (simp add: drop_column_def add_column_def)
qed

lemma column_names_add [simp]: "column_names (add_column now c t) = column_names t @ [cd_name c]"
  by (simp add: column_names_def add_column_def stored_column_def)

lemma sound_add_column:
  assumes "sound_table s t" "cd_name c \<notin> set (column_names t)" "type_ok (enum_names s) (cd_type c)"
  shows "sound_table s (add_column now c t)"
  using assms by (auto simp: sound_table_def list_all_iff) (auto simp: add_column_def stored_column_def)

lemma inverse_column:
  assumes "sound s" "apply_op now (AddColumn n c) s = Some t"
  shows "run_script now' (inverse_op (AddColumn n c)) t = Some s \<and> sound t"
proof -
  obtain d where d: "map_of (sc_tables s) n = Some d" "cd_name c \<notin> set (column_names d)" "type_ok (enum_names s) (cd_type c)"
    and t: "t = alter_table n (add_column now c) s"
    using assms(2) by (auto split: option.splits if_splits)
  have only: "u = d" if "(n, u) \<in> set (sc_tables s)" for u using that d(1) table_in [OF assms(1)] by simp
  have undone: "alter_table n (drop_column (cd_name c)) t = s"
    unfolding t by (rule alter_back) (use only drop_added_column [OF sound_tableD [OF assms(1) d(1)] d(2)] in auto)
  have "sound t"
    unfolding t by (rule sound_alter [OF assms(1)]) (use only d sound_add_column in auto)
  moreover have "cd_name c \<notin> set (references n k)" if "(m, u) \<in> set (sc_tables t)" "m \<noteq> n" "k \<in> set (td_constraints u)" for m u k
  proof -
    have "(m, u) \<in> set (sc_tables s)" using that by (auto simp: t alter_table_def)
    then have "target_ok (sc_tables s) k"
      using assms(1) that(3) by (auto simp: sound_def sound_table_def list_all_iff)
    then show ?thesis using d by (cases k) auto
  qed
  ultimately show ?thesis using undone by (auto simp: t tables_alter d(1) list_all_iff)
qed

text \<open>Dropping enumerations that no table uses.\<close>

lemma drop_enums:
  assumes "\<And>e. e \<in> set es \<Longrightarrow> \<not> enum_used e s"
  shows "run_script now (map DropTypeIfExists es) s = Some (s\<lparr>sc_enums := filter (\<lambda>(f, labels). f \<notin> set es) (sc_enums s)\<rparr>)"
  using assms
proof (induction es arbitrary: s)
  case Nil
  then show ?case by simp
next
  case (Cons e es)
  let ?s = "s\<lparr>sc_enums := filter (\<lambda>(f, labels). f \<noteq> e) (sc_enums s)\<rparr>"
  have "\<not> enum_used g ?s" if "g \<in> set es" for g using Cons.prems [of g] that by (simp add: enum_used_def)
  from Cons.IH [OF this] Cons.prems [of e] show ?case
    by (simp, intro arg_cong [where f = "\<lambda>x. s\<lparr>sc_enums := x\<rparr>"]) (auto intro!: filter_cong)
qed

lemma declared_type: "c \<in> set cols \<Longrightarrow> cd_type c = Enum labels e \<Longrightarrow> (e, labels) \<in> set (declared_enums cols)"
  by (force simp: declared_enums_def)

lemma filter_new_keys:
  assumes "distinct (map fst (xs @ ys))"
  shows "filter (\<lambda>(k, v). k \<notin> set (map fst ys)) (xs @ ys) = xs"
proof -
  have "filter (\<lambda>(k, v). k \<notin> set (map fst ys)) ys = []" by (simp add: filter_empty_conv split_beta)
  moreover have "filter (\<lambda>(k, v). k \<notin> set (map fst ys)) xs = xs"
    using assms by (auto simp: filter_id_conv split_beta)
  ultimately show ?thesis by simp
qed

lemma inverse_table:
  assumes s: "sound s" and op: "apply_op now (CreateTable n cols cons) s = Some t"
  shows "run_script now' (inverse_op (CreateTable n cols cons)) t = Some s \<and> sound t"
proof -
  let ?ts = "sc_tables s @ [(n, new_table cols cons)]" and ?es = "sc_enums s @ declared_enums cols"
  have new: "n \<notin> set (table_names s)" "distinct (map fst ?es)" "distinct (map cd_name cols)"
    and types: "\<And>c. c \<in> set cols \<Longrightarrow> type_ok (map fst ?es) (cd_type c)"
    and cons: "\<And>k. k \<in> set cons \<Longrightarrow> set (constraint_columns k) \<subseteq> set (map cd_name cols) \<and> target_ok ?ts k"
    and t: "t = s\<lparr>sc_tables := ?ts, sc_enums := ?es\<rparr>"
    using op by (auto simp: Let_def list_all_iff split: if_splits)
  have ref: "references n k = []" if "(m, u) \<in> set (sc_tables s)" "k \<in> set (td_constraints u)" for m u k
  proof -
    have "target_ok (sc_tables s) k" using s that by (auto simp: sound_def sound_table_def list_all_iff)
    moreover have "map_of (sc_tables s) n = None" using new(1) by (simp add: table_names_def map_of_eq_None_iff)
    ultimately show ?thesis by (cases k) auto
  qed
  have keep: "filter (\<lambda>(m, t). m \<noteq> n) (sc_tables s) = sc_tables s"
    using new(1) by (force simp: table_names_def filter_id_conv)
  let ?u = "t\<lparr>sc_tables := sc_tables s\<rparr>"
  have "\<not> enum_used e ?u" if "e \<in> set (map fst (declared_enums cols))" for e
  proof
    assume "enum_used e ?u"
    then obtain m d c where "(m, d) \<in> set (sc_tables s)" "c \<in> set (td_columns d)" "cd_type c = EnumRef e"
      by (auto simp: enum_used_def list_ex_iff)
    then have "e \<in> set (enum_names s)" using s by (fastforce simp: sound_def sound_table_def list_all_iff)
    then show False using that new(2) by (auto simp: enum_names_def)
  qed
  from drop_enums [OF this, of "map fst (declared_enums cols)" now']
  have "run_script now' (map DropTypeIfExists (map fst (declared_enums cols))) ?u
      = Some (?u\<lparr>sc_enums := filter (\<lambda>(f, labels). f \<notin> set (map fst (declared_enums cols))) ?es\<rparr>)"
    by (simp add: t)
  moreover have "filter (\<lambda>(f, labels). f \<notin> set (map fst (declared_enums cols))) ?es = sc_enums s"
    by (rule filter_new_keys) (use new(2) in simp)
  ultimately have enums: "run_script now' (map (\<lambda>el. DropTypeIfExists (fst el)) (declared_enums cols)) ?u = Some s"
    by (simp add: t comp_def)
  have "apply_op now' (DropTable n) t = Some ?u"
    using ref keep by (auto simp: t table_names_def list_all_iff)
  then have undone: "run_script now' (inverse_op (CreateTable n cols cons)) t = Some s" using enums by simp
  have grow: "\<exists>u. map_of ?ts m = Some u \<and> set (column_names d) \<subseteq> set (column_names u)" if "map_of (sc_tables s) m = Some d" for m d
    using that by (simp add: map_add_Some_iff)
  have old: "sound_table t d" if "sound_table s d" for d
    using that target_ok_mono [OF _ grow] type_ok_mono [of "enum_names s" _ "enum_names t"]
    by (auto simp: sound_table_def list_all_iff t enum_names_def)
  have names: "column_names (new_table cols cons) = map cd_name cols"
    by (simp add: column_names_def new_table_def stored_column_def)
  have "sound_table t (new_table cols cons)"
    unfolding sound_table_def names using new(3) types cons
    by (auto simp: new_table_def stored_column_def list_all_iff t enum_names_def)
  then have "sound t" using s old new by (auto simp: sound_def t table_names_def enum_names_def list_all_iff)
  with undone show ?thesis by blast
qed

lemma inverse_step:
  assumes "sound s" "invertible op" "apply_op now op s = Some t"
  shows "run_script now' (inverse_op op) t = Some s \<and> sound t"
proof (cases op)
  case (CreateTable n cols cons)
  with assms show ?thesis using inverse_table by blast
next
  case (CreateIndex i n cs unique)
  with assms show ?thesis using inverse_index by blast
next
  case (AddColumn n c)
  with assms show ?thesis using inverse_column by blast
qed (use assms(2) in simp_all)

text \<open>A script of such operations is undone by the script of their inverses in reverse order.\<close>

lemma inverse_script_undoes:
  assumes "sound s" "list_all invertible ops" "run_script now ops s = Some t"
  shows "run_script now' (inverse_script ops) t = Some s \<and> sound t"
  using assms
proof (induction ops arbitrary: s)
  case Nil
  then show ?case by (simp add: inverse_script_def)
next
  case (Cons op ops)
  then obtain u where u: "apply_op now op s = Some u" "run_script now ops u = Some t"
    by (auto split: option.splits)
  then have undone: "run_script now' (inverse_op op) u = Some s" "sound u"
    using inverse_step [OF Cons.prems(1)] Cons.prems(2) by auto
  with Cons.IH [OF undone(2)] Cons.prems(2) u(2) show ?case by (simp add: inverse_script_def)
qed

end
