(* ===== verification/Schema_History.thy ===== *)
theory Schema_History
  imports Ddl
begin

text \<open>
  The scripts of \<open>alembic/versions\<close>, in the order of their revisions, and the tables the classes of
  \<open>app/models\<close> declare.
\<close>

section \<open>Scripts\<close>

definition column :: "string \<Rightarrow> sql_type \<Rightarrow> bool \<Rightarrow> server_default option \<Rightarrow> column_def" where
  "column n ty nullable df = \<lparr>cd_name = n, cd_type = ty, cd_nullable = nullable, cd_default = df\<rparr>"

record migration =
  mg_revision :: string
  mg_down :: "string option"
  mg_upgrade :: "operation list"
  mg_downgrade :: "operation list"

definition create_account_tables :: "operation list" where
  "create_account_tables =
    [CreateTable ''newsletter_subscribers''
       [column ''id'' Uuid False None,
        column ''email'' (VarChar 255) False None,
        column ''is_active'' BooleanType False None,
        column ''unsubscribe_token'' (VarChar 64) False None,
        column ''subscribed_at'' TimestampTz False (Some Now),
        column ''unsubscribed_at'' TimestampTz True None]
       [PrimaryKey [''id'']],
     CreateIndex ''ix_newsletter_subscribers_email'' ''newsletter_subscribers'' [''email''] True,
     CreateIndex ''ix_newsletter_subscribers_unsubscribe_token'' ''newsletter_subscribers'' [''unsubscribe_token''] True,
     CreateTable ''platform_templates''
       [column ''id'' Uuid False None,
        column ''title'' (VarChar 255) False None,
        column ''category'' (VarChar 50) False None,
        column ''canvas_data'' Jsonb True None,
        column ''thumbnail_url'' (VarChar 255) True None,
        column ''is_active'' BooleanType False None,
        column ''total_badges_made'' IntegerType False (Some (Literal ''0'')),
        column ''created_at'' TimestampTz True (Some Now),
        column ''updated_at'' TimestampTz True None]
       [PrimaryKey [''id'']],
     CreateIndex ''ix_platform_templates_category'' ''platform_templates'' [''category''] False,
     CreateIndex ''ix_platform_templates_id'' ''platform_templates'' [''id''] False,
     CreateTable ''roles''
       [column ''id'' Uuid False None,
        column ''name'' (VarChar 50) False None,
        column ''created_at'' TimestampTz False (Some Now)]
       [PrimaryKey [''id''],
        Unique (Some ''uq_roles_name'') [''name'']],
     CreateIndex ''ix_roles_name'' ''roles'' [''name''] False,
     CreateTable ''users''
       [column ''id'' Uuid False None,
        column ''first_name'' (VarChar 200) False None,
        column ''last_name'' (VarChar 200) True None,
        column ''email'' (VarChar 255) False None,
        column ''password_hash'' (VarChar 255) True None,
        column ''is_email_verified'' BooleanType False None,
        column ''profile_photo_url'' TextType True None,
        column ''role'' (VarChar 200) True None,
        column ''created_at'' TimestampTz False (Some Now),
        column ''updated_at'' TimestampTz False (Some Now)]
       [PrimaryKey [''id'']],
     CreateIndex ''ix_users_email'' ''users'' [''email''] True,
     CreateTable ''auth_providers''
       [column ''id'' Uuid False None,
        column ''provider'' (VarChar 50) False None,
        column ''provider_user_id'' (VarChar 255) True None,
        column ''user_id'' Uuid False None,
        column ''label'' (VarChar 100) False None,
        column ''is_active'' BooleanType False None,
        column ''created_at'' TimestampTz False (Some Now)]
       [ForeignKey [''user_id''] ''users'' [''id''] ''CASCADE'',
        PrimaryKey [''id''],
        Unique (Some ''uq_provider_provider_user_id'') [''provider'', ''provider_user_id''],
        Unique (Some ''uq_provider_user'') [''provider'', ''user_id'']]]"

definition create_badge_tables :: "operation list" where
  "create_badge_tables =
    [CreateTable ''badges''
       [column ''id'' Uuid False None,
        column ''organiser_id'' Uuid False None,
        column ''platform_template_id'' Uuid False None,
        column ''title'' (VarChar 255) False None,
        column ''canvas_data'' Jsonb False None,
        column ''default_caption'' (VarChar 255) True None,
        column ''destination_link'' (VarChar 255) True None,
        column ''thumbnail_url'' (VarChar 255) True None,
        column ''logo_url'' (VarChar 1024) True None,
        column ''logo_public_id'' (VarChar 512) True None,
        column ''access_type'' IntegerType False None,
        column ''is_published'' BooleanType False None,
        column ''published_at'' TimestampTz True None,
        column ''share_slug'' (VarChar 255) True None,
        column ''share_count'' IntegerType False None,
        column ''creation_count'' IntegerType False None,
        column ''created_at'' TimestampTz True (Some Now),
        column ''updated_at'' TimestampTz True None,
        column ''deleted_at'' TimestampTz True None]
       [ForeignKey [''organiser_id''] ''users'' [''id''] ''CASCADE'',
        ForeignKey [''platform_template_id''] ''platform_templates'' [''id''] ''CASCADE'',
        PrimaryKey [''id''],
        Unique None [''share_slug'']],
     CreateIndex ''ix_badges_id'' ''badges'' [''id''] False,
     CreateIndex ''ix_badges_organiser_id'' ''badges'' [''organiser_id''] False,
     CreateIndex ''ix_badges_platform_template_id'' ''badges'' [''platform_template_id''] False,
     CreateTable ''refresh_tokens''
       [column ''id'' Uuid False None,
        column ''user_id'' Uuid False None,
        column ''token_hash'' (VarChar 255) False None,
        column ''created_at'' TimestampTz False (Some Now),
        column ''expires_at'' TimestampTz False None,
        column ''is_revoked'' BooleanType False None,
        column ''family_id'' Uuid False None,
        column ''user_agent'' TextType True None,
        column ''ip_address'' (VarChar 45) True None,
        column ''last_used_at'' TimestampTz True None]
       [ForeignKey [''user_id''] ''users'' [''id''] ''CASCADE'',
        PrimaryKey [''id'']],
     CreateIndex ''ix_refresh_tokens_family_id'' ''refresh_tokens'' [''family_id''] False,
     CreateIndex ''ix_refresh_tokens_token_hash'' ''refresh_tokens'' [''token_hash''] True,
     CreateIndex ''ix_refresh_tokens_user_id'' ''refresh_tokens'' [''user_id''] False,
     CreateTable ''user_roles''
       [column ''id'' Uuid False None,
        column ''user_id'' Uuid False None,
        column ''role_id'' Uuid False None,
        column ''created_at'' TimestampTz False (Some Now)]
       [ForeignKey [''role_id''] ''roles'' [''id''] ''CASCADE'',
        ForeignKey [''user_id''] ''users'' [''id''] ''CASCADE'',
        PrimaryKey [''id''],
        Unique (Some ''uq_user_roles_user_id_role_id'') [''user_id'', ''role_id'']],
     CreateIndex ''ix_user_roles_role_id'' ''user_roles'' [''role_id''] False,
     CreateIndex ''ix_user_roles_user_id'' ''user_roles'' [''user_id''] False,
     CreateTable ''badge_hashtags''
       [column ''id'' Uuid False None,
        column ''badge_id'' Uuid False None,
        column ''hashtag'' (VarChar 255) False None]
       [ForeignKey [''badge_id''] ''badges'' [''id''] ''CASCADE'',
        PrimaryKey [''id'']],
     CreateIndex ''ix_badge_hashtags_badge_id'' ''badge_hashtags'' [''badge_id''] False,
     CreateIndex ''ix_badge_hashtags_hashtag'' ''badge_hashtags'' [''hashtag''] False,
     CreateIndex ''ix_badge_hashtags_id'' ''badge_hashtags'' [''id''] False]"

definition upgrade_recreate_tables :: "operation list" where
  "upgrade_recreate_tables = create_account_tables @ create_badge_tables"

definition downgrade_recreate_tables :: "operation list" where
  "downgrade_recreate_tables =
    [DropIndex ''ix_badge_hashtags_id'' ''badge_hashtags'',
     DropIndex ''ix_badge_hashtags_hashtag'' ''badge_hashtags'',
     DropIndex ''ix_badge_hashtags_badge_id'' ''badge_hashtags'',
     DropTable ''badge_hashtags'',
     DropIndex ''ix_user_roles_user_id'' ''user_roles'',
     DropIndex ''ix_user_roles_role_id'' ''user_roles'',
     DropTable ''user_roles'',
     DropIndex ''ix_refresh_tokens_user_id'' ''refresh_tokens'',
     DropIndex ''ix_refresh_tokens_token_hash'' ''refresh_tokens'',
     DropIndex ''ix_refresh_tokens_family_id'' ''refresh_tokens'',
     DropTable ''refresh_tokens'',
     DropIndex ''ix_badges_platform_template_id'' ''badges'',
     DropIndex ''ix_badges_organiser_id'' ''badges'',
     DropIndex ''ix_badges_id'' ''badges'',
     DropTable ''badges'',
     DropTable ''auth_providers'',
     DropIndex ''ix_users_email'' ''users'',
     DropTable ''users'',
     DropIndex ''ix_roles_name'' ''roles'',
     DropTable ''roles'',
     DropIndex ''ix_platform_templates_id'' ''platform_templates'',
     DropIndex ''ix_platform_templates_category'' ''platform_templates'',
     DropTable ''platform_templates'',
     DropIndex ''ix_newsletter_subscribers_unsubscribe_token'' ''newsletter_subscribers'',
     DropIndex ''ix_newsletter_subscribers_email'' ''newsletter_subscribers'',
     DropTable ''newsletter_subscribers'']"

definition recreate_tables :: migration where
  "recreate_tables = \<lparr>mg_revision = ''72a9d534274c'', mg_down = None,
     mg_upgrade = upgrade_recreate_tables, mg_downgrade = downgrade_recreate_tables\<rparr>"

definition upgrade_add_preferences :: "operation list" where
  "upgrade_add_preferences =
    [CreateTable ''user_notification_preferences''
       [column ''id'' Uuid False None,
        column ''user_id'' Uuid False None,
        column ''email_template_published'' BooleanType False None,
        column ''email_new_signin'' BooleanType False None,
        column ''updated_at'' TimestampTz False (Some Now)]
       [ForeignKey [''user_id''] ''users'' [''id''] ''CASCADE'',
        PrimaryKey [''id'']],
     CreateIndex ''ix_user_notification_preferences_user_id'' ''user_notification_preferences'' [''user_id''] True]"

definition downgrade_add_preferences :: "operation list" where
  "downgrade_add_preferences =
    [DropIndex ''ix_user_notification_preferences_user_id'' ''user_notification_preferences'',
     DropTable ''user_notification_preferences'']"

definition add_preferences :: migration where
  "add_preferences = \<lparr>mg_revision = ''e5d108a97723'', mg_down = Some ''72a9d534274c'',
     mg_upgrade = upgrade_add_preferences, mg_downgrade = downgrade_add_preferences\<rparr>"

definition upgrade_update_preferences :: "operation list" where
  "upgrade_update_preferences =
    []"

definition downgrade_update_preferences :: "operation list" where
  "downgrade_update_preferences =
    []"

definition update_preferences :: migration where
  "update_preferences = \<lparr>mg_revision = ''67899ad92947'', mg_down = Some ''e5d108a97723'',
     mg_upgrade = upgrade_update_preferences, mg_downgrade = downgrade_update_preferences\<rparr>"

definition upgrade_add_notifications :: "operation list" where
  "upgrade_add_notifications =
    [CreateTable ''notifications''
       [column ''id'' Uuid False None,
        column ''user_id'' Uuid False None,
        column ''type'' (Enum [''BADGE_CREATION'', ''DAILY_DIGEST'', ''WEEKLY_REPORT''] ''notification_type'') False None,
        column ''title'' (VarChar 255) False None,
        column ''body'' (VarChar 2048) False None,
        column ''is_read'' BooleanType False (Some (Literal ''false'')),
        column ''extra_data'' Jsonb True None,
        column ''created_at'' TimestampTz False (Some Now)]
       [ForeignKey [''user_id''] ''users'' [''id''] ''CASCADE'',
        PrimaryKey [''id'']],
     CreateIndex ''ix_notifications_created_at'' ''notifications'' [''created_at''] False,
     CreateIndex ''ix_notifications_is_read'' ''notifications'' [''is_read''] False,
     CreateIndex ''ix_notifications_type'' ''notifications'' [''type''] False,
     CreateIndex ''ix_notifications_user_created'' ''notifications'' [''user_id'', ''created_at''] False,
     CreateIndex ''ix_notifications_user_id'' ''notifications'' [''user_id''] False,
     CreateIndex ''ix_notifications_user_unread'' ''notifications'' [''user_id'', ''is_read''] False,
     AddColumn ''user_notification_preferences'' (column ''notify_badge_creation'' BooleanType False (Some (Literal ''true''))),
     AddColumn ''user_notification_preferences'' (column ''notify_daily_digest'' BooleanType False (Some (Literal ''true''))),
     AddColumn ''user_notification_preferences'' (column ''notify_weekly_report'' BooleanType False (Some (Literal ''true'')))]"

definition downgrade_add_notifications :: "operation list" where
  "downgrade_add_notifications =
    [DropColumn ''user_notification_preferences'' ''notify_weekly_report'',
     DropColumn ''user_notification_preferences'' ''notify_daily_digest'',
     DropColumn ''user_notification_preferences'' ''notify_badge_creation'',
     DropIndex ''ix_notifications_user_unread'' ''notifications'',
     DropIndex ''ix_notifications_user_id'' ''notifications'',
     DropIndex ''ix_notifications_user_created'' ''notifications'',
     DropIndex ''ix_notifications_type'' ''notifications'',
     DropIndex ''ix_notifications_is_read'' ''notifications'',
     DropIndex ''ix_notifications_created_at'' ''notifications'',
     DropTable ''notifications'',
     DropTypeIfExists ''notification_type'']"

definition add_notifications :: migration where
  "add_notifications = \<lparr>mg_revision = ''4ddef85825ad'', mg_down = Some ''67899ad92947'',
     mg_upgrade = upgrade_add_notifications, mg_downgrade = downgrade_add_notifications\<rparr>"

definition upgrade_rename_badge_alert :: "operation list" where
  "upgrade_rename_badge_alert =
    [AddEnumValue ''notification_type'' ''badge_alert'',
     Commit,
     UpdateEnum ''notifications'' ''type'' ''badge_alert'' ''BADGE_CREATION'']"

definition downgrade_rename_badge_alert :: "operation list" where
  "downgrade_rename_badge_alert =
    [UpdateEnum ''notifications'' ''type'' ''BADGE_CREATION'' ''badge_alert'']"

definition rename_badge_alert :: migration where
  "rename_badge_alert = \<lparr>mg_revision = ''a1b2c3d4e5f6'', mg_down = Some ''4ddef85825ad'',
     mg_upgrade = upgrade_rename_badge_alert, mg_downgrade = downgrade_rename_badge_alert\<rparr>"

definition upgrade_add_access_code :: "operation list" where
  "upgrade_add_access_code =
    [AddColumn ''badges'' (column ''access_code'' (VarChar 255) True None)]"

definition downgrade_add_access_code :: "operation list" where
  "downgrade_add_access_code =
    [DropColumn ''badges'' ''access_code'']"

definition add_access_code :: migration where
  "add_access_code = \<lparr>mg_revision = ''139e5cfb4283'', mg_down = Some ''a1b2c3d4e5f6'',
     mg_upgrade = upgrade_add_access_code, mg_downgrade = downgrade_add_access_code\<rparr>"

definition MIGRATIONS :: "migration list" where
  "MIGRATIONS = [recreate_tables, add_preferences, update_preferences, add_notifications, rename_badge_alert, add_access_code]"

text \<open>
  A revision runs after the one it names as \<open>down_revision\<close>; \<open>migrations_after\<close> are those that follow a
  revision, at most \<open>n\<close> of them.
\<close>

fun migrations_after :: "nat \<Rightarrow> string option \<Rightarrow> migration list" where
  "migrations_after 0 at = []"
| "migrations_after (Suc n) at = (case find (\<lambda>m. mg_down m = at) MIGRATIONS of
     None \<Rightarrow> [] | Some m \<Rightarrow> m # migrations_after n (Some (mg_revision m)))"

definition upgrade_to :: "nat \<Rightarrow> string \<Rightarrow> schema \<Rightarrow> schema option" where
  "upgrade_to n now s = run_script now (concat (map mg_upgrade (migrations_after n None))) s"

definition upgrade_head :: "string \<Rightarrow> schema \<Rightarrow> schema option" where
  "upgrade_head now s = upgrade_to (length MIGRATIONS) now s"

section \<open>The tables of the models\<close>

text \<open>
  What a \<open>mapped_column\<close> says of its column; without an argument for it, a column is nullable when its
  annotation admits \<open>None\<close>.  \<open>orm_table\<close> is the table SQLAlchemy makes of a class: an indexed column has an
  index named after the table and the column, which is unique for a unique column; a unique column
  without index has a constraint.
\<close>

record orm_column = column_def +
  oc_primary_key :: bool
  oc_unique :: bool
  oc_index :: bool
  oc_foreign_key :: "(string \<times> string list \<times> string) option"

definition mapped_column :: "string \<Rightarrow> sql_type \<Rightarrow> bool \<Rightarrow> server_default option \<Rightarrow> orm_column" where
  "mapped_column n ty nullable df = \<lparr>cd_name = n, cd_type = ty, cd_nullable = nullable, cd_default = df,
     oc_primary_key = False, oc_unique = False, oc_index = False, oc_foreign_key = None\<rparr>"

definition orm_constraints :: "orm_column \<Rightarrow> table_constraint list" where
  "orm_constraints c =
     (case oc_foreign_key c of None \<Rightarrow> [] | Some (target, refs, ondelete) \<Rightarrow> [ForeignKey [cd_name c] target refs ondelete])
     @ (if oc_unique c \<and> \<not> oc_index c then [Unique None [cd_name c]] else [])"

definition orm_indexes :: "string \<Rightarrow> orm_column \<Rightarrow> index_def list" where
  "orm_indexes n c = (if oc_index c
     then [\<lparr>ix_name = ''ix_'' @ n @ ''_'' @ cd_name c, ix_columns = [cd_name c], ix_unique = oc_unique c\<rparr>] else [])"

definition orm_table :: "string \<Rightarrow> orm_column list \<Rightarrow> table_constraint list \<Rightarrow> index_def list \<Rightarrow> string \<times> table_def" where
  "orm_table n cols args ixs = (n, \<lparr>
     td_columns = map (\<lambda>c. stored_column (column_def.truncate c)) cols,
     td_constraints = PrimaryKey (map cd_name (filter oc_primary_key cols)) # concat (map orm_constraints cols) @ args,
     td_indexes = concat (map (orm_indexes n) cols) @ ixs, td_rows = []\<rparr>)"

text \<open>
  \<open>NotificationType\<close>: the members with their values.  A column of \<open>sa.Enum(NotificationType)\<close> stores the name
  of a member, and reading a text that is not the name of one raises \<open>LookupError\<close>.
\<close>

definition NotificationType_members :: "(string \<times> string) list" where
  "NotificationType_members = [(''BADGE_CREATION'', ''badge_alert''), (''DAILY_DIGEST'', ''daily_digest''),
     (''WEEKLY_REPORT'', ''weekly_report'')]"

definition NotificationType_names :: "string list" where
  "NotificationType_names = map fst NotificationType_members"

definition load_notification_type :: "string option \<Rightarrow> string option option" where
  "load_notification_type v = (case v of None \<Rightarrow> Some None
     | Some x \<Rightarrow> (case map_of NotificationType_members x of None \<Rightarrow> None | Some y \<Rightarrow> Some (Some y)))"

definition User_table :: "string \<times> table_def" where
  "User_table = orm_table ''users''
     [(mapped_column ''id'' Uuid False None)\<lparr>oc_primary_key := True\<rparr>,
      mapped_column ''first_name'' (VarChar 200) False None,
      mapped_column ''last_name'' (VarChar 200) True None,
      (mapped_column ''email'' (VarChar 255) False None)\<lparr>oc_unique := True, oc_index := True\<rparr>,
      mapped_column ''password_hash'' (VarChar 255) True None,
      mapped_column ''is_email_verified'' BooleanType False None,
      mapped_column ''profile_photo_url'' TextType True None,
      mapped_column ''role'' (VarChar 200) True None,
      mapped_column ''created_at'' TimestampTz False (Some Now),
      mapped_column ''updated_at'' TimestampTz False (Some Now)]
     [] []"

definition AuthProvider_table :: "string \<times> table_def" where
  "AuthProvider_table = orm_table ''auth_providers''
     [(mapped_column ''id'' Uuid False None)\<lparr>oc_primary_key := True\<rparr>,
      mapped_column ''provider'' (VarChar 50) False None,
      mapped_column ''provider_user_id'' (VarChar 255) True None,
      (mapped_column ''user_id'' Uuid False None)\<lparr>oc_foreign_key := Some (''users'', [''id''], ''CASCADE'')\<rparr>,
      mapped_column ''label'' (VarChar 100) False None,
      mapped_column ''is_active'' BooleanType False None,
      mapped_column ''created_at'' TimestampTz False (Some Now)]
     [Unique (Some ''uq_provider_user'') [''provider'', ''user_id''],
       Unique (Some ''uq_provider_provider_user_id'') [''provider'', ''provider_user_id'']] []"

definition RefreshToken_table :: "string \<times> table_def" where
  "RefreshToken_table = orm_table ''refresh_tokens''
     [(mapped_column ''id'' Uuid False None)\<lparr>oc_primary_key := True\<rparr>,
      (mapped_column ''user_id'' Uuid False None)\<lparr>oc_index := True, oc_foreign_key := Some (''users'', [''id''], ''CASCADE'')\<rparr>,
      (mapped_column ''token_hash'' (VarChar 255) False None)\<lparr>oc_unique := True, oc_index := True\<rparr>,
      mapped_column ''created_at'' TimestampTz False (Some Now),
      mapped_column ''expires_at'' TimestampTz False None,
      mapped_column ''is_revoked'' BooleanType False None,
      (mapped_column ''family_id'' Uuid False None)\<lparr>oc_index := True\<rparr>,
      mapped_column ''user_agent'' TextType True None,
      mapped_column ''ip_address'' (VarChar 45) True None,
      mapped_column ''last_used_at'' TimestampTz True None]
     [] []"

definition Role_table :: "string \<times> table_def" where
  "Role_table = orm_table ''roles''
     [(mapped_column ''id'' Uuid False None)\<lparr>oc_primary_key := True\<rparr>,
      (mapped_column ''name'' (VarChar 50) False None)\<lparr>oc_index := True\<rparr>,
      mapped_column ''created_at'' TimestampTz False (Some Now)]
     [Unique (Some ''uq_roles_name'') [''name'']] []"

definition UserRole_table :: "string \<times> table_def" where
  "UserRole_table = orm_table ''user_roles''
     [(mapped_column ''id'' Uuid False None)\<lparr>oc_primary_key := True\<rparr>,
      (mapped_column ''user_id'' Uuid False None)\<lparr>oc_index := True, oc_foreign_key := Some (''users'', [''id''], ''CASCADE'')\<rparr>,
      (mapped_column ''role_id'' Uuid False None)\<lparr>oc_index := True, oc_foreign_key := Some (''roles'', [''id''], ''CASCADE'')\<rparr>,
      mapped_column ''created_at'' TimestampTz False (Some Now)]
     [Unique (Some ''uq_user_roles_user_id_role_id'') [''user_id'', ''role_id'']] []"

definition PlatformTemplate_table :: "string \<times> table_def" where
  "PlatformTemplate_table = orm_table ''platform_templates''
     [(mapped_column ''id'' Uuid False None)\<lparr>oc_primary_key := True, oc_index := True\<rparr>,
      mapped_column ''title'' (VarChar 255) False None,
      (mapped_column ''category'' (VarChar 50) False None)\<lparr>oc_index := True\<rparr>,
      mapped_column ''canvas_data'' Jsonb True None,
      mapped_column ''thumbnail_url'' (VarChar 255) True None,
      mapped_column ''is_active'' BooleanType False None,
      mapped_column ''total_badges_made'' IntegerType False (Some (Literal ''0'')),
      mapped_column ''created_at'' TimestampTz True (Some Now),
      mapped_column ''updated_at'' TimestampTz True None]
     [] []"

definition Badge_table :: "string \<times> table_def" where
  "Badge_table = orm_table ''badges''
     [(mapped_column ''id'' Uuid False None)\<lparr>oc_primary_key := True, oc_index := True\<rparr>,
      (mapped_column ''organiser_id'' Uuid False None)\<lparr>oc_index := True, oc_foreign_key := Some (''users'', [''id''], ''CASCADE'')\<rparr>,
      (mapped_column ''platform_template_id'' Uuid False None)\<lparr>oc_index := True, oc_foreign_key := Some (''platform_templates'', [''id''], ''CASCADE'')\<rparr>,
      mapped_column ''title'' (VarChar 255) False None,
      mapped_column ''canvas_data'' Jsonb False None,
      mapped_column ''default_caption'' (VarChar 255) True None,
      mapped_column ''destination_link'' (VarChar 255) True None,
      mapped_column ''thumbnail_url'' (VarChar 255) True None,
      mapped_column ''logo_url'' (VarChar 1024) True None,
      mapped_column ''logo_public_id'' (VarChar 512) True None,
      mapped_column ''access_type'' IntegerType False None,
      mapped_column ''access_code'' (VarChar 255) True None,
      mapped_column ''is_published'' BooleanType False None,
      mapped_column ''published_at'' TimestampTz True None,
      (mapped_column ''share_slug'' (VarChar 255) True None)\<lparr>oc_unique := True\<rparr>,
      mapped_column ''share_count'' IntegerType False None,
      mapped_column ''creation_count'' IntegerType False None,
      mapped_column ''created_at'' TimestampTz True (Some Now),
      mapped_column ''updated_at'' TimestampTz True None,
      mapped_column ''deleted_at'' TimestampTz True None]
     [] []"

definition BadgeHashtag_table :: "string \<times> table_def" where
  "BadgeHashtag_table = orm_table ''badge_hashtags''
     [(mapped_column ''id'' Uuid False None)\<lparr>oc_primary_key := True, oc_index := True\<rparr>,
      (mapped_column ''badge_id'' Uuid False None)\<lparr>oc_index := True, oc_foreign_key := Some (''badges'', [''id''], ''CASCADE'')\<rparr>,
      (mapped_column ''hashtag'' (VarChar 255) False None)\<lparr>oc_index := True\<rparr>]
     [] []"

definition UserNotificationPreference_table :: "string \<times> table_def" where
  "UserNotificationPreference_table = orm_table ''user_notification_preferences''
     [(mapped_column ''id'' Uuid False None)\<lparr>oc_primary_key := True\<rparr>,
      (mapped_column ''user_id'' Uuid False None)\<lparr>oc_unique := True, oc_index := True, oc_foreign_key := Some (''users'', [''id''], ''CASCADE'')\<rparr>,
      mapped_column ''email_template_published'' BooleanType False None,
      mapped_column ''email_new_signin'' BooleanType False None,
      mapped_column ''notify_badge_creation'' BooleanType False (Some (Literal ''true'')),
      mapped_column ''notify_daily_digest'' BooleanType False (Some (Literal ''true'')),
      mapped_column ''notify_weekly_report'' BooleanType False (Some (Literal ''true'')),
      mapped_column ''updated_at'' TimestampTz False (Some Now)]
     [] []"

definition Notification_table :: "string \<times> table_def" where
  "Notification_table = orm_table ''notifications''
     [(mapped_column ''id'' Uuid False None)\<lparr>oc_primary_key := True\<rparr>,
      (mapped_column ''user_id'' Uuid False None)\<lparr>oc_index := True, oc_foreign_key := Some (''users'', [''id''], ''CASCADE'')\<rparr>,
      (mapped_column ''type'' (Enum NotificationType_names ''notification_type'') False None)\<lparr>oc_index := True\<rparr>,
      mapped_column ''title'' (VarChar 255) False None,
      mapped_column ''body'' (VarChar 2048) False None,
      (mapped_column ''is_read'' BooleanType False (Some (Literal ''false'')))\<lparr>oc_index := True\<rparr>,
      mapped_column ''extra_data'' Jsonb True None,
      (mapped_column ''created_at'' TimestampTz False (Some Now))\<lparr>oc_index := True\<rparr>]
     [] [\<lparr>ix_name = ''ix_notifications_user_created'', ix_columns = [''user_id'', ''created_at''], ix_unique = False\<rparr>,
       \<lparr>ix_name = ''ix_notifications_user_unread'', ix_columns = [''user_id'', ''is_read''], ix_unique = False\<rparr>]"

definition NewsletterSubscriber_table :: "string \<times> table_def" where
  "NewsletterSubscriber_table = orm_table ''newsletter_subscribers''
     [(mapped_column ''id'' Uuid False None)\<lparr>oc_primary_key := True\<rparr>,
      (mapped_column ''email'' (VarChar 255) False None)\<lparr>oc_unique := True, oc_index := True\<rparr>,
      mapped_column ''is_active'' BooleanType False None,
      (mapped_column ''unsubscribe_token'' (VarChar 64) False None)\<lparr>oc_unique := True, oc_index := True\<rparr>,
      mapped_column ''subscribed_at'' TimestampTz False (Some Now),
      mapped_column ''unsubscribed_at'' TimestampTz True None]
     [] []"

definition models_metadata :: "(string \<times> table_def) list" where
  "models_metadata = [User_table, AuthProvider_table, RefreshToken_table, Role_table, UserRole_table, PlatformTemplate_table,
     Badge_table, BadgeHashtag_table, UserNotificationPreference_table, Notification_table, NewsletterSubscriber_table]"

end
