(* ===== verification/Migrations.thy ===== *)
theory Migrations
  imports Schema_History
begin

text \<open>
  What the migrations are meant to do: the schema they build is the one the models are written
  for, and a downgrade undoes its upgrade.  One of them rewrites rows, and leaves some that cannot be read.
\<close>

section \<open>The schema of the models\<close>

definition same_table :: "table_def \<Rightarrow> table_def \<Rightarrow> bool" where
  "same_table t u = (set (td_columns t) = set (td_columns u) \<and> set (td_constraints t) = set (td_constraints u)
     \<and> set (td_indexes t) = set (td_indexes u))"

definition same_tables :: "(string \<times> table_def) list \<Rightarrow> (string \<times> table_def) list \<Rightarrow> bool" where
  "same_tables ts us = (set (map fst ts) = set (map fst us) \<and> distinct (map fst ts) \<and> distinct (map fst us)
     \<and> list_all (\<lambda>(n, t). case map_of us n of None \<Rightarrow> False | Some u \<Rightarrow> same_table t u) ts)"

text \<open>
  The life of a database: it starts empty, a migration runs when the database is at the revision it names as the one before, in a
  transaction of its own, and in between the rows change at will.
\<close>

definition without_rows :: "schema \<Rightarrow> schema" where
  "without_rows s = s\<lparr>sc_tables := map (\<lambda>(n, t). (n, t\<lparr>td_rows := []\<rparr>)) (sc_tables s)\<rparr>"

inductive deployed :: "string option \<Rightarrow> schema \<Rightarrow> bool" where
  fresh: "deployed None empty_schema"
| rows: "deployed v s \<Longrightarrow> without_rows s' = without_rows s \<Longrightarrow> deployed v s'"
| migrate: "deployed v s \<Longrightarrow> m \<in> set MIGRATIONS \<Longrightarrow> mg_down m = v \<Longrightarrow> run_script now (mg_upgrade m) s = Some t \<Longrightarrow>
    deployed (Some (mg_revision m)) (t\<lparr>sc_fresh := []\<rparr>)"

text \<open>What a script makes of the schema does not depend on the rows, nor on the time.\<close>

lemma without_rows_simps [simp]:
  "table_names (without_rows s) = table_names s" "enum_names (without_rows s) = enum_names s"
  "sc_enums (without_rows s) = sc_enums s" "sc_fresh (without_rows s) = sc_fresh s"
  "column_names (t\<lparr>td_rows := rs\<rparr>) = column_names t" "column_enum (t\<lparr>td_rows := rs\<rparr>) c = column_enum t c"
  "without_rows (s\<lparr>sc_enums := es\<rparr>) = (without_rows s)\<lparr>sc_enums := es\<rparr>"
  "without_rows (s\<lparr>sc_fresh := fs\<rparr>) = (without_rows s)\<lparr>sc_fresh := fs\<rparr>"
  by (auto simp: without_rows_def table_names_def enum_names_def column_names_def column_enum_def)

lemma map_of_without_rows [simp]:
  "map_of (sc_tables (without_rows s)) n = map_option (\<lambda>t. t\<lparr>td_rows := []\<rparr>) (map_of (sc_tables s) n)"
proof -
  have "map_of (map (\<lambda>(n, t). (n, t\<lparr>td_rows := []\<rparr>)) ts) n = map_option (\<lambda>t. t\<lparr>td_rows := []\<rparr>) (map_of ts n)" for ts :: "(string \<times> table_def) list"
    by (induction ts) auto
  then show ?thesis by (simp add: without_rows_def)
qed

lemma alter_without_rows:
  assumes "\<And>t. f (t\<lparr>td_rows := []\<rparr>) = (g t)\<lparr>td_rows := []\<rparr>"
  shows "alter_table n f (without_rows s) = without_rows (alter_table n g s)"
  using assms by (simp add: alter_table_def without_rows_def comp_def case_prod_unfold if_distrib cong: if_cong)

lemma target_ok_without_rows:
  "target_ok (map (\<lambda>(n, t). (n, t\<lparr>td_rows := []\<rparr>)) ts @ us) k = target_ok (ts @ us) k"
proof (induction ts)
  case (Cons a ts)
  then show ?case by (cases k; cases a) auto
qed simp

lemma no_rows [simp]: "key_holds [] cs" "uniques_hold (t\<lparr>td_rows := []\<rparr>)"
  by (simp_all add: key_holds_def uniques_hold_def list_all_iff)

lemma default_cell_time: "default_cell now c \<noteq> None \<longleftrightarrow> default_cell now' c \<noteq> None"
  by (auto simp: default_cell_def split: option.split server_default.split)

lemma apply_op_without_rows:
  assumes "apply_op now op s = Some t"
  shows "apply_op now' op (without_rows s) = Some (without_rows t)"
proof (cases op)
  case (CreateTable n cols cons)
  have "sc_tables (without_rows s) = map (\<lambda>(n, t). (n, t\<lparr>td_rows := []\<rparr>)) (sc_tables s)" by (simp add: without_rows_def)
  moreover have "(new_table cols cons)\<lparr>td_rows := []\<rparr> = new_table cols cons" by (simp add: new_table_def)
  ultimately show ?thesis
    using assms CreateTable by (auto simp: Let_def target_ok_without_rows list_all_iff without_rows_def [of "_\<lparr>sc_tables := _\<rparr>"] split: if_splits)
next
  case (DropTable n)
  have "list_all P (sc_tables (without_rows s)) = list_all (\<lambda>(m, t). P (m, t\<lparr>td_rows := []\<rparr>)) (sc_tables s)" for P
    by (auto simp: without_rows_def list_all_iff)
  moreover have "filter (\<lambda>(m, t). m \<noteq> n) (sc_tables (without_rows s)) = sc_tables (without_rows (s\<lparr>sc_tables := filter (\<lambda>(m, t). m \<noteq> n) (sc_tables s)\<rparr>))"
    by (simp add: without_rows_def filter_map comp_def case_prod_unfold)
  ultimately show ?thesis
    using assms DropTable by (auto simp: without_rows_def [of "_\<lparr>sc_tables := _\<rparr>"] split: if_splits)
next
  case (CreateIndex i n cs u)
  have "index_names (without_rows s) = index_names s" by (simp add: index_names_def without_rows_def comp_def case_prod_unfold)
  with assms CreateIndex show ?thesis
    by (auto simp: Let_def add_index_def intro!: alter_without_rows split: option.splits if_splits)
next
  case (DropIndex i n)
  with assms show ?thesis by (auto simp: drop_index_def intro!: alter_without_rows split: option.splits if_splits)
next
  case (AddColumn n c)
  with assms show ?thesis
    using default_cell_time [of now c now'] by (auto simp: add_column_def intro!: alter_without_rows split: option.splits if_splits)
next
  case (DropColumn n c)
  have "list_all P (sc_tables (without_rows s)) = list_all (\<lambda>(m, t). P (m, t\<lparr>td_rows := []\<rparr>)) (sc_tables s)" for P
    by (auto simp: without_rows_def list_all_iff)
  with assms DropColumn show ?thesis by (auto simp: drop_column_def intro!: alter_without_rows split: option.splits if_splits)
next
  case (AddEnumValue e v)
  with assms show ?thesis by (auto split: option.splits)
next
  case Commit
  with assms show ?thesis by auto
next
  case (UpdateEnum n c new old)
  have "update_cells c new old (t\<lparr>td_rows := []\<rparr>) = (update_cells c new old t)\<lparr>td_rows := []\<rparr>" for t
    by (simp add: update_cells_def)
  with assms UpdateEnum show ?thesis by (auto intro!: alter_without_rows split: option.splits if_splits)
next
  case (DropTypeIfExists e)
  have "enum_used e (without_rows s) = enum_used e s" by (simp add: enum_used_def without_rows_def list_ex_iff case_prod_unfold)
  with assms DropTypeIfExists show ?thesis by (auto split: if_splits)
qed

lemma run_script_without_rows:
  "run_script now ops s = Some t \<Longrightarrow> run_script now' ops (without_rows s) = Some (without_rows t)"
proof (induction ops arbitrary: s)
  case (Cons op ops)
  then obtain u where "apply_op now op s = Some u" "run_script now ops u = Some t" by (auto split: option.splits)
  with Cons.IH apply_op_without_rows show ?case by simp
qed simp

text \<open>So the schema at a revision is the one that the migrations up to it build without any rows.\<close>

fun migrated :: "migration list \<Rightarrow> schema \<Rightarrow> schema option" where
  "migrated [] s = Some s"
| "migrated (m # ms) s = (case run_script [] (mg_upgrade m) s of None \<Rightarrow> None | Some t \<Rightarrow> migrated ms (t\<lparr>sc_fresh := []\<rparr>))"

lemma migrated_snoc:
  "migrated (ms @ [m]) s = (case migrated ms s of None \<Rightarrow> None
     | Some t \<Rightarrow> map_option (\<lambda>u. u\<lparr>sc_fresh := []\<rparr>) (run_script [] (mg_upgrade m) t))"
  by (induction ms arbitrary: s) (auto split: option.split)

definition revision :: "nat \<Rightarrow> string option" where
  "revision n = (if n = 0 then None else Some (mg_revision (MIGRATIONS ! (n - 1))))"

lemma revisions_chain:
  "\<forall>i<length MIGRATIONS. mg_down (MIGRATIONS ! i) = revision i"
  "distinct (map revision [0..<Suc (length MIGRATIONS)])"
  by code_simp+

lemma revision_inj: "revision i = revision j \<Longrightarrow> i \<le> length MIGRATIONS \<Longrightarrow> j \<le> length MIGRATIONS \<Longrightarrow> i = j"
  using revisions_chain(2) by (simp add: distinct_map inj_on_def del: upt_Suc)

lemma deployed_structure:
  "deployed v s \<Longrightarrow> \<exists>n\<le>length MIGRATIONS. v = revision n \<and> migrated (take n MIGRATIONS) empty_schema = Some (without_rows s)"
proof (induction rule: deployed.induct)
  case fresh
  have "without_rows empty_schema = empty_schema" by (simp add: without_rows_def empty_schema_def)
  then show ?case by (intro exI [of _ 0]) (simp add: revision_def)
next
  case (rows v s s')
  then show ?case by simp
next
  case (migrate v s m now t)
  then obtain n where n: "n \<le> length MIGRATIONS" "v = revision n" "migrated (take n MIGRATIONS) empty_schema = Some (without_rows s)"
    by blast
  obtain i where i: "i < length MIGRATIONS" "m = MIGRATIONS ! i" using migrate.hyps(2) by (auto simp: in_set_conv_nth)
  then have "revision i = revision n" using revisions_chain(1) migrate.hyps(3) n(2) by metis
  then have [simp]: "i = n" using revision_inj i(1) n(1) by simp
  have "run_script [] (mg_upgrade m) (without_rows s) = Some (without_rows t)"
    by (rule run_script_without_rows [OF migrate.hyps(4)])
  then have "migrated (take (Suc n) MIGRATIONS) empty_schema = Some (without_rows (t\<lparr>sc_fresh := []\<rparr>))"
    using n(3) i by (simp add: take_Suc_conv_app_nth migrated_snoc)
  moreover have "Some (mg_revision m) = revision (Suc n)" using i(2) by (simp add: revision_def)
  ultimately show ?case using i(1) by (intro exI [of _ "Suc n"]) simp
qed

lemma head_structure:
  "case migrated MIGRATIONS empty_schema of None \<Rightarrow> False
   | Some s \<Rightarrow> same_tables (sc_tables s) models_metadata \<and> sc_enums s = [(''notification_type'', NotificationType_names @ [''badge_alert''])]"
  by code_simp

lemma same_tables_without_rows:
  "same_tables (sc_tables (without_rows s)) us = same_tables (sc_tables s) us"
proof -
  have "map fst (sc_tables (without_rows s)) = map fst (sc_tables s)" by (simp add: without_rows_def comp_def case_prod_unfold)
  moreover have "same_table (t\<lparr>td_rows := []\<rparr>) u = same_table t u" for t u by (simp add: same_table_def)
  then have "list_all (\<lambda>(n, t). case map_of us n of None \<Rightarrow> False | Some u \<Rightarrow> same_table t u) (sc_tables (without_rows s))
      = list_all (\<lambda>(n, t). case map_of us n of None \<Rightarrow> False | Some u \<Rightarrow> same_table t u) (sc_tables s)"
    by (auto simp: without_rows_def list_all_iff split: option.splits)
  ultimately show ?thesis unfolding same_tables_def by metis
qed

text \<open>C35. A database that is at the last revision, however its rows changed before, between and after the migrations and at whatever
  times these ran, has the tables the models declare: the same names, and for each the same columns, constraints and
  indexes.  Its only enumeration is that of the notifications, with the names the models store and, after them, the label
  of the rename, which no model stores.  On an empty database the migrations succeed.\<close>

theorem migrations_build_models:
  assumes "deployed (Some ''139e5cfb4283'') s"
  shows "same_tables (sc_tables s) models_metadata
    \<and> sc_enums s = [(''notification_type'', NotificationType_names @ [''badge_alert''])]
    \<and> upgrade_head now empty_schema \<noteq> None"
proof -
  have "Some ''139e5cfb4283'' = revision (length MIGRATIONS)" by code_simp
  with deployed_structure [OF assms] have "migrated MIGRATIONS empty_schema = Some (without_rows s)"
    using revision_inj by fastforce
  with head_structure have "same_tables (sc_tables s) models_metadata"
    "sc_enums s = [(''notification_type'', NotificationType_names @ [''badge_alert''])]"
    by (simp_all add: same_tables_without_rows)
  moreover have "upgrade_head now empty_schema \<noteq> None" by code_simp
  ultimately show ?thesis by blast
qed

text \<open>Any of the databases that the migrations build one after the other is deployed.\<close>

lemma migrated_deployed:
  "n \<le> length MIGRATIONS \<Longrightarrow> migrated (take n MIGRATIONS) empty_schema = Some s \<Longrightarrow> deployed (revision n) s"
proof (induction n arbitrary: s)
  case 0
  then show ?case using deployed.fresh by (simp add: revision_def)
next
  case (Suc n)
  then obtain t u where t: "migrated (take n MIGRATIONS) empty_schema = Some t"
      "run_script [] (mg_upgrade (MIGRATIONS ! n)) t = Some u" "s = u\<lparr>sc_fresh := []\<rparr>"
    by (auto simp: take_Suc_conv_app_nth migrated_snoc split: option.splits)
  have "mg_down (MIGRATIONS ! n) = revision n" using revisions_chain(1) Suc.prems(1) by simp
  from deployed.migrate [OF Suc.IH [OF _ t(1)] _ this t(2)] Suc.prems(1) t(3) show ?case by (simp add: revision_def)
qed

theorem migrations_build_models_witness:
  "\<exists>s. deployed (Some ''139e5cfb4283'') s \<and> same_tables (sc_tables s) models_metadata"
proof -
  obtain s where s: "migrated MIGRATIONS empty_schema = Some s" using head_structure by (auto split: option.splits)
  have "revision (length MIGRATIONS) = Some ''139e5cfb4283''" by code_simp
  with migrated_deployed [of "length MIGRATIONS" s] s have "deployed (Some ''139e5cfb4283'') s" by simp
  with migrations_build_models [OF this, of "''noon''"] show ?thesis by blast
qed

section \<open>Downgrades\<close>

lemma downgrade_is_inverse:
  "downgrade_recreate_tables = inverse_script upgrade_recreate_tables"
  "downgrade_add_preferences = inverse_script upgrade_add_preferences"
  "downgrade_update_preferences = inverse_script upgrade_update_preferences"
  "downgrade_add_notifications = inverse_script upgrade_add_notifications"
  "downgrade_add_access_code = inverse_script upgrade_add_access_code"
  by code_simp+

lemma upgrades_invertible:
  "list_all invertible upgrade_recreate_tables" "list_all invertible upgrade_add_preferences"
  "list_all invertible upgrade_update_preferences" "list_all invertible upgrade_add_notifications"
  "list_all invertible upgrade_add_access_code"
  by code_simp+

lemmas migration_defs = recreate_tables_def add_preferences_def update_preferences_def add_notifications_def
  rename_badge_alert_def add_access_code_def

lemma migration_inverse:
  assumes "m \<in> set MIGRATIONS" "mg_revision m \<noteq> ''a1b2c3d4e5f6''"
  shows "mg_downgrade m = inverse_script (mg_upgrade m) \<and> list_all invertible (mg_upgrade m)"
  using assms downgrade_is_inverse upgrades_invertible by (auto simp: MIGRATIONS_def migration_defs)

text \<open>C36. Every migration but the one that renames a label can be taken back: on any sound database, with whatever rows, the
  downgrade after the upgrade succeeds and gives exactly the schema and the rows from before.\<close>

theorem downgrade_undoes_upgrade:
  assumes "m \<in> set MIGRATIONS" "mg_revision m \<noteq> ''a1b2c3d4e5f6''"
    and "sound s" "run_script now (mg_upgrade m) s = Some t"
  shows "run_script now' (mg_downgrade m) t = Some s \<and> sound t"
  using migration_inverse [OF assms(1,2)] inverse_script_undoes [OF assms(3) _ assms(4)] by simp

definition demo_database :: schema where
  "demo_database = \<lparr>sc_tables = [(''badges'', \<lparr>td_columns = [column ''id'' Uuid False None], td_constraints = [PrimaryKey [''id'']],
     td_indexes = [], td_rows = [[(''id'', Some ''b1'')]]\<rparr>)], sc_enums = [], sc_fresh = []\<rparr>"

theorem downgrade_undoes_upgrade_witness:
  "\<exists>t. t \<noteq> demo_database \<and> run_script ''noon'' (mg_upgrade add_access_code) demo_database = Some t
     \<and> run_script ''one'' (mg_downgrade add_access_code) t = Some demo_database"
proof -
  let ?names = "\<lambda>s. map (\<lambda>(n, d). column_names d) (sc_tables s)"
  obtain t where t: "run_script ''noon'' (mg_upgrade add_access_code) demo_database = Some t"
      "?names t = [[''id'', ''access_code'']]"
  proof (cases "run_script ''noon'' (mg_upgrade add_access_code) demo_database")
    case None
    moreover have "run_script ''noon'' (mg_upgrade add_access_code) demo_database \<noteq> None" by code_simp
    ultimately show thesis by simp
  next
    case (Some t)
    have "map_option ?names (run_script ''noon'' (mg_upgrade add_access_code) demo_database) = Some [[''id'', ''access_code'']]"
      by code_simp
    with Some show thesis by (intro that) simp_all
  qed
  moreover have "?names demo_database = [[''id'']]" by code_simp
  ultimately have "t \<noteq> demo_database" by force
  moreover have "add_access_code \<in> set MIGRATIONS" "mg_revision add_access_code \<noteq> ''a1b2c3d4e5f6''" "sound demo_database"
    by (simp_all add: MIGRATIONS_def add_access_code_def) code_simp
  ultimately show ?thesis
    using t(1) downgrade_undoes_upgrade [of add_access_code demo_database "''noon''" t "''one''"] by blast
qed

section \<open>The renamed label\<close>

definition notification_loads :: "cells \<Rightarrow> bool" where
  "notification_loads r = (case map_of r ''type'' of None \<Rightarrow> False | Some v \<Rightarrow> load_notification_type v \<noteq> None)"

text \<open>
  The table of notifications before the rename: its types are labels of the enumeration, and no key is on them.
\<close>

definition typed_row :: "cells \<Rightarrow> bool" where
  "typed_row r = (case map_of r ''type'' of Some (Some v) \<Rightarrow> v \<in> set NotificationType_names | _ \<Rightarrow> False)"

definition notifications_before_rename :: "schema \<Rightarrow> table_def \<Rightarrow> bool" where
  "notifications_before_rename s t = (map_of (sc_tables s) ''notifications'' = Some t
     \<and> column_enum t ''type'' = Some ''notification_type''
     \<and> map_of (sc_enums s) ''notification_type'' = Some NotificationType_names
     \<and> list_all typed_row (td_rows t)
     \<and> uniques_hold t \<and> list_all (\<lambda>k. ''type'' \<notin> set k) (unique_keys t))"

abbreviation to_alert :: "cells \<Rightarrow> cells" where
  "to_alert \<equiv> set_cell ''type'' ''badge_alert'' ''BADGE_CREATION''"

lemma map_of_set_cell:
  "map_of (set_cell c new old r) d = map_option (\<lambda>v. if d = c \<and> v = Some old then Some new else v) (map_of r d)"
  by (induction r) (auto simp: set_cell_def)

lemma set_cell_back:
  assumes "distinct (map fst r)" "map_of r c \<noteq> Some (Some new)"
  shows "set_cell c old new (set_cell c new old r) = r"
  using assms by (auto simp: set_cell_def intro!: map_idI)

lemma uniques_hold_update:
  assumes "uniques_hold t" "list_all (\<lambda>k. c \<notin> set k) (unique_keys t)"
  shows "uniques_hold (update_cells c new old t)"
proof -
  have "row_key cs (set_cell c new old r) = row_key cs r" if "c \<notin> set cs" for cs r
    using that by (auto simp: row_key_def map_of_set_cell split: option.splits)
  then have "key_holds (map (set_cell c new old) (td_rows t)) cs = key_holds (td_rows t) cs" if "c \<notin> set cs" for cs
    using that by (simp add: key_holds_def comp_def)
  moreover have "unique_keys (update_cells c new old t) = unique_keys t"
    "td_rows (update_cells c new old t) = map (set_cell c new old) (td_rows t)"
    by (simp_all add: unique_keys_def update_cells_def)
  ultimately show ?thesis using assms by (simp add: uniques_hold_def list_all_iff)
qed

text \<open>What the script of the rename does, and the script that takes it back.\<close>

definition renamed :: "table_def \<Rightarrow> table_def" where
  "renamed = update_cells ''type'' ''badge_alert'' ''BADGE_CREATION''"

definition with_label :: "schema \<Rightarrow> schema" where
  "with_label s = s\<lparr>sc_enums := map (\<lambda>el. if fst el = ''notification_type'' then add_label ''badge_alert'' el else el) (sc_enums s),
     sc_fresh := []\<rparr>"

lemma map_of_labels:
  "map_of (map (\<lambda>el. if fst el = e then add_label v el else el) es) e
     = map_option (\<lambda>ls. if v \<in> set ls then ls else ls @ [v]) (map_of es e)"
  by (induction es) (auto simp: add_label_def)

lemma labels_with_label:
  "notifications_before_rename s t \<Longrightarrow>
     map_of (sc_enums (with_label s)) ''notification_type'' = Some (NotificationType_names @ [''badge_alert''])"
  by (simp add: with_label_def map_of_labels notifications_before_rename_def NotificationType_names_def NotificationType_members_def)

lemma label_names: "''BADGE_CREATION'' \<in> set NotificationType_names" "''badge_alert'' \<notin> set NotificationType_names"
  by code_simp+

lemma upgrade_rename:
  assumes "notifications_before_rename s t"
  shows "run_script now (mg_upgrade rename_badge_alert) s = Some (alter_table ''notifications'' renamed (with_label s))"
proof -
  have t: "map_of (sc_tables (with_label s)) ''notifications'' = Some t" "column_enum t ''type'' = Some ''notification_type''"
    "uniques_hold (update_cells ''type'' ''badge_alert'' ''BADGE_CREATION'' t)"
    using assms uniques_hold_update by (auto simp: notifications_before_rename_def with_label_def)
  have "sc_fresh (with_label s) = []" by (simp add: with_label_def)
  then have "apply_op now (UpdateEnum ''notifications'' ''type'' ''badge_alert'' ''BADGE_CREATION'') (with_label s)
      = Some (alter_table ''notifications'' renamed (with_label s))"
    using t label_names labels_with_label [OF assms] by (simp add: renamed_def)
  moreover have "run_script now [AddEnumValue ''notification_type'' ''badge_alert'', Commit] s = Some (with_label s)"
    using assms by (simp add: notifications_before_rename_def with_label_def)
  ultimately show ?thesis
    using run_script_append [of now "[AddEnumValue ''notification_type'' ''badge_alert'', Commit]"
        "[UpdateEnum ''notifications'' ''type'' ''badge_alert'' ''BADGE_CREATION'']" s]
    by (simp add: rename_badge_alert_def upgrade_rename_badge_alert_def)
qed

text \<open>C37. The rename succeeds and turns the type of every stored badge alert into \<open>badge_alert\<close>, the value of the member, where
  the models read the name of a member: each such notification could be read before and raises \<open>LookupError\<close> after,
  every other one is read as before.  The downgrade brings the rows back as they were.\<close>

theorem renamed_alerts_unreadable:
  assumes "sound s" "notifications_before_rename s t"
  shows "\<exists>u v. run_script now (mg_upgrade rename_badge_alert) s = Some u
    \<and> map_of (sc_tables u) ''notifications'' = Some (t\<lparr>td_rows := map to_alert (td_rows t)\<rparr>)
    \<and> (\<forall>r\<in>set (td_rows t). notification_loads r
         \<and> (notification_loads (to_alert r) \<longleftrightarrow> map_of r ''type'' \<noteq> Some (Some ''BADGE_CREATION'')))
    \<and> run_script now' (mg_downgrade rename_badge_alert) u = Some v \<and> sc_tables v = sc_tables s"
proof -
  let ?u = "alter_table ''notifications'' renamed (with_label s)"
  let ?v = "alter_table ''notifications'' (update_cells ''type'' ''BADGE_CREATION'' ''badge_alert'') ?u"
  have t: "map_of (sc_tables s) ''notifications'' = Some t" and typed: "\<And>r. r \<in> set (td_rows t) \<Longrightarrow> typed_row r"
    using assms(2) by (simp_all add: notifications_before_rename_def list_all_iff)
  have u: "map_of (sc_tables ?u) ''notifications'' = Some (renamed t)"
    using t by (simp add: tables_alter with_label_def)
  have loads: "notification_loads r
      \<and> (notification_loads (to_alert r) \<longleftrightarrow> map_of r ''type'' \<noteq> Some (Some ''BADGE_CREATION''))" if "r \<in> set (td_rows t)" for r
    using typed [OF that]
    by (auto simp: typed_row_def notification_loads_def load_notification_type_def map_of_set_cell
        NotificationType_names_def NotificationType_members_def split: option.splits)
  have undo: "update_cells ''type'' ''BADGE_CREATION'' ''badge_alert'' (renamed d) = d"
    if "(''notifications'', d) \<in> set (sc_tables s)" for d
  proof -
    have [simp]: "d = t" using that t table_in [OF assms(1)] by simp
    have "distinct (map fst r)" if "r \<in> set (td_rows t)" for r
      using sound_tableD [OF assms(1) t] that by (simp add: sound_table_def list_all_iff)
    moreover have "map_of r ''type'' \<noteq> Some (Some ''badge_alert'')" if "r \<in> set (td_rows t)" for r
      using typed [OF that] label_names(2) by (auto simp: typed_row_def)
    ultimately have "map (set_cell ''type'' ''BADGE_CREATION'' ''badge_alert'') (map to_alert (td_rows t)) = td_rows t"
      by (auto intro!: map_idI simp: set_cell_back)
    then show ?thesis by (simp add: renamed_def update_cells_def)
  qed
  have tables: "sc_tables ?v = sc_tables s"
    using alter_back [of "''notifications''" "with_label s" "update_cells ''type'' ''BADGE_CREATION'' ''badge_alert''" renamed] undo
    by (simp add: with_label_def)
  have "column_enum (renamed t) ''type'' = Some ''notification_type''"
    using assms(2) by (simp add: notifications_before_rename_def column_enum_def renamed_def update_cells_def)
  moreover have "uniques_hold (update_cells ''type'' ''BADGE_CREATION'' ''badge_alert'' (renamed t))"
    using assms(2) undo [of t] t table_in [OF assms(1)] by (simp add: notifications_before_rename_def)
  ultimately have "run_script now' (mg_downgrade rename_badge_alert) ?u = Some ?v"
    using u label_names labels_with_label [OF assms(2)]
    by (simp add: rename_badge_alert_def downgrade_rename_badge_alert_def) (simp add: with_label_def)
  with upgrade_rename [OF assms(2)] u loads tables show ?thesis
    by (intro exI [of _ ?u] exI [of _ ?v]) (simp add: renamed_def update_cells_def)
qed

definition demo_alerts :: table_def where
  "demo_alerts = \<lparr>td_columns = [column ''id'' Uuid False None, column ''type'' (EnumRef ''notification_type'') False None],
     td_constraints = [PrimaryKey [''id'']], td_indexes = [],
     td_rows = [[(''id'', Some ''n1''), (''type'', Some ''BADGE_CREATION'')], [(''id'', Some ''n2''), (''type'', Some ''DAILY_DIGEST'')]]\<rparr>"

definition demo_notified :: schema where
  "demo_notified = \<lparr>sc_tables = [(''notifications'', demo_alerts)],
     sc_enums = [(''notification_type'', NotificationType_names)], sc_fresh = []\<rparr>"

theorem renamed_alerts_unreadable_witness:
  "\<exists>u. run_script ''noon'' (mg_upgrade rename_badge_alert) demo_notified = Some u
     \<and> map_of (sc_tables u) ''notifications'' = Some (demo_alerts\<lparr>td_rows := map to_alert (td_rows demo_alerts)\<rparr>)"
proof -
  have "sound demo_notified" "notifications_before_rename demo_notified demo_alerts" by code_simp+
  from renamed_alerts_unreadable [OF this, of "''noon''"] show ?thesis by blast
qed

end
