(* ===== verification/Migration_Env.thy ===== *)
theory Migration_Env
  imports Migrations Errors
begin

text \<open>
  \<open>alembic/env.py\<close>: the URL of the database is put into the configuration, a \<open>ConfigParser\<close>, which reads percent signs as
  interpolation; then the migrations run on a connection, or are printed as SQL.
\<close>

section \<open>Interpolation\<close>

text \<open>
  The check of \<open>ConfigParser.set\<close>: without its doubled percent signs and its references of the form \<open>%(name)s\<close> the value
  has no percent sign left.
\<close>

fun remove_pairs :: "string \<Rightarrow> string" where
  "remove_pairs (c # d # s) = (if c = CHR ''%'' \<and> d = CHR ''%'' then remove_pairs s else c # remove_pairs (d # s))"
| "remove_pairs s = s"

text \<open>The name in a reference, whose percent sign was read, and the text after it.\<close>

definition reference :: "string \<Rightarrow> (string \<times> string) option" where
  "reference s =
     (let name = takeWhile (\<lambda>c. c \<noteq> CHR '')'') (tl s); rest = drop (length name) (tl s)
      in if s \<noteq> [] \<and> hd s = CHR ''('' \<and> name \<noteq> [] \<and> take 2 rest = '')s'' then Some (name, drop 2 rest) else None)"

lemma reference_length: "reference s = Some (name, after) \<Longrightarrow> length after < length s"
  by (auto simp: reference_def Let_def split: if_splits)

function remove_references :: "string \<Rightarrow> string" where
  "remove_references [] = []"
| "remove_references (c # s) =
     (case (if c = CHR ''%'' then reference s else None) of
        Some (name, after) \<Rightarrow> remove_references after | None \<Rightarrow> c # remove_references s)"
  by pat_completeness auto

termination
  by (relation "measure length") (auto dest: reference_length split: if_splits)

text \<open>\<open>config.set_main_option("sqlalchemy.url", url)\<close>.\<close>

definition set_main_option :: "string \<Rightarrow> app_error + string" where
  "set_main_option url = (if CHR ''%'' \<in> set (remove_references (remove_pairs url))
     then Inl (ValueError ''invalid interpolation syntax'') else Inr url)"

text \<open>
  Reading it back: doubled signs become single ones, and a reference is replaced by the option it names (\<open>options\<close>, in lower
  case).
\<close>

function interpolate :: "(string \<Rightarrow> string option) \<Rightarrow> string \<Rightarrow> app_error + string" where
  "interpolate options [] = Inr []"
| "interpolate options (c # s) =
     (if c \<noteq> CHR ''%'' then map_sum (\<lambda>err. err) (Cons c) (interpolate options s)
      else if s \<noteq> [] \<and> hd s = CHR ''%'' then map_sum (\<lambda>err. err) (Cons c) (interpolate options (tl s))
      else (case reference s of
          None \<Rightarrow> Inl (ValueError ''InterpolationSyntaxError'')
        | Some (name, after) \<Rightarrow> (case options (py_lower name) of
            None \<Rightarrow> Inl (ValueError ''InterpolationMissingOptionError'')
          | Some v \<Rightarrow> map_sum (\<lambda>err. err) ((@) v) (interpolate options after))))"
  by pat_completeness auto

termination
  by (relation "measure (\<lambda>(options, s). length s)") (auto dest: reference_length simp: less_Suc_eq_le)

section \<open>Running\<close>

text \<open>
  \<open>at\<close> is the revision the database is at.  Offline the SQL is printed and nothing is connected to; online the migrations that
  follow run inside \<open>begin_transaction\<close>.  Nothing is said of the database after a failed script.
\<close>

datatype env_result = Printed | Migrated schema

definition run_migrations :: "(string \<Rightarrow> string option) \<Rightarrow> string \<Rightarrow> bool \<Rightarrow> string option \<Rightarrow> string \<Rightarrow> schema \<Rightarrow> app_error + env_result" where
  "run_migrations options now offline at url s = (case set_main_option url of
     Inl err \<Rightarrow> Inl err
   | Inr v \<Rightarrow> (case interpolate options v of
       Inl err \<Rightarrow> Inl err
     | Inr _ \<Rightarrow>
         if offline then Inr Printed
         else (case run_script now (concat (map mg_upgrade (migrations_after (length MIGRATIONS) at))) s of
             None \<Rightarrow> Inl SQLAlchemyError | Some s \<Rightarrow> Inr (Migrated s))))"

section \<open>Which URLs work\<close>

lemma remove_pairs_plain: "CHR ''%'' \<notin> set s \<Longrightarrow> remove_pairs s = s"
  by (induction s rule: remove_pairs.induct) auto

lemma remove_references_plain: "CHR ''%'' \<notin> set s \<Longrightarrow> remove_references s = s"
  by (induction s) auto

lemma interpolate_plain: "CHR ''%'' \<notin> set s \<Longrightarrow> interpolate options s = Inr s"
  by (induction s) auto

lemma remove_pairs_single:
  "CHR ''%'' \<notin> set a \<Longrightarrow> c \<noteq> CHR ''%'' \<Longrightarrow> remove_pairs (a @ CHR ''%'' # c # b) = a @ CHR ''%'' # remove_pairs (c # b)"
proof (induction a)
  case (Cons x a)
  then show ?case by (cases a) auto
qed simp

lemma remove_pairs_hd: "c \<noteq> CHR ''%'' \<Longrightarrow> \<exists>r. remove_pairs (c # b) = c # r"
  by (cases b) auto

lemma remove_references_single:
  "CHR ''%'' \<notin> set a \<Longrightarrow> c \<noteq> CHR ''('' \<Longrightarrow> CHR ''%'' \<in> set (remove_references (a @ CHR ''%'' # c # r))"
  by (induction a) (auto simp: reference_def)

text \<open>A URL without percent sign is used as it is.\<close>

lemma plain_url:
  assumes "CHR ''%'' \<notin> set url"
  shows "set_main_option url = Inr url" "interpolate options url = Inr url"
  using assms by (simp_all add: set_main_option_def remove_pairs_plain remove_references_plain interpolate_plain)

text \<open>
  A URL whose first percent sign starts an encoded character, as that of a password with a special character does, is
  refused before any migration runs.
\<close>

theorem encoded_url_refused:
  assumes "CHR ''%'' \<notin> set a" "c \<notin> {CHR ''%'', CHR ''(''}"
  shows "run_migrations options now offline at (a @ CHR ''%'' # c # b) s = Inl (ValueError ''invalid interpolation syntax'')"
proof -
  obtain r where "remove_pairs (a @ CHR ''%'' # c # b) = a @ CHR ''%'' # c # r"
    using remove_pairs_single [OF assms(1), of c b] remove_pairs_hd [of c b] assms(2) by auto
  then show ?thesis
    using remove_references_single [OF assms(1), of c r] assms(2) by (simp add: run_migrations_def set_main_option_def)
qed

lemma encoded_url_refused_demo:
  "run_migrations (\<lambda>n. None) ''noon'' False None ''postgresql+asyncpg://u:p%40ss@h/d'' empty_schema
    = Inl (ValueError ''invalid interpolation syntax'')"
  using encoded_url_refused [of "''postgresql+asyncpg://u:p''" "CHR ''4''" "\<lambda>n. None" "''noon''" False None "''0ss@h/d''" empty_schema]
  by simp

text \<open>On an empty database the scripts run to the head.\<close>

lemma first_migration:
  "CHR ''%'' \<notin> set url \<Longrightarrow> run_migrations options now False None url empty_schema =
    (case upgrade_head now empty_schema of None \<Rightarrow> Inl SQLAlchemyError | Some s \<Rightarrow> Inr (Migrated s))"
  by (simp add: run_migrations_def plain_url upgrade_head_def upgrade_to_def)

end
