(* ===== verification/Rate_Limits.thy ===== *)
theory Rate_Limits
  imports Api
begin

text \<open>
  The limits \<open>@limiter.limit\<close> puts on the routes (\<open>app/core/rate_limit.py\<close> and the decorators under
  \<open>app/routers/v1\<close>).  The decorator runs around the handler: after the account and the body of the request
  were resolved, so a request that is refused for one of them is not counted.  The counters are kept by
  slowapi, in Redis or in memory: \<open>hit\<close> counts a request and says whether it may pass.
\<close>

section \<open>The limits\<close>

text \<open>Requests per minute.\<close>

primrec per_minute :: "api_call \<Rightarrow> nat option" where
  "per_minute Health = None"
| "per_minute Me = Some 5"
| "per_minute (Register a b) = Some 10"
| "per_minute (ResendVerification a b) = Some 3"
| "per_minute (ResetPassword a b c d) = Some 5"
| "per_minute (Login a b c) = Some 10"
| "per_minute (Refresh a) = Some 10"
| "per_minute Logout = Some 10"
| "per_minute (ForgotPassword a b) = Some 3"
| "per_minute (VerifyEmail a b) = Some 10"
| "per_minute (GoogleLogin a) = Some 10"
| "per_minute (GoogleCallback a b c d e) = Some 10"
| "per_minute (ListSessions a b) = Some 10"
| "per_minute LogoutAll = Some 5"
| "per_minute GetProfile = Some 10"
| "per_minute (UpdateProfile a) = Some 5"
| "per_minute DeleteProfile = Some 5"
| "per_minute (UploadPhoto a b) = Some 10"
| "per_minute RemovePhoto = Some 10"
| "per_minute (ChangePassword a b) = Some 5"
| "per_minute GetPreferences = Some 30"
| "per_minute (PatchPreferences a b) = Some 30"
| "per_minute (ListNotifications a b) = Some 60"
| "per_minute UnreadNotifications = Some 120"
| "per_minute (MarkOneRead a) = Some 60"
| "per_minute MarkAllRead = Some 30"
| "per_minute (CreateInstance a b) = Some 30"
| "per_minute (ListInstances a b) = Some 60"
| "per_minute GetAnalytics = Some 60"
| "per_minute (GetBadge a) = Some 60"
| "per_minute (Publish a b) = Some 30"
| "per_minute (Unpublish a) = Some 30"
| "per_minute (Duplicate a b c) = Some 30"
| "per_minute (RemoveBadge a) = Some 30"
| "per_minute (UpdateBadge a b c d) = Some 30"
| "per_minute (UploadLogo a b c d) = Some 10"
| "per_minute (ParticipantPage a b) = Some 60"
| "per_minute (IncrementCreation a b) = Some 60"
| "per_minute (IncrementShare a) = Some 60"
| "per_minute (ListGallery a b c) = Some 60"
| "per_minute (GetGalleryTemplate a) = Some 60"
| "per_minute (Subscribe a b c) = Some 5"
| "per_minute (Unsubscribe a) = Some 5"
| "per_minute ContactSubjects = Some 30"
| "per_minute (ContactUs a b) = Some 5"
| "per_minute (CreateTemplate a b) = Some 30"
| "per_minute (UpdateTemplate a b) = Some 30"
| "per_minute (DeleteTemplate a) = Some 30"
| "per_minute (AdminListTemplates a b c) = Some 30"
| "per_minute (AdminGetTemplate a) = Some 30"

text \<open>\<open>get_remote_address\<close>: the peer of the connection, not the forwarded address.\<close>

definition remote_address :: "http_request \<Rightarrow> string" where
  "remote_address q = (case req_client_host q of Some (c # host) \<Rightarrow> c # host | _ \<Rightarrow> ''127.0.0.1'')"

definition is_testing_environment :: "bool \<Rightarrow> string option \<Rightarrow> string option \<Rightarrow> bool" where
  "is_testing_environment pytest_loaded pytest_current_test testing =
     (pytest_loaded \<or> pytest_current_test \<noteq> None \<or> testing = Some ''True'')"

definition storage_uri :: "bool \<Rightarrow> settings \<Rightarrow> string" where
  "storage_uri testing s = (if testing then ''memory://'' else REDIS_URL s)"

text \<open>
  A counter belongs to an address, the path of the URL (not the route: two badges have two counters) and
  an amount.
\<close>

type_synonym limit_key = "string \<times> string \<times> nat"

section \<open>The limited interface\<close>

text \<open>What refuses a request before its handler: the gate, then the model of its body or query.\<close>

definition error_of :: "app_error + 'a \<Rightarrow> app_error option" where
  "error_of x = (case x of Inl exc \<Rightarrow> Some exc | Inr _ \<Rightarrow> None)"

definition body_error :: "site \<Rightarrow> api_call \<Rightarrow> app_error option" where
  "body_error s c = (case c of
     Register dr body \<Rightarrow> error_of (SignupRequest (st_email s) body)
   | ResendVerification raw email \<Rightarrow> error_of (EmailRequest (st_email s) email)
   | ResetPassword salt tok p p' \<Rightarrow> error_of (ResetPasswordRequest tok p p')
   | Login dr email p \<Rightarrow> error_of (LoginRequest (st_email s) email p)
   | ForgotPassword raw email \<Rightarrow> error_of (EmailRequest (st_email s) email)
   | ListSessions p l \<Rightarrow> error_of (page_query p l)
   | UpdateProfile body \<Rightarrow> error_of (UpdateProfileRequest (st_email s) body)
   | ChangePassword salt body \<Rightarrow> error_of (ChangePasswordRequest body)
   | ListNotifications p l \<Rightarrow> error_of (page_query p l)
   | ListInstances p l \<Rightarrow> error_of (page_query p l)
   | UpdateBadge ids bid body tags \<Rightarrow> error_of (EditBadgeRequest body tags)
   | ListGallery cat p l \<Rightarrow> error_of (page_query p l)
   | Subscribe sid tok email \<Rightarrow> error_of (email_field (st_email s) email)
   | ContactUs choice body \<Rightarrow> error_of (ContactRequest (st_email s) body)
   | CreateTemplate tid body \<Rightarrow> error_of (CreatePlatformTemplateRequest body)
   | UpdateTemplate tid body \<Rightarrow> error_of (UpdatePlatformTemplateRequest body)
   | AdminListTemplates cat l off \<Rightarrow> error_of (admin_list_query l off)
   | _ \<Rightarrow> None)"

definition gate_error :: "'r env \<Rightarrow> time \<Rightarrow> http_request \<Rightarrow> api_call \<Rightarrow> 'r world \<Rightarrow> app_error option" where
  "gate_error e now q c w = (case gate_of c of
     Public \<Rightarrow> None
   | Organiser \<Rightarrow> error_of (get_current_user e now (access_cookie e q) w)
   | Administrator \<Rightarrow> error_of (get_current_admin e now (access_cookie e q) w))"

definition request_error :: "'r env \<Rightarrow> site \<Rightarrow> time \<Rightarrow> http_request \<Rightarrow> api_call \<Rightarrow> 'r world \<Rightarrow> app_error option" where
  "request_error e s now q c w = (case gate_error e now q c w of Some exc \<Rightarrow> Some exc | None \<Rightarrow> body_error s c)"

record timed_request =
  tr_now :: time
  tr_path :: string
  tr_http :: http_request
  tr_call :: api_call

definition limit_key :: "timed_request \<Rightarrow> limit_key option" where
  "limit_key r = map_option (\<lambda>n. (remote_address (tr_http r), tr_path r, n)) (per_minute (tr_call r))"

text \<open>The request with the limiter: the response, whether the handler ran, and the state after it.\<close>

definition limited_api :: "(limit_key \<Rightarrow> time \<Rightarrow> 'l \<Rightarrow> bool \<times> 'l) \<Rightarrow> 'r env \<Rightarrow> site \<Rightarrow> timed_request \<Rightarrow> 'l \<times> 'r world \<Rightarrow>
    (http_response \<times> bool) \<times> 'l \<times> 'r world" where
  "limited_api hit e s r lw = (let (l, w) = lw; call = api e s (tr_now r) (tr_http r) (tr_call r) w in
     (case request_error e s (tr_now r) (tr_http r) (tr_call r) w of
        Some exc \<Rightarrow> ((error_response exc, False), l, w)
      | None \<Rightarrow> (case limit_key r of
          None \<Rightarrow> ((fst call, True), l, snd call)
        | Some k \<Rightarrow> (case hit k (tr_now r) l of
            (False, l) \<Rightarrow> ((error_response RateLimitExceeded, False), l, w)
          | (True, l) \<Rightarrow> ((fst call, True), l, snd call)))))"

fun limited_run :: "(limit_key \<Rightarrow> time \<Rightarrow> 'l \<Rightarrow> bool \<times> 'l) \<Rightarrow> 'r env \<Rightarrow> site \<Rightarrow> timed_request list \<Rightarrow> 'l \<times> 'r world \<Rightarrow>
    (http_response \<times> bool) list \<times> 'l \<times> 'r world" where
  "limited_run hit e s [] lw = ([], lw)"
| "limited_run hit e s (r # rs) lw = (case limited_api hit e s r lw of (x, lw1) \<Rightarrow>
     (case limited_run hit e s rs lw1 of (xs, lw2) \<Rightarrow> (x # xs, lw2)))"

end
