(* ===== verification/Rate_Facts.thy ===== *)
theory Rate_Facts
  imports Rate_Limits Api_Facts
begin

text \<open>
  What the limits guarantee, over the contract of slowapi's fixed windows: how many requests of a client
  reach a handler in a minute.
\<close>

section \<open>Fixed windows\<close>

text \<open>
  A counter has the time its window ends and the requests counted in it; a request after that time opens a
  new window of a minute.
\<close>

definition count_hit :: "time \<Rightarrow> (time \<times> nat) option \<Rightarrow> time \<times> nat" where
  "count_hit now win = (case win of
     Some (expiry, n) \<Rightarrow> if now < expiry then (expiry, n + 1) else (now + seconds 60, 1)
   | None \<Rightarrow> (now + seconds 60, 1))"

definition amount :: "limit_key \<Rightarrow> nat" where
  "amount k = snd (snd k)"

locale fixed_window =
  fixes hit :: "limit_key \<Rightarrow> time \<Rightarrow> 'l \<Rightarrow> bool \<times> 'l"
    and counter :: "'l \<Rightarrow> limit_key \<Rightarrow> (time \<times> nat) option"
  assumes hit_passes: "fst (hit k now l) \<longleftrightarrow> snd (count_hit now (counter l k)) \<le> amount k"
    and hit_counts: "counter (snd (hit k now l)) k = Some (count_hit now (counter l k))"
    and hit_apart: "k' \<noteq> k \<Longrightarrow> counter (snd (hit k now l)) k' = counter l k'"
begin

text \<open>What the counter of a key still lets through in its window, and what a list of requests passes.\<close>

definition left :: "limit_key \<Rightarrow> 'l \<Rightarrow> nat" where
  "left k l = (case counter l k of None \<Rightarrow> 0 | Some (expiry, n) \<Rightarrow> amount k - n)"

fun passed :: "limit_key \<Rightarrow> (limit_key \<times> time) list \<Rightarrow> 'l \<Rightarrow> nat" where
  "passed k [] l = 0"
| "passed k ((k', now) # hs) l = (if k' = k \<and> fst (hit k' now l) then 1 else 0) + passed k hs (snd (hit k' now l))"

lemma passed_in_window:
  assumes "counter l k = Some (expiry, n)" "\<And>now. (k, now) \<in> set hs \<Longrightarrow> now < expiry"
  shows "passed k hs l \<le> amount k - n"
  using assms
proof (induction hs arbitrary: l n)
  case (Cons h hs)
  obtain k' now where h: "h = (k', now)" by (cases h)
  show ?case
  proof (cases "k' = k")
    case True
    have "counter (snd (hit k now l)) k = Some (expiry, n + 1)"
      using Cons.prems h True by (simp add: hit_counts count_hit_def)
    from Cons.IH [OF this] Cons.prems(2) have "passed k hs (snd (hit k now l)) \<le> amount k - (n + 1)" by simp
    moreover have "fst (hit k now l) \<longleftrightarrow> n + 1 \<le> amount k"
      using Cons.prems h True by (simp add: hit_passes count_hit_def)
    ultimately show ?thesis by (simp add: h True) arith
  next
    case False
    then have "counter (snd (hit k' now l)) k = Some (expiry, n)" using hit_apart [of k k'] Cons.prems(1) by simp
    from Cons.IH [OF this] Cons.prems(2) False show ?thesis by (simp add: h)
  qed
qed simp

text \<open>In any minute, what is left of the window that is open at its start, and one full window.\<close>

lemma passed_in_minute:
  assumes "\<And>now. (k, now) \<in> set hs \<Longrightarrow> t \<le> now \<and> now < t + seconds 60"
  shows "passed k hs l \<le> left k l + amount k"
  using assms
proof (induction hs arbitrary: l)
  case (Cons h hs)
  obtain k' now where h: "h = (k', now)" by (cases h)
  note IH = Cons.IH [of "snd (hit k' now l)"]
  show ?case
  proof (cases "k' = k")
    case True
    note k = this
    show ?thesis
    proof (cases "\<exists>expiry n. counter l k = Some (expiry, n) \<and> now < expiry")
      case True
      then obtain expiry n where c: "counter l k = Some (expiry, n)" "now < expiry" by blast
      then have "left k (snd (hit k now l)) = amount k - (n + 1)" by (simp add: left_def hit_counts count_hit_def)
      moreover have "fst (hit k now l) \<longleftrightarrow> n + 1 \<le> amount k" using c by (simp add: hit_passes count_hit_def)
      ultimately show ?thesis using IH Cons.prems c by (auto simp: h k left_def)
    next
      case False
      then have c: "count_hit now (counter l k) = (now + seconds 60, 1)"
        by (auto simp: count_hit_def split: option.split)
      then have "passed k hs (snd (hit k now l)) \<le> amount k - 1"
      proof (intro passed_in_window)
        show "counter (snd (hit k now l)) k = Some (now + seconds 60, 1)" using c by (simp add: hit_counts)
        show "now' < now + seconds 60" if "(k, now') \<in> set hs" for now'
          using Cons.prems [of now'] Cons.prems [of now] that by (simp add: h k)
      qed
      moreover have "fst (hit k now l) \<longleftrightarrow> 1 \<le> amount k" using c by (simp add: hit_passes)
      ultimately show ?thesis by (simp add: h k) arith
    qed
  next
    case False
    then have "left k (snd (hit k' now l)) = left k l" using hit_apart [of k k'] by (simp add: left_def)
    with IH Cons.prems False show ?thesis by (simp add: h)
  qed
qed simp

end

text \<open>Counters in memory: a map from keys to windows.\<close>

definition memory_hit :: "limit_key \<Rightarrow> time \<Rightarrow> (limit_key \<Rightarrow> (time \<times> nat) option) \<Rightarrow> bool \<times> (limit_key \<Rightarrow> (time \<times> nat) option)" where
  "memory_hit k now l = (let win = count_hit now (l k) in (snd win \<le> amount k, l(k \<mapsto> win)))"

interpretation memory: fixed_window memory_hit "\<lambda>l. l"
  by unfold_locales (simp_all add: memory_hit_def Let_def)

section \<open>The limited interface\<close>

text \<open>A refused request is one the interface answers so by itself, and it changes nothing.\<close>

lemma error_of_simps [simp]: "error_of (Inl exc) = Some exc" "error_of (Inr x) = None"
  by (simp_all add: error_of_def)

lemma error_of_Some [simp]: "error_of x = Some exc \<longleftrightarrow> x = Inl exc"
  by (cases x) auto

lemma error_of_None [simp]: "error_of x = None \<longleftrightarrow> (\<exists>y. x = Inr y)"
  by (cases x) auto

lemmas route_defs = register_def resend_verification_def reset_organizer_password_def login_def forgot_password_def
  list_sessions_def update_user_profile_def change_user_password_def list_user_notifications_def list_instances_def
  update_badge_def list_templates_def subscribe_to_newsletter_def contact_us_def create_template_def update_template_def
  admin_list_templates_def

lemma body_error_answer:
  assumes "gate_error e now q c w = None" "body_error s c = Some exc"
  shows "api e s now q c w = (error_response exc, w)"
  using assms
  by (cases c) (auto simp: body_error_def gate_error_def route_defs validated_def as_user_def as_admin_def)

lemma request_error_answer:
  assumes "request_error e s now q c w = Some exc"
  shows "api e s now q c w = (error_response exc, w)"
proof (cases "gate_error e now q c w")
  case None
  with assms body_error_answer show ?thesis by (simp add: request_error_def)
next
  case (Some err)
  with assms have "gate_error e now q c w = Some exc" by (simp add: request_error_def)
  then show ?thesis
    using api_organiser api_administrator by (cases "gate_of c") (simp_all add: gate_error_def)
qed

text \<open>Every step of the limited interface is a step of the interface, or a refusal that changes nothing.\<close>

lemma limited_api_cases:
  assumes "limited_api hit e s r (l, w) = ((resp, handled), l', w')"
  obtains (handled) "handled" "api e s (tr_now r) (tr_http r) (tr_call r) w = (resp, w')"
      "case limit_key r of None \<Rightarrow> l' = l | Some k \<Rightarrow> hit k (tr_now r) l = (True, l')"
  | (refused) "\<not> handled" "w' = w" "l' = l"
      "api e s (tr_now r) (tr_http r) (tr_call r) w = (resp, w)"
  | (limited) k where "\<not> handled" "w' = w" "resp = error_response RateLimitExceeded" "limit_key r = Some k"
      "hit k (tr_now r) l = (False, l')"
proof (cases "request_error e s (tr_now r) (tr_http r) (tr_call r) w")
  case None
  with assms show ?thesis
    by (auto simp: limited_api_def Let_def intro: handled limited split: option.splits prod.splits bool.splits)
next
  case (Some exc)
  with assms have "\<not> handled" "w' = w" "l' = l" "resp = error_response exc" by (auto simp: limited_api_def Let_def)
  with Some show ?thesis by (intro refused) (simp_all add: request_error_answer)
qed

text \<open>So what holds of every run of the interface holds of the limited one.\<close>

lemma limited_api_step:
  assumes "limited_api hit e s r (l, w) = (x, l', w')"
    and "\<forall>f. drawn_family (tr_call r) = Some f \<longrightarrow> f \<in> F \<and> f \<notin> rt_family_id ` set (refresh_tokens (db w))"
  shows "api_run e s F w w'"
proof -
  obtain resp handled where x: "x = (resp, handled)" by (cases x)
  from assms(1) [unfolded x] show ?thesis
  proof (cases rule: limited_api_cases)
    case handled
    then have "w' = snd (api e s (tr_now r) (tr_http r) (tr_call r) w)" by simp
    then show ?thesis using api_step.call [OF assms(2)] by (simp add: r_into_rtranclp)
  qed simp_all
qed

definition handled_count :: "limit_key \<Rightarrow> timed_request list \<Rightarrow> (http_response \<times> bool) list \<Rightarrow> nat" where
  "handled_count k rs xs = length (filter (\<lambda>(r, x). limit_key r = Some k \<and> snd x) (zip rs xs))"

lemma handled_count_simps [simp]:
  "handled_count k [] xs = 0"
  "handled_count k (r # rs) (x # xs) = (if limit_key r = Some k \<and> snd x then 1 else 0) + handled_count k rs xs"
  by (simp_all add: handled_count_def)

context fixed_window
begin

lemma run_passes:
  assumes "limited_run hit e s rs (l, w) = (xs, lw)"
  shows "\<exists>hs. handled_count k rs xs = passed k hs l
    \<and> (\<forall>(k', now)\<in>set hs. \<exists>r\<in>set rs. limit_key r = Some k' \<and> tr_now r = now)"
  using assms
proof (induction rs arbitrary: l w xs)
  case Nil
  then show ?case by (intro exI [of _ "[]"]) simp
next
  case (Cons r rs)
  obtain resp handled l1 w1 where step: "limited_api hit e s r (l, w) = ((resp, handled), l1, w1)"
    by (metis prod.exhaust)
  with Cons.prems obtain ys where ys: "limited_run hit e s rs (l1, w1) = (ys, lw)" "xs = (resp, handled) # ys"
    by (auto split: prod.splits)
  obtain hs where hs: "handled_count k rs ys = passed k hs l1"
      "\<forall>(k', now)\<in>set hs. \<exists>r\<in>set rs. limit_key r = Some k' \<and> tr_now r = now"
    using Cons.IH [OF ys(1)] by blast
  from step show ?case
  proof (cases rule: limited_api_cases)
    case handled
    then show ?thesis
    proof (cases "limit_key r")
      case None
      with handled hs ys show ?thesis by (intro exI [of _ hs]) auto
    next
      case (Some k')
      with handled hs ys show ?thesis by (intro exI [of _ "(k', tr_now r) # hs"]) auto
    qed
  next
    case refused
    with hs ys show ?thesis by (intro exI [of _ hs]) auto
  next
    case (limited k')
    with hs ys show ?thesis by (intro exI [of _ "(k', tr_now r) # hs"]) auto
  qed
qed

lemma run_minute:
  assumes "limited_run hit e s rs (l, w) = (xs, lw)"
    and "\<And>r. r \<in> set rs \<Longrightarrow> limit_key r = Some k \<Longrightarrow> t \<le> tr_now r \<and> tr_now r < t + seconds 60"
  shows "handled_count k rs xs \<le> left k l + amount k"
proof -
  obtain hs where hs: "handled_count k rs xs = passed k hs l"
      "\<forall>(k', now)\<in>set hs. \<exists>r\<in>set rs. limit_key r = Some k' \<and> tr_now r = now"
    using run_passes [OF assms(1)] by blast
  show ?thesis unfolding hs(1) by (rule passed_in_minute) (use hs(2) assms(2) in fastforce)
qed

lemma left_le: "left k l \<le> amount k"
  by (simp add: left_def split: option.split)

end

text \<open>C38. The limits bound what a client can do: whatever requests arrive, every route but the health check has a limit of n a
  minute, and of the requests of one address for one path of it within any minute at most 2 n are handled, at most n when no window is
  open at its start.  A request that is not handled changes nothing; its answer is 429, or the one it would have had anyway.\<close>

theorem rate_limited:
  assumes "fixed_window hit counter" "limited_run hit e s rs (l, w) = (xs, lw)"
    and "\<And>r. r \<in> set rs \<Longrightarrow> remote_address (tr_http r) = a \<Longrightarrow> tr_path r = p \<Longrightarrow> per_minute (tr_call r) = Some n \<Longrightarrow>
      t \<le> tr_now r \<and> tr_now r < t + seconds 60"
  shows "handled_count (a, p, n) rs xs \<le> 2 * n
    \<and> (counter l (a, p, n) = None \<longrightarrow> handled_count (a, p, n) rs xs \<le> n)
    \<and> (c \<noteq> Health \<longrightarrow> per_minute c \<noteq> None)
    \<and> (\<forall>resp l' w'. limited_api hit e s r (l, w) = ((resp, False), l', w') \<longrightarrow> w' = w
        \<and> (hr_status resp = 429 \<or> api e s (tr_now r) (tr_http r) (tr_call r) w = (resp, w)))"
proof (intro conjI impI allI)
  note minute = fixed_window.run_minute [OF assms(1,2), of "(a, p, n)" t]
  have bound: "handled_count (a, p, n) rs xs \<le> fixed_window.left counter (a, p, n) l + n"
    using minute assms(3) by (auto simp: limit_key_def amount_def)
  then show "handled_count (a, p, n) rs xs \<le> 2 * n"
    using fixed_window.left_le [OF assms(1), of "(a, p, n)" l] by (simp add: amount_def)
  show "handled_count (a, p, n) rs xs \<le> n" if "counter l (a, p, n) = None"
    using bound that by (simp add: fixed_window.left_def [OF assms(1)])
  show "per_minute c \<noteq> None" if "c \<noteq> Health" using that by (cases c) simp_all
  fix resp l' w'
  assume "limited_api hit e s r (l, w) = ((resp, False), l', w')"
  then have "w' = w \<and> (resp = error_response RateLimitExceeded \<or> api e s (tr_now r) (tr_http r) (tr_call r) w = (resp, w))"
    by (cases rule: limited_api_cases) simp_all
  then show "w' = w" "hr_status resp = 429 \<or> api e s (tr_now r) (tr_http r) (tr_call r) w = (resp, w)"
    by (auto simp: error_status global_exception_handler_def)
qed

text \<open>Four requests for a verification mail, of which three are handled.\<close>

definition demo_requests :: "timed_request list" where
  "demo_requests = map (\<lambda>t. \<lparr>tr_now = t, tr_path = ''/api/v1/auth/forgot-password'', tr_http = demo_http [],
     tr_call = ForgotPassword ''raw'' ''nobody''\<rparr>) [1, 2, 3, 4]"

theorem rate_limited_witness:
  "handled_count (''127.0.0.1'', ''/api/v1/auth/forgot-password'', 3) demo_requests
     (fst (limited_run memory_hit demo_env demo_site demo_requests (\<lambda>k. None, demo_world demo_db))) \<le> 3"
proof -
  obtain xs lw where run: "limited_run memory_hit demo_env demo_site demo_requests (\<lambda>k. None, demo_world demo_db) = (xs, lw)"
    by (metis prod.exhaust)
  have "0 \<le> tr_now r \<and> tr_now r < 0 + seconds 60" if "r \<in> set demo_requests" for r
    using that by (auto simp: demo_requests_def)
  with rate_limited [OF memory.fixed_window_axioms run, of "''127.0.0.1''" "''/api/v1/auth/forgot-password''" 3 0] run show ?thesis by simp
qed

end
