(* ===== verification/Application.thy ===== *)
theory Application
  imports Rate_Facts
begin

text \<open>
  The parts that run the service: the root route of \<open>app/main.py\<close> and the schedule of
  \<open>app/workers/notification_worker.py\<close>.
\<close>

section \<open>The root route\<close>

definition root :: "settings \<Rightarrow> (string \<times> string) list" where
  "root s = [(''message'', PROJECT_NAME s @ '' is running'')]"

text \<open>The route has a limit of its own, on the path of the root.\<close>

definition root_limit :: nat where
  "root_limit = 15"

definition limited_root :: "(limit_key \<Rightarrow> time \<Rightarrow> 'l \<Rightarrow> bool \<times> 'l) \<Rightarrow> settings \<Rightarrow> time \<Rightarrow> http_request \<Rightarrow> 'l \<Rightarrow>
    (app_error + (string \<times> string) list) \<times> 'l" where
  "limited_root hit s now q l = (case hit (remote_address q, ''/'', root_limit) now l of
     (False, l) \<Rightarrow> (Inl RateLimitExceeded, l) | (True, l) \<Rightarrow> (Inr (root s), l))"

section \<open>The schedule of the digests\<close>

datatype job = DailyDigests | WeeklyReports

text \<open>Weekdays count from Monday, 0, to Sunday, 6.\<close>

record cron_job =
  cj_name :: string
  cj_job :: job
  cj_weekday :: "int option"
  cj_hour :: int
  cj_minute :: int

definition cron_jobs :: "cron_job list" where
  "cron_jobs = [\<lparr>cj_name = ''daily_digest'', cj_job = DailyDigests, cj_weekday = None, cj_hour = 20, cj_minute = 0\<rparr>,
     \<lparr>cj_name = ''weekly_report'', cj_job = WeeklyReports, cj_weekday = Some 6, cj_hour = 20, cj_minute = 0\<rparr>]"

text \<open>
  The documented schedule of arq: a job starts in second 0, microsecond 123456, of the minutes it names, in the local
  time of the worker.  Times are local microseconds since 1970-01-01, a Thursday.
\<close>

definition day :: time where
  "day = seconds 86400"

definition weekday :: "time \<Rightarrow> int" where
  "weekday t = (t div day + 3) mod 7"

definition time_of_day :: "cron_job \<Rightarrow> time" where
  "time_of_day j = seconds (cj_hour j * 3600 + cj_minute j * 60) + 123456"

definition due :: "cron_job \<Rightarrow> time \<Rightarrow> bool" where
  "due j t = (t mod day = time_of_day j \<and> (case cj_weekday j of None \<Rightarrow> True | Some wd \<Rightarrow> weekday t = wd))"

definition due_jobs :: "time \<Rightarrow> job list" where
  "due_jobs t = map cj_job (filter (\<lambda>j. due j t) cron_jobs)"

primrec run_job :: "job \<Rightarrow> time \<Rightarrow> (uuid \<Rightarrow> uuid) \<Rightarrow> 'r world \<Rightarrow> 'r world" where
  "run_job DailyDigests now ids w = w\<lparr>db := snd (send_daily_digests now ids (db w))\<rparr>"
| "run_job WeeklyReports now ids w = w\<lparr>db := snd (send_weekly_reports now ids (db w))\<rparr>"

lemma run_job_step: "api_run e s F w (run_job j now ids w)"
  by (cases j) (auto intro!: r_into_rtranclp intro: api_step.daily api_step.weekly simp: prod_eq_iff)

lemma one_per_period:
  fixes a :: int
  assumes "0 \<le> r" "r < m"
  shows "\<exists>!t. a \<le> t \<and> t < a + m \<and> t mod m = r"
proof (rule ex1I [of _ "a + (r - a) mod m"])
  show "a \<le> a + (r - a) mod m \<and> a + (r - a) mod m < a + m \<and> (a + (r - a) mod m) mod m = r"
    using assms by (simp add: mod_simps)
next
  fix t
  let ?u = "a + (r - a) mod m"
  assume t: "a \<le> t \<and> t < a + m \<and> t mod m = r"
  have u: "a \<le> ?u" "?u < a + m" "?u mod m = r" using assms by (simp_all add: mod_simps)
  have "(t - a) mod m = (?u - a) mod m" using t u(3) by (metis mod_diff_left_eq)
  moreover have "(t - a) mod m = t - a" by (rule mod_pos_pos_trivial) (use t in auto)
  moreover have "(?u - a) mod m = ?u - a" by (rule mod_pos_pos_trivial) (use u in auto)
  ultimately show "t = ?u" by linarith
qed

text \<open>The daily job starts once in every 24 hours, the weekly one once in every seven days, on a Sunday.\<close>

lemma daily_fires_once: "\<exists>!t. a \<le> t \<and> t < a + day \<and> due (cron_jobs ! 0) t"
  using one_per_period [of "time_of_day (cron_jobs ! 0)" day a]
  by (simp add: due_def cron_jobs_def time_of_day_def day_def)

lemma sunday: "(q + 3) mod 7 = 6 \<longleftrightarrow> q mod 7 = (3 :: int)"
  by presburger

lemma weekly_due_iff: "due (cron_jobs ! 1) t \<longleftrightarrow> t mod (day * 7) = day * 3 + time_of_day (cron_jobs ! 1)"
proof -
  have r: "0 \<le> t mod day" "t mod day < day" by (simp_all add: day_def)
  have x: "0 \<le> time_of_day (cron_jobs ! 1)" "time_of_day (cron_jobs ! 1) < day"
    by (simp_all add: cron_jobs_def time_of_day_def day_def)
  have "t mod (day * 7) = day * (t div day mod 7) + t mod day"
    by (rule zmod_zmult2_eq) simp
  moreover have "day * q + v = day * 3 + x \<longleftrightarrow> q = 3 \<and> v = x" if "0 \<le> v" "v < day" "0 \<le> x" "x < day" for q v x
  proof
    assume "day * q + v = day * 3 + x"
    moreover from this have "q = 3"
      using that int_div_pos_eq [of "day * q + v" day q v] int_div_pos_eq [of "day * 3 + x" day 3 x] by metis
    ultimately show "q = 3 \<and> v = x" by simp
  qed simp
  moreover have "due (cron_jobs ! 1) t \<longleftrightarrow> t div day mod 7 = 3 \<and> t mod day = time_of_day (cron_jobs ! 1)"
    by (auto simp: due_def cron_jobs_def weekday_def sunday)
  ultimately show ?thesis using r x by metis
qed

lemma weekly_fires_once: "\<exists>!t. a \<le> t \<and> t < a + day * 7 \<and> due (cron_jobs ! 1) t"
  using one_per_period [of "day * 3 + time_of_day (cron_jobs ! 1)" "day * 7" a] unfolding weekly_due_iff
  by (simp add: cron_jobs_def time_of_day_def day_def)

end
