(* ===== verification/Interleaving.thy ===== *)
theory Interleaving
  imports Api_Facts
begin

text \<open>
  A refresh that does not run alone.  \<open>refresh_session\<close> reads the row of the token and writes at its commit;
  the read takes no lock, so other requests may commit in between.  The read and the write are steps of their
  own here, and everything else may happen between them.
\<close>

section \<open>Reading and writing\<close>

text \<open>What the read decides; \<open>RotatePlan\<close> holds the row and the account it read.\<close>

datatype refresh_plan = RefusePlan | ReusePlan refresh_token | RotatePlan refresh_token user

definition read_refresh :: "'r env \<Rightarrow> time \<Rightarrow> string \<Rightarrow> database \<Rightarrow> refresh_plan" where
  "read_refresh e now raw_refresh_token d =
     (case token_by_hash (hash_token e raw_refresh_token) d of
        None \<Rightarrow> RefusePlan
      | Some token_obj \<Rightarrow>
          if rt_is_revoked token_obj then ReusePlan token_obj
          else if rt_expires_at token_obj < now then RefusePlan
          else (case get_user (rt_user_id token_obj) d of None \<Rightarrow> RefusePlan | Some user \<Rightarrow> RotatePlan token_obj user))"

text \<open>
  The write: the update names the row by its key.  When the row is gone, SQLAlchemy raises
  \<open>StaleDataError\<close> and nothing is written.
\<close>

definition write_refresh :: "'r env \<Rightarrow> time \<Rightarrow> session_draws \<Rightarrow> string option \<Rightarrow> request option \<Rightarrow> refresh_plan \<Rightarrow>
    'r world \<Rightarrow> (app_error + string \<times> string) \<times> 'r world" where
  "write_refresh e now dr access_token req plan w = (case plan of
     RefusePlan \<Rightarrow> (Inl InvalidRefreshTokenError, w)
   | ReusePlan token_obj \<Rightarrow> (Inl InvalidRefreshTokenError, refresh_reused e now token_obj w)
   | RotatePlan token_obj user \<Rightarrow>
       (let w = w\<lparr>kv := blacklist_access_token_if_valid e now access_token (kv w)\<rparr>;
            d = (db w)\<lparr>refresh_tokens := update_where (\<lambda>t. rt_id t = rt_id token_obj)
              (\<lambda>t. t\<lparr>rt_is_revoked := True, rt_last_used_at := Some now\<rparr>) (refresh_tokens (db w))\<rparr>;
            (new_raw_refresh, new_expire) = create_refresh_token e now (se_refresh_jti dr) (u_id user);
            new_token = new_refresh_token now (se_token_id dr) (u_id user)
              (hash_token e new_raw_refresh) new_expire (rt_family_id token_obj)
              (case req of Some q \<Rightarrow> Some (user_agent_of q) | None \<Rightarrow> rt_user_agent token_obj)
              (case req of Some q \<Rightarrow> get_client_ip q | None \<Rightarrow> rt_ip_address token_obj);
            new_access_token = create_access_token e now (se_access_jti dr) (u_id user)
        in if rt_id token_obj \<notin> rt_id ` set (refresh_tokens (db w)) then (Inl SQLAlchemyError, w)
           else (case insert_refresh_token new_token d of
             Inl err \<Rightarrow> (Inl err, w)
           | Inr d \<Rightarrow> (Inr (new_access_token, new_raw_refresh), w\<lparr>db := d\<rparr>))))"

text \<open>With nothing in between, the two steps are the service.\<close>

lemma refresh_in_two_steps:
  "refresh_session e now dr raw a q w = write_refresh e now dr a q (read_refresh e now raw (db w)) w"
  by (auto simp: refresh_session_def read_refresh_def write_refresh_def Let_def dest: token_by_hashD
      split: option.split prod.split)

lemma read_refresh_rotate:
  "read_refresh e now raw d = RotatePlan t u \<longleftrightarrow> token_by_hash (hash_token e raw) d = Some t \<and> \<not> rt_is_revoked t
     \<and> \<not> rt_expires_at t < now \<and> get_user (rt_user_id t) d = Some u"
  by (auto simp: read_refresh_def split: option.split)

lemma write_rotate:
  assumes "rt_id t \<in> rt_id ` set (refresh_tokens (db w))"
  shows "write_refresh e now dr a q (RotatePlan t u) w =
    (let w1 = w\<lparr>kv := blacklist_access_token_if_valid e now a (kv w)\<rparr> in
     case insert_refresh_token (rotated_row e now dr t u q)
         ((db w)\<lparr>refresh_tokens := rotate_token now t (refresh_tokens (db w))\<rparr>) of
       Inl err \<Rightarrow> (Inl err, w1)
     | Inr d \<Rightarrow> (Inr (create_access_token e now (se_access_jti dr) (u_id u),
           fst (create_refresh_token e now (se_refresh_jti dr) (u_id u))), w1\<lparr>db := d\<rparr>))"
proof -
  obtain raw' where raw': "create_refresh_token e now (se_refresh_jti dr) (u_id u)
      = (raw', now + seconds (REFRESH_TOKEN_EXPIRE_DAYS (cfg e) * 86400))"
    using create_refresh_token_pair by blast
  show ?thesis
    using assms
    by (simp add: write_refresh_def Let_def rotated_row_def rotate_token_def raw' del: create_refresh_token_expiry
        split: sum.split option.split)
qed

lemma write_gone:
  "rt_id t \<notin> rt_id ` set (refresh_tokens (db w)) \<Longrightarrow> fst (write_refresh e now dr a q (RotatePlan t u) w) = Inl SQLAlchemyError
     \<and> db (snd (write_refresh e now dr a q (RotatePlan t u) w)) = db w"
  by (simp add: write_refresh_def Let_def split: prod.split)

lemma reused_db:
  "db (refresh_reused e now t w) = db w \<or>
   db (refresh_reused e now t w) = (db w)\<lparr>refresh_tokens := revoke_family (rt_family_id t) (refresh_tokens (db w))\<rparr>"
  by (auto simp: refresh_reused_def Let_def revoke_where_def revoke_family_def split: option.split)

lemma write_refresh_db:
  obtains (same) "db (snd (write_refresh e now dr a q plan w)) = db w"
  | (reused) t where "plan = ReusePlan t" "db (snd (write_refresh e now dr a q plan w)) =
       (db w)\<lparr>refresh_tokens := revoke_family (rt_family_id t) (refresh_tokens (db w))\<rparr>"
  | (rotated) t u where "plan = RotatePlan t u" "insert_refresh_token (rotated_row e now dr t u q)
       ((db w)\<lparr>refresh_tokens := rotate_token now t (refresh_tokens (db w))\<rparr>)
       = Inr (db (snd (write_refresh e now dr a q plan w)))"
proof (cases plan)
  case RefusePlan
  then show ?thesis by (intro same) (simp add: write_refresh_def)
next
  case (ReusePlan t)
  then have "db (snd (write_refresh e now dr a q plan w)) = db (refresh_reused e now t w)" by (simp add: write_refresh_def)
  then show ?thesis using reused_db [of e now t w] same reused [OF ReusePlan] by metis
next
  case (RotatePlan t u)
  show ?thesis
  proof (cases "rt_id t \<in> rt_id ` set (refresh_tokens (db w))")
    case True
    show ?thesis
    proof (cases "insert_refresh_token (rotated_row e now dr t u q)
        ((db w)\<lparr>refresh_tokens := rotate_token now t (refresh_tokens (db w))\<rparr>)")
      case (Inl err)
      then show ?thesis using write_rotate [OF True, of e now dr a q u] RotatePlan by (intro same) (simp add: Let_def)
    next
      case (Inr d)
      then show ?thesis using write_rotate [OF True, of e now dr a q u] RotatePlan by (intro rotated) (simp_all add: Let_def)
    qed
  qed (use write_gone RotatePlan same in blast)
qed

lemma write_refresh_wf:
  assumes "db_wf (db w)"
  shows "db_wf (db (snd (write_refresh e now dr a q plan w)))"
proof (rule write_refresh_db [of e now dr a q plan w])
  show ?thesis if "db (snd (write_refresh e now dr a q plan w)) = db w" using that assms by simp
  show ?thesis if "db (snd (write_refresh e now dr a q plan w)) =
      (db w)\<lparr>refresh_tokens := revoke_family (rt_family_id t) (refresh_tokens (db w))\<rparr>" for t
    unfolding that revoke_family_def by (rule update_tokens_wf [OF assms]) simp_all
  show ?thesis if i: "insert_refresh_token (rotated_row e now dr t u q)
      ((db w)\<lparr>refresh_tokens := rotate_token now t (refresh_tokens (db w))\<rparr>) = Inr (db (snd (write_refresh e now dr a q plan w)))"
    for t u
  proof (rule insert_refresh_token_wf [OF _ i])
    show "db_wf ((db w)\<lparr>refresh_tokens := rotate_token now t (refresh_tokens (db w))\<rparr>)"
      unfolding rotate_token_def by (rule update_tokens_wf [OF assms]) simp_all
  qed
qed

section \<open>Runs with refreshes under way\<close>

record pending =
  pd_now :: time
  pd_draws :: session_draws
  pd_access :: "string option"
  pd_request :: "request option"
  pd_plan :: refresh_plan

definition plan_family :: "refresh_plan \<Rightarrow> uuid option" where
  "plan_family plan = (case plan of RotatePlan t u \<Rightarrow> Some (rt_family_id t) | _ \<Rightarrow> None)"

text \<open>What \<open>refresh_session\<close> does after its last read.\<close>

definition finish :: "'r env \<Rightarrow> pending \<Rightarrow> 'r world \<Rightarrow> (app_error + string \<times> string) \<times> 'r world" where
  "finish e p w = write_refresh e (pd_now p) (pd_draws p) (pd_access p) (pd_request p) (pd_plan p) w"

inductive mixed_step :: "'r env \<Rightarrow> site \<Rightarrow> uuid set \<Rightarrow> 'r world \<times> pending list \<Rightarrow> 'r world \<times> pending list \<Rightarrow> bool"
  for e :: "'r env" and s :: site and F :: "uuid set" where
  other: "api_step e s F w w' \<Longrightarrow> mixed_step e s F (w, ps) (w', ps)"
| begin_refresh: "pd_plan p = read_refresh e (pd_now p) raw (db w) \<Longrightarrow> mixed_step e s F (w, ps) (w, p # ps)"
| end_refresh: "mixed_step e s F (w, ps @ p # qs) (snd (finish e p w), ps @ qs)"

abbreviation mixed_run :: "'r env \<Rightarrow> site \<Rightarrow> uuid set \<Rightarrow> 'r world \<times> pending list \<Rightarrow> 'r world \<times> pending list \<Rightarrow> bool" where
  "mixed_run e s F \<equiv> (mixed_step e s F)\<^sup>*\<^sup>*"

text \<open>No refresh of the family is under way.\<close>

definition settled :: "uuid \<Rightarrow> pending list \<Rightarrow> bool" where
  "settled f ps = list_all (\<lambda>p. plan_family (pd_plan p) \<noteq> Some f) ps"

definition shut :: "uuid \<Rightarrow> 'r world \<times> pending list \<Rightarrow> bool" where
  "shut f wp = (db_wf (db (fst wp)) \<and> closed_family f (refresh_tokens (db (fst wp))) \<and> settled f (snd wp))"

lemma closed_revoke_family: "closed_family f ts \<Longrightarrow> closed_family f (revoke_family g ts)"
  by (auto simp: closed_family_def revoke_family_def set_update_where)

lemma closed_rotated:
  "closed_family f ts \<Longrightarrow> rt_family_id t \<noteq> f \<Longrightarrow> closed_family f (rotate_token now x ts @ [t])"
  by (auto simp: closed_family_def rotate_token_def set_update_where)

lemma rotated_row_simps [simp]:
  "rt_family_id (rotated_row e now dr t u q) = rt_family_id t" "\<not> rt_is_revoked (rotated_row e now dr t u q)"
  "rt_id (rotated_row e now dr t u q) = se_token_id dr"
  by (simp_all add: rotated_row_def new_refresh_token_def)

lemma shut_finish:
  assumes "db_wf (db w)" "closed_family f (refresh_tokens (db w))" "plan_family (pd_plan p) \<noteq> Some f"
  shows "db_wf (db (snd (finish e p w))) \<and> closed_family f (refresh_tokens (db (snd (finish e p w))))"
proof
  show "db_wf (db (snd (finish e p w)))" unfolding finish_def by (rule write_refresh_wf [OF assms(1)])
  show "closed_family f (refresh_tokens (db (snd (finish e p w))))"
    unfolding finish_def
  proof (rule write_refresh_db [of e "pd_now p" "pd_draws p" "pd_access p" "pd_request p" "pd_plan p" w], goal_cases)
    case 1
    then show ?case using assms(2) by simp
  next
    case (2 t)
    then show ?case using closed_revoke_family [OF assms(2)] by simp
  next
    case (3 t u)
    then have "rt_family_id (rotated_row e (pd_now p) (pd_draws p) t u (pd_request p)) \<noteq> f"
      using assms(3) by (simp add: plan_family_def)
    then show ?case using closed_rotated [OF assms(2)] insert_refresh_token_tokens [OF 3(2)] by simp
  qed
qed

lemma shut_step:
  assumes "mixed_step e s F wp wp'" "shut f wp" "f \<notin> F"
  shows "shut f wp'"
  using assms(1)
proof cases
  case (other w w' ps)
  then have r: "refines e F w w'" using api_step_refines by blast
  then have steps: "(token_step F (range (hash_token e)))\<^sup>*\<^sup>* (refresh_tokens (db w)) (refresh_tokens (db w'))" "db_wf (db w')"
    using assms(2) other(1) by (simp_all add: shut_def refines_def)
  have "closed_family f (refresh_tokens (db w'))"
    by (rule token_steps_induct [OF steps(1), of "closed_family f"])
      (use assms(2,3) other(1) closed_family_step in \<open>auto simp: shut_def\<close>)
  then show ?thesis using assms(2) steps(2) other by (simp add: shut_def)
next
  case (begin_refresh p raw w ps)
  have "plan_family (pd_plan p) \<noteq> Some f"
  proof
    assume "plan_family (pd_plan p) = Some f"
    then obtain t u where "pd_plan p = RotatePlan t u" "rt_family_id t = f"
      by (cases "pd_plan p") (auto simp: plan_family_def)
    then have "t \<in> set (refresh_tokens (db w))" "\<not> rt_is_revoked t" "rt_family_id t = f"
      using begin_refresh(3) read_refresh_rotate token_by_hashD by metis+
    then show False using assms(2) begin_refresh(1) by (auto simp: shut_def closed_family_def)
  qed
  then show ?thesis using assms(2) begin_refresh by (simp add: shut_def settled_def)
next
  case (end_refresh w ps p qs)
  then have "plan_family (pd_plan p) \<noteq> Some f" "settled f (ps @ qs)" using assms(2) by (simp_all add: shut_def settled_def)
  moreover have "db_wf (db w)" "closed_family f (refresh_tokens (db w))"
    using assms(2) end_refresh by (simp_all add: shut_def)
  ultimately show ?thesis using shut_finish [of w f p e] end_refresh by (simp add: shut_def)
qed

lemma shut_run: "mixed_run e s F wp wp' \<Longrightarrow> shut f wp \<Longrightarrow> f \<notin> F \<Longrightarrow> shut f wp'"
  by (induction rule: rtranclp_induct) (auto intro: shut_step)

text \<open>C3. A closed family stays closed whatever interleaves, once no refresh of it is under way: with any number of other
  refreshes between their read and their write, any requests, jobs and seeding runs, every token of the family is refused,
  when it is read as when it is written.\<close>

theorem shut_family_stays_shut:
  assumes "mixed_run e s F (w, ps) (w', ps')" "f \<notin> F"
    and "db_wf (db w)" "closed_family f (refresh_tokens (db w))" "settled f ps"
  shows "closed_family f (refresh_tokens (db w')) \<and> settled f ps'
    \<and> (\<forall>raw t now dr a q. token_by_hash (hash_token e raw) (db w') = Some t \<longrightarrow> rt_family_id t = f \<longrightarrow>
        fst (write_refresh e now dr a q (read_refresh e now raw (db w')) w'') = Inl InvalidRefreshTokenError)"
proof -
  have fin: "shut f (w', ps')" by (rule shut_run [OF assms(1) _ assms(2)]) (use assms(3-5) in \<open>simp add: shut_def\<close>)
  then have "rt_is_revoked t" if "token_by_hash (hash_token e raw) (db w') = Some t" "rt_family_id t = f" for raw t
    using token_by_hashD [OF that(1)] that(2) by (auto simp: shut_def closed_family_def)
  then have "fst (write_refresh e now dr a q (read_refresh e now raw (db w')) w'') = Inl InvalidRefreshTokenError"
    if "token_by_hash (hash_token e raw) (db w') = Some t" "rt_family_id t = f" for raw t now dr a q
    using that by (simp add: read_refresh_def write_refresh_def)
  with fin show ?thesis by (auto simp: shut_def)
qed

text \<open>The family 5 after a reuse, while a stranger's refresh, refused when it read, is under way.\<close>

theorem shut_family_stays_shut_witness:
  "let w = snd (refresh_session demo_env (seconds 60) demo_draws ''old'' None None (demo_world demo_db));
       p = \<lparr>pd_now = seconds 60, pd_draws = demo_draws, pd_access = None, pd_request = None,
            pd_plan = read_refresh demo_env (seconds 60) ''other'' (db w)\<rparr>
   in closed_family 5 (refresh_tokens (db (snd (finish demo_env p w))))"
proof -
  let ?w = "snd (refresh_session demo_env (seconds 60) demo_draws ''old'' None None (demo_world demo_db))"
  let ?p = "\<lparr>pd_now = seconds 60, pd_draws = demo_draws, pd_access = None, pd_request = None,
            pd_plan = read_refresh demo_env (seconds 60) ''other'' (db ?w)\<rparr>"
  have "refresh_session demo_env (seconds 60) demo_draws ''old'' None None (demo_world demo_db)
      = (Inl InvalidRefreshTokenError, refresh_reused demo_env (seconds 60) demo_old_token (demo_world demo_db))"
    by (rule refresh_revoked) (simp_all add: token_by_hash_def hash_token_def)
  then have "refresh_tokens (db ?w) = [demo_old_token, demo_token\<lparr>rt_is_revoked := True\<rparr>]"
    by (simp add: in_grace_def revoke_family_def update_where_def)
  then have cl: "closed_family 5 (refresh_tokens (db ?w))" by (simp add: closed_family_def)
  have wf: "db_wf (db ?w)" by (rule refresh_wf) (simp add: demo_db_wf)
  have "mixed_step demo_env demo_site {9} (?w, []) (?w, [?p])" by (rule begin_refresh) simp
  moreover have "mixed_step demo_env demo_site {9} (?w, [] @ ?p # []) (snd (finish demo_env ?p ?w), [] @ [])" by (rule end_refresh)
  ultimately have run: "mixed_run demo_env demo_site {9} (?w, []) (snd (finish demo_env ?p ?w), [])" by simp
  have "(5 :: uuid) \<notin> {9}" by simp
  from shut_family_stays_shut [OF run this wf cl] show ?thesis by (simp add: settled_def Let_def)
qed

section \<open>The races\<close>

lemma insert_after_rotation:
  assumes "insert_refresh_token r d = Inr d'"
  shows "insert_refresh_token r (d\<lparr>refresh_tokens := rotate_token now t (refresh_tokens d)\<rparr>)
    = Inr (d\<lparr>refresh_tokens := rotate_token now t (refresh_tokens d) @ [r]\<rparr>)"
  using assms by (auto simp: insert_refresh_token_def rotate_token_def image_update_where checked_def split: if_splits)

text \<open>A plan whose row is still there is carried out, whatever happened to the row since.\<close>

lemma write_succeeds:
  assumes "rt_id t \<in> rt_id ` set (refresh_tokens (db w))" "insert_refresh_token (rotated_row e now dr t u q) (db w) = Inr d"
  shows "\<exists>x w'. write_refresh e now dr a q (RotatePlan t u) w = (Inr x, w') \<and>
    db w' = (db w)\<lparr>refresh_tokens := rotate_token now t (refresh_tokens (db w)) @ [rotated_row e now dr t u q]\<rparr>"
  using write_rotate [OF assms(1), of e now dr a q u] insert_after_rotation [OF assms(2)] by (auto simp: Let_def)

lemma insert_refresh_token_fresh: "insert_refresh_token r d = Inr d' \<Longrightarrow> rt_id r \<notin> rt_id ` set (refresh_tokens d)"
  by (auto simp: insert_refresh_token_def checked_def split: if_splits)

lemma rotate_token_snoc: "rt_id r \<noteq> rt_id t \<Longrightarrow> rotate_token now t (ts @ [r]) = rotate_token now t ts @ [r]"
  by (simp add: rotate_token_def update_where_def)

lemma rotate_token_ids [simp]: "rt_id ` set (rotate_token now t ts) = rt_id ` set ts"
  by (simp add: rotate_token_def image_update_where)

text \<open>Two refreshes that have read the same row both succeed.\<close>

lemma both_writes_succeed:
  assumes "rt_id t \<in> rt_id ` set (refresh_tokens (db w))"
    and "insert_refresh_token (rotated_row e now1 dr1 t u q1) (db w) = Inr d1"
    and "insert_refresh_token (rotated_row e now2 dr2 t u q2) d1 = Inr d2"
  shows "\<exists>x1 w1 x2 w2. write_refresh e now1 dr1 a1 q1 (RotatePlan t u) w = (Inr x1, w1)
    \<and> write_refresh e now2 dr2 a2 q2 (RotatePlan t u) w1 = (Inr x2, w2)
    \<and> refresh_tokens (db w2) = rotate_token now2 t (rotate_token now1 t (refresh_tokens (db w)))
        @ [rotated_row e now1 dr1 t u q1, rotated_row e now2 dr2 t u q2]"
proof -
  let ?r1 = "rotated_row e now1 dr1 t u q1" and ?r2 = "rotated_row e now2 dr2 t u q2"
  obtain x1 w1 where w1: "write_refresh e now1 dr1 a1 q1 (RotatePlan t u) w = (Inr x1, w1)"
      "db w1 = (db w)\<lparr>refresh_tokens := rotate_token now1 t (refresh_tokens (db w)) @ [?r1]\<rparr>"
    using write_succeeds [OF assms(1,2)] by blast
  have ne: "rt_id ?r1 \<noteq> rt_id t" using insert_refresh_token_fresh [OF assms(2)] assms(1) by auto
  have d1: "d1 = (db w)\<lparr>refresh_tokens := refresh_tokens (db w) @ [?r1]\<rparr>"
    using assms(2) by (auto simp: insert_refresh_token_def checked_def split: if_splits)
  have "db w1 = d1\<lparr>refresh_tokens := rotate_token now1 t (refresh_tokens d1)\<rparr>"
    by (simp add: w1(2) d1 rotate_token_snoc [OF ne])
  then obtain d where "insert_refresh_token ?r2 (db w1) = Inr d"
    using insert_after_rotation [OF assms(3)] by auto
  moreover have "rt_id t \<in> rt_id ` set (refresh_tokens (db w1))" using assms(1) by (simp add: w1(2))
  ultimately obtain x2 w2 where "write_refresh e now2 dr2 a2 q2 (RotatePlan t u) w1 = (Inr x2, w2)"
      "db w2 = (db w1)\<lparr>refresh_tokens := rotate_token now2 t (refresh_tokens (db w1)) @ [?r2]\<rparr>"
    using write_succeeds by blast
  with w1 ne show ?thesis by (simp add: rotate_token_snoc)
qed

lemma insert_refresh_token_after_revoke:
  assumes "insert_refresh_token r d = Inr d'"
  shows "\<exists>d''. insert_refresh_token r (revoke_where P d) = Inr d''"
  using assms by (auto simp: insert_refresh_token_def revoke_where_def image_update_where checked_def split: if_splits)

lemma logout_active:
  assumes "raw \<noteq> []" "token_by_hash (hash_token e raw) (db w) = Some t" "\<not> rt_is_revoked t"
  shows "db (logout_session e now (Some raw) a w) = revoke_where (\<lambda>x. rt_id x = rt_id t) (db w)"
  using assms by (simp add: logout_session_def Let_def)

lemma rt_family_id_revoked: "rt_family_id (if b then y\<lparr>rt_is_revoked := True\<rparr> else y) = rt_family_id y"
  by simp

text \<open>A log-out closes the family, whose one active token it revokes.\<close>

lemma logout_closes_family:
  assumes "families_ok (refresh_tokens (db w))" "raw \<noteq> []"
    and "token_by_hash (hash_token e raw) (db w) = Some t" "\<not> rt_is_revoked t"
  shows "closed_family (rt_family_id t) (refresh_tokens (db (logout_session e now (Some raw) a w)))"
  unfolding closed_family_def
proof (intro ballI impI)
  fix x
  assume x: "x \<in> set (refresh_tokens (db (logout_session e now (Some raw) a w)))" "rt_family_id x = rt_family_id t"
  have "\<exists>y\<in>set (refresh_tokens (db w)). x = (if rt_id y = rt_id t then y\<lparr>rt_is_revoked := True\<rparr> else y)"
    using x(1) unfolding logout_active [OF assms(2-4)] revoke_where_simps set_update_where .
  then obtain y where y: "y \<in> set (refresh_tokens (db w))" "rt_family_id y = rt_family_id t"
      "x = (if rt_id y = rt_id t then y\<lparr>rt_is_revoked := True\<rparr> else y)" using x(2) by (metis rt_family_id_revoked)
  moreover have "rt_is_revoked y" if "rt_id y \<noteq> rt_id t"
    using assms(1,4) y(1,2) token_by_hashD [OF assms(3)] that unfolding families_ok_def by blast
  ultimately show "rt_is_revoked x" by simp
qed

text \<open>C13. The read of a refresh is not protected until its write.  Two requests that present the same active token and
  have both read its row are both answered with new tokens, and the family has two active tokens from then on: rotation
  no longer tells the thief from the victim.  And a refresh that has read the row before the user logs out succeeds
  after it: the log-out closes the family, the write opens it again.\<close>

theorem refresh_races:
  assumes "families_ok (refresh_tokens (db w))" "raw \<noteq> []"
    and "read_refresh e now1 raw (db w) = RotatePlan t u" "read_refresh e now2 raw (db w) = RotatePlan t u"
    and "insert_refresh_token (rotated_row e now1 dr1 t u q1) (db w) = Inr d1"
    and "insert_refresh_token (rotated_row e now2 dr2 t u q2) d1 = Inr d2"
  shows "(\<exists>x1 w1 x2 w2. write_refresh e now1 dr1 a1 q1 (read_refresh e now1 raw (db w)) w = (Inr x1, w1)
      \<and> write_refresh e now2 dr2 a2 q2 (read_refresh e now2 raw (db w)) w1 = (Inr x2, w2)
      \<and> \<not> families_ok (refresh_tokens (db w2)))
    \<and> (let w0 = logout_session e now0 (Some raw) a0 w in
        closed_family (rt_family_id t) (refresh_tokens (db w0))
        \<and> (\<exists>x w'. write_refresh e now1 dr1 a1 q1 (read_refresh e now1 raw (db w)) w0 = (Inr x, w')
            \<and> \<not> closed_family (rt_family_id t) (refresh_tokens (db w'))))"
proof -
  let ?r1 = "rotated_row e now1 dr1 t u q1" and ?r2 = "rotated_row e now2 dr2 t u q2"
  let ?w0 = "logout_session e now0 (Some raw) a0 w"
  have t: "token_by_hash (hash_token e raw) (db w) = Some t" "\<not> rt_is_revoked t"
    using assms(3) by (simp_all add: read_refresh_rotate)
  then have mem: "rt_id t \<in> rt_id ` set (refresh_tokens (db w))" using token_by_hashD by fast
  have "?r1 \<in> set (refresh_tokens d1)" using insert_refresh_token_tokens [OF assms(5)] by simp
  then have ne: "rt_id ?r1 \<noteq> rt_id ?r2" using insert_refresh_token_fresh [OF assms(6)] by (metis imageI)
  have forked: "\<not> families_ok (ts @ [?r1, ?r2])" for ts using ne by (simp add: families_ok_def)
  have w0: "db ?w0 = revoke_where (\<lambda>x. rt_id x = rt_id t) (db w)" by (rule logout_active [OF assms(2) t])
  then have "rt_id t \<in> rt_id ` set (refresh_tokens (db ?w0))"
    using mem by (simp add: revoke_where_simps image_update_where)
  moreover obtain d where "insert_refresh_token ?r1 (db ?w0) = Inr d"
    using insert_refresh_token_after_revoke [OF assms(5)] w0 by metis
  ultimately obtain x w' where w': "write_refresh e now1 dr1 a1 q1 (RotatePlan t u) ?w0 = (Inr x, w')"
      "?r1 \<in> set (refresh_tokens (db w'))"
    using write_succeeds [of t ?w0 e now1 dr1 u q1] by fastforce
  have "\<not> closed_family (rt_family_id t) (refresh_tokens (db w'))"
    using w'(2) by (auto simp: closed_family_def intro!: bexI [of _ ?r1])
  moreover have "closed_family (rt_family_id t) (refresh_tokens (db ?w0))"
    by (rule logout_closes_family [OF assms(1,2) t])
  ultimately show ?thesis
    using both_writes_succeed [OF mem assms(5,6), of a1 a2] forked w'(1) unfolding assms(3,4) Let_def by metis
qed

definition demo_draws2 :: session_draws where
  "demo_draws2 = \<lparr>se_access_jti = ''aj'', se_refresh_jti = ''rj2'', se_family = 10, se_token_id = 12\<rparr>"

lemma demo_refresh_length2:
  "length (fst (create_refresh_token demo_env 10 ''rj2'' u)) = length (fst (create_refresh_token demo_env 10 ''rj'' u)) + 2"
  by (simp add: create_refresh_token_def Let_def demo_encode_def timestamp_def demo_number_lengths)

lemma demo_refresh_not2:
  "fst (create_refresh_token demo_env 10 ''rj2'' u) \<noteq> ''old''" "fst (create_refresh_token demo_env 10 ''rj2'' u) \<noteq> ''tok''"
  "fst (create_refresh_token demo_env 10 ''rj2'' u) \<noteq> fst (create_refresh_token demo_env 10 ''rj'' u)"
  using demo_refresh_length(1) [of u] demo_refresh_length2 [of u] by auto

lemma insert_token_hash_id:
  assumes "fits 255 (rt_token_hash r)" "fits_opt 45 (rt_ip_address r)" "rt_id r \<notin> rt_id ` set (refresh_tokens d)"
    "rt_token_hash r \<notin> rt_token_hash ` set (refresh_tokens d)" "rt_user_id r \<in> u_id ` set (users d)"
  shows "insert_refresh_token r d = Inr (d\<lparr>refresh_tokens := refresh_tokens d @ [r]\<rparr>)"
  using assms by (simp add: insert_refresh_token_def checked_def)

theorem refresh_races_witness:
  "\<exists>x1 w1 x2 w2. let w = demo_world demo_db in
     write_refresh demo_env 10 demo_draws None None (read_refresh demo_env 10 ''tok'' (db w)) w = (Inr x1, w1)
   \<and> write_refresh demo_env 10 demo_draws2 None None (read_refresh demo_env 10 ''tok'' (db w)) w1 = (Inr x2, w2)
   \<and> \<not> families_ok (refresh_tokens (db w2))"
proof -
  let ?w = "demo_world demo_db"
  let ?r1 = "rotated_row demo_env 10 demo_draws demo_token demo_user None"
  let ?r2 = "rotated_row demo_env 10 demo_draws2 demo_token demo_user None"
  have fam: "families_ok (refresh_tokens (db ?w))" by (simp add: families_ok_def)
  have plan: "read_refresh demo_env 10 ''tok'' (db ?w) = RotatePlan demo_token demo_user"
    by (simp add: read_refresh_def token_by_hash_def hash_token_def get_user_def)
  have i1: "insert_refresh_token ?r1 (db ?w) = Inr (demo_db\<lparr>refresh_tokens := refresh_tokens demo_db @ [?r1]\<rparr>)"
    using demo_refresh_length [of 1] demo_refresh_not [of 1]
    by (subst insert_token_hash_id)
      (simp_all add: rotated_row_def new_refresh_token_def fits_def fits_opt_def demo_draws_def hash_token_def)
  have i2: "insert_refresh_token ?r2 (demo_db\<lparr>refresh_tokens := refresh_tokens demo_db @ [?r1]\<rparr>)
      = Inr (demo_db\<lparr>refresh_tokens := refresh_tokens demo_db @ [?r1, ?r2]\<rparr>)"
    using demo_refresh_length [of 1] demo_refresh_length2 [of 1] demo_refresh_not2 [of 1]
    by (subst insert_token_hash_id)
      (simp_all add: rotated_row_def new_refresh_token_def fits_def fits_opt_def demo_draws_def demo_draws2_def hash_token_def)
  from refresh_races [OF fam _ plan plan i1 i2] show ?thesis by (simp add: Let_def)
qed

end
