(* ===== verification/Badge_Interleaving.thy ===== *)
theory Badge_Interleaving
  imports Badge_Claims
begin

text \<open>
  Requests on one badge that do not run alone.  The operations of \<open>app/services/badge.py\<close> that change the row through
  the ORM load it, compute, and write at their commit; no lock is taken, so others commit in between.  The commit
  writes only the columns that differ from the loaded ones.  The counters are incremented in SQL, by one statement.
\<close>

section \<open>Loading, computing, writing\<close>

text \<open>A change of a badge with what it draws; for a logo, the result of the upload.\<close>

datatype badge_change =
    PublishIt "nat \<Rightarrow> nat"
  | UnpublishIt
  | DeleteIt
  | SetLogo string string
  | EditIt badge_updates "nat \<Rightarrow> uuid" "string list option" bool

text \<open>What a request holds between its read and its commit: the row it loaded, the row it wants, and the hashtags it
  loaded with the ones that replace them.\<close>

record badge_plan =
  bp_now :: time
  bp_old :: badge
  bp_new :: badge
  bp_hashtags :: "(uuid list \<times> (nat \<Rightarrow> uuid) \<times> string list) option"

definition load_badge :: "badge_change \<Rightarrow> uuid \<Rightarrow> database \<Rightarrow> badge option" where
  "load_badge c bid d = (case c of
     UnpublishIt \<Rightarrow> (case find (\<lambda>b. b_id b = bid) (badges d) of
        None \<Rightarrow> None | Some b \<Rightarrow> if b_deleted_at b \<noteq> None then None else Some b)
   | _ \<Rightarrow> live_badge bid d)"

definition new_row :: "time \<Rightarrow> badge_change \<Rightarrow> badge \<Rightarrow> app_error + badge" where
  "new_row now c b = (case c of
     PublishIt choice \<Rightarrow> if b_is_published b then Inl BadgeAlreadyPublishedError else Inr (publish_row now choice b)
   | UnpublishIt \<Rightarrow> Inr (b\<lparr>b_is_published := False, b_published_at := None\<rparr>)
   | DeleteIt \<Rightarrow> Inr (b\<lparr>b_deleted_at := Some now, b_is_published := False, b_published_at := None\<rparr>)
   | SetLogo logo_url public_id \<Rightarrow> Inr (b\<lparr>b_logo_url := Some logo_url, b_logo_public_id := Some public_id\<rparr>)
   | EditIt field_updates ids new_hashtags update_hashtags \<Rightarrow> (case check_access b field_updates of
        Inl err \<Rightarrow> Inl err
      | Inr u \<Rightarrow> if bu_title u = Some None
          then Inl (if badge_fits (apply_updates u b) then IntegrityError else DataError) else Inr (apply_updates u b)))"

definition new_hashtags_of :: "badge_change \<Rightarrow> uuid \<Rightarrow> database \<Rightarrow> (uuid list \<times> (nat \<Rightarrow> uuid) \<times> string list) option" where
  "new_hashtags_of c bid d = (case c of
     EditIt field_updates ids new_hashtags True \<Rightarrow>
       Some (map bh_id (filter (\<lambda>h. bh_badge_id h = bid) (badge_hashtags d)), ids,
         case new_hashtags of None \<Rightarrow> [] | Some tags \<Rightarrow> tags)
   | _ \<Rightarrow> None)"

definition read_change :: "time \<Rightarrow> uuid \<Rightarrow> uuid \<Rightarrow> badge_change \<Rightarrow> database \<Rightarrow> app_error + badge_plan" where
  "read_change now organiser_id bid c d = (case load_badge c bid d of
     None \<Rightarrow> Inl BadgeNotFoundError
   | Some b \<Rightarrow>
       if b_organiser_id b \<noteq> organiser_id then Inl NotBadgeOwnerError
       else (case new_row now c b of
           Inl err \<Rightarrow> Inl err
         | Inr b' \<Rightarrow> Inr \<lparr>bp_now = now, bp_old = b, bp_new = b', bp_hashtags = new_hashtags_of c bid d\<rparr>))"

definition changed :: "('r \<Rightarrow> 'a) \<Rightarrow> 'r \<Rightarrow> 'r \<Rightarrow> 'r \<Rightarrow> 'a" where
  "changed col old new cur = (if col new = col old then col cur else col new)"

text \<open>
  The \<open>UPDATE\<close> of the unit of work: the changed columns, and the \<open>onupdate\<close> column with them.  The key, the owner, the
  template and the counters are never assigned.
\<close>

definition flush_badge :: "time \<Rightarrow> badge \<Rightarrow> badge \<Rightarrow> badge \<Rightarrow> badge" where
  "flush_badge now old new cur = (if new = old then cur else cur\<lparr>
     b_title := changed b_title old new cur,
     b_canvas_data := changed b_canvas_data old new cur,
     b_default_caption := changed b_default_caption old new cur,
     b_destination_link := changed b_destination_link old new cur,
     b_thumbnail_url := changed b_thumbnail_url old new cur,
     b_logo_url := changed b_logo_url old new cur,
     b_logo_public_id := changed b_logo_public_id old new cur,
     b_access_type := changed b_access_type old new cur,
     b_access_code := changed b_access_code old new cur,
     b_is_published := changed b_is_published old new cur,
     b_published_at := changed b_published_at old new cur,
     b_share_slug := changed b_share_slug old new cur,
     b_deleted_at := changed b_deleted_at old new cur,
     b_updated_at := Some now\<rparr>)"

text \<open>The commit.  A row that is gone raises \<open>StaleDataError\<close>.\<close>

definition write_change :: "badge_plan \<Rightarrow> database \<Rightarrow> app_error + database" where
  "write_change p d =
     (let bid = b_id (bp_old p);
          bs = update_where (\<lambda>b. b_id b = bid) (flush_badge (bp_now p) (bp_old p) (bp_new p)) (badges d)
      in if bp_new p \<noteq> bp_old p \<and> bid \<notin> b_id ` set (badges d) then Inl SQLAlchemyError
         else (case checked (\<forall>b\<in>set bs. b_id b = bid \<longrightarrow> badge_fits b) (\<forall>b\<in>set bs. b_id b = bid \<longrightarrow> slug_free b bs)
                 (d\<lparr>badges := bs\<rparr>) of
             Inl err \<Rightarrow> Inl err
           | Inr d \<Rightarrow> (case bp_hashtags p of
               None \<Rightarrow> Inr d
             | Some (loaded, ids, tags) \<Rightarrow> insert_hashtags ids 0 bid tags
                 (d\<lparr>badge_hashtags := delete_where (\<lambda>h. bh_id h \<in> set loaded) (badge_hashtags d)\<rparr>))))"

section \<open>With nothing in between\<close>

definition fixed_columns :: "badge \<Rightarrow> badge \<Rightarrow> bool" where
  "fixed_columns b b' = (b_id b' = b_id b \<and> b_organiser_id b' = b_organiser_id b
     \<and> b_platform_template_id b' = b_platform_template_id b \<and> b_share_count b' = b_share_count b
     \<and> b_creation_count b' = b_creation_count b \<and> b_created_at b' = b_created_at b \<and> b_updated_at b' = b_updated_at b)"

lemma flush_own_row: "fixed_columns b b' \<Longrightarrow> flush_badge now b b' b = (if b' = b then b else b'\<lparr>b_updated_at := Some now\<rparr>)"
  by (cases b; cases b') (auto simp: flush_badge_def changed_def fixed_columns_def)

lemma new_row_fixed: "new_row now c b = Inr b' \<Longrightarrow> fixed_columns b b'"
  by (auto simp: new_row_def fixed_columns_def publish_row_def apply_updates_def split: badge_change.splits if_splits sum.splits)

lemma load_badge_live:
  assumes "db_wf d"
  shows "load_badge c bid d = live_badge bid d"
proof (cases "live_badge bid d")
  case None
  then have "b_deleted_at b \<noteq> None" if "find (\<lambda>b. b_id b = bid) (badges d) = Some b" for b
    using find_set [OF that] by (auto simp: live_badge_def find_none_iff)
  with None show ?thesis by (auto simp: load_badge_def split: badge_change.split option.split)
next
  case (Some b)
  then have "b \<in> set (badges d)" "b_id b = bid" "b_deleted_at b = None" using live_badge_iff [OF assms] by auto
  then have "find (\<lambda>b. b_id b = bid) (badges d) = Some b" using find_badge [OF assms] by blast
  with Some \<open>b_deleted_at b = None\<close> show ?thesis by (auto simp: load_badge_def split: badge_change.split)
qed

definition replace_hashtags :: "uuid \<Rightarrow> (uuid list \<times> (nat \<Rightarrow> uuid) \<times> string list) option \<Rightarrow> database \<Rightarrow> app_error + database" where
  "replace_hashtags bid hs d = (case hs of None \<Rightarrow> Inr d
     | Some (loaded, ids, tags) \<Rightarrow> insert_hashtags ids 0 bid tags
         (d\<lparr>badge_hashtags := delete_where (\<lambda>h. bh_id h \<in> set loaded) (badge_hashtags d)\<rparr>))"

lemma write_at_once:
  assumes "db_wf d" "live_badge bid d = Some b" "fixed_columns b (f b)"
  shows "write_change \<lparr>bp_now = now, bp_old = b, bp_new = f b, bp_hashtags = hs\<rparr> d =
    (case save_badge now bid f d of Inl err \<Rightarrow> Inl err | Inr d \<Rightarrow> replace_hashtags bid hs d)"
proof -
  have b: "b \<in> set (badges d)" "b_id b = bid" using assms(2) live_badge_iff [OF assms(1)] by auto
  have "flush_badge now b (f b) x = orm_badge now f x" if "x \<in> set (badges d)" "b_id x = bid" for x
  proof -
    have "x = b" using wf_badge_unique [OF assms(1) that(1) b(1)] that(2) b(2) by simp
    then show ?thesis using flush_own_row [OF assms(3)] by (simp add: orm_badge_def Let_def)
  qed
  then have "update_where (\<lambda>x. b_id x = bid) (flush_badge now b (f b)) (badges d)
      = update_where (\<lambda>x. b_id x = bid) (orm_badge now f) (badges d)" by (simp add: update_where_def)
  moreover have "bid \<in> b_id ` set (badges d)" using b by auto
  ultimately show ?thesis using b by (simp add: write_change_def save_badge_def replace_hashtags_def checked_def Let_def)
qed

lemma replace_none [simp]: "(case x of Inl err \<Rightarrow> Inl err | Inr d \<Rightarrow> replace_hashtags bid None d) = x"
  by (cases x) (simp_all add: replace_hashtags_def)

lemma loaded_hashtags:
  assumes "unique_on bh_id hs"
  shows "delete_where (\<lambda>h. bh_id h \<in> set (map bh_id (filter (\<lambda>h. bh_badge_id h = bid) hs))) hs
    = delete_where (\<lambda>h. bh_badge_id h = bid) hs"
  unfolding delete_where_def
proof (rule filter_cong [OF refl])
  fix h
  assume h: "h \<in> set hs"
  have "bh_badge_id h = bid" if "g \<in> set hs" "bh_badge_id g = bid" "bh_id h = bh_id g" for g
    using unique_onD [OF assms h that(1,3)] that(2) by simp
  then show "(bh_id h \<notin> set (map bh_id (filter (\<lambda>h. bh_badge_id h = bid) hs))) = (bh_badge_id h \<noteq> bid)" using h by auto
qed

text \<open>A request without the side effects on assets.\<close>

definition run_change :: "time \<Rightarrow> uuid \<Rightarrow> uuid \<Rightarrow> badge_change \<Rightarrow> 'r world \<Rightarrow> (app_error + badge) \<times> 'r world" where
  "run_change now organiser_id bid c w = (case read_change now organiser_id bid c (db w) of
     Inl err \<Rightarrow> (Inl err, w)
   | Inr p \<Rightarrow> (case write_change p (db w) of Inl err \<Rightarrow> (Inl err, w) | Inr d \<Rightarrow> (Inr (badge_row bid d), w\<lparr>db := d\<rparr>)))"

lemma read_change_rules:
  assumes "db_wf d" "live_badge bid d = Some b" "b_organiser_id b = org"
  shows "read_change now org bid c d = (case new_row now c b of Inl err \<Rightarrow> Inl err
    | Inr b' \<Rightarrow> Inr \<lparr>bp_now = now, bp_old = b, bp_new = b', bp_hashtags = new_hashtags_of c bid d\<rparr>)"
  using assms by (simp add: read_change_def load_badge_live)

lemma read_change_refused:
  assumes "db_wf d"
  shows "live_badge bid d = None \<Longrightarrow> read_change now org bid c d = Inl BadgeNotFoundError"
    and "live_badge bid d = Some b \<Longrightarrow> b_organiser_id b \<noteq> org \<Longrightarrow> read_change now org bid c d = Inl NotBadgeOwnerError"
  using assms by (simp_all add: read_change_def load_badge_live)

lemma publish_in_two_steps:
  assumes "db_wf (db w)"
  shows "publish_badge now choice org bid w = run_change now org bid (PublishIt choice) w"
proof (cases "live_badge bid (db w)")
  case (Some b)
  have "fixed_columns b (publish_row now choice b)" by (simp add: fixed_columns_def publish_row_def)
  note write_at_once [OF assms Some, where f = "publish_row now choice" and now = now, OF this]
  then show ?thesis
    using assms Some by (simp add: publish_badge_def run_change_def read_change_def load_badge_live new_row_def new_hashtags_of_def)
qed (simp add: publish_badge_def run_change_def read_change_refused(1) [OF assms])

lemma unpublish_in_two_steps:
  assumes "db_wf (db w)"
  shows "unpublish_badge now org bid w = run_change now org bid UnpublishIt w"
proof (cases "live_badge bid (db w)")
  case None
  then have "case find (\<lambda>b. b_id b = bid) (badges (db w)) of None \<Rightarrow> True | Some b \<Rightarrow> b_deleted_at b \<noteq> None"
    using load_badge_live [OF assms, of UnpublishIt bid] by (auto simp: load_badge_def split: option.split if_splits)
  then show ?thesis
    by (auto simp: unpublish_badge_def run_change_def read_change_refused(1) [OF assms None] split: option.splits)
next
  case (Some b)
  then have "find (\<lambda>b. b_id b = bid) (badges (db w)) = Some b" "b_deleted_at b = None"
    using find_badge [OF assms] live_badge_iff [OF assms] by auto
  moreover have "fixed_columns b (b\<lparr>b_is_published := False, b_published_at := None\<rparr>)" by (simp add: fixed_columns_def)
  note write_at_once [OF assms Some, where f = "\<lambda>b. b\<lparr>b_is_published := False, b_published_at := None\<rparr>" and now = now, OF this]
  then have "write_change \<lparr>bp_now = now, bp_old = b, bp_new = b\<lparr>b_is_published := False, b_published_at := None\<rparr>, bp_hashtags = None\<rparr> (db w)
    = save_badge now bid (\<lambda>b. b\<lparr>b_is_published := False, b_published_at := None\<rparr>) (db w)" by simp
  ultimately show ?thesis
    using Some assms by (simp add: unpublish_badge_def run_change_def read_change_def load_badge_live new_row_def new_hashtags_of_def)
qed

lemma delete_in_two_steps:
  assumes "db_wf (db w)"
  shows "fst (delete_badge e now org bid w) = map_sum (\<lambda>err. err) (\<lambda>_. ()) (fst (run_change now org bid DeleteIt w))
    \<and> db (snd (delete_badge e now org bid w)) = db (snd (run_change now org bid DeleteIt w))"
proof (cases "live_badge bid (db w)")
  case (Some b)
  let ?f = "\<lambda>b. b\<lparr>b_deleted_at := Some now, b_is_published := False, b_published_at := None\<rparr>"
  have "fixed_columns b (?f b)" by (simp add: fixed_columns_def)
  note write_at_once [OF assms Some, where f = ?f and now = now, OF this]
  then show ?thesis
    using assms Some by (simp add: delete_badge_def run_change_def read_change_def load_badge_live new_row_def
        new_hashtags_of_def Let_def split: sum.split option.split list.split)
qed (simp add: delete_badge_def run_change_def read_change_refused(1) [OF assms])

lemma edit_in_two_steps:
  assumes "db_wf (db w)"
  shows "edit_badge now ids org bid upd tags flag w = run_change now org bid (EditIt upd ids tags flag) w"
proof (cases "live_badge bid (db w)")
  case (Some b)
  have "write_change \<lparr>bp_now = now, bp_old = b, bp_new = apply_updates u b, bp_hashtags = hs\<rparr> (db w)
      = (case save_badge now bid (apply_updates u) (db w) of Inl err \<Rightarrow> Inl err | Inr d \<Rightarrow> replace_hashtags bid hs d)" for u hs
    by (rule write_at_once [OF assms Some]) (simp add: fixed_columns_def apply_updates_def)
  moreover have "replace_hashtags bid (new_hashtags_of (EditIt upd ids tags flag) bid (db w)) d =
      (if flag then insert_hashtags ids 0 bid (case tags of None \<Rightarrow> [] | Some ts \<Rightarrow> ts)
         (d\<lparr>badge_hashtags := delete_where (\<lambda>h. bh_badge_id h = bid) (badge_hashtags d)\<rparr>) else Inr d)"
    if "save_badge now bid (apply_updates u) (db w) = Inr d" for u d
    using loaded_hashtags [of "badge_hashtags (db w)" bid] assms save_badge_hashtags [OF that]
    by (simp add: new_hashtags_of_def replace_hashtags_def db_wf_def hashtags_ok_def del: set_map)
  moreover have "badge_row bid d' = badge_row bid d"
    if "insert_hashtags ids 0 bid ts (d\<lparr>badge_hashtags := hs\<rparr>) = Inr d'" for ts hs d d'
    using insert_hashtags_badges [OF that] by (simp add: badge_row_def)
  ultimately show ?thesis
    using assms Some
    by (auto simp: edit_badge_def run_change_def read_change_def load_badge_live new_row_def simp del: insert_hashtags.simps
        split: sum.split)
qed (simp add: edit_badge_def run_change_def read_change_refused(1) [OF assms])

section \<open>Runs with changes under way\<close>

text \<open>Besides whole requests, changes are read and, later, written or refused by the commit.\<close>

inductive badge_mixed_step :: "'r env \<Rightarrow> 'r world \<times> badge_plan list \<Rightarrow> 'r world \<times> badge_plan list \<Rightarrow> bool" for e where
  whole: "badge_step e w w' \<Longrightarrow> badge_mixed_step e (w, ps) (w', ps)"
| read_it: "read_change now org bid c (db w) = Inr p \<Longrightarrow> badge_mixed_step e (w, ps) (w, p # ps)"
| write_it: "db w' = (case write_change p (db w) of Inl err \<Rightarrow> db w | Inr d \<Rightarrow> d) \<Longrightarrow>
    badge_mixed_step e (w, ps @ p # qs) (w', ps @ qs)"

abbreviation badge_mixed_run :: "'r env \<Rightarrow> 'r world \<times> badge_plan list \<Rightarrow> 'r world \<times> badge_plan list \<Rightarrow> bool" where
  "badge_mixed_run e \<equiv> (badge_mixed_step e)\<^sup>*\<^sup>*"

text \<open>The keys of the table of badges: they hold whatever the changes do.\<close>

definition badges_keyed :: "database \<Rightarrow> bool" where
  "badges_keyed d = (unique_on b_id (badges d) \<and> unique_on b_share_slug (filter (\<lambda>b. b_share_slug b \<noteq> None) (badges d)))"

lemma db_wf_keyed: "db_wf d \<Longrightarrow> badges_keyed d"
  by (simp add: db_wf_def badges_ok_def badges_keyed_def)

lemma keyed_unique: "badges_keyed d \<Longrightarrow> x \<in> set (badges d) \<Longrightarrow> y \<in> set (badges d) \<Longrightarrow> b_id x = b_id y \<Longrightarrow> x = y"
  by (metis badges_keyed_def unique_onD)

lemma keyed_slug:
  "badges_keyed d \<Longrightarrow> x \<in> set (badges d) \<Longrightarrow> y \<in> set (badges d) \<Longrightarrow> b_share_slug x = Some s \<Longrightarrow> b_share_slug y = Some s \<Longrightarrow> x = y"
  using unique_onD [of b_share_slug "filter (\<lambda>b. b_share_slug b \<noteq> None) (badges d)" x y] by (simp add: badges_keyed_def)

lemma keyed_change:
  assumes "badges_keyed d" "\<And>b. b_id (f b) = b_id b"
    and "\<forall>b\<in>set (update_where (\<lambda>b. b_id b = bid) f (badges d)). b_id b = bid \<longrightarrow> slug_free b (update_where (\<lambda>b. b_id b = bid) f (badges d))"
    and "badges d' = update_where (\<lambda>b. b_id b = bid) f (badges d)"
  shows "badges_keyed d'"
  using assms unique_slugs_upd [of "badges d" f bid] by (simp add: badges_keyed_def unique_on_update_where)

lemma keyed_save:
  assumes "save_badge now bid f d = Inr d'" "badges_keyed d" "\<And>b. b_id (f b) = b_id b"
  shows "badges_keyed d'"
  using assms(1) by (intro keyed_change [OF assms(2), of "orm_badge now f" bid]) (auto simp: save_badge_def Let_def assms(3))

lemma keyed_cong: "badges d' = badges d \<Longrightarrow> badges_keyed d' = badges_keyed d"
  by (simp add: badges_keyed_def)

lemma keyed_hashtags [simp]: "badges_keyed (d\<lparr>badge_hashtags := hs\<rparr>) = badges_keyed d"
  by (simp add: badges_keyed_def)

lemma keyed_update:
  assumes "badges_keyed d" "\<And>b. b_id (f b) = b_id b" "\<And>b. b_share_slug (f b) = b_share_slug b"
    and "badges d' = update_where P f (badges d)"
  shows "badges_keyed d'"
proof -
  have "filter (\<lambda>b. b_share_slug b \<noteq> None) (update_where P f bs) = update_where P f (filter (\<lambda>b. b_share_slug b \<noteq> None) bs)" for bs
    using assms(3) by (induction bs) (simp_all add: update_where_def)
  then show ?thesis using assms by (simp add: badges_keyed_def unique_on_update_where)
qed

lemma keyed_insert:
  assumes "insert_badge b d = Inr d'" "badges_keyed d"
  shows "badges_keyed d'"
proof -
  have d': "badges d' = badges d @ [b]" "b_id b \<notin> b_id ` set (badges d)" "slug_free b (badges d)"
    using assms(1) by (auto simp: insert_badge_def)
  have "b_share_slug x \<noteq> b_share_slug b" if "x \<in> set (badges d)" "b_share_slug b \<noteq> None" for x
    using that d'(2,3) by (metis imageI slug_free_def)
  then show ?thesis using assms(2) d' by (auto simp: badges_keyed_def unique_on_append)
qed

lemma badge_step_keyed:
  assumes "badge_step e w w'" "badges_keyed (db w)"
  shows "badges_keyed (db w')"
  using assms
proof (induction rule: badge_step.induct)
  case (create w now bid org t)
  then show ?case
    by (auto simp: create_badge_def Let_def keyed_cong [OF badges_increment_template] dest: keyed_insert split: option.split sum.split)
next
  case (publish w now choice org bid)
  then show ?case by (auto simp: publish_badge_def dest: keyed_save split: option.split sum.split)
next
  case (unpublish w now org bid)
  then show ?case by (auto simp: unpublish_badge_def dest: keyed_save split: option.split sum.split)
next
  case (logo w now u bid org img)
  then show ?case
    using upload_badge_logo_db [of e now u bid org img w] by (auto dest: keyed_save)
next
  case (share w now slug)
  have "badges_keyed d" if "badges d = update_where (public_where slug)
      (\<lambda>b. b\<lparr>b_share_count := b_share_count b + 1, b_updated_at := Some now\<rparr>) (badges (db w))" for d
    using share.prems _ _ that by (rule keyed_update) simp_all
  then show ?case by (simp add: increment_badge_share_count_def Let_def)
next
  case (creation w now nid slug)
  have "badges_keyed d" if "badges d = update_where (public_where slug)
      (\<lambda>b. b\<lparr>b_creation_count := b_creation_count b + 1, b_updated_at := Some now\<rparr>) (badges (db w))" for d
    using creation.prems _ _ that by (rule keyed_update) simp_all
  then show ?case using creation.prems
    by (auto simp: increment_badge_creation_count_def Let_def dest!: create_notification_badges split: option.split sum.split)
next
  case (duplicate w now new_id ids org bid)
  then show ?case
    by (auto simp: duplicate_badge_def Let_def keyed_cong [OF badges_increment_template]
        dest!: keyed_insert keyed_cong [OF conjunct1 [OF insert_hashtags_badges]] split: option.split sum.split)
next
  case (edit w now ids org bid upd tags flag)
  have "badges_keyed d" if "save_badge now bid (apply_updates u) (db w) = Inr d" for u d
    using that edit.prems by (rule keyed_save) (simp add: apply_updates_def)
  then show ?case using edit.prems
    by (auto simp: edit_badge_def simp del: insert_hashtags.simps
        dest!: keyed_cong [OF conjunct1 [OF insert_hashtags_badges]] split: option.split sum.split)
next
  case (delete w now org bid)
  then show ?case
    by (auto simp: delete_badge_def Let_def dest: keyed_save split: option.split sum.split list.split)
qed

section \<open>What a commit may do\<close>

lemma flush_simps [simp]:
  "b_id (flush_badge now old new b) = b_id b" "b_organiser_id (flush_badge now old new b) = b_organiser_id b"
  "b_platform_template_id (flush_badge now old new b) = b_platform_template_id b"
  "b_share_count (flush_badge now old new b) = b_share_count b"
  "b_creation_count (flush_badge now old new b) = b_creation_count b"
  by (simp_all add: flush_badge_def)

lemma write_change_badges:
  assumes "write_change p d = Inr d'"
  shows "badges d' = update_where (\<lambda>b. b_id b = b_id (bp_old p)) (flush_badge (bp_now p) (bp_old p) (bp_new p)) (badges d)"
    and "\<forall>b\<in>set (badges d'). b_id b = b_id (bp_old p) \<longrightarrow> slug_free b (badges d')"
proof -
  let ?bs = "update_where (\<lambda>b. b_id b = b_id (bp_old p)) (flush_badge (bp_now p) (bp_old p) (bp_new p)) (badges d)"
  have c: "\<forall>b\<in>set ?bs. b_id b = b_id (bp_old p) \<longrightarrow> slug_free b ?bs"
    and r: "replace_hashtags (b_id (bp_old p)) (bp_hashtags p) (d\<lparr>badges := ?bs\<rparr>) = Inr d'"
    using assms by (auto simp: write_change_def Let_def checked_def replace_hashtags_def split: if_splits)
  show row: "badges d' = ?bs"
    using r by (auto simp: replace_hashtags_def simp del: insert_hashtags.simps dest!: insert_hashtags_badges split: option.splits)
  show "\<forall>b\<in>set (badges d'). b_id b = b_id (bp_old p) \<longrightarrow> slug_free b (badges d')" unfolding row by (rule c)
qed

lemma write_change_keyed: "write_change p d = Inr d' \<Longrightarrow> badges_keyed d \<Longrightarrow> badges_keyed d'"
  using write_change_badges [of p d d']
  by (intro keyed_change [of d "flush_badge (bp_now p) (bp_old p) (bp_new p)" "b_id (bp_old p)" d']) simp_all

text \<open>A plan was read from a row that was not deleted.\<close>

definition plan_live :: "badge_plan \<Rightarrow> bool" where
  "plan_live p = (b_deleted_at (bp_old p) = None)"

text \<open>The plan is not the first publication of its badge.\<close>

definition keeps_slug :: "badge_plan \<Rightarrow> bool" where
  "keeps_slug p = (b_share_slug (bp_new p) = b_share_slug (bp_old p))"

lemma flush_deleted:
  "b_deleted_at old = None \<Longrightarrow> b_deleted_at b \<noteq> None \<Longrightarrow> b_deleted_at (flush_badge now old new b) \<noteq> None"
  by (auto simp: flush_badge_def changed_def)

lemma flush_evolves:
  "plan_live p \<Longrightarrow> keeps_slug p \<Longrightarrow> badge_evolves b (flush_badge (bp_now p) (bp_old p) (bp_new p) b)"
  by (auto simp: badge_evolves_def plan_live_def keeps_slug_def flush_badge_def changed_def)

lemma read_change_plan:
  assumes "read_change now org bid c d = Inr p"
  shows "bp_old p \<in> set (badges d)" "plan_live p" "b_id (bp_old p) = bid" "b_organiser_id (bp_old p) = org"
    "new_row now c (bp_old p) = Inr (bp_new p)"
proof -
  obtain b where b: "load_badge c bid d = Some b" "b_organiser_id b = org" "new_row now c b = Inr (bp_new p)" "bp_old p = b"
    using assms by (auto simp: read_change_def split: option.splits if_splits sum.splits)
  have "b \<in> set (badges d) \<and> b_id b = bid \<and> b_deleted_at b = None"
    using b(1) by (auto simp: load_badge_def live_badge_def dest!: find_set split: badge_change.splits option.splits if_splits)
  then show "bp_old p \<in> set (badges d)" "plan_live p" "b_id (bp_old p) = bid" "b_organiser_id (bp_old p) = org"
    "new_row now c (bp_old p) = Inr (bp_new p)" using b by (simp_all add: plan_live_def)
qed

lemma new_row_slug:
  "new_row now c b = Inr b' \<Longrightarrow> b_share_slug b = Some (x # s) \<Longrightarrow> b_share_slug b' = Some (x # s)"
  by (auto simp: new_row_def publish_row_def apply_updates_def split: badge_change.splits if_splits sum.splits)

section \<open>Invariants of mixed runs\<close>

definition sound_plans :: "'r world \<times> badge_plan list \<Rightarrow> bool" where
  "sound_plans wp = (badges_keyed (db (fst wp)) \<and> list_all plan_live (snd wp))"

lemma mixed_step_cases:
  assumes "badge_mixed_step e wp wp'"
  obtains (whole) w w' ps where "wp = (w, ps)" "wp' = (w', ps)" "badge_step e w w'"
  | (read_it) w ps now org bid c p where "wp = (w, ps)" "wp' = (w, p # ps)" "read_change now org bid c (db w) = Inr p"
  | (failed) w w' ps p qs where "wp = (w, ps @ p # qs)" "wp' = (w', ps @ qs)" "db w' = db w"
  | (write_it) w w' ps p qs where "wp = (w, ps @ p # qs)" "wp' = (w', ps @ qs)" "write_change p (db w) = Inr (db w')"
  using assms
proof cases
  case (write_it w' p w ps qs)
  then show thesis
    using failed [of w ps p qs w'] that(4) [of w ps p qs w'] by (cases "write_change p (db w)") simp_all
qed (use that in blast)+

lemma sound_step:
  assumes "badge_mixed_step e wp wp'" "sound_plans wp"
  shows "sound_plans wp'"
  using assms
  by (cases rule: mixed_step_cases)
    (auto simp: sound_plans_def dest: badge_step_keyed read_change_plan(2) write_change_keyed)

text \<open>A badge that has its slug evolves as a sequence of whole requests lets it, once no first publication is under way.\<close>

definition settled_badge :: "badge \<Rightarrow> 'r world \<times> badge_plan list \<Rightarrow> bool" where
  "settled_badge b wp = (sound_plans wp \<and> (\<exists>b'\<in>set (badges (db (fst wp))). badge_evolves b b')
     \<and> list_all (\<lambda>p. b_id (bp_old p) = b_id b \<longrightarrow> keeps_slug p) (snd wp))"

lemma evolves_into: "badges_evolve bs bs' \<Longrightarrow> \<exists>x\<in>set bs. badge_evolves b x \<Longrightarrow> \<exists>x\<in>set bs'. badge_evolves b x"
  by (meson badge_evolves_trans badges_evolve_def)

lemma settled_step:
  assumes "badge_mixed_step e wp wp'" "settled_badge b wp" "b_share_slug b = Some (x # s)"
  shows "settled_badge b wp'"
proof -
  have sound: "sound_plans wp'" using sound_step [OF assms(1)] assms(2) by (simp add: settled_badge_def)
  from assms(1) show ?thesis
  proof (cases rule: mixed_step_cases)
    case (whole w w' ps)
    then show ?thesis
      using assms(2) sound evolves_into [OF badge_step_evolves [OF whole(3)]] by (simp add: settled_badge_def)
  next
    case (read_it w ps now org bid c p)
    have "keeps_slug p" if same: "b_id (bp_old p) = b_id b"
    proof -
      obtain b' where b': "b' \<in> set (badges (db w))" "badge_evolves b b'"
        using assms(2) read_it(1) by (auto simp: settled_badge_def)
      have "badges_keyed (db w)" using assms(2) read_it(1) by (simp add: settled_badge_def sound_plans_def)
      then have "bp_old p = b'"
        using keyed_unique b'(1) read_change_plan(1) [OF read_it(3)] same b'(2) by (metis badge_evolves_def)
      then have "b_share_slug (bp_old p) = Some (x # s)" using b'(2) assms(3) by (simp add: badge_evolves_def)
      then show ?thesis using new_row_slug [OF read_change_plan(5) [OF read_it(3)]] by (simp add: keeps_slug_def)
    qed
    then show ?thesis using assms(2) sound read_it by (simp add: settled_badge_def)
  next
    case (failed w w' ps p qs)
    then show ?thesis using assms(2) sound by (simp add: settled_badge_def)
  next
    case (write_it w w' ps p qs)
    obtain b' where b': "b' \<in> set (badges (db w))" "badge_evolves b b'"
      using assms(2) write_it(1) by (auto simp: settled_badge_def)
    let ?f = "flush_badge (bp_now p) (bp_old p) (bp_new p)"
    have p: "plan_live p" "b_id (bp_old p) = b_id b \<Longrightarrow> keeps_slug p"
      using assms(2) write_it(1) by (simp_all add: settled_badge_def sound_plans_def)
    let ?x = "if b_id b' = b_id (bp_old p) then ?f b' else b'"
    have "?x \<in> set (badges (db w'))" using b'(1) unfolding write_change_badges(1) [OF write_it(3)] set_update_where by blast
    moreover have "badge_evolves b' ?x"
      using flush_evolves [OF p(1)] p(2) b'(2) by (simp add: badge_evolves_def [of b])
    ultimately have "\<exists>x\<in>set (badges (db w')). badge_evolves b x" using badge_evolves_trans [OF b'(2)] by blast
    then show ?thesis using assms(2) sound write_it by (simp add: settled_badge_def)
  qed
qed

lemma settled_run:
  "badge_mixed_run e wp wp' \<Longrightarrow> settled_badge b wp \<Longrightarrow> b_share_slug b = Some (x # s) \<Longrightarrow> settled_badge b wp'"
  by (induction rule: rtranclp_induct) (auto intro: settled_step)

text \<open>A deleted badge stays deleted whatever is under way, also a publication that was read before the deletion.\<close>

definition dead_badge :: "uuid \<Rightarrow> 'r world \<times> badge_plan list \<Rightarrow> bool" where
  "dead_badge bid wp = (sound_plans wp \<and> (\<exists>b\<in>set (badges (db (fst wp))). b_id b = bid \<and> b_deleted_at b \<noteq> None))"

lemma dead_step:
  assumes "badge_mixed_step e wp wp'" "dead_badge bid wp"
  shows "dead_badge bid wp'"
proof -
  obtain b where b: "b \<in> set (badges (db (fst wp)))" "b_id b = bid" "b_deleted_at b \<noteq> None"
    using assms(2) by (auto simp: dead_badge_def)
  have "\<exists>x\<in>set (badges (db (fst wp'))). b_id x = bid \<and> b_deleted_at x \<noteq> None"
    using assms(1)
  proof (cases rule: mixed_step_cases)
    case (whole w w' ps)
    then obtain x where "x \<in> set (badges (db w'))" "badge_evolves b x"
      using badge_step_evolves [OF whole(3)] b(1) by (auto simp: badges_evolve_def)
    then show ?thesis using b whole by (auto simp: badge_evolves_def intro!: bexI [of _ x])
  next
    case (write_it w w' ps p qs)
    let ?x = "if b_id b = b_id (bp_old p) then flush_badge (bp_now p) (bp_old p) (bp_new p) b else b"
    have "?x \<in> set (badges (db w'))"
      using b(1) write_it(1) unfolding write_change_badges(1) [OF write_it(3)] set_update_where by auto
    moreover have "plan_live p" using assms(2) write_it(1) by (simp add: dead_badge_def sound_plans_def)
    ultimately show ?thesis using b write_it flush_deleted by (auto simp: plan_live_def intro!: bexI [of _ ?x])
  qed (use b in auto)
  then show ?thesis using sound_step [OF assms(1)] assms(2) by (simp add: dead_badge_def)
qed

lemma dead_run: "badge_mixed_run e wp wp' \<Longrightarrow> dead_badge bid wp \<Longrightarrow> dead_badge bid wp'"
  by (induction rule: rtranclp_induct) (auto intro: dead_step)

lemma dead_refused:
  assumes "dead_badge bid (w, ps)"
  shows "read_change now org bid c (db w) = Inl BadgeNotFoundError"
    and "get_public_badge_by_slug slug (db w) = Inr x \<Longrightarrow> b_id x \<noteq> bid"
    and "\<forall>b\<in>set (badges (db w)). b_id b = bid \<longrightarrow> b_deleted_at b \<noteq> None"
proof -
  have dead: "b_deleted_at x \<noteq> None" if "x \<in> set (badges (db w))" "b_id x = bid" for x
    using assms keyed_unique that by (fastforce simp: dead_badge_def sound_plans_def)
  then show "\<forall>b\<in>set (badges (db w)). b_id b = bid \<longrightarrow> b_deleted_at b \<noteq> None" by blast
  show "b_id x \<noteq> bid" if "get_public_badge_by_slug slug (db w) = Inr x"
    using dead [OF public_Inr(1) [OF that]] public_Inr(4) [OF that] by blast
  have "live_badge bid (db w) = None" using dead by (auto simp: live_badge_def find_none_iff)
  moreover have "b_deleted_at b \<noteq> None" if "find (\<lambda>b. b_id b = bid) (badges (db w)) = Some b" for b
    using dead find_set [OF that] by blast
  ultimately have "load_badge c bid (db w) = None" by (auto simp: load_badge_def split: badge_change.split option.split)
  then show "read_change now org bid c (db w) = Inl BadgeNotFoundError" by (simp add: read_change_def)
qed

text \<open>A whole request leaves the row of a deleted badge as it is.\<close>

lemma keyed_dead:
  assumes "badges_keyed d" "b \<in> set (badges d)" "b_deleted_at b \<noteq> None"
  shows "live_badge bid d = Some x \<Longrightarrow> b_id b \<noteq> bid"
    and "find (\<lambda>b. b_id b = bid) (badges d) = Some x \<Longrightarrow> b_deleted_at x = None \<Longrightarrow> b_id b \<noteq> bid"
proof -
  show "b_id b \<noteq> bid" if "find (\<lambda>b. b_id b = bid) (badges d) = Some x" "b_deleted_at x = None"
    using find_set [OF that(1)] keyed_unique [OF assms(1,2), of x] assms(3) that(2) by auto
  show "b_id b \<noteq> bid" if "live_badge bid d = Some x"
    using that keyed_unique [OF assms(1,2), of x] assms(3) by (auto simp: live_badge_def dest!: find_set)
qed

lemma save_badge_keeps: "save_badge now bid f d = Inr d' \<Longrightarrow> b \<in> set (badges d) \<Longrightarrow> b_id b \<noteq> bid \<Longrightarrow> b \<in> set (badges d')"
  by (auto simp: save_badge_def Let_def set_update_where)

lemma insert_badge_keeps: "insert_badge c d = Inr d' \<Longrightarrow> b \<in> set (badges d) \<Longrightarrow> b \<in> set (badges d')"
  by (auto simp: insert_badge_def)

lemma public_update_keeps:
  "b \<in> set bs \<Longrightarrow> b_deleted_at b \<noteq> None \<Longrightarrow> b \<in> set (update_where (public_where slug) f bs)"
  unfolding set_update_where by (intro bexI [of _ b]) (auto simp: public_where_def)

lemma badge_step_dead:
  assumes "badge_step e w w'" "badges_keyed (db w)" "b \<in> set (badges (db w))" "b_deleted_at b \<noteq> None"
  shows "b \<in> set (badges (db w'))"
  using assms
proof (induction rule: badge_step.induct)
  case (create w now bid org t)
  then show ?case by (auto simp: create_badge_def Let_def dest: insert_badge_keeps split: option.split sum.split)
next
  case (publish w now choice org bid)
  then show ?case
    using keyed_dead(1) [OF publish.prems] by (auto simp: publish_badge_def dest: save_badge_keeps split: option.split sum.split)
next
  case (unpublish w now org bid)
  then show ?case
    using keyed_dead(2) [OF unpublish.prems] by (auto simp: unpublish_badge_def dest: save_badge_keeps split: option.split sum.split)
next
  case (logo w now u bid org img)
  then show ?case
    using keyed_dead(1) [OF logo.prems] upload_badge_logo_db [of e now u bid org img w] by (auto dest: save_badge_keeps)
next
  case (share w now slug)
  then show ?case by (simp add: increment_badge_share_count_def Let_def public_update_keeps)
next
  case (creation w now nid slug)
  then show ?case
    by (auto simp: increment_badge_creation_count_def Let_def public_update_keeps dest!: create_notification_badges
        split: option.split sum.split)
next
  case (duplicate w now new_id ids org bid)
  then show ?case
    by (auto simp: duplicate_badge_def Let_def dest!: insert_badge_keeps insert_hashtags_badges split: option.split sum.split)
next
  case (edit w now ids org bid upd tags flag)
  have saved: "save_badge now bid f (db w) = Inr d \<Longrightarrow> live_badge bid (db w) = Some x \<Longrightarrow> b \<in> set (badges d)" for f d x
    using edit.prems keyed_dead(1) [OF edit.prems] save_badge_keeps by blast
  show ?case using edit.prems
    by (auto simp: edit_badge_def simp del: insert_hashtags.simps dest!: insert_hashtags_badges intro: saved
        split: option.split sum.split)
next
  case (delete w now org bid)
  then show ?case
    using keyed_dead(1) [OF delete.prems]
    by (auto simp: delete_badge_def Let_def dest: save_badge_keeps split: option.split sum.split list.split)
qed

text \<open>With no change of it under way, the row of a deleted badge does not change any more.\<close>

lemma untouched_step:
  assumes "badge_mixed_step e wp wp'" "sound_plans wp" "b \<in> set (badges (db (fst wp)))" "b_deleted_at b \<noteq> None"
    and "list_all (\<lambda>p. b_id (bp_old p) \<noteq> b_id b) (snd wp)"
  shows "b \<in> set (badges (db (fst wp'))) \<and> list_all (\<lambda>p. b_id (bp_old p) \<noteq> b_id b) (snd wp')"
  using assms(1)
proof (cases rule: mixed_step_cases)
  case (whole w w' ps)
  then show ?thesis using badge_step_dead [OF whole(3) _ _ assms(4)] assms(2,3,5) by (simp add: sound_plans_def)
next
  case (read_it w ps now org bid c p)
  have "bp_old p = b" if "b_id (bp_old p) = b_id b"
    using keyed_unique [OF _ read_change_plan(1) [OF read_it(3)]] that assms(2,3) read_it(1) by (simp add: sound_plans_def)
  then have "b_id (bp_old p) \<noteq> b_id b" using read_change_plan(2) [OF read_it(3)] assms(4) by (auto simp: plan_live_def)
  then show ?thesis using assms(3,5) read_it by simp
next
  case (failed w w' ps p qs)
  then show ?thesis using assms(3,5) by simp
next
  case (write_it w w' ps p qs)
  have "b \<in> set (badges (db w'))"
    unfolding write_change_badges(1) [OF write_it(3)] set_update_where using assms(3,5) write_it(1) by (intro bexI [of _ b]) auto
  then show ?thesis using assms(5) write_it by simp
qed

lemma untouched_run:
  assumes "badge_mixed_run e wp wp'" "sound_plans wp" "b \<in> set (badges (db (fst wp)))" "b_deleted_at b \<noteq> None"
    and "list_all (\<lambda>p. b_id (bp_old p) \<noteq> b_id b) (snd wp)"
  shows "b \<in> set (badges (db (fst wp')))"
proof -
  have "sound_plans wp' \<and> b \<in> set (badges (db (fst wp'))) \<and> list_all (\<lambda>p. b_id (bp_old p) \<noteq> b_id b) (snd wp')"
    using assms(1)
  proof (induction rule: rtranclp_induct)
    case (step y z)
    then show ?case using sound_step untouched_step [OF step.hyps(2) _ _ assms(4)] by blast
  qed (use assms in simp)
  then show ?thesis by blast
qed

section \<open>The properties\<close>

text \<open>C16. A share link is for ever, also with changes under way: once a badge has its slug and no first publication of
  it is between its read and its commit, no interleaving of requests and of reads and commits changes the slug or the owner of the
  badge, removes its row or lowers a counter, and the page of that slug never shows another badge.\<close>

theorem share_link_survives_races:
  assumes "badge_mixed_run e (w, ps) (w', ps')" "badges_keyed (db w)" "list_all plan_live ps"
    and "b \<in> set (badges (db w))" "b_share_slug b = Some (c # s)"
    and "list_all (\<lambda>p. b_id (bp_old p) = b_id b \<longrightarrow> b_share_slug (bp_new p) = b_share_slug (bp_old p)) ps"
  shows "(\<exists>b'\<in>set (badges (db w')). b_id b' = b_id b \<and> b_organiser_id b' = b_organiser_id b
      \<and> b_share_slug b' = Some (c # s) \<and> b_share_count b \<le> b_share_count b' \<and> b_creation_count b \<le> b_creation_count b')
    \<and> (\<forall>x. get_public_badge_by_slug (c # s) (db w') = Inr x \<longrightarrow> b_id x = b_id b)"
proof -
  have "settled_badge b (w, ps)"
    using assms(2-4,6) by (auto simp: settled_badge_def sound_plans_def keeps_slug_def intro!: bexI [of _ b])
  from settled_run [OF assms(1) this assms(5)] obtain b' where b': "b' \<in> set (badges (db w'))" "badge_evolves b b'"
    and k: "badges_keyed (db w')" by (auto simp: settled_badge_def sound_plans_def)
  then have slug: "b_share_slug b' = Some (c # s)" using assms(5) by (simp add: badge_evolves_def)
  have "b_id x = b_id b" if "get_public_badge_by_slug (c # s) (db w') = Inr x" for x
    using keyed_slug [OF k public_Inr(1) [OF that] b'(1) public_Inr(2) [OF that] slug] b'(2) by (simp add: badge_evolves_def)
  moreover have "b_id b' = b_id b \<and> b_organiser_id b' = b_organiser_id b \<and> b_share_slug b' = Some (c # s)
      \<and> b_share_count b \<le> b_share_count b' \<and> b_creation_count b \<le> b_creation_count b'"
    using b'(2) slug by (simp add: badge_evolves_def)
  ultimately show ?thesis using b'(1) by blast
qed

text \<open>An edit read before another one commits.\<close>

definition retitle :: badge_change where
  "retitle = EditIt \<lparr>bu_title = Some (Some ''New''), bu_canvas_data = None, bu_default_caption = None,
     bu_destination_link = None, bu_thumbnail_url = None, bu_access_type = None, bu_access_code = None\<rparr> (\<lambda>i. 50) None False"

lemma retitle_read: "\<exists>p. read_change 6 1 3 retitle demo_badges = Inr p \<and> plan_live p \<and> keeps_slug p \<and> b_id (bp_old p) = 3"
  by (simp add: read_change_def load_badge_def live_badge_def new_row_def retitle_def check_access_def plan_live_def
      keeps_slug_def apply_updates_def)

theorem share_link_survives_races_witness:
  "\<exists>p. read_change 6 1 3 retitle demo_badges = Inr p \<and> (let w = snd (delete_badge demo_env 5 1 3 (demo_world demo_badges)) in
     \<exists>b'\<in>set (badges (case write_change p (db w) of Inl err \<Rightarrow> db w | Inr d \<Rightarrow> d)). b_share_slug b' = Some ''slug'')"
proof -
  let ?w = "demo_world demo_badges" and ?w1 = "snd (delete_badge demo_env 5 1 3 (demo_world demo_badges))"
  obtain p where p: "read_change 6 1 3 retitle demo_badges = Inr p" "plan_live p" "keeps_slug p"
    using retitle_read by blast
  let ?w2 = "?w1\<lparr>db := (case write_change p (db ?w1) of Inl err \<Rightarrow> db ?w1 | Inr d \<Rightarrow> d)\<rparr>"
  have "badge_mixed_step demo_env (?w, [p]) (?w1, [p])" by (intro badge_mixed_step.whole badge_step.delete)
  moreover have "badge_mixed_step demo_env (?w1, [] @ p # []) (?w2, [] @ [])" by (rule badge_mixed_step.write_it) simp
  ultimately have run: "badge_mixed_run demo_env (?w, [p]) (?w2, [])" by simp
  have "\<exists>b'\<in>set (badges (db ?w2)). b_share_slug b' = Some ''slug''"
    using share_link_survives_races [OF run, of demo_badge "CHR ''s''" "''lug''"] p(2,3) db_wf_keyed [OF demo_badges_wf]
    by (auto simp: keeps_slug_def)
  with p(1) show ?thesis by (auto simp: Let_def)
qed

text \<open>C17. A deleted badge stays deleted, whatever was read before the deletion and commits after it, and whatever is
  requested: its owner finds it no more, no operation on it is accepted, no change of it can be read, and no share link shows it.
  A change that was read before the deletion may still write its columns; when none is under way, the row stays exactly as the
  deletion left it.\<close>

theorem deleted_badge_survives_races:
  assumes "badges_keyed (db w)" "delete_badge e now org bid w = (Inr (), w1)" "badge_mixed_run e (w1, ps) (w2, ps2)"
    and "list_all plan_live ps"
  shows "refused (get_badge_by_id o2 bid (db w2), w2) w2 \<and> refused (publish_badge n2 choice o2 bid w2) w2
    \<and> refused (unpublish_badge n2 o2 bid w2) w2 \<and> refused (delete_badge e n2 o2 bid w2) w2
    \<and> refused (edit_badge n2 ids o2 bid upd tags flag w2) w2 \<and> refused (duplicate_badge n2 new_id ids o2 bid w2) w2
    \<and> read_change n2 o2 bid c (db w2) = Inl BadgeNotFoundError
    \<and> (\<forall>slug b. get_public_badge_by_slug slug (db w2) = Inr b \<longrightarrow> b_id b \<noteq> bid)
    \<and> (\<exists>b\<in>set (badges (db w2)). b_id b = bid \<and> b_deleted_at b \<noteq> None)
    \<and> (list_all (\<lambda>p. b_id (bp_old p) \<noteq> bid) ps \<longrightarrow>
         (\<exists>b\<in>set (badges (db w2)). b \<in> set (badges (db w1)) \<and> b_id b = bid \<and> \<not> b_is_published b \<and> b_deleted_at b = Some now))"
proof -
  obtain b where b: "live_badge bid (db w) = Some b" using delete.success_owner [OF assms(2)] by blast
  have w1: "save_badge now bid (\<lambda>b. b\<lparr>b_deleted_at := Some now, b_is_published := False, b_published_at := None\<rparr>) (db w) = Inr (db w1)"
    using assms(2) b by (auto simp: delete_badge_def Let_def split: if_splits sum.splits option.splits list.splits)
  have b': "b \<in> set (badges (db w))" "b_id b = bid" using b by (auto simp: live_badge_def dest: find_set)
  then have "orm_badge now (\<lambda>b. b\<lparr>b_deleted_at := Some now, b_is_published := False, b_published_at := None\<rparr>) b \<in> set (badges (db w1))"
    (is "?b1 \<in> _") using w1 by (auto simp: save_badge_def Let_def set_update_where)
  note b1_in = this
  have b1: "b_id ?b1 = bid" "b_deleted_at ?b1 = Some now" "\<not> b_is_published ?b1"
    using b'(2) by simp_all
  have "badges_keyed (db w1)" using keyed_save [OF w1 assms(1)] by simp
  then have sound: "sound_plans (w1, ps)" using assms(4) by (simp add: sound_plans_def)
  then have "dead_badge bid (w1, ps)" using b1 b1_in by (auto simp: dead_badge_def intro!: bexI [of _ ?b1])
  from dead_run [OF assms(3) this] have dead: "dead_badge bid (w2, ps2)" .
  then have none: "\<forall>b\<in>set (badges (db w2)). b_id b = bid \<and> b_deleted_at b = None \<longrightarrow> b_organiser_id b \<noteq> o2"
    using dead_refused(3) by blast
  have hidden: "\<forall>slug b. get_public_badge_by_slug slug (db w2) = Inr b \<longrightarrow> b_id b \<noteq> bid"
    using dead_refused(2) [OF dead] by blast
  have "refused (get_badge_by_id o2 bid (db w2), w2) w2" by (rule detail.not_owner_refused [OF none])
  moreover have "refused (publish_badge n2 choice o2 bid w2) w2" by (rule publish.not_owner_refused [OF none])
  moreover have "refused (edit_badge n2 ids o2 bid upd tags flag w2) w2" by (rule edit.not_owner_refused [OF none])
  moreover have "refused (duplicate_badge n2 new_id ids o2 bid w2) w2" by (rule duplicate.not_owner_refused [OF none])
  moreover have "refused (delete_badge e n2 o2 bid w2) w2" by (rule delete.not_owner_refused [OF none])
  moreover have "b_deleted_at x \<noteq> None" if "find (\<lambda>b. b_id b = bid) (badges (db w2)) = Some x" for x
    using dead_refused(3) [OF dead] find_set [OF that] by blast
  then have "unpublish_badge n2 o2 bid w2 = (Inl BadgeNotFoundError, w2)"
    by (auto simp: unpublish_badge_def split: option.split)
  then have "refused (unpublish_badge n2 o2 bid w2) w2" by (simp add: refused_def)
  moreover have "read_change n2 o2 bid c (db w2) = Inl BadgeNotFoundError" by (rule dead_refused(1) [OF dead])
  moreover have "\<exists>b\<in>set (badges (db w2)). b_id b = bid \<and> b_deleted_at b \<noteq> None"
    using dead by (simp add: dead_badge_def)
  moreover have "?b1 \<in> set (badges (db w2))" if "list_all (\<lambda>p. b_id (bp_old p) \<noteq> bid) ps"
    using untouched_run [OF assms(3) sound, of ?b1] b1 b1_in that by simp
  then have "list_all (\<lambda>p. b_id (bp_old p) \<noteq> bid) ps \<longrightarrow>
      (\<exists>b\<in>set (badges (db w2)). b \<in> set (badges (db w1)) \<and> b_id b = bid \<and> \<not> b_is_published b \<and> b_deleted_at b = Some now)"
    using b1 b1_in by blast
  ultimately show ?thesis using hidden by (intro conjI)
qed

theorem deleted_badge_survives_races_witness:
  "\<exists>p. read_change 6 1 3 retitle demo_badges = Inr p \<and> (let w = snd (delete_badge demo_env 5 1 3 (demo_world demo_badges)) in
     read_change 9 1 3 UnpublishIt (case write_change p (db w) of Inl err \<Rightarrow> db w | Inr d \<Rightarrow> d) = Inl BadgeNotFoundError)"
proof -
  let ?w = "demo_world demo_badges" and ?w1 = "snd (delete_badge demo_env 5 1 3 (demo_world demo_badges))"
  obtain p where p: "read_change 6 1 3 retitle demo_badges = Inr p" "plan_live p" using retitle_read by blast
  let ?w2 = "?w1\<lparr>db := (case write_change p (db ?w1) of Inl err \<Rightarrow> db ?w1 | Inr d \<Rightarrow> d)\<rparr>"
  have "badge_mixed_step demo_env (?w1, [] @ p # []) (?w2, [] @ [])" by (rule badge_mixed_step.write_it) simp
  then have run: "badge_mixed_run demo_env (?w1, [p]) (?w2, [])" by simp
  have "fst (delete_badge demo_env 5 1 3 ?w) = Inr ()"
    by (simp add: delete_badge_def live_badge_def save_badge_def Let_def update_where_def orm_badge_def
        demo_badge_def demo_draft_def new_badge_def checked_def badge_fits_def fits_def fits_opt_def slug_free_def)
  then have "delete_badge demo_env 5 1 3 ?w = (Inr (), ?w1)" by (metis prod.collapse)
  from deleted_badge_survives_races [OF _ this run] p(2) db_wf_keyed [OF demo_badges_wf]
  have "read_change 9 1 3 UnpublishIt (db ?w2) = Inl BadgeNotFoundError" by simp
  with p(1) show ?thesis by (auto simp: Let_def)
qed

section \<open>Races\<close>

lemma write_accepted:
  assumes "badges_keyed d" "x \<in> set (badges d)" "b_id (bp_old p) = b_id x" "bp_hashtags p = None"
    and "y = flush_badge (bp_now p) (bp_old p) (bp_new p) x" "badge_fits y"
    and "\<And>z. z \<in> set (badges d) \<Longrightarrow> b_id z \<noteq> b_id x \<Longrightarrow> b_share_slug z \<noteq> b_share_slug y"
  obtains d' where "write_change p d = Inr d'" "badges_keyed d'" "y \<in> set (badges d')"
    "\<And>z. z \<in> set (badges d') \<Longrightarrow> z = y \<or> z \<in> set (badges d) \<and> b_id z \<noteq> b_id x"
proof -
  let ?bs = "update_where (\<lambda>b. b_id b = b_id (bp_old p)) (flush_badge (bp_now p) (bp_old p) (bp_new p)) (badges d)"
  have rows: "z = y \<or> z \<in> set (badges d) \<and> b_id z \<noteq> b_id x" if "z \<in> set ?bs" for z
    using that assms(3,5) keyed_unique [OF assms(1) _ assms(2)] by (auto simp: set_update_where split: if_splits)
  have y: "y \<in> set ?bs" "b_id y = b_id x" using assms(2,3,5) by (auto simp: set_update_where)
  have "slug_free y ?bs" unfolding slug_free_def using rows assms(7) y(2) by (metis (no_types, lifting))
  then have c: "\<forall>b\<in>set ?bs. b_id b = b_id (bp_old p) \<longrightarrow> badge_fits b \<and> slug_free b ?bs"
    using rows assms(3,6) by fastforce
  have "b_id (bp_old p) \<in> b_id ` set (badges d)" using assms(2,3) by auto
  with c assms(4) have w: "write_change p d = Inr (d\<lparr>badges := ?bs\<rparr>)" by (simp add: write_change_def checked_def Let_def)
  show thesis
    by (rule that [OF w write_change_keyed [OF w assms(1)]]) (use rows y in auto)
qed

text \<open>The row of a first publication, also when another one committed since.\<close>

definition published_row :: "time \<Rightarrow> string \<Rightarrow> badge \<Rightarrow> badge" where
  "published_row now s b = b\<lparr>b_is_published := True, b_published_at := Some now, b_share_slug := Some s, b_updated_at := Some now\<rparr>"

lemma published_row_simps [simp]:
  "b_id (published_row now s b) = b_id b" "b_share_slug (published_row now s b) = Some s"
  "b_is_published (published_row now s b)" "b_deleted_at (published_row now s b) = b_deleted_at b"
  "published_row now' s' (published_row now s b) = published_row now' s' b"
  by (simp_all add: published_row_def)

lemma flush_publish:
  assumes "\<not> b_is_published b" "b_published_at b = None" "b_share_slug b = None"
  shows "flush_badge now b (publish_row now choice b) (published_row t s b)
      = published_row now (generate_share_slug choice SLUG_LENGTH) b"
    and "flush_badge now b (publish_row now choice b) b = published_row now (generate_share_slug choice SLUG_LENGTH) b"
proof -
  have "b_is_published (publish_row now choice b) \<noteq> b_is_published b" using assms(1) by (simp add: publish_row_def)
  then have ne: "publish_row now choice b \<noteq> b" by metis
  show "flush_badge now b (publish_row now choice b) (published_row t s b)
      = published_row now (generate_share_slug choice SLUG_LENGTH) b"
    using ne assms by (cases b) (simp add: flush_badge_def changed_def publish_row_def published_row_def)
  show "flush_badge now b (publish_row now choice b) b = published_row now (generate_share_slug choice SLUG_LENGTH) b"
    using ne assms by (cases b) (simp add: flush_badge_def changed_def publish_row_def published_row_def)
qed

lemma badge_fits_published: "badge_fits b \<Longrightarrow> badge_fits (published_row now (generate_share_slug choice SLUG_LENGTH) b)"
  by (simp add: badge_fits_def published_row_def fits_opt_def fits_def SLUG_LENGTH_def)

lemma keyed_public:
  assumes "badges_keyed d"
  shows "x \<in> set (badges d) \<Longrightarrow> public_where s x \<Longrightarrow> get_public_badge_by_slug s d = Inr x"
    and "\<forall>x\<in>set (badges d). b_share_slug x \<noteq> Some s \<Longrightarrow> get_public_badge_by_slug s d = Inl PublicBadgeNotFoundError"
proof -
  show "get_public_badge_by_slug s d = Inr x" if x: "x \<in> set (badges d)" "public_where s x"
  proof -
    have "find (public_where s) (badges d) \<noteq> None" unfolding find_none_iff using x by blast
    then obtain y where y: "find (public_where s) (badges d) = Some y" by blast
    then have "y = x" using find_set [OF y] x keyed_slug [OF assms] by (auto simp: public_where_def)
    with y show ?thesis by (simp add: get_public_badge_by_slug_def)
  qed
  show "get_public_badge_by_slug s d = Inl PublicBadgeNotFoundError" if "\<forall>x\<in>set (badges d). b_share_slug x \<noteq> Some s"
  proof -
    have "find (public_where s) (badges d) = None" unfolding find_none_iff using that by (auto simp: public_where_def)
    then show ?thesis by (simp add: get_public_badge_by_slug_def)
  qed
qed

text \<open>C18. The first publication of a badge is not protected.  Two requests that have both read the unpublished badge are
  both answered with a share link; the second commit replaces the slug, so the link of the first request, which worked
  until then, is dead for good, while the badge is public under the other one.\<close>

theorem publications_race:
  assumes "db_wf d" "live_badge bid d = Some b" "b_organiser_id b = org" "\<not> b_is_published b" "b_share_slug b = None"
    and "badge_fits b" "s1 = generate_share_slug choice1 SLUG_LENGTH" "s2 = generate_share_slug choice2 SLUG_LENGTH" "s1 \<noteq> s2"
    and "\<forall>x\<in>set (badges d). b_share_slug x \<noteq> Some s1 \<and> b_share_slug x \<noteq> Some s2"
  shows "\<exists>p1 p2 d1 d2. read_change t1 org bid (PublishIt choice1) d = Inr p1
    \<and> read_change t2 org bid (PublishIt choice2) d = Inr p2
    \<and> write_change p1 d = Inr d1 \<and> get_public_badge_by_slug s1 d1 = Inr (published_row t1 s1 b)
    \<and> write_change p2 d1 = Inr d2 \<and> get_public_badge_by_slug s1 d2 = Inl PublicBadgeNotFoundError
    \<and> get_public_badge_by_slug s2 d2 = Inr (published_row t2 s2 b)"
proof -
  have b: "b \<in> set (badges d)" "b_id b = bid" "b_deleted_at b = None" using assms(2) live_badge_iff [OF assms(1)] by auto
  then have pub: "b_published_at b = None" using assms(1,4) by (auto simp: db_wf_def badges_ok_def badge_row_ok_def)
  let ?p1 = "\<lparr>bp_now = t1, bp_old = b, bp_new = publish_row t1 choice1 b, bp_hashtags = None\<rparr>"
  let ?p2 = "\<lparr>bp_now = t2, bp_old = b, bp_new = publish_row t2 choice2 b, bp_hashtags = None\<rparr>"
  let ?r1 = "published_row t1 s1 b" and ?r2 = "published_row t2 s2 b"
  have plans: "read_change t1 org bid (PublishIt choice1) d = Inr ?p1" "read_change t2 org bid (PublishIt choice2) d = Inr ?p2"
    using read_change_rules [OF assms(1-3)] assms(4) by (simp_all add: new_row_def new_hashtags_of_def)
  note k = db_wf_keyed [OF assms(1)]
  obtain d1 where d1: "write_change ?p1 d = Inr d1" "badges_keyed d1" "?r1 \<in> set (badges d1)"
    "\<And>z. z \<in> set (badges d1) \<Longrightarrow> z = ?r1 \<or> z \<in> set (badges d) \<and> b_id z \<noteq> b_id b"
  proof (rule write_accepted [OF k b(1), of ?p1 ?r1], goal_cases)
    case 3
    then show ?case using flush_publish(2) [OF assms(4) pub assms(5)] assms(7) by simp
  next
    case 4
    then show ?case using badge_fits_published [OF assms(6)] assms(7) by simp
  qed (use assms(10) in auto)
  obtain d2 where d2: "write_change ?p2 d1 = Inr d2" "badges_keyed d2" "?r2 \<in> set (badges d2)"
    "\<And>z. z \<in> set (badges d2) \<Longrightarrow> z = ?r2 \<or> z \<in> set (badges d1) \<and> b_id z \<noteq> b_id ?r1"
  proof (rule write_accepted [OF d1(2,3), of ?p2 ?r2], goal_cases)
    case 3
    then show ?case using flush_publish(1) [OF assms(4) pub assms(5)] assms(8) by simp
  next
    case 4
    then show ?case using badge_fits_published [OF assms(6)] assms(8) by simp
  next
    case (5 z)
    then show ?case using d1(4) assms(10) by fastforce
  qed auto
  have "b_share_slug z \<noteq> Some s1" if "z \<in> set (badges d2)" for z
    using d2(4) [OF that] d1(4) assms(9,10) by fastforce
  then have gone: "get_public_badge_by_slug s1 d2 = Inl PublicBadgeNotFoundError" using keyed_public(2) [OF d2(2)] by blast
  have "get_public_badge_by_slug s1 d1 = Inr ?r1"
    by (rule keyed_public(1) [OF d1(2,3)]) (simp add: public_where_def b(3))
  moreover have "get_public_badge_by_slug s2 d2 = Inr ?r2"
    by (rule keyed_public(1) [OF d2(2,3)]) (simp add: public_where_def b(3))
  ultimately show ?thesis using plans d1(1) d2(1) gone by blast
qed

theorem publications_race_witness:
  "\<exists>s1 s2 p1 p2 d1 d2. s1 \<noteq> s2 \<and> read_change 5 1 4 (PublishIt (\<lambda>i. 0)) demo_badges = Inr p1
    \<and> read_change 6 1 4 (PublishIt (\<lambda>i. 1)) demo_badges = Inr p2 \<and> write_change p1 demo_badges = Inr d1 \<and> write_change p2 d1 = Inr d2
    \<and> (\<exists>b. get_public_badge_by_slug s1 d1 = Inr b) \<and> get_public_badge_by_slug s1 d2 = Inl PublicBadgeNotFoundError"
proof -
  let ?s1 = "generate_share_slug (\<lambda>i. 0) SLUG_LENGTH" and ?s2 = "generate_share_slug (\<lambda>i. 1) SLUG_LENGTH"
  have s: "?s1 \<noteq> ?s2" "?s1 \<noteq> ''slug''" "?s2 \<noteq> ''slug''" by code_simp+
  moreover have "badge_fits demo_draft"
    by (simp add: demo_draft_def new_badge_def badge_fits_def fits_def fits_opt_def)
  ultimately show ?thesis
    using publications_race [OF demo_badges_wf, of 4 demo_draft 1 ?s1 "\<lambda>i. 0" ?s2 "\<lambda>i. 1" 5 6]
    by (auto simp: live_badge_def)
qed

text \<open>Two edits that replace the hashtags, both read first, leave both lists: each deletes only the rows it has loaded.\<close>

lemma insert_hashtags_ids:
  "insert_hashtags ids i bid tags d = Inr d' \<Longrightarrow>
   \<exists>hs. badge_hashtags d' = badge_hashtags d @ hs \<and> map bh_hashtag hs = tags \<and> (\<forall>h\<in>set hs. bh_badge_id h = bid \<and> bh_id h \<in> range ids)"
proof (induction tags arbitrary: i d)
  case (Cons tag tags)
  let ?h = "\<lparr>bh_id = ids i, bh_badge_id = bid, bh_hashtag = tag\<rparr>"
  from Cons.prems obtain d1 where d1: "insert_hashtag ?h d = Inr d1" "insert_hashtags ids (Suc i) bid tags d1 = Inr d'"
    by (auto split: sum.splits)
  then have "badge_hashtags d1 = badge_hashtags d @ [?h]" by (auto simp: insert_hashtag_def)
  with Cons.IH [OF d1(2)] obtain hs where "badge_hashtags d' = badge_hashtags d @ ?h # hs" "map bh_hashtag hs = tags"
    "\<forall>h\<in>set hs. bh_badge_id h = bid \<and> bh_id h \<in> range ids" by auto
  then show ?case by (intro exI [of _ "?h # hs"]) simp
qed simp

lemma write_change_hashtags:
  assumes "write_change p d = Inr d'" "bp_hashtags p = Some (loaded, ids, tags)"
  obtains hs where "badge_hashtags d' = filter (\<lambda>h. bh_id h \<notin> set loaded) (badge_hashtags d) @ hs" "map bh_hashtag hs = tags"
    "\<forall>h\<in>set hs. bh_badge_id h = b_id (bp_old p) \<and> bh_id h \<in> range ids"
proof -
  obtain bs where "insert_hashtags ids 0 (b_id (bp_old p)) tags (d\<lparr>badges := bs,
      badge_hashtags := filter (\<lambda>h. bh_id h \<notin> set loaded) (badge_hashtags d)\<rparr>) = Inr d'"
    using assms by (auto simp: write_change_def checked_def Let_def delete_where_def simp del: insert_hashtags.simps split: if_splits)
  from insert_hashtags_ids [OF this] that show thesis by auto
qed

theorem hashtag_edits_race:
  assumes "write_change p1 d = Inr d1" "write_change p2 d1 = Inr d2"
    and "b_id (bp_old p1) = bid" "b_id (bp_old p2) = bid"
    and "bp_hashtags p1 = new_hashtags_of (EditIt u1 ids1 (Some tags1) True) bid d"
    and "bp_hashtags p2 = new_hashtags_of (EditIt u2 ids2 (Some tags2) True) bid d"
    and "\<forall>h\<in>set (badge_hashtags d). bh_id h \<notin> range ids1"
  shows "badge_tags bid d2 = tags1 @ tags2"
proof -
  define L where "L = map bh_id (filter (\<lambda>h. bh_badge_id h = bid) (badge_hashtags d))"
  define rest where "rest = filter (\<lambda>h. bh_id h \<notin> set L) (badge_hashtags d)"
  have "bp_hashtags p1 = Some (L, ids1, tags1)" "bp_hashtags p2 = Some (L, ids2, tags2)"
    using assms(5,6) by (simp_all add: new_hashtags_of_def L_def)
  from write_change_hashtags [OF assms(1) this(1)] write_change_hashtags [OF assms(2) this(2)]
  obtain hs1 hs2 where 1: "badge_hashtags d1 = rest @ hs1" "map bh_hashtag hs1 = tags1"
      "\<forall>h\<in>set hs1. bh_badge_id h = bid \<and> bh_id h \<in> range ids1"
    and 2: "badge_hashtags d2 = filter (\<lambda>h. bh_id h \<notin> set L) (badge_hashtags d1) @ hs2" "map bh_hashtag hs2 = tags2"
      "\<forall>h\<in>set hs2. bh_badge_id h = bid \<and> bh_id h \<in> range ids2"
    unfolding assms(3,4) rest_def by metis
  have "filter (\<lambda>h. bh_badge_id h = bid) rest = []" by (auto simp: rest_def L_def filter_empty_conv)
  moreover have "set L \<inter> range ids1 = {}" using assms(7) by (auto simp: L_def)
  then have "filter (\<lambda>h. bh_id h \<notin> set L) hs1 = hs1" unfolding filter_id_conv using 1(3) by blast
  moreover have "filter (\<lambda>h. bh_id h \<notin> set L) rest = rest" by (simp add: rest_def)
  moreover have "filter (\<lambda>h. bh_badge_id h = bid) hs1 = hs1" "filter (\<lambda>h. bh_badge_id h = bid) hs2 = hs2"
    unfolding filter_id_conv using 1(3) 2(3) by blast+
  ultimately show ?thesis unfolding badge_tags_def 2(1) 1(1) filter_append map_append 1(2) [symmetric] 2(2) [symmetric] by simp
qed

end
