(* ===== verification/Lockout_Races.thy ===== *)
theory Lockout_Races
  imports Account_Facts
begin

text \<open>
  Sign ins for one address that do not wait for each other (\<open>signin\<close> and the counter of \<open>app/services/auth.py\<close>).  The
  check of the counter and its increment are commands of their own, with the look-up and the verification of the
  password between them; so several sign ins pass the check before one of them counts.
\<close>

section \<open>A sign in after its check\<close>

definition finish_signin :: "'r env \<Rightarrow> time \<Rightarrow> session_draws \<Rightarrow> string \<Rightarrow> string \<Rightarrow> request option \<Rightarrow> 'r world \<Rightarrow>
    (app_error + user \<times> string \<times> string) \<times> 'r world" where
  "finish_signin e now dr email password req w =
     (case user_by_email email (db w) of
        None \<Rightarrow>
          (let (attempts, r) = increment_failed_attempts e now email (kv w); w = w\<lparr>kv := r\<rparr>
           in if attempts \<ge> MAX_LOGIN_ATTEMPTS (cfg e)
              then (Inl (AccountLockedError ''Account locked due to too many failed attempts.''), w)
              else (Inl InvalidCredentialsError, w))
      | Some existing_user \<Rightarrow>
          if (case u_password_hash existing_user of None \<Rightarrow> True
              | Some h \<Rightarrow> h = [] \<or> \<not> verify_password e password h)
          then (let (attempts, r) = increment_failed_attempts e now email (kv w); w = w\<lparr>kv := r\<rparr>
                in if attempts \<ge> MAX_LOGIN_ATTEMPTS (cfg e)
                   then (case send_account_lock_email e now (u_email existing_user) w of
                       (Inl EmailDeliveryError, w) \<Rightarrow>
                         (Inl (AccountLockedError ''Account locked due to too many failed attempts.''), w)
                     | (Inl err, w) \<Rightarrow> (Inl err, w)
                     | (Inr _, w) \<Rightarrow>
                         (Inl (AccountLockedError ''Account locked due to too many failed attempts.''), w))
                   else (Inl InvalidCredentialsError, w))
          else (let w = w\<lparr>kv := reset_attempts e now email (kv w)\<rparr> in
            if \<not> u_is_email_verified existing_user then (Inl EmailNotVerifiedError, w)
            else (let access_token = create_access_token e now (se_access_jti dr) (u_id existing_user);
                      (raw_refresh_token, expire) = create_refresh_token e now (se_refresh_jti dr) (u_id existing_user);
                      refresh_token = new_refresh_token now (se_token_id dr) (u_id existing_user)
                        (hash_token e raw_refresh_token) expire (se_family dr)
                        (case req of None \<Rightarrow> None | Some q \<Rightarrow> user_agent_or_none q)
                        (case req of None \<Rightarrow> None | Some q \<Rightarrow> get_client_ip q)
                  in case insert_refresh_token refresh_token (db w) of
                      Inl err \<Rightarrow> (Inl err, w)
                    | Inr d \<Rightarrow> (Inr (existing_user, access_token, raw_refresh_token), w\<lparr>db := d\<rparr>))))"

lemma signin_in_two_steps:
  "signin e now dr m p q w = (case check_lockout e now m (kv w) of Inl err \<Rightarrow> (Inl err, w) | Inr _ \<Rightarrow> finish_signin e now dr m p q w)"
  unfolding signin_def finish_signin_def ..

text \<open>A wrong password counts, whatever the check would say by now.\<close>

definition wrong_password :: "'r env \<Rightarrow> string \<Rightarrow> string \<Rightarrow> 'r world \<Rightarrow> bool" where
  "wrong_password e m p w = (case user_by_email m (db w) of None \<Rightarrow> True | Some u \<Rightarrow> \<not> credentials_ok e p u)"

lemma finish_wrong:
  assumes "wrong_password e m p w"
  shows "kv (snd (finish_signin e t dr m p q w)) = snd (increment_failed_attempts e t m (kv w))
    \<and> db (snd (finish_signin e t dr m p q w)) = db w"
proof (cases "user_by_email m (db w)")
  case None
  then show ?thesis by (simp add: finish_signin_def Let_def split: prod.split)
next
  case (Some u)
  then have bad: "case u_password_hash u of None \<Rightarrow> True | Some h \<Rightarrow> h = [] \<or> \<not> verify_password e p h"
    using assms by (auto simp: wrong_password_def credentials_ok_def split: option.split)
  let ?w = "w\<lparr>kv := snd (increment_failed_attempts e t m (kv w))\<rparr>"
  obtain r w2 where r: "send_account_lock_email e t (u_email u) ?w = (r, w2)" by fastforce
  have "kv w2 = kv ?w" "db w2 = db w"
    using arg_cong [OF r, of "\<lambda>x. kv (snd x)"] arg_cong [OF r, of "\<lambda>x. db (snd x)"] by simp_all
  then show ?thesis
    using Some bad r by (auto simp: finish_signin_def Let_def case_prod_unfold split: sum.split app_error.split)
qed

text \<open>The right password deletes the counter, also when the address is not verified yet.\<close>

lemma finish_right:
  assumes "\<not> wrong_password e m p w"
  shows "kv (snd (finish_signin e t dr m p q w)) = reset_attempts e t m (kv w)"
proof -
  obtain u where u: "user_by_email m (db w) = Some u" "credentials_ok e p u"
    using assms by (auto simp: wrong_password_def split: option.splits)
  then have "\<not> (case u_password_hash u of None \<Rightarrow> True | Some h \<Rightarrow> h = [] \<or> \<not> verify_password e p h)"
    by (auto simp: credentials_ok_def split: option.splits)
  with u(1) show ?thesis by (simp add: finish_signin_def Let_def case_prod_unfold split: sum.split)
qed

section \<open>Sign ins under way\<close>

text \<open>
  The state is the world, the number of sign ins between check and count, the number of passwords found wrong since the
  last right one, and the numbers of all wrong and of all right passwords.
  At most \<open>K\<close> are under way at a time; the instants are those of \<open>T\<close>.  A sign in ends with a wrong password, which
  counts, or with the right one, which deletes the counter.  Anything else may happen that leaves the counter
  of the address alone, as all operations but a sign in do.
\<close>

inductive guess_step :: "'r env \<Rightarrow> ('r \<Rightarrow> redis_view) \<Rightarrow> string \<Rightarrow> nat \<Rightarrow> time set \<Rightarrow>
    'r world \<times> nat \<times> nat \<times> nat \<times> nat \<Rightarrow> 'r world \<times> nat \<times> nat \<times> nat \<times> nat \<Rightarrow> bool" for e view m K T where
  check: "t \<in> T \<Longrightarrow> n < K \<Longrightarrow> check_lockout e t m (kv w) = Inr () \<Longrightarrow>
    guess_step e view m K T (w, n, g, bad, right) (w, Suc n, g, bad, right)"
| wrong: "t \<in> T \<Longrightarrow> wrong_password e m p w \<Longrightarrow>
    guess_step e view m K T (w, Suc n, g, bad, right) (snd (finish_signin e t dr m p q w), n, Suc g, Suc bad, right)"
| right: "t \<in> T \<Longrightarrow> \<not> wrong_password e m p w \<Longrightarrow>
    guess_step e view m K T (w, Suc n, g, bad, right) (snd (finish_signin e t dr m p q w), n, 0, bad, Suc right)"
| other: "view (kv w') (FAILED_LOGIN_PREFIX (cfg e) @ m) = view (kv w) (FAILED_LOGIN_PREFIX (cfg e) @ m) \<Longrightarrow>
    guess_step e view m K T (w, n, g, bad, right) (w', n, g, bad, right)"

abbreviation guess_run where
  "guess_run e view m K T \<equiv> (guess_step e view m K T)\<^sup>*\<^sup>*"

section \<open>The bound\<close>

text \<open>The counter holds the number of wrong passwords since the last right one, with an expiry after all instants of \<open>T\<close>.\<close>

definition counts :: "redis_view \<Rightarrow> string \<Rightarrow> time set \<Rightarrow> nat \<Rightarrow> bool" where
  "counts v k T g = (if g = 0 then \<forall>t\<in>T. live t (v k) = None
     else \<exists>x. v k = Some (py_str (int g), Some x) \<and> (\<forall>t\<in>T. t < x))"

definition bounded :: "'r env \<Rightarrow> ('r \<Rightarrow> redis_view) \<Rightarrow> string \<Rightarrow> nat \<Rightarrow> time set \<Rightarrow> 'r world \<times> nat \<times> nat \<times> nat \<times> nat \<Rightarrow> bool" where
  "bounded e view m K T s = (case s of (w, n, g, bad, right) \<Rightarrow>
     counts (view (kv w)) (FAILED_LOGIN_PREFIX (cfg e) @ m) T g \<and> n \<le> K
     \<and> (int g < MAX_LOGIN_ATTEMPTS (cfg e) \<or> int g + int n < MAX_LOGIN_ATTEMPTS (cfg e) + int K)
     \<and> int bad \<le> int right * (MAX_LOGIN_ATTEMPTS (cfg e) + int K - 1) + int g)"

definition one_window :: "settings \<Rightarrow> time set \<Rightarrow> bool" where
  "one_window s T = (\<forall>t\<in>T. \<forall>t'\<in>T. t' < t + seconds (LOCKOUT_WINDOW s))"

lemma py_str_nonempty [simp]: "py_str i \<noteq> []"
  by (simp add: py_str_def)

context token_stores
begin

lemma counts_increment:
  assumes "counts (view r) (FAILED_LOGIN_PREFIX (cfg e) @ m) T g" "t \<in> T" "one_window (cfg e) T"
  shows "counts (view (snd (increment_failed_attempts e t m r))) (FAILED_LOGIN_PREFIX (cfg e) @ m) T (Suc g)"
proof (cases "g = 0")
  case True
  then show ?thesis
    using assms increment_new(2) [of t r m] by (auto simp: counts_def one_window_def py_str_1)
next
  case False
  then obtain x where "view r (FAILED_LOGIN_PREFIX (cfg e) @ m) = Some (py_str (int g), Some x)" "\<forall>t\<in>T. t < x"
    using assms(1) by (auto simp: counts_def)
  then show ?thesis using increment_old(2) [of r m "int g" x t] False assms(2) by (simp add: counts_def add.commute)
qed

lemma counts_check:
  assumes "counts (view r) (FAILED_LOGIN_PREFIX (cfg e) @ m) T g" "t \<in> T" "0 < MAX_LOGIN_ATTEMPTS (cfg e)"
  shows "(check_lockout e t m r = Inr ()) = (int g < MAX_LOGIN_ATTEMPTS (cfg e))"
    and "MAX_LOGIN_ATTEMPTS (cfg e) \<le> int g \<Longrightarrow> \<exists>msg. check_lockout e t m r = Inl (AccountLockedError msg)"
proof -
  have "g = 0 \<and> live t (view r (FAILED_LOGIN_PREFIX (cfg e) @ m)) = None
      \<or> g \<noteq> 0 \<and> live t (view r (FAILED_LOGIN_PREFIX (cfg e) @ m)) = Some (py_str (int g))"
    using assms(1,2) by (auto simp: counts_def split: if_splits)
  then show "(check_lockout e t m r = Inr ()) = (int g < MAX_LOGIN_ATTEMPTS (cfg e))"
    and "MAX_LOGIN_ATTEMPTS (cfg e) \<le> int g \<Longrightarrow> \<exists>msg. check_lockout e t m r = Inl (AccountLockedError msg)"
    using assms(3) by (auto simp: check_lockout_def Let_def get py_simps split: if_splits)
qed

lemma bounded_step:
  assumes "guess_step e view m K T s s'" "bounded e view m K T s" "one_window (cfg e) T" "0 < MAX_LOGIN_ATTEMPTS (cfg e)"
  shows "bounded e view m K T s'"
  using assms(1)
proof cases
  case (check t n w g bad right)
  then have "int g < MAX_LOGIN_ATTEMPTS (cfg e)"
    using counts_check(1) [of "kv w" m T g t] assms(2,4) by (simp add: bounded_def)
  then show ?thesis using check assms(2) by (simp add: bounded_def)
next
  case (wrong t p w n g bad right dr q)
  then have "counts (view (kv (snd (finish_signin e t dr m p q w)))) (FAILED_LOGIN_PREFIX (cfg e) @ m) T (Suc g)"
    using counts_increment [of "kv w" m T g t] assms(2,3) finish_wrong [of e m p w t dr q] by (simp add: bounded_def)
  then show ?thesis using wrong assms(2) by (auto simp: bounded_def)
next
  case (right t p w n g bad right dr q)
  then have "counts (view (kv (snd (finish_signin e t dr m p q w)))) (FAILED_LOGIN_PREFIX (cfg e) @ m) T 0"
    using finish_right [of e m p w t dr q] by (simp add: counts_def)
  moreover have "int bad \<le> int (Suc right) * (MAX_LOGIN_ATTEMPTS (cfg e) + int K - 1)"
    using right(1) assms(2) by (auto simp: bounded_def algebra_simps)
  ultimately show ?thesis using right assms(2,4) by (simp add: bounded_def)
next
  case (other w' w n g bad right)
  then show ?thesis using assms(2) by (simp add: bounded_def counts_def)
qed

lemma bounded_run:
  "guess_run e view m K T s s' \<Longrightarrow> bounded e view m K T s \<Longrightarrow> one_window (cfg e) T \<Longrightarrow> 0 < MAX_LOGIN_ATTEMPTS (cfg e)
   \<Longrightarrow> bounded e view m K T s'"
  by (induction rule: rtranclp_induct) (auto intro: bounded_step)

end

text \<open>The bound is reached: all but one of the wrong passwords one after the other, then \<open>K\<close> sign ins at once.\<close>

lemma guess_checks:
  assumes "t \<in> T" "check_lockout e t m (kv w) = Inr ()"
  shows "n + k \<le> K \<Longrightarrow> guess_run e view m K T (w, n, g, bad, right) (w, n + k, g, bad, right)"
proof (induction k)
  case (Suc k)
  then have "guess_step e view m K T (w, n + k, g, bad, right) (w, n + Suc k, g, bad, right)"
    using guess_step.check [OF assms(1), of "n + k" K e m w view g bad right] assms(2) by simp
  with Suc show ?case by (simp add: rtranclp.rtrancl_into_rtrancl)
qed simp

fun finish_all :: "'r env \<Rightarrow> session_draws \<Rightarrow> string \<Rightarrow> string \<Rightarrow> time \<Rightarrow> nat \<Rightarrow> 'r world \<Rightarrow> 'r world" where
  "finish_all e dr m p t 0 w = w"
| "finish_all e dr m p t (Suc k) w = finish_all e dr m p t k (snd (finish_signin e t dr m p None w))"

lemma wrong_password_kept: "wrong_password e m p w \<Longrightarrow> wrong_password e m p (snd (finish_signin e t dr m p' None w)) = wrong_password e m p w"
  if "wrong_password e m p' w"
  using finish_wrong [OF that, of t dr None] by (simp add: wrong_password_def)

lemma guess_finishes:
  assumes "t \<in> T"
  shows "wrong_password e m p w \<Longrightarrow> guess_run e view m K T (w, n + k, g, bad, right) (finish_all e dr m p t k w, n, g + k, bad + k, right)"
proof (induction k arbitrary: w g bad)
  case (Suc k)
  let ?w = "snd (finish_signin e t dr m p None w)"
  have "guess_step e view m K T (w, n + Suc k, g, bad, right) (?w, n + k, Suc g, Suc bad, right)"
    using guess_step.wrong [OF assms Suc.prems] by simp
  moreover have "guess_run e view m K T (?w, n + k, Suc g, Suc bad, right) (finish_all e dr m p t k ?w, n, Suc g + k, Suc bad + k, right)"
    by (rule Suc.IH) (use wrong_password_kept [OF Suc.prems Suc.prems] Suc.prems in simp)
  ultimately show ?case by (simp add: converse_rtranclp_into_rtranclp)
qed simp

context token_stores
begin

lemma counts_finish_all:
  assumes "t \<in> T" "one_window (cfg e) T"
  shows "counts (view (kv w)) (FAILED_LOGIN_PREFIX (cfg e) @ m) T g \<Longrightarrow> wrong_password e m p w \<Longrightarrow>
    counts (view (kv (finish_all e dr m p t k w))) (FAILED_LOGIN_PREFIX (cfg e) @ m) T (g + k)
    \<and> wrong_password e m p (finish_all e dr m p t k w)"
proof (induction k arbitrary: w g)
  case (Suc k)
  let ?w = "snd (finish_signin e t dr m p None w)"
  have "counts (view (kv ?w)) (FAILED_LOGIN_PREFIX (cfg e) @ m) T (Suc g)"
    using counts_increment [OF Suc.prems(1) assms] finish_wrong [OF Suc.prems(2), of t dr None] by simp
  moreover have "wrong_password e m p ?w" using wrong_password_kept [OF Suc.prems(2,2)] Suc.prems(2) by simp
  ultimately show ?case using Suc.IH [of ?w "Suc g"] by simp
qed simp

lemma guess_sequence:
  assumes "t \<in> T" "one_window (cfg e) T" "0 < MAX_LOGIN_ATTEMPTS (cfg e)" "0 < K"
  shows "counts (view (kv w)) (FAILED_LOGIN_PREFIX (cfg e) @ m) T g \<Longrightarrow> wrong_password e m p w \<Longrightarrow>
    int (g + k) \<le> MAX_LOGIN_ATTEMPTS (cfg e) \<Longrightarrow> guess_run e view m K T (w, 0, g, bad, right) (finish_all e dr m p t k w, 0, g + k, bad + k, right)"
proof (induction k arbitrary: w g bad)
  case (Suc k)
  let ?w = "snd (finish_signin e t dr m p None w)"
  have "check_lockout e t m (kv w) = Inr ()"
    using counts_check(1) [OF Suc.prems(1) assms(1,3)] Suc.prems(3) by simp
  then have "guess_step e view m K T (w, 0, g, bad, right) (w, Suc 0, g, bad, right)" using guess_step.check assms(1,4) by metis
  moreover have "guess_step e view m K T (w, Suc 0, g, bad, right) (?w, 0, Suc g, Suc bad, right)"
    by (rule guess_step.wrong [OF assms(1) Suc.prems(2)])
  moreover have "guess_run e view m K T (?w, 0, Suc g, Suc bad, right) (finish_all e dr m p t k ?w, 0, Suc g + k, Suc bad + k, right)"
    using counts_finish_all [OF assms(1,2) Suc.prems(1,2), of dr 1] Suc.prems(3) by (intro Suc.IH) simp_all
  ultimately show ?case by (simp add: converse_rtranclp_into_rtranclp)
qed simp

lemma guesses_reached:
  assumes "t \<in> T" "one_window (cfg e) T" "0 < MAX_LOGIN_ATTEMPTS (cfg e)" "0 < K"
    and "counts (view (kv w)) (FAILED_LOGIN_PREFIX (cfg e) @ m) T 0" "wrong_password e m p w"
  shows "\<exists>w'. guess_run e view m K T (w, 0, 0, 0, 0) (w', 0, nat (MAX_LOGIN_ATTEMPTS (cfg e)) - 1 + K, nat (MAX_LOGIN_ATTEMPTS (cfg e)) - 1 + K, 0)"
proof -
  let ?k = "nat (MAX_LOGIN_ATTEMPTS (cfg e)) - 1"
  let ?w = "finish_all e undefined m p t ?k w"
  have w: "counts (view (kv ?w)) (FAILED_LOGIN_PREFIX (cfg e) @ m) T ?k" "wrong_password e m p ?w"
    using counts_finish_all [OF assms(1,2,5,6), of undefined ?k] by simp_all
  have "guess_run e view m K T (w, 0, 0, 0, 0) (?w, 0, ?k, ?k, 0)"
    using guess_sequence [OF assms(1-6), of ?k 0 0 undefined] assms(3) by simp
  also have "check_lockout e t m (kv ?w) = Inr ()" using counts_check(1) [OF w(1) assms(1,3)] assms(3) by simp
  then have "guess_run e view m K T (?w, 0, ?k, ?k, 0) (?w, 0 + K, ?k, ?k, 0)" by (rule guess_checks [OF assms(1)]) simp
  also have "guess_run e view m K T (?w, 0 + K, ?k, ?k, 0) (finish_all e undefined m p t K ?w, 0, ?k + K, ?k + K, 0)"
    by (rule guess_finishes [OF assms(1) w(2)])
  finally show ?thesis by blast
qed

end

text \<open>C6. Guessing passwords: in a window of the lockout, with at most \<open>K\<close> sign ins for the address under way at a time,
  fewer than the maximum plus \<open>K\<close> wrong passwords are tried from one right password to the next, and so, with \<open>r\<close> sign ins with the right
  password among them, at most \<open>r + 1\<close> times the maximum plus \<open>K\<close> less one in all, however the sign ins, right and wrong, interleave with
  each other and with requests that leave the counter alone.  Once the maximum is reached every new sign in is refused, also with
  the right password, and changes nothing.  The bound is reached: the check and the count are not one step, so a client that
  sends its sign ins at once tries as many passwords beyond the maximum.\<close>

theorem guesses_bounded:
  assumes "token_stores e view" "one_window (cfg e) T" "0 < MAX_LOGIN_ATTEMPTS (cfg e)"
    and "\<forall>t\<in>T. live t (view (kv w) (FAILED_LOGIN_PREFIX (cfg e) @ m)) = None"
  shows "(\<forall>w' n g bad right. guess_run e view m K T (w, 0, 0, 0, 0) (w', n, g, bad, right) \<longrightarrow>
      int g < MAX_LOGIN_ATTEMPTS (cfg e) + int K
      \<and> int bad \<le> (int right + 1) * (MAX_LOGIN_ATTEMPTS (cfg e) + int K - 1)
      \<and> (MAX_LOGIN_ATTEMPTS (cfg e) \<le> int g \<longrightarrow>
          (\<forall>t\<in>T. \<forall>p q dr. \<exists>msg. signin e t dr m p q w' = (Inl (AccountLockedError msg), w'))))
    \<and> (0 < K \<longrightarrow> T \<noteq> {} \<longrightarrow> wrong_password e m p w \<longrightarrow>
        (\<exists>w'. guess_run e view m K T (w, 0, 0, 0, 0)
          (w', 0, nat (MAX_LOGIN_ATTEMPTS (cfg e)) - 1 + K, nat (MAX_LOGIN_ATTEMPTS (cfg e)) - 1 + K, 0)))"
proof (intro conjI allI impI)
  have start: "bounded e view m K T (w, 0, 0, 0, 0)" using assms(3,4) by (simp add: bounded_def counts_def)
  fix w' n g bad right
  assume "guess_run e view m K T (w, 0, 0, 0, 0) (w', n, g, bad, right)"
  from token_stores.bounded_run [OF assms(1) this start assms(2,3)]
  have b: "counts (view (kv w')) (FAILED_LOGIN_PREFIX (cfg e) @ m) T g"
    "n \<le> K" "int g < MAX_LOGIN_ATTEMPTS (cfg e) \<or> int g + int n < MAX_LOGIN_ATTEMPTS (cfg e) + int K"
    "int bad \<le> int right * (MAX_LOGIN_ATTEMPTS (cfg e) + int K - 1) + int g"
    by (simp_all add: bounded_def)
  then show g: "int g < MAX_LOGIN_ATTEMPTS (cfg e) + int K" by auto
  then show "int bad \<le> (int right + 1) * (MAX_LOGIN_ATTEMPTS (cfg e) + int K - 1)" using b(4) by (simp add: algebra_simps)
  show "\<forall>t\<in>T. \<forall>p q dr. \<exists>msg. signin e t dr m p q w' = (Inl (AccountLockedError msg), w')"
    if "MAX_LOGIN_ATTEMPTS (cfg e) \<le> int g"
    using token_stores.counts_check(2) [OF assms(1) b(1) _ assms(3) that] signin_locked by blast
next
  assume "0 < K" "T \<noteq> {}" "wrong_password e m p w"
  moreover from this obtain t where "t \<in> T" by blast
  moreover have "counts (view (kv w)) (FAILED_LOGIN_PREFIX (cfg e) @ m) T 0" using assms(4) by (simp add: counts_def)
  ultimately show "\<exists>w'. guess_run e view m K T (w, 0, 0, 0, 0)
      (w', 0, nat (MAX_LOGIN_ATTEMPTS (cfg e)) - 1 + K, nat (MAX_LOGIN_ATTEMPTS (cfg e)) - 1 + K, 0)"
    using token_stores.guesses_reached [OF assms(1) _ assms(2,3)] by blast
qed

text \<open>Ten sign ins at once on the demo environment, whose maximum is five: fourteen wrong passwords.\<close>

theorem guesses_bounded_witness:
  "\<exists>w'. guess_run demo_env (\<lambda>r. r) ''ann@x.io'' 10 {0..10} (demo_world demo_db, 0, 0, 0, 0) (w', 0, 14, 14, 0)
    \<and> (\<exists>msg. signin demo_env 10 demo_draws ''ann@x.io'' ''Passw0rd!'' None w' = (Inl (AccountLockedError msg), w'))"
proof -
  have win: "one_window (cfg demo_env) {0..10}" by (simp add: one_window_def)
  have "wrong_password demo_env ''ann@x.io'' ''wrong'' (demo_world demo_db)"
    using demo_credentials(2) by (simp add: wrong_password_def user_by_email_def)
  then show ?thesis
    using guesses_bounded [OF token_stores_demo win, of "demo_world demo_db" "''ann@x.io''" 10 "''wrong''"] by fastforce
qed

section \<open>A counter without an expiry\<close>

text \<open>
  The increment and the expiry are two commands.  When the process stops between them, the counter has no expiry, and no
  later increment gives it one: once it reaches the maximum the address is locked for good.
\<close>

context token_stores
begin

lemma counted_for_ever:
  assumes "view r (FAILED_LOGIN_PREFIX (cfg e) @ i) = Some (py_str n, None)" "0 < n"
  shows "view (increments e i ts r) (FAILED_LOGIN_PREFIX (cfg e) @ i) = Some (py_str (n + int (length ts)), None)"
  using assms
proof (induction ts arbitrary: r n)
  case (Cons t ts)
  let ?k = "FAILED_LOGIN_PREFIX (cfg e) @ i"
  have "fst (rd_incr (redis e) r t ?k) = n + 1
      \<and> view (snd (rd_incr (redis e) r t ?k)) = (view r)(?k \<mapsto> (py_str (n + 1), None))"
    using incr_old [OF Cons.prems(1), of t n] Cons.prems by (simp add: py_simps)
  then have "view (snd (increment_failed_attempts e t i r)) ?k = Some (py_str (n + 1), None)"
    using Cons.prems(2) by (auto simp: increment_failed_attempts_def Let_def split: prod.split)
  from Cons.IH [OF this] Cons.prems(2) show ?case by (simp add: ac_simps)
qed simp

end

theorem lost_expiry_locks_for_ever:
  assumes "token_stores e view" "live t (view r (FAILED_LOGIN_PREFIX (cfg e) @ i)) = None"
    and "MAX_LOGIN_ATTEMPTS (cfg e) \<le> int (length ts) + 1"
  shows "\<exists>msg. check_lockout e now i (increments e i ts (snd (rd_incr (redis e) r t (FAILED_LOGIN_PREFIX (cfg e) @ i))))
    = Inl (AccountLockedError msg)"
proof -
  let ?r = "snd (rd_incr (redis e) r t (FAILED_LOGIN_PREFIX (cfg e) @ i))"
  have "view ?r (FAILED_LOGIN_PREFIX (cfg e) @ i) = Some (py_str 1, None)"
    using redis_contract.incr_new [OF token_stores.redis_law [OF assms(1)] assms(2)] by (simp add: py_str_1)
  from token_stores.counted_for_ever [OF assms(1) this]
  have "view (increments e i ts ?r) (FAILED_LOGIN_PREFIX (cfg e) @ i) = Some (py_str (1 + int (length ts)), None)" by simp
  then show ?thesis
    using assms(3) by (simp add: check_lockout_def Let_def token_stores.get_view [OF assms(1)] py_simps)
qed

end
