(* ===== verification/Open_Api.thy ===== *)
theory Open_Api
  imports Rate_Limits
begin

text \<open>
  The routes as their decorators declare them under \<open>app/routers/v1\<close>: method, path, status, response model,
  limit, gate, the parameters read from the request, and the documented responses with their examples.  The prose of
  \<open>summary\<close>, \<open>description\<close> and the response descriptions is left out.
\<close>

datatype http_method = GET | POST | PUT | PATCH | DELETE

text \<open>\<open>ErrorDoc\<close> is a response documented with the model \<open>ErrorResponse\<close>.\<close>

datatype response_doc = SuccessDoc "json option" | ErrorDoc "json option"

record route =
  rt_method :: http_method
  rt_path :: string
  rt_status :: nat
  rt_model :: "string option"
  rt_limit :: "nat option"
  rt_gate :: gate
  rt_params :: "string list"
  rt_responses :: "(nat \<times> response_doc) list"

section \<open>Health\<close>

definition route_health :: route where
  "route_health =
     \<lparr>rt_method = GET, rt_path = ''/health'', rt_status = 200, rt_model = None, rt_limit = None,
      rt_gate = Public, rt_params = [], rt_responses =
        []\<rparr>"

section \<open>Accounts and sessions\<close>

definition route_get_current_user_profile :: route where
  "route_get_current_user_profile =
     \<lparr>rt_method = GET, rt_path = ''/me'', rt_status = 200, rt_model = Some ''UserResponse'',
      rt_limit = Some 5, rt_gate = Organiser, rt_params = [], rt_responses =
        [(200, SuccessDoc None), (401, ErrorDoc None), (429, ErrorDoc None)]\<rparr>"

definition route_register :: route where
  "route_register =
     \<lparr>rt_method = POST, rt_path = ''/signup'', rt_status = 201, rt_model = Some ''UserResponse'',
      rt_limit = Some 10, rt_gate = Public, rt_params = [''payload''], rt_responses =
        [(201, SuccessDoc (Some (JObj [(''status'', JStr ''success''),
         (''message'', JStr ''Registration successful. Please check your email to verify your account.''), (''data'',
         JObj [(''id'', JStr ''123e4567-e89b-12d3-a456-426614174000''), (''name'', JStr ''Jane Doe''),
         (''email'', JStr ''jane@example.com''), (''is_email_verified'', JBool False), (''profile_photo_url'', JNull),
         (''created_at'', JStr ''2026-05-09T05:28:33Z''), (''updated_at'', JStr ''2026-05-09T05:28:33Z'')])]))),
         (409, ErrorDoc None), (422, ErrorDoc None), (429, ErrorDoc None)]\<rparr>"

definition route_resend_verification :: route where
  "route_resend_verification =
     \<lparr>rt_method = POST, rt_path = ''/resend-verification-email'', rt_status = 200, rt_model = Some ''None'',
      rt_limit = Some 3, rt_gate = Public, rt_params = [''payload''], rt_responses =
        [(200, SuccessDoc (Some (JObj [(''status'', JStr ''success''),
         (''message'', JStr ''If your email is registered and unverified, a new verification email has been sent.''),
         (''data'', JNull)]))), (400, ErrorDoc None), (422, ErrorDoc None), (429, ErrorDoc None)]\<rparr>"

definition route_reset_organizer_password :: route where
  "route_reset_organizer_password =
     \<lparr>rt_method = POST, rt_path = ''/reset-password'', rt_status = 200, rt_model = Some ''None'',
      rt_limit = Some 5, rt_gate = Public, rt_params = [''payload''], rt_responses =
        [(200, SuccessDoc None), (400, ErrorDoc None), (422, ErrorDoc None), (429, ErrorDoc None)]\<rparr>"

definition route_login :: route where
  "route_login =
     \<lparr>rt_method = POST, rt_path = ''/login'', rt_status = 200, rt_model = Some ''LoginResponse'',
      rt_limit = Some 10, rt_gate = Public, rt_params = [''payload''], rt_responses =
        [(200, SuccessDoc (Some (JObj [(''status'', JStr ''success''), (''message'', JStr ''Login successful''),
         (''data'', JObj [(''user'', JObj [(''id'', JStr ''123e4567-e89b-12d3-a456-426614174000''),
         (''name'', JStr ''Jane Doe''), (''email'', JStr ''jane@example.com''), (''is_email_verified'', JBool True),
         (''profile_photo_url'', JNull), (''created_at'', JStr ''2026-05-09T05:28:33Z''),
         (''updated_at'', JStr ''2026-05-09T05:28:33Z'')])])]))), (401, ErrorDoc None), (403, ErrorDoc None),
         (422, ErrorDoc None), (423, ErrorDoc None), (429, ErrorDoc None)]\<rparr>"

definition route_refresh :: route where
  "route_refresh =
     \<lparr>rt_method = POST, rt_path = ''/refresh'', rt_status = 200, rt_model = Some ''None'', rt_limit = Some 10,
      rt_gate = Public, rt_params = [], rt_responses =
        [(200, SuccessDoc (Some (JObj [(''status'', JStr ''success''), (''message'', JStr ''Token refreshed''),
         (''data'', JNull)]))), (401, ErrorDoc None), (429, ErrorDoc None)]\<rparr>"

definition route_logout :: route where
  "route_logout =
     \<lparr>rt_method = POST, rt_path = ''/logout'', rt_status = 204, rt_model = None, rt_limit = Some 10,
      rt_gate = Public, rt_params = [], rt_responses =
        [(204, SuccessDoc None), (429, ErrorDoc None)]\<rparr>"

definition route_forgot_password :: route where
  "route_forgot_password =
     \<lparr>rt_method = POST, rt_path = ''/forgot-password'', rt_status = 200, rt_model = Some ''None'',
      rt_limit = Some 3, rt_gate = Public, rt_params = [''payload''], rt_responses =
        [(200, SuccessDoc (Some (JObj [(''status'', JStr ''success''),
         (''message'', JStr ''If an account with that email exists, a password reset email has been sent.''),
         (''data'', JNull)]))), (422, ErrorDoc None), (429, ErrorDoc None)]\<rparr>"

definition route_verify_email :: route where
  "route_verify_email =
     \<lparr>rt_method = POST, rt_path = ''/verify-email'', rt_status = 200, rt_model = Some ''dict[str, Any]'',
      rt_limit = Some 10, rt_gate = Public, rt_params = [''payload''], rt_responses =
        [(200, SuccessDoc None), (400, ErrorDoc None), (401, ErrorDoc None), (429, ErrorDoc None)]\<rparr>"

definition route_google_login :: route where
  "route_google_login =
     \<lparr>rt_method = GET, rt_path = ''/google'', rt_status = 307, rt_model = None, rt_limit = Some 10,
      rt_gate = Public, rt_params = [], rt_responses =
        [(307, SuccessDoc None)]\<rparr>"

definition route_google_callback :: route where
  "route_google_callback =
     \<lparr>rt_method = GET, rt_path = ''/google/callback'', rt_status = 307, rt_model = None, rt_limit = Some 10,
      rt_gate = Public, rt_params = [''code'', ''state''], rt_responses =
        [(307, SuccessDoc None)]\<rparr>"

definition route_list_sessions :: route where
  "route_list_sessions =
     \<lparr>rt_method = GET, rt_path = ''/sessions'', rt_status = 200, rt_model = Some ''SessionListResponse'',
      rt_limit = Some 10, rt_gate = Organiser, rt_params = [''page'', ''limit''], rt_responses =
        [(200, SuccessDoc None), (401, ErrorDoc None), (429, ErrorDoc None)]\<rparr>"

definition route_logout_all :: route where
  "route_logout_all =
     \<lparr>rt_method = POST, rt_path = ''/logout/all'', rt_status = 200, rt_model = Some ''LogoutAllResponse'',
      rt_limit = Some 5, rt_gate = Organiser, rt_params = [], rt_responses =
        [(200, SuccessDoc None), (401, ErrorDoc None), (429, ErrorDoc None)]\<rparr>"

section \<open>Profile\<close>

definition route_get_profile :: route where
  "route_get_profile =
     \<lparr>rt_method = GET, rt_path = '''', rt_status = 200, rt_model = Some ''UserResponse'', rt_limit = Some 10,
      rt_gate = Organiser, rt_params = [], rt_responses =
        [(200, SuccessDoc None), (401, ErrorDoc None), (429, ErrorDoc None)]\<rparr>"

definition route_update_user_profile :: route where
  "route_update_user_profile =
     \<lparr>rt_method = PUT, rt_path = '''', rt_status = 200, rt_model = Some ''UserResponse'', rt_limit = Some 5,
      rt_gate = Organiser, rt_params = [''payload''], rt_responses =
        [(200, SuccessDoc None), (400, ErrorDoc None), (401, ErrorDoc None), (422, ErrorDoc None),
         (429, ErrorDoc None)]\<rparr>"

definition route_delete_user_profile :: route where
  "route_delete_user_profile =
     \<lparr>rt_method = DELETE, rt_path = '''', rt_status = 200, rt_model = Some ''DeleteProfileResponse'',
      rt_limit = Some 5, rt_gate = Organiser, rt_params = [], rt_responses =
        [(200, SuccessDoc None), (401, ErrorDoc None), (429, ErrorDoc None)]\<rparr>"

definition route_upload_profile_photo_endpoint :: route where
  "route_upload_profile_photo_endpoint =
     \<lparr>rt_method = PUT, rt_path = ''/photo'', rt_status = 200, rt_model = Some ''UserResponse'',
      rt_limit = Some 10, rt_gate = Organiser, rt_params = [''file''], rt_responses =
        [(200, SuccessDoc None), (400, ErrorDoc None), (401, ErrorDoc None), (422, ErrorDoc None),
         (429, ErrorDoc None)]\<rparr>"

definition route_remove_profile_photo_endpoint :: route where
  "route_remove_profile_photo_endpoint =
     \<lparr>rt_method = DELETE, rt_path = ''/photo'', rt_status = 200, rt_model = Some ''UserResponse'',
      rt_limit = Some 10, rt_gate = Organiser, rt_params = [], rt_responses =
        [(200, SuccessDoc None), (401, ErrorDoc None), (429, ErrorDoc None)]\<rparr>"

definition route_change_user_password :: route where
  "route_change_user_password =
     \<lparr>rt_method = PUT, rt_path = ''/password/change'', rt_status = 200, rt_model = Some ''None'',
      rt_limit = Some 5, rt_gate = Organiser, rt_params = [''payload''], rt_responses =
        [(200, SuccessDoc None), (401, ErrorDoc None), (422, ErrorDoc None), (429, ErrorDoc None)]\<rparr>"

section \<open>Contact\<close>

definition route_list_contact_subjects :: route where
  "route_list_contact_subjects =
     \<lparr>rt_method = GET, rt_path = ''/subjects'', rt_status = 200, rt_model = Some
      ''list[ContactSubjectOption]'', rt_limit = Some 30, rt_gate = Public, rt_params = [], rt_responses =
        [(200, SuccessDoc (Some (JObj [(''status'', JStr ''success''),
         (''message'', JStr ''Contact subject options retrieved successfully''), (''data'',
         JList [JObj [(''value'', JStr ''general''), (''label'', JStr ''General Question'')],
         JObj [(''value'', JStr ''partnership''), (''label'', JStr ''Partnership Idea'')],
         JObj [(''value'', JStr ''bug_report''), (''label'', JStr ''Bug Report'')],
         JObj [(''value'', JStr ''feedback''), (''label'', JStr ''Feedback'')], JObj [(''value'', JStr ''billing''),
         (''label'', JStr ''Billing'')], JObj [(''value'', JStr ''other''), (''label'', JStr ''Other'')]])]))),
         (429, ErrorDoc None)]\<rparr>"

definition route_contact_us :: route where
  "route_contact_us =
     \<lparr>rt_method = POST, rt_path = '''', rt_status = 201, rt_model = Some ''ContactResponse'',
      rt_limit = Some 5, rt_gate = Public, rt_params = [''payload''], rt_responses =
        [(201, SuccessDoc (Some (JObj [(''status'', JStr ''success''),
         (''message'', JStr ''Thanks for reaching out! We'll get back to you within one business day.''), (''data'',
         JObj [(''reference_id'', JStr ''CONTACT-2026-A1B2C3''), (''email'', JStr ''alex@yourcompany.com'')])]))),
         (422, ErrorDoc None), (429, ErrorDoc None), (502, ErrorDoc None)]\<rparr>"

section \<open>Newsletter\<close>

definition route_subscribe_to_newsletter :: route where
  "route_subscribe_to_newsletter =
     \<lparr>rt_method = POST, rt_path = ''/subscribe'', rt_status = 200, rt_model = Some
      ''NewsletterSubscribeResponse'', rt_limit = Some 5, rt_gate = Public, rt_params = [''payload''], rt_responses =
        [(200, SuccessDoc None), (422, ErrorDoc None), (429, ErrorDoc None)]\<rparr>"

definition route_unsubscribe_from_newsletter :: route where
  "route_unsubscribe_from_newsletter =
     \<lparr>rt_method = POST, rt_path = ''/unsubscribe'', rt_status = 200, rt_model = Some ''None'',
      rt_limit = Some 5, rt_gate = Public, rt_params = [''payload''], rt_responses =
        [(200, SuccessDoc None), (404, ErrorDoc None), (422, ErrorDoc None), (429, ErrorDoc None)]\<rparr>"

section \<open>Notifications\<close>

definition route_get_preferences :: route where
  "route_get_preferences =
     \<lparr>rt_method = GET, rt_path = '''', rt_status = 200, rt_model = Some ''NotificationPreferencesResponse'',
      rt_limit = Some 30, rt_gate = Organiser, rt_params = [], rt_responses =
        [(200, SuccessDoc None), (401, ErrorDoc None), (429, ErrorDoc None)]\<rparr>"

definition route_patch_preferences :: route where
  "route_patch_preferences =
     \<lparr>rt_method = PATCH, rt_path = '''', rt_status = 200, rt_model = Some ''NotificationPreferencesResponse'',
      rt_limit = Some 30, rt_gate = Organiser, rt_params = [''payload''], rt_responses =
        [(200, SuccessDoc None), (400, ErrorDoc None), (401, ErrorDoc None), (429, ErrorDoc None)]\<rparr>"

definition route_list_user_notifications :: route where
  "route_list_user_notifications =
     \<lparr>rt_method = GET, rt_path = ''/list'', rt_status = 200, rt_model = Some ''NotificationListResponse'',
      rt_limit = Some 60, rt_gate = Organiser, rt_params = [''page'', ''limit''], rt_responses =
        [(200, SuccessDoc None), (401, ErrorDoc None), (429, ErrorDoc None)]\<rparr>"

definition route_get_unread_notifications_count :: route where
  "route_get_unread_notifications_count =
     \<lparr>rt_method = GET, rt_path = ''/unread-count'', rt_status = 200, rt_model = Some ''UnreadCountResponse'',
      rt_limit = Some 120, rt_gate = Organiser, rt_params = [], rt_responses =
        [(200, SuccessDoc None), (401, ErrorDoc None), (429, ErrorDoc None)]\<rparr>"

definition route_mark_one_read :: route where
  "route_mark_one_read =
     \<lparr>rt_method = POST, rt_path = ''/{notification_id}/mark-read'', rt_status = 200, rt_model = Some ''None'',
      rt_limit = Some 60, rt_gate = Organiser, rt_params = [''notification_id''], rt_responses =
        [(200, SuccessDoc None), (401, ErrorDoc None), (404, ErrorDoc None), (429, ErrorDoc None)]\<rparr>"

definition route_mark_all_read :: route where
  "route_mark_all_read =
     \<lparr>rt_method = POST, rt_path = ''/mark-all-read'', rt_status = 200, rt_model = Some
      ''MarkAllReadResponse'', rt_limit = Some 30, rt_gate = Organiser, rt_params = [], rt_responses =
        [(200, SuccessDoc None), (401, ErrorDoc None), (429, ErrorDoc None)]\<rparr>"

section \<open>The gallery\<close>

definition route_list_templates :: route where
  "route_list_templates =
     \<lparr>rt_method = GET, rt_path = '''', rt_status = 200, rt_model = Some ''PlatformTemplateListResponse'',
      rt_limit = Some 60, rt_gate = Public, rt_params = [''category'', ''page'', ''limit''], rt_responses =
        [(200, SuccessDoc (Some (JObj [(''status'', JStr ''success''),
         (''message'', JStr ''Platform templates retrieved successfully.''), (''data'', JObj [(''templates'',
         JList [JObj [(''id'', JStr ''019e1b66-c4ec-7b80-8c85-84c2fe4f9c84''), (''title'', JStr ''Achieveher''),
         (''category'', JStr ''festivals''), (''thumbnail_url'', JNull), (''canvas_data'',
         JObj [(''layout_id'', JStr ''photo_gradient_v1'')]), (''is_active'', JBool True),
         (''created_at'', JStr ''2026-05-18T12:00:00Z'')]]), (''total'', JInt 1), (''page'', JInt 1),
         (''limit'', JInt 10), (''prev'', JNull), (''next'', JNull)])]))), (400, ErrorDoc None), (422, ErrorDoc None),
         (429, ErrorDoc None)]\<rparr>"

definition route_get_template_page :: route where
  "route_get_template_page =
     \<lparr>rt_method = GET, rt_path = ''/{id}'', rt_status = 200, rt_model = Some ''PlatformTemplateResponse'',
      rt_limit = Some 60, rt_gate = Public, rt_params = [''id''], rt_responses =
        [(200, SuccessDoc None), (404, ErrorDoc None), (422, ErrorDoc None), (429, ErrorDoc None)]\<rparr>"

section \<open>Administration\<close>

definition route_create_template :: route where
  "route_create_template =
     \<lparr>rt_method = POST, rt_path = ''/platform-templates'', rt_status = 201, rt_model = Some
      ''admin.PlatformTemplateResponse'', rt_limit = Some 30, rt_gate = Administrator, rt_params = [''payload''],
      rt_responses =
        [(201, SuccessDoc None), (429, ErrorDoc (Some (JObj [(''status'', JStr ''error''),
         (''message'', JStr ''Rate limit exceeded.'')])))]\<rparr>"

definition route_update_template :: route where
  "route_update_template =
     \<lparr>rt_method = PATCH, rt_path = ''/platform-templates/{template_id}'', rt_status = 200, rt_model = Some
      ''admin.PlatformTemplateResponse'', rt_limit = Some 30, rt_gate = Administrator, rt_params = [''template_id'',
      ''payload''], rt_responses =
        [(200, SuccessDoc None), (404, ErrorDoc (Some (JObj [(''status'', JStr ''error''),
         (''message'', JStr ''Platform template not found.'')]))), (429, ErrorDoc (Some
         (JObj [(''status'', JStr ''error''), (''message'', JStr ''Rate limit exceeded.'')])))]\<rparr>"

definition route_delete_template :: route where
  "route_delete_template =
     \<lparr>rt_method = DELETE, rt_path = ''/platform-templates/{template_id}'', rt_status = 200, rt_model = Some
      ''None'', rt_limit = Some 30, rt_gate = Administrator, rt_params = [''template_id''], rt_responses =
        [(200, SuccessDoc None), (404, ErrorDoc (Some (JObj [(''status'', JStr ''error''),
         (''message'', JStr ''Platform template not found.'')]))), (429, ErrorDoc (Some
         (JObj [(''status'', JStr ''error''), (''message'', JStr ''Rate limit exceeded.'')])))]\<rparr>"

definition route_admin_list_templates :: route where
  "route_admin_list_templates =
     \<lparr>rt_method = GET, rt_path = ''/platform-templates'', rt_status = 200, rt_model = Some
      ''list[admin.PlatformTemplateResponse]'', rt_limit = Some 30, rt_gate = Administrator,
      rt_params = [''category'', ''limit'', ''offset''], rt_responses =
        []\<rparr>"

definition route_admin_get_template :: route where
  "route_admin_get_template =
     \<lparr>rt_method = GET, rt_path = ''/platform-templates/{template_id}'', rt_status = 200, rt_model = Some
      ''admin.PlatformTemplateResponse'', rt_limit = Some 30, rt_gate = Administrator, rt_params = [''template_id''],
      rt_responses =
        [(404, ErrorDoc (Some (JObj [(''status'', JStr ''error''),
         (''message'', JStr ''Platform template not found.'')])))]\<rparr>"

section \<open>Badges\<close>

definition route_create_instance :: route where
  "route_create_instance =
     \<lparr>rt_method = POST, rt_path = '''', rt_status = 201, rt_model = Some ''CreateBadgeResponse'',
      rt_limit = Some 30, rt_gate = Organiser, rt_params = [''payload''], rt_responses =
        [(201, SuccessDoc (Some (JObj [(''status'', JStr ''success''),
         (''message'', JStr ''Badge created successfully.''), (''data'',
         JObj [(''id'', JStr ''019e1b66-c4ec-7b80-8c85-84c2fe4f9c84''),
         (''platform_template_id'', JStr ''019e1b66-c4ec-7b80-8c85-84c2fe4f9c00''),
         (''organiser_id'', JStr ''019e1b66-c4ec-7b80-8c85-84c2fe4f9c11''),
         (''created_at'', JStr ''2026-05-12T09:30:00Z'')])]))), (400, ErrorDoc None), (401, ErrorDoc None),
         (404, ErrorDoc None), (422, ErrorDoc None), (429, ErrorDoc None)]\<rparr>"

definition route_list_instances :: route where
  "route_list_instances =
     \<lparr>rt_method = GET, rt_path = '''', rt_status = 200, rt_model = Some ''BadgeListResponse'',
      rt_limit = Some 60, rt_gate = Organiser, rt_params = [''page'', ''limit''], rt_responses =
        [(200, SuccessDoc (Some (JObj [(''status'', JStr ''success''),
         (''message'', JStr ''Badges retrieved successfully.''), (''data'', JObj [(''badges'',
         JList [JObj [(''id'', JStr ''019e1b66-c4...fe4f9c84''), (''title'', JStr ''HNG Tech Fest 2026''),
         (''platform_template_id'', JStr ''019e1b66-c4...fe4f9c00''), (''thumbnail_url'', JNull),
         (''is_published'', JBool True), (''access_type'', JInt 0), (''access_code'', JNull),
         (''status'', JStr ''published''), (''share_slug'', JStr ''abcdef123456''),
         (''published_at'', JStr ''2026-05-20T10:00:00Z''), (''created_at'', JStr ''2026-05-18T09:00:00Z''),
         (''updated_at'', JStr ''2026-05-20T10:00:00Z''), (''total_shares'', JInt 42),
         (''total_badges_created'', JInt 7)]]), (''total'', JInt 1), (''page'', JInt 1), (''limit'', JInt 20),
         (''prev'', JNull), (''next'', JNull)])]))), (401, ErrorDoc None), (429, ErrorDoc None)]\<rparr>"

definition route_get_analytics :: route where
  "route_get_analytics =
     \<lparr>rt_method = GET, rt_path = ''/analytics'', rt_status = 200, rt_model = Some ''BadgeAnalyticsResponse'',
      rt_limit = Some 60, rt_gate = Organiser, rt_params = [], rt_responses =
        [(200, SuccessDoc (Some (JObj [(''status'', JStr ''success''),
         (''message'', JStr ''Analytics retrieved successfully.''), (''data'',
         JObj [(''total_organiser_badges'', JInt 4), (''total_active_badges'', JInt 2),
         (''total_draft_badges'', JInt 2), (''total_shares'', JInt 87), (''total_badges_created'', JInt 152),
         (''platform_template_usage'',
         JList [JObj [(''platform_template_id'', JStr ''019e1b66-c4ec-7b80-8c85-84c2fe4f9c00''), (''count'', JInt 3)],
         JObj [(''platform_template_id'', JStr ''019e1b66-c4ec-7b80-8c85-84c2fe4f9c11''),
         (''count'', JInt 1)]])])]))), (401, ErrorDoc None), (429, ErrorDoc None)]\<rparr>"

definition route_get_single_badge :: route where
  "route_get_single_badge =
     \<lparr>rt_method = GET, rt_path = ''/{id}'', rt_status = 200, rt_model = Some ''BadgeDetailResponse'',
      rt_limit = Some 60, rt_gate = Organiser, rt_params = [''id''], rt_responses =
        [(200, SuccessDoc None), (401, ErrorDoc None), (403, ErrorDoc None), (404, ErrorDoc None),
         (429, ErrorDoc None)]\<rparr>"

definition route_publish :: route where
  "route_publish =
     \<lparr>rt_method = POST, rt_path = ''/{id}/publish'', rt_status = 200, rt_model = Some
      ''PublishedBadgeResponse'', rt_limit = Some 30, rt_gate = Organiser, rt_params = [''id''], rt_responses =
        [(200, SuccessDoc None), (401, ErrorDoc None), (403, ErrorDoc None), (404, ErrorDoc None),
         (409, ErrorDoc None), (429, ErrorDoc None)]\<rparr>"

definition route_unpublish :: route where
  "route_unpublish =
     \<lparr>rt_method = POST, rt_path = ''/{id}/unpublish'', rt_status = 200, rt_model = Some
      ''PublishedBadgeResponse'', rt_limit = Some 30, rt_gate = Organiser, rt_params = [''id''], rt_responses =
        [(200, SuccessDoc None), (401, ErrorDoc None), (403, ErrorDoc None), (404, ErrorDoc None),
         (429, ErrorDoc None)]\<rparr>"

definition route_duplicate :: route where
  "route_duplicate =
     \<lparr>rt_method = POST, rt_path = ''/{id}/duplicate'', rt_status = 201, rt_model = Some
      ''DuplicateBadgeResponse'', rt_limit = Some 30, rt_gate = Organiser, rt_params = [''id''], rt_responses =
        [(201, SuccessDoc None), (401, ErrorDoc None), (403, ErrorDoc None), (404, ErrorDoc None),
         (429, ErrorDoc None)]\<rparr>"

definition route_remove_badge :: route where
  "route_remove_badge =
     \<lparr>rt_method = DELETE, rt_path = ''/{id}'', rt_status = 204, rt_model = None, rt_limit = Some 30,
      rt_gate = Organiser, rt_params = [''id''], rt_responses =
        [(204, SuccessDoc None), (401, ErrorDoc None), (403, ErrorDoc None), (404, ErrorDoc None),
         (429, ErrorDoc None)]\<rparr>"

definition route_update_badge :: route where
  "route_update_badge =
     \<lparr>rt_method = PATCH, rt_path = ''/{id}'', rt_status = 200, rt_model = Some ''BadgeDetailResponse'',
      rt_limit = Some 30, rt_gate = Organiser, rt_params = [''id'', ''payload''], rt_responses =
        [(200, SuccessDoc None), (401, ErrorDoc None), (403, ErrorDoc None), (404, ErrorDoc None),
         (422, ErrorDoc None), (429, ErrorDoc None)]\<rparr>"

definition route_upload_logo :: route where
  "route_upload_logo =
     \<lparr>rt_method = PUT, rt_path = ''/{id}/logo'', rt_status = 200, rt_model = Some ''LogoUploadResponse'',
      rt_limit = Some 10, rt_gate = Organiser, rt_params = [''id'', ''file''], rt_responses =
        [(200, SuccessDoc (Some (JObj [(''status'', JStr ''success''),
         (''message'', JStr ''Logo uploaded successfully.''), (''data'',
         JObj [(''logo_url'', JStr ''https://res.cloudinary.com/demo/image/upload/badge-logos/abc.png'')])]))),
         (401, ErrorDoc None), (403, ErrorDoc None), (404, ErrorDoc None), (413, ErrorDoc None), (415, ErrorDoc None),
         (429, ErrorDoc None)]\<rparr>"

definition route_get_participant_page :: route where
  "route_get_participant_page =
     \<lparr>rt_method = GET, rt_path = ''/public/{slug}'', rt_status = 200, rt_model = Some
      ''PublicBadgePageResponse'', rt_limit = Some 60, rt_gate = Public, rt_params = [''slug'', ''access_code''],
      rt_responses =
        [(200, SuccessDoc (Some (JObj [(''status'', JStr ''success''),
         (''message'', JStr ''Badge data retrieved successfully.''), (''data'',
         JObj [(''title'', JStr ''HNG Tech Fest 2026''), (''canvas_data'', JObj [(''layout'', JStr ''bold-v1'')]),
         (''logo_url'', JStr ''https://res.cloudinary.com/demo/image/upload/badge-logos/abc.png''),
         (''default_caption'', JStr ''I'm attending HNG Tech Fest 2026!''),
         (''destination_link'', JStr ''https://techfest.example.com''), (''hashtags'', JList [JStr ''#HNGTechFest'',
         JStr ''#2026''])])]))), (401, ErrorDoc None), (403, ErrorDoc None), (404, ErrorDoc None),
         (429, ErrorDoc None)]\<rparr>"

definition route_increment_creation :: route where
  "route_increment_creation =
     \<lparr>rt_method = POST, rt_path = ''/public/{slug}/increment-creation'', rt_status = 200, rt_model = Some
      ''None'', rt_limit = Some 60, rt_gate = Public, rt_params = [''slug''], rt_responses =
        [(200, SuccessDoc None), (404, ErrorDoc None), (429, ErrorDoc None)]\<rparr>"

definition route_increment_share :: route where
  "route_increment_share =
     \<lparr>rt_method = POST, rt_path = ''/public/{slug}/increment-share'', rt_status = 200, rt_model = Some
      ''None'', rt_limit = Some 60, rt_gate = Public, rt_params = [''slug''], rt_responses =
        [(200, SuccessDoc None), (404, ErrorDoc None), (429, ErrorDoc None)]\<rparr>"

section \<open>The routers and the application\<close>

definition health_router :: "route list" where
  "health_router = [route_health]"

definition auth_router :: "route list" where
  "auth_router = [route_get_current_user_profile, route_register, route_resend_verification, route_reset_organizer_password,
    route_login, route_refresh, route_logout, route_forgot_password, route_verify_email, route_google_login,
    route_google_callback, route_list_sessions, route_logout_all]"

definition profile_router :: "route list" where
  "profile_router = [route_get_profile, route_update_user_profile, route_delete_user_profile, route_upload_profile_photo_endpoint,
    route_remove_profile_photo_endpoint, route_change_user_password]"

definition contact_router :: "route list" where
  "contact_router = [route_list_contact_subjects, route_contact_us]"

definition newsletter_router :: "route list" where
  "newsletter_router = [route_subscribe_to_newsletter, route_unsubscribe_from_newsletter]"

definition notifications_router :: "route list" where
  "notifications_router = [route_get_preferences, route_patch_preferences, route_list_user_notifications,
    route_get_unread_notifications_count, route_mark_one_read, route_mark_all_read]"

definition platform_templates_router :: "route list" where
  "platform_templates_router = [route_list_templates, route_get_template_page]"

definition admin_router :: "route list" where
  "admin_router = [route_create_template, route_update_template, route_delete_template, route_admin_list_templates,
    route_admin_get_template]"

definition badges_router :: "route list" where
  "badges_router = [route_create_instance, route_list_instances, route_get_analytics, route_get_single_badge, route_publish,
    route_unpublish, route_duplicate, route_remove_badge, route_update_badge, route_upload_logo,
    route_get_participant_page, route_increment_creation, route_increment_share]"

definition mounted :: "string \<Rightarrow> route \<Rightarrow> route" where
  "mounted pre r = r\<lparr>rt_path := pre @ rt_path r\<rparr>"

definition include_router :: "string \<Rightarrow> route list \<Rightarrow> route list" where
  "include_router pre rs = map (mounted pre) rs"

text \<open>\<open>app/routers/v1/__init__.py\<close> and the inclusion in \<open>main.py\<close>.\<close>

definition api_router :: "route list" where
  "api_router = include_router [] health_router @ include_router ''/auth'' auth_router
     @ include_router ''/profile'' profile_router @ include_router ''/contact'' contact_router
     @ include_router ''/newsletter'' newsletter_router
     @ include_router ''/organiser/notifications'' notifications_router
     @ include_router ''/templates/platform'' platform_templates_router
     @ include_router ''/admin'' admin_router @ include_router ''/badges'' badges_router"

definition app_routes :: "settings \<Rightarrow> route list" where
  "app_routes s = include_router (API_V1_PREFIX s) api_router"

section \<open>Calls and their routes\<close>

primrec route_of :: "api_call \<Rightarrow> route" where
  "route_of Health = route_health"
| "route_of Me = route_get_current_user_profile"
| "route_of (Register a b) = route_register"
| "route_of (ResendVerification a b) = route_resend_verification"
| "route_of (ResetPassword a b c d) = route_reset_organizer_password"
| "route_of (Login a b c) = route_login"
| "route_of (Refresh a) = route_refresh"
| "route_of Logout = route_logout"
| "route_of (ForgotPassword a b) = route_forgot_password"
| "route_of (VerifyEmail a b) = route_verify_email"
| "route_of (GoogleLogin a) = route_google_login"
| "route_of (GoogleCallback a b c d e) = route_google_callback"
| "route_of (ListSessions a b) = route_list_sessions"
| "route_of LogoutAll = route_logout_all"
| "route_of GetProfile = route_get_profile"
| "route_of (UpdateProfile a) = route_update_user_profile"
| "route_of DeleteProfile = route_delete_user_profile"
| "route_of (UploadPhoto a b) = route_upload_profile_photo_endpoint"
| "route_of RemovePhoto = route_remove_profile_photo_endpoint"
| "route_of (ChangePassword a b) = route_change_user_password"
| "route_of GetPreferences = route_get_preferences"
| "route_of (PatchPreferences a b) = route_patch_preferences"
| "route_of (ListNotifications a b) = route_list_user_notifications"
| "route_of UnreadNotifications = route_get_unread_notifications_count"
| "route_of (MarkOneRead a) = route_mark_one_read"
| "route_of MarkAllRead = route_mark_all_read"
| "route_of (CreateInstance a b) = route_create_instance"
| "route_of (ListInstances a b) = route_list_instances"
| "route_of GetAnalytics = route_get_analytics"
| "route_of (GetBadge a) = route_get_single_badge"
| "route_of (Publish a b) = route_publish"
| "route_of (Unpublish a) = route_unpublish"
| "route_of (Duplicate a b c) = route_duplicate"
| "route_of (RemoveBadge a) = route_remove_badge"
| "route_of (UpdateBadge a b c d) = route_update_badge"
| "route_of (UploadLogo a b c d) = route_upload_logo"
| "route_of (ParticipantPage a b) = route_get_participant_page"
| "route_of (IncrementCreation a b) = route_increment_creation"
| "route_of (IncrementShare a) = route_increment_share"
| "route_of (ListGallery a b c) = route_list_templates"
| "route_of (GetGalleryTemplate a) = route_get_template_page"
| "route_of (Subscribe a b c) = route_subscribe_to_newsletter"
| "route_of (Unsubscribe a) = route_unsubscribe_from_newsletter"
| "route_of ContactSubjects = route_list_contact_subjects"
| "route_of (ContactUs a b) = route_contact_us"
| "route_of (CreateTemplate a b) = route_create_template"
| "route_of (UpdateTemplate a b) = route_update_template"
| "route_of (DeleteTemplate a) = route_delete_template"
| "route_of (AdminListTemplates a b c) = route_admin_list_templates"
| "route_of (AdminGetTemplate a) = route_admin_get_template"

text \<open>The path a client sends for a call, in segments below the prefix of the API.\<close>

primrec url_segments :: "api_call \<Rightarrow> string list" where
  "url_segments Health = [''health'']"
| "url_segments Me = [''auth'', ''me'']"
| "url_segments (Register a b) = [''auth'', ''signup'']"
| "url_segments (ResendVerification a b) = [''auth'', ''resend-verification-email'']"
| "url_segments (ResetPassword a b c d) = [''auth'', ''reset-password'']"
| "url_segments (Login a b c) = [''auth'', ''login'']"
| "url_segments (Refresh a) = [''auth'', ''refresh'']"
| "url_segments Logout = [''auth'', ''logout'']"
| "url_segments (ForgotPassword a b) = [''auth'', ''forgot-password'']"
| "url_segments (VerifyEmail a b) = [''auth'', ''verify-email'']"
| "url_segments (GoogleLogin a) = [''auth'', ''google'']"
| "url_segments (GoogleCallback a b c d e) = [''auth'', ''google'', ''callback'']"
| "url_segments (ListSessions a b) = [''auth'', ''sessions'']"
| "url_segments LogoutAll = [''auth'', ''logout'', ''all'']"
| "url_segments GetProfile = [''profile'']"
| "url_segments (UpdateProfile a) = [''profile'']"
| "url_segments DeleteProfile = [''profile'']"
| "url_segments (UploadPhoto a b) = [''profile'', ''photo'']"
| "url_segments RemovePhoto = [''profile'', ''photo'']"
| "url_segments (ChangePassword a b) = [''profile'', ''password'', ''change'']"
| "url_segments GetPreferences = [''organiser'', ''notifications'']"
| "url_segments (PatchPreferences a b) = [''organiser'', ''notifications'']"
| "url_segments (ListNotifications a b) = [''organiser'', ''notifications'', ''list'']"
| "url_segments UnreadNotifications = [''organiser'', ''notifications'', ''unread-count'']"
| "url_segments (MarkOneRead a) = [''organiser'', ''notifications'', uuid_str a, ''mark-read'']"
| "url_segments MarkAllRead = [''organiser'', ''notifications'', ''mark-all-read'']"
| "url_segments (CreateInstance a b) = [''badges'']"
| "url_segments (ListInstances a b) = [''badges'']"
| "url_segments GetAnalytics = [''badges'', ''analytics'']"
| "url_segments (GetBadge a) = [''badges'', uuid_str a]"
| "url_segments (Publish a b) = [''badges'', uuid_str b, ''publish'']"
| "url_segments (Unpublish a) = [''badges'', uuid_str a, ''unpublish'']"
| "url_segments (Duplicate a b c) = [''badges'', uuid_str c, ''duplicate'']"
| "url_segments (RemoveBadge a) = [''badges'', uuid_str a]"
| "url_segments (UpdateBadge a b c d) = [''badges'', uuid_str b]"
| "url_segments (UploadLogo a b c d) = [''badges'', uuid_str b, ''logo'']"
| "url_segments (ParticipantPage a b) = [''badges'', ''public'', a]"
| "url_segments (IncrementCreation a b) = [''badges'', ''public'', b, ''increment-creation'']"
| "url_segments (IncrementShare a) = [''badges'', ''public'', a, ''increment-share'']"
| "url_segments (ListGallery a b c) = [''templates'', ''platform'']"
| "url_segments (GetGalleryTemplate a) = [''templates'', ''platform'', uuid_str a]"
| "url_segments (Subscribe a b c) = [''newsletter'', ''subscribe'']"
| "url_segments (Unsubscribe a) = [''newsletter'', ''unsubscribe'']"
| "url_segments ContactSubjects = [''contact'', ''subjects'']"
| "url_segments (ContactUs a b) = [''contact'']"
| "url_segments (CreateTemplate a b) = [''admin'', ''platform-templates'']"
| "url_segments (UpdateTemplate a b) = [''admin'', ''platform-templates'', uuid_str a]"
| "url_segments (DeleteTemplate a) = [''admin'', ''platform-templates'', uuid_str a]"
| "url_segments (AdminListTemplates a b c) = [''admin'', ''platform-templates'']"
| "url_segments (AdminGetTemplate a) = [''admin'', ''platform-templates'', uuid_str a]"

definition url_of :: "settings \<Rightarrow> api_call \<Rightarrow> string" where
  "url_of s c = API_V1_PREFIX s @ concat (map (\<lambda>w. CHR ''/'' # w) (url_segments c))"

text \<open>The decorators declare the gates and the limits of the interface.\<close>

lemmas route_defs =
  route_health_def route_get_current_user_profile_def route_register_def route_resend_verification_def
  route_reset_organizer_password_def route_login_def route_refresh_def route_logout_def route_forgot_password_def
  route_verify_email_def route_google_login_def route_google_callback_def route_list_sessions_def
  route_logout_all_def route_get_profile_def route_update_user_profile_def route_delete_user_profile_def
  route_upload_profile_photo_endpoint_def route_remove_profile_photo_endpoint_def route_change_user_password_def
  route_list_contact_subjects_def route_contact_us_def route_subscribe_to_newsletter_def
  route_unsubscribe_from_newsletter_def route_get_preferences_def route_patch_preferences_def
  route_list_user_notifications_def route_get_unread_notifications_count_def route_mark_one_read_def
  route_mark_all_read_def route_list_templates_def route_get_template_page_def route_create_template_def
  route_update_template_def route_delete_template_def route_admin_list_templates_def route_admin_get_template_def
  route_create_instance_def route_list_instances_def route_get_analytics_def route_get_single_badge_def
  route_publish_def route_unpublish_def route_duplicate_def route_remove_badge_def route_update_badge_def
  route_upload_logo_def route_get_participant_page_def route_increment_creation_def route_increment_share_def

lemma declared_gate: "rt_gate (route_of c) = gate_of c"
  by (cases c) (simp_all add: route_defs)

lemma declared_limit: "rt_limit (route_of c) = per_minute c"
  by (cases c) (simp_all add: route_defs)

end
