(* ===== verification/Routing.thy ===== *)
theory Routing
  imports Open_Api
begin

text \<open>
  Which handler a request reaches.  FastAPI tries the routes in the order of their registration and takes the
  first one with the method and a matching path.  The matching of a path template is Starlette's: what the
  application relies on is the locale \<open>path_matching\<close>.
\<close>

section \<open>Paths\<close>

abbreviation segments :: "string \<Rightarrow> string list" where
  "segments p \<equiv> py_split (CHR ''/'') p"

text \<open>A segment of a template is a literal or one parameter in braces; a parameter takes any text but the empty one.\<close>

definition is_param :: "string \<Rightarrow> bool" where
  "is_param s = (s \<noteq> [] \<and> hd s = CHR ''{'' \<and> last s = CHR ''}'')"

definition segment_ok :: "string \<Rightarrow> string \<Rightarrow> bool" where
  "segment_ok s x = (if is_param s then x \<noteq> [] else s = x)"

definition plain_segment :: "string \<Rightarrow> bool" where
  "plain_segment s = (CHR ''{'' \<notin> set s \<and> CHR ''}'' \<notin> set s)"

definition template_ok :: "string \<Rightarrow> bool" where
  "template_ok t = list_all (\<lambda>s. is_param s \<and> CHR '':'' \<notin> set s \<or> plain_segment s) (segments t)"

locale path_matching =
  fixes path_matches :: "string \<Rightarrow> string \<Rightarrow> bool"
  assumes matches_segments: "template_ok t \<Longrightarrow> CHR 0x0A \<notin> set p \<Longrightarrow>
    path_matches t p = list_all2 segment_ok (segments t) (segments p)"

definition segmentwise :: "string \<Rightarrow> string \<Rightarrow> bool" where
  "segmentwise t p = list_all2 segment_ok (segments t) (segments p)"

interpretation segmentwise: path_matching segmentwise
  by unfold_locales (simp add: segmentwise_def)

definition resolve :: "(string \<Rightarrow> string \<Rightarrow> bool) \<Rightarrow> http_method \<Rightarrow> string \<Rightarrow> route list \<Rightarrow> route option" where
  "resolve path_matches m p rs = find (\<lambda>r. rt_method r = m \<and> path_matches (rt_path r) p) rs"

section \<open>Splitting paths\<close>

lemma segments_append: "segments (a @ CHR ''/'' # b) = segments a @ segments b"
  by (induction a) (auto split: list.splits)

lemma segments_path: "ws \<noteq> [] \<Longrightarrow> \<forall>w\<in>set ws. CHR ''/'' \<notin> set w \<Longrightarrow>
    segments (concat (map (\<lambda>w. CHR ''/'' # w) ws)) = [] # ws"
proof (induction ws rule: induct_list012)
  case (3 w v ws)
  then show ?case using py_split_append [of "CHR ''/''" w] by simp
qed (simp_all add: py_split_single)

lemma segment_ok_plain: "plain_segment s \<Longrightarrow> segment_ok s s"
  by (auto simp: plain_segment_def segment_ok_def is_param_def)

lemma set_py_split: "w \<in> set (py_split c s) \<Longrightarrow> set w \<subseteq> set s"
proof (induction s arbitrary: w)
  case (Cons x s)
  obtain v vs where vs: "py_split c s = v # vs" by (cases "py_split c s") auto
  then have "set v \<subseteq> set s" "\<And>w. w \<in> set vs \<Longrightarrow> set w \<subseteq> set s" using Cons.IH by auto
  with Cons.prems vs show ?case by (auto split: if_splits)
qed simp

lemma segments_plain: "plain_segment p \<Longrightarrow> s \<in> set (segments p) \<Longrightarrow> plain_segment s"
  using set_py_split [of s "CHR ''/''" p] unfolding plain_segment_def by blast

text \<open>What is common to a template and a path may be left out.\<close>

lemma list_all2_prefix:
  assumes "plain_segment a"
  shows "list_all2 segment_ok (segments a @ ts) (segments a @ ps) = list_all2 segment_ok ts ps"
proof -
  have "list_all2 segment_ok (segments a) (segments a)"
    using segment_ok_plain segments_plain [OF assms] by (simp add: list_all2_same)
  then show ?thesis by (simp add: list_all2_append)
qed

lemma length_uuid_ne: "length s \<noteq> 36 \<Longrightarrow> uuid_str u \<noteq> s \<and> s \<noteq> uuid_str u"
  using length_uuid_str by metis

lemma hex_char_plain: "d < 16 \<Longrightarrow> hex_char d \<notin> {CHR ''/'', CHR 0x0A}"
proof -
  assume "d < 16"
  then have "code_point (hex_char d) \<notin> {47, 10}" by (auto simp: hex_char_def code_point_def)
  then show ?thesis by (auto simp: code_point_def)
qed

lemma uuid_str_chars: "c \<in> set (uuid_str u) \<Longrightarrow> c \<notin> {CHR ''/'', CHR 0x0A}"
  using set_uuid_str [of u] hex_str_chars [of c 32 "unat u"] hex_char_plain by fastforce

lemma uuid_str_plain: "CHR ''/'' \<notin> set (uuid_str u)" "CHR 0x0A \<notin> set (uuid_str u)" "uuid_str u \<noteq> []"
  using uuid_str_chars [of _ u] by (auto dest: arg_cong [of _ _ length])

section \<open>Mounted routes\<close>

lemma find_map: "find P (map f xs) = map_option f (find (\<lambda>x. P (f x)) xs)"
  by (induction xs) auto

definition mountable :: "route \<Rightarrow> bool" where
  "mountable r = (rt_path r \<noteq> [] \<and> hd (rt_path r) = CHR ''/'' \<and> template_ok (rt_path r))"

lemma segments_slash: "p \<noteq> [] \<Longrightarrow> hd p = CHR ''/'' \<Longrightarrow> segments (a @ p) = segments a @ tl (segments p)"
  by (cases p) (simp_all add: segments_append)

lemma template_ok_mounted: "mountable r \<Longrightarrow> plain_segment a \<Longrightarrow> template_ok (rt_path (mounted a r))"
  using segments_plain [of a]
  by (cases "rt_path r") (auto simp: mountable_def mounted_def template_ok_def segments_append list_all_iff)

definition good_segment :: "string \<Rightarrow> bool" where
  "good_segment w = (w \<noteq> [] \<and> CHR ''/'' \<notin> set w \<and> CHR 0x0A \<notin> set w)"

text \<open>Below a prefix, the routes of the prefix are tried segment by segment.\<close>

definition find_route :: "http_method \<Rightarrow> string list \<Rightarrow> route list \<Rightarrow> route option" where
  "find_route m ws rs = find (\<lambda>r. rt_method r = m \<and> list_all2 segment_ok (tl (segments (rt_path r))) ws) rs"

context path_matching begin

lemma matches_below:
  assumes "mountable r" "plain_segment a" "CHR 0x0A \<notin> set a" "ws \<noteq> []" "list_all good_segment ws"
  shows "path_matches (rt_path (mounted a r)) (a @ concat (map (\<lambda>w. CHR ''/'' # w) ws))
    = list_all2 segment_ok (tl (segments (rt_path r))) ws"
proof -
  let ?p = "concat (map (\<lambda>w. CHR ''/'' # w) ws)"
  have p: "segments ?p = [] # ws" using segments_path [OF assms(4)] assms(5) by (simp add: list_all_iff good_segment_def)
  have "?p \<noteq> []" "hd ?p = CHR ''/''" using assms(4) by (cases ws; simp)+
  then have "segments (a @ ?p) = segments a @ ws" using segments_slash [of ?p a] p by simp
  moreover have "segments (rt_path (mounted a r)) = segments a @ tl (segments (rt_path r))"
    using assms(1) segments_slash by (simp add: mounted_def mountable_def)
  moreover have "CHR 0x0A \<notin> set (a @ ?p)" using assms(3,5) by (auto simp: list_all_iff good_segment_def)
  ultimately show ?thesis
    using matches_segments [OF template_ok_mounted [OF assms(1,2)]] list_all2_prefix [OF assms(2)] by simp
qed

lemma resolve_below:
  assumes "list_all mountable rs" "plain_segment a" "CHR 0x0A \<notin> set a" "ws \<noteq> []" "list_all good_segment ws"
  shows "resolve path_matches m (a @ concat (map (\<lambda>w. CHR ''/'' # w) ws)) (include_router a rs)
    = map_option (mounted a) (find_route m ws rs)"
proof -
  have "find (\<lambda>r. rt_method (mounted a r) = m \<and> path_matches (rt_path (mounted a r)) (a @ concat (map (\<lambda>w. CHR ''/'' # w) ws))) rs
    = find_route m ws rs"
    unfolding find_route_def using assms(1)
    by (induction rs) (simp_all add: matches_below [OF _ assms(2-5)] mounted_def [of a, THEN arg_cong, of rt_method])
  then show ?thesis by (simp add: resolve_def include_router_def find_map)
qed

end

section \<open>The table\<close>

lemmas router_defs = health_router_def auth_router_def profile_router_def contact_router_def newsletter_router_def
  notifications_router_def platform_templates_router_def admin_router_def badges_router_def

lemmas api_table = api_router_def include_router_def router_defs mounted_def

lemma api_router_mountable: "list_all mountable api_router"
  by (simp add: api_table route_defs mountable_def template_ok_def is_param_def plain_segment_def)

definition route_key :: "route \<Rightarrow> http_method \<times> string list" where
  "route_key r = (rt_method r, tl (segments (rt_path r)))"

text \<open>The routes of one method, with their segments.\<close>

definition table :: "http_method \<Rightarrow> route list \<Rightarrow> (string list \<times> route) list" where
  "table m rs = map (\<lambda>r. (snd (route_key r), r)) (filter (\<lambda>r. fst (route_key r) = m) rs)"

lemma find_route_table: "find_route m ws rs = map_option snd (find (\<lambda>kr. list_all2 segment_ok (fst kr) ws) (table m rs))"
  by (induction rs) (auto simp: find_route_def table_def route_key_def)

lemma table_zip: "map route_key rs = ks \<Longrightarrow>
    table m rs = map (\<lambda>(k, r). (snd k, r)) (filter (\<lambda>(k, r). fst k = m) (zip ks rs))"
  by (induction rs arbitrary: ks) (auto simp: table_def)

lemma api_keys:
  "map route_key api_router =
    [(GET, [''health'']), (GET, [''auth'', ''me'']), (POST, [''auth'', ''signup'']),
     (POST, [''auth'', ''resend-verification-email'']), (POST, [''auth'', ''reset-password'']),
     (POST, [''auth'', ''login'']), (POST, [''auth'', ''refresh'']), (POST, [''auth'', ''logout'']),
     (POST, [''auth'', ''forgot-password'']), (POST, [''auth'', ''verify-email'']), (GET, [''auth'', ''google'']),
     (GET, [''auth'', ''google'', ''callback'']), (GET, [''auth'', ''sessions'']),
     (POST, [''auth'', ''logout'', ''all'']), (GET, [''profile'']), (PUT, [''profile'']), (DELETE, [''profile'']),
     (PUT, [''profile'', ''photo'']), (DELETE, [''profile'', ''photo'']),
     (PUT, [''profile'', ''password'', ''change'']), (GET, [''contact'', ''subjects'']), (POST, [''contact'']),
     (POST, [''newsletter'', ''subscribe'']), (POST, [''newsletter'', ''unsubscribe'']),
     (GET, [''organiser'', ''notifications'']), (PATCH, [''organiser'', ''notifications'']),
     (GET, [''organiser'', ''notifications'', ''list'']),
     (GET, [''organiser'', ''notifications'', ''unread-count'']),
     (POST, [''organiser'', ''notifications'', ''{notification_id}'', ''mark-read'']),
     (POST, [''organiser'', ''notifications'', ''mark-all-read'']), (GET, [''templates'', ''platform'']),
     (GET, [''templates'', ''platform'', ''{id}'']), (POST, [''admin'', ''platform-templates'']),
     (PATCH, [''admin'', ''platform-templates'', ''{template_id}'']),
     (DELETE, [''admin'', ''platform-templates'', ''{template_id}'']), (GET, [''admin'', ''platform-templates'']),
     (GET, [''admin'', ''platform-templates'', ''{template_id}'']), (POST, [''badges'']), (GET, [''badges'']),
     (GET, [''badges'', ''analytics'']), (GET, [''badges'', ''{id}'']),
     (POST, [''badges'', ''{id}'', ''publish'']), (POST, [''badges'', ''{id}'', ''unpublish'']),
     (POST, [''badges'', ''{id}'', ''duplicate'']), (DELETE, [''badges'', ''{id}'']),
     (PATCH, [''badges'', ''{id}'']), (PUT, [''badges'', ''{id}'', ''logo'']),
     (GET, [''badges'', ''public'', ''{slug}'']),
     (POST, [''badges'', ''public'', ''{slug}'', ''increment-creation'']),
     (POST, [''badges'', ''public'', ''{slug}'', ''increment-share''])]"
  by (simp add: api_table route_defs route_key_def)

lemma api_router_list:
  "api_router = [mounted [] route_health, mounted ''/auth'' route_get_current_user_profile, mounted ''/auth'' route_register,
    mounted ''/auth'' route_resend_verification, mounted ''/auth'' route_reset_organizer_password,
    mounted ''/auth'' route_login, mounted ''/auth'' route_refresh, mounted ''/auth'' route_logout,
    mounted ''/auth'' route_forgot_password, mounted ''/auth'' route_verify_email,
    mounted ''/auth'' route_google_login, mounted ''/auth'' route_google_callback,
    mounted ''/auth'' route_list_sessions, mounted ''/auth'' route_logout_all,
    mounted ''/profile'' route_get_profile, mounted ''/profile'' route_update_user_profile,
    mounted ''/profile'' route_delete_user_profile, mounted ''/profile'' route_upload_profile_photo_endpoint,
    mounted ''/profile'' route_remove_profile_photo_endpoint, mounted ''/profile'' route_change_user_password,
    mounted ''/contact'' route_list_contact_subjects, mounted ''/contact'' route_contact_us,
    mounted ''/newsletter'' route_subscribe_to_newsletter,
    mounted ''/newsletter'' route_unsubscribe_from_newsletter,
    mounted ''/organiser/notifications'' route_get_preferences,
    mounted ''/organiser/notifications'' route_patch_preferences,
    mounted ''/organiser/notifications'' route_list_user_notifications,
    mounted ''/organiser/notifications'' route_get_unread_notifications_count,
    mounted ''/organiser/notifications'' route_mark_one_read,
    mounted ''/organiser/notifications'' route_mark_all_read, mounted ''/templates/platform'' route_list_templates,
    mounted ''/templates/platform'' route_get_template_page, mounted ''/admin'' route_create_template,
    mounted ''/admin'' route_update_template, mounted ''/admin'' route_delete_template,
    mounted ''/admin'' route_admin_list_templates, mounted ''/admin'' route_admin_get_template,
    mounted ''/badges'' route_create_instance, mounted ''/badges'' route_list_instances,
    mounted ''/badges'' route_get_analytics, mounted ''/badges'' route_get_single_badge,
    mounted ''/badges'' route_publish, mounted ''/badges'' route_unpublish, mounted ''/badges'' route_duplicate,
    mounted ''/badges'' route_remove_badge, mounted ''/badges'' route_update_badge,
    mounted ''/badges'' route_upload_logo, mounted ''/badges'' route_get_participant_page,
    mounted ''/badges'' route_increment_creation, mounted ''/badges'' route_increment_share]"
  by (simp add: api_router_def include_router_def router_defs)

lemma api_tables:
  "table GET api_router =
    [([''health''], mounted [] route_health),
     ([''auth'', ''me''], mounted ''/auth'' route_get_current_user_profile),
     ([''auth'', ''google''], mounted ''/auth'' route_google_login),
     ([''auth'', ''google'', ''callback''], mounted ''/auth'' route_google_callback),
     ([''auth'', ''sessions''], mounted ''/auth'' route_list_sessions),
     ([''profile''], mounted ''/profile'' route_get_profile),
     ([''contact'', ''subjects''], mounted ''/contact'' route_list_contact_subjects),
     ([''organiser'', ''notifications''], mounted ''/organiser/notifications'' route_get_preferences),
     ([''organiser'', ''notifications'', ''list''], mounted ''/organiser/notifications'' route_list_user_notifications),
     ([''organiser'', ''notifications'', ''unread-count''], mounted ''/organiser/notifications'' route_get_unread_notifications_count),
     ([''templates'', ''platform''], mounted ''/templates/platform'' route_list_templates),
     ([''templates'', ''platform'', ''{id}''], mounted ''/templates/platform'' route_get_template_page),
     ([''admin'', ''platform-templates''], mounted ''/admin'' route_admin_list_templates),
     ([''admin'', ''platform-templates'', ''{template_id}''], mounted ''/admin'' route_admin_get_template),
     ([''badges''], mounted ''/badges'' route_list_instances),
     ([''badges'', ''analytics''], mounted ''/badges'' route_get_analytics),
     ([''badges'', ''{id}''], mounted ''/badges'' route_get_single_badge),
     ([''badges'', ''public'', ''{slug}''], mounted ''/badges'' route_get_participant_page)]"
  "table POST api_router =
    [([''auth'', ''signup''], mounted ''/auth'' route_register),
     ([''auth'', ''resend-verification-email''], mounted ''/auth'' route_resend_verification),
     ([''auth'', ''reset-password''], mounted ''/auth'' route_reset_organizer_password),
     ([''auth'', ''login''], mounted ''/auth'' route_login),
     ([''auth'', ''refresh''], mounted ''/auth'' route_refresh),
     ([''auth'', ''logout''], mounted ''/auth'' route_logout),
     ([''auth'', ''forgot-password''], mounted ''/auth'' route_forgot_password),
     ([''auth'', ''verify-email''], mounted ''/auth'' route_verify_email),
     ([''auth'', ''logout'', ''all''], mounted ''/auth'' route_logout_all),
     ([''contact''], mounted ''/contact'' route_contact_us),
     ([''newsletter'', ''subscribe''], mounted ''/newsletter'' route_subscribe_to_newsletter),
     ([''newsletter'', ''unsubscribe''], mounted ''/newsletter'' route_unsubscribe_from_newsletter),
     ([''organiser'', ''notifications'', ''{notification_id}'', ''mark-read''], mounted ''/organiser/notifications'' route_mark_one_read),
     ([''organiser'', ''notifications'', ''mark-all-read''], mounted ''/organiser/notifications'' route_mark_all_read),
     ([''admin'', ''platform-templates''], mounted ''/admin'' route_create_template),
     ([''badges''], mounted ''/badges'' route_create_instance),
     ([''badges'', ''{id}'', ''publish''], mounted ''/badges'' route_publish),
     ([''badges'', ''{id}'', ''unpublish''], mounted ''/badges'' route_unpublish),
     ([''badges'', ''{id}'', ''duplicate''], mounted ''/badges'' route_duplicate),
     ([''badges'', ''public'', ''{slug}'', ''increment-creation''], mounted ''/badges'' route_increment_creation),
     ([''badges'', ''public'', ''{slug}'', ''increment-share''], mounted ''/badges'' route_increment_share)]"
  "table PUT api_router =
    [([''profile''], mounted ''/profile'' route_update_user_profile),
     ([''profile'', ''photo''], mounted ''/profile'' route_upload_profile_photo_endpoint),
     ([''profile'', ''password'', ''change''], mounted ''/profile'' route_change_user_password),
     ([''badges'', ''{id}'', ''logo''], mounted ''/badges'' route_upload_logo)]"
  "table PATCH api_router =
    [([''organiser'', ''notifications''], mounted ''/organiser/notifications'' route_patch_preferences),
     ([''admin'', ''platform-templates'', ''{template_id}''], mounted ''/admin'' route_update_template),
     ([''badges'', ''{id}''], mounted ''/badges'' route_update_badge)]"
  "table DELETE api_router =
    [([''profile''], mounted ''/profile'' route_delete_user_profile),
     ([''profile'', ''photo''], mounted ''/profile'' route_remove_profile_photo_endpoint),
     ([''admin'', ''platform-templates'', ''{template_id}''], mounted ''/admin'' route_delete_template),
     ([''badges'', ''{id}''], mounted ''/badges'' route_remove_badge)]"
  by (simp_all only: table_zip [OF api_keys]) (simp_all add: api_router_list)

section \<open>Every call reaches its handler\<close>

text \<open>The text a client puts into the path: a slug is any non-empty text without a slash.\<close>

definition sendable :: "api_call \<Rightarrow> bool" where
  "sendable c = list_all good_segment (url_segments c)"

lemma route_methods:
  "rt_method route_health = GET"
  "rt_method route_get_current_user_profile = GET"
  "rt_method route_register = POST"
  "rt_method route_resend_verification = POST"
  "rt_method route_reset_organizer_password = POST"
  "rt_method route_login = POST"
  "rt_method route_refresh = POST"
  "rt_method route_logout = POST"
  "rt_method route_forgot_password = POST"
  "rt_method route_verify_email = POST"
  "rt_method route_google_login = GET"
  "rt_method route_google_callback = GET"
  "rt_method route_list_sessions = GET"
  "rt_method route_logout_all = POST"
  "rt_method route_get_profile = GET"
  "rt_method route_update_user_profile = PUT"
  "rt_method route_delete_user_profile = DELETE"
  "rt_method route_upload_profile_photo_endpoint = PUT"
  "rt_method route_remove_profile_photo_endpoint = DELETE"
  "rt_method route_change_user_password = PUT"
  "rt_method route_list_contact_subjects = GET"
  "rt_method route_contact_us = POST"
  "rt_method route_subscribe_to_newsletter = POST"
  "rt_method route_unsubscribe_from_newsletter = POST"
  "rt_method route_get_preferences = GET"
  "rt_method route_patch_preferences = PATCH"
  "rt_method route_list_user_notifications = GET"
  "rt_method route_get_unread_notifications_count = GET"
  "rt_method route_mark_one_read = POST"
  "rt_method route_mark_all_read = POST"
  "rt_method route_list_templates = GET"
  "rt_method route_get_template_page = GET"
  "rt_method route_create_template = POST"
  "rt_method route_update_template = PATCH"
  "rt_method route_delete_template = DELETE"
  "rt_method route_admin_list_templates = GET"
  "rt_method route_admin_get_template = GET"
  "rt_method route_create_instance = POST"
  "rt_method route_list_instances = GET"
  "rt_method route_get_analytics = GET"
  "rt_method route_get_single_badge = GET"
  "rt_method route_publish = POST"
  "rt_method route_unpublish = POST"
  "rt_method route_duplicate = POST"
  "rt_method route_remove_badge = DELETE"
  "rt_method route_update_badge = PATCH"
  "rt_method route_upload_logo = PUT"
  "rt_method route_get_participant_page = GET"
  "rt_method route_increment_creation = POST"
  "rt_method route_increment_share = POST"
  by (simp_all add: route_defs)

lemma good_uuid [simp]: "good_segment (uuid_str u)"
  using uuid_str_plain by (simp add: good_segment_def)

lemma segment_ok_param [simp]: "is_param s \<Longrightarrow> segment_ok s x = (x \<noteq> [])"
  by (simp add: segment_ok_def)

lemma segment_ok_literal: "\<not> is_param s \<Longrightarrow> segment_ok s x = (s = x)"
  by (simp add: segment_ok_def)

lemma found_route:
  assumes "sendable c"
  shows "\<exists>a. find_route (rt_method (route_of c)) (url_segments c) api_router = Some (mounted a (route_of c))"
  using assms unfolding find_route_table
  by (cases c) (simp_all add: api_tables segment_ok_def is_param_def sendable_def good_segment_def
      length_uuid_ne uuid_str_plain route_methods cong: conj_cong, blast+)

lemma url_segments_nonempty: "url_segments c \<noteq> []"
  by (cases c) simp_all

text \<open>C39. The URL of every call reaches the handler the model gives it: whatever the call, the first route with its method
  and a matching path is its own, with its gate and its limit.  No route is shadowed by an earlier one, as a static path
  by a parameter.\<close>

theorem calls_reach_their_handlers:
  assumes "path_matching path_matches" "plain_segment (API_V1_PREFIX s)" "CHR 0x0A \<notin> set (API_V1_PREFIX s)" "sendable c"
  shows "\<exists>a. resolve path_matches (rt_method (route_of c)) (url_of s c) (app_routes s) = Some (mounted a (route_of c))
    \<and> rt_gate (mounted a (route_of c)) = gate_of c \<and> rt_limit (mounted a (route_of c)) = per_minute c"
proof -
  obtain a where "find_route (rt_method (route_of c)) (url_segments c) api_router = Some (mounted a (route_of c))"
    using found_route [OF assms(4)] by blast
  then have "resolve path_matches (rt_method (route_of c)) (url_of s c) (app_routes s)
      = Some (mounted (API_V1_PREFIX s) (mounted a (route_of c)))"
    unfolding url_of_def app_routes_def
    using path_matching.resolve_below [OF assms(1) api_router_mountable assms(2,3) url_segments_nonempty] assms(4)
    by (simp add: sendable_def)
  then show ?thesis
    by (intro exI [of _ "API_V1_PREFIX s @ a"]) (simp add: mounted_def declared_gate declared_limit)
qed

theorem calls_reach_their_handlers_witness:
  "\<exists>a. resolve segmentwise GET ''/api/v1/badges/analytics'' (app_routes (default_settings ''key'' ''postgresql://db''))
     = Some (mounted a route_get_analytics)"
proof -
  let ?s = "default_settings ''key'' ''postgresql://db''"
  have "API_V1_PREFIX ?s = ''/api/v1''" by (simp add: default_settings_def)
  then have "plain_segment (API_V1_PREFIX ?s)" "CHR 0x0A \<notin> set (API_V1_PREFIX ?s)" "sendable GetAnalytics"
      "url_of ?s GetAnalytics = ''/api/v1/badges/analytics''" "rt_method (route_of GetAnalytics) = GET"
    by (simp_all add: plain_segment_def sendable_def good_segment_def url_of_def route_methods)
  then show ?thesis
    using calls_reach_their_handlers [OF segmentwise.path_matching_axioms, of ?s GetAnalytics] by auto
qed

end
