(* ===== verification/Answers.thy ===== *)
theory Answers
  imports Open_Api
begin

text \<open>
  What the routes answer, against what their decorators document: the status and the model of a success, and the
  statuses of the refusals.
\<close>

section \<open>Statuses\<close>

definition status_of :: "app_error \<Rightarrow> nat" where
  "status_of exc = fst (global_exception_handler exc)"

text \<open>The fixed answers of the handler for an exception no route maps.\<close>

definition fallback :: "(nat \<times> string) set" where
  "fallback = {(409, ''Database constraint violation''), (500, ''A database error occurred''), (500, ''Internal Server Error'')}"

text \<open>The services raise no HTTP exceptions.\<close>

fun plain :: "app_error \<Rightarrow> bool" where
  "plain (HTTPException status detail) = False"
| "plain (RequestValidationError errors) = False"
| "plain RateLimitExceeded = False"
| "plain exc = True"

lemma plain_fallback: "plain exc \<Longrightarrow> global_exception_handler exc \<in> fallback"
  by (cases exc) (simp_all add: global_exception_handler_def fallback_def)

text \<open>The refusals a route may give: \<open>E\<close>, or a fallback.\<close>

definition refused_with :: "nat set \<Rightarrow> app_error \<Rightarrow> bool" where
  "refused_with E exc = (global_exception_handler exc \<in> fallback \<or> (400 \<le> status_of exc \<and> status_of exc \<in> E))"

lemma refused_plain [simp]: "plain exc \<Longrightarrow> refused_with E exc"
  using plain_fallback by (simp add: refused_with_def)

lemma refused_http [simp]: "refused_with E (HTTPException st msg) = ((st, msg) \<in> fallback \<or> (400 \<le> st \<and> st \<in> E))"
  by (simp add: refused_with_def status_of_def)

lemma refused_validation [simp]: "422 \<in> E \<Longrightarrow> refused_with E (RequestValidationError errs)"
  by (simp add: refused_with_def status_of_def global_exception_handler_def)

lemma refused_limit [simp]: "429 \<in> E \<Longrightarrow> refused_with E RateLimitExceeded"
  by (simp add: refused_with_def status_of_def global_exception_handler_def)

section \<open>Answers\<close>

text \<open>The response model of the data.\<close>

primrec payload_model :: "payload \<Rightarrow> string" where
  "payload_model NoData = ''None''"
| "payload_model (UserData x) = ''UserResponse''"
| "payload_model (LoginData x) = ''LoginResponse''"
| "payload_model (NextData x) = ''dict[str, Any]''"
| "payload_model (SessionData x) = ''SessionListResponse''"
| "payload_model (RevokedData x) = ''LogoutAllResponse''"
| "payload_model (DeletedData x) = ''DeleteProfileResponse''"
| "payload_model (CreatedBadge x) = ''CreateBadgeResponse''"
| "payload_model (PublishedBadge x) = ''PublishedBadgeResponse''"
| "payload_model (DuplicatedBadge x) = ''DuplicateBadgeResponse''"
| "payload_model (BadgeDetail x) = ''BadgeDetailResponse''"
| "payload_model (BadgePage x) = ''BadgeListResponse''"
| "payload_model (BadgeAnalytics x) = ''BadgeAnalyticsResponse''"
| "payload_model (LogoData x) = ''LogoUploadResponse''"
| "payload_model (PublicPage x) = ''PublicBadgePageResponse''"
| "payload_model (TemplatePage x) = ''PlatformTemplateListResponse''"
| "payload_model (TemplateData x) = ''PlatformTemplateResponse''"
| "payload_model (AdminTemplate x) = ''admin.PlatformTemplateResponse''"
| "payload_model (AdminTemplates x) = ''list[admin.PlatformTemplateResponse]''"
| "payload_model (Preferences x) = ''NotificationPreferencesResponse''"
| "payload_model (NotificationPage x) = ''NotificationListResponse''"
| "payload_model (UnreadCount x) = ''UnreadCountResponse''"
| "payload_model (MarkedCount x) = ''MarkAllReadResponse''"
| "payload_model (SubjectOptions x) = ''list[ContactSubjectOption]''"
| "payload_model (ContactData x y) = ''ContactResponse''"
| "payload_model (SubscriberData x y) = ''NewsletterSubscribeResponse''"

definition model_ok :: "string option \<Rightarrow> payload \<Rightarrow> bool" where
  "model_ok m p = (case m of None \<Rightarrow> p = NoData | Some name \<Rightarrow> payload_model p = name)"

definition answers :: "nat set \<Rightarrow> nat \<Rightarrow> string option \<Rightarrow> http_response \<Rightarrow> bool" where
  "answers E st m r = (if hr_status r < 400 then hr_status r = st \<and> model_ok m (hr_data r)
     else hr_data r = NoData \<and> ((hr_status r, hr_message r) \<in> fallback \<or> hr_status r \<in> E))"

named_theorems answer_intros \<open>how the answers of a handler are composed\<close>

lemma answers_ok [answer_intros]: "st < 400 \<Longrightarrow> model_ok m p \<Longrightarrow> answers E st m (ok st msg p)"
  by (simp add: answers_def ok_def)

lemma answers_redirect [answer_intros]: "answers E 307 None (redirect url cs)"
  by (simp add: answers_def redirect_def model_ok_def)

lemma answers_cookies [answer_intros]: "answers E st m r \<Longrightarrow> answers E st m (with_cookies ops r)"
  by (simp add: answers_def with_cookies_def)

lemma fallback_statuses: "(st, msg) \<in> fallback \<Longrightarrow> 400 \<le> st"
  by (auto simp: fallback_def)

lemma answers_error [answer_intros]: "refused_with E exc \<Longrightarrow> answers E st m (error_response exc)"
  using fallback_statuses
  by (cases "global_exception_handler exc")
    (fastforce simp: answers_def error_response_def ok_def refused_with_def status_of_def)

lemma answers_reply [answer_intros]:
  assumes "\<And>exc. fst rw = Inl exc \<Longrightarrow> refused_with E (raised exc)"
    and "\<And>x. fst rw = Inr x \<Longrightarrow> (case result x of Inl exc \<Rightarrow> refused_with E exc | Inr r \<Rightarrow> answers E st m r)"
  shows "answers E st m (fst (reply raised result rw))"
  using assms answers_error by (auto simp: reply_def split: sum.splits)

lemma current_user_refused:
  "get_current_user e now tok w = Inl exc \<Longrightarrow> 401 \<in> E \<Longrightarrow> refused_with E exc"
  by (auto simp: get_current_user_def get_user_by_text_def unauthorized_def split: option.splits if_splits sum.splits)

lemma current_admin_refused:
  "get_current_admin e now tok w = Inl exc \<Longrightarrow> 401 \<in> E \<Longrightarrow> 403 \<in> E \<Longrightarrow> refused_with E exc"
  by (auto simp: get_current_admin_def get_user_by_text_def Let_def split: option.splits if_splits sum.splits list.splits)

lemma answers_user [answer_intros]:
  assumes "401 \<in> E" "\<And>u. answers E st m (fst (handler u w))"
  shows "answers E st m (fst (as_user e now q handler w))"
  using assms current_user_refused [of e now "access_cookie e q" w]
  by (auto simp: as_user_def intro!: answers_error split: sum.split)

lemma answers_admin [answer_intros]:
  assumes "401 \<in> E" "403 \<in> E" "answers E st m (fst (handler w))"
  shows "answers E st m (fst (as_admin e now q handler w))"
  using assms current_admin_refused [of e now "access_cookie e q" w]
  by (auto simp: as_admin_def intro!: answers_error split: sum.split)

lemma answers_validated [answer_intros]:
  assumes "\<And>exc. body = Inl exc \<Longrightarrow> refused_with E exc" "\<And>x. body = Inr x \<Longrightarrow> answers E st m (fst (handler x w))"
  shows "answers E st m (fst (validated body handler w))"
  using assms by (auto simp: validated_def intro!: answers_error split: sum.split)

section \<open>What the services raise\<close>

named_theorems raises \<open>the services raise plain exceptions\<close>

lemma checked_plain [raises]: "checked a b x = Inl exc \<Longrightarrow> plain exc"
  by (auto simp: checked_def split: if_splits)

lemma insert_plain [raises]:
  "insert_user u d = Inl exc \<Longrightarrow> plain exc" "insert_auth_provider a d = Inl exc \<Longrightarrow> plain exc"
  "insert_refresh_token t d = Inl exc \<Longrightarrow> plain exc" "insert_badge b d = Inl exc \<Longrightarrow> plain exc"
  "insert_hashtag h d = Inl exc \<Longrightarrow> plain exc" "insert_template p d = Inl exc \<Longrightarrow> plain exc"
  "insert_notification n d = Inl exc \<Longrightarrow> plain exc" "insert_subscriber s d = Inl exc \<Longrightarrow> plain exc"
  by (auto simp: insert_user_def insert_auth_provider_def insert_refresh_token_def insert_badge_def insert_hashtag_def
      insert_template_def insert_notification_def insert_subscriber_def split: if_splits dest: checked_plain)

lemma save_plain [raises]:
  "save_user now uid f d = Inl exc \<Longrightarrow> plain exc" "save_badge now bid g d = Inl exc \<Longrightarrow> plain exc"
  "save_template now tid h d = Inl exc \<Longrightarrow> plain exc" "save_subscriber sid k d = Inl exc \<Longrightarrow> plain exc"
  by (auto simp: save_user_def save_badge_def save_template_def save_subscriber_def Let_def split: if_splits dest: checked_plain)

lemma insert_hashtags_plain [raises]: "insert_hashtags ids i bid ts d = Inl exc \<Longrightarrow> plain exc"
  by (induction ids i bid ts d rule: insert_hashtags.induct) (auto split: sum.splits dest: insert_plain)

lemma substitute_plain: "substitute vars s = Inl exc \<Longrightarrow> plain exc"
  by (induction vars s rule: substitute.induct) (auto split: if_splits sum.splits option.splits prod.splits)

lemma render_plain: "render e now name vars = Inl exc \<Longrightarrow> plain exc"
  by (auto simp: render_def Let_def split: option.splits dest: substitute_plain)

lemma send_mail_plain: "fst (send_mail e to s h r w) = Inl exc \<Longrightarrow> plain exc"
  by (auto simp: send_mail_def Let_def split: if_splits)

lemma send_html_plain: "(html = Inl exc \<Longrightarrow> plain exc) \<Longrightarrow> fst (send_html e to s r html w) = Inl exc \<Longrightarrow> plain exc"
  by (auto simp: send_html_def split: sum.splits dest: send_mail_plain)

lemma mail_plain [raises]:
  "fst (send_verification_email e now to tok w) = Inl exc \<Longrightarrow> plain exc"
  "fst (send_account_lock_email e now to w) = Inl exc \<Longrightarrow> plain exc"
  "fst (send_password_reset_email e now to tok w) = Inl exc \<Longrightarrow> plain exc"
  "fst (send_contact_notification e now a b c m s g w) = Inl exc \<Longrightarrow> plain exc"
  "fst (send_contact_confirmation e now to b a w) = Inl exc \<Longrightarrow> plain exc"
  unfolding send_verification_email_def send_account_lock_email_def send_password_reset_email_def
    send_contact_notification_def
      apply (rule send_html_plain; auto simp: build_verification_html_def Let_def dest: render_plain)
     apply (rule send_html_plain; auto simp: build_account_lock_html_def Let_def dest: render_plain)
    apply (rule send_html_plain; auto simp: build_password_reset_html_def Let_def dest: render_plain)
   apply (rule send_html_plain; auto simp: build_notification_html_def Let_def dest: render_plain)
  by (auto simp: send_contact_confirmation_def build_confirmation_html_def Let_def split: sum.splits dest: render_plain)

lemma pair_fst: "rw = (x, y) \<Longrightarrow> fst rw = x"
  by simp

lemmas mail_pair_plain [raises] = mail_plain [OF pair_fst]

lemma hash_password_plain [raises]: "hash_password e salt p = Inl exc \<Longrightarrow> plain exc"
  by (auto simp: hash_password_def split: option.splits)

lemma check_lockout_plain [raises]: "check_lockout e now i r = Inl exc \<Longrightarrow> plain exc"
  by (auto simp: check_lockout_def Let_def split: option.splits if_splits)

lemma conflict_plain [raises]:
  "insert_user u d = Inl err \<Longrightarrow> (if err = IntegrityError then EmailConflictError else err) = exc \<Longrightarrow> plain exc"
  using insert_plain(1) by (auto split: if_splits)

lemma signup_plain [raises]: "fst (signup e now dr race payload w) = Inl exc \<Longrightarrow> plain exc"
  by (auto simp: signup_def Let_def dest: raises split: if_splits sum.splits prod.splits app_error.splits)

lemma resend_plain [raises]: "fst (ignore_delivery (resend_verification_email e now raw email w)) = Inl exc \<Longrightarrow> plain exc"
  by (auto simp: ignore_delivery_def resend_verification_email_def Let_def dest: raises
      split: if_splits option.splits prod.splits)

lemma request_reset_plain [raises]: "fst (ignore_delivery (request_password_reset e now raw email w)) = Inl exc \<Longrightarrow> plain exc"
  by (auto simp: ignore_delivery_def request_password_reset_def Let_def dest: raises
      split: if_splits option.splits prod.splits)

lemma reset_password_plain [raises]: "fst (reset_password e now salt tok p w) = Inl exc \<Longrightarrow> plain exc"
  by (auto simp: reset_password_def Let_def dest: raises split: option.splits sum.splits prod.splits)

lemma refresh_plain [raises]: "fst (refresh_session e now dr raw a q w) = Inl exc \<Longrightarrow> plain exc"
  by (auto simp: refresh_session_def Let_def dest: raises split: option.splits sum.splits prod.splits if_splits)

lemma signin_plain [raises]: "fst (signin e now dr m p q w) = Inl exc \<Longrightarrow> plain exc"
  unfolding signin_def Let_def
  by (auto dest: raises split: option.splits sum.splits prod.splits if_splits app_error.splits)

lemma google_plain [raises]: "fst (authenticate_with_google e g now uid pid code state w) = Inl exc \<Longrightarrow> plain exc"
proof -
  have x: "exchange_google_code g code = Inl exc \<Longrightarrow> plain exc"
    by (auto simp: exchange_google_code_def google_error_def split: http_result.splits option.splits json.splits)
  have f: "fetch_google_user_info g t = Inl exc \<Longrightarrow> plain exc" for t
    by (auto simp: fetch_google_user_info_def google_error_def split: http_result.splits option.splits json.splits if_splits)
  have v: "validate_google_subject_consistency g t u = Inl exc \<Longrightarrow> plain exc" for t u
    by (auto simp: validate_google_subject_consistency_def extract_google_id_token_subject_def google_error_def
        split: option.splits list.splits json.splits sum.splits if_splits)
  have u: "upsert_google_user now uid pid info d = Inl exc \<Longrightarrow> plain exc" for info d
    unfolding upsert_google_user_def add_google_provider_def google_error_def
    by (auto simp: Let_def dest: raises split: option.splits sum.splits if_splits prod.splits)
  assume "fst (authenticate_with_google e g now uid pid code state w) = Inl exc"
  then show ?thesis
    by (auto simp: authenticate_with_google_def google_error_def Let_def dest: x f v u split: if_splits prod.splits sum.splits)
qed

lemma upload_logo_plain [raises]: "fst (upload_logo e u data w) = Inl exc \<Longrightarrow> plain exc"
  by (auto simp: upload_logo_def upload_sync_def configure_cloudinary_def Let_def
      split: sum.splits prod.splits option.splits if_splits)

lemmas upload_logo_pair_plain [raises] = upload_logo_plain [OF pair_fst]

lemma profile_plain [raises]:
  "fst (update_profile now u a b c r w) = Inl exc \<Longrightarrow> plain exc"
  "fst (update_profile_photo e now draw u data w) = Inl exc \<Longrightarrow> plain exc"
  "fst (remove_profile_photo e now u w) = Inl exc \<Longrightarrow> plain exc"
  "fst (change_password e now salt u pw acc rf w) = Inl exc \<Longrightarrow> plain exc"
  by (auto simp: update_profile_def update_profile_photo_def remove_profile_photo_def change_password_def Let_def
      dest: raises split: sum.splits prod.splits if_splits)

lemma notification_plain [raises]:
  "fst (update_notification_preferences now pid uid upd d) = Inl exc \<Longrightarrow> plain exc"
  "create_notification now nid uid ty ti bo ex d = Inl exc \<Longrightarrow> plain exc"
  by (auto simp: update_notification_preferences_def create_notification_def Let_def dest: raises
      split: option.splits if_splits sum.splits)

lemma badge_plain [raises]:
  "fst (create_badge now bid org t w) = Inl exc \<Longrightarrow> plain exc"
  "fst (publish_badge now choice org bid w) = Inl exc \<Longrightarrow> plain exc"
  "fst (unpublish_badge now org bid w) = Inl exc \<Longrightarrow> plain exc"
  "fst (delete_badge e now org bid w) = Inl exc \<Longrightarrow> plain exc"
  "fst (duplicate_badge now new_id ids org bid w) = Inl exc \<Longrightarrow> plain exc"
  "fst (increment_badge_creation_count now nid slug w) = Inl exc \<Longrightarrow> plain exc"
  "get_public_badge_by_slug slug d = Inl exc \<Longrightarrow> plain exc"
  "get_badge_by_id org bid d = Inl exc \<Longrightarrow> plain exc"
  "list_platform_templates coll cat page limit d = Inl exc \<Longrightarrow> plain exc"
  "get_platform_template tid d = Inl exc \<Longrightarrow> plain exc"
  by (auto simp: create_badge_def publish_badge_def unpublish_badge_def delete_badge_def duplicate_badge_def
      increment_badge_creation_count_def get_public_badge_by_slug_def get_badge_by_id_def list_platform_templates_def
      get_platform_template_def Let_def dest: raises split: option.splits if_splits sum.splits prod.splits)

lemma edit_plain [raises]: "fst (edit_badge now ids org bid upd tags flag w) = Inl exc \<Longrightarrow> plain exc"
proof -
  have c: "check_access b u = Inl exc \<Longrightarrow> plain exc" for b u
    by (auto simp: check_access_def Let_def split: if_splits option.splits)
  assume "fst (edit_badge now ids org bid upd tags flag w) = Inl exc"
  then show ?thesis
    by (auto simp: edit_badge_def dest: raises c split: option.splits if_splits sum.splits)
qed

lemma upload_badge_logo_plain [raises]: "fst (upload_badge_logo e now u bid org data w) = Inl exc \<Longrightarrow> plain exc"
  by (auto simp: upload_badge_logo_def Let_def dest: raises split: option.splits if_splits sum.splits prod.splits)

lemma outreach_plain [raises]:
  "fst (subscribe e now sid tok race email w) = Inl exc \<Longrightarrow> plain exc"
  "fst (submit_contact_form e now choice body w) = Inl exc \<Longrightarrow> plain exc"
  "fst (create_platform_template now tid t c j th a w) = Inl exc \<Longrightarrow> plain exc"
  "fst (admin_update_platform_template now p r w) = Inl exc \<Longrightarrow> plain exc"
  by (auto simp: subscribe_def subscribe_rows_def submit_contact_form_def create_platform_template_def
      admin_update_platform_template_def Let_def dest: raises
      split: option.splits sum.splits prod.splits if_splits app_error.splits)

section \<open>What the request models refuse\<close>

lemma refused_if: "refused_with E a \<Longrightarrow> refused_with E b \<Longrightarrow> refused_with E (if c then a else b)"
  by simp

text \<open>A body or a query that is not valid is a 422.\<close>

lemma request_refused:
  assumes "422 \<in> E"
  shows "SignupRequest ev su = Inl exc \<Longrightarrow> refused_with E exc"
    "EmailRequest ev email = Inl exc \<Longrightarrow> refused_with E exc"
    "LoginRequest ev email pw = Inl exc \<Longrightarrow> refused_with E exc"
    "ResetPasswordRequest tok pw cpw = Inl exc \<Longrightarrow> refused_with E exc"
    "UpdateProfileRequest ev up = Inl exc \<Longrightarrow> refused_with E exc"
    "ChangePasswordRequest cp = Inl exc \<Longrightarrow> refused_with E exc"
    "EditBadgeRequest bu tags = Inl exc \<Longrightarrow> refused_with E exc"
    "ContactRequest ev cr = Inl exc \<Longrightarrow> refused_with E exc"
    "email_field ev email = Inl exc \<Longrightarrow> refused_with E exc"
    "UpdatePlatformTemplateRequest tr = Inl exc \<Longrightarrow> refused_with E exc"
    "CreatePlatformTemplateRequest tr = Inl exc \<Longrightarrow> refused_with E exc"
    "page_query page limit = Inl exc \<Longrightarrow> refused_with E exc"
    "admin_list_query limit page = Inl exc \<Longrightarrow> refused_with E exc"
  using assms
  by (auto simp: SignupRequest_def EmailRequest_def LoginRequest_def ResetPasswordRequest_def UpdateProfileRequest_def
      ChangePasswordRequest_def EditBadgeRequest_def ContactRequest_def email_field_def UpdatePlatformTemplateRequest_def
      CreatePlatformTemplateRequest_def page_query_def admin_list_query_def builtin_error_def Schemas.body_error_def Let_def
      split: if_splits sum.splits)

section \<open>The handlers\<close>

lemma owner_error_refused: "plain exc \<Longrightarrow> 403 \<in> E \<Longrightarrow> 404 \<in> E \<Longrightarrow> refused_with E (owner_error exc)"
  by (cases exc) simp_all

lemma login_error_refused: "plain exc \<Longrightarrow> 401 \<in> E \<Longrightarrow> 403 \<in> E \<Longrightarrow> 423 \<in> E \<Longrightarrow> refused_with E (login_error exc)"
  by (cases exc) simp_all

lemma logo_error_refused: "plain exc \<Longrightarrow> 403 \<in> E \<Longrightarrow> 404 \<in> E \<Longrightarrow> 502 \<in> E \<Longrightarrow> refused_with E (logo_error exc)"
  by (cases exc) simp_all

lemma reply_refused: "(\<And>exc. fst rw = Inl exc \<Longrightarrow> plain exc) \<Longrightarrow> (\<And>exc. plain exc \<Longrightarrow> refused_with E (raised exc)) \<Longrightarrow>
    (\<And>x. fst rw = Inr x \<Longrightarrow> (case result x of Inl exc \<Rightarrow> refused_with E exc | Inr r \<Rightarrow> answers E st m r)) \<Longrightarrow>
    answers E st m (fst (reply raised result rw))"
  by (rule answers_reply) auto

lemma account_answers:
  "answers {401} 200 (Some ''UserResponse'') (fst (get_current_user_profile e now q w))"
  "answers {409, 422} 201 (Some ''UserResponse'') (fst (register e now dr race ev body w))"
  "answers {400, 422} 200 (Some ''None'') (fst (resend_verification e now raw ev email w))"
  "answers {400, 422} 200 (Some ''None'') (fst (reset_organizer_password e now salt tok p c w))"
  "answers {401, 403, 422, 423} 200 (Some ''LoginResponse'') (fst (login e now sd ev q email pw w))"
  "answers {401} 200 (Some ''None'') (fst (refresh e now sd q w))"
  "answers {} 204 None (fst (logout e now q w))"
  "answers {422} 200 (Some ''None'') (fst (forgot_password e now raw ev email w))"
  unfolding get_current_user_profile_def register_def resend_verification_def reset_organizer_password_def login_def
    refresh_def logout_def forgot_password_def
  by (auto intro!: answer_intros reply_refused login_error_refused simp: model_ok_def dest!: raises
      intro: request_refused split: option.split list.split prod.split)

lemma verify_email_answers: "answers {400, 401, 500} 200 (Some ''dict[str, Any]'') (fst (verify_email e now sd q tok w))"
proof -
  have t: "fst (take_verification e now tok w) = Inl exc \<Longrightarrow> refused_with {400, 401, 500} exc" for exc
    by (auto simp: take_verification_def get_user_by_text_def Let_def
        split: prod.splits option.splits list.splits sum.splits if_splits)
  show ?thesis
    unfolding verify_email_def
    by (auto intro!: answer_intros simp: model_ok_def dest: t [OF pair_fst] split: prod.split sum.split)
qed

lemma google_answers:
  "answers {} 307 None (fst (google_login e now state w))"
  "answers {422} 307 None (fst (google_callback e g now uid pid sd q code state w))"
  unfolding google_login_def google_callback_def
  by (auto intro!: answer_intros simp: Let_def dest!: raises google_plain [OF pair_fst]
      split: prod.split sum.split app_error.split)

lemma session_answers:
  "answers {401, 422} 200 (Some ''SessionListResponse'') (fst (list_sessions e now q p l w))"
  "answers {401} 200 (Some ''LogoutAllResponse'') (fst (logout_all e now q w))"
  unfolding list_sessions_def logout_all_def
  by (auto intro!: answer_intros simp: model_ok_def Let_def intro: request_refused split: prod.split)

lemma profile_answers:
  "answers {401} 200 (Some ''UserResponse'') (fst (get_profile e now q w))"
  "answers {400, 401, 422} 200 (Some ''UserResponse'') (fst (update_user_profile e now q ev up w))"
  "answers {401} 200 (Some ''DeleteProfileResponse'') (fst (delete_user_profile e now q w))"
  "answers {401} 200 (Some ''UserResponse'') (fst (remove_profile_photo_endpoint e now q w))"
  "answers {401, 422} 200 (Some ''None'') (fst (change_user_password e now salt q cp w))"
  unfolding get_profile_def update_user_profile_def delete_user_profile_def remove_profile_photo_endpoint_def
    change_user_password_def
  by (auto intro!: answer_intros reply_refused simp: model_ok_def dest!: raises intro: request_refused)

lemma notification_answers:
  "answers {401} 200 (Some ''NotificationPreferencesResponse'') (fst (get_preferences e now q w))"
  "answers {400, 401} 200 (Some ''NotificationPreferencesResponse'') (fst (patch_preferences e now pid q pu w))"
  "answers {401, 422} 200 (Some ''NotificationListResponse'') (fst (list_user_notifications e now q p l w))"
  "answers {401} 200 (Some ''UnreadCountResponse'') (fst (get_unread_notifications_count e now q w))"
  "answers {401, 404} 200 (Some ''None'') (fst (mark_one_read e now q nid w))"
  "answers {401} 200 (Some ''MarkAllReadResponse'') (fst (mark_all_read e now q w))"
  unfolding get_preferences_def patch_preferences_def list_user_notifications_def get_unread_notifications_count_def
    mark_one_read_def mark_all_read_def
  by (auto intro!: answer_intros reply_refused simp: model_ok_def on_db_def Let_def dest!: raises intro: request_refused
      split: option.split prod.split)

lemma newsletter_contact_answers:
  "answers {422} 200 (Some ''NewsletterSubscribeResponse'') (fst (subscribe_to_newsletter e now sid tok race ev email w))"
  "answers {404} 200 (Some ''None'') (fst (unsubscribe_from_newsletter now tok w))"
  "answers {} 200 (Some ''list[ContactSubjectOption]'') (fst (list_contact_subjects w))"
  "answers {422, 502} 201 (Some ''ContactResponse'') (fst (contact_us e now choice ev cr w))"
  unfolding subscribe_to_newsletter_def unsubscribe_from_newsletter_def list_contact_subjects_def contact_us_def
  by (auto intro!: answer_intros reply_refused simp: model_ok_def Let_def dest!: raises intro: request_refused
      split: option.split prod.split)

lemma admin_answers:
  "answers {401, 403, 422} 201 (Some ''admin.PlatformTemplateResponse'') (fst (create_template e now tid q tr w))"
  "answers {401, 403, 404, 422} 200 (Some ''admin.PlatformTemplateResponse'') (fst (update_template e now q tid tr w))"
  "answers {401, 403, 404} 200 (Some ''None'') (fst (delete_template e now q tid w))"
  "answers {401, 403, 422} 200 (Some ''list[admin.PlatformTemplateResponse]'') (fst (admin_list_templates e now q cat l p w))"
  "answers {401, 403, 404} 200 (Some ''admin.PlatformTemplateResponse'') (fst (admin_get_template e now q tid w))"
  unfolding create_template_def update_template_def delete_template_def admin_list_templates_def admin_get_template_def
    template_not_found_def
  by (auto intro!: answer_intros reply_refused simp: model_ok_def dest!: raises intro: request_refused split: option.split)

lemma gallery_answers:
  "answers {400, 422} 200 (Some ''PlatformTemplateListResponse'') (fst (list_templates coll cat p l w))"
  "answers {404} 200 (Some ''PlatformTemplateResponse'') (fst (get_template_page tid w))"
  "answers {} 200 None (fst (health w))"
  unfolding list_templates_def get_template_page_def health_def
  by (auto intro!: answer_intros reply_refused simp: model_ok_def Let_def dest!: raises intro: request_refused
      split: prod.split app_error.split)

lemma detail_data_answers:
  "case detail_data msg d b of Inl exc \<Rightarrow> refused_with E exc | Inr r \<Rightarrow> answers E 200 (Some ''BadgeDetailResponse'') r"
  by (auto simp: detail_data_def BadgeDetailResponse_def canvas_object_def response_error_def model_ok_def
      intro: answer_intros split: sum.split json.split)

lemma badge_answers:
  "answers {400, 401, 404} 201 (Some ''CreateBadgeResponse'') (fst (create_instance e now bid q tid w))"
  "answers {401, 422} 200 (Some ''BadgeListResponse'') (fst (list_instances e now q p l w))"
  "answers {401} 200 (Some ''BadgeAnalyticsResponse'') (fst (get_analytics e now q w))"
  "answers {401, 403, 404, 409} 200 (Some ''PublishedBadgeResponse'') (fst (publish e now choice q bid w))"
  "answers {401, 403, 404} 200 (Some ''PublishedBadgeResponse'') (fst (unpublish e now q bid w))"
  "answers {401, 403, 404} 201 (Some ''DuplicateBadgeResponse'') (fst (duplicate e now new_id ids q bid w))"
  "answers {401, 403, 404} 204 None (fst (remove_badge e now q bid w))"
  unfolding create_instance_def list_instances_def get_analytics_def publish_def unpublish_def duplicate_def remove_badge_def
  by (auto intro!: answer_intros reply_refused owner_error_refused simp: model_ok_def Let_def dest!: raises
      intro: request_refused split: prod.split)

lemma badge_detail_answers:
  "answers {401, 403, 404} 200 (Some ''BadgeDetailResponse'') (fst (get_single_badge e now q bid w))"
  unfolding get_single_badge_def
  by (auto intro!: answer_intros reply_refused owner_error_refused detail_data_answers dest!: raises)

lemma update_badge_answers:
  "answers {401, 403, 404, 422} 200 (Some ''BadgeDetailResponse'') (fst (update_badge e now ids q bid bu tags w))"
  unfolding update_badge_def
  by (auto intro!: answer_intros reply_refused owner_error_refused detail_data_answers simp: Let_def
      dest!: raises edit_plain [OF pair_fst] intro: request_refused split: prod.split app_error.split)

lemma upload_logo_answers:
  "answers {401, 403, 404, 413, 415, 502} 200 (Some ''LogoUploadResponse'') (fst (upload_logo_route e now u q bid ct data w))"
proof -
  have "check_logo ct data = Inl exc \<Longrightarrow> refused_with {401, 403, 404, 413, 415, 502} exc" for exc
    by (auto simp: check_logo_def unsupported_media_def Let_def split: if_splits)
  then show ?thesis
    unfolding upload_logo_route_def
    by (auto intro!: answer_intros reply_refused logo_error_refused simp: model_ok_def dest!: raises split: sum.split)
qed

lemma read_chunks_refused:
  "fst (read_chunks read m cs n fl) = Inl exc \<Longrightarrow> exc = too_large m"
  by (induction read m cs n fl rule: read_chunks.induct)
    (subst (asm) read_chunks.simps, auto simp: Let_def split: if_splits prod.splits)

lemma upload_photo_answers:
  "answers {400, 401} 200 (Some ''UserResponse'') (fst (upload_profile_photo_endpoint e now u q read fl w))"
proof -
  have "fst (read_file_with_size_check read m fl) = Inl exc \<Longrightarrow> refused_with {400, 401} exc" for m exc
    using read_chunks_refused [of read m "[]" 0 fl exc] by (simp add: read_file_with_size_check_def too_large_def)
  moreover have "validate_image_content c = Inl exc \<Longrightarrow> refused_with {400, 401} exc" for c exc
    by (auto simp: validate_image_content_def split: if_splits option.splits)
  ultimately show ?thesis
    unfolding upload_profile_photo_endpoint_def
    by (auto intro!: answer_intros reply_refused simp: model_ok_def dest!: raises split: sum.split)
qed

lemma public_page_answers:
  "answers {401, 403, 404} 200 (Some ''PublicBadgePageResponse'') (fst (get_participant_page slug code w))"
proof -
  have c: "check_access_code b code = Inl exc \<Longrightarrow> refused_with {401, 403, 404} exc" for b exc
    by (auto simp: check_access_code_def split: if_splits option.splits list.splits)
  have p: "PublicBadgePageResponse tags b = Inl exc \<Longrightarrow> refused_with E exc" for tags b exc E
    by (auto simp: PublicBadgePageResponse_def canvas_object_def response_error_def split: sum.splits json.splits)
  show ?thesis
    unfolding get_participant_page_def no_page_def
    by (auto intro!: answer_intros reply_refused simp: model_ok_def dest!: raises c p split: sum.split)
qed

lemma counter_answers:
  "answers {404} 200 (Some ''None'') (fst (increment_creation now nid slug w))"
  "answers {404} 200 (Some ''None'') (fst (increment_share now slug w))"
  unfolding increment_creation_def increment_share_def no_page_def
  by (auto intro!: answer_intros reply_refused simp: model_ok_def dest!: raises split: sum.split)

section \<open>Against the documentation\<close>

fun is_error_doc :: "response_doc \<Rightarrow> bool" where
  "is_error_doc (ErrorDoc x) = True"
| "is_error_doc (SuccessDoc x) = False"

text \<open>The error statuses of the documentation: the declared ones, and the 422 that FastAPI adds to a route with
  parameters of its own.\<close>

definition documented :: "route \<Rightarrow> nat list" where
  "documented r = map fst (filter (\<lambda>sd. is_error_doc (snd sd)) (rt_responses r)) @ (if rt_params r = [] then [] else [422])"

text \<open>The statuses that the documentation misses.\<close>

fun undocumented :: "api_call \<Rightarrow> nat list" where
  "undocumented (VerifyEmail sd tok) = [500]"
| "undocumented (GoogleLogin state) = [429]"
| "undocumented (GoogleCallback uid pid sd code state) = [429]"
| "undocumented (UploadLogo u bid ct data) = [502]"
| "undocumented (CreateTemplate tid tr) = [401, 403]"
| "undocumented (UpdateTemplate tid tr) = [401, 403]"
| "undocumented (DeleteTemplate tid) = [401, 403]"
| "undocumented (AdminListTemplates cat l off) = [401, 403, 429]"
| "undocumented (AdminGetTemplate tid) = [401, 403, 429]"
| "undocumented c = []"

definition answer_statuses :: "api_call \<Rightarrow> nat set" where
  "answer_statuses c = set (documented (route_of c)) \<union> set (undocumented c)"

text \<open>The statuses of each call, computed from the decorators.\<close>

lemma gate_statuses:
  "gate_of c = Organiser \<Longrightarrow> 401 \<in> answer_statuses c"
  "gate_of c = Administrator \<Longrightarrow> 401 \<in> answer_statuses c \<and> 403 \<in> answer_statuses c"
  by (cases c; simp add: answer_statuses_def documented_def route_defs)+

lemma limit_statuses: "per_minute c \<noteq> None \<Longrightarrow> 429 \<in> answer_statuses c"
  by (cases c; simp add: answer_statuses_def documented_def route_defs)

lemma body_statuses: "rt_params (route_of c) \<noteq> [] \<Longrightarrow> 422 \<in> answer_statuses c"
  by (simp add: answer_statuses_def documented_def)

lemma answers_mono: "answers E st m r \<Longrightarrow> E \<subseteq> E' \<Longrightarrow> answers E' st m r"
  by (auto simp: answers_def split: if_splits)

lemmas handler_answers = account_answers verify_email_answers google_answers session_answers profile_answers
  notification_answers newsletter_contact_answers admin_answers gallery_answers badge_answers badge_detail_answers
  update_badge_answers upload_logo_answers upload_photo_answers public_page_answers counter_answers

lemma api_answers:
  "answers (answer_statuses c) (rt_status (route_of c)) (rt_model (route_of c)) (fst (api e s now q c w))"
  by (cases c; simp add: answer_statuses_def documented_def route_defs; rule answers_mono, rule handler_answers, simp)

lemma body_error_params: "Rate_Limits.body_error s c = Some exc \<Longrightarrow> rt_params (route_of c) \<noteq> []"
  by (cases c) (simp_all add: Rate_Limits.body_error_def route_defs)

lemma error_of_is_Some [simp]: "error_of x = Some exc \<longleftrightarrow> x = Inl exc"
  by (cases x) (simp_all add: error_of_def)

lemma body_error_refused: "Rate_Limits.body_error s c = Some exc \<Longrightarrow> refused_with (answer_statuses c) exc"
  using body_statuses [OF body_error_params, of s c exc]
  by (cases c) (auto simp: Rate_Limits.body_error_def intro: request_refused)

lemma request_error_refused:
  assumes "request_error e s now q c w = Some exc"
  shows "refused_with (answer_statuses c) exc"
proof (cases "gate_error e now q c w")
  case None
  then show ?thesis using assms body_error_refused by (simp add: request_error_def)
next
  case (Some x)
  then have "x = exc" using assms by (simp add: request_error_def)
  with Some show ?thesis
    using gate_statuses [of c] by (auto simp: gate_error_def intro: current_user_refused current_admin_refused split: gate.splits)
qed

text \<open>C40. Every answer of the limited service is one its decorator documents, whatever the state, the environment and the
  request: a success has the declared status and data of the declared response model, an error has no data and a
  documented status, one of the fixed messages of the exception handler, or a status that \<open>undocumented\<close> lists.\<close>

theorem answers_documented:
  "answers (set (documented (route_of (tr_call r))) \<union> set (undocumented (tr_call r))) (rt_status (route_of (tr_call r)))
     (rt_model (route_of (tr_call r))) (fst (fst (limited_api hit e s r lw)))"
proof -
  obtain l w where lw: "lw = (l, w)" by (cases lw)
  let ?c = "tr_call r"
  have "answers (answer_statuses ?c) (rt_status (route_of ?c)) (rt_model (route_of ?c)) (fst (fst (limited_api hit e s r lw)))"
  proof (cases "request_error e s (tr_now r) (tr_http r) ?c w")
    case (Some exc)
    then show ?thesis using request_error_refused [OF Some] by (simp add: limited_api_def lw answers_error)
  next
    case None
    show ?thesis
    proof (cases "limit_key r")
      case key: None
      then show ?thesis using None api_answers by (simp add: limited_api_def lw Let_def)
    next
      case (Some k)
      then have "429 \<in> answer_statuses ?c" using limit_statuses by (auto simp: limit_key_def)
      with None Some show ?thesis using api_answers
        by (auto simp: limited_api_def lw Let_def intro: answers_error split: prod.split bool.split)
    qed
  qed
  then show ?thesis by (simp add: answer_statuses_def)
qed

end
