(* ===== verification/Wire.thy ===== *)
theory Wire
  imports Http
begin

text \<open>
  The bodies of the responses: the response models of \<open>app/schemas\<close> as JSON objects, field by field in the order
  of the class (computed fields last), and the envelopes of \<open>response.py\<close>.  The text Pydantic writes for an instant
  is the parameter \<open>dt\<close>.
\<close>

section \<open>Fields\<close>

definition opt_json :: "('a \<Rightarrow> json) \<Rightarrow> 'a option \<Rightarrow> json" where
  "opt_json f v = (case v of None \<Rightarrow> JNull | Some x \<Rightarrow> f x)"

definition uuid_json :: "uuid \<Rightarrow> json" where
  "uuid_json u = JStr (uuid_str u)"

abbreviation str_opt :: "string option \<Rightarrow> json" where
  "str_opt \<equiv> opt_json JStr"

abbreviation time_json :: "(time \<Rightarrow> string) \<Rightarrow> time \<Rightarrow> json" where
  "time_json dt t \<equiv> JStr (dt t)"

abbreviation time_opt :: "(time \<Rightarrow> string) \<Rightarrow> time option \<Rightarrow> json" where
  "time_opt dt \<equiv> opt_json (time_json dt)"

section \<open>Accounts\<close>

definition UserResponse_json :: "(time \<Rightarrow> string) \<Rightarrow> user_response \<Rightarrow> json" where
  "UserResponse_json dt r = JObj [(''id'', uuid_json (us_id r)), (''first_name'', JStr (us_first_name r)),
     (''last_name'', str_opt (us_last_name r)), (''email'', JStr (us_email r)),
     (''is_email_verified'', JBool (us_is_email_verified r)), (''profile_photo_url'', str_opt (us_profile_photo_url r)),
     (''role'', str_opt (us_role r)), (''created_at'', time_json dt (us_created_at r)),
     (''updated_at'', time_json dt (us_updated_at r))]"

definition LoginUserResponse_json :: "login_user_response \<Rightarrow> json" where
  "LoginUserResponse_json r = JObj [(''first_name'', JStr (lu_first_name r)), (''last_name'', str_opt (lu_last_name r)),
     (''email'', JStr (lu_email r)), (''is_email_verified'', JBool (lu_is_email_verified r))]"

definition LoginResponse_json :: "login_user_response \<Rightarrow> json" where
  "LoginResponse_json r = JObj [(''user'', LoginUserResponse_json r)]"

definition SessionResponse_json :: "(time \<Rightarrow> string) \<Rightarrow> session_response \<Rightarrow> json" where
  "SessionResponse_json dt r = JObj [(''session_id'', uuid_json (sr_session_id r)), (''user_agent'', str_opt (sr_user_agent r)),
     (''ip_address'', str_opt (sr_ip_address r)), (''created_at'', time_json dt (sr_created_at r)),
     (''last_used_at'', time_opt dt (sr_last_used_at r)), (''expires_at'', time_json dt (sr_expires_at r)),
     (''is_current'', JBool (sr_is_current r))]"

definition SessionListResponse_json :: "(time \<Rightarrow> string) \<Rightarrow> session_list_response \<Rightarrow> json" where
  "SessionListResponse_json dt r = JObj [(''sessions'', JList (map (SessionResponse_json dt) (sl_sessions r))),
     (''total'', JInt (sl_total r)), (''page'', JInt (sl_page r)), (''limit'', JInt (sl_limit r))]"

definition LogoutAllResponse_json :: "int \<Rightarrow> json" where
  "LogoutAllResponse_json n = JObj [(''sessions_revoked'', JInt n)]"

definition DeleteProfileResponse_json :: "uuid \<Rightarrow> json" where
  "DeleteProfileResponse_json u = JObj [(''id'', uuid_json u)]"

section \<open>Badges\<close>

definition CreateBadgeResponse_json :: "(time \<Rightarrow> string) \<Rightarrow> create_badge_response \<Rightarrow> json" where
  "CreateBadgeResponse_json dt r = JObj [(''id'', uuid_json (cb_id r)),
     (''platform_template_id'', uuid_json (cb_platform_template_id r)), (''organiser_id'', uuid_json (cb_organiser_id r)),
     (''created_at'', time_opt dt (cb_created_at r))]"

definition PublishedBadgeResponse_json :: "(time \<Rightarrow> string) \<Rightarrow> published_badge_response \<Rightarrow> json" where
  "PublishedBadgeResponse_json dt r = JObj [(''id'', uuid_json (pb_id r)), (''title'', JStr (pb_title r)),
     (''is_published'', JBool (pb_is_published r)), (''access_type'', JInt (pb_access_type r)),
     (''access_code'', str_opt (pb_access_code r)), (''published_at'', time_opt dt (pb_published_at r)),
     (''share_slug'', str_opt (pb_share_slug r)), (''updated_at'', time_opt dt (pb_updated_at r))]"

definition LogoUploadResponse_json :: "string \<Rightarrow> json" where
  "LogoUploadResponse_json url = JObj [(''logo_url'', JStr url)]"

definition PublicBadgePageResponse_json :: "public_badge_page_response \<Rightarrow> json" where
  "PublicBadgePageResponse_json r = JObj [(''title'', JStr (pp_title r)), (''access_type'', JInt (pp_access_type r)),
     (''canvas_data'', JObj (pp_canvas_data r)), (''logo_url'', str_opt (pp_logo_url r)),
     (''default_caption'', str_opt (pp_default_caption r)), (''destination_link'', str_opt (pp_destination_link r)),
     (''hashtags'', JList (map JStr (pp_hashtags r)))]"

definition DuplicateBadgeResponse_json :: "(time \<Rightarrow> string) \<Rightarrow> duplicate_badge_response \<Rightarrow> json" where
  "DuplicateBadgeResponse_json dt r = JObj [(''id'', uuid_json (dp_id r)), (''title'', JStr (dp_title r)),
     (''platform_template_id'', uuid_json (dp_platform_template_id r)), (''organiser_id'', uuid_json (dp_organiser_id r)),
     (''is_published'', JBool (dp_is_published r)), (''access_type'', JInt (dp_access_type r)),
     (''access_code'', str_opt (dp_access_code r)), (''created_at'', time_opt dt (dp_created_at r))]"

definition BadgeSummary_json :: "(time \<Rightarrow> string) \<Rightarrow> badge_summary \<Rightarrow> json" where
  "BadgeSummary_json dt r = JObj [(''id'', uuid_json (bs_id r)), (''title'', JStr (bs_title r)),
     (''platform_template_id'', uuid_json (bs_platform_template_id r)), (''thumbnail_url'', str_opt (bs_thumbnail_url r)),
     (''is_published'', JBool (bs_is_published r)), (''access_type'', JInt (bs_access_type r)),
     (''access_code'', str_opt (bs_access_code r)), (''share_slug'', str_opt (bs_share_slug r)),
     (''published_at'', time_opt dt (bs_published_at r)), (''created_at'', time_opt dt (bs_created_at r)),
     (''updated_at'', time_opt dt (bs_updated_at r)), (''total_shares'', JInt (bs_total_shares r)),
     (''total_badges_created'', JInt (bs_total_badges_created r)), (''status'', JStr (bs_status r))]"

text \<open>The list models: \<open>name\<close> is the field of the items.\<close>

definition page_json :: "string \<Rightarrow> ('a \<Rightarrow> json) \<Rightarrow> 'a page \<Rightarrow> json" where
  "page_json name f p = JObj [(name, JList (map f (pg_items p))), (''total'', JInt (pg_total p)), (''page'', JInt (pg_page p)),
     (''limit'', JInt (pg_limit p)), (''prev'', str_opt (pg_prev p)), (''next'', str_opt (pg_next p))]"

definition BadgeListResponse_json :: "(time \<Rightarrow> string) \<Rightarrow> badge_summary page \<Rightarrow> json" where
  "BadgeListResponse_json dt p = page_json ''badges'' (BadgeSummary_json dt) p"

definition BadgeDetailResponse_json :: "(time \<Rightarrow> string) \<Rightarrow> badge_detail_response \<Rightarrow> json" where
  "BadgeDetailResponse_json dt r = JObj [(''id'', uuid_json (bd_id r)), (''title'', JStr (bd_title r)),
     (''platform_template_id'', uuid_json (bd_platform_template_id r)), (''canvas_data'', JObj (bd_canvas_data r)),
     (''default_caption'', str_opt (bd_default_caption r)), (''destination_link'', str_opt (bd_destination_link r)),
     (''thumbnail_url'', str_opt (bd_thumbnail_url r)), (''logo_url'', str_opt (bd_logo_url r)),
     (''access_type'', JInt (bd_access_type r)), (''access_code'', str_opt (bd_access_code r)),
     (''is_published'', JBool (bd_is_published r)), (''share_slug'', str_opt (bd_share_slug r)),
     (''published_at'', time_opt dt (bd_published_at r)), (''hashtags'', JList (map JStr (bd_hashtags r))),
     (''created_at'', time_opt dt (bd_created_at r)), (''updated_at'', time_opt dt (bd_updated_at r)),
     (''total_shares'', JInt (bd_total_shares r)), (''total_badges_created'', JInt (bd_total_badges_created r))]"

definition PlatformTemplateUsage_json :: "uuid \<times> int \<Rightarrow> json" where
  "PlatformTemplateUsage_json r = JObj [(''platform_template_id'', uuid_json (fst r)), (''count'', JInt (snd r))]"

definition BadgeAnalyticsResponse_json :: "badge_analytics_response \<Rightarrow> json" where
  "BadgeAnalyticsResponse_json r = JObj [(''total_organiser_badges'', JInt (an_total_organiser_badges r)),
     (''total_active_badges'', JInt (an_total_active_badges r)), (''total_shares'', JInt (an_total_shares r)),
     (''total_badges_created'', JInt (an_total_badges_created r)),
     (''platform_template_usage'', JList (map PlatformTemplateUsage_json (an_platform_template_usage r))),
     (''total_draft_badges'', JInt (an_total_draft_badges r))]"

section \<open>Templates, notifications, outreach\<close>

definition PlatformTemplateResponse_json :: "(time \<Rightarrow> string) \<Rightarrow> platform_template_response \<Rightarrow> json" where
  "PlatformTemplateResponse_json dt r = JObj [(''id'', uuid_json (tp_id r)), (''title'', JStr (tp_title r)),
     (''category'', JStr (tp_category r)), (''thumbnail_url'', str_opt (tp_thumbnail_url r)),
     (''canvas_data'', opt_json id (tp_canvas_data r)), (''is_active'', JBool (tp_is_active r)),
     (''total_badges_made'', JInt (tp_total_badges_made r)), (''created_at'', time_opt dt (tp_created_at r))]"

definition PlatformTemplateListResponse_json :: "(time \<Rightarrow> string) \<Rightarrow> platform_template_response page \<Rightarrow> json" where
  "PlatformTemplateListResponse_json dt p = page_json ''templates'' (PlatformTemplateResponse_json dt) p"

definition AdminTemplateResponse_json :: "(time \<Rightarrow> string) \<Rightarrow> admin_template_response \<Rightarrow> json" where
  "AdminTemplateResponse_json dt r = JObj [(''id'', uuid_json (at_id r)), (''title'', JStr (at_title r)),
     (''category'', JStr (at_category r)), (''canvas_data'', opt_json id (at_canvas_data r)),
     (''thumbnail_url'', str_opt (at_thumbnail_url r)), (''is_active'', JBool (at_is_active r)),
     (''created_at'', time_opt dt (at_created_at r)), (''updated_at'', time_opt dt (at_updated_at r))]"

definition NotificationPreferencesResponse_json :: "(time \<Rightarrow> string) \<Rightarrow> preferences_response \<Rightarrow> json" where
  "NotificationPreferencesResponse_json dt r = JObj [(''email_template_published'', JBool (pr_email_template_published r)),
     (''email_new_signin'', JBool (pr_email_new_signin r)), (''notify_badge_creation'', JBool (pr_notify_badge_creation r)),
     (''notify_daily_digest'', JBool (pr_notify_daily_digest r)), (''notify_weekly_report'', JBool (pr_notify_weekly_report r)),
     (''updated_at'', time_opt dt (pr_updated_at r))]"

text \<open>The value of a member of \<open>NotificationType\<close>.\<close>

fun notification_value :: "notification_type \<Rightarrow> string" where
  "notification_value BADGE_CREATION = ''badge_alert''"
| "notification_value DAILY_DIGEST = ''daily_digest''"
| "notification_value WEEKLY_REPORT = ''weekly_report''"

definition NotificationResponse_json :: "(time \<Rightarrow> string) \<Rightarrow> notification_response \<Rightarrow> json" where
  "NotificationResponse_json dt r = JObj [(''id'', uuid_json (nt_id r)), (''type'', JStr (notification_value (nt_type r))),
     (''title'', JStr (nt_title r)), (''body'', JStr (nt_body r)), (''is_read'', JBool (nt_is_read r)),
     (''extra_data'', opt_json id (nt_extra_data r)), (''created_at'', time_json dt (nt_created_at r))]"

definition NotificationListResponse_json :: "(time \<Rightarrow> string) \<Rightarrow> notification_response page \<Rightarrow> json" where
  "NotificationListResponse_json dt p = page_json ''notifications'' (NotificationResponse_json dt) p"

definition UnreadCountResponse_json :: "int \<Rightarrow> json" where
  "UnreadCountResponse_json n = JObj [(''unread_count'', JInt n)]"

definition MarkAllReadResponse_json :: "int \<Rightarrow> json" where
  "MarkAllReadResponse_json n = JObj [(''marked'', JInt n)]"

definition ContactSubjectOption_json :: "string \<times> string \<Rightarrow> json" where
  "ContactSubjectOption_json x = JObj [(''value'', JStr (fst x)), (''label'', JStr (snd x))]"

definition ContactResponse_json :: "string \<Rightarrow> string \<Rightarrow> json" where
  "ContactResponse_json reference_id email = JObj [(''reference_id'', JStr reference_id), (''email'', JStr email)]"

definition NewsletterSubscribeResponse_json :: "(time \<Rightarrow> string) \<Rightarrow> string \<Rightarrow> time \<Rightarrow> json" where
  "NewsletterSubscribeResponse_json dt email subscribed_at =
     JObj [(''email'', JStr email), (''subscribed_at'', time_json dt subscribed_at)]"

section \<open>The body\<close>

primrec payload_json :: "(time \<Rightarrow> string) \<Rightarrow> payload \<Rightarrow> json" where
  "payload_json dt NoData = JNull"
| "payload_json dt (UserData x) = UserResponse_json dt x"
| "payload_json dt (LoginData x) = LoginResponse_json x"
| "payload_json dt (NextData x) = JObj [(''next'', JStr x)]"
| "payload_json dt (SessionData x) = SessionListResponse_json dt x"
| "payload_json dt (RevokedData x) = LogoutAllResponse_json x"
| "payload_json dt (DeletedData x) = DeleteProfileResponse_json x"
| "payload_json dt (CreatedBadge x) = CreateBadgeResponse_json dt x"
| "payload_json dt (PublishedBadge x) = PublishedBadgeResponse_json dt x"
| "payload_json dt (DuplicatedBadge x) = DuplicateBadgeResponse_json dt x"
| "payload_json dt (BadgeDetail x) = BadgeDetailResponse_json dt x"
| "payload_json dt (BadgePage x) = BadgeListResponse_json dt x"
| "payload_json dt (BadgeAnalytics x) = BadgeAnalyticsResponse_json x"
| "payload_json dt (LogoData x) = LogoUploadResponse_json x"
| "payload_json dt (PublicPage x) = PublicBadgePageResponse_json x"
| "payload_json dt (TemplatePage x) = PlatformTemplateListResponse_json dt x"
| "payload_json dt (TemplateData x) = PlatformTemplateResponse_json dt x"
| "payload_json dt (AdminTemplate x) = AdminTemplateResponse_json dt x"
| "payload_json dt (AdminTemplates xs) = JList (map (AdminTemplateResponse_json dt) xs)"
| "payload_json dt (Preferences x) = NotificationPreferencesResponse_json dt x"
| "payload_json dt (NotificationPage x) = NotificationListResponse_json dt x"
| "payload_json dt (UnreadCount x) = UnreadCountResponse_json x"
| "payload_json dt (MarkedCount x) = MarkAllReadResponse_json x"
| "payload_json dt (SubjectOptions xs) = JList (map ContactSubjectOption_json xs)"
| "payload_json dt (ContactData x y) = ContactResponse_json x y"
| "payload_json dt (SubscriberData x y) = NewsletterSubscribeResponse_json dt x y"

definition SuccessResponse_json :: "string \<Rightarrow> json \<Rightarrow> json" where
  "SuccessResponse_json message d = JObj [(''status'', JStr ''success''), (''message'', JStr message), (''data'', d)]"

definition ErrorResponse_json :: "string \<Rightarrow> json" where
  "ErrorResponse_json message = JObj [(''status'', JStr ''error''), (''message'', JStr message)]"

text \<open>
  A redirect and a 204 have no body; \<open>model\<close> is the response model of the route, and the health check, which has
  none, returns its dictionary as it is.
\<close>

definition response_body :: "(time \<Rightarrow> string) \<Rightarrow> string option \<Rightarrow> http_response \<Rightarrow> json option" where
  "response_body dt model r =
     (if 400 \<le> hr_status r then Some (ErrorResponse_json (hr_message r))
      else if hr_status r = 204 \<or> hr_status r = 307 then None
      else if model = None then Some (JObj [(''status'', JStr (hr_message r))])
      else Some (SuccessResponse_json (hr_message r) (payload_json dt (hr_data r))))"

end
