(* ===== verification/Examples.thy ===== *)
theory Examples
  imports Answers Wire
begin

text \<open>
  The examples of the documentation against the bodies the routes send.
\<close>

section \<open>The shape of a body\<close>

text \<open>
  A body has the shape of an example: the same fields, values of the same kind; a null may stand for any value, and
  \<open>canvas_data\<close> is any object.
\<close>

fun same_shape :: "json \<Rightarrow> json \<Rightarrow> bool" where
  "same_shape JNull j = True"
| "same_shape (JBool b) j = (case j of JNull \<Rightarrow> True | JBool c \<Rightarrow> True | _ \<Rightarrow> False)"
| "same_shape (JInt i) j = (case j of JNull \<Rightarrow> True | JInt k \<Rightarrow> True | _ \<Rightarrow> False)"
| "same_shape (JDec m n) j = (case j of JNull \<Rightarrow> True | JDec k l \<Rightarrow> True | _ \<Rightarrow> False)"
| "same_shape (JStr s) j = (case j of JNull \<Rightarrow> True | JStr t \<Rightarrow> True | _ \<Rightarrow> False)"
| "same_shape (JList xs) j = (case j of JNull \<Rightarrow> True
     | JList ys \<Rightarrow> list_all (\<lambda>x. list_all (\<lambda>y. same_shape x y) ys) xs | _ \<Rightarrow> False)"
| "same_shape (JObj kvs) j = (case j of JNull \<Rightarrow> True
     | JObj kws \<Rightarrow> list_all (\<lambda>kw. fst kw \<in> fst ` set kvs) kws \<and>
         list_all (\<lambda>kv. case map_of kws (fst kv) of None \<Rightarrow> False
           | Some w \<Rightarrow> fst kv = ''canvas_data'' \<or> same_shape (snd kv) w) kvs
     | _ \<Rightarrow> False)"

section \<open>The documented examples\<close>

definition success_example :: "route \<Rightarrow> json option" where
  "success_example r = (case map_of (rt_responses r) (rt_status r) of Some (SuccessDoc x) \<Rightarrow> x | _ \<Rightarrow> None)"

text \<open>
  The examples that are out of date: those of a registered user and of a log-in show a \<open>name\<close> and other fields that are
  not sent, those of the public page and of the gallery miss a field that is.
\<close>

definition stale_example :: "api_call \<Rightarrow> payload \<Rightarrow> bool" where
  "stale_example c p = (case c of
     Register dr body \<Rightarrow> True
   | Login dr email pw \<Rightarrow> True
   | ParticipantPage slug code \<Rightarrow> True
   | ListGallery cat pg lim \<Rightarrow> (case p of TemplatePage x \<Rightarrow> pg_items x \<noteq> [] | _ \<Rightarrow> False)
   | _ \<Rightarrow> False)"

lemma model_payload:
  "payload_model p = ''None'' \<Longrightarrow> p = NoData"
  "payload_model p = ''UserResponse'' \<Longrightarrow> \<exists>x. p = UserData x"
  "payload_model p = ''LoginResponse'' \<Longrightarrow> \<exists>x. p = LoginData x"
  "payload_model p = ''CreateBadgeResponse'' \<Longrightarrow> \<exists>x. p = CreatedBadge x"
  "payload_model p = ''BadgeListResponse'' \<Longrightarrow> \<exists>x. p = BadgePage x"
  "payload_model p = ''BadgeAnalyticsResponse'' \<Longrightarrow> \<exists>x. p = BadgeAnalytics x"
  "payload_model p = ''LogoUploadResponse'' \<Longrightarrow> \<exists>x. p = LogoData x"
  "payload_model p = ''PublicBadgePageResponse'' \<Longrightarrow> \<exists>x. p = PublicPage x"
  "payload_model p = ''PlatformTemplateListResponse'' \<Longrightarrow> \<exists>x. p = TemplatePage x"
  "payload_model p = ''list[ContactSubjectOption]'' \<Longrightarrow> \<exists>x. p = SubjectOptions x"
  "payload_model p = ''ContactResponse'' \<Longrightarrow> \<exists>x y. p = ContactData x y"
  by (cases p; simp)+

lemma text_or_null [simp]:
  "case opt_json JStr v of JNull \<Rightarrow> True | JStr t \<Rightarrow> True | _ \<Rightarrow> False"
  "case opt_json (\<lambda>t. JStr (f t)) v' of JNull \<Rightarrow> True | JStr t \<Rightarrow> True | _ \<Rightarrow> False"
  by (simp_all add: opt_json_def split: option.split)

lemma no_example:
  "success_example route_health = None"
  "success_example route_get_current_user_profile = None"
  "success_example route_reset_organizer_password = None"
  "success_example route_logout = None"
  "success_example route_verify_email = None"
  "success_example route_google_login = None"
  "success_example route_google_callback = None"
  "success_example route_list_sessions = None"
  "success_example route_logout_all = None"
  "success_example route_get_profile = None"
  "success_example route_update_user_profile = None"
  "success_example route_delete_user_profile = None"
  "success_example route_upload_profile_photo_endpoint = None"
  "success_example route_remove_profile_photo_endpoint = None"
  "success_example route_change_user_password = None"
  "success_example route_subscribe_to_newsletter = None"
  "success_example route_unsubscribe_from_newsletter = None"
  "success_example route_get_preferences = None"
  "success_example route_patch_preferences = None"
  "success_example route_list_user_notifications = None"
  "success_example route_get_unread_notifications_count = None"
  "success_example route_mark_one_read = None"
  "success_example route_mark_all_read = None"
  "success_example route_get_template_page = None"
  "success_example route_create_template = None"
  "success_example route_update_template = None"
  "success_example route_delete_template = None"
  "success_example route_admin_list_templates = None"
  "success_example route_admin_get_template = None"
  "success_example route_get_single_badge = None"
  "success_example route_publish = None"
  "success_example route_unpublish = None"
  "success_example route_duplicate = None"
  "success_example route_remove_badge = None"
  "success_example route_update_badge = None"
  "success_example route_increment_creation = None"
  "success_example route_increment_share = None"
  by (simp_all add: success_example_def route_defs)

lemma fit_empty:
  "success_example route_resend_verification = Some ex \<Longrightarrow> same_shape ex (SuccessResponse_json m JNull)"
  "success_example route_refresh = Some ex \<Longrightarrow> same_shape ex (SuccessResponse_json m JNull)"
  "success_example route_forgot_password = Some ex \<Longrightarrow> same_shape ex (SuccessResponse_json m JNull)"
  by (auto simp: success_example_def route_defs SuccessResponse_json_def)

lemma stale_ones:
  "success_example route_register = Some ex \<Longrightarrow> \<not> same_shape ex (SuccessResponse_json m (UserResponse_json dt u))"
  "success_example route_login = Some ex \<Longrightarrow> \<not> same_shape ex (SuccessResponse_json m (LoginResponse_json l))"
  "success_example route_get_participant_page = Some ex \<Longrightarrow>
     \<not> same_shape ex (SuccessResponse_json m (PublicBadgePageResponse_json g))"
  by (auto simp: success_example_def route_defs SuccessResponse_json_def UserResponse_json_def LoginResponse_json_def
      LoginUserResponse_json_def PublicBadgePageResponse_json_def)

lemma gallery_example: "success_example route_list_templates = Some ex \<Longrightarrow>
    same_shape ex (SuccessResponse_json m (PlatformTemplateListResponse_json dt x)) \<longleftrightarrow> pg_items x = []"
  by (cases "pg_items x") (auto simp: success_example_def route_defs SuccessResponse_json_def
      PlatformTemplateListResponse_json_def PlatformTemplateResponse_json_def page_json_def)

lemma fitting_ones:
  "success_example route_create_instance = Some ex \<Longrightarrow> same_shape ex (SuccessResponse_json m (CreateBadgeResponse_json dt c))"
  "success_example route_list_instances = Some ex \<Longrightarrow> same_shape ex (SuccessResponse_json m (BadgeListResponse_json dt b))"
  "success_example route_get_analytics = Some ex \<Longrightarrow> same_shape ex (SuccessResponse_json m (BadgeAnalyticsResponse_json a))"
  "success_example route_upload_logo = Some ex \<Longrightarrow> same_shape ex (SuccessResponse_json m (LogoUploadResponse_json url))"
  "success_example route_list_contact_subjects = Some ex \<Longrightarrow>
     same_shape ex (SuccessResponse_json m (JList (map ContactSubjectOption_json xs)))"
  "success_example route_contact_us = Some ex \<Longrightarrow> same_shape ex (SuccessResponse_json m (ContactResponse_json r e))"
       apply (auto simp: success_example_def route_create_instance_def SuccessResponse_json_def CreateBadgeResponse_json_def uuid_json_def) [1]
      apply (auto simp: success_example_def route_list_instances_def SuccessResponse_json_def BadgeListResponse_json_def
        BadgeSummary_json_def page_json_def uuid_json_def list_all_iff) [1]
     apply (auto simp: success_example_def route_get_analytics_def SuccessResponse_json_def BadgeAnalyticsResponse_json_def
        PlatformTemplateUsage_json_def uuid_json_def list_all_iff) [1]
    apply (auto simp: success_example_def route_upload_logo_def SuccessResponse_json_def LogoUploadResponse_json_def) [1]
   apply (auto simp: success_example_def route_list_contact_subjects_def SuccessResponse_json_def ContactSubjectOption_json_def
      list_all_iff) [1]
  by (auto simp: success_example_def route_contact_us_def SuccessResponse_json_def ContactResponse_json_def)

lemma route_models:
  "rt_status route_register = 201" "rt_model route_register = Some ''UserResponse''"
  "rt_status route_resend_verification = 200" "rt_model route_resend_verification = Some ''None''"
  "rt_status route_login = 200" "rt_model route_login = Some ''LoginResponse''"
  "rt_status route_refresh = 200" "rt_model route_refresh = Some ''None''"
  "rt_status route_forgot_password = 200" "rt_model route_forgot_password = Some ''None''"
  "rt_status route_list_contact_subjects = 200" "rt_model route_list_contact_subjects = Some
      ''list[ContactSubjectOption]''"
  "rt_status route_contact_us = 201" "rt_model route_contact_us = Some ''ContactResponse''"
  "rt_status route_list_templates = 200" "rt_model route_list_templates = Some ''PlatformTemplateListResponse''"
  "rt_status route_create_instance = 201" "rt_model route_create_instance = Some ''CreateBadgeResponse''"
  "rt_status route_list_instances = 200" "rt_model route_list_instances = Some ''BadgeListResponse''"
  "rt_status route_get_analytics = 200" "rt_model route_get_analytics = Some ''BadgeAnalyticsResponse''"
  "rt_status route_upload_logo = 200" "rt_model route_upload_logo = Some ''LogoUploadResponse''"
  "rt_status route_get_participant_page = 200" "rt_model route_get_participant_page = Some
      ''PublicBadgePageResponse''"
  by (simp_all add: route_defs)

lemma example_fits:
  assumes "success_example (route_of c) = Some ex" "model_ok (rt_model (route_of c)) p"
  shows "same_shape ex (SuccessResponse_json m (payload_json dt p)) \<longleftrightarrow> \<not> stale_example c p"
  using assms
  by (cases c)
    (auto simp: no_example model_ok_def stale_example_def stale_ones gallery_example fit_empty fitting_ones route_models
      dest!: model_payload)

lemma example_routes:
  "success_example (route_of c) = Some ex \<Longrightarrow> rt_model (route_of c) \<noteq> None \<and> rt_status (route_of c) \<in> {200, 201}"
  by (cases c) (simp_all add: no_example route_models)

text \<open>The documented examples: where a route documents an example of its success, every success of the route has a body of
  that shape, the same fields with values of the same kinds, but for the examples that \<open>stale_example\<close> lists, which
  no success has.\<close>

theorem examples_fit:
  assumes "success_example (route_of c) = Some ex" "fst (api e s now q c w) = r" "hr_status r < 400"
  shows "\<exists>b. response_body dt (rt_model (route_of c)) r = Some b \<and> (same_shape ex b \<longleftrightarrow> \<not> stale_example c (hr_data r))"
proof -
  have "hr_status r = rt_status (route_of c)" "model_ok (rt_model (route_of c)) (hr_data r)"
    using api_answers [of c e s now q w] assms(2,3) by (simp_all add: answers_def)
  moreover have "rt_model (route_of c) \<noteq> None" "rt_status (route_of c) \<in> {200, 201}" using example_routes [OF assms(1)] by simp_all
  ultimately show ?thesis using example_fits [OF assms(1)] assms(3) by (auto simp: response_body_def)
qed

text \<open>The subjects of the contact form fit their example.\<close>

theorem examples_fit_witness:
  "\<exists>ex b. success_example route_list_contact_subjects = Some ex
     \<and> response_body (\<lambda>t. []) (rt_model route_list_contact_subjects)
         (fst (list_contact_subjects (demo_world empty_db))) = Some b \<and> same_shape ex b"
proof -
  obtain ex where ex: "success_example (route_of ContactSubjects) = Some ex"
    by (simp add: success_example_def route_list_contact_subjects_def)
  let ?r = "fst (api demo_env undefined 0 undefined ContactSubjects (demo_world empty_db))"
  have "hr_status ?r < 400" by (simp add: list_contact_subjects_def ok_def)
  from examples_fit [OF ex refl this, of "\<lambda>t. []"] ex show ?thesis by (auto simp: stale_example_def)
qed

end
