(* ===== verification/Assembly.thy ===== *)
theory Assembly
  imports Application Middleware Request_Log Library_Logs
begin

text \<open>
  \<open>app/main.py\<close> puts the service together: the exception handlers, the middleware and the router.  A layer maps
  what the layers inside it produce, a response or an exception, and the lines they log.  Starlette's order is
  documented: the middleware added last is outermost, the handler of \<open>Exception\<close> stands outside all of it, the
  handlers of the other exceptions stand inside.
\<close>

record served =
  sv_answer :: http_response
  sv_headers :: "(string \<times> string) list"

type_synonym produced = "(app_error + served) \<times> log_line list"

definition plain_served :: "http_response \<Rightarrow> served" where
  "plain_served a = \<lparr>sv_answer = a, sv_headers = []\<rparr>"

section \<open>The exception handlers\<close>

text \<open>\<open>register_exception_handlers\<close>: the types besides \<open>Exception\<close>.\<close>

fun registered :: "app_error \<Rightarrow> bool" where
  "registered RateLimitExceeded = True"
| "registered (HTTPException status detail) = True"
| "registered (RequestValidationError errors) = True"
| "registered exc = False"

definition exception_middleware :: "app_error + http_response \<Rightarrow> produced" where
  "exception_middleware r = (case r of
     Inr a \<Rightarrow> (Inr (plain_served a), [])
   | Inl exc \<Rightarrow> (if registered exc then Inr (plain_served (error_response exc)) else Inl exc, []))"

definition server_error_middleware :: "produced \<Rightarrow> served \<times> log_line list" where
  "server_error_middleware p = (case fst p of
     Inr a \<Rightarrow> (a, snd p) | Inl exc \<Rightarrow> (plain_served (error_response exc), snd p))"

section \<open>The middleware\<close>

record cors_config =
  cc_allow_origins :: "string list"
  cc_allow_credentials :: bool
  cc_allow_methods :: "string list"
  cc_allow_headers :: "string list"
  cc_expose_headers :: "string list"

definition cors_settings :: "settings \<Rightarrow> cors_config" where
  "cors_settings s = \<lparr>cc_allow_origins = ALLOWED_ORIGINS s, cc_allow_credentials = True,
     cc_allow_methods = [''GET'', ''POST'', ''PUT'', ''DELETE'', ''OPTIONS'', ''PATCH''],
     cc_allow_headers = [''Content-Type'', ''Authorization'', ''X-Requested-With'', ''Accept'', ''Accept-Language'', ''Origin''],
     cc_expose_headers = [''Content-Length'']\<rparr>"

text \<open>
  What the CORS middleware adds to the response of a request that is not a preflight, by the \<open>Origin\<close> of the request.
\<close>

type_synonym cors_headers = "cors_config \<Rightarrow> string option \<Rightarrow> (string \<times> string) list"

definition ALLOW_ORIGIN :: string where
  "ALLOW_ORIGIN = ''access-control-allow-origin''"

locale cors_contract =
  fixes cors :: "cors_config \<Rightarrow> string option \<Rightarrow> (string \<times> string) list"
  assumes allowed: "origin \<in> set (cc_allow_origins c) \<Longrightarrow> map_of (cors c (Some origin)) ''access-control-allow-origin'' = Some origin"
    and refused: "''*'' \<notin> set (cc_allow_origins c) \<Longrightarrow> origin \<notin> set (cc_allow_origins c) \<Longrightarrow>
      map_of (cors c (Some origin)) ''access-control-allow-origin'' = None"

definition simple_cors :: cors_headers where
  "simple_cors c origin = (case origin of None \<Rightarrow> []
     | Some v \<Rightarrow> if v \<in> set (cc_allow_origins c) then [(ALLOW_ORIGIN, v)] else [])"

interpretation simple_cors: cors_contract simple_cors
  by unfold_locales (simp_all add: simple_cors_def ALLOW_ORIGIN_def)

datatype middleware = RequestLoggingMiddleware | ContentSizeLimitMiddleware nat | CORSMiddleware cors_config

text \<open>
  The request as the middleware sees it.  The size limit refuses by the announced length here, the counting of a body
  that is sent in pieces is in \<open>Middleware\<close>; a request it refuses does not reach the layers inside.
\<close>

record inbound =
  in_logged :: logged_request
  in_origin :: "string option"
  in_length :: "string option"

fun apply_middleware :: "cors_headers \<Rightarrow> inbound \<Rightarrow> middleware \<Rightarrow> produced \<Rightarrow> produced" where
  "apply_middleware cors q RequestLoggingMiddleware p =
     (fst p, snd p @ log_lines (lr_method (in_logged q)) (lr_path (in_logged q))
        (case fst p of Inl exc \<Rightarrow> None | Inr a \<Rightarrow> Some (hr_status (sv_answer a))))"
| "apply_middleware cors q (ContentSizeLimitMiddleware n) p =
     (case fst (content_size_limit n ''http'' (in_length q) (Answer p) []) of
        Some (JSONResponse status message) \<Rightarrow> (Inr (plain_served (ok status message NoData)), [])
      | _ \<Rightarrow> p)"
| "apply_middleware cors q (CORSMiddleware c) p =
     (case fst p of Inl exc \<Rightarrow> p | Inr a \<Rightarrow> (Inr (a\<lparr>sv_headers := cors c (in_origin q) @ sv_headers a\<rparr>), snd p))"

text \<open>The calls of \<open>add_middleware\<close>, in their order.\<close>

definition added_middleware :: "settings \<Rightarrow> middleware list" where
  "added_middleware s = [RequestLoggingMiddleware, ContentSizeLimitMiddleware (nat (MAX_CONTENT_BODY_SIZE s)),
     CORSMiddleware (cors_settings s)]"

definition application :: "cors_headers \<Rightarrow> settings \<Rightarrow> inbound \<Rightarrow> app_error + http_response \<Rightarrow> served \<times> log_line list" where
  "application cors s q r = server_error_middleware (fold (apply_middleware cors q) (added_middleware s) (exception_middleware r))"

section \<open>What the layers make of an answer\<close>

definition announces_too_much :: "settings \<Rightarrow> inbound \<Rightarrow> bool" where
  "announces_too_much s q = (case in_length q of None \<Rightarrow> False
     | Some v \<Rightarrow> (case py_int v of None \<Rightarrow> True | Some n \<Rightarrow> n > int (nat (MAX_CONTENT_BODY_SIZE s))))"

lemma allowed_origins [simp]: "cc_allow_origins (cors_settings s) = ALLOWED_ORIGINS s"
  by (simp add: cors_settings_def)

lemma size_limit_layer:
  "apply_middleware cors q (ContentSizeLimitMiddleware (nat (MAX_CONTENT_BODY_SIZE s))) p =
     (if announces_too_much s q
      then (Inr (plain_served (case py_int (the (in_length q)) of
              None \<Rightarrow> ok 400 ''Invalid Content-Length header'' NoData
            | Some n \<Rightarrow> ok 413 ''Request body too large'' NoData)), [])
      else p)"
  by (auto simp: content_size_limit_def announces_too_much_def Let_def split: option.splits)

declare apply_middleware.simps(2) [simp del]

lemmas layers = application_def added_middleware_def size_limit_layer server_error_middleware_def exception_middleware_def
  plain_served_def

text \<open>The status and the body do not depend on where an exception is caught.\<close>

lemma application_answer:
  "\<not> announces_too_much s q \<Longrightarrow>
   sv_answer (fst (application cors s q r)) = (case r of Inl exc \<Rightarrow> error_response exc | Inr a \<Rightarrow> a)"
  by (auto simp: layers split: sum.splits)

text \<open>A request refused for its size leaves no line in the log.\<close>

lemma oversized_request:
  assumes "announces_too_much s q"
  shows "hr_status (sv_answer (fst (application cors s q r))) \<in> {400, 413}" "snd (application cors s q r) = []"
  using assms by (auto simp: layers ok_def split: option.splits)

text \<open>
  An answer of the inner layers is logged with its status and carries the CORS headers; an exception without a
  handler of its own is logged as a failure, and its answer carries none.
\<close>

lemma answered_inside:
  assumes "\<not> announces_too_much s q" "case r of Inl exc \<Rightarrow> registered exc | Inr a \<Rightarrow> True"
  shows "sv_headers (fst (application cors s q r)) = cors (cors_settings s) (in_origin q)"
    and "snd (application cors s q r) = log_lines (lr_method (in_logged q)) (lr_path (in_logged q))
      (Some (hr_status (case r of Inl exc \<Rightarrow> error_response exc | Inr a \<Rightarrow> a)))"
  using assms by (auto simp: layers split: sum.splits)

lemma answered_outside:
  assumes "\<not> announces_too_much s q" "\<not> registered exc"
  shows "sv_headers (fst (application cors s q (Inl exc))) = []"
    and "snd (application cors s q (Inl exc)) = log_lines (lr_method (in_logged q)) (lr_path (in_logged q)) None"
  using assms by (auto simp: layers)

text \<open>
  So a page of an allowed origin can read every answer but those of the outermost handler: the duplicate that the
  database refuses, a database error, an unexpected exception.
\<close>

context cors_contract
begin

lemma readable_answer:
  assumes "\<not> announces_too_much s q" "in_origin q = Some origin" "origin \<in> set (ALLOWED_ORIGINS s)"
  shows "map_of (sv_headers (fst (application cors s q r))) ''access-control-allow-origin'' = Some origin
    \<longleftrightarrow> (case r of Inl exc \<Rightarrow> registered exc | Inr a \<Rightarrow> True)"
proof (cases "case r of Inl exc \<Rightarrow> registered exc | Inr a \<Rightarrow> True")
  case True
  then show ?thesis using answered_inside(1) [OF assms(1) True, of cors] allowed [of origin "cors_settings s"] assms by simp
next
  case False
  then obtain exc where "r = Inl exc" "\<not> registered exc" by (cases r) auto
  then show ?thesis using answered_outside(1) [OF assms(1), of exc cors] by simp
qed

lemma foreign_page:
  assumes "in_origin q = Some origin" "origin \<notin> set (ALLOWED_ORIGINS s)" "''*'' \<notin> set (ALLOWED_ORIGINS s)"
  shows "map_of (sv_headers (fst (application cors s q r))) ''access-control-allow-origin'' = None"
  using refused [of "cors_settings s" origin] assms
  by (auto simp: layers split: sum.splits)

end

lemma constraint_violation_unreadable:
  assumes "\<not> announces_too_much s q"
  shows "hr_status (sv_answer (fst (application simple_cors s q (Inl IntegrityError)))) = 409"
    and "map_of (sv_headers (fst (application simple_cors s q (Inl IntegrityError)))) ALLOW_ORIGIN = None"
  using assms by (simp_all add: application_answer answered_outside error_response_def global_exception_handler_def ok_def)

section \<open>Start and stop\<close>

text \<open>
  \<open>lifespan\<close>: the logging is set up before the first request, and the pool of Redis connections is closed after the last;
  \<open>serve\<close> is all that happens in between.  An error of the set-up stops the start: nothing is served or closed.
\<close>

definition lifespan :: "settings \<Rightarrow> log_tree \<Rightarrow> ('p \<Rightarrow> 'p) \<Rightarrow> (sink list \<times> log_tree \<Rightarrow> 'p \<Rightarrow> 'p) \<Rightarrow> 'p \<Rightarrow> app_error + 'p" where
  "lifespan s t disconnect serve pool = (case setup_logging (LOG_LEVEL s) (LOG_FILE s) (ENVIRONMENT s) t of
     Inl err \<Rightarrow> Inl err | Inr logging \<Rightarrow> Inr (disconnect (serve logging pool)))"

lemma service_starts:
  "(\<exists>p. lifespan s t disconnect serve pool = Inr p) \<longleftrightarrow>
   LOG_LEVEL s \<in> {''CRITICAL'', ''ERROR'', ''WARNING'', ''INFO'', ''DEBUG''}"
proof -
  have "(\<exists>p. lifespan s t disconnect serve pool = Inr p) \<longleftrightarrow> (\<exists>r. setup_logging (LOG_LEVEL s) (LOG_FILE s) (ENVIRONMENT s) t = Inr r)"
    by (auto simp: lifespan_def split: sum.split)
  then show ?thesis using accepted_levels by simp
qed

lemma default_starts: "\<exists>p. lifespan (default_settings k u) t disconnect serve pool = Inr p"
  by (simp add: service_starts default_settings_def)

end
