(* ===== verification/Digest_Schedule.thy ===== *)
theory Digest_Schedule
  imports Application
begin

text \<open>
  The digests and their schedule together: which badge alerts a daily digest and a weekly report ever count.  The jobs start at
  20:00 and count what exists by then of the day, or of the week up to Sunday; the times are those of a worker that
  runs in UTC, as the jobs compute their periods in UTC.
\<close>

section \<open>Days and weeks\<close>

lemma day_us_day: "day = day_us" "day_us = 86400000000"
  by (simp_all add: day_def day_us_def)

lemma job_time: "time_of_day (cron_jobs ! 0) = 72000123456" "time_of_day (cron_jobs ! 1) = 72000123456"
  "cj_weekday (cron_jobs ! 0) = None" "cj_weekday (cron_jobs ! 1) = Some 6"
  by (simp_all add: cron_jobs_def time_of_day_def)

lemma midnight_of: "0 \<le> r \<Longrightarrow> r < day_us \<Longrightarrow> midnight (q * day_us + r) = q * day_us"
  by (simp add: midnight_def days_of_def day_us_day)

lemma split_time: obtains q r where "t = q * day_us + r" "0 \<le> r" "r < day_us" "t div day_us = q" "t mod day_us = r"
proof
  show "t = (t div day_us) * day_us + t mod day_us" "0 \<le> t mod day_us" "t mod day_us < day_us" by (simp_all add: day_us_day)
qed simp_all

section \<open>What is counted\<close>

text \<open>The periods of the two jobs at an instant.\<close>

definition daily_period :: "time \<Rightarrow> time \<times> time" where
  "daily_period now = (midnight now, midnight now + day_us)"

definition weekly_period :: "time \<Rightarrow> time \<times> time" where
  "weekly_period now = (midnight now + day_us - 7 * day_us, midnight now + day_us)"

text \<open>A history gives the database at each instant; the alert is counted by a run of the job that starts when it exists.\<close>

definition counted :: "cron_job \<Rightarrow> (time \<Rightarrow> time \<times> time) \<Rightarrow> (time \<Rightarrow> database) \<Rightarrow> notification \<Rightarrow> time \<Rightarrow> bool" where
  "counted j period h n t = (due j t \<and> n_created_at n \<le> t
     \<and> n \<in> set (alerts_between (fst (period t)) (snd (period t)) (n_user_id n) (h t)))"

text \<open>A turn depends on the alerts that existed when the job started only through this period.\<close>

lemma uncounted_turn:
  assumes "due (cron_jobs ! 0) t" "n_created_at n \<le> t" "n \<in> set (notifications d0)"
    "\<not> counted (cron_jobs ! 0) daily_period (\<lambda>_. d0) n t"
  shows "daily_turn t ids (d0\<lparr>notifications := removeAll n (notifications d0)\<rparr>) u d = daily_turn t ids d0 u d"
proof -
  have "\<not> (n_type n = BADGE_CREATION \<and> midnight t \<le> n_created_at n \<and> n_created_at n < midnight t + day_us)"
    using assms by (simp add: counted_def daily_period_def alerts_between_def)
  then have "alerts_between (midnight t) (midnight t + day_us) u (d0\<lparr>notifications := removeAll n (notifications d0)\<rparr>)
      = alerts_between (midnight t) (midnight t + day_us) u d0"
    by (auto simp: alerts_between_def removeAll_filter_not_eq intro: filter_cong)
  then show ?thesis by (simp only: daily_turn_def Let_def)
qed

definition after_job :: "time \<Rightarrow> bool" where
  "after_job t = (time_of_day (cron_jobs ! 0) < t mod day_us)"

definition sunday_of :: "time \<Rightarrow> bool" where
  "sunday_of t = (weekday t = 6)"

lemma counted_daily:
  assumes "n_type n = BADGE_CREATION" "\<forall>t. n_created_at n \<le> t \<longrightarrow> n \<in> set (notifications (h t))"
  shows "(\<exists>t. counted (cron_jobs ! 0) daily_period h n t) \<longleftrightarrow> \<not> after_job (n_created_at n)"
proof -
  obtain q r where c: "n_created_at n = q * day_us + r" "0 \<le> r" "r < day_us" "n_created_at n mod day_us = r"
    using split_time by metis
  show ?thesis
  proof
    assume "\<exists>t. counted (cron_jobs ! 0) daily_period h n t"
    then obtain t where t: "due (cron_jobs ! 0) t" "n_created_at n \<le> t" "midnight t \<le> n_created_at n"
      by (auto simp: counted_def daily_period_def alerts_between_def)
    obtain p where p: "t = p * day_us + 72000123456"
      using t(1) split_time [of t] by (metis due_def day_us_day(1) job_time(1))
    have "midnight t = p * day_us" unfolding p by (rule midnight_of) (simp_all add: day_us_day)
    then have le: "q * 86400000000 + r \<le> p * 86400000000 + 72000123456" "p * 86400000000 \<le> q * 86400000000 + r"
      using t(2,3) c(1) p by (simp_all add: day_us_day)
    have "p \<le> q" "q \<le> p" using le c(2,3) by (simp_all add: day_us_day)
    then have "r \<le> 72000123456" using le(1) by simp
    then show "\<not> after_job (n_created_at n)" using c(4) by (simp add: after_job_def job_time)
  next
    assume "\<not> after_job (n_created_at n)"
    then have r: "r \<le> 72000123456" using c by (simp add: after_job_def job_time)
    let ?t = "q * day_us + 72000123456"
    have "midnight ?t = q * day_us" by (rule midnight_of) (simp_all add: day_us_day)
    moreover have "due (cron_jobs ! 0) ?t" by (simp add: due_def job_time day_us_day)
    ultimately have "counted (cron_jobs ! 0) daily_period h n ?t"
      using assms c r by (simp add: counted_def daily_period_def alerts_between_def)
    then show "\<exists>t. counted (cron_jobs ! 0) daily_period h n t" by blast
  qed
qed

lemma weekday_of: "0 \<le> r \<Longrightarrow> r < day_us \<Longrightarrow> weekday (q * day_us + r) = (q + 3) mod 7"
  by (simp add: weekday_def day_us_day)

lemma counted_weekly:
  assumes "n_type n = BADGE_CREATION" "\<forall>t. n_created_at n \<le> t \<longrightarrow> n \<in> set (notifications (h t))"
  shows "(\<exists>t. counted (cron_jobs ! 1) weekly_period h n t) \<longleftrightarrow> \<not> (sunday_of (n_created_at n) \<and> after_job (n_created_at n))"
proof -
  obtain q r where c: "n_created_at n = q * day_us + r" "0 \<le> r" "r < day_us" "n_created_at n mod day_us = r"
    using split_time by metis
  have w: "sunday_of (n_created_at n) = ((q + 3) mod 7 = 6)" using c weekday_of by (simp add: sunday_of_def)
  show ?thesis
  proof
    assume "\<exists>t. counted (cron_jobs ! 1) weekly_period h n t"
    then obtain t where t: "due (cron_jobs ! 1) t" "n_created_at n \<le> t" "midnight t + day_us - 7 * day_us \<le> n_created_at n"
      by (auto simp: counted_def weekly_period_def alerts_between_def)
    obtain p where p: "t = p * day_us + 72000123456"
      using t(1) split_time [of t] by (metis due_def day_us_day(1) job_time(2))
    have "weekday t = (p + 3) mod 7" unfolding p by (rule weekday_of) (simp_all add: day_us_day)
    then have sunday: "(p + 3) mod 7 = 6" using t(1) unfolding due_def job_time(4) by simp
    have "midnight t = p * day_us" unfolding p by (rule midnight_of) (simp_all add: day_us_day)
    then have le: "q * 86400000000 + r \<le> p * 86400000000 + 72000123456" "(p - 6) * 86400000000 \<le> q * 86400000000 + r"
      using t(2,3) c(1) p by (simp_all add: day_us_day algebra_simps)
    have "p - 6 \<le> q" "q \<le> p" using le c(2,3) by (simp_all add: day_us_day)
    show "\<not> (sunday_of (n_created_at n) \<and> after_job (n_created_at n))"
    proof
      assume late: "sunday_of (n_created_at n) \<and> after_job (n_created_at n)"
      then have "(q + 3) mod 7 = 6" using w by simp
      then have "p = q" using sunday \<open>p - 6 \<le> q\<close> \<open>q \<le> p\<close> by presburger
      then show False using late le(1) c(4) by (simp add: after_job_def job_time)
    qed
  next
    assume early: "\<not> (sunday_of (n_created_at n) \<and> after_job (n_created_at n))"
    define k where "k = 6 - (q + 3) mod 7"
    have k: "0 \<le> k" "k \<le> 6" "(q + k + 3) mod 7 = 6" unfolding k_def by (presburger)+
    let ?t = "(q + k) * day_us + 72000123456"
    have m: "midnight ?t = (q + k) * day_us" by (rule midnight_of) (simp_all add: day_us_day)
    have "weekday ?t = (q + k + 3) mod 7" by (rule weekday_of) (simp_all add: day_us_day)
    then have "?t mod day = 72000123456" unfolding day_us_day(1) mod_mult_self3 by (simp add: day_us_day)
    with \<open>weekday ?t = _\<close> have due: "due (cron_jobs ! 1) ?t" using k(3) unfolding due_def job_time by simp
    have "r \<le> 72000123456" if "k = 0" using early w c(4) that by (simp add: k_def after_job_def job_time)
    then have "n_created_at n \<le> ?t" using c k(1) by (cases "k = 0") (simp_all add: day_us_day algebra_simps)
    then have "counted (cron_jobs ! 1) weekly_period h n ?t"
      using assms c k(1,2) due m unfolding counted_def by (simp add: weekly_period_def alerts_between_def day_us_day algebra_simps)
    then show "\<exists>t. counted (cron_jobs ! 1) weekly_period h n t" by blast
  qed
qed

end
