(* ===== verification/Spec2Isabelle.thy ===== *)
theory Spec2Isabelle
  imports Account_Facts Stores Badge_Claims Notification_Facts Google_Facts Profile_Facts Schemas Outreach_Facts
    Templates_Admin Middleware Uploads Request_Log Verification Page_Facts Seeder_Facts Api_Facts
    Error_Log Library_Logs Migration_Env Application Interleaving Badge_Interleaving Lockout_Races
    Routing Examples Assembly Digest_Schedule
begin

text \<open>
  A model of the Flare Tag API: organisers sign up, sign in by password or with Google, make badges from
  platform templates and publish them under a share link; participants open the public page; a job sends digests;
  administrators manage the templates; a seeder brings templates and roles in step with their definitions.

  \<^bold>\<open>State.\<close>  \<open>World\<close> has one record per class of \<open>app/models\<close>, the database as a record of tables, and the
  \<open>world\<close>: the database, the state of Redis, the mails handed to the SMTP server and the calls made to
  Cloudinary.  A write is checked as the database checks it: widths of text, unique columns, foreign keys.
  \<open>Integrity\<close> has the writes through the ORM, the cascades, and the invariant \<open>db_wf\<close> of the database; its
  lemmas say which change of a table keeps it, and every operation is proved to keep it in its own theory.

  \<^bold>\<open>Outside the repository\<close> and so parameters: Redis, JWT signing, bcrypt, SHA-256, PostgreSQL's reading of a
  UUID, SMTP, Cloudinary, the mail templates on disk (fields of the environment \<open>env\<close>, \<open>World\<close>), Google's
  endpoints (\<open>google_api\<close>), the check of an e-mail address (\<open>email_check\<close>) and the collation of the database.
  What the code relies on is stated as the locales of \<open>Token\<close> and \<open>Laws\<close>: \<open>redis_contract\<close>,
  \<open>token_stores\<close>, \<open>one_time_store\<close>, \<open>jwt_contract\<close>, \<open>password_contract\<close>, \<open>sound_env\<close>.  They are
  interpreted on a concrete environment, \<open>demo_env\<close>, which the witnesses use.  What is drawn at random (ids, tokens,
  salts, slugs) is an argument of the operation that draws it; a theorem needs it to be fresh only where it says so.

  \<^bold>\<open>Components.\<close>
  \<^item> \<open>Prelude\<close>: tables as lists, text functions of Python, UUIDs; \<open>Calendar\<close>: dates; \<open>Web\<close>: URL encoding.
  \<^item> \<open>Config\<close> (\<open>app/core/config.py\<close>), \<open>Errors\<close> (\<open>app/core/exceptions\<close>), \<open>Token\<close>, \<open>Security\<close>
    (\<open>token.py\<close>, \<open>security.py\<close>, \<open>ip.py\<close>, \<open>slug.py\<close>), \<open>Sanitizer\<close> (\<open>sanitizer.py\<close>), \<open>Email\<close>
    (\<open>app/services/email.py\<close> and the templates' renderer).
  \<^item> \<open>Auth\<close>, \<open>Google\<close> (\<open>app/services/auth.py\<close>), \<open>Access\<close> (\<open>app/dependencies.py\<close>), \<open>Profile\<close>
    (\<open>profile.py\<close>), \<open>Badges\<close> (\<open>badge.py\<close>, \<open>cloudinary.py\<close>), \<open>Notifications\<close> (\<open>notification.py\<close>,
    \<open>digest_jobs.py\<close>), \<open>Outreach\<close> (\<open>newsletter.py\<close>, \<open>contact.py\<close>), \<open>Templates_Admin\<close> (\<open>admin.py\<close>).
  \<^item> \<open>Schemas\<close> and \<open>Responses\<close>: the request and response models of \<open>app/schemas\<close>.
  \<^item> \<open>Middleware\<close>, \<open>Request_Log\<close> (\<open>app/core/middleware\<close>), \<open>Uploads\<close> (the reading of uploaded files).
  \<^item> \<open>Http\<close>: requests, responses, cookies, the gates of a route; \<open>Auth_Routes\<close>, \<open>Badge_Routes\<close>,
    \<open>Site_Routes\<close>: all 50 handlers of \<open>app/routers/v1\<close>; \<open>Api\<close>: one constructor per route, the dispatch
    \<open>api\<close>, and \<open>api_step\<close>, a step of the whole service: a request, a digest job or a seeding run.
  \<^item> \<open>Open_Api\<close>: the routes as their decorators declare them (method, path, status, response model, limit, gate,
    documented responses and examples), the inclusion of the routers, and the URL of a call; \<open>Wire\<close>: the bodies of
    the responses as JSON.
  \<^item> \<open>Seed_Data\<close>, \<open>Seeder\<close>: \<open>app/db/seed\<close>.
  \<^item> \<open>Rate_Limits\<close>: the limits on the routes (\<open>rate_limit.py\<close> and the decorators), around \<open>api\<close>;
    \<open>Application\<close>: the root route and the schedule of the jobs (\<open>main.py\<close>, \<open>notification_worker.py\<close>);
    \<open>Digest_Schedule\<close>: exactly which badge alerts a daily digest and a weekly report ever count;
    \<open>Assembly\<close>: the layers that \<open>main.py\<close> puts around the routes, and what they make of an answer or an exception.
  \<^item> \<open>Error_Log\<close>: what the exception handler logs; \<open>Log_Format\<close>: \<open>app/core/logging\<close>, the context of a
    request, the formats and the sinks; \<open>Library_Logs\<close>: the loggers of the libraries, which it takes over.
  \<^item> \<open>Ddl\<close>: database schemas and the operations of a migration script; \<open>Schema_History\<close>: the scripts of
    \<open>alembic/versions\<close> and the tables that \<open>app/models\<close> declares; \<open>Migration_Env\<close>: \<open>alembic/env.py\<close>, the URL in
    the configuration and the migrations that are pending.

  \<^bold>\<open>What is proved.\<close>
  \<^item> \<open>Sessions\<close> states sessions abstractly: the moves \<open>token_step\<close> (open, rotate, revoke, drop) on the refresh
    tokens, with their invariants.  Each service refines it; \<open>Session_Facts\<close> and \<open>Account_Facts\<close> draw the
    consequences for refresh, reuse, log-out, lockout, sign-up and password reset; \<open>Verification\<close> follows an
    account from its mail to its first session; \<open>Google_Facts\<close> treats the sign-in with Google.
  \<^item> \<open>Stores\<close>: what the Redis stores promise under every interleaving of commands.
  \<^item> \<open>Badge_Facts\<close>, \<open>Badge_Claims\<close>, \<open>Page_Facts\<close>: ownership, the life of a badge and of its share link,
    editing, copying, counting, the gallery, and the access code of a private page.
  \<^item> \<open>Notification_Facts\<close>, \<open>Profile_Facts\<close>, \<open>Outreach_Facts\<close>, \<open>Templates_Admin\<close>, \<open>Seeder_Facts\<close>: the
    effects of these services, what deletions cascade to and what they leave alone, and that seeding is idempotent
    where titles are unique.
  \<^item> \<open>Middleware\<close>, \<open>Uploads\<close>, \<open>Request_Log\<close>: size limits, termination of the read loop for any file, even
    an endless one, and redaction.
  \<^item> \<open>Api_Facts\<close>: \<open>refines\<close> is what a step owes: it keeps \<open>db_wf\<close> and moves the sessions as the abstract
    machine does.  Every service and every handler owes it, so any run of the whole service does; and the gates keep
    out who has no right to a route.
  \<^item> \<open>Interleaving\<close>: \<open>refresh_session\<close> as a read and a write with anything in between, also other refreshes and
    whole requests (\<open>mixed_step\<close>); a closed family stays closed under every interleaving, and the two races that the
    unprotected read allows.
  \<^item> \<open>Badge_Interleaving\<close>: the changes of a badge as a read and a commit that writes the changed columns, with requests and
    other commits in between: share links and deletions survive every interleaving, first publications and
    replaced hashtags do not.  \<open>Lockout_Races\<close>: a sign in as its check and the rest: how many passwords can be tried in
    a window, and that the bound is reached.
  \<^item> \<open>Rate_Facts\<close>: over the contract \<open>fixed_window\<close> of the counters, what a client gets through in a minute; a run of
    the limited service is a run of the service.
  \<^item> \<open>Routing\<close>: over the contract \<open>path_matching\<close> of Starlette, every call reaches its own handler; \<open>Answers\<close>:
    every answer is one the decorators document, up to the statuses listed there; \<open>Examples\<close>: the documented
    examples have the shape of the bodies that are sent, but for four that are out of date.
  \<^item> \<open>Migrations\<close>: the scripts build the tables of the models whatever rows change in between, downgrades undo upgrades, and one script leaves
    rows that the models cannot read.

  \<^bold>\<open>Time and fuel.\<close>  Time is an integer of microseconds.  The counters of badges and templates are unbounded, where the
  columns have 32 bits: the error of an increment beyond that is left out.  Days are those of UTC, also where a
  statement takes the day of the week in the time zone of the database session.  Every recursion is
  shown to terminate; the only fuel is the number of migrations in \<open>migrations_after\<close>, which follows at most all of them.

  \<^bold>\<open>Choices.\<close>  Requests are handled one after the other, but for the refreshes of \<open>Interleaving\<close>, the changes of
  \<open>Badge_Interleaving\<close>, the sign ins of \<open>Lockout_Races\<close> and the commands to
  Redis in \<open>Stores\<close>; where the code guards against a concurrent commit the operation takes it as an argument
  (\<open>race\<close>).  A background task runs at once, after its handler.  FastAPI resolves
  the account of a request before it validates the body, so a missing token comes before a malformed body.  A request
  is modelled after the parsing of JSON and of the path into typed values, a response as the JSON value of its
  body; the sentence Pydantic wraps around the text of a validation error is left out.

  \<^bold>\<open>Not modelled\<close>, because it has no logic of its own or belongs to libraries: the counters of slowapi (a
  contract), the headers of the CORS middleware (a contract) and its answers to preflights, the engine and
  client factories of \<open>app/db\<close>, and the tests.
\<close>

end
